(* ===== verification/Prelude.thy ===== *)
theory Prelude
  imports Main "HOL-Library.AList" "HOL-Library.List_Lexorder" "HOL-Library.Char_ord"
    "HOL-Library.Sublist" "HOL-Library.Multiset"
begin

text \<open>
  Shared vocabulary of the development: Go values as HOL values, errors with their text
  and wrapping, Go maps as association lists, sorting by a comparison, and the binary search
  of the standard library's \<open>sort.Search\<close>, each with the lemmas the components use.
\<close>

section \<open>Collections of facts\<close>

named_theorems go_simps \<open>unfolding rules for the Go-level helpers\<close>
named_theorems model_defs \<open>definitions of the component operations\<close>

section \<open>Integers of fixed width\<close>

text \<open>
  Go's \<open>int32\<close> and \<open>int64\<close> are read as \<open>int\<close>; the operations that may leave the range
  wrap explicitly. \<open>time.Duration\<close> is an \<open>int64\<close> number of nanoseconds; \<open>time.Time\<close> is
  the number of nanoseconds since Go's zero time, so that \<open>IsZero\<close> is \<open>t = 0\<close>.
\<close>

type_synonym time = int
type_synonym duration = int

definition wrap32 :: "int \<Rightarrow> int" where
  "wrap32 x = (x + 2 ^ 31) mod 2 ^ 32 - 2 ^ 31"

definition wrap64 :: "int \<Rightarrow> int" where
  "wrap64 x = (x + 2 ^ 63) mod 2 ^ 64 - 2 ^ 63"

definition in_int32 :: "int \<Rightarrow> bool" where
  "in_int32 x \<longleftrightarrow> - (2 ^ 31) \<le> x \<and> x < 2 ^ 31"

definition in_int64 :: "int \<Rightarrow> bool" where
  "in_int64 x \<longleftrightarrow> - (2 ^ 63) \<le> x \<and> x < 2 ^ 63"

lemma wrap32_id [simp]: "in_int32 x \<Longrightarrow> wrap32 x = x"
  by (simp add: wrap32_def in_int32_def)

lemma wrap64_id [simp]: "in_int64 x \<Longrightarrow> wrap64 x = x"
  by (simp add: wrap64_def in_int64_def)

lemma in_int32_wrap32 [simp]: "in_int32 (wrap32 x)"
proof -
  have "0 \<le> (x + 2 ^ 31) mod 2 ^ 32" and "(x + 2 ^ 31) mod 2 ^ 32 < (2::int) ^ 32" by simp_all
  then show ?thesis by (simp add: in_int32_def wrap32_def)
qed

lemma in_int64_wrap64 [simp]: "in_int64 (wrap64 x)"
proof -
  have "0 \<le> (x + 2 ^ 63) mod 2 ^ 64" and "(x + 2 ^ 63) mod 2 ^ 64 < (2::int) ^ 64" by simp_all
  then show ?thesis by (simp add: in_int64_def wrap64_def)
qed

text \<open>Go's integer division truncates towards zero.\<close>

definition go_div :: "int \<Rightarrow> int \<Rightarrow> int" where
  "go_div a b = sgn a * sgn b * (\<bar>a\<bar> div \<bar>b\<bar>)"

definition go_mod :: "int \<Rightarrow> int \<Rightarrow> int" where
  "go_mod a b = a - b * go_div a b"

lemma go_div_nonneg [simp]: "0 \<le> a \<Longrightarrow> 0 < b \<Longrightarrow> go_div a b = a div b"
  by (cases "a = 0") (simp_all add: go_div_def)

text \<open>\<open>t.Sub(u)\<close> saturates at the limits of \<open>int64\<close>; \<open>t.Add(d)\<close> is exact.\<close>

definition time_sub :: "time \<Rightarrow> time \<Rightarrow> duration" where
  "time_sub t u = max (- (2 ^ 63)) (min (2 ^ 63 - 1) (t - u))"

abbreviation (input) time_add :: "time \<Rightarrow> duration \<Rightarrow> time" where
  "time_add t d \<equiv> t + d"

lemma time_sub_id [simp]: "in_int64 (t - u) \<Longrightarrow> time_sub t u = t - u"
  by (auto simp: time_sub_def in_int64_def)

lemma time_sub_neg_iff [simp]: "time_sub t u < 0 \<longleftrightarrow> t < u"
  by (auto simp: time_sub_def)

lemma in_int64_time_sub [simp]: "in_int64 (time_sub t u)"
  by (auto simp: time_sub_def in_int64_def)

abbreviation (input) nanosecond :: duration where "nanosecond \<equiv> 1"
abbreviation (input) microsecond :: duration where "microsecond \<equiv> 1000"
abbreviation (input) millisecond :: duration where "millisecond \<equiv> 1000000"
abbreviation (input) second :: duration where "second \<equiv> 1000000000"
abbreviation (input) minute :: duration where "minute \<equiv> 60000000000"
abbreviation (input) hour :: duration where "hour \<equiv> 3600000000000"

section \<open>Errors\<close>

text \<open>
  A Go error is its text and the chain of errors it wraps: \<open>fmt.Errorf("a %w b", err)\<close> is
  \<open>Wrap ''a '' err '' b''\<close>. The sentinels the code tests with \<open>errors.Is\<close> or
  \<open>client.IgnoreNotFound\<close> or the predicates of \<open>apierrors\<close> are constructors of their own.
\<close>

datatype go_error =
    Err string
  | ErrUnknownAction
  | ErrEmptyPayload
  | ErrEOF
  | ErrMaxBytes
  | ErrNotFound string
  | ErrForbidden string
  | ErrTooManyRequests string
  | Wrap string go_error string

fun err_text :: "go_error \<Rightarrow> string" where
  "err_text (Err m) = m"
| "err_text ErrUnknownAction = ''unknown action''"
| "err_text ErrEmptyPayload = ''empty payload''"
| "err_text ErrEOF = ''EOF''"
| "err_text ErrMaxBytes = ''http: request body too large''"
| "err_text (ErrNotFound m) = m"
| "err_text (ErrForbidden m) = m"
| "err_text (ErrTooManyRequests m) = m"
| "err_text (Wrap a e b) = a @ err_text e @ b"

fun err_root :: "go_error \<Rightarrow> go_error" where
  "err_root (Wrap a e b) = err_root e"
| "err_root e = e"

definition errors_is :: "go_error \<Rightarrow> go_error \<Rightarrow> bool" where
  "errors_is e sentinel \<longleftrightarrow> err_root e = sentinel"

fun is_not_found :: "go_error \<Rightarrow> bool" where
  "is_not_found (ErrNotFound m) = True"
| "is_not_found (Wrap a e b) = is_not_found e"
| "is_not_found _ = False"

fun is_forbidden :: "go_error \<Rightarrow> bool" where
  "is_forbidden (ErrForbidden m) = True"
| "is_forbidden (Wrap a e b) = is_forbidden e"
| "is_forbidden _ = False"

fun is_too_many_requests :: "go_error \<Rightarrow> bool" where
  "is_too_many_requests (ErrTooManyRequests m) = True"
| "is_too_many_requests (Wrap a e b) = is_too_many_requests e"
| "is_too_many_requests _ = False"

lemma errors_is_Wrap [simp]: "errors_is (Wrap a e b) s = errors_is e s"
  by (simp add: errors_is_def)

section \<open>Go maps\<close>

text \<open>
  A Go map is an association list without duplicate keys. The order of the list stands for
  one iteration order of the map; where the code ranges over a map, a result that does not
  depend on that order is proved to be invariant under permutations of the list.
  A missing key reads as the zero value.
\<close>

type_synonym smap = "(string \<times> string) list"

definition map_get :: "smap \<Rightarrow> string \<Rightarrow> string" where
  "map_get m k = (case map_of m k of None \<Rightarrow> '''' | Some v \<Rightarrow> v)"

abbreviation map_wf :: "('k \<times> 'v) list \<Rightarrow> bool" where
  "map_wf m \<equiv> distinct (map fst m)"

definition map_put :: "'k \<Rightarrow> 'v \<Rightarrow> ('k \<times> 'v) list \<Rightarrow> ('k \<times> 'v) list" where
  "map_put k v m = AList.update k v m"

lemma map_of_map_put [simp]: "map_of (map_put k v m) = (map_of m)(k \<mapsto> v)"
  by (simp add: map_put_def update_conv')

lemma map_wf_map_put [simp]: "map_wf m \<Longrightarrow> map_wf (map_put k v m)"
  by (simp add: map_put_def distinct_update)

lemma map_get_map_put: "map_get (map_put k v m) k' = (if k' = k then v else map_get m k')"
  by (simp add: map_get_def)

lemma map_of_permutation:
  assumes "mset m = mset m'" and "map_wf m"
  shows "map_of m = map_of m'"
proof -
  from assms have "map_wf m'"
    by (metis mset_eq_imp_distinct_iff mset_map)
  with assms show ?thesis
    by (metis map_of_inject_set mset_eq_setD)
qed

lemma map_get_permutation: "mset m = mset m' \<Longrightarrow> map_wf m \<Longrightarrow> map_get m k = map_get m' k"
  using map_of_permutation [of m m'] by (simp add: map_get_def)

section \<open>Sorting by a comparison\<close>

text \<open>
  \<open>sort.Slice\<close> and \<open>sort.SliceStable\<close> with a \<open>less\<close> function. The stable insertion sort is
  one order the unstable \<open>sort.Slice\<close> may also give.
\<close>

fun insert_by :: "('a \<Rightarrow> 'a \<Rightarrow> bool) \<Rightarrow> 'a \<Rightarrow> 'a list \<Rightarrow> 'a list" where
  "insert_by lt x [] = [x]"
| "insert_by lt x (y # ys) = (if lt y x then y # insert_by lt x ys else x # y # ys)"

definition sort_slice :: "('a \<Rightarrow> 'a \<Rightarrow> bool) \<Rightarrow> 'a list \<Rightarrow> 'a list" where
  "sort_slice lt xs = foldr (insert_by lt) xs []"

lemma mset_insert_by [simp]: "mset (insert_by lt x ys) = add_mset x (mset ys)"
  by (induction ys) auto

lemma set_insert_by [simp]: "set (insert_by lt x ys) = insert x (set ys)"
  by (metis mset_insert_by set_mset_add_mset_insert set_mset_mset)

lemma mset_sort_slice [simp]: "mset (sort_slice lt xs) = mset xs"
  by (induction xs) (auto simp: sort_slice_def)

lemma set_sort_slice [simp]: "set (sort_slice lt xs) = set xs"
  by (metis mset_sort_slice set_mset_mset)

lemma length_sort_slice [simp]: "length (sort_slice lt xs) = length xs"
  by (metis mset_sort_slice size_mset)

lemma sort_slice_Nil [simp]: "sort_slice lt [] = []"
  and sort_slice_Cons: "sort_slice lt (x # xs) = insert_by lt x (sort_slice lt xs)"
  by (simp_all add: sort_slice_def)

text \<open>A comparison usable for sorting: irreflexive, transitive, incomparability transitive.\<close>

definition strict_weak :: "('a \<Rightarrow> 'a \<Rightarrow> bool) \<Rightarrow> bool" where
  "strict_weak lt \<longleftrightarrow> (\<forall>x. \<not> lt x x)
     \<and> (\<forall>x y z. \<not> lt y x \<longrightarrow> \<not> lt z y \<longrightarrow> \<not> lt z x)
     \<and> (\<forall>x y. lt x y \<longrightarrow> \<not> lt y x)"

lemma strict_weak_trans: "strict_weak lt \<Longrightarrow> \<not> lt y x \<Longrightarrow> \<not> lt z y \<Longrightarrow> \<not> lt z x"
  unfolding strict_weak_def by metis

lemma strict_weak_asym: "strict_weak lt \<Longrightarrow> lt x y \<Longrightarrow> \<not> lt y x"
  unfolding strict_weak_def by metis

lemma sorted_insert_by:
  assumes "strict_weak lt" and "sorted_wrt (\<lambda>a b. \<not> lt b a) ys"
  shows "sorted_wrt (\<lambda>a b. \<not> lt b a) (insert_by lt x ys)"
  using assms(2)
proof (induction ys)
  case (Cons y ys)
  then have tl: "\<forall>z \<in> set ys. \<not> lt z y" and IH: "sorted_wrt (\<lambda>a b. \<not> lt b a) (insert_by lt x ys)"
    by simp_all
  show ?case
  proof (cases "lt y x")
    case True
    with tl IH show ?thesis by (simp add: strict_weak_asym [OF assms(1)])
  next
    case False
    with tl Cons.prems show ?thesis
      using strict_weak_trans [OF assms(1)] by auto
  qed
qed simp

lemma sorted_sort_slice:
  "strict_weak lt \<Longrightarrow> sorted_wrt (\<lambda>a b. \<not> lt b a) (sort_slice lt xs)"
  by (induction xs) (simp_all add: sort_slice_Cons sorted_insert_by)

end
