(* ===== verification/GoLib.thy ===== *)
theory GoLib
  imports Prelude
begin

text \<open>
  What the source uses of Go's standard library: decimal and quoted formatting
  (\<open>strconv.Itoa\<close>, the \<open>%q\<close> verb), \<open>strings.TrimSpace\<close>, \<open>ToLower\<close>, \<open>Cut\<close>, \<open>Split\<close> and
  \<open>Join\<close>, \<open>time.Duration.String\<close> and \<open>Round\<close>, and \<open>sort.Search\<close>. Strings are lists of
  bytes; \<open>ToLower\<close> and \<open>TrimSpace\<close> treat the ASCII range, as do the quoted forms, which keep
  every byte above it.
\<close>

section \<open>Decimal numbers\<close>

definition digit_char :: "nat \<Rightarrow> char" where
  "digit_char d = char_of (48 + d)"

fun nat_str :: "nat \<Rightarrow> string" where
  "nat_str n = (if n < 10 then [digit_char n] else nat_str (n div 10) @ [digit_char (n mod 10)])"

declare nat_str.simps [simp del]

definition itoa :: "int \<Rightarrow> string" where
  "itoa i = (if i < 0 then CHR ''-'' # nat_str (nat (- i)) else nat_str (nat i))"

definition digit_val :: "char \<Rightarrow> nat" where
  "digit_val c = of_char c - 48"

definition is_digit :: "char \<Rightarrow> bool" where
  "is_digit c \<longleftrightarrow> 48 \<le> (of_char c :: nat) \<and> (of_char c :: nat) \<le> 57"

definition str_nat :: "string \<Rightarrow> nat" where
  "str_nat s = foldl (\<lambda>n c. 10 * n + digit_val c) 0 s"

lemma of_char_digit_char [simp]: "d < 10 \<Longrightarrow> of_char (digit_char d) = 48 + d"
  by (simp add: digit_char_def of_char_of)

lemma digit_val_digit_char [simp]: "d < 10 \<Longrightarrow> digit_val (digit_char d) = d"
  by (simp add: digit_val_def)

lemma is_digit_digit_char [simp]: "d < 10 \<Longrightarrow> is_digit (digit_char d)"
  by (simp add: is_digit_def)

lemma nat_str_digits: "c \<in> set (nat_str n) \<Longrightarrow> is_digit c"
proof (induction n rule: nat_str.induct)
  case (1 n)
  then show ?case by (subst (asm) (2) nat_str.simps) (auto split: if_splits)
qed

lemma nat_str_nonempty [simp]: "nat_str n \<noteq> []"
  by (subst nat_str.simps) simp

lemma str_nat_nat_str [simp]: "str_nat (nat_str n) = n"
proof (induction n rule: nat_str.induct)
  case (1 n)
  then show ?case
    by (subst nat_str.simps) (auto simp: str_nat_def)
qed

lemma nat_str_inject [simp]: "nat_str m = nat_str n \<longleftrightarrow> m = n"
  by (metis str_nat_nat_str)

section \<open>Strings\<close>

definition lower_char :: "char \<Rightarrow> char" where
  "lower_char c = (let n = (of_char c :: nat) in if 65 \<le> n \<and> n \<le> 90 then char_of (n + 32) else c)"

definition to_lower :: "string \<Rightarrow> string" where
  "to_lower s = map lower_char s"

definition is_space :: "char \<Rightarrow> bool" where
  "is_space c \<longleftrightarrow> (of_char c :: nat) \<in> {9, 10, 11, 12, 13, 32}"

definition trim_space :: "string \<Rightarrow> string" where
  "trim_space s = rev (dropWhile is_space (rev (dropWhile is_space s)))"

text \<open>\<open>strings.Split(s, sep)\<close> for a one-byte separator: never empty, \<open>[s]\<close> without separator.\<close>

fun split_on :: "char \<Rightarrow> string \<Rightarrow> string list" where
  "split_on sep [] = [[]]"
| "split_on sep (c # cs) =
     (if c = sep then [] # split_on sep cs
      else case split_on sep cs of [] \<Rightarrow> [[c]] | p # ps \<Rightarrow> (c # p) # ps)"

text \<open>\<open>strings.Cut(s, sep)\<close>: the text before and after the first separator, and whether there is one.\<close>

fun str_cut :: "char \<Rightarrow> string \<Rightarrow> string \<times> string \<times> bool" where
  "str_cut sep [] = ([], [], False)"
| "str_cut sep (c # cs) =
     (if c = sep then ([], cs, True)
      else case str_cut sep cs of (b, a, found) \<Rightarrow> if found then (c # b, a, True) else (c # cs, [], False))"

fun join :: "string \<Rightarrow> string list \<Rightarrow> string" where
  "join sep [] = []"
| "join sep [x] = x"
| "join sep (x # y # ys) = x @ sep @ join sep (y # ys)"

lemma lower_char_idem [simp]: "lower_char (lower_char c) = lower_char c"
  by (auto simp: lower_char_def Let_def of_char_of)

lemma to_lower_idem [simp]: "to_lower (to_lower s) = to_lower s"
  by (simp add: to_lower_def)

lemma to_lower_Nil_iff [simp]: "to_lower s = [] \<longleftrightarrow> s = []"
  by (simp add: to_lower_def)

lemma to_lower_Nil [simp]: "to_lower [] = []"
  by (simp add: to_lower_def)

lemma lower_char_eq_slash [simp]: "lower_char c = CHR ''/'' \<longleftrightarrow> c = CHR ''/''"
proof
  assume "lower_char c = CHR ''/''"
  then have "of_char (lower_char c) = (47 :: nat)" by simp
  then have "of_char c = (47 :: nat)"
    by (auto simp: lower_char_def Let_def of_char_of split: if_splits)
  also have "\<dots> = of_char (CHR ''/'')" by simp
  finally show "c = CHR ''/''" by (simp only: of_char_eq_iff)
qed (simp add: lower_char_def)

lemma to_lower_no_slash [simp]: "CHR ''/'' \<in> set (to_lower s) \<longleftrightarrow> CHR ''/'' \<in> set s"
  by (induction s) (auto simp: to_lower_def eq_commute [of "CHR ''/''" "lower_char _"])

lemma split_on_nonempty [simp]: "split_on sep s \<noteq> []"
  by (cases s) (auto split: list.splits)

lemma split_on_no_sep: "sep \<notin> set s \<Longrightarrow> split_on sep s = [s]"
  by (induction s) auto

lemma split_on_append: "sep \<notin> set s \<Longrightarrow> split_on sep (s @ sep # t) = s # split_on sep t"
  by (induction s) auto

lemma split_on_parts: "p \<in> set (split_on sep s) \<Longrightarrow> sep \<notin> set p"
proof (induction s arbitrary: p)
  case (Cons c s)
  then show ?case by (cases "split_on sep s") (auto split: if_splits)
qed simp

lemma join_split_on: "join [sep] (split_on sep s) = s"
proof (induction s)
  case (Cons c s)
  obtain p ps where "split_on sep s = p # ps" by (cases "split_on sep s") auto
  with Cons show ?case by (cases ps) auto
qed simp

section \<open>Quoting\<close>

definition hex_char :: "nat \<Rightarrow> char" where
  "hex_char d = (if d < 10 then char_of (48 + d) else char_of (87 + d))"

definition quote_char :: "char \<Rightarrow> string" where
  "quote_char c =
     (let n = (of_char c :: nat) in
      if n = 34 then [char_of (92::nat), c]
      else if n = 92 then [c, c]
      else if n = 7 then [char_of (92::nat), CHR ''a'']
      else if n = 8 then [char_of (92::nat), CHR ''b'']
      else if n = 12 then [char_of (92::nat), CHR ''f'']
      else if n = 10 then [char_of (92::nat), CHR ''n'']
      else if n = 13 then [char_of (92::nat), CHR ''r'']
      else if n = 9 then [char_of (92::nat), CHR ''t'']
      else if n = 11 then [char_of (92::nat), CHR ''v'']
      else if n < 32 \<or> n = 127
      then [char_of (92::nat), CHR ''x'', hex_char (n div 16), hex_char (n mod 16)]
      else [c])"

definition quote :: "string \<Rightarrow> string" where
  "quote s = char_of (34::nat) # concat (map quote_char s) @ [char_of (34::nat)]"

section \<open>Durations\<close>

fun pad_digits :: "nat \<Rightarrow> nat \<Rightarrow> string" where
  "pad_digits 0 n = []"
| "pad_digits (Suc k) n = pad_digits k (n div 10) @ [digit_char (n mod 10)]"

text \<open>\<open>fmtFrac\<close>: the last \<open>prec\<close> decimal digits as a fraction without trailing zeros, and the rest.\<close>

definition fmt_frac :: "nat \<Rightarrow> nat \<Rightarrow> string \<times> nat" where
  "fmt_frac v prec =
     (let ds = rev (dropWhile (\<lambda>c. c = CHR ''0'') (rev (pad_digits prec (v mod 10 ^ prec))))
      in (if ds = [] then [] else CHR ''.'' # ds, v div 10 ^ prec))"

definition dur_abs_str :: "nat \<Rightarrow> string" where
  "dur_abs_str u =
     (if u = 0 then ''0s''
      else if u < 1000 then nat_str u @ ''ns''
      else if u < 1000000 then
        (let (f, w) = fmt_frac u 3 in nat_str w @ f @ [char_of (194::nat), char_of (181::nat), CHR ''s''])
      else if u < 1000000000 then (let (f, w) = fmt_frac u 6 in nat_str w @ f @ ''ms'')
      else
        (let (f, secs) = fmt_frac u 9;
             s = nat_str (secs mod 60) @ f @ ''s'';
             mins = secs div 60;
             m = nat_str (mins mod 60) @ ''m'' @ s;
             hours = mins div 60
         in if mins = 0 then s else if hours = 0 then m else nat_str hours @ ''h'' @ m))"

definition dur_str :: "duration \<Rightarrow> string" where
  "dur_str d = (if d < 0 then CHR ''-'' # dur_abs_str (nat (- d)) else dur_abs_str (nat d))"

text \<open>\<open>d.Round(m)\<close>: to the nearest multiple, halves away from zero, saturating.\<close>

definition dur_round :: "duration \<Rightarrow> duration \<Rightarrow> duration" where
  "dur_round d m =
     (if m \<le> 0 then d
      else let r = go_mod d m in
        if d < 0
        then (let r = - r in
              if 2 * r < m then d + r
              else (let d1 = d - m + r in if - (2 ^ 63) \<le> d1 then d1 else - (2 ^ 63)))
        else (if 2 * r < m then d - r
              else (let d1 = d + m - r in if d1 < 2 ^ 63 then d1 else 2 ^ 63 - 1)))"

section \<open>Binary search\<close>

text \<open>
  \<open>sort.Search(n, f)\<close>: the least \<open>i\<close> in \<open>[0, n)\<close> with \<open>f i\<close>, or \<open>n\<close>, for an \<open>f\<close> that is
  false up to some index and true from there on.
\<close>

function search_loop :: "(nat \<Rightarrow> bool) \<Rightarrow> nat \<Rightarrow> nat \<Rightarrow> nat" where
  "search_loop f i j =
     (if i < j then
        (let h = (i + j) div 2 in if \<not> f h then search_loop f (h + 1) j else search_loop f i h)
      else i)"
  by pat_completeness auto
termination
  by (relation "measure (\<lambda>(f, i, j). j - i)") auto

declare search_loop.simps [simp del]

definition sort_search :: "nat \<Rightarrow> (nat \<Rightarrow> bool) \<Rightarrow> nat" where
  "sort_search n f = search_loop f 0 n"

lemma search_loop_correct:
  assumes mono: "\<And>k l. k \<le> l \<Longrightarrow> l < n \<Longrightarrow> f k \<Longrightarrow> f l"
  shows "i \<le> j \<Longrightarrow> j \<le> n \<Longrightarrow> (\<And>k. k < i \<Longrightarrow> \<not> f k) \<Longrightarrow> (\<And>k. j \<le> k \<Longrightarrow> k < n \<Longrightarrow> f k) \<Longrightarrow>
    search_loop f i j \<le> n \<and> (\<forall>k < search_loop f i j. \<not> f k)
      \<and> (\<forall>k. search_loop f i j \<le> k \<and> k < n \<longrightarrow> f k)"
proof (induction f\<equiv>f i j rule: search_loop.induct)
  case (1 i j)
  show ?case
  proof (cases "i < j")
    case True
    define h where "h = (i + j) div 2"
    have h: "i \<le> h" "h < j" "h < n" using True \<open>j \<le> n\<close> by (auto simp: h_def)
    show ?thesis
    proof (cases "f h")
      case False
      have low: "\<not> f k" if "k < h + 1" for k
        using mono [of k h] that h(3) False by auto
      have eq: "search_loop f i j = search_loop f (h + 1) j"
        using True False by (simp add: search_loop.simps [of f i j] h_def)
      show ?thesis unfolding eq
        using "1.hyps"(1) [OF True h_def False] h low "1.prems" by simp
    next
      case fh: True
      have high: "f k" if "h \<le> k" "k < n" for k
        using mono [of h k] that fh by simp
      have eq: "search_loop f i j = search_loop f i h"
        using True fh by (simp add: search_loop.simps [of f i j] h_def)
      show ?thesis unfolding eq
        using "1.hyps"(2) [OF True h_def] fh h high "1.prems" by simp
    qed
  next
    case False
    then have "search_loop f i j = i" by (simp add: search_loop.simps [of f i j])
    with False "1.prems" show ?thesis by auto
  qed
qed

lemma sort_search_correct:
  assumes "\<forall>k l. k \<le> l \<longrightarrow> l < n \<longrightarrow> f k \<longrightarrow> f l"
  shows "sort_search n f \<le> n" and "\<forall>i < sort_search n f. \<not> f i"
    and "\<forall>i. sort_search n f \<le> i \<and> i < n \<longrightarrow> f i"
proof -
  have "search_loop f 0 n \<le> n \<and> (\<forall>k < search_loop f 0 n. \<not> f k)
      \<and> (\<forall>k. search_loop f 0 n \<le> k \<and> k < n \<longrightarrow> f k)"
    by (rule search_loop_correct) (use assms in auto)
  then show "sort_search n f \<le> n" and "\<forall>i < sort_search n f. \<not> f i"
    and "\<forall>i. sort_search n f \<le> i \<and> i < n \<longrightarrow> f i" by (simp_all add: sort_search_def)
qed

end
