(* ===== verification/Types.thy ===== *)
theory Types
  imports GoLib
begin

text \<open>
  The API types of \<open>api/v1alpha1\<close>: the two custom resources, their specs and statuses, and the
  closed sets of strings they use. An enum that is a Go string type has one constructor per
  declared constant and one more, \<open>\<dots>Other\<close>, for any other string, the empty one included: it
  is what an object from etcd may carry before a default was applied. A pointer field is an
  \<open>option\<close>; a \<open>metav1.Duration\<close> or \<open>metav1.Time\<close> is its value.
\<close>

section \<open>Enumerations\<close>

datatype remediation_state =
    RemediationStatePending
  | RemediationStateRunning
  | RemediationStateSucceeded
  | RemediationStateFailed
  | RemediationStateSimulated
  | RemediationStateAwaitingApproval
  | RemediationStateOther string

fun state_string :: "remediation_state \<Rightarrow> string" where
  "state_string RemediationStatePending = ''Pending''"
| "state_string RemediationStateRunning = ''Running''"
| "state_string RemediationStateSucceeded = ''Succeeded''"
| "state_string RemediationStateFailed = ''Failed''"
| "state_string RemediationStateSimulated = ''Simulated''"
| "state_string RemediationStateAwaitingApproval = ''AwaitingApproval''"
| "state_string (RemediationStateOther s) = s"

fun IsTerminal :: "remediation_state \<Rightarrow> bool" where
  "IsTerminal RemediationStateSucceeded = True"
| "IsTerminal RemediationStateFailed = True"
| "IsTerminal RemediationStateSimulated = True"
| "IsTerminal RemediationStatePending = False"
| "IsTerminal RemediationStateRunning = False"
| "IsTerminal RemediationStateAwaitingApproval = False"
| "IsTerminal (RemediationStateOther s) = False"

datatype step_phase =
    StepPhasePending
  | StepPhaseRunning
  | StepPhaseSucceeded
  | StepPhaseFailed
  | StepPhaseSkipped
  | StepPhaseSimulated
  | StepPhaseOther string

fun phase_string :: "step_phase \<Rightarrow> string" where
  "phase_string StepPhasePending = ''Pending''"
| "phase_string StepPhaseRunning = ''Running''"
| "phase_string StepPhaseSucceeded = ''Succeeded''"
| "phase_string StepPhaseFailed = ''Failed''"
| "phase_string StepPhaseSkipped = ''Skipped''"
| "phase_string StepPhaseSimulated = ''Simulated''"
| "phase_string (StepPhaseOther s) = s"

datatype execution_mode =
    ExecutionModeAuto
  | ExecutionModeApproval
  | ExecutionModeManual
  | ExecutionModeOther string

datatype escalation_mode =
    EscalationModeAll
  | EscalationModeFirstSuccess
  | EscalationModeOther string

datatype approval_decision =
    ApprovalApprove
  | ApprovalDeny
  | ApprovalDecisionOther string

text \<open>The failure reasons are plain strings in the source and stay so here.\<close>

definition ReasonInterrupted :: string where "ReasonInterrupted = ''Interrupted''"
definition ReasonStepFailed :: string where "ReasonStepFailed = ''StepFailed''"
definition ReasonGaveUp :: string where "ReasonGaveUp = ''GaveUp''"
definition ReasonApprovalTimeout :: string where "ReasonApprovalTimeout = ''ApprovalTimeout''"
definition ReasonDenied :: string where "ReasonDenied = ''Denied''"
definition ReasonUnknownAction :: string where "ReasonUnknownAction = ''UnknownAction''"

lemmas reason_defs = ReasonInterrupted_def ReasonStepFailed_def ReasonGaveUp_def
  ReasonApprovalTimeout_def ReasonDenied_def ReasonUnknownAction_def

definition LabelStrategy :: string where "LabelStrategy = ''remedik.dev/strategy''"
definition LabelFingerprint :: string where "LabelFingerprint = ''remedik.dev/fingerprint''"
definition LabelGaveUp :: string where "LabelGaveUp = ''remedik.dev/gave-up''"
definition LabelPaused :: string where "LabelPaused = ''remedik.dev/paused''"
definition AnnotationPauseReason :: string where
  "AnnotationPauseReason = ''remedik.dev/pause-reason''"
definition AnnotationGaveUpReason :: string where
  "AnnotationGaveUpReason = ''remedik.dev/gave-up-reason''"

lemmas label_defs = LabelStrategy_def LabelFingerprint_def LabelGaveUp_def LabelPaused_def
  AnnotationPauseReason_def AnnotationGaveUpReason_def

definition DefaultApprovalTimeout :: duration where
  "DefaultApprovalTimeout = 15 * minute"

section \<open>Object metadata\<close>

record object_meta =
  Name :: string
  GenerateName :: string
  Namespace :: string
  Labels :: smap
  Annotations :: smap
  CreationTimestamp :: time
  Generation :: int

section \<open>RemediationStrategy\<close>

record step =
  Action :: string
  With :: smap

record trigger =
  Match :: smap

record execution =
  ExecMode :: execution_mode
  ApprovalTimeout :: "duration option"

record give_up_after =
  GUCount :: int
  GUWithin :: duration

record blast_radius_spec =
  BRMinAvailable :: int
  BRMaxUnavailablePercent :: int

record guards_spec =
  GCooldown :: "duration option"
  GMaxPerHour :: int
  GBlastRadius :: "blast_radius_spec option"
  GGiveUpAfter :: "give_up_after option"

record on_failure =
  OFRetries :: int
  OFSteps :: "step list"
  OFMode :: escalation_mode

record strategy_spec =
  Enabled :: "bool option"
  Trigger :: trigger
  Execution :: execution
  Guards :: guards_spec
  StrategySteps :: "step list"
  OnFailure :: on_failure

record condition =
  CondType :: string
  CondStatus :: bool
  CondObservedGeneration :: int
  CondLastTransitionTime :: time
  CondReason :: string
  CondMessage :: string

record strategy_status =
  Conditions :: "condition list"
  LastExecutionTime :: "time option"
  ExecutionCount :: int
  ObservedGeneration :: int

record strategy =
  StrategyMeta :: object_meta
  StrategySpec :: strategy_spec
  StrategyStatus :: strategy_status

definition IsEnabled :: "strategy \<Rightarrow> bool" where
  "IsEnabled s = (case Enabled (StrategySpec s) of None \<Rightarrow> True | Some b \<Rightarrow> b)"

section \<open>Remediation\<close>

record alert_ref =
  RefFingerprint :: string
  RefName :: string
  RefLabels :: smap
  RefStartsAt :: "time option"

record approval =
  Decision :: approval_decision
  By :: string
  Note :: string

record remediation_spec =
  StrategyName :: string
  SpecTarget :: string
  SpecAlert :: alert_ref
  SpecSteps :: "step list"
  Retries :: int
  EscalationSteps :: "step list"
  EscalationMode :: escalation_mode
  SpecMode :: execution_mode
  ApprovalDeadline :: "time option"
  Approval :: "approval option"
  DryRun :: bool

record step_status =
  Index :: int
  StepAction :: string
  StepTarget :: string
  Phase :: step_phase
  Plan :: string
  Kubectl :: string
  Outputs :: smap
  Verified :: string
  StepMessage :: string
  StepStartedAt :: "time option"
  StepCompletedAt :: "time option"

text \<open>The zero value of the struct, which composite literals start from.\<close>

definition zero_step_status :: step_status where
  "zero_step_status = \<lparr>Index = 0, StepAction = '''', StepTarget = '''', Phase = StepPhaseOther '''',
     Plan = '''', Kubectl = '''', Outputs = [], Verified = '''', StepMessage = '''',
     StepStartedAt = None, StepCompletedAt = None\<rparr>"

record escalation_status =
  EscPhase :: step_phase
  EscSteps :: "step_status list"
  EscMessage :: string
  EscCompletedAt :: "time option"

record remediation_status =
  State :: remediation_state
  Attempt :: int
  StatusSteps :: "step_status list"
  Reason :: string
  Message :: string
  StartedAt :: "time option"
  CompletedAt :: "time option"
  Escalation :: "escalation_status option"

record remediation =
  Meta :: object_meta
  Spec :: remediation_spec
  Status :: remediation_status

definition zero_status :: remediation_status where
  "zero_status = \<lparr>State = RemediationStateOther '''', Attempt = 0, StatusSteps = [], Reason = '''',
     Message = '''', StartedAt = None, CompletedAt = None, Escalation = None\<rparr>"

abbreviation rem_name :: "remediation \<Rightarrow> string" where "rem_name r \<equiv> Name (Meta r)"
abbreviation rem_state :: "remediation \<Rightarrow> remediation_state" where "rem_state r \<equiv> State (Status r)"
abbreviation strat_name :: "strategy \<Rightarrow> string" where "strat_name s \<equiv> Name (StrategyMeta s)"

lemma not_terminal_states:
  "\<not> IsTerminal s \<longleftrightarrow> s = RemediationStatePending \<or> s = RemediationStateRunning
     \<or> s = RemediationStateAwaitingApproval \<or> (\<exists>x. s = RemediationStateOther x)"
  by (cases s) auto

lemma terminal_states:
  "IsTerminal s \<longleftrightarrow> s = RemediationStateSucceeded \<or> s = RemediationStateFailed
     \<or> s = RemediationStateSimulated"
  by (cases s) auto

end
