(* ===== verification/Action.thy ===== *)
theory Action
  imports Types
begin

text \<open>
  \<open>internal/action\<close>: targets and their textual form, parameters, results and requests, the
  action contract as a record of its methods over a world \<open>'w\<close>, and the registry. A context is
  the list of the timeouts set on it, innermost first; \<open>time.ParseDuration\<close> is a parameter.
\<close>

section \<open>Targets\<close>

record target =
  TKind :: string
  TNamespace :: string
  TName :: string

definition zero_target :: target where
  "zero_target = \<lparr>TKind = '''', TNamespace = '''', TName = ''''\<rparr>"

definition target_IsZero :: "target \<Rightarrow> bool" where
  "target_IsZero t \<longleftrightarrow> TKind t = '''' \<and> TNamespace t = '''' \<and> TName t = ''''"

definition target_string :: "target \<Rightarrow> string" where
  "target_string t =
     (if target_IsZero t then ''''
      else let kind = to_lower (TKind t) in
        if TNamespace t = '''' then kind @ ''/'' @ TName t
        else kind @ ''/'' @ TNamespace t @ ''/'' @ TName t)"

definition ParseTarget :: "string \<Rightarrow> go_error + target" where
  "ParseTarget s =
     (case split_on (CHR ''/'') s of
        [k, n] \<Rightarrow>
          if k = '''' \<or> n = '''' then Inl (Err (''malformed target '' @ quote s))
          else Inr \<lparr>TKind = k, TNamespace = '''', TName = n\<rparr>
      | [k, ns, n] \<Rightarrow>
          if k = '''' \<or> ns = '''' \<or> n = '''' then Inl (Err (''malformed target '' @ quote s))
          else Inr \<lparr>TKind = k, TNamespace = ns, TName = n\<rparr>
      | _ \<Rightarrow> Inl (Err (''malformed target '' @ quote s @ '': want kind/name or kind/namespace/name'')))"

definition target_wf :: "target \<Rightarrow> bool" where
  "target_wf t \<longleftrightarrow> TKind t \<noteq> '''' \<and> TName t \<noteq> '''' \<and> CHR ''/'' \<notin> set (TKind t)
     \<and> CHR ''/'' \<notin> set (TNamespace t) \<and> CHR ''/'' \<notin> set (TName t)"

lemma target_string_zero [simp]: "target_string zero_target = ''''"
  by (simp add: target_string_def target_IsZero_def zero_target_def)

lemma target_string_nonempty: "target_string t = '''' \<longleftrightarrow> target_IsZero t"
  by (simp add: target_string_def Let_def)

lemma ParseTarget_target_string:
  assumes "target_wf t"
  shows "ParseTarget (target_string t) = Inr (t\<lparr>TKind := to_lower (TKind t)\<rparr>)"
proof -
  from assms have nz: "\<not> target_IsZero t"
    and k: "CHR ''/'' \<notin> set (to_lower (TKind t))" "to_lower (TKind t) \<noteq> ''''"
    and ns: "CHR ''/'' \<notin> set (TNamespace t)" and n: "CHR ''/'' \<notin> set (TName t)" "TName t \<noteq> ''''"
    by (auto simp: target_wf_def target_IsZero_def)
  show ?thesis
  proof (cases "TNamespace t = ''''")
    case True
    then have "split_on (CHR ''/'') (target_string t) = [to_lower (TKind t), TName t]"
      using nz k n by (simp add: target_string_def split_on_append split_on_no_sep)
    then show ?thesis using True k n by (simp add: ParseTarget_def)
  next
    case False
    then have "split_on (CHR ''/'') (target_string t) = [to_lower (TKind t), TNamespace t, TName t]"
      using nz k n ns by (simp add: target_string_def split_on_append split_on_no_sep)
    then show ?thesis using False k n by (simp add: ParseTarget_def)
  qed
qed

lemma ParseTarget_wf:
  assumes "ParseTarget s = Inr t"
  shows "target_wf t" and "s = join ''/'' (if TNamespace t = '''' then [TKind t, TName t]
    else [TKind t, TNamespace t, TName t])"
proof -
  obtain ps where ps: "split_on (CHR ''/'') s = ps" by blast
  have parts: "p \<in> set ps \<Longrightarrow> CHR ''/'' \<notin> set p" for p using split_on_parts ps by blast
  have s: "s = join ''/'' ps" using join_split_on [of "CHR ''/''" s] ps by simp
  from assms ps consider k n where "ps = [k, n]" "k \<noteq> ''''" "n \<noteq> ''''" "t = \<lparr>TKind = k, TNamespace = '''', TName = n\<rparr>"
    | k ns n where "ps = [k, ns, n]" "k \<noteq> ''''" "ns \<noteq> ''''" "n \<noteq> ''''" "t = \<lparr>TKind = k, TNamespace = ns, TName = n\<rparr>"
    by (auto simp: ParseTarget_def split: list.splits if_splits)
  then show "target_wf t" and "s = join ''/'' (if TNamespace t = '''' then [TKind t, TName t]
    else [TKind t, TNamespace t, TName t])"
    using parts s by (cases; simp add: target_wf_def)+
qed

section \<open>Parameters, results, requests\<close>

type_synonym params = smap

definition params_Get :: "params \<Rightarrow> string \<Rightarrow> string \<Rightarrow> string" where
  "params_Get p key fallback =
     (case map_of p key of Some v \<Rightarrow> if v \<noteq> '''' then v else fallback | None \<Rightarrow> fallback)"

type_synonym parse_duration = "string \<Rightarrow> go_error + duration"

definition params_Duration ::
  "parse_duration \<Rightarrow> params \<Rightarrow> string \<Rightarrow> duration \<Rightarrow> go_error + duration" where
  "params_Duration pd p key fallback =
     (let raw = params_Get p key '''' in
      if raw = '''' then Inr fallback
      else case pd raw of
        Inl e \<Rightarrow> Inl (Wrap (''parameter '' @ quote key @ '': '') e
                  ('' (want a Go duration such as '' @ quote ''90s'' @ '' or '' @ quote ''2m'' @ '')''))
      | Inr d \<Rightarrow>
          if d \<le> 0 then Inl (Err (''parameter '' @ quote key @ '': '' @ raw @ '' is not a positive duration''))
          else Inr d)"

record result =
  Summary :: string
  ResultKubectl :: string
  ResultOutputs :: smap

definition zero_result :: result where
  "zero_result = \<lparr>Summary = '''', ResultKubectl = '''', ResultOutputs = []\<rparr>"

definition result_Output :: "string \<Rightarrow> string \<Rightarrow> result \<Rightarrow> result" where
  "result_Output key value r = r\<lparr>ResultOutputs := map_put key value (ResultOutputs r)\<rparr>"

record request =
  ReqTarget :: target
  ReqParams :: params
  ReqLabels :: smap
  ReqRemediation :: string
  ReqStrategy :: string
  ReqNamespace :: string
  ReqDryRun :: bool

section \<open>The action contract\<close>

type_synonym ctx = "duration list"

text \<open>
  \<open>ActVerify\<close> is \<open>None\<close> for an action that is not a \<open>Verifier\<close>. \<open>ActType\<close> is what \<open>%T\<close> prints.
\<close>

record 'w action =
  ActName :: string
  ActType :: string
  ActResolve :: "smap \<Rightarrow> params \<Rightarrow> go_error + target"
  ActPlan :: "ctx \<Rightarrow> request \<Rightarrow> 'w \<Rightarrow> result \<times> go_error option \<times> 'w"
  ActExecute :: "ctx \<Rightarrow> request \<Rightarrow> 'w \<Rightarrow> result \<times> go_error option \<times> 'w"
  ActVerify :: "(ctx \<Rightarrow> request \<Rightarrow> result \<Rightarrow> 'w \<Rightarrow> result \<times> go_error option \<times> 'w) option"

definition VerifyTimeoutParam :: string where "VerifyTimeoutParam = ''verifyTimeout''"
definition DefaultVerifyTimeout :: duration where "DefaultVerifyTimeout = 60 * second"
definition MaxVerifyTimeout :: duration where "MaxVerifyTimeout = 10 * minute"

definition WithVerifyDeadline :: "ctx \<Rightarrow> ctx" where
  "WithVerifyDeadline c = (if c \<noteq> [] then c else DefaultVerifyTimeout # c)"

definition VerifyTimeout :: "parse_duration \<Rightarrow> params \<Rightarrow> go_error + duration" where
  "VerifyTimeout pd params =
     (case params_Duration pd params VerifyTimeoutParam DefaultVerifyTimeout of
        Inl e \<Rightarrow> Inl e
      | Inr d \<Rightarrow>
          if d > MaxVerifyTimeout
          then Inl (Err (''parameter '' @ quote VerifyTimeoutParam @ '': '' @ dur_str d
                 @ '' exceeds the maximum of '' @ dur_str MaxVerifyTimeout))
          else Inr d)"

lemma VerifyTimeout_bounds: "VerifyTimeout pd p = Inr d \<Longrightarrow> 0 < d \<and> d \<le> MaxVerifyTimeout"
  by (auto simp: VerifyTimeout_def params_Duration_def Let_def DefaultVerifyTimeout_def
      MaxVerifyTimeout_def split: sum.splits if_splits)

section \<open>The registry\<close>

type_synonym 'w registry = "(string \<times> 'w action) list"

fun register_all :: "'w action list \<Rightarrow> 'w registry \<Rightarrow> go_error + 'w registry" where
  "register_all [] r = Inr r"
| "register_all (a # as) r =
     (let name = ActName a in
      if name = '''' then Inl (Err (''action '' @ ActType a @ '' has an empty name''))
      else case map_of r name of
        Some existing \<Rightarrow> Inl (Err (''duplicate action '' @ quote name @ '' registered by ''
            @ ActType existing @ '' and '' @ ActType a))
      | None \<Rightarrow> register_all as (map_put name a r))"

definition NewRegistry :: "'w action list \<Rightarrow> go_error + 'w registry" where
  "NewRegistry actions = register_all actions []"

definition Names :: "'w registry \<Rightarrow> string list" where
  "Names r = sort (map fst r)"

definition available :: "'w registry \<Rightarrow> string" where
  "available r =
     (if length r = 0 then ''no actions are enabled in this build''
      else ''enabled actions: '' @ join '', '' (Names r))"

definition registry_Get :: "'w registry \<Rightarrow> string \<Rightarrow> go_error + 'w action" where
  "registry_Get r name =
     (case map_of r name of Some a \<Rightarrow> Inr a
      | None \<Rightarrow> Inl (Wrap '''' ErrUnknownAction ('' '' @ quote name @ '' ('' @ available r @ '')'')))"

definition Has :: "'w registry \<Rightarrow> string \<Rightarrow> bool" where
  "Has r name \<longleftrightarrow> map_of r name \<noteq> None"

definition registry_Len :: "'w registry \<Rightarrow> nat" where
  "registry_Len r = length r"

fun validate_names_from :: "nat \<Rightarrow> 'w registry \<Rightarrow> string list \<Rightarrow> go_error option" where
  "validate_names_from i r [] = None"
| "validate_names_from i r (name # names) =
     (if \<not> Has r name
      then Some (Wrap (''step '' @ itoa (int i + 1) @ '': '') ErrUnknownAction
             ('' '' @ quote name @ '' ('' @ available r @ '')''))
      else validate_names_from (Suc i) r names)"

definition ValidateNames :: "'w registry \<Rightarrow> string list \<Rightarrow> go_error option" where
  "ValidateNames r names = validate_names_from 0 r names"

lemma registry_Get_unknown: "registry_Get r name = Inl e \<Longrightarrow> errors_is e ErrUnknownAction \<and> \<not> Has r name"
  by (auto simp: registry_Get_def Has_def errors_is_def split: option.splits)

lemma registry_Get_Inr: "registry_Get r name = Inr a \<longleftrightarrow> map_of r name = Some a"
  by (auto simp: registry_Get_def split: option.splits)

definition registry_wf :: "'w registry \<Rightarrow> bool" where
  "registry_wf r \<longleftrightarrow> map_wf r \<and> (\<forall>(n, a) \<in> set r. ActName a = n \<and> n \<noteq> '''')"

lemma map_put_new: "map_of m k = None \<Longrightarrow> map_put k v m = m @ [(k, v)]"
  by (induction m) (auto simp: map_put_def split: if_splits)

lemma register_all_eq:
  "register_all as r = Inr r' \<Longrightarrow> r' = r @ map (\<lambda>a. (ActName a, a)) as
     \<and> distinct (map ActName as) \<and> (\<forall>a \<in> set as. ActName a \<noteq> '''' \<and> map_of r (ActName a) = None)"
proof (induction as arbitrary: r)
  case (Cons a as)
  then have a: "ActName a \<noteq> ''''" "map_of r (ActName a) = None"
    and rest: "register_all as (map_put (ActName a) a r) = Inr r'"
    by (auto simp: Let_def split: if_splits option.splits)
  from Cons.IH [OF rest] a show ?case
    by (auto simp: map_put_new map_add_def split: option.splits if_splits)
qed simp

lemma register_all_Inr:
  "(\<forall>a \<in> set as. ActName a \<noteq> '''' \<and> map_of r (ActName a) = None) \<Longrightarrow> distinct (map ActName as)
    \<Longrightarrow> \<exists>r'. register_all as r = Inr r'"
proof (induction as arbitrary: r)
  case (Cons a as)
  from Cons.prems have "\<forall>b \<in> set as. ActName b \<noteq> '''' \<and> map_of (map_put (ActName a) a r) (ActName b) = None"
    by (simp add: image_iff) metis
  from Cons.IH [OF this] Cons.prems show ?case by (auto simp: Let_def)
qed simp

lemma ValidateNames_None_iff: "ValidateNames r names = None \<longleftrightarrow> (\<forall>n \<in> set names. Has r n)"
proof -
  have "validate_names_from i r names = None \<longleftrightarrow> (\<forall>n \<in> set names. Has r n)" for i
    by (induction names arbitrary: i) auto
  then show ?thesis by (simp add: ValidateNames_def)
qed

lemma ValidateNames_Some:
  "ValidateNames r names = Some e \<Longrightarrow> errors_is e ErrUnknownAction"
proof -
  have "validate_names_from i r names = Some e \<Longrightarrow> errors_is e ErrUnknownAction" for i
    by (induction names arbitrary: i) (auto simp: errors_is_def split: if_splits)
  then show "ValidateNames r names = Some e \<Longrightarrow> errors_is e ErrUnknownAction"
    by (auto simp: ValidateNames_def)
qed

end
