(* ===== verification/Guards.thy ===== *)
theory Guards
  imports Types
begin

text \<open>
  \<open>internal/guards\<close> (\<open>guards.go\<close>): the three time-based guards and the order they are applied in.
  The \<open>History\<close> interface is a record of the operations the evaluator calls; the locale
  \<open>guard_history\<close> states what a provider promises about them in terms of the multisets of
  recorded instants, and derives what that makes the evaluator decide.
\<close>

definition GuardCooldown :: string where "GuardCooldown = ''cooldown''"
definition GuardGiveUp :: string where "GuardGiveUp = ''giveUpAfter''"
definition GuardMaxPerHour :: string where "GuardMaxPerHour = ''maxPerHour''"

definition rateWindow :: duration where "rateWindow = hour"

lemmas guard_names = GuardCooldown_def GuardGiveUp_def GuardMaxPerHour_def

record give_up =
  GiveUpCount :: int
  GiveUpWithin :: duration

record guard_cfg =
  Cooldown :: duration
  MaxPerHour :: int
  GiveUpAfter :: give_up

record history_ops =
  LastCompletion :: "string \<Rightarrow> string \<Rightarrow> time option"
  StartsSince :: "string \<Rightarrow> time \<Rightarrow> int"
  CompletionsSince :: "string \<Rightarrow> string \<Rightarrow> time \<Rightarrow> int"

record decision =
  Allowed :: bool
  Guard :: string
  DecisionReason :: string
  RetryAfter :: duration

definition allowed :: decision where
  "allowed = \<lparr>Allowed = True, Guard = '''', DecisionReason = '''', RetryAfter = 0\<rparr>"

definition refused :: "string \<Rightarrow> string \<Rightarrow> duration \<Rightarrow> decision" where
  "refused g why wait = \<lparr>Allowed = False, Guard = g, DecisionReason = why, RetryAfter = wait\<rparr>"

definition decision_string :: "decision \<Rightarrow> string" where
  "decision_string d =
     (if Allowed d then ''allowed'' else ''rejected by '' @ Guard d @ '': '' @ DecisionReason d)"

definition evaluateCooldown ::
  "guard_cfg \<Rightarrow> history_ops option \<Rightarrow> string \<Rightarrow> string \<Rightarrow> time \<Rightarrow> decision" where
  "evaluateCooldown cfg h strat target now =
     (case h of None \<Rightarrow> allowed | Some h \<Rightarrow>
      if Cooldown cfg \<le> 0 then allowed
      else case LastCompletion h strat target of None \<Rightarrow> allowed
      | Some latest \<Rightarrow>
          (let elapsed = time_sub now latest in
           if elapsed \<ge> Cooldown cfg then allowed
           else (let elapsed = (if elapsed < 0 then 0 else elapsed) in
             refused GuardCooldown
               (strat @ '' completed on '' @ target @ '' '' @ dur_str (dur_round elapsed second)
                 @ '' ago, cooldown is '' @ dur_str (Cooldown cfg))
               (wrap64 (Cooldown cfg - elapsed)))))"

definition evaluateRate ::
  "guard_cfg \<Rightarrow> history_ops option \<Rightarrow> string \<Rightarrow> time \<Rightarrow> decision" where
  "evaluateRate cfg h strat now =
     (case h of None \<Rightarrow> allowed | Some h \<Rightarrow>
      if MaxPerHour cfg \<le> 0 then allowed
      else (let started = StartsSince h strat (time_add now (- rateWindow)) in
        if started < MaxPerHour cfg then allowed
        else refused GuardMaxPerHour
          (strat @ '' started '' @ itoa started @ '' executions in the last hour, limit is ''
            @ itoa (MaxPerHour cfg)) 0))"

definition evaluateGiveUp ::
  "guard_cfg \<Rightarrow> history_ops option \<Rightarrow> string \<Rightarrow> string \<Rightarrow> time \<Rightarrow> decision" where
  "evaluateGiveUp cfg h strat target now =
     (case h of None \<Rightarrow> allowed | Some h \<Rightarrow>
      if GiveUpCount (GiveUpAfter cfg) \<le> 0 \<or> GiveUpWithin (GiveUpAfter cfg) \<le> 0 then allowed
      else (let dn = CompletionsSince h strat target
                         (time_add now (wrap64 (- GiveUpWithin (GiveUpAfter cfg)))) in
        if dn < GiveUpCount (GiveUpAfter cfg) then allowed
        else refused GuardGiveUp
          (strat @ '' has remediated '' @ target @ '' '' @ itoa dn @ '' times in the last ''
            @ dur_str (GiveUpWithin (GiveUpAfter cfg))
            @ '' and the problem keeps coming back; remediation is not fixing this and it needs a person'')
          0))"

definition Evaluate ::
  "guard_cfg \<Rightarrow> history_ops option \<Rightarrow> string \<Rightarrow> string \<Rightarrow> time \<Rightarrow> decision" where
  "Evaluate cfg h strat target now =
     (let d = evaluateCooldown cfg h strat target now in
      if \<not> Allowed d then d
      else (let d = evaluateRate cfg h strat now in
        if \<not> Allowed d then d
        else evaluateGiveUp cfg h strat target now))"

lemmas guard_eval_defs = evaluateCooldown_def evaluateRate_def evaluateGiveUp_def Evaluate_def

lemma Allowed_simps [simp]: "Allowed allowed" "\<not> Allowed (refused g w r)"
  "Guard (refused g w r) = g" "Guard allowed = ''''"
  by (simp_all add: allowed_def refused_def)

lemma evaluateCooldown_Allowed:
  "Allowed (evaluateCooldown cfg (Some h) s t now) \<longleftrightarrow>
     Cooldown cfg \<le> 0 \<or> (case LastCompletion h s t of None \<Rightarrow> True
       | Some latest \<Rightarrow> Cooldown cfg \<le> time_sub now latest)"
  by (simp add: evaluateCooldown_def Let_def split: option.splits)

lemma evaluateRate_Allowed:
  "Allowed (evaluateRate cfg (Some h) s now) \<longleftrightarrow>
     MaxPerHour cfg \<le> 0 \<or> StartsSince h s (now - hour) < MaxPerHour cfg"
  by (simp add: evaluateRate_def Let_def rateWindow_def)

lemma evaluateGiveUp_Allowed:
  "Allowed (evaluateGiveUp cfg (Some h) s t now) \<longleftrightarrow>
     GiveUpCount (GiveUpAfter cfg) \<le> 0 \<or> GiveUpWithin (GiveUpAfter cfg) \<le> 0
     \<or> CompletionsSince h s t (time_add now (wrap64 (- GiveUpWithin (GiveUpAfter cfg))))
         < GiveUpCount (GiveUpAfter cfg)"
  by (simp add: evaluateGiveUp_def Let_def)

lemma Evaluate_Allowed:
  "Allowed (Evaluate cfg h s t now) \<longleftrightarrow> Allowed (evaluateCooldown cfg h s t now)
     \<and> Allowed (evaluateRate cfg h s now) \<and> Allowed (evaluateGiveUp cfg h s t now)"
  by (simp add: Evaluate_def Let_def)

lemma evaluate_guard_name:
  "Guard (evaluateCooldown cfg h s t now) = (if Allowed (evaluateCooldown cfg h s t now) then '''' else GuardCooldown)"
  "Guard (evaluateRate cfg h s now) = (if Allowed (evaluateRate cfg h s now) then '''' else GuardMaxPerHour)"
  "Guard (evaluateGiveUp cfg h s t now) = (if Allowed (evaluateGiveUp cfg h s t now) then '''' else GuardGiveUp)"
  by (simp_all add: guard_eval_defs Let_def split: option.splits)

text \<open>Giving up is only ever reported when neither pacing guard would have refused.\<close>

lemma Evaluate_GiveUp_last:
  "Guard (Evaluate cfg h s t now) = GuardGiveUp \<longleftrightarrow>
     Allowed (evaluateCooldown cfg h s t now) \<and> Allowed (evaluateRate cfg h s now)
       \<and> \<not> Allowed (evaluateGiveUp cfg h s t now)"
  by (simp add: Evaluate_def Let_def evaluate_guard_name guard_names)

section \<open>The contract of a history\<close>

text \<open>
  \<open>starts h s\<close> and \<open>completions h s t\<close> are the instants the history holds. \<open>retained h\<close> is the
  set of instants it promises to keep when it is pruned at \<open>now\<close>.
\<close>

locale guard_history =
  fixes invar :: "'h \<Rightarrow> bool"
    and ops :: "'h \<Rightarrow> history_ops"
    and record_start :: "string \<Rightarrow> time \<Rightarrow> 'h \<Rightarrow> 'h"
    and record_completion :: "string \<Rightarrow> string \<Rightarrow> time \<Rightarrow> 'h \<Rightarrow> 'h"
    and prune :: "time \<Rightarrow> 'h \<Rightarrow> 'h"
    and retention :: "'h \<Rightarrow> duration"
    and starts :: "'h \<Rightarrow> string \<Rightarrow> time multiset"
    and completions :: "'h \<Rightarrow> string \<Rightarrow> string \<Rightarrow> time multiset"
  assumes invar_start: "invar h \<Longrightarrow> invar (record_start s x h)"
    and invar_completion: "invar h \<Longrightarrow> invar (record_completion s t x h)"
    and invar_prune: "invar h \<Longrightarrow> invar (prune now h)"
    and starts_start: "invar h \<Longrightarrow>
      starts (record_start s x h) s' = (if s' = s then add_mset x (starts h s') else starts h s')"
    and starts_completion: "invar h \<Longrightarrow> starts (record_completion s t x h) s' = starts h s'"
    and completions_start: "invar h \<Longrightarrow> completions (record_start s x h) s' t' = completions h s' t'"
    and completions_completion: "invar h \<Longrightarrow> completions (record_completion s t x h) s' t' =
      (if s' = s \<and> t' = t then add_mset x (completions h s' t') else completions h s' t')"
    and starts_prune: "invar h \<Longrightarrow>
      starts (prune now h) s = filter_mset (\<lambda>x. now - retention h \<le> x) (starts h s)"
    and completions_prune: "invar h \<Longrightarrow>
      completions (prune now h) s t = filter_mset (\<lambda>x. now - retention h \<le> x) (completions h s t)"
    and StartsSince_eq: "invar h \<Longrightarrow>
      StartsSince (ops h) s since = int (size (filter_mset (\<lambda>x. since \<le> x) (starts h s)))"
    and CompletionsSince_eq: "invar h \<Longrightarrow>
      CompletionsSince (ops h) s t since = int (size (filter_mset (\<lambda>x. since \<le> x) (completions h s t)))"
    and LastCompletion_eq: "invar h \<Longrightarrow>
      LastCompletion (ops h) s t = (if completions h s t = {#} then None else Some (Max_mset (completions h s t)))"
begin

lemma LastCompletion_ge:
  assumes "invar h"
  shows "\<exists>latest. LastCompletion (ops (record_completion s t x h)) s t = Some latest \<and> x \<le> latest"
proof -
  let ?h = "record_completion s t x h"
  have "LastCompletion (ops ?h) s t = Some (Max (set_mset (add_mset x (completions h s t))))"
    using assms by (simp add: LastCompletion_eq invar_completion completions_completion)
  then show ?thesis by simp
qed

lemma cooldown_after_completion:
  assumes "invar h" and "0 < Cooldown cfg" and "now - x < Cooldown cfg" and "in_int64 (now - x)"
  shows "Guard (Evaluate cfg (Some (ops (record_completion s t x h))) s t now) = GuardCooldown"
proof -
  obtain latest where l: "LastCompletion (ops (record_completion s t x h)) s t = Some latest" "x \<le> latest"
    using LastCompletion_ge [OF assms(1)] by blast
  have "time_sub now latest \<le> time_sub now x" using l(2) by (auto simp: time_sub_def)
  then have "time_sub now latest < Cooldown cfg" using assms(3,4) by simp
  then have "\<not> Allowed (evaluateCooldown cfg (Some (ops (record_completion s t x h))) s t now)"
    using l(1) assms(2) by (simp add: evaluateCooldown_Allowed)
  then show ?thesis by (simp add: Evaluate_def Let_def evaluate_guard_name)
qed

lemma other_target_unaffected:
  assumes "invar h" and "t' \<noteq> t"
  shows "evaluateCooldown cfg (Some (ops (record_completion s t x h))) s t' now
           = evaluateCooldown cfg (Some (ops h)) s t' now"
    and "evaluateGiveUp cfg (Some (ops (record_completion s t x h))) s t' now
           = evaluateGiveUp cfg (Some (ops h)) s t' now"
  using assms
  by (simp_all add: evaluateCooldown_def evaluateGiveUp_def LastCompletion_eq CompletionsSince_eq
      invar_completion completions_completion)

text \<open>Pruning never changes an answer that only looks back over less than the retention.\<close>

lemma filter_prune:
  "now - ret \<le> since \<Longrightarrow>
     filter_mset (\<lambda>x. since \<le> x) (filter_mset (\<lambda>x. now - ret \<le> x) M) = filter_mset (\<lambda>x. since \<le> x) (M :: time multiset)"
  by (auto simp: filter_filter_mset intro!: filter_mset_cong)

lemma rate_prune:
  assumes "invar h" and "hour \<le> retention h"
  shows "evaluateRate cfg (Some (ops (prune now h))) s now = evaluateRate cfg (Some (ops h)) s now"
  using assms filter_prune [of now "retention h" "now - hour" "starts h s"]
  by (simp add: evaluateRate_def StartsSince_eq invar_prune starts_prune rateWindow_def)

lemma giveup_prune:
  assumes "invar h" and "GiveUpWithin (GiveUpAfter cfg) \<le> retention h"
    and "in_int64 (- GiveUpWithin (GiveUpAfter cfg))"
  shows "evaluateGiveUp cfg (Some (ops (prune now h))) s t now = evaluateGiveUp cfg (Some (ops h)) s t now"
  using assms filter_prune [of now "retention h" "now - GiveUpWithin (GiveUpAfter cfg)" "completions h s t"]
  by (simp add: evaluateGiveUp_def CompletionsSince_eq invar_prune completions_prune)

lemma cooldown_prune:
  assumes "invar h" and "Cooldown cfg \<le> retention h" and "Cooldown cfg < 2 ^ 63"
  shows "Allowed (evaluateCooldown cfg (Some (ops (prune now h))) s t now) = Allowed (evaluateCooldown cfg (Some (ops h)) s t now)"
proof -
  let ?C = "completions h s t" and ?f = "\<lambda>x. now - retention h \<le> x"
  have p: "completions (prune now h) s t = filter_mset ?f ?C" using assms(1) by (rule completions_prune)
  note L = LastCompletion_eq [OF assms(1), of s t] LastCompletion_eq [OF invar_prune [OF assms(1)], of now s t]
  show ?thesis
  proof (cases "?C = {#}")
    case True
    then show ?thesis using L p by (simp add: evaluateCooldown_Allowed)
  next
    case ne: False
    show ?thesis
    proof (cases "?f (Max_mset ?C)")
      case True
      have max_in: "Max_mset ?C \<in># filter_mset ?f ?C" using True Max_in [of "set_mset ?C"] ne by simp
      have "Max_mset (filter_mset ?f ?C) = Max_mset ?C"
        using max_in by (intro Max_eqI) auto
      moreover have "filter_mset ?f ?C \<noteq> {#}" using max_in by auto
      ultimately have "LastCompletion (ops (prune now h)) s t = Some (Max_mset ?C)"
        unfolding L(2) p by (simp only: if_False)
      then show ?thesis using L(1) ne by (simp add: evaluateCooldown_Allowed)
    next
      case False
      have "\<forall>x. x \<in># ?C \<longrightarrow> \<not> ?f x" using False by (auto simp: not_le intro: le_less_trans Max_ge)
      then have "filter_mset ?f ?C = {#}" by (simp add: multiset_eq_iff not_in_iff) (metis not_in_iff)
      moreover have "Cooldown cfg \<le> time_sub now (Max_mset ?C)"
        using False assms(2,3) by (auto simp: time_sub_def)
      ultimately show ?thesis using L p ne by (simp add: evaluateCooldown_Allowed)
    qed
  qed
qed

lemma cooldown_forgotten:
  assumes "invar h" and "filter_mset (\<lambda>x. now - retention h \<le> x) (completions h s t) = {#}"
  shows "Allowed (evaluateCooldown cfg (Some (ops (prune now h))) s t now)"
  using assms LastCompletion_eq [OF invar_prune [OF assms(1)], of now s t]
  by (simp add: evaluateCooldown_Allowed completions_prune)

end

end
