(* ===== verification/MemoryHistory.thy ===== *)
theory MemoryHistory
  imports Guards
begin

text \<open>
  \<open>internal/guards/memory.go\<close>: the in-memory history, two maps of ascending slices of instants,
  searched by \<open>sort.Search\<close>. It is interpreted as a \<open>guard_history\<close>: the invariant is that every
  slice is sorted, and the abstraction is the multiset of each slice. The mutex makes every
  operation atomic; each is one function here.
\<close>

definition DefaultRetention :: duration where "DefaultRetention = 24 * hour"

type_synonym completion_key = "string \<times> string"

record memory_history =
  Retention :: duration
  Completions :: "(completion_key \<times> time list) list"
  Starts :: "(string \<times> time list) list"

definition NewMemoryHistory :: "duration \<Rightarrow> memory_history" where
  "NewMemoryHistory retention =
     \<lparr>Retention = (if retention \<le> 0 then DefaultRetention else retention), Completions = [], Starts = []\<rparr>"

definition slice_of :: "('k \<times> time list) list \<Rightarrow> 'k \<Rightarrow> time list" where
  "slice_of m k = (case map_of m k of None \<Rightarrow> [] | Some xs \<Rightarrow> xs)"

text \<open>
  \<open>append\<close>, and a sort when the new instant is before the one that was last: the body shared
  by \<open>RecordStart\<close> and \<open>RecordCompletion\<close>.
\<close>

definition append_sorted :: "time list \<Rightarrow> time \<Rightarrow> time list" where
  "append_sorted xs t =
     (let ys = xs @ [t] in
      if length ys > 1 \<and> t < ys ! (length ys - 2) then sort_slice (<) ys else ys)"

definition RecordStart :: "string \<Rightarrow> time \<Rightarrow> memory_history \<Rightarrow> memory_history" where
  "RecordStart strat t h = h\<lparr>Starts := map_put strat (append_sorted (slice_of (Starts h) strat) t) (Starts h)\<rparr>"

definition RecordCompletion :: "string \<Rightarrow> string \<Rightarrow> time \<Rightarrow> memory_history \<Rightarrow> memory_history" where
  "RecordCompletion strat target t h =
     (let key = (strat, target) in
      h\<lparr>Completions := map_put key (append_sorted (slice_of (Completions h) key) t) (Completions h)\<rparr>)"

definition last_completion :: "memory_history \<Rightarrow> string \<Rightarrow> string \<Rightarrow> time option" where
  "last_completion h strat target =
     (let completions = slice_of (Completions h) (strat, target) in
      if length completions = 0 then None else Some (completions ! (length completions - 1)))"

definition completions_since :: "memory_history \<Rightarrow> string \<Rightarrow> string \<Rightarrow> time \<Rightarrow> int" where
  "completions_since h strat target since =
     (let completions = slice_of (Completions h) (strat, target);
          i = sort_search (length completions) (\<lambda>i. \<not> completions ! i < since)
      in int (length completions) - int i)"

definition starts_since :: "memory_history \<Rightarrow> string \<Rightarrow> time \<Rightarrow> int" where
  "starts_since h strat since =
     (let starts = slice_of (Starts h) strat;
          i = sort_search (length starts) (\<lambda>i. \<not> starts ! i < since)
      in int (length starts) - int i)"

text \<open>One entry of the pruning loops: dropped, cut or kept.\<close>

definition prune_slice :: "time \<Rightarrow> time list \<Rightarrow> time list option" where
  "prune_slice cutoff xs =
     (let i = sort_search (length xs) (\<lambda>i. \<not> xs ! i < cutoff) in
      if i = length xs then None
      else if i > 0 then Some (drop i xs)
      else Some xs)"

definition prune_map :: "time \<Rightarrow> ('k \<times> time list) list \<Rightarrow> ('k \<times> time list) list" where
  "prune_map cutoff m = List.map_filter (\<lambda>(k, xs). map_option (Pair k) (prune_slice cutoff xs)) m"

definition pruneLocked :: "time \<Rightarrow> memory_history \<Rightarrow> memory_history" where
  "pruneLocked now h =
     (let cutoff = time_add now (wrap64 (- Retention h)) in
      h\<lparr>Starts := prune_map cutoff (Starts h), Completions := prune_map cutoff (Completions h)\<rparr>)"

definition Prune :: "time \<Rightarrow> memory_history \<Rightarrow> memory_history" where
  "Prune now h = pruneLocked now h"

definition Len :: "memory_history \<Rightarrow> nat \<times> nat" where
  "Len h = (sum_list (map (\<lambda>(k, xs). length xs) (Starts h)),
            sum_list (map (\<lambda>(k, xs). length xs) (Completions h)))"

definition memory_ops :: "memory_history \<Rightarrow> history_ops" where
  "memory_ops h = \<lparr>LastCompletion = last_completion h, StartsSince = starts_since h,
     CompletionsSince = completions_since h\<rparr>"

section \<open>Invariant\<close>

definition slices_sorted :: "('k \<times> time list) list \<Rightarrow> bool" where
  "slices_sorted m \<longleftrightarrow> map_wf m \<and> (\<forall>(k, xs) \<in> set m. sorted xs)"

definition history_inv :: "memory_history \<Rightarrow> bool" where
  "history_inv h \<longleftrightarrow> 0 < Retention h \<and> in_int64 (Retention h)
     \<and> slices_sorted (Starts h) \<and> slices_sorted (Completions h)"

lemma strict_weak_less [simp]: "strict_weak ((<) :: 'a::linorder \<Rightarrow> 'a \<Rightarrow> bool)"
  by (auto simp: strict_weak_def)

lemma sorted_sort_slice_less: "sorted (sort_slice (<) (xs :: 'a::linorder list))"
proof -
  have "sorted_wrt (\<lambda>a b. \<not> b < a) (sort_slice (<) xs)" by (rule sorted_sort_slice) simp
  then show ?thesis by (simp add: not_less)
qed

lemma sorted_append_sorted: "sorted xs \<Longrightarrow> sorted (append_sorted xs t)"
proof (cases "xs = []")
  case False
  assume "sorted xs"
  have last: "(xs @ [t]) ! (length (xs @ [t]) - 2) = last xs"
    using False by (simp add: nth_append last_conv_nth)
  have "x \<le> last xs" if "x \<in> set xs" for x
    using that \<open>sorted xs\<close> by (metis append_butlast_last_id sorted_wrt_append False
        in_set_conv_decomp butlast_snoc last_in_set snoc_eq_iff_butlast list.set_intros(1) UnE set_append
        empty_iff empty_set order_refl set_ConsD)
  with \<open>sorted xs\<close> last False show ?thesis
    by (fastforce simp: append_sorted_def Let_def sorted_sort_slice_less sorted_append)
qed (simp add: append_sorted_def)

lemma mset_append_sorted [simp]: "mset (append_sorted xs t) = add_mset t (mset xs)"
  by (simp add: append_sorted_def Let_def)

lemma slice_of_map_put [simp]: "slice_of (map_put k xs m) k' = (if k' = k then xs else slice_of m k')"
  by (simp add: slice_of_def)

lemma sorted_slice_of: "slices_sorted m \<Longrightarrow> sorted (slice_of m k)"
  by (auto simp: slices_sorted_def slice_of_def split: option.splits dest: map_of_SomeD)

lemma slices_sorted_map_put:
  assumes "slices_sorted m" and "sorted xs"
  shows "slices_sorted (map_put k xs m)"
proof -
  have "(k', ys) \<in> set (map_put k xs m) \<Longrightarrow> sorted ys" for k' ys
  proof -
    assume "(k', ys) \<in> set (map_put k xs m)"
    then have "slice_of (map_put k xs m) k' = ys"
      using assms(1) by (simp add: slice_of_def slices_sorted_def del: map_of_map_put)
    then show "sorted ys" using assms sorted_slice_of [OF assms(1), of k']
      by (simp split: if_splits)
  qed
  with assms(1) show ?thesis by (auto simp: slices_sorted_def)
qed

lemma mono_not_less:
  assumes "sorted (xs :: 'a::linorder list)"
  shows "\<forall>k l. k \<le> l \<longrightarrow> l < length xs \<longrightarrow> \<not> xs ! k < c \<longrightarrow> \<not> xs ! l < c"
  using sorted_nth_mono [OF assms] by (meson not_less order_trans)

lemma sort_search_split:
  assumes "sorted (xs :: 'a::linorder list)"
  shows "take (sort_search (length xs) (\<lambda>i. \<not> xs ! i < c)) xs = filter (\<lambda>x. x < c) xs"
    and "drop (sort_search (length xs) (\<lambda>i. \<not> xs ! i < c)) xs = filter (\<lambda>x. c \<le> x) xs"
proof -
  let ?i = "sort_search (length xs) (\<lambda>i. \<not> xs ! i < c)"
  note s = sort_search_correct [OF mono_not_less [OF assms, of c]]
  have lo: "x < c" if x: "x \<in> set (take ?i xs)" for x
  proof -
    from x obtain k where "k < length (take ?i xs)" and "take ?i xs ! k = x"
      unfolding in_set_conv_nth by blast
    then show ?thesis using s(2) [rule_format, of k] by simp
  qed
  have hi: "\<not> x < c" if x: "x \<in> set (drop ?i xs)" for x
  proof -
    from x obtain k where "k < length (drop ?i xs)" and "drop ?i xs ! k = x"
      unfolding in_set_conv_nth by blast
    then show ?thesis using s(1) s(3) [rule_format, of "?i + k"] by simp
  qed
  have *: "filter P xs = filter P (take ?i xs) @ filter P (drop ?i xs)" for P
    by (metis append_take_drop_id filter_append)
  have "filter (\<lambda>x. x < c) (take ?i xs) = take ?i xs"
    unfolding filter_id_conv using lo by blast
  moreover have "filter (\<lambda>x. x < c) (drop ?i xs) = []"
    unfolding filter_empty_conv using hi by blast
  moreover have "filter (\<lambda>x. c \<le> x) (take ?i xs) = []"
    unfolding filter_empty_conv using lo by (meson not_le)
  moreover have "filter (\<lambda>x. c \<le> x) (drop ?i xs) = drop ?i xs"
    unfolding filter_id_conv using hi by (meson not_le)
  ultimately show "take ?i xs = filter (\<lambda>x. x < c) xs" and "drop ?i xs = filter (\<lambda>x. c \<le> x) xs"
    unfolding * [of "\<lambda>x. x < c"] * [of "\<lambda>x. c \<le> x"] by simp_all
qed

lemma count_since:
  assumes "sorted (xs :: time list)"
  shows "int (length xs) - int (sort_search (length xs) (\<lambda>i. \<not> xs ! i < c))
    = int (size (filter_mset (\<lambda>x. c \<le> x) (mset xs)))"
proof -
  let ?i = "sort_search (length xs) (\<lambda>i. \<not> xs ! i < c)"
  have "?i \<le> length xs" by (rule sort_search_correct(1) [OF mono_not_less [OF assms]])
  then have "int (length xs) - int ?i = int (length (drop ?i xs))" by simp
  also have "\<dots> = int (size (mset (filter (\<lambda>x. c \<le> x) xs)))"
    by (simp only: sort_search_split(2) [OF assms] size_mset)
  finally show ?thesis by simp
qed

lemma prune_slice_eq:
  assumes "sorted (xs :: time list)"
  shows "prune_slice c xs = (let ys = filter (\<lambda>x. c \<le> x) xs in if ys = [] then None else Some ys)"
proof -
  let ?i = "sort_search (length xs) (\<lambda>i. \<not> xs ! i < c)"
  have "?i \<le> length xs" by (rule sort_search_correct(1) [OF mono_not_less [OF assms]])
  then have "?i = length xs \<longleftrightarrow> drop ?i xs = []" by auto
  moreover have "?i = 0 \<Longrightarrow> drop ?i xs = xs" by simp
  ultimately show ?thesis
    unfolding prune_slice_def Let_def sort_search_split(2) [OF assms, symmetric] by auto
qed

lemma fst_set_map_filter:
  "fst ` set (List.map_filter (\<lambda>(k, xs). map_option (Pair k) (g xs)) m) \<subseteq> fst ` set m"
  by (induction m) (auto simp: List.map_filter_simps split: option.splits)

lemma prune_map_Nil [simp]: "prune_map c [] = []"
  and prune_map_Cons: "prune_map c ((k, xs) # m) =
    (case prune_slice c xs of None \<Rightarrow> prune_map c m | Some ys \<Rightarrow> (k, ys) # prune_map c m)"
  by (simp_all add: prune_map_def List.map_filter_def split: option.splits)

lemma map_wf_prune_map:
  assumes "map_wf m"
  shows "map_wf (prune_map c m)"
proof -
  have sub: "fst ` set (prune_map c m) \<subseteq> fst ` set m" for m :: "('a \<times> time list) list"
    unfolding prune_map_def by (rule fst_set_map_filter)
  from assms show ?thesis
  proof (induction m)
    case (Cons p m)
    obtain k xs where "p = (k, xs)" by (cases p)
    with Cons sub [of m] show ?case by (auto simp: prune_map_Cons split: option.splits)
  qed simp
qed

lemma slice_of_prune_map:
  "slices_sorted m \<Longrightarrow> slice_of (prune_map c m) k = filter (\<lambda>x. c \<le> x) (slice_of m k)"
proof (induction m)
  case (Cons p m)
  obtain k' xs where p: "p = (k', xs)" by (cases p)
  with Cons.prems have srt: "sorted xs" and m: "slices_sorted m" and nin: "k' \<notin> fst ` set m"
    by (auto simp: slices_sorted_def)
  have none: "map_of (prune_map c m) k' = None"
    using nin fst_set_map_filter [of "prune_slice c" m] by (auto simp: map_of_eq_None_iff prune_map_def)
  show ?case
    using Cons.IH [OF m] p none prune_slice_eq [OF srt, of c]
    by (auto simp: prune_map_Cons slice_of_def Let_def split: option.splits if_splits)
qed (simp add: slice_of_def)

lemma slices_sorted_prune_map:
  assumes "slices_sorted m"
  shows "slices_sorted (prune_map c m)"
proof -
  have wf: "map_wf (prune_map c m)" using assms by (simp add: slices_sorted_def map_wf_prune_map)
  have "sorted xs" if "(k, xs) \<in> set (prune_map c m)" for k xs
  proof -
    from that wf have "slice_of (prune_map c m) k = xs" by (simp add: slice_of_def)
    then show ?thesis
      using sorted_slice_of [OF assms, of k] slice_of_prune_map [OF assms, of c k]
      by (metis sorted_wrt_filter)
  qed
  with wf show ?thesis by (auto simp: slices_sorted_def)
qed

lemma history_inv_New: "in_int64 r \<Longrightarrow> history_inv (NewMemoryHistory r)"
  by (auto simp: history_inv_def NewMemoryHistory_def slices_sorted_def DefaultRetention_def in_int64_def)

lemma history_inv_RecordStart: "history_inv h \<Longrightarrow> history_inv (RecordStart s t h)"
  by (simp add: history_inv_def RecordStart_def slices_sorted_map_put sorted_append_sorted sorted_slice_of)

lemma history_inv_RecordCompletion: "history_inv h \<Longrightarrow> history_inv (RecordCompletion s g t h)"
  by (simp add: history_inv_def RecordCompletion_def Let_def slices_sorted_map_put
      sorted_append_sorted sorted_slice_of)

lemma history_inv_Prune: "history_inv h \<Longrightarrow> history_inv (Prune now h)"
  by (simp add: history_inv_def Prune_def pruneLocked_def Let_def slices_sorted_prune_map)

lemmas history_invs = history_inv_New history_inv_RecordStart history_inv_RecordCompletion
  history_inv_Prune

section \<open>The memory history provides the guards' contract\<close>

definition starts_mset :: "memory_history \<Rightarrow> string \<Rightarrow> time multiset" where
  "starts_mset h s = mset (slice_of (Starts h) s)"

definition completions_mset :: "memory_history \<Rightarrow> string \<Rightarrow> string \<Rightarrow> time multiset" where
  "completions_mset h s t = mset (slice_of (Completions h) (s, t))"

lemma wrap64_neg_retention: "history_inv h \<Longrightarrow> wrap64 (- Retention h) = - Retention h"
  by (auto simp: history_inv_def in_int64_def intro!: wrap64_id)

lemma last_sorted_Max: "sorted (xs :: time list) \<Longrightarrow> xs \<noteq> [] \<Longrightarrow> xs ! (length xs - 1) = Max (set xs)"
proof (rule Max_eqI [symmetric])
  assume "sorted xs" and "xs \<noteq> []"
  then show "y \<le> xs ! (length xs - 1)" if "y \<in> set xs" for y
    using that by (auto simp: in_set_conv_nth intro!: sorted_nth_mono)
  show "xs ! (length xs - 1) \<in> set xs" using \<open>xs \<noteq> []\<close> by simp
qed simp

lemma mset_views [simp]:
  "starts_mset (RecordStart s x h) s' = (if s' = s then add_mset x (starts_mset h s') else starts_mset h s')"
  "starts_mset (RecordCompletion s t x h) s' = starts_mset h s'"
  "completions_mset (RecordStart s x h) s' t' = completions_mset h s' t'"
  "completions_mset (RecordCompletion s t x h) s' t' =
     (if s' = s \<and> t' = t then add_mset x (completions_mset h s' t') else completions_mset h s' t')"
  by (auto simp: starts_mset_def completions_mset_def RecordStart_def RecordCompletion_def Let_def)

interpretation mem: guard_history history_inv memory_ops RecordStart RecordCompletion Prune
  Retention starts_mset completions_mset
proof unfold_locales
  fix h s t since
  assume h: "history_inv h"
  then have srt: "sorted (slice_of (Starts h) s)" "sorted (slice_of (Completions h) (s, t))"
    by (simp_all add: history_inv_def sorted_slice_of)
  show "StartsSince (memory_ops h) s since = int (size (filter_mset (\<lambda>x. since \<le> x) (starts_mset h s)))"
    by (simp add: memory_ops_def starts_since_def Let_def starts_mset_def count_since [OF srt(1)])
  show "CompletionsSince (memory_ops h) s t since
      = int (size (filter_mset (\<lambda>x. since \<le> x) (completions_mset h s t)))"
    by (simp add: memory_ops_def completions_since_def Let_def completions_mset_def count_since [OF srt(2)])
  show "LastCompletion (memory_ops h) s t =
      (if completions_mset h s t = {#} then None else Some (Max_mset (completions_mset h s t)))"
    using last_sorted_Max [OF srt(2)]
    by (simp add: memory_ops_def last_completion_def Let_def completions_mset_def)
next
  fix h s t now
  assume h: "history_inv h"
  show "starts_mset (Prune now h) s = filter_mset (\<lambda>x. now - Retention h \<le> x) (starts_mset h s)"
    and "completions_mset (Prune now h) s t
      = filter_mset (\<lambda>x. now - Retention h \<le> x) (completions_mset h s t)"
    using h wrap64_neg_retention [OF h]
    by (simp_all add: history_inv_def Prune_def pruneLocked_def Let_def starts_mset_def
        completions_mset_def slice_of_prune_map)
qed (simp_all add: history_invs)

end
