(* ===== verification/Engine.thy ===== *)
theory Engine
  imports Action MemoryHistory
begin

text \<open>
  The state the engine's operations run over, and every call that leaves the engine. A state is
  the world \<open>'w\<close> (the cluster and everything outside the process), the guard history, and a
  ghost trace: each call of an action, of the Kubernetes client or of the history appends one
  effect to it, so that what an operation did, and in which order, can be stated. The trace is
  not read by any operation.

  The Kubernetes client, the clock, the event recorder and the metrics recorder are not part of
  the repository: they are records of functions over the world, whose behaviour is unrestricted
  (a clock that jumps, a client that fails at any call) unless a property says otherwise.
\<close>

datatype api_event =
    OnTarget string string string string
  | OnStrategy string
  | OnRemediation string

datatype effect =
    PlanCall string request
  | ExecuteCall ctx string request
  | VerifyCall ctx string request
  | StatusWrite remediation bool
  | CreateCall remediation bool
  | DeleteCall string bool
  | StartRecorded string time
  | CompletionRecorded string string time
  | EscalationCounted string string
  | FinishCounted string string duration
  | StartCounted string
  | RejectionCounted string string
  | UnmatchedCounted
  | SweepCounted nat nat
  | EventPublished api_event string string
  | StrategyStatusWrite strategy bool

record 'w st =
  World :: 'w
  History :: memory_history
  Trace :: "effect list"

definition emit :: "effect \<Rightarrow> 'w st \<Rightarrow> 'w st" where
  "emit e s = s\<lparr>Trace := Trace s @ [e]\<rparr>"

section \<open>Calls out of the process\<close>

text \<open>
  \<open>client.Client\<close>, as the engine uses it. A status update that succeeds decodes the server's
  answer into the object it was given, hence the returned remediation. Lists are the items of
  the answer, in its order; the selector is the list of label equalities.
\<close>

record 'w kube =
  KubeGet :: "string \<Rightarrow> string \<Rightarrow> 'w \<Rightarrow> (go_error + remediation) \<times> 'w"
  KubeList :: "string \<Rightarrow> smap \<Rightarrow> 'w \<Rightarrow> (go_error + remediation list) \<times> 'w"
  KubeUpdateStatus :: "remediation \<Rightarrow> 'w \<Rightarrow> (go_error + remediation) \<times> 'w"
  KubeCreate :: "remediation \<Rightarrow> 'w \<Rightarrow> (go_error + remediation) \<times> 'w"
  KubeDelete :: "remediation \<Rightarrow> 'w \<Rightarrow> go_error option \<times> 'w"
  KubeGetStrategy :: "string \<Rightarrow> 'w \<Rightarrow> (go_error + strategy) \<times> 'w"
  KubeListStrategies :: "'w \<Rightarrow> (go_error + strategy list) \<times> 'w"
  KubeUpdateStrategyStatus :: "strategy \<Rightarrow> 'w \<Rightarrow> (go_error + strategy) \<times> 'w"

type_synonym 'w clock = "'w \<Rightarrow> time \<times> 'w"

definition isNotFound :: "go_error \<Rightarrow> bool" where
  "isNotFound e \<longleftrightarrow> is_not_found e"

definition read_clock :: "'w clock \<Rightarrow> 'w st \<Rightarrow> time \<times> 'w st" where
  "read_clock now s = (let (t, w) = now (World s) in (t, s\<lparr>World := w\<rparr>))"

definition kube_get :: "'w kube \<Rightarrow> string \<Rightarrow> string \<Rightarrow> 'w st \<Rightarrow> (go_error + remediation) \<times> 'w st" where
  "kube_get k ns n s = (let (r, w) = KubeGet k ns n (World s) in (r, s\<lparr>World := w\<rparr>))"

definition kube_list :: "'w kube \<Rightarrow> string \<Rightarrow> smap \<Rightarrow> 'w st \<Rightarrow> (go_error + remediation list) \<times> 'w st" where
  "kube_list k ns sel s = (let (r, w) = KubeList k ns sel (World s) in (r, s\<lparr>World := w\<rparr>))"

definition kube_list_strategies :: "'w kube \<Rightarrow> 'w st \<Rightarrow> (go_error + strategy list) \<times> 'w st" where
  "kube_list_strategies k s = (let (r, w) = KubeListStrategies k (World s) in (r, s\<lparr>World := w\<rparr>))"

definition kube_get_strategy :: "'w kube \<Rightarrow> string \<Rightarrow> 'w st \<Rightarrow> (go_error + strategy) \<times> 'w st" where
  "kube_get_strategy k n s = (let (r, w) = KubeGetStrategy k n (World s) in (r, s\<lparr>World := w\<rparr>))"

definition update_status :: "'w kube \<Rightarrow> remediation \<Rightarrow> 'w st \<Rightarrow> (go_error + remediation) \<times> 'w st" where
  "update_status k rem s =
     (let (r, w) = KubeUpdateStatus k rem (World s)
      in (r, emit (StatusWrite rem (\<not> isl r)) (s\<lparr>World := w\<rparr>)))"

definition create_remediation :: "'w kube \<Rightarrow> remediation \<Rightarrow> 'w st \<Rightarrow> (go_error + remediation) \<times> 'w st" where
  "create_remediation k rem s =
     (let (r, w) = KubeCreate k rem (World s)
      in (r, emit (CreateCall rem (\<not> isl r)) (s\<lparr>World := w\<rparr>)))"

definition delete_remediation :: "'w kube \<Rightarrow> remediation \<Rightarrow> 'w st \<Rightarrow> go_error option \<times> 'w st" where
  "delete_remediation k rem s =
     (let (r, w) = KubeDelete k rem (World s)
      in (r, emit (DeleteCall (rem_name rem) (r = None)) (s\<lparr>World := w\<rparr>)))"

definition update_strategy_status :: "'w kube \<Rightarrow> strategy \<Rightarrow> 'w st \<Rightarrow> (go_error + strategy) \<times> 'w st" where
  "update_strategy_status k x s =
     (let (r, w) = KubeUpdateStrategyStatus k x (World s)
      in (r, emit (StrategyStatusWrite x (\<not> isl r)) (s\<lparr>World := w\<rparr>)))"

definition record_start :: "string \<Rightarrow> time \<Rightarrow> 'w st \<Rightarrow> 'w st" where
  "record_start strat t s = emit (StartRecorded strat t) (s\<lparr>History := RecordStart strat t (History s)\<rparr>)"

definition record_completion :: "string \<Rightarrow> string \<Rightarrow> time \<Rightarrow> 'w st \<Rightarrow> 'w st" where
  "record_completion strat target t s =
     emit (CompletionRecorded strat target t) (s\<lparr>History := RecordCompletion strat target t (History s)\<rparr>)"

text \<open>
  The engine's \<open>Recorder\<close> interface; \<open>NopRecorder\<close> does nothing. Durations are passed before
  their conversion to seconds.
\<close>

record 'w recorder =
  MUnmatched :: "'w \<Rightarrow> 'w"
  MGuardRejected :: "string \<Rightarrow> string \<Rightarrow> 'w \<Rightarrow> 'w"
  MRemediationStarted :: "string \<Rightarrow> 'w \<Rightarrow> 'w"
  MRemediationFinished :: "string \<Rightarrow> string \<Rightarrow> duration \<Rightarrow> 'w \<Rightarrow> 'w"
  MEscalationFinished :: "string \<Rightarrow> string \<Rightarrow> 'w \<Rightarrow> 'w"
  MRecordsSwept :: "nat \<Rightarrow> nat \<Rightarrow> 'w \<Rightarrow> 'w"

definition NopRecorder :: "'w recorder" where
  "NopRecorder = \<lparr>MUnmatched = (\<lambda>w. w), MGuardRejected = (\<lambda>_ _ w. w), MRemediationStarted = (\<lambda>_ w. w),
     MRemediationFinished = (\<lambda>_ _ _ w. w), MEscalationFinished = (\<lambda>_ _ w. w), MRecordsSwept = (\<lambda>_ _ w. w)\<rparr>"

definition recorder_of :: "'w recorder option \<Rightarrow> 'w recorder" where
  "recorder_of m = (case m of None \<Rightarrow> NopRecorder | Some r \<Rightarrow> r)"

definition count_effect :: "effect \<Rightarrow> ('w \<Rightarrow> 'w) \<Rightarrow> 'w st \<Rightarrow> 'w st" where
  "count_effect e f s = emit e (s\<lparr>World := f (World s)\<rparr>)"

text \<open>\<open>events.EventRecorder.Eventf\<close> with its regarding object, type, reason, action and message.\<close>

type_synonym 'w eventf = "api_event \<Rightarrow> string \<Rightarrow> string \<Rightarrow> string \<Rightarrow> string \<Rightarrow> 'w \<Rightarrow> 'w"

section \<open>What the calls leave alone\<close>

definition appends :: "(effect \<Rightarrow> bool) \<Rightarrow> 'w st \<Rightarrow> 'w st \<Rightarrow> bool" where
  "appends P s s' \<longleftrightarrow> (\<exists>es. Trace s' = Trace s @ es \<and> list_all P es)"

lemma appends_refl [simp, intro]: "appends P s s"
  by (simp add: appends_def)

lemma appends_trans [trans]: "appends P s s' \<Longrightarrow> appends P s' s'' \<Longrightarrow> appends P s s''"
  by (auto simp: appends_def)

lemma appends_emitI: "P e \<Longrightarrow> appends P s s' \<Longrightarrow> appends P s (emit e s')"
  by (auto simp: appends_def emit_def)

lemma appends_mono: "appends P s s' \<Longrightarrow> (\<And>e. P e \<Longrightarrow> Q e) \<Longrightarrow> appends Q s s'"
  by (auto simp: appends_def list_all_iff)

lemma appends_World [simp]: "appends P s (s'\<lparr>World := w\<rparr>) \<longleftrightarrow> appends P s s'"
  "appends P (s\<lparr>World := w\<rparr>) s' \<longleftrightarrow> appends P s s'"
  by (simp_all add: appends_def)

lemma appends_History [simp]: "appends P s (s'\<lparr>History := h\<rparr>) \<longleftrightarrow> appends P s s'"
  by (simp add: appends_def)

lemma emit_simps [simp]: "Trace (emit e s) = Trace s @ [e]" "World (emit e s) = World s"
  "History (emit e s) = History s"
  by (simp_all add: emit_def)

lemma read_clock_eq: "read_clock now s = (t, s') \<Longrightarrow> Trace s' = Trace s \<and> History s' = History s"
  by (auto simp: read_clock_def split: prod.splits)

definition is_event :: "effect \<Rightarrow> bool" where
  "is_event e \<longleftrightarrow> (\<exists>x reason m. e = EventPublished x reason m)"

lemma kube_listD: "kube_list k ns sel s = (x, s') \<Longrightarrow> Trace s' = Trace s \<and> History s' = History s"
  by (auto simp: kube_list_def split: prod.splits)

lemma kube_list_strategiesD: "kube_list_strategies k s = (x, s') \<Longrightarrow> Trace s' = Trace s \<and> History s' = History s"
  by (auto simp: kube_list_strategies_def split: prod.splits)

lemma create_remediationD:
  "create_remediation k rem s = (x, s') \<Longrightarrow> Trace s' = Trace s @ [CreateCall rem (\<not> isl x)] \<and> History s' = History s"
  by (auto simp: create_remediation_def split: prod.splits)

lemma update_statusD:
  "update_status k rem s = (x, s') \<Longrightarrow> Trace s' = Trace s @ [StatusWrite rem (\<not> isl x)] \<and> History s' = History s"
  by (auto simp: update_status_def split: prod.splits)

lemma delete_remediationD:
  "delete_remediation k rem s = (x, s') \<Longrightarrow> Trace s' = Trace s @ [DeleteCall (rem_name rem) (x = None)] \<and> History s' = History s"
  by (auto simp: delete_remediation_def split: prod.splits)

end
