(* ===== verification/Steps.thy ===== *)
theory Steps
  imports Engine
begin

text \<open>
  \<open>internal/engine/steps.go\<close> and \<open>events.go\<close>: the step runner, which runs one attempt over a plan
  and reports what happened to each step, and the events it publishes on the objects it acts on.
\<close>

section \<open>Step events\<close>

text \<open>
  The \<open>StepEvents\<close> interface. Publishing has no result: it may change the world and nothing else
  of the engine's state.
\<close>

record 'w step_events =
  EvStarting :: "target \<Rightarrow> string \<Rightarrow> nat \<Rightarrow> 'w \<Rightarrow> 'w"
  EvSucceeded :: "target \<Rightarrow> string \<Rightarrow> nat \<Rightarrow> string \<Rightarrow> 'w \<Rightarrow> 'w"
  EvFinished :: "target \<Rightarrow> string \<Rightarrow> nat \<Rightarrow> go_error option \<Rightarrow> 'w \<Rightarrow> 'w"

definition NopStepEvents :: "'w step_events" where
  "NopStepEvents = \<lparr>EvStarting = (\<lambda>_ _ _ w. w), EvSucceeded = (\<lambda>_ _ _ _ w. w), EvFinished = (\<lambda>_ _ _ _ w. w)\<rparr>"

definition EventReasonRemediating :: string where "EventReasonRemediating = ''Remediating''"
definition EventReasonRemediated :: string where "EventReasonRemediated = ''Remediated''"
definition EventReasonRemediationFailed :: string where
  "EventReasonRemediationFailed = ''RemediationFailed''"

text \<open>
  The RESTMapper is not part of the repository: it resolves a resource name to a resource, and a
  resource to an API version and a kind.
\<close>

record rest_mapper =
  ResourceFor :: "string \<Rightarrow> go_error + string"
  KindFor :: "string \<Rightarrow> go_error + string \<times> string"

record 'w target_events =
  TERecorder :: "'w eventf option"
  TEMapper :: "rest_mapper option"
  TERemediation :: string
  TEStrategy :: string
  TENamespace :: string

definition reference :: "rest_mapper option \<Rightarrow> target \<Rightarrow> go_error + api_event" where
  "reference mapper t =
     (if target_IsZero t then Inl (Err ''empty target'')
      else case mapper of None \<Rightarrow> Inl (Err ''no RESTMapper'')
      | Some m \<Rightarrow>
        (case ResourceFor m (to_lower (TKind t)) of
           Inl e \<Rightarrow> Inl (Wrap (''resolve kind '' @ quote (TKind t) @ '': '') e '''')
         | Inr gvr \<Rightarrow>
           (case KindFor m gvr of
              Inl e \<Rightarrow> Inl (Wrap (''resolve kind for '' @ gvr @ '': '') e '''')
            | Inr (apiVersion, kind) \<Rightarrow> Inr (OnTarget apiVersion kind (TNamespace t) (TName t)))))"

definition publish ::
  "'w target_events \<Rightarrow> target \<Rightarrow> string \<Rightarrow> string \<Rightarrow> string \<Rightarrow> string \<Rightarrow> 'w \<Rightarrow> 'w" where
  "publish te t eventType reason actionName msg w =
     (case TERecorder te of None \<Rightarrow> w
      | Some ev \<Rightarrow>
        (case reference (TEMapper te) t of
           Inl e \<Rightarrow> w
         | Inr ref \<Rightarrow> ev ref eventType reason actionName msg w))"

definition event_suffix :: "'w target_events \<Rightarrow> string" where
  "event_suffix te = '' (remediation '' @ TENamespace te @ ''/'' @ TERemediation te
     @ '', strategy '' @ TEStrategy te @ '')''"

definition te_Starting :: "'w target_events \<Rightarrow> target \<Rightarrow> string \<Rightarrow> nat \<Rightarrow> 'w \<Rightarrow> 'w" where
  "te_Starting te t actionName index w =
     publish te t ''Normal'' EventReasonRemediating actionName
       (''step '' @ itoa (int index + 1) @ '': running '' @ actionName @ event_suffix te) w"

definition te_Succeeded :: "'w target_events \<Rightarrow> target \<Rightarrow> string \<Rightarrow> nat \<Rightarrow> string \<Rightarrow> 'w \<Rightarrow> 'w" where
  "te_Succeeded te t actionName index summary w =
     (let summary = (if summary = '''' then actionName @ '' completed'' else summary) in
      publish te t ''Normal'' EventReasonRemediated actionName
       (''step '' @ itoa (int index + 1) @ '': '' @ summary @ event_suffix te) w)"

definition te_Finished :: "'w target_events \<Rightarrow> target \<Rightarrow> string \<Rightarrow> nat \<Rightarrow> go_error option \<Rightarrow> 'w \<Rightarrow> 'w" where
  "te_Finished te t actionName index err w =
     (case err of None \<Rightarrow> w
      | Some e \<Rightarrow> publish te t ''Warning'' EventReasonRemediationFailed actionName
         (''step '' @ itoa (int index + 1) @ '': '' @ actionName @ '' failed: '' @ err_text e
           @ event_suffix te) w)"

definition TargetEvents :: "'w target_events \<Rightarrow> 'w step_events" where
  "TargetEvents te = \<lparr>EvStarting = te_Starting te, EvSucceeded = te_Succeeded te,
     EvFinished = te_Finished te\<rparr>"

section \<open>The step runner\<close>

record 'w step_runner =
  RunnerRegistry :: "'w registry"
  RunnerRemediation :: string
  RunnerStrategy :: string
  RunnerNamespace :: string
  RunnerDryRun :: bool
  RunnerEvents :: "'w step_events"
  RunnerNow :: "'w clock"
  RunnerParseDuration :: parse_duration

record run_result =
  RunSteps :: "step_status list"
  RunErr :: "go_error option"
  RunReason :: string

definition describe :: "string \<Rightarrow> string \<Rightarrow> target \<Rightarrow> string" where
  "describe verb actionName t =
     (if target_IsZero t then verb @ '' '' @ actionName
      else verb @ '' '' @ actionName @ '' on '' @ target_string t)"

definition merge_outputs :: "smap \<Rightarrow> smap \<Rightarrow> smap" where
  "merge_outputs new old = fold (\<lambda>(k, v) m. map_put k v m) new old"

text \<open>\<open>record\<close>: folds an action's result onto the step.\<close>

definition record_result :: "result \<Rightarrow> step_status \<Rightarrow> step_status" where
  "record_result r st =
     (let st = st\<lparr>Plan := Summary r\<rparr>;
          st = (if ResultKubectl r \<noteq> '''' then st\<lparr>Kubectl := ResultKubectl r\<rparr> else st)
      in st\<lparr>Outputs := merge_outputs (ResultOutputs r) (Outputs st)\<rparr>)"

definition finish_step ::
  "'w step_runner \<Rightarrow> step_phase \<Rightarrow> string \<Rightarrow> step_status \<Rightarrow> 'w st \<Rightarrow> step_status \<times> 'w st" where
  "finish_step r phase message st s =
     (let (completed, s) = read_clock (RunnerNow r) s in
      (st\<lparr>Phase := phase, StepMessage := message, StepCompletedAt := Some completed\<rparr>, s))"

definition fail_step ::
  "'w step_runner \<Rightarrow> go_error \<Rightarrow> step_status \<Rightarrow> 'w st \<Rightarrow> (step_status \<times> go_error option) \<times> 'w st" where
  "fail_step r e st s =
     (let (st, s) = finish_step r StepPhaseFailed (err_text e) st s in ((st, Some e), s))"

definition call_plan :: "'w action \<Rightarrow> ctx \<Rightarrow> request \<Rightarrow> 'w st \<Rightarrow> (result \<times> go_error option) \<times> 'w st" where
  "call_plan act c req s =
     (let (res, e, w) = ActPlan act c req (World s)
      in ((res, e), emit (PlanCall (ActName act) req) (s\<lparr>World := w\<rparr>)))"

definition call_execute :: "'w action \<Rightarrow> ctx \<Rightarrow> request \<Rightarrow> 'w st \<Rightarrow> (result \<times> go_error option) \<times> 'w st" where
  "call_execute act c req s =
     (let (res, e, w) = ActExecute act c req (World s)
      in ((res, e), emit (ExecuteCall c (ActName act) req) (s\<lparr>World := w\<rparr>)))"

definition publish_step :: "('w \<Rightarrow> 'w) \<Rightarrow> 'w st \<Rightarrow> 'w st" where
  "publish_step f s = s\<lparr>World := f (World s)\<rparr>"

text \<open>
  \<open>verify\<close>: nothing for an action that is no verifier; otherwise its check under a deadline. The
  status takes the summary and the outputs whether or not the check passed.
\<close>

definition verify ::
  "'w step_runner \<Rightarrow> 'w action \<Rightarrow> ctx \<Rightarrow> request \<Rightarrow> result \<Rightarrow> step_status \<Rightarrow> 'w st
     \<Rightarrow> (step_status \<times> go_error option) \<times> 'w st" where
  "verify r act c req executed st s =
     (case ActVerify act of
        None \<Rightarrow> ((st, None), s)
      | Some check \<Rightarrow>
        (case VerifyTimeout (RunnerParseDuration r) (ReqParams req) of
           Inl e \<Rightarrow> ((st, Some (Wrap (describe ''verify'' (ActName act) (ReqTarget req) @ '': '') e '''')), s)
         | Inr timeout \<Rightarrow>
           (let c = timeout # c;
                (res, e, w) = check c req executed (World s);
                s = emit (VerifyCall c (ActName act) req) (s\<lparr>World := w\<rparr>);
                st = (if Summary res \<noteq> '''' then st\<lparr>Verified := Summary res\<rparr> else st);
                st = st\<lparr>Outputs := merge_outputs (ResultOutputs res) (Outputs st)\<rparr>
            in ((st, map_option (\<lambda>e. Wrap (ActName act @ '' ran on '' @ target_string (ReqTarget req)
                       @ '' but did not take effect: '') e '''') e), s))))"

definition runStep ::
  "'w step_runner \<Rightarrow> ctx \<Rightarrow> nat \<Rightarrow> smap \<Rightarrow> step \<Rightarrow> 'w st \<Rightarrow> (step_status \<times> go_error option) \<times> 'w st" where
  "runStep r c index labels stp s =
     (let (started, s) = read_clock (RunnerNow r) s;
          st = zero_step_status\<lparr>Index := wrap32 (int index), StepAction := Action stp,
                 Phase := StepPhaseRunning, StepStartedAt := Some started\<rparr>
      in case registry_Get (RunnerRegistry r) (Action stp) of
        Inl e \<Rightarrow> fail_step r e st s
      | Inr act \<Rightarrow>
        (let params = With stp in
         case ActResolve act labels params of
           Inl e \<Rightarrow> fail_step r (Wrap (''resolve target for '' @ Action stp @ '': '') e '''') st s
         | Inr t \<Rightarrow>
           (let st = (if \<not> target_IsZero t then st\<lparr>StepTarget := target_string t\<rparr> else st);
                req = \<lparr>ReqTarget = t, ReqParams = params, ReqLabels = labels,
                       ReqRemediation = RunnerRemediation r, ReqStrategy = RunnerStrategy r,
                       ReqNamespace = RunnerNamespace r, ReqDryRun = RunnerDryRun r\<rparr>
            in if RunnerDryRun r then
                 (let ((planned, planErr), s) = call_plan act c req s;
                      st = record_result planned st
                  in case planErr of
                       Some e \<Rightarrow> fail_step r (Wrap (describe ''plan'' (Action stp) t @ '': '') e '''') st s
                     | None \<Rightarrow> (let (st, s) = finish_step r StepPhaseSimulated '''' st s in ((st, None), s)))
               else
                 (let s = publish_step (EvStarting (RunnerEvents r) t (Action stp) index) s;
                      ((result, execErr), s) = call_execute act c req s;
                      st = record_result result st
                  in case execErr of
                       Some e \<Rightarrow>
                         (let e = Wrap (describe ''execute'' (Action stp) t @ '': '') e '''';
                              s = publish_step (EvFinished (RunnerEvents r) t (Action stp) index (Some e)) s
                          in fail_step r e st s)
                     | None \<Rightarrow>
                         (let ((st, verr), s) = verify r act c req result st s in
                          case verr of
                            Some e \<Rightarrow>
                              (let s = publish_step (EvFinished (RunnerEvents r) t (Action stp) index (Some e)) s
                               in fail_step r e st s)
                          | None \<Rightarrow>
                              (let s = publish_step (EvSucceeded (RunnerEvents r) t (Action stp) index (Plan st)) s;
                                   (st, s) = finish_step r StepPhaseSucceeded '''' st s
                               in ((st, None), s)))))))"

definition Step ::
  "'w step_runner \<Rightarrow> ctx \<Rightarrow> nat \<Rightarrow> smap \<Rightarrow> step \<Rightarrow> 'w st \<Rightarrow> (step_status \<times> go_error option) \<times> 'w st" where
  "Step r c index labels stp s = runStep r c index labels stp s"

definition skipped :: "nat \<Rightarrow> step \<Rightarrow> step_status" where
  "skipped i stp = zero_step_status\<lparr>Index := wrap32 (int i), StepAction := Action stp, Phase := StepPhaseSkipped\<rparr>"

text \<open>The loop of \<open>Run\<close>, with the result so far.\<close>

fun run_loop ::
  "'w step_runner \<Rightarrow> ctx \<Rightarrow> smap \<Rightarrow> nat \<Rightarrow> step list \<Rightarrow> run_result \<Rightarrow> 'w st \<Rightarrow> run_result \<times> 'w st" where
  "run_loop r c labels i [] res s = (res, s)"
| "run_loop r c labels i (stp # plan) res s =
     (if RunErr res \<noteq> None
      then run_loop r c labels (Suc i) plan (res\<lparr>RunSteps := RunSteps res @ [skipped i stp]\<rparr>) s
      else
        (let ((st, err), s) = runStep r c i labels stp s;
             res = res\<lparr>RunSteps := RunSteps res @ [st]\<rparr>;
             res = (case err of None \<Rightarrow> res
                    | Some e \<Rightarrow> res\<lparr>RunErr := Some e,
                        RunReason := (if errors_is e ErrUnknownAction then ReasonUnknownAction
                                      else ReasonStepFailed)\<rparr>)
         in run_loop r c labels (Suc i) plan res s))"

definition Run :: "'w step_runner \<Rightarrow> ctx \<Rightarrow> smap \<Rightarrow> step list \<Rightarrow> 'w st \<Rightarrow> run_result \<times> 'w st" where
  "Run r c labels plan s =
     run_loop r c labels 0 plan \<lparr>RunSteps = [], RunErr = None, RunReason = ''''\<rparr> s"

definition TerminalState :: "bool \<Rightarrow> go_error option \<Rightarrow> remediation_state" where
  "TerminalState dryRun err =
     (if err \<noteq> None then RemediationStateFailed
      else if dryRun then RemediationStateSimulated
      else RemediationStateSucceeded)"

section \<open>One step\<close>

text \<open>What an operation that publishes, reads the clock or plans leaves alone.\<close>

definition frame :: "'w st \<Rightarrow> 'w st \<Rightarrow> bool" where
  "frame s s' \<longleftrightarrow> Trace s' = Trace s \<and> History s' = History s"

lemma frame_refl [simp]: "frame s s"
  by (simp add: frame_def)

lemma read_clockD: "read_clock now s = (t, s') \<Longrightarrow> frame s s'"
  by (simp add: frame_def read_clock_eq)

lemma publish_step_frame [simp]: "Trace (publish_step f s) = Trace s" "History (publish_step f s) = History s"
  by (simp_all add: publish_step_def)

lemma finish_stepD:
  "finish_step r ph m st s = (st', s') \<Longrightarrow>
     frame s s' \<and> (\<exists>t. st' = st\<lparr>Phase := ph, StepMessage := m, StepCompletedAt := Some t\<rparr>)"
  by (auto simp: finish_step_def dest: read_clockD split: prod.splits)

lemma fail_stepD:
  "fail_step r e st s = ((st', err), s') \<Longrightarrow> frame s s' \<and> err = Some e
     \<and> (\<exists>t. st' = st\<lparr>Phase := StepPhaseFailed, StepMessage := err_text e, StepCompletedAt := Some t\<rparr>)"
  by (auto simp: fail_step_def dest: finish_stepD split: prod.splits)

lemma call_planD:
  "call_plan a c req s = ((res, e), s') \<Longrightarrow> Trace s' = Trace s @ [PlanCall (ActName a) req] \<and> History s' = History s"
  by (auto simp: call_plan_def split: prod.splits)

lemma call_executeD:
  "call_execute a c req s = ((res, e), s') \<Longrightarrow>
     Trace s' = Trace s @ [ExecuteCall c (ActName a) req] \<and> History s' = History s"
  by (auto simp: call_execute_def split: prod.splits)

lemma verifyD:
  assumes "verify r a c req ex st s = ((st', e), s')"
  shows "History s' = History s \<and> (\<exists>v out. st' = st\<lparr>Verified := v, Outputs := out\<rparr>)
    \<and> (Trace s' = Trace s \<or> (\<exists>d. 0 < d \<and> d \<le> MaxVerifyTimeout
          \<and> Trace s' = Trace s @ [VerifyCall (d # c) (ActName a) req]))"
proof (cases "ActVerify a")
  case None
  with assms have "st' = st\<lparr>Verified := Verified st, Outputs := Outputs st\<rparr>" and "s' = s"
    by (auto simp: verify_def)
  then show ?thesis by blast
next
  case (Some check)
  show ?thesis
  proof (cases "VerifyTimeout (RunnerParseDuration r) (ReqParams req)")
    case (Inl err)
    with assms Some have "st' = st\<lparr>Verified := Verified st, Outputs := Outputs st\<rparr>" and "s' = s"
      by (auto simp: verify_def)
    then show ?thesis by blast
  next
    case (Inr d)
    obtain res e2 w where chk: "check (d # c) req ex (World s) = (res, e2, w)" by (metis prod_cases3)
    from assms Some Inr chk have st': "st' = st\<lparr>Verified := (if Summary res \<noteq> '''' then Summary res else Verified st),
        Outputs := merge_outputs (ResultOutputs res) (Outputs st)\<rparr>"
      and s': "s' = emit (VerifyCall (d # c) (ActName a) req) (s\<lparr>World := w\<rparr>)"
      by (auto simp: verify_def Let_def)
    from st' have "\<exists>v out. st' = st\<lparr>Verified := v, Outputs := out\<rparr>" by blast
    with VerifyTimeout_bounds [OF Inr] s' show ?thesis by auto
  qed
qed

lemma record_result_fields [simp]:
  "Index (record_result x st) = Index st" "StepAction (record_result x st) = StepAction st"
  "StepTarget (record_result x st) = StepTarget st" "StepStartedAt (record_result x st) = StepStartedAt st"
  "Plan (record_result x st) = Summary x" "Verified (record_result x st) = Verified st"
  by (simp_all add: record_result_def Let_def)

definition request_for :: "'w step_runner \<Rightarrow> smap \<Rightarrow> step \<Rightarrow> target \<Rightarrow> request" where
  "request_for r labels stp t = \<lparr>ReqTarget = t, ReqParams = With stp, ReqLabels = labels,
     ReqRemediation = RunnerRemediation r, ReqStrategy = RunnerStrategy r,
     ReqNamespace = RunnerNamespace r, ReqDryRun = RunnerDryRun r\<rparr>"

text \<open>The calls one step may make: none, a plan, an execution, or an execution and its check.\<close>

definition step_calls :: "'w step_runner \<Rightarrow> ctx \<Rightarrow> smap \<Rightarrow> step \<Rightarrow> effect list \<Rightarrow> bool" where
  "step_calls r c labels stp es \<longleftrightarrow> es = [] \<or>
     (\<exists>a t. registry_Get (RunnerRegistry r) (Action stp) = Inr a \<and> ActResolve a labels (With stp) = Inr t \<and>
       (if RunnerDryRun r then es = [PlanCall (ActName a) (request_for r labels stp t)]
        else es = [ExecuteCall c (ActName a) (request_for r labels stp t)]
          \<or> (\<exists>d. 0 < d \<and> d \<le> MaxVerifyTimeout
               \<and> es = [ExecuteCall c (ActName a) (request_for r labels stp t),
                       VerifyCall (d # c) (ActName a) (request_for r labels stp t)])))"

text \<open>What every step status says, whatever happened.\<close>

definition step_done :: "'w step_runner \<Rightarrow> nat \<Rightarrow> step \<Rightarrow> step_status \<Rightarrow> go_error option \<Rightarrow> bool" where
  "step_done r i stp st err \<longleftrightarrow> Index st = wrap32 (int i) \<and> StepAction st = Action stp
     \<and> StepStartedAt st \<noteq> None \<and> StepCompletedAt st \<noteq> None
     \<and> (case err of
          None \<Rightarrow> Phase st = (if RunnerDryRun r then StepPhaseSimulated else StepPhaseSucceeded)
            \<and> StepMessage st = ''''
        | Some e \<Rightarrow> Phase st = StepPhaseFailed \<and> StepMessage st = err_text e)"

text \<open>The equations of \<open>runStep\<close> after its clock has been read, one per way through it.\<close>

definition started_status :: "nat \<Rightarrow> step \<Rightarrow> time \<Rightarrow> target \<Rightarrow> step_status" where
  "started_status i stp t0 t =
     (let st = zero_step_status\<lparr>Index := wrap32 (int i), StepAction := Action stp,
                 Phase := StepPhaseRunning, StepStartedAt := Some t0\<rparr>
      in if \<not> target_IsZero t then st\<lparr>StepTarget := target_string t\<rparr> else st)"

lemma started_status_fields [simp]:
  "Index (started_status i stp t0 t) = wrap32 (int i)" "StepAction (started_status i stp t0 t) = Action stp"
  "StepStartedAt (started_status i stp t0 t) = Some t0"
  by (simp_all add: started_status_def Let_def)

lemma runStep_unresolved:
  assumes "read_clock (RunnerNow r) s = (t0, s0)"
    and "registry_Get (RunnerRegistry r) (Action stp) = Inl e \<or>
      (\<exists>a e'. registry_Get (RunnerRegistry r) (Action stp) = Inr a \<and> ActResolve a labels (With stp) = Inl e'
        \<and> e = Wrap (''resolve target for '' @ Action stp @ '': '') e' '''')"
  shows "runStep r c i labels stp s = fail_step r e (started_status i stp t0 zero_target) s0"
  using assms by (auto simp: runStep_def Let_def started_status_def target_IsZero_def zero_target_def)

lemma runStep_dry:
  assumes "read_clock (RunnerNow r) s = (t0, s0)" and "RunnerDryRun r"
    and "registry_Get (RunnerRegistry r) (Action stp) = Inr a" and "ActResolve a labels (With stp) = Inr t"
    and "call_plan a c (request_for r labels stp t) s0 = ((pl, e), s1)"
  shows "runStep r c i labels stp s =
    (case e of
       Some e \<Rightarrow> fail_step r (Wrap (describe ''plan'' (Action stp) t @ '': '') e '''')
                  (record_result pl (started_status i stp t0 t)) s1
     | None \<Rightarrow> (let (st, s) = finish_step r StepPhaseSimulated '''' (record_result pl (started_status i stp t0 t)) s1
                in ((st, None), s)))"
  using assms by (simp add: runStep_def Let_def request_for_def started_status_def split: option.splits)

lemma runStep_live_failed:
  assumes "read_clock (RunnerNow r) s = (t0, s0)" and "\<not> RunnerDryRun r"
    and "registry_Get (RunnerRegistry r) (Action stp) = Inr a" and "ActResolve a labels (With stp) = Inr t"
    and "call_execute a c (request_for r labels stp t)
      (publish_step (EvStarting (RunnerEvents r) t (Action stp) i) s0) = ((ex, Some x), s1)"
    and "e = Wrap (describe ''execute'' (Action stp) t @ '': '') x ''''"
  shows "runStep r c i labels stp s = fail_step r e (record_result ex (started_status i stp t0 t))
    (publish_step (EvFinished (RunnerEvents r) t (Action stp) i (Some e)) s1)"
  using assms by (simp add: runStep_def Let_def request_for_def started_status_def)

lemma runStep_live:
  assumes "read_clock (RunnerNow r) s = (t0, s0)" and "\<not> RunnerDryRun r"
    and "registry_Get (RunnerRegistry r) (Action stp) = Inr a" and "ActResolve a labels (With stp) = Inr t"
    and "call_execute a c (request_for r labels stp t)
      (publish_step (EvStarting (RunnerEvents r) t (Action stp) i) s0) = ((ex, None), s1)"
    and "verify r a c (request_for r labels stp t) ex (record_result ex (started_status i stp t0 t)) s1
      = ((st2, ve), s2)"
  shows "runStep r c i labels stp s =
    (case ve of
       Some e \<Rightarrow> fail_step r e st2 (publish_step (EvFinished (RunnerEvents r) t (Action stp) i (Some e)) s2)
     | None \<Rightarrow> (let (st, s) = finish_step r StepPhaseSucceeded '''' st2
                  (publish_step (EvSucceeded (RunnerEvents r) t (Action stp) i (Plan st2)) s2)
                in ((st, None), s)))"
  using assms by (simp add: runStep_def Let_def request_for_def started_status_def split: option.splits)

definition step_spec ::
  "'w step_runner \<Rightarrow> ctx \<Rightarrow> nat \<Rightarrow> smap \<Rightarrow> step \<Rightarrow> 'w st \<Rightarrow> (step_status \<times> go_error option) \<times> 'w st \<Rightarrow> bool" where
  "step_spec r c i labels stp s out \<longleftrightarrow>
     step_done r i stp (fst (fst out)) (snd (fst out)) \<and> History (snd out) = History s
     \<and> (\<exists>es. Trace (snd out) = Trace s @ es \<and> step_calls r c labels stp es)"

lemma step_spec_fail:
  assumes "Index st = wrap32 (int i)" "StepAction st = Action stp" "StepStartedAt st \<noteq> None"
    and "History s1 = History s" "Trace s1 = Trace s @ es" "step_calls r c labels stp es"
  shows "step_spec r c i labels stp s (fail_step r e st s1)"
  using assms fail_stepD [of r e st s1]
  by (cases "fail_step r e st s1") (auto simp: step_spec_def step_done_def frame_def)

lemma step_spec_finish:
  assumes "Index st = wrap32 (int i)" "StepAction st = Action stp" "StepStartedAt st \<noteq> None"
    and "History s1 = History s" "Trace s1 = Trace s @ es" "step_calls r c labels stp es"
    and "ph = (if RunnerDryRun r then StepPhaseSimulated else StepPhaseSucceeded)"
  shows "step_spec r c i labels stp s (case finish_step r ph '''' st s1 of (st, s) \<Rightarrow> ((st, None), s))"
  using assms finish_stepD [of r ph "''''" st s1]
  by (cases "finish_step r ph '''' st s1") (auto simp: step_spec_def step_done_def frame_def)

lemma runStep_spec_live:
  assumes clk: "read_clock (RunnerNow r) s = (t0, s0)" and live: "\<not> RunnerDryRun r"
    and reg: "registry_Get (RunnerRegistry r) (Action stp) = Inr a" and res: "ActResolve a labels (With stp) = Inr t"
  shows "step_spec r c i labels stp s (runStep r c i labels stp s)"
proof -
  let ?req = "request_for r labels stp t"
  note f0 = read_clockD [OF clk, unfolded frame_def]
  obtain ex e s1 where ex: "call_execute a c ?req
      (publish_step (EvStarting (RunnerEvents r) t (Action stp) i) s0) = ((ex, e), s1)" by (metis prod.exhaust)
  note f1 = call_executeD [OF ex]
  have calls: "step_calls r c labels stp [ExecuteCall c (ActName a) ?req]"
    "0 < d \<Longrightarrow> d \<le> MaxVerifyTimeout \<Longrightarrow>
       step_calls r c labels stp [ExecuteCall c (ActName a) ?req, VerifyCall (d # c) (ActName a) ?req]" for d
    using reg res live by (auto simp: step_calls_def)
  show ?thesis
  proof (cases e)
    case (Some x)
    show ?thesis
      unfolding runStep_live_failed [OF clk live reg res ex [unfolded Some] refl]
      by (rule step_spec_fail) (use f0 f1 calls in auto)
  next
    case None
    let ?st1 = "record_result ex (started_status i stp t0 t)"
    obtain st2 ve s2 where v: "verify r a c ?req ex ?st1 s1 = ((st2, ve), s2)" by (metis prod.exhaust)
    from verifyD [OF v] obtain vv out where st2: "st2 = ?st1\<lparr>Verified := vv, Outputs := out\<rparr>"
      and h2: "History s2 = History s1"
      and t2: "Trace s2 = Trace s1 \<or> (\<exists>d. 0 < d \<and> d \<le> MaxVerifyTimeout
        \<and> Trace s2 = Trace s1 @ [VerifyCall (d # c) (ActName a) ?req])" by blast
    have "\<exists>es. Trace s2 = Trace s @ es \<and> step_calls r c labels stp es"
      using t2 f1 f0 calls by auto
    then obtain es where es: "Trace s2 = Trace s @ es" "step_calls r c labels stp es" by blast
    show ?thesis
      unfolding runStep_live [OF clk live reg res ex [unfolded None] v]
      using es h2 f1 f0 st2 live by (auto split: option.splits intro!: step_spec_fail step_spec_finish)
  qed
qed

lemma runStep_spec: "step_spec r c i labels stp s (runStep r c i labels stp s)"
proof -
  obtain t0 s0 where clk: "read_clock (RunnerNow r) s = (t0, s0)" by fastforce
  note f0 = read_clockD [OF clk, unfolded frame_def]
  have none: "step_calls r c labels stp []" by (simp add: step_calls_def)
  have unresolved: "step_spec r c i labels stp s (fail_step r e (started_status i stp t0 zero_target) s0)" for e
    by (rule step_spec_fail) (use f0 none in auto)
  show ?thesis
  proof (cases "registry_Get (RunnerRegistry r) (Action stp)")
    case (Inl e)
    then show ?thesis using unresolved runStep_unresolved [OF clk, of stp e labels c i] by simp
  next
    case reg: (Inr a)
    show ?thesis
    proof (cases "ActResolve a labels (With stp)")
      case (Inl e)
      then show ?thesis using unresolved reg
          runStep_unresolved [OF clk, of stp "Wrap (''resolve target for '' @ Action stp @ '': '') e ''''" labels c i]
        by simp
    next
      case res: (Inr t)
      show ?thesis
      proof (cases "RunnerDryRun r")
        case True
        let ?req = "request_for r labels stp t"
        obtain pl e s1 where pl: "call_plan a c ?req s0 = ((pl, e), s1)" by (metis prod.exhaust)
        have calls: "step_calls r c labels stp [PlanCall (ActName a) ?req]"
          using reg res True by (auto simp: step_calls_def)
        show ?thesis unfolding runStep_dry [OF clk True reg res pl]
          using f0 call_planD [OF pl] calls True
          by (auto split: option.splits intro!: step_spec_fail step_spec_finish)
      qed (rule runStep_spec_live [OF clk _ reg res])
    qed
  qed
qed

section \<open>A whole attempt\<close>

definition is_plan_call :: "effect \<Rightarrow> bool" where
  "is_plan_call e \<longleftrightarrow> (\<exists>n req. e = PlanCall n req \<and> ReqDryRun req)"

definition is_live_call :: "effect \<Rightarrow> bool" where
  "is_live_call e \<longleftrightarrow> (\<exists>c n req. (e = ExecuteCall c n req \<or> (\<exists>d. 0 < d \<and> d \<le> MaxVerifyTimeout \<and> e = VerifyCall (d # c) n req))
     \<and> \<not> ReqDryRun req)"

text \<open>
  The shape of an attempt: the steps that ran up to and including the first failure, and the
  calls each of them made; the steps after a failure are recorded as skipped and call nothing.
\<close>

fun run_shape ::
  "'w step_runner \<Rightarrow> ctx \<Rightarrow> smap \<Rightarrow> nat \<Rightarrow> step list \<Rightarrow> step_status list \<Rightarrow> go_error option \<Rightarrow> effect list \<Rightarrow> bool" where
  "run_shape r c l i [] sts err es \<longleftrightarrow> sts = [] \<and> err = None \<and> es = []"
| "run_shape r c l i (p # ps) sts err es \<longleftrightarrow>
     (\<exists>st sts' es1 es2. sts = st # sts' \<and> es = es1 @ es2 \<and> step_calls r c l p es1 \<and>
        (step_done r i p st None \<and> run_shape r c l (Suc i) ps sts' err es2
         \<or> (\<exists>e. err = Some e \<and> step_done r i p st (Some e) \<and> es2 = []
              \<and> sts' = map2 skipped [Suc i ..< Suc i + length ps] ps)))"

fun run_reason :: "string \<Rightarrow> go_error option \<Rightarrow> string" where
  "run_reason prev None = prev"
| "run_reason prev (Some e) = (if errors_is e ErrUnknownAction then ReasonUnknownAction else ReasonStepFailed)"

lemma run_loop_skip:
  "RunErr res = Some e \<Longrightarrow> run_loop r c l i plan res s =
     (res\<lparr>RunSteps := RunSteps res @ map2 skipped [i ..< i + length plan] plan\<rparr>, s)"
proof (induction plan arbitrary: i res)
  case (Cons p ps)
  have upt: "[i ..< i + length (p # ps)] = i # [Suc i ..< Suc i + length ps]"
    by (simp add: upt_conv_Cons del: upt_Suc)
  have "map2 skipped [i ..< i + length (p # ps)] (p # ps)
      = skipped i p # map2 skipped [Suc i ..< Suc i + length ps] ps" unfolding upt by simp
  with Cons show ?case by (simp del: upt_Suc)
qed simp

lemma run_loop_shape:
  assumes "RunErr res = None" and "run_loop r c l i plan res s = (res', s')"
  shows "\<exists>sts es. RunSteps res' = RunSteps res @ sts \<and> run_shape r c l i plan sts (RunErr res') es
    \<and> Trace s' = Trace s @ es \<and> History s' = History s
    \<and> RunReason res' = run_reason (RunReason res) (RunErr res')"
  using assms
proof (induction plan arbitrary: i res s)
  case Nil
  then show ?case by auto
next
  case (Cons p ps)
  obtain st err s1 where run: "runStep r c i l p s = ((st, err), s1)" by (metis prod.exhaust)
  from runStep_spec [of r c i l p s] run obtain es1 where
    st: "step_done r i p st err" and h: "History s1 = History s" and tr: "Trace s1 = Trace s @ es1"
    and calls: "step_calls r c l p es1" by (auto simp: step_spec_def)
  show ?case
  proof (cases err)
    case None
    with Cons.prems run have "run_loop r c l (Suc i) ps (res\<lparr>RunSteps := RunSteps res @ [st]\<rparr>) s1 = (res', s')"
      by simp
    from Cons.IH [OF _ this] Cons.prems(1) obtain sts es where IH: "RunSteps res' = RunSteps res @ st # sts"
      "run_shape r c l (Suc i) ps sts (RunErr res') es" "Trace s' = Trace s1 @ es" "History s' = History s1"
      "RunReason res' = run_reason (RunReason res) (RunErr res')" by auto
    show ?thesis
      by (intro exI [of _ "st # sts"] exI [of _ "es1 @ es"]) (use IH st h tr calls None in auto)
  next
    case (Some e)
    with Cons.prems run have res': "res' = res\<lparr>RunSteps := RunSteps res @ st # map2 skipped [Suc i ..< Suc i + length ps] ps,
        RunErr := Some e, RunReason := (if errors_is e ErrUnknownAction then ReasonUnknownAction else ReasonStepFailed)\<rparr>"
      and "s' = s1"
      by (auto simp: run_loop_skip simp del: upt_Suc)
    then show ?thesis
      by (intro exI [of _ "st # map2 skipped [Suc i ..< Suc i + length ps] ps"] exI [of _ es1])
         (use st h tr calls Some in auto)
  qed
qed

lemma Run_shape:
  assumes "Run r c l plan s = (res, s')"
  shows "\<exists>es. run_shape r c l 0 plan (RunSteps res) (RunErr res) es \<and> Trace s' = Trace s @ es
    \<and> History s' = History s \<and> RunReason res = run_reason '''' (RunErr res)"
  using run_loop_shape [of "\<lparr>RunSteps = [], RunErr = None, RunReason = ''''\<rparr>" r c l 0 plan s res s'] assms
  by (auto simp: Run_def)

lemma run_shape_calls:
  "run_shape r c l i plan sts err es \<Longrightarrow>
     list_all (if RunnerDryRun r then is_plan_call else is_live_call) es"
proof (induction plan arbitrary: i sts es)
  case (Cons p ps)
  have "step_calls r c l p es1 \<Longrightarrow> list_all (if RunnerDryRun r then is_plan_call else is_live_call) es1" for es1
    by (auto simp: step_calls_def is_plan_call_def is_live_call_def request_for_def split: if_splits)
  with Cons show ?case by fastforce
qed simp

lemma run_shape_nth:
  "run_shape r c l i plan sts err es \<Longrightarrow>
     length sts = length plan \<and> (\<forall>j < length plan. Index (sts ! j) = wrap32 (int (i + j)) \<and> StepAction (sts ! j) = Action (plan ! j))"
proof (induction plan arbitrary: i sts es)
  case (Cons p ps)
  from Cons.prems obtain st sts' es2 where sts: "sts = st # sts'" and st: "Index st = wrap32 (int i)" "StepAction st = Action p"
    and rest: "run_shape r c l (Suc i) ps sts' err es2 \<or> sts' = map2 skipped [Suc i ..< Suc i + length ps] ps"
    by (auto simp: step_done_def)
  have "length sts' = length ps \<and> (\<forall>j < length ps. Index (sts' ! j) = wrap32 (int (Suc i + j)) \<and> StepAction (sts' ! j) = Action (ps ! j))"
    using rest Cons.IH [of "Suc i" sts' es2] by (auto simp: skipped_def simp del: upt_Suc)
  then show ?case using sts st by (auto simp: less_Suc_eq_0_disj ac_simps)
qed simp

lemma run_shape_None:
  "run_shape r c l i plan sts None es \<Longrightarrow>
     list_all (\<lambda>st. Phase st = (if RunnerDryRun r then StepPhaseSimulated else StepPhaseSucceeded)) sts"
  by (induction plan arbitrary: i sts es) (fastforce simp: step_done_def)+

lemma run_shape_Some:
  "run_shape r c l i plan sts (Some e) es \<Longrightarrow> \<exists>k < length plan.
     (\<forall>j < k. Phase (sts ! j) = (if RunnerDryRun r then StepPhaseSimulated else StepPhaseSucceeded))
     \<and> Phase (sts ! k) = StepPhaseFailed \<and> StepMessage (sts ! k) = err_text e
     \<and> (\<forall>j. k < j \<and> j < length plan \<longrightarrow> sts ! j = skipped (i + j) (plan ! j))"
proof (induction plan arbitrary: i sts es)
  case (Cons p ps)
  from Cons.prems obtain st sts' es2 where sts: "sts = st # sts'"
    and "step_done r i p st None \<and> run_shape r c l (Suc i) ps sts' (Some e) es2
      \<or> step_done r i p st (Some e) \<and> sts' = map2 skipped [Suc i ..< Suc i + length ps] ps" by auto
  then consider "step_done r i p st None" "run_shape r c l (Suc i) ps sts' (Some e) es2"
    | "step_done r i p st (Some e)" "sts' = map2 skipped [Suc i ..< Suc i + length ps] ps" by blast
  then show ?case
  proof cases
    case 1
    from Cons.IH [OF 1(2)] obtain k where "k < length ps"
      "\<forall>j < k. Phase (sts' ! j) = (if RunnerDryRun r then StepPhaseSimulated else StepPhaseSucceeded)"
      "Phase (sts' ! k) = StepPhaseFailed" "StepMessage (sts' ! k) = err_text e"
      "\<forall>j. k < j \<and> j < length ps \<longrightarrow> sts' ! j = skipped (Suc i + j) (ps ! j)" by blast
    then show ?thesis using 1(1) sts
      by (intro exI [of _ "Suc k"]) (auto simp: step_done_def nth_Cons' less_Suc_eq_0_disj gr0_conv_Suc)
  next
    case 2
    then show ?thesis using sts
      by (intro exI [of _ 0]) (auto simp: step_done_def gr0_conv_Suc simp del: upt_Suc)
  qed
qed simp

section \<open>A dry run does not depend on the mutating code\<close>

definition rearm ::
  "(string \<Rightarrow> ctx \<Rightarrow> request \<Rightarrow> 'w \<Rightarrow> result \<times> go_error option \<times> 'w)
   \<Rightarrow> (string \<Rightarrow> (ctx \<Rightarrow> request \<Rightarrow> result \<Rightarrow> 'w \<Rightarrow> result \<times> go_error option \<times> 'w) option)
   \<Rightarrow> 'w step_runner \<Rightarrow> 'w step_runner" where
  "rearm f g r = r\<lparr>RunnerRegistry := map (\<lambda>(n, a). (n, a\<lparr>ActExecute := f n, ActVerify := g n\<rparr>)) (RunnerRegistry r)\<rparr>"

lemma rearm_fields [simp]: "RunnerDryRun (rearm f g r) = RunnerDryRun r" "RunnerNow (rearm f g r) = RunnerNow r"
  "RunnerEvents (rearm f g r) = RunnerEvents r" "request_for (rearm f g r) = request_for r"
  by (auto simp: rearm_def request_for_def fun_eq_iff)

lemma map_of_rearm:
  "map_of (RunnerRegistry (rearm f g r)) n
    = map_option (\<lambda>a. a\<lparr>ActExecute := f n, ActVerify := g n\<rparr>) (map_of (RunnerRegistry r) n)"
proof -
  have "map_of (map (\<lambda>(n, a). (n, a\<lparr>ActExecute := f n, ActVerify := g n\<rparr>)) m) n
      = map_option (\<lambda>a. a\<lparr>ActExecute := f n, ActVerify := g n\<rparr>) (map_of m n)" for m :: "(string \<times> 'a action) list"
    by (induction m) auto
  then show ?thesis by (simp add: rearm_def)
qed

lemma available_rearm [simp]: "available (RunnerRegistry (rearm f g r)) = available (RunnerRegistry r)"
  by (simp add: available_def Names_def rearm_def o_def case_prod_beta)

lemma registry_Get_rearm:
  "registry_Get (RunnerRegistry (rearm f g r)) n = map_sum id (\<lambda>a. a\<lparr>ActExecute := f n, ActVerify := g n\<rparr>)
     (registry_Get (RunnerRegistry r) n)"
  by (simp add: registry_Get_def map_of_rearm split: option.splits)

lemma finish_rearm [simp]: "finish_step (rearm f g r) = finish_step r" "fail_step (rearm f g r) = fail_step r"
  by (simp_all add: finish_step_def fail_step_def fun_eq_iff)

lemma runStep_rearm:
  assumes "RunnerDryRun r"
  shows "runStep (rearm f g r) c i l stp s = runStep r c i l stp s"
proof -
  obtain t0 s0 where clk: "read_clock (RunnerNow r) s = (t0, s0)" by fastforce
  then have clk': "read_clock (RunnerNow (rearm f g r)) s = (t0, s0)" by simp
  show ?thesis
  proof (cases "registry_Get (RunnerRegistry r) (Action stp)")
    case (Inl e)
    then show ?thesis
      using runStep_unresolved [OF clk, of stp e l c i] runStep_unresolved [OF clk', of stp e l c i]
      by (simp add: registry_Get_rearm)
  next
    case (Inr a)
    let ?a = "a\<lparr>ActExecute := f (Action stp), ActVerify := g (Action stp)\<rparr>"
    have reg: "registry_Get (RunnerRegistry (rearm f g r)) (Action stp) = Inr ?a"
      using Inr by (simp add: registry_Get_rearm)
    show ?thesis
    proof (cases "ActResolve a l (With stp)")
      case (Inl e)
      let ?e = "Wrap (''resolve target for '' @ Action stp @ '': '') e ''''"
      show ?thesis
        using runStep_unresolved [OF clk, of stp ?e l c i] runStep_unresolved [OF clk', of stp ?e l c i]
          Inr reg Inl by simp
    next
      case res: (Inr t)
      obtain pl e s1 where pl: "call_plan a c (request_for r l stp t) s0 = ((pl, e), s1)" by (metis prod.exhaust)
      then have pl': "call_plan ?a c (request_for (rearm f g r) l stp t) s0 = ((pl, e), s1)"
        by (simp add: call_plan_def)
      have res': "ActResolve ?a l (With stp) = Inr t" and dry: "RunnerDryRun (rearm f g r)"
        using res assms by simp_all
      show ?thesis
        unfolding runStep_dry [OF clk assms Inr res pl] runStep_dry [OF clk' dry reg res' pl'] finish_rearm by simp
    qed
  qed
qed

lemma run_loop_rearm:
  "RunnerDryRun r \<Longrightarrow> run_loop (rearm f g r) c l i plan res s = run_loop r c l i plan res s"
  by (induction plan arbitrary: i res s) (simp_all add: runStep_rearm split: prod.splits option.splits)

end
