(* ===== verification/Posture.thy ===== *)
theory Posture
  imports Types
begin

text \<open>
  \<open>internal/engine/posture.go\<close>, \<open>pause.go\<close> and \<open>backoff.go\<close>: where remedik may act, the switch
  that stops it, and how long it waits between attempts.
\<close>

section \<open>Posture\<close>

datatype mode = ModeLive | ModeDryRun | ModeOther string

fun mode_string :: "mode \<Rightarrow> string" where
  "mode_string ModeLive = ''live''"
| "mode_string ModeDryRun = ''dryRun''"
| "mode_string (ModeOther s) = s"

record posture =
  Default :: mode
  Overrides :: "(string \<times> mode) list"

definition NewPosture :: "bool \<Rightarrow> (string \<times> mode) list \<Rightarrow> posture" where
  "NewPosture dryRun overrides =
     (let m = (if dryRun then ModeDryRun else ModeLive) in \<lparr>Default = m, Overrides = overrides\<rparr>)"

definition DryRunFor :: "posture \<Rightarrow> string \<Rightarrow> bool" where
  "DryRunFor p ns =
     (case (if ns \<noteq> '''' then map_of (Overrides p) ns else None) of
        Some m \<Rightarrow> m = ModeDryRun
      | None \<Rightarrow> Default p \<noteq> ModeLive)"

definition Mixed :: "posture \<Rightarrow> bool" where
  "Mixed p \<longleftrightarrow> list_ex (\<lambda>(ns, m). (m = ModeDryRun) \<noteq> (Default p \<noteq> ModeLive)) (Overrides p)"

definition Namespaces :: "posture \<Rightarrow> mode \<Rightarrow> string list" where
  "Namespaces p m = sort (map fst (filter (\<lambda>(ns, m'). m' = m) (Overrides p)))"

definition posture_string :: "posture \<Rightarrow> string" where
  "posture_string p =
     (if length (Overrides p) = 0 then mode_string (Default p) @ '' everywhere''
      else join ''; '' ((mode_string (Default p) @ '' by default'')
        # map (\<lambda>m. mode_string m @ '' in '' @ join '', '' (Namespaces p m))
            (filter (\<lambda>m. length (Namespaces p m) > 0 \<and> m \<noteq> Default p) [ModeLive, ModeDryRun])))"

definition parseMode :: "string \<Rightarrow> go_error + mode" where
  "parseMode value =
     (if to_lower value = ''live'' then Inr ModeLive
      else if to_lower value = ''dryrun'' then Inr ModeDryRun
      else Inl (Err (quote value @ '' is not a posture; it is '' @ quote ''live''
        @ '' (remedik acts) or '' @ quote ''dryRun'' @ '' (remedik only reports)'')))"

text \<open>The three pieces \<open>strings.Cut\<close> and the trimming make of a pair.\<close>

definition pair_parts :: "string \<Rightarrow> string \<times> string \<times> bool" where
  "pair_parts pair =
     (let (ns, value, found) = str_cut (CHR ''='') (trim_space pair)
      in (trim_space ns, trim_space value, found))"

fun parse_posture_loop :: "string list \<Rightarrow> (string \<times> mode) list \<Rightarrow> go_error + (string \<times> mode) list" where
  "parse_posture_loop [] overrides = Inr overrides"
| "parse_posture_loop (pair # pairs) overrides =
     (let (ns, value, found) = pair_parts pair in
      if \<not> found \<or> ns = '''' \<or> value = ''''
      then Inl (Err (''namespace posture '' @ quote pair @ '' is not in the form ''
             @ quote ''namespace=live'' @ '' or '' @ quote ''namespace=dryRun''))
      else case parseMode value of
        Inl e \<Rightarrow> Inl (Wrap (''namespace '' @ quote ns @ '': '') e '''')
      | Inr m \<Rightarrow>
        (case map_of overrides ns of
           Some existing \<Rightarrow>
             if existing \<noteq> m
             then Inl (Err (''namespace '' @ quote ns @ '' is given two postures, ''
                    @ quote (mode_string existing) @ '' and '' @ quote (mode_string m)))
             else parse_posture_loop pairs (map_put ns m overrides)
         | None \<Rightarrow> parse_posture_loop pairs (map_put ns m overrides)))"

definition ParsePosture :: "string list \<Rightarrow> go_error + (string \<times> mode) list" where
  "ParsePosture pairs = parse_posture_loop pairs []"

lemma DryRunFor_simps:
  "DryRunFor p '''' \<longleftrightarrow> Default p \<noteq> ModeLive"
  "ns \<noteq> '''' \<Longrightarrow> map_of (Overrides p) ns = Some m \<Longrightarrow> DryRunFor p ns \<longleftrightarrow> m = ModeDryRun"
  "map_of (Overrides p) ns = None \<Longrightarrow> DryRunFor p ns \<longleftrightarrow> Default p \<noteq> ModeLive"
  by (auto simp: DryRunFor_def split: if_splits)

text \<open>What the pairs say about a namespace.\<close>

definition pair_says :: "string \<Rightarrow> string \<Rightarrow> mode \<Rightarrow> bool" where
  "pair_says pair ns m \<longleftrightarrow> (\<exists>value. pair_parts pair = (ns, value, True) \<and> ns \<noteq> '''' \<and> parseMode value = Inr m)"

lemma pair_says_modes: "pair_says pair ns m \<Longrightarrow> m = ModeLive \<or> m = ModeDryRun"
  by (auto simp: pair_says_def parseMode_def split: if_splits)

lemma parse_posture_loop_spec:
  assumes "parse_posture_loop pairs ov = Inr m" and "map_wf ov"
  shows "map_wf m \<and> (\<forall>ns x. map_of m ns = Some x \<longleftrightarrow> map_of ov ns = Some x \<or> (\<exists>pair \<in> set pairs. pair_says pair ns x))
    \<and> (\<forall>pair \<in> set pairs. \<exists>ns x. pair_says pair ns x)"
  using assms
proof (induction pairs arbitrary: ov)
  case (Cons pair pairs)
  obtain ns v found where parts: "pair_parts pair = (ns, v, found)" by (cases "pair_parts pair")
  from Cons.prems(1) parts have found: "found" "ns \<noteq> ''''" by (auto split: if_splits)
  from Cons.prems(1) parts found obtain x where mode: "parseMode v = Inr x" by (auto split: sum.splits if_splits)
  have says: "pair_says pair ns' y \<longleftrightarrow> ns' = ns \<and> y = x" for ns' y
    using parts found mode by (auto simp: pair_says_def)
  from Cons.prems(1) parts found mode have old: "map_of ov ns = None \<or> map_of ov ns = Some x"
    and rest: "parse_posture_loop pairs (map_put ns x ov) = Inr m"
    by (auto split: option.splits if_splits)
  have uniq: "y = x" if "(ns, y) \<in> set ov" for y
    using old map_of_is_SomeI [OF Cons.prems(2) that] by simp
  from Cons.IH [OF rest] Cons.prems(2) old says show ?case by (auto split: if_splits dest: uniq)
qed simp

section \<open>The pause switch\<close>

definition PauseKey :: string where "PauseKey = ''paused''"
definition PauseReasonKey :: string where "PauseReasonKey = ''reason''"

record pause =
  PausedFlag :: bool
  PauseReason :: string

text \<open>A nil pause is never paused.\<close>

definition Paused :: "pause option \<Rightarrow> bool" where
  "Paused p = (case p of None \<Rightarrow> False | Some p \<Rightarrow> PausedFlag p)"

definition pause_reason :: "pause option \<Rightarrow> string" where
  "pause_reason p = (case p of None \<Rightarrow> '''' | Some p \<Rightarrow> PauseReason p)"

definition pause_set :: "bool \<Rightarrow> string \<Rightarrow> pause \<Rightarrow> pause \<times> bool" where
  "pause_set paused reason p = (\<lparr>PausedFlag = paused, PauseReason = reason\<rparr>, PausedFlag p \<noteq> paused)"

text \<open>\<open>strconv.ParseBool\<close>; \<open>None\<close> is its error.\<close>

definition parse_bool :: "string \<Rightarrow> bool option" where
  "parse_bool s =
     (if s \<in> {''1'', ''t'', ''T'', ''true'', ''TRUE'', ''True''} then Some True
      else if s \<in> {''0'', ''f'', ''F'', ''false'', ''FALSE'', ''False''} then Some False
      else None)"

definition parsePaused :: "string \<Rightarrow> bool" where
  "parsePaused value =
     (if to_lower (trim_space value) \<in> {''yes'', ''on''} then True
      else case parse_bool (trim_space value) of Some b \<Rightarrow> b | None \<Rightarrow> False)"

text \<open>One poll, given what reading the ConfigMap returned: an error, or its data.\<close>

definition poll :: "go_error + smap \<Rightarrow> pause \<Rightarrow> pause" where
  "poll cm p =
     (case cm of
        Inl e \<Rightarrow> if is_not_found e then fst (pause_set False '''' p) else p
      | Inr data \<Rightarrow>
          (let paused = parsePaused (map_get data PauseKey);
               reason = trim_space (map_get data PauseReasonKey)
           in fst (pause_set paused reason p)))"

lemma poll_simps [simp]:
  "\<not> is_not_found e \<Longrightarrow> poll (Inl e) p = p"
  "is_not_found e \<Longrightarrow> poll (Inl e) p = \<lparr>PausedFlag = False, PauseReason = ''''\<rparr>"
  "PausedFlag (poll (Inr data) p) = parsePaused (map_get data PauseKey)"
  by (simp_all add: poll_def pause_set_def Let_def)

text \<open>The watcher reads the switch once when it starts and once per tick. Every replica runs it. The
  readings are those the ConfigMap gives at the start and at each tick, until the context ends.\<close>

definition DefaultPausePollInterval :: duration where "DefaultPausePollInterval = 5 * second"

record pause_watcher =
  WatcherPause :: pause
  WatcherEvery :: duration

definition watcher_NeedLeaderElection :: "pause_watcher \<Rightarrow> bool" where
  "watcher_NeedLeaderElection w = False"

definition watcher_interval :: "pause_watcher \<Rightarrow> duration" where
  "watcher_interval w = (if WatcherEvery w \<le> 0 then DefaultPausePollInterval else WatcherEvery w)"

fun watcher_ticks :: "(go_error + smap) list \<Rightarrow> pause_watcher \<Rightarrow> pause_watcher" where
  "watcher_ticks [] w = w"
| "watcher_ticks (cm # cms) w = watcher_ticks cms (w\<lparr>WatcherPause := poll cm (WatcherPause w)\<rparr>)"

definition watcher_Start :: "go_error + smap \<Rightarrow> (go_error + smap) list \<Rightarrow> pause_watcher \<Rightarrow> pause_watcher" where
  "watcher_Start atStart ticks w = watcher_ticks ticks (w\<lparr>WatcherPause := poll atStart (WatcherPause w)\<rparr>)"

lemma watcher_ticks_pause: "WatcherPause (watcher_ticks cms w) = fold poll cms (WatcherPause w)"
  by (induction cms w rule: watcher_ticks.induct) simp_all

lemma watcher_Start_pause: "WatcherPause (watcher_Start cm cms w) = fold poll (cm # cms) (WatcherPause w)"
  by (simp add: watcher_Start_def watcher_ticks_pause)

text \<open>The readings that decide: every one but a failure to read.\<close>

definition decides :: "go_error + smap \<Rightarrow> bool" where
  "decides cm \<longleftrightarrow> (case cm of Inl e \<Rightarrow> is_not_found e | Inr _ \<Rightarrow> True)"

definition reading_paused :: "go_error + smap \<Rightarrow> bool" where
  "reading_paused cm = (case cm of Inl e \<Rightarrow> False | Inr data \<Rightarrow> parsePaused (map_get data PauseKey))"

lemma poll_decides:
  "PausedFlag (poll cm p) = (if decides cm then reading_paused cm else PausedFlag p)"
  by (cases cm) (auto simp: decides_def reading_paused_def)

lemma polls_last_decision:
  "PausedFlag (fold poll cms p) =
     (case rev (filter decides cms) of [] \<Rightarrow> PausedFlag p | cm # _ \<Rightarrow> reading_paused cm)"
proof (induction cms arbitrary: p rule: rev_induct)
  case (snoc cm cms)
  then show ?case by (auto simp: poll_decides)
qed simp

section \<open>Backoff\<close>

definition baseBackoff :: duration where "baseBackoff = 30 * second"
definition maxBackoff :: duration where "maxBackoff = 10 * minute"

fun backoff_loop :: "nat \<Rightarrow> duration \<Rightarrow> duration" where
  "backoff_loop 0 d = d"
| "backoff_loop (Suc n) d =
     (let d = wrap64 (d * 2) in if d \<ge> maxBackoff then maxBackoff else backoff_loop n d)"

definition Backoff :: "int \<Rightarrow> duration" where
  "Backoff attempt = (if attempt \<le> 1 then 0 else backoff_loop (nat (wrap32 (attempt - 2))) baseBackoff)"

lemma backoff_loop_eq:
  "0 < d \<Longrightarrow> d < maxBackoff \<Longrightarrow> backoff_loop n d = min (d * 2 ^ n) maxBackoff"
proof (induction n arbitrary: d)
  case (Suc n)
  have w: "wrap64 (d * 2) = d * 2"
    using Suc.prems by (simp add: maxBackoff_def in_int64_def)
  show ?case
  proof (cases "d * 2 \<ge> maxBackoff")
    case True
    have "d * 2 \<le> d * 2 ^ Suc n" using Suc.prems(1) by simp
    with True have "maxBackoff \<le> d * 2 ^ Suc n" by linarith
    with True w show ?thesis by (simp add: Let_def min_def)
  next
    case False
    with Suc.IH [of "d * 2"] Suc.prems w show ?thesis by (simp add: Let_def ac_simps)
  qed
qed simp

lemma Backoff_eq:
  assumes "2 \<le> attempt" and "in_int32 attempt"
  shows "Backoff attempt = min (30 * second * 2 ^ nat (attempt - 2)) (10 * minute)"
proof -
  have "in_int32 (attempt - 2)" using assms by (auto simp: in_int32_def)
  then show ?thesis
    using assms backoff_loop_eq [of baseBackoff "nat (attempt - 2)"]
    by (simp add: Backoff_def baseBackoff_def maxBackoff_def)
qed

lemma Backoff_range: "0 \<le> Backoff attempt \<and> Backoff attempt \<le> maxBackoff"
proof -
  have "0 < backoff_loop n d \<and> backoff_loop n d \<le> maxBackoff" if "0 < d" "d < maxBackoff" for n d
    using backoff_loop_eq [OF that, of n] that by (simp add: min_def)
  from this [of baseBackoff] show ?thesis
    by (auto simp: Backoff_def baseBackoff_def maxBackoff_def intro: less_imp_le)
qed

end
