(* ===== verification/Escalation.thy ===== *)
theory Escalation
  imports Steps Posture
begin

text \<open>
  The reconciler's configuration (\<open>RemediationReconciler\<close> in \<open>internal/engine/controller.go\<close>)
  and \<open>internal/engine/escalation.go\<close>: the plan that tells somebody that a remediation failed.
\<close>

section \<open>The reconciler's collaborators\<close>

text \<open>
  The guard history is in the state, the logger is left out, and \<open>RParseDuration\<close> is
  \<open>time.ParseDuration\<close>. A nil recorder, event recorder or mapper is \<open>None\<close>.
\<close>

record 'w reconciler =
  RClient :: "'w kube"
  RRegistry :: "'w registry"
  RHistoryLimit :: int
  RConcurrency :: int
  RMetrics :: "'w recorder option"
  REvents :: "'w eventf option"
  RMapper :: "rest_mapper option"
  RNow :: "'w clock"
  RParseDuration :: parse_duration

definition metrics_of :: "'w reconciler \<Rightarrow> 'w recorder" where
  "metrics_of r = recorder_of (RMetrics r)"

definition stepEvents :: "'w reconciler \<Rightarrow> remediation \<Rightarrow> 'w step_events" where
  "stepEvents r rem =
     (if REvents r = None \<or> RMapper r = None then NopStepEvents
      else TargetEvents \<lparr>TERecorder = REvents r, TEMapper = RMapper r, TERemediation = rem_name rem,
             TEStrategy = StrategyName (Spec rem), TENamespace = Namespace (Meta rem)\<rparr>)"

text \<open>The literal both runners are built from: the attempt's and the escalation's.\<close>

definition runner_for :: "'w reconciler \<Rightarrow> remediation \<Rightarrow> bool \<Rightarrow> 'w step_runner" where
  "runner_for r rem dryRun = \<lparr>RunnerRegistry = RRegistry r, RunnerRemediation = rem_name rem,
     RunnerStrategy = StrategyName (Spec rem), RunnerNamespace = Namespace (Meta rem),
     RunnerDryRun = dryRun, RunnerEvents = stepEvents r rem, RunnerNow = RNow r,
     RunnerParseDuration = RParseDuration r\<rparr>"

lemma runner_for_dry [simp]: "RunnerDryRun (runner_for r rem d) = d"
  by (simp add: runner_for_def)

section \<open>The labels\<close>

definition LabelEscalationRemediation :: string where "LabelEscalationRemediation = ''remedik_remediation''"
definition LabelEscalationStrategy :: string where "LabelEscalationStrategy = ''remedik_strategy''"
definition LabelEscalationTarget :: string where "LabelEscalationTarget = ''remedik_target''"
definition LabelEscalationReason :: string where "LabelEscalationReason = ''remedik_reason''"
definition LabelEscalationMessage :: string where "LabelEscalationMessage = ''remedik_message''"
definition LabelEscalationAttempts :: string where "LabelEscalationAttempts = ''remedik_attempts''"
definition LabelEscalationDryRun :: string where "LabelEscalationDryRun = ''remedik_dry_run''"

lemmas escalation_label_defs = LabelEscalationRemediation_def LabelEscalationStrategy_def
  LabelEscalationTarget_def LabelEscalationReason_def LabelEscalationMessage_def
  LabelEscalationAttempts_def LabelEscalationDryRun_def

definition format_bool :: "bool \<Rightarrow> string" where
  "format_bool b = (if b then ''true'' else ''false'')"

definition escalationLabels :: "remediation \<Rightarrow> int \<Rightarrow> string \<Rightarrow> string \<Rightarrow> bool \<Rightarrow> smap" where
  "escalationLabels rem attempts reason message dryRun =
     (let labels = fold (\<lambda>(k, v) m. map_put k v m) (RefLabels (SpecAlert (Spec rem))) [];
          labels = map_put LabelEscalationRemediation (rem_name rem) labels;
          labels = map_put LabelEscalationStrategy (StrategyName (Spec rem)) labels;
          labels = map_put LabelEscalationTarget (SpecTarget (Spec rem)) labels;
          labels = map_put LabelEscalationReason reason labels;
          labels = map_put LabelEscalationMessage message labels;
          labels = map_put LabelEscalationAttempts (itoa attempts) labels
      in map_put LabelEscalationDryRun (format_bool dryRun) labels)"

lemma fold_map_put_get:
  "map_wf m \<Longrightarrow> map_get (fold (\<lambda>(k, v) m. map_put k v m) m acc) k
     = (if k \<in> fst ` set m then map_get m k else map_get acc k)"
proof (induction m arbitrary: acc)
  case (Cons p m)
  obtain k' v where p: "p = (k', v)" by (cases p)
  have IH: "map_get (fold (\<lambda>(k, v) m. map_put k v m) m (map_put k' v acc)) k
     = (if k \<in> fst ` set m then map_get m k else map_get (map_put k' v acc) k)"
    using Cons by simp
  have "map_get (p # m) k = (if k = k' then v else map_get m k)" by (simp add: p map_get_def)
  moreover have "k' \<notin> fst ` set m" using Cons.prems p by simp
  ultimately show ?case using IH p by (simp add: map_get_map_put)
qed simp

lemma map_get_absent: "k \<notin> fst ` set m \<Longrightarrow> map_get m k = ''''"
  by (simp add: map_get_def map_of_eq_None_iff [THEN iffD2])

definition escalation_label_names :: "string list" where
  "escalation_label_names = [LabelEscalationRemediation, LabelEscalationStrategy, LabelEscalationTarget,
     LabelEscalationReason, LabelEscalationMessage, LabelEscalationAttempts, LabelEscalationDryRun]"

lemma escalationLabels_get:
  assumes "map_wf (RefLabels (SpecAlert (Spec rem)))"
  shows "map_get (escalationLabels rem attempts reason message d) k =
    (if k = LabelEscalationDryRun then format_bool d
     else if k = LabelEscalationAttempts then itoa attempts
     else if k = LabelEscalationMessage then message
     else if k = LabelEscalationReason then reason
     else if k = LabelEscalationTarget then SpecTarget (Spec rem)
     else if k = LabelEscalationStrategy then StrategyName (Spec rem)
     else if k = LabelEscalationRemediation then rem_name rem
     else map_get (RefLabels (SpecAlert (Spec rem))) k)"
  using assms
  by (simp add: escalationLabels_def Let_def map_get_map_put fold_map_put_get map_get_absent)

section \<open>The channels\<close>

definition EscalationTimeout :: duration where "EscalationTimeout = 2 * minute"

definition channel_skipped :: "nat \<Rightarrow> step \<Rightarrow> step_status" where
  "channel_skipped i stp = zero_step_status\<lparr>Index := wrap32 (int i), StepAction := Action stp,
     Phase := StepPhaseSkipped, StepMessage := ''an earlier channel already reached somebody''\<rparr>"

fun channels_loop ::
  "'w step_runner \<Rightarrow> ctx \<Rightarrow> smap \<Rightarrow> escalation_mode \<Rightarrow> nat \<Rightarrow> step list
     \<Rightarrow> step_status list \<times> bool \<times> go_error option \<Rightarrow> 'w st
     \<Rightarrow> (step_status list \<times> bool \<times> go_error option) \<times> 'w st" where
  "channels_loop r c labels mode i [] acc s = (acc, s)"
| "channels_loop r c labels mode i (stp # plan) (steps, delivered, lastErr) s =
     (if delivered \<and> mode = EscalationModeFirstSuccess
      then channels_loop r c labels mode (Suc i) plan (steps @ [channel_skipped i stp], delivered, lastErr) s
      else
        (let ((status, err), s) = Step r c i labels stp s;
             steps = steps @ [status]
         in if err \<noteq> None
            then channels_loop r c labels mode (Suc i) plan (steps, delivered, err) s
            else channels_loop r c labels mode (Suc i) plan (steps, True, lastErr) s))"

definition runChannels ::
  "'w step_runner \<Rightarrow> ctx \<Rightarrow> smap \<Rightarrow> step list \<Rightarrow> escalation_mode \<Rightarrow> 'w st
     \<Rightarrow> (step_status list \<times> bool \<times> go_error option) \<times> 'w st" where
  "runChannels r c labels plan mode s = channels_loop r c labels mode 0 plan ([], False, None) s"

text \<open>
  \<open>context.WithoutCancel\<close> drops every deadline of the context. The message of the last error is
  read only when nothing was delivered, and then there is one (\<open>runChannels_undelivered\<close>).
\<close>

definition WithoutCancel :: "ctx \<Rightarrow> ctx" where "WithoutCancel c = []"

definition escalate ::
  "'w reconciler \<Rightarrow> ctx \<Rightarrow> remediation \<Rightarrow> int \<Rightarrow> string \<Rightarrow> string \<Rightarrow> 'w st
     \<Rightarrow> escalation_status option \<times> 'w st" where
  "escalate r c rem attempts reason message s =
     (if length (EscalationSteps (Spec rem)) = 0 then (None, s)
      else
        (let c = EscalationTimeout # WithoutCancel c;
             labels = escalationLabels rem attempts reason message (DryRun (Spec rem));
             ((steps, delivered, lastErr), s) = runChannels (runner_for r rem False) c labels
                (EscalationSteps (Spec rem)) (EscalationMode (Spec rem)) s;
             (completed, s) = read_clock (RNow r) s;
             status = \<lparr>EscPhase = StepPhaseSucceeded, EscSteps = steps, EscMessage = '''',
                        EscCompletedAt = Some completed\<rparr>;
             status = (if \<not> delivered
                       then status\<lparr>EscPhase := StepPhaseFailed,
                              EscMessage := (case lastErr of None \<Rightarrow> '''' | Some e \<Rightarrow> err_text e)\<rparr>
                       else status);
             s = count_effect (EscalationCounted (StrategyName (Spec rem)) (phase_string (EscPhase status)))
                   (MEscalationFinished (metrics_of r) (StrategyName (Spec rem)) (phase_string (EscPhase status))) s
         in (Some status, s)))"

section \<open>What the channels did\<close>

text \<open>
  Every channel is called, in order, except that in \<open>firstSuccess\<close> mode the channels after a
  delivery are skipped and call nothing.
\<close>

fun channel_shape ::
  "'w step_runner \<Rightarrow> ctx \<Rightarrow> smap \<Rightarrow> escalation_mode \<Rightarrow> nat \<Rightarrow> step list \<Rightarrow> bool \<Rightarrow> step_status list \<Rightarrow> effect list \<Rightarrow> bool" where
  "channel_shape r c l mode i [] d sts es \<longleftrightarrow> sts = [] \<and> es = []"
| "channel_shape r c l mode i (p # ps) d sts es \<longleftrightarrow>
     (\<exists>st sts' es1 es2. sts = st # sts' \<and> es = es1 @ es2 \<and>
        (if d \<and> mode = EscalationModeFirstSuccess
         then st = channel_skipped i p \<and> es1 = [] \<and> channel_shape r c l mode (Suc i) ps d sts' es2
         else step_calls r c l p es1 \<and>
           (\<exists>err. step_done r i p st err \<and> channel_shape r c l mode (Suc i) ps (d \<or> err = None) sts' es2)))"

lemma channels_loop_shape:
  assumes "channels_loop r c l mode i plan (steps, d, le) s = ((steps', d', le'), s')"
  shows "\<exists>sts es. steps' = steps @ sts \<and> channel_shape r c l mode i plan d sts es
    \<and> Trace s' = Trace s @ es \<and> History s' = History s"
  using assms
proof (induction plan arbitrary: i steps d le s)
  case Nil
  then show ?case by auto
next
  case (Cons p ps)
  show ?case
  proof (cases "d \<and> mode = EscalationModeFirstSuccess")
    case True
    with Cons.prems have "channels_loop r c l mode (Suc i) ps (steps @ [channel_skipped i p], d, le) s = ((steps', d', le'), s')"
      by simp
    from Cons.IH [OF this] obtain sts es where "steps' = steps @ channel_skipped i p # sts"
      "channel_shape r c l mode (Suc i) ps d sts es" "Trace s' = Trace s @ es" "History s' = History s" by auto
    then show ?thesis using True
      by (intro exI [of _ "channel_skipped i p # sts"] exI [of _ es]) auto
  next
    case False
    obtain st err s1 where run: "runStep r c i l p s = ((st, err), s1)" by (metis prod.exhaust)
    from runStep_spec [of r c i l p s] run obtain es1 where
      st: "step_done r i p st err" and h: "History s1 = History s" and tr: "Trace s1 = Trace s @ es1"
      and calls: "step_calls r c l p es1" by (auto simp: step_spec_def)
    have "channels_loop r c l mode (Suc i) ps (steps @ [st], d \<or> err = None, if err \<noteq> None then err else le) s1 = ((steps', d', le'), s')"
      using Cons.prems False run by (auto simp: Step_def split: if_splits)
    from Cons.IH [OF this] obtain sts es where "steps' = steps @ st # sts"
      "channel_shape r c l mode (Suc i) ps (d \<or> err = None) sts es" "Trace s' = Trace s1 @ es" "History s' = History s1" by auto
    then show ?thesis using False st h tr calls
      by (intro exI [of _ "st # sts"] exI [of _ "es1 @ es"]) auto
  qed
qed

lemma channels_loop_delivered:
  assumes "channels_loop r c l mode i plan (steps, d, le) s = ((steps', d', le'), s')" and "\<not> RunnerDryRun r"
  shows "\<exists>sts. steps' = steps @ sts \<and> (d' \<longleftrightarrow> d \<or> (\<exists>st \<in> set sts. Phase st = StepPhaseSucceeded))
    \<and> (le' = le \<and> (\<forall>st \<in> set sts. Phase st \<noteq> StepPhaseFailed)
       \<or> (\<exists>e st. le' = Some e \<and> st \<in> set sts \<and> Phase st = StepPhaseFailed \<and> StepMessage st = err_text e))
    \<and> (plan \<noteq> [] \<longrightarrow> d' \<or> le' \<noteq> None)"
  using assms(1)
proof (induction plan arbitrary: i steps d le s)
  case Nil
  then show ?case by auto
next
  case (Cons p ps)
  show ?case
  proof (cases "d \<and> mode = EscalationModeFirstSuccess")
    case True
    with Cons.prems have "channels_loop r c l mode (Suc i) ps (steps @ [channel_skipped i p], d, le) s = ((steps', d', le'), s')"
      by simp
    from Cons.IH [OF this] True show ?thesis
      by (force simp: channel_skipped_def)
  next
    case False
    obtain st err s1 where run: "runStep r c i l p s = ((st, err), s1)" by (metis prod.exhaust)
    from runStep_spec [of r c i l p s] run have st: "step_done r i p st err" by (auto simp: step_spec_def)
    have rest: "channels_loop r c l mode (Suc i) ps (steps @ [st], d \<or> err = None, if err \<noteq> None then err else le) s1 = ((steps', d', le'), s')"
      using Cons.prems False run by (auto simp: Step_def split: if_splits)
    from Cons.IH [OF rest] obtain sts where "steps' = (steps @ [st]) @ sts"
      and dl: "d' \<longleftrightarrow> (d \<or> err = None) \<or> (\<exists>st \<in> set sts. Phase st = StepPhaseSucceeded)"
      and le: "le' = (if err \<noteq> None then err else le) \<and> (\<forall>st \<in> set sts. Phase st \<noteq> StepPhaseFailed)
       \<or> (\<exists>e st. le' = Some e \<and> st \<in> set sts \<and> Phase st = StepPhaseFailed \<and> StepMessage st = err_text e)"
      by blast
    then have st': "steps' = steps @ (st # sts)" by simp
    show ?thesis
    proof (cases err)
      case None
      then have "Phase st = StepPhaseSucceeded" using st assms(2) by (simp add: step_done_def)
      then show ?thesis using st' dl le None by (intro exI [of _ "st # sts"]) auto
    next
      case (Some e)
      then have "Phase st = StepPhaseFailed" "StepMessage st = err_text e" using st by (simp_all add: step_done_def)
      then show ?thesis using st' dl le Some by (intro exI [of _ "st # sts"]) auto
    qed
  qed
qed

lemma runChannels_shape:
  assumes "runChannels r c l plan mode s = ((sts, d, le), s')"
  shows "\<exists>es. channel_shape r c l mode 0 plan False sts es \<and> Trace s' = Trace s @ es \<and> History s' = History s"
  using channels_loop_shape [of r c l mode 0 plan "[]" False None s sts d le s'] assms
  by (simp add: runChannels_def)

lemma runChannels_delivered:
  assumes "runChannels r c l plan mode s = ((sts, d, le), s')" and "\<not> RunnerDryRun r"
  shows "d \<longleftrightarrow> (\<exists>st \<in> set sts. Phase st = StepPhaseSucceeded)"
    and "le = None \<and> (\<forall>st \<in> set sts. Phase st \<noteq> StepPhaseFailed)
       \<or> (\<exists>e st. le = Some e \<and> st \<in> set sts \<and> Phase st = StepPhaseFailed \<and> StepMessage st = err_text e)"
  using channels_loop_delivered [OF assms [unfolded runChannels_def]] by simp_all

lemma runChannels_undelivered:
  assumes "runChannels r c l plan mode s = ((sts, d, le), s')" and "plan \<noteq> []" and "\<not> RunnerDryRun r"
  shows "d \<or> le \<noteq> None"
  using channels_loop_delivered [OF assms(1) [unfolded runChannels_def] assms(3)] assms(2) by blast

lemma channel_shape_calls:
  "channel_shape r c l mode i plan d sts es \<Longrightarrow> \<not> RunnerDryRun r \<Longrightarrow>
     list_all is_live_call es \<and> list_all (\<lambda>e. \<forall>c' n req. e = ExecuteCall c' n req \<longrightarrow> c' = c) es"
proof (induction plan arbitrary: i d sts es)
  case (Cons p ps)
  have one: "step_calls r c l p es1 \<Longrightarrow> list_all is_live_call es1 \<and> list_all (\<lambda>e. \<forall>c' n req. e = ExecuteCall c' n req \<longrightarrow> c' = c) es1" for es1
    using Cons.prems(2) by (auto simp: step_calls_def is_live_call_def request_for_def split: if_splits)
  from Cons.prems(1) have "\<exists>sts' es1 es2 d'. es = es1 @ es2 \<and> (es1 = [] \<or> step_calls r c l p es1)
    \<and> channel_shape r c l mode (Suc i) ps d' sts' es2" by (simp split: if_splits) blast+
  then obtain sts' es1 es2 d' where "es = es1 @ es2" "es1 = [] \<or> step_calls r c l p es1"
    "channel_shape r c l mode (Suc i) ps d' sts' es2" by blast
  with one Cons.IH Cons.prems(2) show ?case by auto
qed simp

lemma channel_shape_length: "channel_shape r c l mode i plan d sts es \<Longrightarrow> length sts = length plan"
  by (induction plan arbitrary: i d sts es) (auto split: if_splits)

text \<open>Outside \<open>firstSuccess\<close> mode no channel is skipped.\<close>

lemma channel_shape_all:
  "channel_shape r c l mode i plan d sts es \<Longrightarrow> mode \<noteq> EscalationModeFirstSuccess \<Longrightarrow> \<not> RunnerDryRun r \<Longrightarrow>
     \<forall>st \<in> set sts. Phase st = StepPhaseSucceeded \<or> Phase st = StepPhaseFailed"
proof (induction plan arbitrary: i d sts es)
  case (Cons p ps)
  from Cons.prems obtain st sts' err d' es2 where "sts = st # sts'" "step_done r i p st err"
    "channel_shape r c l mode (Suc i) ps d' sts' es2" by auto
  with Cons.IH Cons.prems(2,3) show ?case by (cases err) (auto simp: step_done_def)
qed simp

text \<open>In \<open>firstSuccess\<close> mode the channels fail up to the one that delivers, and stop there.\<close>

lemma channel_shape_delivered:
  "channel_shape r c l EscalationModeFirstSuccess i plan True sts es \<Longrightarrow>
     es = [] \<and> list_all (\<lambda>st. Phase st = StepPhaseSkipped) sts"
  by (induction plan arbitrary: i sts es) (auto simp: channel_skipped_def)

lemma channel_shape_first:
  "channel_shape r c l EscalationModeFirstSuccess i plan False sts es \<Longrightarrow> \<not> RunnerDryRun r \<Longrightarrow>
     \<exists>k \<le> length sts. (\<forall>j < k. Phase (sts ! j) = StepPhaseFailed)
       \<and> (k < length sts \<longrightarrow> Phase (sts ! k) = StepPhaseSucceeded
            \<and> (\<forall>j. k < j \<and> j < length sts \<longrightarrow> Phase (sts ! j) = StepPhaseSkipped))"
proof (induction plan arbitrary: i sts es)
  case (Cons p ps)
  from Cons.prems obtain st sts' err es2 where sts: "sts = st # sts'" and st: "step_done r i p st err"
    and rest: "channel_shape r c l EscalationModeFirstSuccess (Suc i) ps (err = None) sts' es2" by auto
  show ?case
  proof (cases err)
    case None
    then have "Phase st = StepPhaseSucceeded" and "list_all (\<lambda>st. Phase st = StepPhaseSkipped) sts'"
      using st rest Cons.prems(2) channel_shape_delivered by (simp_all add: step_done_def) blast
    then show ?thesis using sts
      by (intro exI [of _ 0]) (auto simp: nth_Cons' list_all_length)
  next
    case (Some e)
    then have failed: "Phase st = StepPhaseFailed" using st by (simp add: step_done_def)
    from Cons.IH [of "Suc i" sts' es2] rest Some Cons.prems(2) obtain k where k: "k \<le> length sts'"
      "\<forall>j < k. Phase (sts' ! j) = StepPhaseFailed"
      "k < length sts' \<longrightarrow> Phase (sts' ! k) = StepPhaseSucceeded
            \<and> (\<forall>j. k < j \<and> j < length sts' \<longrightarrow> Phase (sts' ! j) = StepPhaseSkipped)" by auto
    then show ?thesis using sts failed
      by (intro exI [of _ "Suc k"]) (auto simp: nth_Cons' less_Suc_eq_0_disj gr0_conv_Suc)
  qed
qed simp

section \<open>What an escalation did\<close>

definition escalation_calls :: "effect list \<Rightarrow> bool" where
  "escalation_calls es \<longleftrightarrow> (\<exists>es1 strat ph. (es = [] \<or> es = es1 @ [EscalationCounted strat ph])
     \<and> list_all is_live_call es1 \<and> list_all (\<lambda>e. \<forall>c' n req. e = ExecuteCall c' n req \<longrightarrow> c' = [EscalationTimeout]) es1)"

lemma escalate_None: "EscalationSteps (Spec rem) = [] \<Longrightarrow> escalate r c rem a reason m s = (None, s)"
  by (simp add: escalate_def)

lemma escalateD:
  assumes "escalate r c rem a reason m s = (esc, s')" and "EscalationSteps (Spec rem) \<noteq> []"
  shows "\<exists>x es. esc = Some x \<and> Trace s' = Trace s @ es @ [EscalationCounted (StrategyName (Spec rem)) (phase_string (EscPhase x))]
    \<and> History s' = History s
    \<and> channel_shape (runner_for r rem False) [EscalationTimeout]
         (escalationLabels rem a reason m (DryRun (Spec rem))) (EscalationMode (Spec rem)) 0
         (EscalationSteps (Spec rem)) False (EscSteps x) es
    \<and> EscPhase x = (if \<exists>st \<in> set (EscSteps x). Phase st = StepPhaseSucceeded then StepPhaseSucceeded else StepPhaseFailed)
    \<and> (EscPhase x = StepPhaseFailed \<longrightarrow> (\<exists>st \<in> set (EscSteps x). Phase st = StepPhaseFailed \<and> StepMessage st = EscMessage x))
    \<and> EscCompletedAt x \<noteq> None"
proof -
  let ?l = "escalationLabels rem a reason m (DryRun (Spec rem))"
  obtain sts d le s1 where run: "runChannels (runner_for r rem False) [EscalationTimeout] ?l
      (EscalationSteps (Spec rem)) (EscalationMode (Spec rem)) s = ((sts, d, le), s1)" by (metis prod.exhaust)
  obtain t s2 where clk: "read_clock (RNow r) s1 = (t, s2)" by fastforce
  let ?x = "\<lparr>EscPhase = (if d then StepPhaseSucceeded else StepPhaseFailed), EscSteps = sts,
    EscMessage = (if d then '''' else case le of None \<Rightarrow> '''' | Some e \<Rightarrow> err_text e), EscCompletedAt = Some t\<rparr>"
  have esc: "esc = Some ?x" and s': "Trace s' = Trace s2 @ [EscalationCounted (StrategyName (Spec rem)) (phase_string (EscPhase ?x))]"
    "History s' = History s2"
    using assms run clk by (auto simp: escalate_def Let_def WithoutCancel_def count_effect_def split: if_splits)
  obtain es where es: "channel_shape (runner_for r rem False) [EscalationTimeout] ?l (EscalationMode (Spec rem)) 0
      (EscalationSteps (Spec rem)) False sts es" "Trace s1 = Trace s @ es" "History s1 = History s"
    using runChannels_shape [OF run] by blast
  have del: "d \<longleftrightarrow> (\<exists>st \<in> set sts. Phase st = StepPhaseSucceeded)"
    and le: "\<not> d \<longrightarrow> (\<exists>e. le = Some e \<and> (\<exists>st \<in> set sts. Phase st = StepPhaseFailed \<and> StepMessage st = err_text e))"
    using runChannels_delivered [OF run] runChannels_undelivered [OF run assms(2)] by auto
  show ?thesis
    by (rule exI [of _ ?x], rule exI [of _ es])
       (use esc s' es read_clockD [OF clk] le in \<open>auto simp: frame_def simp flip: del\<close>)
qed

lemma escalate_calls:
  assumes "escalate r c rem a reason m s = (esc, s')"
  shows "\<exists>es. Trace s' = Trace s @ es \<and> escalation_calls es \<and> History s' = History s"
proof (cases "EscalationSteps (Spec rem) = []")
  case True
  then have "s' = s" using assms by (simp add: escalate_None)
  then show ?thesis by (intro exI [of _ "[]"]) (auto simp: escalation_calls_def intro: exI [of _ "[]"])
next
  case False
  obtain x :: escalation_status and es where "Trace s' = Trace s @ es @ [EscalationCounted (StrategyName (Spec rem)) (phase_string (EscPhase x))]"
    "History s' = History s" and sh: "channel_shape (runner_for r rem False) [EscalationTimeout]
         (escalationLabels rem a reason m (DryRun (Spec rem))) (EscalationMode (Spec rem)) 0
         (EscalationSteps (Spec rem)) False (EscSteps x) es"
    using escalateD [OF assms False] by blast
  with channel_shape_calls [OF sh] show ?thesis by (auto simp: escalation_calls_def)
qed

end
