(* ===== verification/Controller.thy ===== *)
theory Controller
  imports Escalation
begin

text \<open>
  \<open>internal/engine/controller.go\<close>: one attempt of a remediation, the ways a record is finished,
  and the pruning of old records. The handlers of a human decision and \<open>Reconcile\<close> itself are in
  \<open>Approval\<close>. An outcome \<open>Inr d\<close> of a handler is a \<open>ctrl.Result\<close> with \<open>RequeueAfter = d\<close>, zero
  when nothing is requeued; \<open>None\<close> is a nil error.
\<close>

type_synonym reconcile_result = "go_error + duration"

definition DefaultConcurrency :: int where "DefaultConcurrency = 4"
definition DefaultHistoryLimit :: int where "DefaultHistoryLimit = 200"

section \<open>Pruning\<close>

text \<open>The comparison of the \<open>sort.Slice\<close> call: newest first, the name breaks ties.\<close>

definition newer :: "remediation \<Rightarrow> remediation \<Rightarrow> bool" where
  "newer a b =
     (let ti = CreationTimestamp (Meta a); tj = CreationTimestamp (Meta b)
      in if ti = tj then rem_name a > rem_name b else ti > tj)"

definition prune_limit :: "'w reconciler \<Rightarrow> int" where
  "prune_limit r = (if RHistoryLimit r \<le> 0 then DefaultHistoryLimit else RHistoryLimit r)"

definition prune_candidates :: "string \<Rightarrow> remediation list \<Rightarrow> remediation list" where
  "prune_candidates keep items = filter (\<lambda>x. IsTerminal (rem_state x) \<and> rem_name x \<noteq> keep) items"

definition prune_victims :: "int \<Rightarrow> string \<Rightarrow> remediation list \<Rightarrow> remediation list" where
  "prune_victims limit keep items =
     (let terminal = prune_candidates keep items in
      if int (length terminal) + 1 \<le> limit then []
      else
        (let budget = (if limit - 1 < 0 then 0 else limit - 1)
         in drop (nat budget) (sort_slice newer terminal)))"

fun delete_loop :: "'w kube \<Rightarrow> remediation list \<Rightarrow> 'w st \<Rightarrow> go_error option \<times> 'w st" where
  "delete_loop k [] s = (None, s)"
| "delete_loop k (old # rest) s =
     (let (err, s) = delete_remediation k old s in
      case err of
        None \<Rightarrow> delete_loop k rest s
      | Some e \<Rightarrow> if \<not> isNotFound e then (Some (Wrap (''delete '' @ rem_name old @ '': '') e ''''), s)
                  else delete_loop k rest s)"

definition prune :: "'w reconciler \<Rightarrow> string \<Rightarrow> string \<Rightarrow> string \<Rightarrow> 'w st \<Rightarrow> go_error option \<times> 'w st" where
  "prune r namespace strat keep s =
     (let (listed, s) = kube_list (RClient r) namespace [(LabelStrategy, strat)] s in
      case listed of
        Inl e \<Rightarrow> (Some e, s)
      | Inr items \<Rightarrow> delete_loop (RClient r) (prune_victims (prune_limit r) keep items) s)"

section \<open>Finishing\<close>

definition finish ::
  "'w reconciler \<Rightarrow> remediation \<Rightarrow> remediation_state \<Rightarrow> string \<Rightarrow> string \<Rightarrow> 'w st \<Rightarrow> go_error option \<times> 'w st" where
  "finish r rem state reason message s =
     (let (completed, s) = read_clock (RNow r) s;
          rem = rem\<lparr>Status := (Status rem)\<lparr>State := state, Reason := reason, Message := message,
                                          CompletedAt := Some completed\<rparr>\<rparr>;
          (written, s) = update_status (RClient r) rem s
      in case written of
           Inl e \<Rightarrow> (Some (Wrap ''record terminal state: '' e ''''), s)
         | Inr rem \<Rightarrow>
             (let s = (if SpecTarget (Spec rem) \<noteq> ''''
                       then if reason \<noteq> ReasonGaveUp
                            then record_completion (StrategyName (Spec rem)) (SpecTarget (Spec rem)) completed s
                            else s
                       else s);
                  elapsed = (case StartedAt (Status rem) of None \<Rightarrow> 0 | Some t \<Rightarrow> time_sub completed t);
                  s = count_effect (FinishCounted (StrategyName (Spec rem)) (state_string state) elapsed)
                        (MRemediationFinished (metrics_of r) (StrategyName (Spec rem)) (state_string state) elapsed) s;
                  (pruned, s) = prune r (Namespace (Meta rem)) (StrategyName (Spec rem)) (rem_name rem) s
              in (None, s)))"

text \<open>A handler that returns \<open>ctrl.Result{}\<close> with what \<open>finish\<close> returned.\<close>

definition no_requeue :: "go_error option \<times> 'w st \<Rightarrow> reconcile_result \<times> 'w st" where
  "no_requeue out = (case fst out of None \<Rightarrow> Inr 0 | Some e \<Rightarrow> Inl e, snd out)"

definition interrupt_step :: "step_status \<Rightarrow> step_status" where
  "interrupt_step st =
     (if Phase st = StepPhaseRunning
      then st\<lparr>Phase := StepPhaseFailed, StepMessage := ''the operator restarted while this step was running''\<rparr>
      else st)"

definition markInterrupted :: "'w reconciler \<Rightarrow> remediation \<Rightarrow> 'w st \<Rightarrow> go_error option \<times> 'w st" where
  "markInterrupted r rem s =
     (let rem = rem\<lparr>Status := (Status rem)\<lparr>StatusSteps := map interrupt_step (StatusSteps (Status rem))\<rparr>\<rparr>
      in finish r rem RemediationStateFailed ReasonInterrupted
           ''the operator restarted while this remediation was running'' s)"

definition gave_up_message :: "remediation \<Rightarrow> string" where
  "gave_up_message rem =
     (let message = map_get (Annotations (Meta rem)) AnnotationGaveUpReason
      in if message = '''' then ''repeated remediation has not resolved this; it needs a person''
         else message)"

definition markGaveUp :: "'w reconciler \<Rightarrow> ctx \<Rightarrow> remediation \<Rightarrow> 'w st \<Rightarrow> go_error option \<times> 'w st" where
  "markGaveUp r c rem s =
     (let message = gave_up_message rem;
          (esc, s) = escalate r c rem 0 ReasonGaveUp message s;
          rem = rem\<lparr>Status := (Status rem)\<lparr>Escalation := esc\<rparr>\<rparr>
      in finish r rem RemediationStateFailed ReasonGaveUp message s)"

section \<open>An attempt\<close>

definition retriesFor :: "remediation \<Rightarrow> int" where
  "retriesFor rem = Retries (Spec rem)"

text \<open>The record as it is written before anything runs.\<close>

definition running_record :: "remediation \<Rightarrow> time \<Rightarrow> remediation" where
  "running_record rem started =
     rem\<lparr>Status := (Status rem)\<lparr>State := RemediationStateRunning, Attempt := wrap32 (Attempt (Status rem) + 1),
            StatusSteps := [],
            StartedAt := (if StartedAt (Status rem) = None then Some started else StartedAt (Status rem))\<rparr>\<rparr>"

text \<open>What follows the run: finish, retry after a wait, or escalate and finish.\<close>

definition conclude_attempt ::
  "'w reconciler \<Rightarrow> ctx \<Rightarrow> int \<Rightarrow> remediation \<Rightarrow> run_result \<Rightarrow> 'w st \<Rightarrow> reconcile_result \<times> 'w st" where
  "conclude_attempt r c attempt rem res s =
     (let rem = rem\<lparr>Status := (Status rem)\<lparr>StatusSteps := RunSteps res\<rparr>\<rparr> in
      case RunErr res of
        None \<Rightarrow> no_requeue (finish r rem (TerminalState (DryRun (Spec rem)) None) '''' '''' s)
      | Some e \<Rightarrow>
          if attempt \<le> retriesFor rem
          then
            (let wait = Backoff (wrap32 (attempt + 1));
                 rem = rem\<lparr>Status := (Status rem)\<lparr>State := RemediationStatePending, Reason := RunReason res,
                              Message := err_text e\<rparr>\<rparr>;
                 (written, s) = update_status (RClient r) rem s
             in case written of
                  Inl e \<Rightarrow> (Inl (Wrap ''record failed attempt: '' e ''''), s)
                | Inr rem \<Rightarrow> (Inr wait, s))
          else
            (let (esc, s) = escalate r c rem attempt (RunReason res) (err_text e) s;
                 rem = rem\<lparr>Status := (Status rem)\<lparr>Escalation := esc\<rparr>\<rparr>
             in no_requeue (finish r rem RemediationStateFailed (RunReason res) (err_text e) s)))"

definition runAttempt :: "'w reconciler \<Rightarrow> ctx \<Rightarrow> remediation \<Rightarrow> 'w st \<Rightarrow> reconcile_result \<times> 'w st" where
  "runAttempt r c rem s =
     (let attempt = wrap32 (Attempt (Status rem) + 1);
          (started, s) = read_clock (RNow r) s;
          (written, s) = update_status (RClient r) (running_record rem started) s
      in case written of
           Inl e \<Rightarrow> (Inl (Wrap ''mark remediation running: '' e ''''), s)
         | Inr rem \<Rightarrow>
             (let (res, s) = Run (runner_for r rem (DryRun (Spec rem))) c
                               (RefLabels (SpecAlert (Spec rem))) (SpecSteps (Spec rem)) s
              in conclude_attempt r c attempt rem res s))"

text \<open>
  \<open>SetupWithManager\<close>, as far as the repository decides: the number of workers it asks the
  manager for, or a refusal.
\<close>

definition SetupWithManager :: "'w reconciler \<Rightarrow> go_error + int" where
  "SetupWithManager r =
     (let concurrency = (if RConcurrency r = 0 then DefaultConcurrency else RConcurrency r) in
      if concurrency < 1
      then Inl (Err (''concurrency must be at least 1, got '' @ itoa concurrency))
      else Inr concurrency)"

section \<open>Which records pruning deletes\<close>

lemma strict_weak_newer: "strict_weak newer"
  unfolding strict_weak_def newer_def Let_def by (auto split: if_splits)

text \<open>The candidates that stay.\<close>

definition prune_kept :: "int \<Rightarrow> string \<Rightarrow> remediation list \<Rightarrow> remediation list" where
  "prune_kept limit keep items = take (nat (limit - 1)) (sort_slice newer (prune_candidates keep items))"

lemma prune_victims_eq:
  "1 \<le> limit \<Longrightarrow> prune_victims limit keep items = drop (nat (limit - 1)) (sort_slice newer (prune_candidates keep items))"
  by (auto simp: prune_victims_def Let_def)

lemma prune_partition:
  assumes "1 \<le> limit"
  shows "mset (prune_kept limit keep items) + mset (prune_victims limit keep items) = mset (prune_candidates keep items)"
proof -
  let ?xs = "sort_slice newer (prune_candidates keep items)"
  have "mset (take (nat (limit - 1)) ?xs) + mset (drop (nat (limit - 1)) ?xs) = mset ?xs"
    by (simp only: append_take_drop_id flip: mset_append)
  then show ?thesis by (simp only: prune_kept_def prune_victims_eq [OF assms] mset_sort_slice)
qed

lemma prune_victims_oldest:
  assumes "1 \<le> limit" and "k \<in> set (prune_kept limit keep items)" and "v \<in> set (prune_victims limit keep items)"
  shows "\<not> newer v k"
proof -
  let ?xs = "sort_slice newer (prune_candidates keep items)" and ?n = "nat (limit - 1)"
  have "sorted_wrt (\<lambda>a b. \<not> newer b a) (take ?n ?xs @ drop ?n ?xs)"
    using sorted_sort_slice [OF strict_weak_newer, of "prune_candidates keep items"] by simp
  then have "\<forall>a \<in> set (take ?n ?xs). \<forall>b \<in> set (drop ?n ?xs). \<not> newer b a"
    unfolding sorted_wrt_append by blast
  with assms show ?thesis by (simp add: prune_kept_def prune_victims_eq)
qed

lemma prune_victims_set:
  "1 \<le> limit \<Longrightarrow> v \<in> set (prune_victims limit keep items) \<Longrightarrow> v \<in> set items \<and> IsTerminal (rem_state v) \<and> rem_name v \<noteq> keep"
  using in_set_dropD [of v "nat (limit - 1)" "sort_slice newer (prune_candidates keep items)"]
  by (simp add: prune_victims_eq) (simp add: prune_candidates_def)

lemma prune_kept_length:
  "1 \<le> limit \<Longrightarrow> int (length (prune_kept limit keep items)) \<le> limit - 1"
  by (simp add: prune_kept_def)

lemma prune_limit_pos: "1 \<le> prune_limit r"
  by (simp add: prune_limit_def DefaultHistoryLimit_def)

section \<open>What the handlers do\<close>

definition is_delete :: "effect \<Rightarrow> bool" where
  "is_delete e \<longleftrightarrow> (\<exists>n ok. e = DeleteCall n ok)"

lemma delete_loopD:
  assumes "delete_loop k vs s = (err, s')"
  shows "\<exists>oks. Trace s' = Trace s @ map2 (\<lambda>v ok. DeleteCall (rem_name v) ok) vs oks \<and> History s' = History s
    \<and> length oks \<le> length vs \<and> (err = None \<longrightarrow> length oks = length vs)"
  using assms
proof (induction vs arbitrary: s)
  case Nil
  then show ?case by simp
next
  case (Cons v vs)
  obtain e s1 where d: "delete_remediation k v s = (e, s1)" by fastforce
  note D = delete_remediationD [OF d]
  show ?case
  proof (cases "\<exists>x. e = Some x \<and> \<not> isNotFound x")
    case True
    with Cons.prems d have "s' = s1" "err \<noteq> None" by auto
    with D show ?thesis by (intro exI [of _ "[e = None]"]) auto
  next
    case False
    with Cons.prems d have "delete_loop k vs s1 = (err, s')" by (auto split: option.splits)
    from Cons.IH [OF this] obtain oks where "Trace s' = Trace s1 @ map2 (\<lambda>v ok. DeleteCall (rem_name v) ok) vs oks"
      "History s' = History s1" "length oks \<le> length vs" "err = None \<longrightarrow> length oks = length vs" by blast
    with D show ?thesis by (intro exI [of _ "(e = None) # oks"]) simp
  qed
qed

lemma pruneD:
  assumes "prune r ns strat keep s = (err, s')"
  shows "\<exists>items oks. Trace s' = Trace s @ map2 (\<lambda>v ok. DeleteCall (rem_name v) ok) (prune_victims (prune_limit r) keep items) oks
    \<and> History s' = History s \<and> length oks \<le> length (prune_victims (prune_limit r) keep items)"
proof -
  obtain x s1 where l: "kube_list (RClient r) ns [(LabelStrategy, strat)] s = (x, s1)" by fastforce
  note F = kube_listD [OF l]
  show ?thesis
  proof (cases x)
    case (Inl e)
    with assms l have "s' = s1" by (simp add: prune_def)
    with F show ?thesis by (intro exI [of _ "[]"]) simp
  next
    case (Inr items)
    with assms l have "delete_loop (RClient r) (prune_victims (prune_limit r) keep items) s1 = (err, s')"
      by (simp add: prune_def)
    from delete_loopD [OF this] F show ?thesis by auto
  qed
qed

lemma deletes_all: "list_all is_delete (map2 (\<lambda>v ok. DeleteCall (rem_name v) ok) vs oks)"
  by (auto simp: list_all_iff is_delete_def)

text \<open>The terminal write of a handler, and what it may do after it.\<close>

definition finished_as :: "remediation \<Rightarrow> remediation_state \<Rightarrow> string \<Rightarrow> string \<Rightarrow> remediation \<Rightarrow> bool" where
  "finished_as rem state reason message rem' \<longleftrightarrow>
     (\<exists>t. rem' = rem\<lparr>Status := (Status rem)\<lparr>State := state, Reason := reason, Message := message,
                                          CompletedAt := Some t\<rparr>\<rparr>)"

text \<open>
  \<open>finish_effects rem state reason message err h h' es\<close>: the effects \<open>es\<close> of finishing \<open>rem\<close> and
  the history before and after. If the write fails nothing else happens.
\<close>

definition finish_effects ::
  "remediation \<Rightarrow> remediation_state \<Rightarrow> string \<Rightarrow> string \<Rightarrow> go_error option \<Rightarrow> memory_history \<Rightarrow> memory_history \<Rightarrow> effect list \<Rightarrow> bool" where
  "finish_effects rem state reason message err h h' es \<longleftrightarrow>
     (\<exists>rem'. finished_as rem state reason message rem' \<and>
       (err \<noteq> None \<and> es = [StatusWrite rem' False] \<and> h' = h
        \<or> (\<exists>(rem2 :: remediation) t d es2. err = None \<and> list_all is_delete es2 \<and>
             (if SpecTarget (Spec rem2) \<noteq> '''' \<and> reason \<noteq> ReasonGaveUp
              then h' = RecordCompletion (StrategyName (Spec rem2)) (SpecTarget (Spec rem2)) t h
                \<and> es = StatusWrite rem' True
                    # CompletionRecorded (StrategyName (Spec rem2)) (SpecTarget (Spec rem2)) t
                    # FinishCounted (StrategyName (Spec rem2)) (state_string state) d # es2
              else h' = h \<and> es = StatusWrite rem' True
                    # FinishCounted (StrategyName (Spec rem2)) (state_string state) d # es2))))"

lemma finishD:
  assumes "finish r rem state reason message s = (err, s')"
  shows "\<exists>es. Trace s' = Trace s @ es \<and> finish_effects rem state reason message err (History s) (History s') es"
proof -
  obtain t s0 where clk: "read_clock (RNow r) s = (t, s0)" by fastforce
  note F0 = read_clockD [OF clk, unfolded frame_def]
  let ?rem = "rem\<lparr>Status := (Status rem)\<lparr>State := state, Reason := reason, Message := message, CompletedAt := Some t\<rparr>\<rparr>"
  obtain x s1 where up: "update_status (RClient r) ?rem s0 = (x, s1)" by fastforce
  note U = update_statusD [OF up]
  have fin: "finished_as rem state reason message ?rem" by (auto simp: finished_as_def)
  show ?thesis
  proof (cases x)
    case (Inl e)
    with assms clk up have "s' = s1" "err \<noteq> None" by (auto simp: finish_def Let_def)
    with U F0 Inl fin show ?thesis unfolding finish_effects_def
      by (intro exI [of _ "[StatusWrite ?rem False]"]) auto
  next
    case (Inr rem2)
    let ?strat = "StrategyName (Spec rem2)" and ?target = "SpecTarget (Spec rem2)"
    let ?s2 = "if ?target \<noteq> '''' \<and> reason \<noteq> ReasonGaveUp then record_completion ?strat ?target t s1 else s1"
    let ?d = "case StartedAt (Status rem2) of None \<Rightarrow> 0 | Some t' \<Rightarrow> time_sub t t'"
    let ?s3 = "count_effect (FinishCounted ?strat (state_string state) ?d)
      (MRemediationFinished (metrics_of r) ?strat (state_string state) ?d) ?s2"
    obtain y s4 where pr: "prune r (Namespace (Meta rem2)) ?strat (rem_name rem2) ?s3 = (y, s4)" by fastforce
    have out: "s' = s4" "err = None" using assms clk up Inr pr by (auto simp: finish_def Let_def split: if_splits)
    from pruneD [OF pr] obtain es2 where P: "Trace s4 = Trace ?s3 @ es2" "History s4 = History ?s3" "list_all is_delete es2"
      using deletes_all by blast
    have T: "Trace s' = Trace s @ StatusWrite ?rem True # (if ?target \<noteq> '''' \<and> reason \<noteq> ReasonGaveUp then [CompletionRecorded ?strat ?target t] else [])
        @ FinishCounted ?strat (state_string state) ?d # es2"
      and H: "History s' = (if ?target \<noteq> '''' \<and> reason \<noteq> ReasonGaveUp then RecordCompletion ?strat ?target t (History s) else History s)"
      using P out U F0 Inr by (auto simp: count_effect_def record_completion_def)
    show ?thesis unfolding finish_effects_def
      by (rule exI, rule conjI [OF T], rule exI [of _ ?rem], rule conjI [OF fin], rule disjI2,
          rule exI [of _ rem2], rule exI [of _ t], rule exI [of _ ?d], rule exI [of _ es2])
         (use H P(3) out in auto)
  qed
qed

lemma no_requeue_simps [simp]:
  "no_requeue (None, s) = (Inr 0, s)" "no_requeue (Some e, s) = (Inl e, s)" "snd (no_requeue out) = snd out"
  by (simp_all add: no_requeue_def)

lemma no_requeue_eq: "no_requeue (err, s) = (res, s') \<longleftrightarrow> s' = s \<and> res = (case err of None \<Rightarrow> Inr 0 | Some e \<Rightarrow> Inl e)"
  by (auto simp: no_requeue_def)

section \<open>The shape of an attempt\<close>

abbreviation with_steps :: "remediation \<Rightarrow> step_status list \<Rightarrow> remediation" where
  "with_steps rem sts \<equiv> rem\<lparr>Status := (Status rem)\<lparr>StatusSteps := sts\<rparr>\<rparr>"

abbreviation with_escalation :: "remediation \<Rightarrow> escalation_status option \<Rightarrow> remediation" where
  "with_escalation rem esc \<equiv> rem\<lparr>Status := (Status rem)\<lparr>Escalation := esc\<rparr>\<rparr>"

abbreviation retry_record :: "remediation \<Rightarrow> string \<Rightarrow> string \<Rightarrow> remediation" where
  "retry_record rem reason message \<equiv> rem\<lparr>Status := (Status rem)\<lparr>State := RemediationStatePending,
     Reason := reason, Message := message\<rparr>\<rparr>"

lemma conclude_success:
  assumes "conclude_attempt r c a rem res s = (out, s')" and "RunErr res = None"
  shows "\<exists>es err. Trace s' = Trace s @ es \<and> out = (case err of None \<Rightarrow> Inr 0 | Some e \<Rightarrow> Inl e)
    \<and> finish_effects (with_steps rem (RunSteps res)) (TerminalState (DryRun (Spec rem)) None) '''' '''' err (History s) (History s') es"
proof -
  obtain err s1 where f: "finish r (with_steps rem (RunSteps res)) (TerminalState (DryRun (Spec rem)) None) '''' '''' s = (err, s1)"
    by fastforce
  with assms have "out = (case err of None \<Rightarrow> Inr 0 | Some e \<Rightarrow> Inl e)" "s' = s1"
    by (simp_all add: conclude_attempt_def Let_def no_requeue_eq split: option.splits)
  with finishD [OF f] show ?thesis by blast
qed

lemma conclude_retry:
  assumes "conclude_attempt r c a rem res s = (out, s')" and "RunErr res = Some e" and "a \<le> Retries (Spec rem)"
  shows "History s' = History s \<and> (\<exists>ok. Trace s' = Trace s
      @ [StatusWrite (retry_record (with_steps rem (RunSteps res)) (RunReason res) (err_text e)) ok]
    \<and> (if ok then out = Inr (Backoff (wrap32 (a + 1))) else isl out))"
proof -
  obtain x s1 where u: "update_status (RClient r) (retry_record (with_steps rem (RunSteps res)) (RunReason res) (err_text e)) s = (x, s1)"
    by fastforce
  have "s' = s1 \<and> out = (case x of Inl e \<Rightarrow> Inl (Wrap ''record failed attempt: '' e '''') | Inr rem \<Rightarrow> Inr (Backoff (wrap32 (a + 1))))"
    using assms u by (auto simp: conclude_attempt_def Let_def retriesFor_def split: sum.splits)
  with update_statusD [OF u] show ?thesis by (cases x) auto
qed

lemma conclude_failure:
  assumes "conclude_attempt r c a rem res s = (out, s')" and "RunErr res = Some e" and "\<not> a \<le> Retries (Spec rem)"
  shows "\<exists>es1 es2 esc err. Trace s' = Trace s @ es1 @ es2 \<and> escalation_calls es1
    \<and> (esc = None \<longleftrightarrow> EscalationSteps (Spec rem) = [])
    \<and> out = (case err of None \<Rightarrow> Inr 0 | Some e \<Rightarrow> Inl e)
    \<and> finish_effects (with_escalation (with_steps rem (RunSteps res)) esc) RemediationStateFailed (RunReason res) (err_text e)
        err (History s) (History s') es2"
proof -
  obtain esc s1 where e: "escalate r c (with_steps rem (RunSteps res)) a (RunReason res) (err_text e) s = (esc, s1)" by fastforce
  obtain err s2 where f: "finish r (with_escalation (with_steps rem (RunSteps res)) esc) RemediationStateFailed (RunReason res) (err_text e) s1 = (err, s2)"
    by fastforce
  have out: "out = (case err of None \<Rightarrow> Inr 0 | Some e \<Rightarrow> Inl e)" "s' = s2"
    using assms e f by (simp_all add: conclude_attempt_def Let_def no_requeue_eq retriesFor_def)
  obtain es1 where E: "Trace s1 = Trace s @ es1" "escalation_calls es1" "History s1 = History s"
    using escalate_calls [OF e] by blast
  obtain es2 where F: "Trace s2 = Trace s1 @ es2"
    "finish_effects (with_escalation (with_steps rem (RunSteps res)) esc) RemediationStateFailed (RunReason res) (err_text e)
        err (History s1) (History s2) es2" using finishD [OF f] by blast
  have "esc = None \<longleftrightarrow> EscalationSteps (Spec rem) = []"
    using escalate_None [of "with_steps rem (RunSteps res)" r c a "RunReason res" "err_text e" s]
      escalateD [OF e] e by (cases "EscalationSteps (Spec rem) = []") auto
  then show ?thesis using E F out by (intro exI [of _ es1] exI [of _ es2] exI [of _ esc] exI [of _ err]) simp
qed

lemma runAttemptD:
  assumes "runAttempt r c rem s = (out, s')"
  shows "\<exists>started.
    Trace s' = Trace s @ [StatusWrite (running_record rem started) False] \<and> History s' = History s \<and> isl out
    \<or> (\<exists>w w' rem1 res es s2. KubeUpdateStatus (RClient r) (running_record rem started) w = (Inr rem1, w')
        \<and> Trace s2 = Trace s @ StatusWrite (running_record rem started) True # es \<and> History s2 = History s
        \<and> run_shape (runner_for r rem1 (DryRun (Spec rem1))) c (RefLabels (SpecAlert (Spec rem1))) 0
            (SpecSteps (Spec rem1)) (RunSteps res) (RunErr res) es
        \<and> RunReason res = run_reason '''' (RunErr res)
        \<and> conclude_attempt r c (wrap32 (Attempt (Status rem) + 1)) rem1 res s2 = (out, s'))"
proof -
  obtain t s0 where clk: "read_clock (RNow r) s = (t, s0)" by fastforce
  note F0 = read_clockD [OF clk, unfolded frame_def]
  obtain x s1 where up: "update_status (RClient r) (running_record rem t) s0 = (x, s1)" by fastforce
  note U = update_statusD [OF up]
  show ?thesis
  proof (cases x)
    case (Inl e)
    with assms clk up have "s' = s1" "isl out" by (auto simp: runAttempt_def Let_def)
    with U F0 Inl show ?thesis by auto
  next
    case (Inr rem1)
    obtain w where k: "KubeUpdateStatus (RClient r) (running_record rem t) (World s0) = (Inr rem1, w)"
      using up Inr by (auto simp: update_status_def split: prod.splits)
    obtain res s2 where run: "Run (runner_for r rem1 (DryRun (Spec rem1))) c
        (RefLabels (SpecAlert (Spec rem1))) (SpecSteps (Spec rem1)) s1 = (res, s2)" by fastforce
    have out: "conclude_attempt r c (wrap32 (Attempt (Status rem) + 1)) rem1 res s2 = (out, s')"
      using assms clk up Inr run by (simp add: runAttempt_def Let_def)
    from Run_shape [OF run] obtain es where "run_shape (runner_for r rem1 (DryRun (Spec rem1))) c (RefLabels (SpecAlert (Spec rem1))) 0
            (SpecSteps (Spec rem1)) (RunSteps res) (RunErr res) es" "Trace s2 = Trace s1 @ es" "History s2 = History s1"
      "RunReason res = run_reason '''' (RunErr res)" by blast
    with U F0 Inr k out show ?thesis
      by (intro exI [of _ t] disjI2 exI [of _ "World s0"] exI [of _ w] exI [of _ rem1] exI [of _ res] exI [of _ es] exI [of _ s2]) simp
  qed
qed

lemma markInterruptedD:
  assumes "markInterrupted r rem s = (err, s')"
  shows "\<exists>es. Trace s' = Trace s @ es \<and> finish_effects (with_steps rem (map interrupt_step (StatusSteps (Status rem))))
    RemediationStateFailed ReasonInterrupted ''the operator restarted while this remediation was running''
    err (History s) (History s') es"
  using finishD [OF assms [unfolded markInterrupted_def Let_def]] .

lemma escalate_finishD:
  assumes "escalate r c rem a reason m s = (esc, s1)" and "finish r (with_escalation rem esc) st reason m s1 = (err, s')"
  shows "\<exists>es1 es2. Trace s' = Trace s @ es1 @ es2 \<and> escalation_calls es1
    \<and> finish_effects (with_escalation rem esc) st reason m err (History s) (History s') es2"
proof -
  obtain es1 where "Trace s1 = Trace s @ es1" "escalation_calls es1" "History s1 = History s"
    using escalate_calls [OF assms(1)] by blast
  moreover obtain es2 where "Trace s' = Trace s1 @ es2"
    "finish_effects (with_escalation rem esc) st reason m err (History s1) (History s') es2"
    using finishD [OF assms(2)] by blast
  ultimately show ?thesis by auto
qed

lemma markGaveUpD:
  assumes "markGaveUp r c rem s = (err, s')"
  shows "\<exists>es1 es2 esc. Trace s' = Trace s @ es1 @ es2 \<and> escalation_calls es1
    \<and> finish_effects (with_escalation rem esc) RemediationStateFailed ReasonGaveUp (gave_up_message rem)
        err (History s) (History s') es2"
proof -
  obtain esc s1 where e: "escalate r c rem 0 ReasonGaveUp (gave_up_message rem) s = (esc, s1)" by fastforce
  with assms have "finish r (with_escalation rem esc) RemediationStateFailed ReasonGaveUp (gave_up_message rem) s1 = (err, s')"
    by (simp add: markGaveUp_def Let_def)
  from escalate_finishD [OF e this] show ?thesis by blast
qed

end
