(* ===== verification/Reconcile.thy ===== *)
theory Reconcile
  imports Controller
begin

text \<open>
  \<open>internal/engine/approval.go\<close> and \<open>RemediationReconciler.Reconcile\<close> of
  \<open>internal/engine/controller.go\<close>: the wait for a human decision, and the choice of what a pass
  does with a record.
\<close>

section \<open>A human decision\<close>

fun approval_decision_string :: "approval_decision \<Rightarrow> string" where
  "approval_decision_string ApprovalApprove = ''approve''"
| "approval_decision_string ApprovalDeny = ''deny''"
| "approval_decision_string (ApprovalDecisionOther s) = s"

definition approvalPollFloor :: duration where "approvalPollFloor = minute"

definition EventReasonApproved :: string where "EventReasonApproved = ''Approved''"
definition EventReasonDenied :: string where "EventReasonDenied = ''Denied''"

definition claimedBy :: "approval option \<Rightarrow> string" where
  "claimedBy d = (case d of None \<Rightarrow> ''somebody who did not say who''
     | Some a \<Rightarrow> if By a = '''' then ''somebody who did not say who'' else By a)"

definition deniedMessage :: "approval \<Rightarrow> string" where
  "deniedMessage d =
     (let message = ''denied by '' @ claimedBy (Some d)
      in if Note d \<noteq> '''' then message @ '': '' @ Note d else message)"

text \<open>The dash is the three bytes of its UTF-8 encoding.\<close>

definition noteSuffix :: "string \<Rightarrow> string" where
  "noteSuffix note =
     (if note = '''' then '''' else '' '' @ [CHR 0xE2, CHR 0x80, CHR 0x94] @ '' '' @ note)"

definition recordApproval :: "'w reconciler \<Rightarrow> remediation \<Rightarrow> approval \<Rightarrow> bool \<Rightarrow> 'w st \<Rightarrow> 'w st" where
  "recordApproval r rem d approved s =
     (case REvents r of
        None \<Rightarrow> s
      | Some ev \<Rightarrow>
        (let reason = (if approved then EventReasonApproved else EventReasonDenied);
             verb = (if approved then ''approved'' else ''denied'')
         in count_effect (EventPublished (OnRemediation (rem_name rem)) reason (verb @ '' by '' @ claimedBy (Some d) @ noteSuffix (Note d)))
              (ev (OnRemediation (rem_name rem)) ''Normal'' reason (approval_decision_string (Decision d))
                (verb @ '' by '' @ claimedBy (Some d) @ noteSuffix (Note d))) s))"

definition awaitsApproval :: "remediation \<Rightarrow> bool" where
  "awaitsApproval rem =
     (if SpecMode (Spec rem) \<noteq> ExecutionModeApproval then False else \<not> IsTerminal (rem_state rem))"

definition awaiting_message :: "duration \<Rightarrow> string" where
  "awaiting_message left =
     ''waiting for approval; '' @ dur_str (dur_round left second) @ '' left before this escalates''"

definition markAwaitingApproval :: "'w reconciler \<Rightarrow> remediation \<Rightarrow> duration \<Rightarrow> 'w st \<Rightarrow> go_error option \<times> 'w st" where
  "markAwaitingApproval r rem left s =
     (let message = awaiting_message left in
      if rem_state rem = RemediationStateAwaitingApproval \<and> Message (Status rem) = message then (None, s)
      else
        (let rem = rem\<lparr>Status := (Status rem)\<lparr>State := RemediationStateAwaitingApproval, Reason := '''',
                          Message := message\<rparr>\<rparr>;
             (written, s) = update_status (RClient r) rem s
         in case written of
              Inl e \<Rightarrow> (Some (Wrap ''record awaiting approval: '' e ''''), s)
            | Inr rem \<Rightarrow> (None, s)))"

definition timeout_message :: string where
  "timeout_message = ''nobody approved or denied this in time, so it was not run''"

definition timeOutApproval :: "'w reconciler \<Rightarrow> ctx \<Rightarrow> remediation \<Rightarrow> 'w st \<Rightarrow> go_error option \<times> 'w st" where
  "timeOutApproval r c rem s =
     (let (esc, s) = escalate r c rem 0 ReasonApprovalTimeout timeout_message s;
          rem = rem\<lparr>Status := (Status rem)\<lparr>Escalation := esc\<rparr>\<rparr>
      in finish r rem RemediationStateFailed ReasonApprovalTimeout timeout_message s)"

text \<open>The wait while nobody has decided.\<close>

definition await_decision :: "'w reconciler \<Rightarrow> ctx \<Rightarrow> remediation \<Rightarrow> 'w st \<Rightarrow> reconcile_result \<times> 'w st" where
  "await_decision r c rem s =
     (case ApprovalDeadline (Spec rem) of
        None \<Rightarrow> no_requeue (timeOutApproval r c rem s)
      | Some deadline \<Rightarrow>
        (let (now, s) = read_clock (RNow r) s in
         if now < deadline
         then
           (let left = time_sub deadline now;
                (err, s) = markAwaitingApproval r rem left s
            in case err of
                 Some e \<Rightarrow> (Inl e, s)
               | None \<Rightarrow> (Inr (min (wrap64 (left + second)) approvalPollFloor), s))
         else no_requeue (timeOutApproval r c rem s)))"

definition awaitApproval :: "'w reconciler \<Rightarrow> ctx \<Rightarrow> remediation \<Rightarrow> 'w st \<Rightarrow> reconcile_result \<times> 'w st" where
  "awaitApproval r c rem s =
     (case Approval (Spec rem) of
        Some d \<Rightarrow>
          (case Decision d of
             ApprovalApprove \<Rightarrow> runAttempt r c rem (recordApproval r rem d True s)
           | ApprovalDeny \<Rightarrow>
               no_requeue (finish r rem RemediationStateFailed ReasonDenied (deniedMessage d)
                 (recordApproval r rem d False s))
           | ApprovalDecisionOther x \<Rightarrow> await_decision r c rem s)
      | None \<Rightarrow> await_decision r c rem s)"

section \<open>A pass\<close>

definition reconcile_record :: "'w reconciler \<Rightarrow> ctx \<Rightarrow> remediation \<Rightarrow> 'w st \<Rightarrow> reconcile_result \<times> 'w st" where
  "reconcile_record r c rem s =
     (if IsTerminal (rem_state rem) then (Inr 0, s)
      else if rem_state rem = RemediationStateRunning then no_requeue (markInterrupted r rem s)
      else if map_get (Labels (Meta rem)) LabelGaveUp = ''true'' then no_requeue (markGaveUp r c rem s)
      else if awaitsApproval rem then awaitApproval r c rem s
      else runAttempt r c rem s)"

definition Reconcile :: "'w reconciler \<Rightarrow> ctx \<Rightarrow> string \<Rightarrow> string \<Rightarrow> 'w st \<Rightarrow> reconcile_result \<times> 'w st" where
  "Reconcile r c ns name s =
     (let (got, s) = kube_get (RClient r) ns name s in
      case got of
        Inl e \<Rightarrow> (if isNotFound e then Inr 0 else Inl e, s)
      | Inr rem \<Rightarrow> reconcile_record r c rem s)"

section \<open>The ways a pass goes\<close>

lemma kube_getD: "kube_get k ns n s = (x, s') \<Longrightarrow> frame s s'"
  by (auto simp: kube_get_def frame_def split: prod.splits)

lemma Reconcile_read:
  assumes "fst (KubeGet (RClient r) ns n (World s)) = Inr rem"
  shows "\<exists>s0. frame s s0 \<and> Reconcile r c ns n s = reconcile_record r c rem s0"
proof -
  obtain x s0 where g: "kube_get (RClient r) ns n s = (x, s0)" by fastforce
  then have "x = Inr rem" using assms by (auto simp: kube_get_def split: prod.splits)
  then show ?thesis using g kube_getD [OF g] by (intro exI [of _ s0]) (simp add: Reconcile_def)
qed

lemma Reconcile_unread:
  assumes "fst (KubeGet (RClient r) ns n (World s)) = Inl e"
  shows "\<exists>s0. frame s s0 \<and> Reconcile r c ns n s = (if isNotFound e then Inr 0 else Inl e, s0)"
proof -
  obtain x s0 where g: "kube_get (RClient r) ns n s = (x, s0)" by fastforce
  then have "x = Inl e" using assms by (auto simp: kube_get_def split: prod.splits)
  then show ?thesis using g kube_getD [OF g] by (intro exI [of _ s0]) (simp add: Reconcile_def)
qed

lemma recordApprovalD:
  "\<exists>es. Trace (recordApproval r rem d a s) = Trace s @ es \<and> list_all is_event es \<and> History (recordApproval r rem d a s) = History s"
  by (cases "REvents r") (auto simp: recordApproval_def Let_def count_effect_def is_event_def)

lemma timeOutApprovalD:
  assumes "timeOutApproval r c rem s = (err, s')"
  shows "\<exists>es1 es2 esc. Trace s' = Trace s @ es1 @ es2 \<and> escalation_calls es1
    \<and> finish_effects (with_escalation rem esc) RemediationStateFailed ReasonApprovalTimeout timeout_message
        err (History s) (History s') es2"
proof -
  obtain esc s1 where e: "escalate r c rem 0 ReasonApprovalTimeout timeout_message s = (esc, s1)" by fastforce
  with assms have "finish r (with_escalation rem esc) RemediationStateFailed ReasonApprovalTimeout timeout_message s1 = (err, s')"
    by (simp add: timeOutApproval_def Let_def)
  from escalate_finishD [OF e this] show ?thesis by blast
qed

definition awaiting_record :: "remediation \<Rightarrow> string \<Rightarrow> remediation" where
  "awaiting_record rem message = rem\<lparr>Status := (Status rem)\<lparr>State := RemediationStateAwaitingApproval, Reason := '''',
     Message := message\<rparr>\<rparr>"

lemma markAwaitingApprovalD:
  assumes "markAwaitingApproval r rem left s = (err, s')"
  shows "History s' = History s \<and>
    (err = None \<and> Trace s' = Trace s \<and> rem_state rem = RemediationStateAwaitingApproval \<and> Message (Status rem) = awaiting_message left
     \<or> Trace s' = Trace s @ [StatusWrite (awaiting_record rem (awaiting_message left)) (err = None)])"
proof -
  let ?rem = "awaiting_record rem (awaiting_message left)"
  obtain x s1 where u: "update_status (RClient r) ?rem s = (x, s1)" by fastforce
  show ?thesis
  proof (cases "rem_state rem = RemediationStateAwaitingApproval \<and> Message (Status rem) = awaiting_message left")
    case True
    then show ?thesis using assms by (auto simp: markAwaitingApproval_def Let_def)
  next
    case False
    then have "s' = s1" "err = (case x of Inl e \<Rightarrow> Some (Wrap ''record awaiting approval: '' e '''') | Inr rem \<Rightarrow> None)"
      using assms u by (auto simp: markAwaitingApproval_def Let_def awaiting_record_def split: sum.splits)
    then show ?thesis using update_statusD [OF u] by (cases x) auto
  qed
qed

text \<open>A pass that only waits: at most one write, of the waiting status.\<close>

definition waited :: "remediation \<Rightarrow> reconcile_result \<Rightarrow> effect list \<Rightarrow> bool" where
  "waited rem out es \<longleftrightarrow> es = [] \<and> rem_state rem = RemediationStateAwaitingApproval
     \<or> (\<exists>m. es = [StatusWrite (awaiting_record rem m) (\<not> isl out)])"

lemma await_decisionD:
  assumes "await_decision r c rem s = (out, s')"
  shows "(\<exists>es. Trace s' = Trace s @ es \<and> History s' = History s \<and> waited rem out es)
    \<or> (\<exists>es1 es2 esc err. Trace s' = Trace s @ es1 @ es2 \<and> escalation_calls es1
        \<and> out = (case err of None \<Rightarrow> Inr 0 | Some e \<Rightarrow> Inl e)
        \<and> finish_effects (with_escalation rem esc) RemediationStateFailed ReasonApprovalTimeout timeout_message
            err (History s) (History s') es2)"
proof -
  have timed: ?thesis if "no_requeue (timeOutApproval r c rem s0) = (out, s')" "frame s s0" for s0
  proof -
    obtain err s1 where t: "timeOutApproval r c rem s0 = (err, s1)" by fastforce
    with that have "s' = s1" "out = (case err of None \<Rightarrow> Inr 0 | Some e \<Rightarrow> Inl e)" by (simp_all add: no_requeue_eq)
    with timeOutApprovalD [OF t] that(2) show ?thesis unfolding frame_def by metis
  qed
  show ?thesis
  proof (cases "ApprovalDeadline (Spec rem)")
    case None
    then show ?thesis using timed [of s] assms by (simp add: await_decision_def)
  next
    case (Some d)
    obtain t s0 where clk: "read_clock (RNow r) s = (t, s0)" by fastforce
    note F = read_clockD [OF clk]
    show ?thesis
    proof (cases "t < d")
      case False
      then show ?thesis using timed [OF _ F] assms Some clk by (simp add: await_decision_def)
    next
      case True
      obtain err s1 where m: "markAwaitingApproval r rem (time_sub d t) s0 = (err, s1)" by fastforce
      have "s' = s1" "isl out \<longleftrightarrow> err \<noteq> None"
        using assms Some clk True m by (auto simp: await_decision_def Let_def split: option.splits)
      then show ?thesis using markAwaitingApprovalD [OF m] F by (auto simp: frame_def waited_def)
    qed
  qed
qed

section \<open>The specification of a pass\<close>

abbreviation outcome :: "go_error option \<Rightarrow> reconcile_result" where
  "outcome err \<equiv> (case err of None \<Rightarrow> Inr 0 | Some e \<Rightarrow> Inl e)"

text \<open>
  \<open>concluded r a rem1 res out h h' es\<close>: what follows the run of attempt \<open>a\<close> of the record \<open>rem1\<close>
  with the result \<open>res\<close>.
\<close>

inductive concluded ::
  "int \<Rightarrow> remediation \<Rightarrow> run_result \<Rightarrow> reconcile_result \<Rightarrow> memory_history \<Rightarrow> memory_history \<Rightarrow> effect list \<Rightarrow> bool"
  for a rem1 res where
  success: "RunErr res = None \<Longrightarrow>
    finish_effects (with_steps rem1 (RunSteps res)) (TerminalState (DryRun (Spec rem1)) None) '''' '''' err h h' es \<Longrightarrow>
    concluded a rem1 res (outcome err) h h' es"
| retry: "RunErr res = Some e \<Longrightarrow> a \<le> Retries (Spec rem1) \<Longrightarrow>
    (if ok then out = Inr (Backoff (wrap32 (a + 1))) else isl out) \<Longrightarrow>
    concluded a rem1 res out h h [StatusWrite (retry_record (with_steps rem1 (RunSteps res)) (RunReason res) (err_text e)) ok]"
| failure: "RunErr res = Some e \<Longrightarrow> \<not> a \<le> Retries (Spec rem1) \<Longrightarrow> escalation_calls es1 \<Longrightarrow>
    (esc = None \<longleftrightarrow> EscalationSteps (Spec rem1) = []) \<Longrightarrow>
    finish_effects (with_escalation (with_steps rem1 (RunSteps res)) esc) RemediationStateFailed (RunReason res) (err_text e) err h h' es2 \<Longrightarrow>
    concluded a rem1 res (outcome err) h h' (es1 @ es2)"

lemma conclude_attempt_concluded:
  assumes "conclude_attempt r c a rem1 res s = (out, s')"
  shows "\<exists>es. Trace s' = Trace s @ es \<and> concluded a rem1 res out (History s) (History s') es"
proof (cases "RunErr res")
  case None
  with conclude_success [OF assms None] show ?thesis by (auto intro: concluded.success)
next
  case (Some e)
  show ?thesis
  proof (cases "a \<le> Retries (Spec rem1)")
    case True
    with conclude_retry [OF assms Some True] Some show ?thesis by (metis concluded.retry)
  next
    case False
    obtain es1 es2 esc err where f: "Trace s' = Trace s @ es1 @ es2" "escalation_calls es1"
      "esc = None \<longleftrightarrow> EscalationSteps (Spec rem1) = []" "out = outcome err"
      "finish_effects (with_escalation (with_steps rem1 (RunSteps res)) esc) RemediationStateFailed (RunReason res) (err_text e)
        err (History s) (History s') es2"
      using conclude_failure [OF assms Some False] by (elim exE conjE) (rule that)
    show ?thesis using f(1,4) concluded.failure [of res, OF Some False f(2,3,5)] by blast
  qed
qed

text \<open>The records a pass may run: nothing stands in the way, or somebody approved.\<close>

definition undecided :: "remediation \<Rightarrow> bool" where
  "undecided rem \<longleftrightarrow> (\<forall>d. Approval (Spec rem) = Some d \<longrightarrow> Decision d \<noteq> ApprovalApprove \<and> Decision d \<noteq> ApprovalDeny)"

definition open_record :: "remediation \<Rightarrow> bool" where
  "open_record rem \<longleftrightarrow> \<not> IsTerminal (rem_state rem) \<and> rem_state rem \<noteq> RemediationStateRunning"

definition gave_up :: "remediation \<Rightarrow> bool" where
  "gave_up rem \<longleftrightarrow> map_get (Labels (Meta rem)) LabelGaveUp = ''true''"

definition may_run :: "remediation \<Rightarrow> bool" where
  "may_run rem \<longleftrightarrow> open_record rem \<and> \<not> gave_up rem
     \<and> (SpecMode (Spec rem) = ExecutionModeApproval \<longrightarrow>
          (\<exists>d. Approval (Spec rem) = Some d \<and> Decision d = ApprovalApprove))"

inductive pass ::
  "'w reconciler \<Rightarrow> ctx \<Rightarrow> remediation \<Rightarrow> reconcile_result \<Rightarrow> memory_history \<Rightarrow> memory_history \<Rightarrow> effect list \<Rightarrow> bool"
  for r c rem where
  idle: "IsTerminal (rem_state rem) \<Longrightarrow> pass r c rem (Inr 0) h h []"
| interrupted: "rem_state rem = RemediationStateRunning \<Longrightarrow>
    finish_effects (with_steps rem (map interrupt_step (StatusSteps (Status rem)))) RemediationStateFailed ReasonInterrupted
      ''the operator restarted while this remediation was running'' err h h' es \<Longrightarrow>
    pass r c rem (outcome err) h h' es"
| gives_up: "open_record rem \<Longrightarrow> gave_up rem \<Longrightarrow> escalation_calls es1 \<Longrightarrow>
    finish_effects (with_escalation rem esc) RemediationStateFailed ReasonGaveUp (gave_up_message rem) err h h' es2 \<Longrightarrow>
    pass r c rem (outcome err) h h' (es1 @ es2)"
| waits: "open_record rem \<Longrightarrow> \<not> gave_up rem \<Longrightarrow> SpecMode (Spec rem) = ExecutionModeApproval \<Longrightarrow> undecided rem \<Longrightarrow>
    waited rem out es \<Longrightarrow> pass r c rem out h h es"
| times_out: "open_record rem \<Longrightarrow> \<not> gave_up rem \<Longrightarrow> SpecMode (Spec rem) = ExecutionModeApproval \<Longrightarrow> undecided rem \<Longrightarrow>
    escalation_calls es1 \<Longrightarrow>
    finish_effects (with_escalation rem esc) RemediationStateFailed ReasonApprovalTimeout timeout_message err h h' es2 \<Longrightarrow>
    pass r c rem (outcome err) h h' (es1 @ es2)"
| denied: "open_record rem \<Longrightarrow> \<not> gave_up rem \<Longrightarrow> SpecMode (Spec rem) = ExecutionModeApproval \<Longrightarrow>
    Approval (Spec rem) = Some d \<Longrightarrow> Decision d = ApprovalDeny \<Longrightarrow> list_all is_event ev \<Longrightarrow>
    finish_effects rem RemediationStateFailed ReasonDenied (deniedMessage d) err h h' es \<Longrightarrow>
    pass r c rem (outcome err) h h' (ev @ es)"
| unmarked: "may_run rem \<Longrightarrow> list_all is_event ev \<Longrightarrow> isl out \<Longrightarrow>
    pass r c rem out h h (ev @ [StatusWrite (running_record rem t) False])"
| ran: "may_run rem \<Longrightarrow> list_all is_event ev \<Longrightarrow>
    KubeUpdateStatus (RClient r) (running_record rem t) w = (Inr rem1, w') \<Longrightarrow>
    run_shape (runner_for r rem1 (DryRun (Spec rem1))) c (RefLabels (SpecAlert (Spec rem1))) 0
      (SpecSteps (Spec rem1)) (RunSteps res) (RunErr res) es1 \<Longrightarrow>
    RunReason res = run_reason '''' (RunErr res) \<Longrightarrow>
    concluded (wrap32 (Attempt (Status rem) + 1)) rem1 res out h h' es2 \<Longrightarrow>
    pass r c rem out h h' (ev @ StatusWrite (running_record rem t) True # es1 @ es2)"

lemma runAttempt_pass:
  assumes "runAttempt r c rem s = (out, s')" and "may_run rem" and "Trace s = tr @ ev" and "list_all is_event ev"
  shows "\<exists>es. Trace s' = tr @ es \<and> pass r c rem out (History s) (History s') es"
proof -
  from runAttemptD [OF assms(1)] obtain t where
    "Trace s' = Trace s @ [StatusWrite (running_record rem t) False] \<and> History s' = History s \<and> isl out
    \<or> (\<exists>w w' rem1 res es s2. KubeUpdateStatus (RClient r) (running_record rem t) w = (Inr rem1, w')
        \<and> Trace s2 = Trace s @ StatusWrite (running_record rem t) True # es \<and> History s2 = History s
        \<and> run_shape (runner_for r rem1 (DryRun (Spec rem1))) c (RefLabels (SpecAlert (Spec rem1))) 0
            (SpecSteps (Spec rem1)) (RunSteps res) (RunErr res) es
        \<and> RunReason res = run_reason '''' (RunErr res)
        \<and> conclude_attempt r c (wrap32 (Attempt (Status rem) + 1)) rem1 res s2 = (out, s'))" by blast
  then show ?thesis
  proof (elim disjE exE conjE)
    assume "Trace s' = Trace s @ [StatusWrite (running_record rem t) False]" "History s' = History s" "isl out"
    then show ?thesis using pass.unmarked [OF assms(2,4), of out] assms(3) by auto
  next
    fix w w' rem1 res es s2
    assume k: "KubeUpdateStatus (RClient r) (running_record rem t) w = (Inr rem1, w')"
      and s2: "Trace s2 = Trace s @ StatusWrite (running_record rem t) True # es" "History s2 = History s"
      and run: "run_shape (runner_for r rem1 (DryRun (Spec rem1))) c (RefLabels (SpecAlert (Spec rem1))) 0
            (SpecSteps (Spec rem1)) (RunSteps res) (RunErr res) es"
      and reason: "RunReason res = run_reason '''' (RunErr res)"
      and con: "conclude_attempt r c (wrap32 (Attempt (Status rem) + 1)) rem1 res s2 = (out, s')"
    from conclude_attempt_concluded [OF con] obtain es2 where "Trace s' = Trace s2 @ es2"
      "concluded (wrap32 (Attempt (Status rem) + 1)) rem1 res out (History s2) (History s') es2" by blast
    with pass.ran [OF assms(2,4) k run reason] s2 assms(3) show ?thesis by auto
  qed
qed

lemma awaitApproval_pass:
  assumes "awaitApproval r c rem s = (out, s')" and "open_record rem" and "\<not> gave_up rem"
    and "SpecMode (Spec rem) = ExecutionModeApproval"
  shows "\<exists>es. Trace s' = Trace s @ es \<and> pass r c rem out (History s) (History s') es"
proof -
  have wait: ?thesis if "await_decision r c rem s = (out, s')" "undecided rem"
    using await_decisionD [OF that(1)] pass.waits [OF assms(2,3,4) that(2)] pass.times_out [OF assms(2,3,4) that(2)]
    by metis
  show ?thesis
  proof (cases "Approval (Spec rem)")
    case None
    then show ?thesis using wait assms(1) by (simp add: awaitApproval_def undecided_def)
  next
    case (Some d)
    show ?thesis
    proof (cases "Decision d")
      case ApprovalApprove
      then have run: "runAttempt r c rem (recordApproval r rem d True s) = (out, s')"
        using assms(1) Some by (simp add: awaitApproval_def)
      have may: "may_run rem" using assms Some ApprovalApprove by (auto simp: may_run_def)
      obtain ev where "Trace (recordApproval r rem d True s) = Trace s @ ev" "list_all is_event ev"
        "History (recordApproval r rem d True s) = History s" using recordApprovalD by blast
      with runAttempt_pass [OF run may] show ?thesis by metis
    next
      case ApprovalDeny
      obtain err s1 where f: "finish r rem RemediationStateFailed ReasonDenied (deniedMessage d) (recordApproval r rem d False s) = (err, s1)"
        by fastforce
      then have out: "s' = s1" "out = outcome err" using assms(1) Some ApprovalDeny by (simp_all add: awaitApproval_def no_requeue_eq)
      obtain ev where "Trace (recordApproval r rem d False s) = Trace s @ ev" and ev: "list_all is_event ev"
        and "History (recordApproval r rem d False s) = History s" using recordApprovalD by blast
      with finishD [OF f] obtain es where "Trace s' = Trace s @ ev @ es"
        "finish_effects rem RemediationStateFailed ReasonDenied (deniedMessage d) err (History s) (History s') es" using out by auto
      with pass.denied [OF assms(2,3,4) Some ApprovalDeny ev] out show ?thesis by blast
    qed (use wait assms(1) Some in \<open>simp add: awaitApproval_def undecided_def\<close>)
  qed
qed

text \<open>Every pass follows the specification.\<close>

lemma reconcile_record_pass:
  assumes "reconcile_record r c rem s = (out, s')"
  shows "\<exists>es. Trace s' = Trace s @ es \<and> pass r c rem out (History s) (History s') es"
proof -
  consider (terminal) "IsTerminal (rem_state rem)" | (running) "rem_state rem = RemediationStateRunning"
    | (gave_up) "open_record rem" "gave_up rem"
    | (approval) "open_record rem" "\<not> gave_up rem" "SpecMode (Spec rem) = ExecutionModeApproval"
    | (free) "open_record rem" "\<not> gave_up rem" "SpecMode (Spec rem) \<noteq> ExecutionModeApproval"
    by (auto simp: open_record_def)
  then show ?thesis
  proof cases
    case terminal
    then have "out = Inr 0" "s' = s" using assms by (simp_all add: reconcile_record_def)
    then show ?thesis using pass.idle [OF terminal] by auto
  next
    case running
    obtain err s1 where m: "markInterrupted r rem s = (err, s1)" by fastforce
    with running assms have "s' = s1" "out = outcome err" by (simp_all add: reconcile_record_def no_requeue_eq)
    then show ?thesis using markInterruptedD [OF m] pass.interrupted [OF running] by blast
  next
    case gave_up
    obtain err s1 where m: "markGaveUp r c rem s = (err, s1)" by fastforce
    with gave_up assms have "s' = s1" "out = outcome err"
      by (simp_all add: reconcile_record_def no_requeue_eq open_record_def gave_up_def)
    then show ?thesis using markGaveUpD [OF m] pass.gives_up [OF gave_up] by blast
  next
    case approval
    then have "awaitApproval r c rem s = (out, s')"
      using assms by (simp add: reconcile_record_def open_record_def gave_up_def awaitsApproval_def)
    from awaitApproval_pass [OF this approval] show ?thesis .
  next
    case free
    then have "runAttempt r c rem s = (out, s')" "may_run rem"
      using assms by (simp_all add: reconcile_record_def open_record_def gave_up_def awaitsApproval_def may_run_def)
    then show ?thesis using runAttempt_pass [of r c rem s out s' "Trace s" "[]"] by simp
  qed
qed

lemma Reconcile_pass:
  assumes "Reconcile r c ns n s = (out, s')" and "fst (KubeGet (RClient r) ns n (World s)) = Inr rem"
  shows "\<exists>es. Trace s' = Trace s @ es \<and> pass r c rem out (History s) (History s') es"
proof -
  from Reconcile_read [OF assms(2)] obtain s0 where "frame s s0" "reconcile_record r c rem s0 = (out, s')"
    using assms(1) by metis
  with reconcile_record_pass show ?thesis unfolding frame_def by metis
qed

end
