(* ===== verification/Lifecycle.thy ===== *)
theory Lifecycle
  imports Reconcile
begin

text \<open>
  The state machine of the comment on \<open>RemediationReconciler\<close> in \<open>internal/engine/controller.go\<close>, as
  a step relation on the state and the attempt counter of a record, and the proof that the
  reconciler's passes refine it: every status write is a step, also when the process dies
  between two writes and starts again on what it had stored.
\<close>

section \<open>The abstract state machine\<close>

type_synonym point = "remediation_state \<times> int"

text \<open>
  \<open>lifecycle R p q\<close>: with \<open>R\<close> retries, a record at \<open>p\<close> may be written at \<open>q\<close>. An open state is
  Pending, AwaitingApproval, or the empty state of a new record.
\<close>

definition open_state :: "remediation_state \<Rightarrow> bool" where
  "open_state st \<longleftrightarrow> \<not> IsTerminal st \<and> st \<noteq> RemediationStateRunning"

inductive lifecycle :: "int \<Rightarrow> point \<Rightarrow> point \<Rightarrow> bool" for R where
  start: "open_state st \<Longrightarrow> lifecycle R (st, a) (RemediationStateRunning, wrap32 (a + 1))"
| await: "open_state st \<Longrightarrow> lifecycle R (st, a) (RemediationStateAwaitingApproval, a)"
| refuse: "open_state st \<Longrightarrow> lifecycle R (st, a) (RemediationStateFailed, a)"
| retry: "a \<le> R \<Longrightarrow> lifecycle R (RemediationStateRunning, a) (RemediationStatePending, a)"
| finish: "IsTerminal st \<Longrightarrow> lifecycle R (RemediationStateRunning, a) (st, a)"

inductive_cases lifecycle_runningE: "lifecycle R (RemediationStateRunning, a) q"
inductive_simps lifecycle_to: "lifecycle R p (st, a)"

lemma open_state_simps [simp]:
  "open_state RemediationStatePending" "open_state RemediationStateAwaitingApproval"
  "open_state (RemediationStateOther x)" "\<not> open_state RemediationStateRunning"
  "\<not> open_state RemediationStateSucceeded" "\<not> open_state RemediationStateFailed"
  "\<not> open_state RemediationStateSimulated"
  by (simp_all add: open_state_def)

lemma open_record_iff: "open_record rem \<longleftrightarrow> open_state (rem_state rem)"
  by (simp add: open_record_def open_state_def)

lemma lifecycle_terminal: "IsTerminal (fst p) \<Longrightarrow> \<not> lifecycle R p q"
  by (auto elim!: lifecycle.cases simp: open_state_def)

fun lifecycle_path :: "int \<Rightarrow> point \<Rightarrow> point list \<Rightarrow> bool" where
  "lifecycle_path R p [] \<longleftrightarrow> True"
| "lifecycle_path R p (q # qs) \<longleftrightarrow> lifecycle R p q \<and> lifecycle_path R q qs"

lemma lifecycle_path_append:
  "lifecycle_path R p (qs @ qs') \<longleftrightarrow> lifecycle_path R p qs \<and> lifecycle_path R (last (p # qs)) qs'"
  by (induction qs arbitrary: p) auto

lemma lifecycle_path_take: "lifecycle_path R p qs \<Longrightarrow> lifecycle_path R p (take n qs)"
  using lifecycle_path_append [of R p "take n qs" "drop n qs"] by simp

text \<open>The invariant of the machine: the counter stays within the budget.\<close>

definition lifecycle_inv :: "int \<Rightarrow> point \<Rightarrow> bool" where
  "lifecycle_inv R p \<longleftrightarrow> 0 \<le> snd p \<and> snd p \<le> R + 1 \<and> (open_state (fst p) \<longrightarrow> snd p \<le> R)
     \<and> (fst p = RemediationStateRunning \<longrightarrow> 1 \<le> snd p)"

lemma lifecycle_inv_step:
  assumes "lifecycle R p q" and "lifecycle_inv R p" and "R + 1 < 2 ^ 31"
  shows "lifecycle_inv R q"
  using assms
proof (induction rule: lifecycle.induct)
  case (start st a)
  then have "in_int32 (a + 1)" by (simp add: lifecycle_inv_def in_int32_def)
  with start show ?case by (simp add: lifecycle_inv_def)
next
  case (finish st a)
  then show ?case by (auto simp: lifecycle_inv_def open_state_def)
qed (auto simp: lifecycle_inv_def)

lemma lifecycle_path_inv:
  "lifecycle_path R p qs \<Longrightarrow> lifecycle_inv R p \<Longrightarrow> R + 1 < 2 ^ 31 \<Longrightarrow> lifecycle_inv R (last (p # qs))"
  by (induction qs arbitrary: p) (auto dest: lifecycle_inv_step)

text \<open>Every start raises the counter by one, and nothing lowers it.\<close>

definition starts :: "point list \<Rightarrow> nat" where
  "starts qs = length (filter (\<lambda>q. fst q = RemediationStateRunning) qs)"

lemma lifecycle_path_starts:
  "lifecycle_path R p qs \<Longrightarrow> lifecycle_inv R p \<Longrightarrow> R + 1 < 2 ^ 31 \<Longrightarrow>
     snd (last (p # qs)) = snd p + int (starts qs)"
proof (induction qs arbitrary: p)
  case (Cons q qs)
  then have step: "lifecycle R p q" by simp
  have inv: "lifecycle_inv R q" using lifecycle_inv_step [OF step] Cons.prems by blast
  have "snd q = snd p + (if fst q = RemediationStateRunning then 1 else 0)"
    using step Cons.prems(2,3)
  proof (induction rule: lifecycle.induct)
    case (start st a)
    then have "in_int32 (a + 1)" by (simp add: lifecycle_inv_def in_int32_def)
    then show ?case by simp
  qed auto
  moreover have "snd (last (q # qs)) = snd q + int (starts qs)" using Cons.IH inv Cons.prems by simp
  moreover have "starts (q # qs) = (if fst q = RemediationStateRunning then 1 else 0) + starts qs" by (simp add: starts_def)
  ultimately show ?case by (simp split: if_splits)
qed (simp add: starts_def)

section \<open>Passes refine it\<close>

text \<open>
  What is relied on of the API server: the answer to an accepted status update is the record
  that was written, up to fields no decision reads.
\<close>

definition same_record :: "remediation \<Rightarrow> remediation \<Rightarrow> bool" where
  "same_record a b \<longleftrightarrow> Meta a = Meta b \<and> Spec a = Spec b \<and> rem_state a = rem_state b
     \<and> Attempt (Status a) = Attempt (Status b)"

definition status_echo :: "'w kube \<Rightarrow> bool" where
  "status_echo k \<longleftrightarrow> (\<forall>rem w rem1 w'. KubeUpdateStatus k rem w = (Inr rem1, w') \<longrightarrow> same_record rem1 rem)"

definition point_of :: "remediation \<Rightarrow> point" where
  "point_of rem = (rem_state rem, Attempt (Status rem))"

fun writes :: "effect list \<Rightarrow> remediation list" where
  "writes [] = []"
| "writes (StatusWrite rem ok # es) = (if ok then rem # writes es else writes es)"
| "writes (_ # es) = writes es"

lemma writes_append [simp]: "writes (es @ es') = writes es @ writes es'"
  by (induction es rule: writes.induct) simp_all

lemma writes_none: "list_all (\<lambda>e. \<forall>rem. e \<noteq> StatusWrite rem True) es \<Longrightarrow> writes es = []"
  by (induction es rule: writes.induct) auto

lemma writes_calls [simp]:
  "list_all is_live_call es \<Longrightarrow> writes es = []" "list_all is_plan_call es \<Longrightarrow> writes es = []"
  "list_all is_event es \<Longrightarrow> writes es = []" "list_all is_delete es \<Longrightarrow> writes es = []"
  by (auto intro!: writes_none simp: list_all_iff is_live_call_def is_plan_call_def is_event_def is_delete_def)

lemma writes_escalation: "escalation_calls es \<Longrightarrow> writes es = []"
  by (auto simp: escalation_calls_def)

lemma writes_take: "\<exists>m. writes (take n es) = take m (writes es)"
proof -
  have "writes es = writes (take n es) @ writes (drop n es)"
    by (simp only: append_take_drop_id flip: writes_append)
  then have "writes (take n es) = take (length (writes (take n es))) (writes es)" by simp
  then show ?thesis ..
qed

lemma finish_writes:
  assumes "finish_effects rem st reason m err h h' es"
  shows "map point_of (writes es) = (if err = None then [(st, Attempt (Status rem))] else [])
    \<and> (\<forall>w \<in> set (writes es). Meta w = Meta rem \<and> Spec w = Spec rem)"
  using assms by (auto simp: finish_effects_def finished_as_def point_of_def split: if_splits)

text \<open>A write sequence of the record \<open>rem\<close> that starts at the point \<open>p\<close>.\<close>

definition good_writes :: "remediation \<Rightarrow> point \<Rightarrow> effect list \<Rightarrow> bool" where
  "good_writes rem p es \<longleftrightarrow> lifecycle_path (Retries (Spec rem)) p (map point_of (writes es))
     \<and> (\<forall>w \<in> set (writes es). Meta w = Meta rem \<and> Spec w = Spec rem)"

lemma finish_good:
  assumes "finish_effects rem' st reason m err h h' es" and "Meta rem' = Meta rem" "Spec rem' = Spec rem"
    and "lifecycle (Retries (Spec rem)) p (st, Attempt (Status rem'))"
  shows "good_writes rem p es"
  using finish_writes [OF assms(1)] assms(2-4) by (simp add: good_writes_def)

lemma good_writes_prefix: "writes es1 = [] \<Longrightarrow> good_writes rem p es2 \<Longrightarrow> good_writes rem p (es1 @ es2)"
  by (simp add: good_writes_def)

lemma point_of_pair: "point_of rem = (st, a) \<longleftrightarrow> rem_state rem = st \<and> Attempt (Status rem) = a"
  by (simp add: point_of_def)

lemma concluded_good:
  assumes "concluded a rem1 res out h h' es"
  shows "Attempt (Status rem1) = a \<Longrightarrow> good_writes rem1 (RemediationStateRunning, a) es"
  using assms
proof (induction rule: concluded.induct)
  case (success err h h' es)
  have "IsTerminal (TerminalState (DryRun (Spec rem1)) None)" by (simp add: TerminalState_def)
  with success show ?case by (intro finish_good [OF success(2)]) (simp_all add: lifecycle.finish)
next
  case (retry e ok out h)
  then show ?case by (simp add: good_writes_def point_of_def lifecycle.retry)
next
  case (failure e es1 esc err h h' es2)
  then show ?case
    by (intro good_writes_prefix finish_good [OF failure(5)]) (simp_all add: lifecycle.finish writes_escalation)
qed

lemma pass_good:
  assumes "pass r c rem out h h' es" and "status_echo (RClient r)"
  shows "good_writes rem (point_of rem) es"
  using assms(1)
proof (induction rule: pass.induct)
  case (idle h)
  then show ?case by (simp add: good_writes_def)
next
  case (interrupted err h h' es)
  then show ?case by (intro finish_good [OF interrupted(2)]) (simp_all add: point_of_def lifecycle.finish)
next
  case (gives_up es1 esc err h h' es2)
  then show ?case by (intro good_writes_prefix finish_good [OF gives_up(4)])
      (simp_all add: writes_escalation point_of_def lifecycle.refuse open_record_iff)
next
  case (waits out es h)
  then show ?case
    by (auto simp: waited_def awaiting_record_def point_of_def open_record_iff good_writes_def lifecycle.await
        split: if_splits)
next
  case (times_out es1 esc err h h' es2)
  then show ?case by (intro good_writes_prefix finish_good [OF times_out(6)])
      (simp_all add: writes_escalation point_of_def lifecycle.refuse open_record_iff)
next
  case (denied d ev err h h' es)
  then show ?case by (intro good_writes_prefix finish_good [OF denied(7)])
      (simp_all add: point_of_def lifecycle.refuse open_record_iff)
next
  case (unmarked ev out h t)
  then show ?case by (simp add: good_writes_def)
next
  case (ran ev t w rem1 w' res es1 out h h' es2)
  let ?run = "running_record rem t"
  have same: "same_record rem1 ?run" using ran(3) assms(2) by (auto simp: status_echo_def)
  have "writes es1 = []" using run_shape_calls [OF ran(4)] by (auto split: if_splits)
  moreover have "lifecycle (Retries (Spec rem)) (point_of rem) (point_of ?run)"
    using ran(1) by (simp add: may_run_def open_record_iff point_of_def running_record_def lifecycle.start)
  moreover have "good_writes rem (point_of ?run) es2"
    using concluded_good [OF ran(6)] same
    by (simp add: same_record_def running_record_def point_of_def good_writes_def)
  ultimately show ?case using ran(2) by (simp add: good_writes_def) (simp add: running_record_def)
qed

lemma pass_writes:
  assumes "pass r c rem out h h' es" and "status_echo (RClient r)"
  shows "lifecycle_path (Retries (Spec rem)) (point_of rem) (map point_of (writes es))
    \<and> (\<forall>w \<in> set (writes es). Meta w = Meta rem \<and> Spec w = Spec rem)"
  using pass_good [OF assms] by (simp add: good_writes_def)

section \<open>The life of a record\<close>

text \<open>
  \<open>life r rem ws\<close>: \<open>rem\<close> is what the server may hold after the status writes \<open>ws\<close>. A pass may be
  cut off after any of its effects, which is a process that dies; the next pass starts from
  what was stored. People may decide on the record between passes.
\<close>

inductive life :: "'w reconciler \<Rightarrow> int \<Rightarrow> remediation \<Rightarrow> remediation list \<Rightarrow> bool" for r R where
  new: "rem_state rem = RemediationStateOther '''' \<Longrightarrow> Attempt (Status rem) = 0 \<Longrightarrow> Retries (Spec rem) = R \<Longrightarrow> life r R rem []"
| reconciled: "life r R rem ws \<Longrightarrow> reconcile_record r c rem s = (out, s') \<Longrightarrow> Trace s' = Trace s @ es \<Longrightarrow>
    same_record rem' (last (rem # writes (take n es))) \<Longrightarrow> life r R rem' (ws @ writes (take n es))"
| decided: "life r R rem ws \<Longrightarrow> life r R (rem\<lparr>Spec := (Spec rem)\<lparr>Approval := d\<rparr>\<rparr>) ws"

lemma same_record_point: "same_record a b \<Longrightarrow> point_of a = point_of b \<and> Spec a = Spec b"
  by (simp add: same_record_def point_of_def)

lemma last_map_point: "point_of (last (rem # ws)) = last (point_of rem # map point_of ws)"
  by (induction ws arbitrary: rem) auto

lemma last_spec: "\<forall>w \<in> set ws. Spec w = Spec rem \<Longrightarrow> Spec (last (rem # ws)) = Spec rem"
  by (induction ws rule: rev_induct) auto

lemma life_path:
  assumes "life r R rem ws" and "status_echo (RClient r)"
  shows "lifecycle_path R (RemediationStateOther '''', 0) (map point_of ws)
    \<and> point_of rem = last ((RemediationStateOther '''', 0) # map point_of ws) \<and> Retries (Spec rem) = R"
  using assms(1)
proof (induction rule: life.induct)
  case (new rem)
  then show ?case by (simp add: point_of_def)
next
  case (reconciled rem ws c s out s' es rem' n)
  let ?w = "writes (take n es)"
  from reconcile_record_pass [OF reconciled(2)] reconciled(3)
  have "pass r c rem out (History s) (History s') es" by auto
  from pass_writes [OF this assms(2)] have P: "lifecycle_path R (point_of rem) (map point_of (writes es))"
    and spec: "\<forall>w \<in> set (writes es). Spec w = Spec rem" using reconciled.IH by auto
  obtain m where m: "?w = take m (writes es)" using writes_take by blast
  have P': "lifecycle_path R (point_of rem) (map point_of ?w)"
    unfolding m take_map [symmetric] by (rule lifecycle_path_take [OF P])
  have "\<forall>w \<in> set ?w. Spec w = Spec rem" using spec m set_take_subset by fastforce
  then have "Spec (last (rem # ?w)) = Spec rem" by (rule last_spec)
  moreover have "point_of rem' = last (point_of rem # map point_of ?w)" "Spec rem' = Spec (last (rem # ?w))"
    using same_record_point [OF reconciled(4)] last_map_point by metis+
  ultimately show ?case using reconciled.IH P'
    by (auto simp: lifecycle_path_append)
next
  case (decided rem ws d)
  then show ?case by (simp add: point_of_def)
qed

lemma life_inv:
  assumes "life r R rem ws" and "status_echo (RClient r)" and "0 \<le> R" and "R + 1 < 2 ^ 31"
  shows "lifecycle_inv R (point_of rem) \<and> Attempt (Status rem) = int (starts (map point_of ws))"
proof -
  have init: "lifecycle_inv R (RemediationStateOther '''', 0)" using assms(3) by (simp add: lifecycle_inv_def)
  note P = life_path [OF assms(1,2)]
  have "snd (point_of rem) = 0 + int (starts (map point_of ws))"
    using lifecycle_path_starts [OF _ init assms(4)] P by fastforce
  moreover have "lifecycle_inv R (point_of rem)" using lifecycle_path_inv [OF _ init assms(4)] P by fastforce
  ultimately show ?thesis by (simp add: point_of_def)
qed

end
