(* ===== verification/Alert.thy ===== *)
theory Alert
  imports Types "HOL-Library.Word"
begin

text \<open>
  \<open>internal/alert\<close>: the normalized alert, the derived fingerprint and the Alertmanager payload.
  Decoding JSON bytes into the payload is \<open>encoding/json\<close>'s work: \<open>ParseWebhook\<close> takes the
  outcome of that decoding. The lemmas show that parsing is all-or-nothing, that every parsed
  alert is well formed, and that the fingerprint depends on the labels and on nothing else.
\<close>

unbundle bit_operations_syntax

section \<open>Alerts\<close>

datatype status = StatusFiring | StatusResolved

fun status_string :: "status \<Rightarrow> string" where
  "status_string StatusFiring = ''firing''"
| "status_string StatusResolved = ''resolved''"

definition LabelAlertName :: string where "LabelAlertName = ''alertname''"

record alert =
  Fingerprint :: string
  AlertStatus :: status
  AlertLabels :: smap
  AlertAnnotations :: smap
  StartsAt :: time
  EndsAt :: time
  GeneratorURL :: string

definition alert_name :: "alert \<Rightarrow> string" where
  "alert_name a = map_get (AlertLabels a) LabelAlertName"

definition alert_label :: "alert \<Rightarrow> string \<Rightarrow> string" where
  "alert_label a k = map_get (AlertLabels a) k"

definition IsFiring :: "alert \<Rightarrow> bool" where
  "IsFiring a \<longleftrightarrow> AlertStatus a = StatusFiring"

definition alert_string :: "alert \<Rightarrow> string" where
  "alert_string a =
     (let name = (if alert_name a = '''' then ''<unnamed>'' else alert_name a)
      in name @ ''['' @ status_string (AlertStatus a) @ ''] '' @ Fingerprint a)"

definition validateStatus :: "string \<Rightarrow> go_error + status" where
  "validateStatus s =
     (let t = to_lower (trim_space s) in
      if t = ''firing'' then Inr StatusFiring
      else if t = ''resolved'' then Inr StatusResolved
      else if t = '''' then Inl (Err (''status is empty, want '' @ quote ''firing'' @ '' or '' @ quote ''resolved''))
      else Inl (Err (''unknown status '' @ quote s @ '', want '' @ quote ''firing'' @ '' or '' @ quote ''resolved'')))"

section \<open>The derived fingerprint\<close>

text \<open>\<open>hash/fnv\<close>'s 64-bit FNV-1a.\<close>

definition fnv_step :: "64 word \<Rightarrow> char \<Rightarrow> 64 word" where
  "fnv_step h c = (h XOR word_of_nat (of_char c)) * 1099511628211"

definition fnv64a :: "string \<Rightarrow> 64 word" where
  "fnv64a s = foldl fnv_step 14695981039346656037 s"

fun hex_digits :: "nat \<Rightarrow> nat \<Rightarrow> string" where
  "hex_digits 0 n = []"
| "hex_digits (Suc k) n = hex_digits k (n div 16) @ [hex_char (n mod 16)]"

definition encode_pair :: "string \<Rightarrow> string \<Rightarrow> string" where
  "encode_pair k v =
     itoa (int (length k)) @ '':'' @ k @ ''='' @ itoa (int (length v)) @ '':'' @ v @ '';''"

definition encode_labels :: "smap \<Rightarrow> string" where
  "encode_labels labels = concat (map (\<lambda>k. encode_pair k (map_get labels k)) (sort (map fst labels)))"

definition DeriveFingerprint :: "smap \<Rightarrow> string" where
  "DeriveFingerprint labels = hex_digits 16 (unat (fnv64a (encode_labels labels)))"

lemma length_hex_digits [simp]: "length (hex_digits k n) = k"
  by (induction k arbitrary: n) auto

definition hex_alphabet :: string where "hex_alphabet = ''0123456789abcdef''"

lemma hex_char_all: "list_all (\<lambda>d. hex_char d \<in> set hex_alphabet) [0..<16]"
  by code_simp

lemma hex_char_in: "d < 16 \<Longrightarrow> hex_char d \<in> set hex_alphabet"
  using hex_char_all by (simp add: list_all_iff)

lemma hex_digits_in: "c \<in> set (hex_digits k n) \<Longrightarrow> c \<in> set hex_alphabet"
  by (induction k arbitrary: n) (auto simp: hex_char_in)

lemma sorted_keys_permutation: "mset m = mset m' \<Longrightarrow> sort (map fst m) = sort (map fst m')"
  by (metis mset_map properties_for_sort sorted_sort mset_sort)

lemma encode_labels_permutation:
  assumes "mset m = mset m'" and "map_wf m"
  shows "encode_labels m = encode_labels m'"
  using sorted_keys_permutation [OF assms(1)] map_get_permutation [OF assms]
  by (simp add: encode_labels_def)

lemma nat_str_colon:
  assumes "nat_str m @ CHR '':'' # x = nat_str n @ CHR '':'' # y"
  shows "m = n \<and> x = y"
proof -
  have "\<not> is_digit (CHR '':'')" by (simp add: is_digit_def)
  then have tw: "takeWhile is_digit (nat_str k @ CHR '':'' # z) = nat_str k" for k z
    using nat_str_digits [of _ k] by (simp add: takeWhile_append2)
  from assms have "nat_str m = nat_str n" by (metis tw)
  with assms show ?thesis by simp
qed

lemma encode_pair_append:
  assumes "encode_pair k v @ r = encode_pair k' v' @ r'"
  shows "k = k' \<and> v = v' \<and> r = r'"
proof -
  from assms have "nat_str (length k) @ CHR '':'' # (k @ ''='' @ nat_str (length v) @ '':'' @ v @ '';'' @ r)
      = nat_str (length k') @ CHR '':'' # (k' @ ''='' @ nat_str (length v') @ '':'' @ v' @ '';'' @ r')"
    by (simp add: encode_pair_def itoa_def)
  from nat_str_colon [OF this] have lk: "length k = length k'"
    and rest: "k @ ''='' @ nat_str (length v) @ '':'' @ v @ '';'' @ r
      = k' @ ''='' @ nat_str (length v') @ '':'' @ v' @ '';'' @ r'" by blast+
  from rest lk have k: "k = k'"
    and "nat_str (length v) @ CHR '':'' # (v @ '';'' @ r) = nat_str (length v') @ CHR '':'' # (v' @ '';'' @ r')"
    by simp_all
  from nat_str_colon [OF this(2)] have lv: "length v = length v'"
    and "v @ '';'' @ r = v' @ '';'' @ r'" by blast+
  with k show ?thesis by simp
qed

lemma encode_pairs_inject:
  "concat (map (\<lambda>(k, v). encode_pair k v) ps) = concat (map (\<lambda>(k, v). encode_pair k v) qs) \<Longrightarrow> ps = qs"
proof (induction ps arbitrary: qs)
  case Nil
  then show ?case by (cases qs) (auto simp: encode_pair_def split: prod.splits)
next
  case (Cons p ps)
  obtain k v where p: "p = (k, v)" by (cases p)
  with Cons.prems obtain k' v' qs' where qs: "qs = (k', v') # qs'"
    by (cases qs) (auto simp: encode_pair_def split: prod.splits)
  from Cons.prems p qs have "encode_pair k v @ concat (map (\<lambda>(k, v). encode_pair k v) ps)
      = encode_pair k' v' @ concat (map (\<lambda>(k, v). encode_pair k v) qs')" by simp
  from encode_pair_append [OF this] show ?case using Cons.IH p qs by simp
qed

lemma encode_labels_inject:
  assumes "encode_labels m = encode_labels m'" and "map_wf m" and "map_wf m'"
  shows "map_of m = map_of m'"
proof -
  let ?ps = "\<lambda>m. map (\<lambda>k. (k, map_get m k)) (sort (map fst m))"
  have enc: "encode_labels x = concat (map (\<lambda>(k, v). encode_pair k v) (?ps x))" for x
    by (simp add: encode_labels_def o_def)
  from assms(1) have eq: "?ps m = ?ps m'" unfolding enc by (rule encode_pairs_inject)
  then have "map fst (?ps m) = map fst (?ps m')" by simp
  then have "sort (map fst m) = sort (map fst m')" by (simp add: o_def)
  then have keys: "set (map fst m) = set (map fst m')" by (metis set_sort)
  have "map_of m k = map_of m' k" for k
  proof (cases "k \<in> set (map fst m)")
    case True
    have "(k, map_get m k) \<in> set (?ps m)" using True by auto
    then have "(k, map_get m k) \<in> set (?ps m')" using eq by simp
    then have "map_get m k = map_get m' k" by auto
    moreover have "map_of m k \<noteq> None" and "map_of m' k \<noteq> None"
      using True keys by (auto simp: map_of_eq_None_iff)
    ultimately show ?thesis by (auto simp: map_get_def)
  next
    case False
    with keys show ?thesis by (metis map_of_eq_None_iff list.set_map)
  qed
  then show ?thesis by blast
qed

section \<open>The webhook payload\<close>

definition SupportedWebhookVersion :: string where "SupportedWebhookVersion = ''4''"

record webhook_item =
  ItemStatus :: string
  ItemLabels :: smap
  ItemAnnotations :: smap
  ItemStartsAt :: time
  ItemEndsAt :: time
  ItemGeneratorURL :: string
  ItemFingerprint :: string

record webhook_payload =
  Version :: string
  PayloadTruncated :: int
  PayloadAlerts :: "webhook_item list"

record parse_result =
  Alerts :: "alert list"
  TruncatedAlerts :: int

text \<open>\<open>copyMap\<close> builds a fresh map entry by entry.\<close>

definition copyMap :: "smap \<Rightarrow> smap" where
  "copyMap m = fold (\<lambda>(k, v) out. map_put k v out) m []"

definition normalize :: "webhook_item \<Rightarrow> go_error + alert" where
  "normalize it =
     (case validateStatus (ItemStatus it) of
        Inl e \<Rightarrow> Inl e
      | Inr st \<Rightarrow>
          if length (ItemLabels it) = 0 then Inl (Err ''alert has no labels'')
          else
            let fp = (if ItemFingerprint it = '''' then DeriveFingerprint (ItemLabels it)
                      else ItemFingerprint it)
            in Inr \<lparr>Fingerprint = fp, AlertStatus = st, AlertLabels = copyMap (ItemLabels it),
                 AlertAnnotations = copyMap (ItemAnnotations it), StartsAt = ItemStartsAt it,
                 EndsAt = ItemEndsAt it, GeneratorURL = ItemGeneratorURL it\<rparr>)"

text \<open>The loop over the payload's alerts, with the index of the error message.\<close>

fun normalize_all :: "nat \<Rightarrow> webhook_item list \<Rightarrow> go_error + alert list" where
  "normalize_all i [] = Inr []"
| "normalize_all i (it # its) =
     (case normalize it of
        Inl e \<Rightarrow> Inl (Wrap (''alert['' @ itoa (int i) @ '']: '') e '''')
      | Inr a \<Rightarrow> (case normalize_all (Suc i) its of Inl e \<Rightarrow> Inl e | Inr as \<Rightarrow> Inr (a # as)))"

text \<open>The argument is what \<open>json.Decoder.Decode\<close> returned: an error, or the payload.\<close>

definition ParseWebhook :: "go_error + webhook_payload \<Rightarrow> go_error + parse_result" where
  "ParseWebhook decoded =
     (case decoded of
        Inl e \<Rightarrow> if errors_is e ErrEOF then Inl ErrEmptyPayload
                 else Inl (Wrap ''decode webhook payload: '' e '''')
      | Inr p \<Rightarrow>
          if Version p \<noteq> '''' \<and> Version p \<noteq> SupportedWebhookVersion
          then Inl (Err (''unsupported webhook payload version '' @ quote (Version p) @ '', want ''
                 @ quote SupportedWebhookVersion))
          else case normalize_all 0 (PayloadAlerts p) of
              Inl e \<Rightarrow> Inl e
            | Inr as \<Rightarrow> Inr \<lparr>Alerts = as, TruncatedAlerts = PayloadTruncated p\<rparr>)"

definition ParseWebhookBytes :: "(string \<Rightarrow> go_error + webhook_payload) \<Rightarrow> string \<Rightarrow> go_error + parse_result" where
  "ParseWebhookBytes decode b = (if length b = 0 then Inl ErrEmptyPayload else ParseWebhook (decode b))"

text \<open>What every alert handed to the engine satisfies.\<close>

definition alert_wf :: "alert \<Rightarrow> bool" where
  "alert_wf a \<longleftrightarrow> AlertLabels a \<noteq> [] \<and> map_wf (AlertLabels a) \<and> Fingerprint a \<noteq> ''''"

lemma map_put_nonempty [simp]: "map_put k v m \<noteq> []"
proof
  assume "map_put k v m = []"
  then have "map_of (map_put k v m) k = None" by (simp del: map_of_map_put)
  then show False by simp
qed

lemma fold_map_put_wf: "map_wf out \<Longrightarrow> map_wf (fold (\<lambda>(k, v) out. map_put k v out) m out)"
  by (induction m arbitrary: out) auto

lemma fold_map_put_nonempty: "out \<noteq> [] \<Longrightarrow> fold (\<lambda>(k, v) out. map_put k v out) m out \<noteq> []"
proof (induction m arbitrary: out)
  case (Cons p m)
  obtain k v where p: "p = (k, v)" by (cases p)
  show ?case using Cons.IH [of "map_put k v out"] unfolding p by simp
qed simp

lemma fold_map_put_map_of:
  "map_wf m \<Longrightarrow> map_of (fold (\<lambda>(k, v) out. map_put k v out) m out) = map_of out ++ map_of m"
proof (induction m arbitrary: out)
  case (Cons p m)
  obtain k v where p: "p = (k, v)" by (cases p)
  with Cons.prems have "map_of m k = None" by (simp add: map_of_eq_None_iff)
  then have upd: "(map_of out)(k \<mapsto> v) ++ map_of m = (map_of out ++ map_of m)(k \<mapsto> v)"
    by (auto simp: map_add_def fun_eq_iff split: option.splits)
  have "map_of (fold (\<lambda>(k, v) out. map_put k v out) (p # m) out)
      = map_of (map_put k v out) ++ map_of m"
    using Cons p by simp
  also have "\<dots> = map_of out ++ map_of (p # m)"
    unfolding map_of_map_put upd p by simp
  finally show ?case .
qed simp

lemma map_wf_copyMap [simp]: "map_wf (copyMap m)"
  by (simp add: copyMap_def fold_map_put_wf)

lemma copyMap_eq_Nil [simp]: "copyMap m = [] \<longleftrightarrow> m = []"
  by (cases m) (auto simp: copyMap_def fold_map_put_nonempty)

lemma map_of_copyMap: "map_wf m \<Longrightarrow> map_of (copyMap m) = map_of m"
  by (simp add: copyMap_def fold_map_put_map_of)

lemma length_DeriveFingerprint [simp]: "length (DeriveFingerprint m) = 16"
  by (simp add: DeriveFingerprint_def)

lemma DeriveFingerprint_nonempty [simp]: "DeriveFingerprint m \<noteq> []"
proof
  assume "DeriveFingerprint m = []"
  then have "length (DeriveFingerprint m) = 0" by (simp only: list.size)
  then show False by simp
qed

lemma normalize_wf: "normalize it = Inr a \<Longrightarrow> alert_wf a"
  by (auto simp: normalize_def alert_wf_def Let_def split: sum.splits if_splits)

lemma normalize_all_nth:
  "normalize_all i its = Inr as \<Longrightarrow> length as = length its \<and> (\<forall>n < length its. normalize (its ! n) = Inr (as ! n))"
proof (induction i its arbitrary: as rule: normalize_all.induct)
  case (2 i it its)
  then show ?case by (auto split: sum.splits simp: less_Suc_eq_0_disj)
qed simp

lemma normalize_all_error:
  "normalize_all i its = Inl e \<Longrightarrow> \<exists>n e'. n < length its \<and> normalize (its ! n) = Inl e'
     \<and> e = Wrap (''alert['' @ itoa (int (i + n)) @ '']: '') e' ''''
     \<and> (\<forall>m < n. \<exists>a. normalize (its ! m) = Inr a)"
proof (induction i its rule: normalize_all.induct)
  case (2 i it its)
  show ?case
  proof (cases "normalize it")
    case (Inl e')
    with 2 show ?thesis by (intro exI [of _ 0]) auto
  next
    case (Inr a)
    with 2 have "normalize_all (Suc i) its = Inl e" by (auto split: sum.splits)
    from "2.IH" [OF Inr this] obtain n e' where "n < length its" "normalize (its ! n) = Inl e'"
      "e = Wrap (''alert['' @ itoa (int (Suc i + n)) @ '']: '') e' ''''"
      "\<forall>m < n. \<exists>a. normalize (its ! m) = Inr a" by blast
    with Inr show ?thesis by (intro exI [of _ "Suc n"]) (auto simp: less_Suc_eq_0_disj)
  qed
qed simp

end
