(* ===== verification/Matching.thy ===== *)
theory Matching
  imports Alert
begin

text \<open>
  \<open>internal/matching\<close>: which strategy, if any, handles an alert. The lemmas show that selection
  returns the most specific matching rule, ties broken by name, whatever the order of the
  rules and of the maps, and relate \<open>WhyNot\<close> to \<open>Matches\<close>.
\<close>

record rule =
  RuleName :: string
  RuleEnabled :: bool
  RuleMatch :: smap

definition Specificity :: "rule \<Rightarrow> nat" where
  "Specificity r = length (RuleMatch r)"

definition usable :: "rule \<Rightarrow> bool" where
  "usable r \<longleftrightarrow> RuleEnabled r \<and> length (RuleMatch r) > 0"

definition Matches :: "alert \<Rightarrow> rule \<Rightarrow> bool" where
  "Matches a r \<longleftrightarrow>
     (if \<not> usable r then False
      else list_all (\<lambda>(key, want). map_get (AlertLabels a) key = want) (RuleMatch r))"

definition precedes :: "rule \<Rightarrow> rule \<Rightarrow> bool" where
  "precedes r r' \<longleftrightarrow>
     (if Specificity r \<noteq> Specificity r' then Specificity r > Specificity r'
      else RuleName r < RuleName r')"

definition Candidates :: "alert \<Rightarrow> rule list \<Rightarrow> rule list" where
  "Candidates a rules = sort_slice precedes (filter (Matches a) rules)"

definition Select :: "alert \<Rightarrow> rule list \<Rightarrow> rule option" where
  "Select a rules =
     (let candidates = Candidates a rules in
      case candidates of [] \<Rightarrow> None | r # _ \<Rightarrow> Some r)"

text \<open>The loop of \<open>WhyNot\<close> over the sorted keys; the empty string when every matcher holds.\<close>

fun why_not_keys :: "alert \<Rightarrow> rule \<Rightarrow> string list \<Rightarrow> string" where
  "why_not_keys a r [] = ''''"
| "why_not_keys a r (key # keys) =
     (let want = map_get (RuleMatch r) key in
      case map_of (AlertLabels a) key of
        None \<Rightarrow> ''the alert has no '' @ key @ '' label; the strategy wants '' @ key @ ''='' @ want
      | Some got \<Rightarrow>
          if got \<noteq> want then key @ '' is '' @ got @ '', the strategy wants '' @ want
          else why_not_keys a r keys)"

definition WhyNot :: "alert \<Rightarrow> rule \<Rightarrow> string" where
  "WhyNot a r =
     (if \<not> RuleEnabled r then ''disabled''
      else if length (RuleMatch r) = 0
      then ''no matchers, which would match every alert, so it is refused''
      else why_not_keys a r (sort (map fst (RuleMatch r))))"

section \<open>Selection\<close>

lemma strict_weak_precedes [simp]: "strict_weak precedes"
  unfolding strict_weak_def precedes_def by (auto split: if_splits)

lemma Matches_iff:
  "Matches a r \<longleftrightarrow> RuleEnabled r \<and> RuleMatch r \<noteq> []
     \<and> (\<forall>(key, want) \<in> set (RuleMatch r). map_get (AlertLabels a) key = want)"
  by (auto simp: Matches_def usable_def list_all_iff)

lemma set_Candidates [simp]: "set (Candidates a rules) = {r \<in> set rules. Matches a r}"
  by (auto simp: Candidates_def)

lemma sorted_Candidates: "sorted_wrt (\<lambda>r r'. \<not> precedes r' r) (Candidates a rules)"
  by (simp add: Candidates_def sorted_sort_slice)

lemma Select_None_iff: "Select a rules = None \<longleftrightarrow> (\<forall>r \<in> set rules. \<not> Matches a r)"
proof -
  have "Select a rules = None \<longleftrightarrow> Candidates a rules = []"
    by (simp add: Select_def Let_def split: list.splits)
  also have "\<dots> \<longleftrightarrow> set (Candidates a rules) = {}" by (simp only: set_empty)
  also have "\<dots> \<longleftrightarrow> (\<forall>r \<in> set rules. \<not> Matches a r)" unfolding set_Candidates by blast
  finally show ?thesis .
qed

lemma Select_Some:
  assumes "Select a rules = Some r"
  shows "r \<in> set rules" and "Matches a r"
    and "r' \<in> set rules \<Longrightarrow> Matches a r' \<Longrightarrow> \<not> precedes r' r"
proof -
  from assms obtain rs where c: "Candidates a rules = r # rs"
    by (auto simp: Select_def Let_def split: list.splits)
  then have mem: "r \<in> set (Candidates a rules)" by simp
  then show "r \<in> set rules" and "Matches a r" by auto
  assume "r' \<in> set rules" and "Matches a r'"
  then have "r' \<in> set (Candidates a rules)" by simp
  with c sorted_Candidates [of a rules] show "\<not> precedes r' r"
    by (auto simp: precedes_def)
qed

lemma precedes_total: "RuleName r \<noteq> RuleName r' \<Longrightarrow> precedes r r' \<or> precedes r' r"
  by (auto simp: precedes_def)

lemma Select_unique:
  assumes "Select a rules = Some r" and "distinct (map RuleName rules)"
    and "r' \<in> set rules" "Matches a r'" "\<And>q. q \<in> set rules \<Longrightarrow> Matches a q \<Longrightarrow> \<not> precedes q r'"
  shows "r' = r"
proof (rule ccontr)
  assume "r' \<noteq> r"
  then have "RuleName r \<noteq> RuleName r'"
    using Select_Some(1) [OF assms(1)] assms(2,3) by (auto simp: distinct_map inj_on_def)
  from precedes_total [OF this] show False
    using Select_Some [OF assms(1)] assms(3-5) by blast
qed

lemma Matches_permutation:
  assumes "mset (RuleMatch r) = mset m"
  shows "Matches a (r\<lparr>RuleMatch := m\<rparr>) = Matches a r"
proof -
  from assms have "set m = set (RuleMatch r)" and "m = [] \<longleftrightarrow> RuleMatch r = []"
    by (metis set_mset_mset, metis mset_zero_iff)
  then show ?thesis by (simp add: Matches_iff)
qed

section \<open>Explanations\<close>

lemma why_not_keys_empty:
  "why_not_keys a r keys = '''' \<longleftrightarrow>
     (\<forall>k \<in> set keys. map_of (AlertLabels a) k = Some (map_get (RuleMatch r) k))"
  by (induction keys) (auto simp: Let_def split: option.splits)

lemma map_get_mem: "map_wf m \<Longrightarrow> (k, v) \<in> set m \<Longrightarrow> map_get m k = v"
  by (simp add: map_get_def)

lemma WhyNot_empty_iff:
  assumes "map_wf (RuleMatch r)"
  shows "WhyNot a r = '''' \<longleftrightarrow>
    Matches a r \<and> (\<forall>(k, v) \<in> set (RuleMatch r). k \<in> fst ` set (AlertLabels a))"
    (is "?L \<longleftrightarrow> ?R")
proof -
  have val: "p \<in> set (RuleMatch r) \<Longrightarrow> map_get (RuleMatch r) (fst p) = snd p" for p
    using map_get_mem [OF assms, of "fst p" "snd p"] by simp
  have look: "map_of (AlertLabels a) k = Some v
      \<longleftrightarrow> map_get (AlertLabels a) k = v \<and> k \<in> fst ` set (AlertLabels a)" for k v
    by (cases "map_of (AlertLabels a) k")
       (auto simp: map_get_def map_of_eq_None_iff dest: map_of_SomeD intro: rev_image_eqI)
  have "?L \<longleftrightarrow> RuleEnabled r \<and> RuleMatch r \<noteq> []
      \<and> (\<forall>k \<in> fst ` set (RuleMatch r). map_of (AlertLabels a) k = Some (map_get (RuleMatch r) k))"
    by (simp add: WhyNot_def why_not_keys_empty)
  also have "\<dots> \<longleftrightarrow> RuleEnabled r \<and> RuleMatch r \<noteq> []
      \<and> (\<forall>(k, v) \<in> set (RuleMatch r). map_of (AlertLabels a) k = Some v)"
    by (simp add: val case_prod_beta)
  also have "\<dots> \<longleftrightarrow> ?R"
    by (simp add: Matches_iff look case_prod_beta ball_conj_distrib)
  finally show ?thesis .
qed

end
