(* ===== verification/BlastRadius.thy ===== *)
theory BlastRadius
  imports Guards
begin

text \<open>
  \<open>internal/guards/blastradius.go\<close>: the guard that looks at the workload. Replica counts are
  \<open>int32\<close>; the percentage is computed in \<open>int\<close>. The reader answers with an error, or with a
  workload and whether it applies; the locale \<open>workload_reader\<close> states what a reader promises
  about the numbers it reports, and the lemmas give the exact limits the guard enforces.
\<close>

definition GuardBlastRadius :: string where "GuardBlastRadius = ''blastRadius''"

record blast_radius =
  MinAvailable :: int
  MaxUnavailablePercent :: int

definition Configured :: "blast_radius \<Rightarrow> bool" where
  "Configured b \<longleftrightarrow> MinAvailable b > 0 \<or> MaxUnavailablePercent b > 0"

record workload =
  WorkloadName :: string
  Desired :: int
  Available :: int

definition Unavailable :: "workload \<Rightarrow> int" where
  "Unavailable w = (if Available w \<ge> Desired w then 0 else wrap32 (Desired w - Available w))"

definition UnavailablePercent :: "workload \<Rightarrow> int" where
  "UnavailablePercent w =
     (if Desired w \<le> 0 then 0
      else (let missing = Unavailable w in go_div (missing * 100 + Desired w - 1) (Desired w)))"

type_synonym reader = "string \<Rightarrow> go_error + workload \<times> bool"

definition zero_workload :: workload where
  "zero_workload = \<lparr>WorkloadName = '''', Desired = 0, Available = 0\<rparr>"

definition refuseUnreadable :: "string \<Rightarrow> go_error \<Rightarrow> decision" where
  "refuseUnreadable target e = refused GuardBlastRadius
     (''cannot tell how much of '' @ target @ '' is available, so remedik will not act on it: ''
       @ err_text e @ ''. blastRadius needs read access to the workload; the chart grants it with guards.blastRadius.enabled=true'')
     0"

definition EvaluateBlastRadius :: "blast_radius \<Rightarrow> reader option \<Rightarrow> string \<Rightarrow> decision" where
  "EvaluateBlastRadius cfg reader target =
     (if \<not> Configured cfg then allowed
      else case reader of
        None \<Rightarrow> refuseUnreadable target (Err ''no workload reader is configured'')
      | Some rd \<Rightarrow>
        (case rd target of
           Inl e \<Rightarrow> refuseUnreadable target e
         | Inr (w, applicable) \<Rightarrow>
             if \<not> applicable then allowed
             else if MinAvailable cfg > 0 \<and> Available w \<le> MinAvailable cfg
             then refused GuardBlastRadius
               (WorkloadName w @ '' has '' @ itoa (Available w) @ '' of '' @ itoa (Desired w)
                 @ '' replicas available, and blastRadius.minAvailable is '' @ itoa (MinAvailable cfg)
                 @ '': acting now could take it below what you said it must keep'') 0
             else if MaxUnavailablePercent cfg > 0
               \<and> UnavailablePercent w \<ge> MaxUnavailablePercent cfg
             then refused GuardBlastRadius
               (itoa (UnavailablePercent w) @ ''% of '' @ WorkloadName w @ '' is already unavailable (''
                 @ itoa (Unavailable w) @ '' of '' @ itoa (Desired w)
                 @ '' replicas), and blastRadius.maxUnavailablePercent is ''
                 @ itoa (MaxUnavailablePercent cfg)
                 @ '': it is already struggling without remedik adding to it'') 0
             else allowed))"

section \<open>What the guard enforces\<close>

definition workload_ok :: "workload \<Rightarrow> bool" where
  "workload_ok w \<longleftrightarrow> 0 \<le> Available w \<and> Available w < 2 ^ 31 \<and> 0 \<le> Desired w \<and> Desired w < 2 ^ 31"

lemma Unavailable_eq: "workload_ok w \<Longrightarrow> Unavailable w = max 0 (Desired w - Available w)"
  by (auto simp: Unavailable_def workload_ok_def in_int32_def)

lemma le_div_iff:
  assumes "0 < (d :: int)"
  shows "p \<le> a div d \<longleftrightarrow> p * d \<le> a"
proof
  assume "p \<le> a div d"
  then have "p * d \<le> (a div d) * d" using assms by (simp add: mult_right_mono)
  also have "\<dots> \<le> a" using assms by (simp add: minus_mod_eq_div_mult [symmetric])
  finally show "p * d \<le> a" .
next
  assume "p * d \<le> a"
  then have "(p * d) div d \<le> a div d" using assms by (rule zdiv_mono1)
  with assms show "p \<le> a div d" by simp
qed

lemma ceiling_div:
  assumes "0 < (d :: int)" and "0 \<le> m"
  shows "p \<le> (m + d - 1) div d \<longleftrightarrow> (p - 1) * d < m"
proof -
  have "p \<le> (m + d - 1) div d \<longleftrightarrow> p * d \<le> m + d - 1" by (rule le_div_iff) (rule assms(1))
  also have "\<dots> \<longleftrightarrow> (p - 1) * d < m" by (simp add: algebra_simps) arith
  finally show ?thesis .
qed

text \<open>The percentage is the share of missing replicas rounded up to the next whole percent.\<close>

lemma UnavailablePercent_ge_iff:
  assumes "workload_ok w" and "0 < Desired w"
  shows "p \<le> UnavailablePercent w \<longleftrightarrow> (p - 1) * Desired w < 100 * Unavailable w"
proof -
  have "0 \<le> Unavailable w" using assms by (simp add: Unavailable_eq)
  then have "UnavailablePercent w = (100 * Unavailable w + Desired w - 1) div Desired w"
    using assms(2) by (simp add: UnavailablePercent_def mult.commute)
  then show ?thesis using ceiling_div [of "Desired w" "100 * Unavailable w" p] assms(2) \<open>0 \<le> Unavailable w\<close>
    by simp
qed

lemma UnavailablePercent_bounds:
  assumes "workload_ok w"
  shows "0 \<le> UnavailablePercent w \<and> UnavailablePercent w \<le> 100"
proof (cases "0 < Desired w")
  case True
  have u: "0 \<le> Unavailable w" "Unavailable w \<le> Desired w"
    using assms True by (auto simp: Unavailable_eq workload_ok_def)
  have "0 \<le> UnavailablePercent w"
    using UnavailablePercent_ge_iff [OF assms True, of 0] u True by simp
  moreover have "\<not> 101 \<le> UnavailablePercent w"
    using UnavailablePercent_ge_iff [OF assms True, of 101] u by simp
  ultimately show ?thesis by simp
qed (simp add: UnavailablePercent_def)

lemma blast_radius_refuses_iff:
  assumes "rd target = Inr (w, True)" and "Configured cfg"
  shows "\<not> Allowed (EvaluateBlastRadius cfg (Some rd) target) \<longleftrightarrow>
    (MinAvailable cfg > 0 \<and> Available w \<le> MinAvailable cfg)
    \<or> (MaxUnavailablePercent cfg > 0 \<and> UnavailablePercent w \<ge> MaxUnavailablePercent cfg)"
  using assms by (simp add: EvaluateBlastRadius_def)

lemma blast_radius_fail_closed:
  assumes "Configured cfg" and "reader = None \<or> (\<exists>rd e. reader = Some rd \<and> rd target = Inl e)"
  shows "\<not> Allowed (EvaluateBlastRadius cfg reader target)"
  using assms by (auto simp: EvaluateBlastRadius_def refuseUnreadable_def)

lemma blast_radius_guard: "\<not> Allowed (EvaluateBlastRadius cfg reader target) \<Longrightarrow>
    Guard (EvaluateBlastRadius cfg reader target) = GuardBlastRadius"
  by (auto simp: EvaluateBlastRadius_def refuseUnreadable_def split: option.splits sum.splits if_splits)

section \<open>The contract of a reader\<close>

text \<open>
  A provider reads the workload behind a target from a cluster \<open>'c\<close>. On a cluster whose counts
  are in range, what it reports as applicable has a name and counts in range.
\<close>

locale workload_reader =
  fixes read :: "'c \<Rightarrow> reader"
    and valid :: "'c \<Rightarrow> bool"
  assumes reports_ok: "valid c \<Longrightarrow> read c target = Inr (w, True) \<Longrightarrow> workload_ok w"
    and names: "read c target = Inr (w, True) \<Longrightarrow> WorkloadName w \<noteq> ''''"
begin

text \<open>A guard that allows leaves more than \<open>minAvailable\<close> replicas up and a bounded share down.\<close>

lemma allowed_leaves_enough:
  assumes "Allowed (EvaluateBlastRadius cfg (Some (read c)) target)" and "read c target = Inr (w, True)" and "valid c"
  shows "0 < MinAvailable cfg \<Longrightarrow> MinAvailable cfg < Available w"
    and "0 < MaxUnavailablePercent cfg \<Longrightarrow> 0 < Desired w \<Longrightarrow>
      100 * Unavailable w \<le> (MaxUnavailablePercent cfg - 1) * Desired w"
proof -
  note ok = reports_ok [OF assms(3,2)]
  show "MinAvailable cfg < Available w" if "0 < MinAvailable cfg"
    using assms(1,2) that by (simp add: EvaluateBlastRadius_def Configured_def split: if_splits)
  show "100 * Unavailable w \<le> (MaxUnavailablePercent cfg - 1) * Desired w"
    if "0 < MaxUnavailablePercent cfg" and "0 < Desired w"
  proof -
    have "\<not> MaxUnavailablePercent cfg \<le> UnavailablePercent w"
      using assms(1,2) that(1) by (auto simp: EvaluateBlastRadius_def Configured_def split: if_splits)
    then show ?thesis using UnavailablePercent_ge_iff [OF ok that(2)] by simp
  qed
qed

text \<open>A refusal on the counts says which workload it is about.\<close>

lemma refusal_names:
  assumes "\<not> Allowed (EvaluateBlastRadius cfg (Some (read c)) target)" and "read c target = Inr (w, True)"
  shows "WorkloadName w \<noteq> '''' \<and> (\<exists>pre post. DecisionReason (EvaluateBlastRadius cfg (Some (read c)) target) = pre @ WorkloadName w @ post)"
proof -
  let ?why = "DecisionReason (EvaluateBlastRadius cfg (Some (read c)) target)"
  have "(\<exists>post. ?why = [] @ WorkloadName w @ post)
    \<or> (\<exists>post. ?why = (itoa (UnavailablePercent w) @ ''% of '') @ WorkloadName w @ post)"
    using assms by (auto simp: EvaluateBlastRadius_def refused_def split: if_splits)
  then show ?thesis using names [OF assms(2)] by blast
qed

end

end
