(* ===== verification/Workload.thy ===== *)
theory Workload
  imports BlastRadius Action
begin

text \<open>
  \<open>internal/engine/workload.go\<close>: how much of the workload behind a target is up. The cluster is a
  parameter: for each kind the guard reads, what \<open>client.Reader.Get\<close> answers for a namespace and
  a name. It is interpreted as the \<open>workload_reader\<close> the blast radius guard relies on.
\<close>

record owner_reference =
  OwnerKind :: string
  OwnerName :: string
  OwnerController :: "bool option"

text \<open>What is read of a Deployment, a StatefulSet or a ReplicaSet.\<close>

record replicated =
  ObjectName :: string
  OwnerReferences :: "owner_reference list"
  SpecReplicas :: "int option"
  AvailableReplicas :: int

record daemon_set =
  DesiredNumberScheduled :: int
  NumberAvailable :: int

record pod_object =
  PodOwnerReferences :: "owner_reference list"

record cluster =
  GetDeployment :: "string \<Rightarrow> string \<Rightarrow> go_error + replicated"
  GetStatefulSet :: "string \<Rightarrow> string \<Rightarrow> go_error + replicated"
  GetReplicaSet :: "string \<Rightarrow> string \<Rightarrow> go_error + replicated"
  GetDaemonSet :: "string \<Rightarrow> string \<Rightarrow> go_error + daemon_set"
  GetPod :: "string \<Rightarrow> string \<Rightarrow> go_error + pod_object"

definition replicasOf :: "int option \<Rightarrow> int" where
  "replicasOf n = (case n of None \<Rightarrow> 1 | Some n \<Rightarrow> n)"

fun controllerOf :: "owner_reference list \<Rightarrow> owner_reference option" where
  "controllerOf [] = None"
| "controllerOf (ref # refs) = (if OwnerController ref = Some True then Some ref else controllerOf refs)"

text \<open>\<open>get\<close>: no reader is an error, and an error of the read names the target.\<close>

definition get_object ::
  "(cluster \<Rightarrow> string \<Rightarrow> string \<Rightarrow> go_error + 'o) \<Rightarrow> cluster option \<Rightarrow> target \<Rightarrow> go_error + 'o" where
  "get_object f rd t =
     (case rd of
        None \<Rightarrow> Inl (Err ''no client'')
      | Some c \<Rightarrow>
        (case f c (TNamespace t) (TName t) of
           Inl e \<Rightarrow> Inl (Wrap (''read '' @ target_string t @ '': '') e '''')
         | Inr obj \<Rightarrow> Inr obj))"

definition replicated_workload :: "target \<Rightarrow> replicated \<Rightarrow> workload" where
  "replicated_workload t d =
     (let desired = 1;
          desired = (case SpecReplicas d of None \<Rightarrow> desired | Some n \<Rightarrow> n)
      in \<lparr>WorkloadName = target_string t, Desired = desired, Available = AvailableReplicas d\<rparr>)"

definition deployment :: "cluster option \<Rightarrow> target \<Rightarrow> go_error + workload \<times> bool" where
  "deployment rd t =
     (case get_object GetDeployment rd t of
        Inl e \<Rightarrow> Inl e
      | Inr d \<Rightarrow> Inr (replicated_workload t d, True))"

definition statefulSet :: "cluster option \<Rightarrow> target \<Rightarrow> go_error + workload \<times> bool" where
  "statefulSet rd t =
     (case get_object GetStatefulSet rd t of
        Inl e \<Rightarrow> Inl e
      | Inr d \<Rightarrow> Inr (replicated_workload t d, True))"

definition daemonSet :: "cluster option \<Rightarrow> target \<Rightarrow> go_error + workload \<times> bool" where
  "daemonSet rd t =
     (case get_object GetDaemonSet rd t of
        Inl e \<Rightarrow> Inl e
      | Inr d \<Rightarrow> Inr (\<lparr>WorkloadName = target_string t, Desired = DesiredNumberScheduled d,
                       Available = NumberAvailable d\<rparr>, True))"

text \<open>
  The reader is not nil where \<open>behindPod\<close> uses it directly: reading the pod succeeded. The model
  goes through \<open>get_object\<close>'s reader there too, so that it is total.
\<close>

definition read_replicaset :: "cluster option \<Rightarrow> string \<Rightarrow> string \<Rightarrow> go_error + replicated" where
  "read_replicaset rd ns name =
     (case rd of
        None \<Rightarrow> Inl (Err ''no client'')
      | Some c \<Rightarrow>
        (case GetReplicaSet c ns name of
           Inl e \<Rightarrow> Inl (Wrap (''read replicaset/'' @ ns @ ''/'' @ name @ '': '') e '''')
         | Inr rs \<Rightarrow> Inr rs))"

definition behindPod :: "cluster option \<Rightarrow> target \<Rightarrow> go_error + workload \<times> bool" where
  "behindPod rd t =
     (case get_object GetPod rd t of
        Inl e \<Rightarrow> Inl e
      | Inr pod \<Rightarrow>
        (case controllerOf (PodOwnerReferences pod) of
           None \<Rightarrow> Inr (zero_workload, False)
         | Some owner \<Rightarrow>
             if OwnerKind owner = ''ReplicaSet'' then
               (case read_replicaset rd (TNamespace t) (OwnerName owner) of
                  Inl e \<Rightarrow> Inl e
                | Inr rs \<Rightarrow>
                    (let owned = (case controllerOf (OwnerReferences rs) of
                           None \<Rightarrow> None | Some d \<Rightarrow> if OwnerKind d \<noteq> ''Deployment'' then None else Some d)
                     in case owned of
                          None \<Rightarrow> Inr (\<lparr>WorkloadName = ''replicaset/'' @ TNamespace t @ ''/'' @ ObjectName rs,
                                       Desired = replicasOf (SpecReplicas rs), Available = AvailableReplicas rs\<rparr>, True)
                        | Some d \<Rightarrow> deployment rd \<lparr>TKind = ''Deployment'', TNamespace = TNamespace t, TName = OwnerName d\<rparr>))
             else if OwnerKind owner = ''StatefulSet'' then
               statefulSet rd \<lparr>TKind = ''StatefulSet'', TNamespace = TNamespace t, TName = OwnerName owner\<rparr>
             else if OwnerKind owner = ''DaemonSet'' then
               daemonSet rd \<lparr>TKind = ''DaemonSet'', TNamespace = TNamespace t, TName = OwnerName owner\<rparr>
             else Inr (zero_workload, False)))"

definition Workload :: "cluster option \<Rightarrow> reader" where
  "Workload rd t =
     (if t = '''' then Inr (zero_workload, False)
      else case ParseTarget t of
        Inl e \<Rightarrow> Inr (zero_workload, False)
      | Inr parsed \<Rightarrow>
          (let kind = to_lower (TKind parsed) in
           if kind = ''deployment'' then deployment rd parsed
           else if kind = ''statefulset'' then statefulSet rd parsed
           else if kind = ''daemonset'' then daemonSet rd parsed
           else if kind = ''pod'' then behindPod rd parsed
           else Inr (zero_workload, False)))"

section \<open>The contract holds\<close>

text \<open>The counts of the objects are what the API server validates: non-negative \<open>int32\<close>s.\<close>

definition count_ok :: "int \<Rightarrow> bool" where
  "count_ok n \<longleftrightarrow> 0 \<le> n \<and> n < 2 ^ 31"

definition replicated_ok :: "replicated \<Rightarrow> bool" where
  "replicated_ok d \<longleftrightarrow> count_ok (replicasOf (SpecReplicas d)) \<and> count_ok (AvailableReplicas d)"

definition cluster_ok :: "cluster \<Rightarrow> bool" where
  "cluster_ok c \<longleftrightarrow>
     (\<forall>ns n d. GetDeployment c ns n = Inr d \<or> GetStatefulSet c ns n = Inr d \<or> GetReplicaSet c ns n = Inr d \<longrightarrow> replicated_ok d)
     \<and> (\<forall>ns n d. GetDaemonSet c ns n = Inr d \<longrightarrow> count_ok (DesiredNumberScheduled d) \<and> count_ok (NumberAvailable d))"

lemma get_object_Inr: "get_object f (Some c) t = Inr d \<longleftrightarrow> f c (TNamespace t) (TName t) = Inr d"
  by (auto simp: get_object_def split: sum.splits)

lemma replicated_workload_fields [simp]:
  "WorkloadName (replicated_workload t d) = target_string t"
  "Desired (replicated_workload t d) = replicasOf (SpecReplicas d)"
  "Available (replicated_workload t d) = AvailableReplicas d"
  by (simp_all add: replicated_workload_def replicasOf_def Let_def split: option.splits)

lemma reads_ok:
  assumes "cluster_ok c"
  shows "deployment (Some c) t = Inr (w, True) \<Longrightarrow> workload_ok w"
    and "statefulSet (Some c) t = Inr (w, True) \<Longrightarrow> workload_ok w"
    and "daemonSet (Some c) t = Inr (w, True) \<Longrightarrow> workload_ok w"
  using assms
  by (auto simp: deployment_def statefulSet_def daemonSet_def get_object_Inr workload_ok_def cluster_ok_def
      replicated_ok_def count_ok_def split: sum.splits)

lemma behindPod_ok:
  assumes "cluster_ok c" and "behindPod (Some c) t = Inr (w, True)"
  shows "workload_ok w"
proof -
  have rs: "read_replicaset (Some c) ns n = Inr rs \<Longrightarrow> replicated_ok rs" for ns n rs
    using assms(1) by (auto simp: read_replicaset_def cluster_ok_def split: sum.splits)
  show ?thesis using assms(2) reads_ok [OF assms(1)] rs
    by (auto simp: behindPod_def Let_def workload_ok_def replicated_ok_def count_ok_def
        split: sum.splits option.splits if_splits)
qed

lemma reads_name:
  "deployment rd t = Inr (w, True) \<Longrightarrow> WorkloadName w = target_string t"
  "statefulSet rd t = Inr (w, True) \<Longrightarrow> WorkloadName w = target_string t"
  "daemonSet rd t = Inr (w, True) \<Longrightarrow> WorkloadName w = target_string t"
  by (auto simp: deployment_def statefulSet_def daemonSet_def split: sum.splits)

lemma literal_string [simp]:
  "target_string \<lparr>TKind = x # xs, TNamespace = ns, TName = n\<rparr> \<noteq> ''''"
  "'''' \<noteq> target_string \<lparr>TKind = x # xs, TNamespace = ns, TName = n\<rparr>"
  using target_string_nonempty [of "\<lparr>TKind = x # xs, TNamespace = ns, TName = n\<rparr>"]
  by (auto simp: target_IsZero_def)

lemma behindPod_name: "behindPod rd t = Inr (w, True) \<Longrightarrow> WorkloadName w \<noteq> ''''"
  by (auto simp: behindPod_def Let_def target_string_nonempty target_IsZero_def
      split: sum.splits option.splits if_splits dest!: reads_name)

lemma parsed_string: "ParseTarget s = Inr t \<Longrightarrow> target_string t \<noteq> ''''"
  using ParseTarget_wf(1) [of s t] by (auto simp: target_string_nonempty target_wf_def target_IsZero_def)

interpretation health: workload_reader "\<lambda>c. Workload (Some c)" cluster_ok
proof
  show "cluster_ok c \<Longrightarrow> Workload (Some c) t = Inr (w, True) \<Longrightarrow> workload_ok w" for c t w
    using reads_ok behindPod_ok by (auto simp: Workload_def Let_def split: sum.splits if_splits)
  show "Workload (Some c) t = Inr (w, True) \<Longrightarrow> WorkloadName w \<noteq> ''''" for c t w
    using behindPod_name by (auto simp: Workload_def Let_def split: sum.splits if_splits dest: parsed_string dest!: reads_name)
qed

end
