(* ===== verification/Gateway.thy ===== *)
theory Gateway
  imports Alert
begin

text \<open>
  \<open>internal/gateway\<close>: the HTTP receiver. A request is what the handler reads of it, a response its
  status, its headers and its body, and the calls of the metrics are listed in order. Reading
  and decoding the body up to a limit is the work of \<open>net/http\<close> and \<open>encoding/json\<close>: it is the
  parameter \<open>decode\<close>. The sink is a function on the state of whatever is behind it.
\<close>

section \<open>Configuration\<close>

definition DefaultPath :: string where "DefaultPath = ''/webhooks/alertmanager''"
definition DefaultMaxBodyBytes :: int where "DefaultMaxBodyBytes = 1048576"

definition reasonMalformedPayload :: string where "reasonMalformedPayload = ''malformed_payload''"
definition reasonBodyTooLarge :: string where "reasonBodyTooLarge = ''body_too_large''"
definition reasonNotLeader :: string where "reasonNotLeader = ''not_leader''"

type_synonym 's consumer = "alert list \<Rightarrow> 's \<Rightarrow> 's"

record 's config =
  CfgSink :: "'s consumer option"
  CfgPath :: string
  CfgToken :: string
  CfgMaxBodyBytes :: int
  CfgAccepting :: "('s \<Rightarrow> bool) option"

record 's handler =
  HSink :: "'s consumer"
  HPath :: string
  HToken :: string
  HMaxBodyBytes :: int
  HAccepting :: "('s \<Rightarrow> bool) option"

definition NewHandler :: "'s config \<Rightarrow> go_error + 's handler" where
  "NewHandler cfg =
     (case CfgSink cfg of
        None \<Rightarrow> Inl (Err ''gateway: Sink is required'')
      | Some snk \<Rightarrow> Inr
          \<lparr>HSink = snk,
           HPath = (if CfgPath cfg = '''' then DefaultPath else CfgPath cfg),
           HToken = CfgToken cfg,
           HMaxBodyBytes = (if CfgMaxBodyBytes cfg \<le> 0 then DefaultMaxBodyBytes else CfgMaxBodyBytes cfg),
           HAccepting = CfgAccepting cfg\<rparr>)"

section \<open>Serving\<close>

record 'b http_request =
  UrlPath :: string
  HttpMethod :: string
  Authorization :: string
  HttpBody :: 'b

datatype response_body = NotFoundPage | ErrorBody string | Received nat

record http_response =
  StatusCode :: nat
  Headers :: smap
  ResponseBody :: response_body

datatype gateway_metric =
    Unauthorized
  | IngestError string
  | AlertsTruncated int
  | AlertsReceived nat

definition bearer_prefix :: string where "bearer_prefix = ''Bearer ''"

text \<open>
  \<open>strings.EqualFold\<close> on the prefix is equality after lower-casing: none of its letters has a
  fold outside ASCII. \<open>ConstantTimeCompare\<close> is equality.
\<close>

definition authorized :: "'s handler \<Rightarrow> 'b http_request \<Rightarrow> bool" where
  "authorized h r =
     (if length (HToken h) = 0 then True
      else
        (let header = Authorization r in
         if length header \<le> length bearer_prefix
            \<or> to_lower (take (length bearer_prefix) header) \<noteq> to_lower bearer_prefix
         then False
         else trim_space (drop (length bearer_prefix) header) = HToken h))"

definition json_headers :: smap where "json_headers = [(''Content-Type'', ''application/json'')]"

definition writeError :: "smap \<Rightarrow> nat \<Rightarrow> string \<Rightarrow> http_response" where
  "writeError hdrs status msg = \<lparr>StatusCode = status, Headers = hdrs @ json_headers, ResponseBody = ErrorBody msg\<rparr>"

definition ServeHTTP ::
  "(int \<Rightarrow> 'b \<Rightarrow> go_error + webhook_payload) \<Rightarrow> 's handler \<Rightarrow> 'b http_request \<Rightarrow> 's
     \<Rightarrow> http_response \<times> gateway_metric list \<times> 's" where
  "ServeHTTP decode h r s =
     (if UrlPath r \<noteq> HPath h
      then (\<lparr>StatusCode = 404, Headers = [], ResponseBody = NotFoundPage\<rparr>, [], s)
      else if HttpMethod r \<noteq> ''POST''
      then (writeError [(''Allow'', ''POST'')] 405 ''only POST is supported'', [], s)
      else if \<not> authorized h r
      then (writeError [(''WWW-Authenticate'', ''Bearer realm='' @ quote ''remedik'')] 401
              ''missing or invalid bearer token'', [Unauthorized], s)
      else if (case HAccepting h of None \<Rightarrow> False | Some accepting \<Rightarrow> \<not> accepting s)
      then (writeError [(''Retry-After'', ''5'')] 503
              ''this replica is not the leader; retry and the service will route to the one that is'',
            [IngestError reasonNotLeader], s)
      else
        (case ParseWebhook (decode (HMaxBodyBytes h) (HttpBody r)) of
           Inl e \<Rightarrow>
             if errors_is e ErrMaxBytes
             then (writeError [] 413 (''payload exceeds '' @ itoa (HMaxBodyBytes h) @ '' bytes''),
                   [IngestError reasonBodyTooLarge], s)
             else (writeError [] 400 (err_text e), [IngestError reasonMalformedPayload], s)
         | Inr result \<Rightarrow>
             (let ms = (if TruncatedAlerts result > 0 then [AlertsTruncated (TruncatedAlerts result)] else [])
                       @ [AlertsReceived (length (Alerts result))];
                  s = HSink h (Alerts result) s
              in (\<lparr>StatusCode = 200, Headers = json_headers, ResponseBody = Received (length (Alerts result))\<rparr>, ms, s))))"

section \<open>What the sink behind it promises\<close>

text \<open>
  The \<open>Sink\<close> interface: \<open>made s\<close> counts the records the sink has created in state \<open>s\<close>. One
  delivery makes at most one record per firing alert, and takes none away.
\<close>

locale alert_sink =
  fixes consume :: "'s consumer"
    and made :: "'s \<Rightarrow> nat"
  assumes consume_made: "made s \<le> made (consume as s) \<and> made (consume as s) \<le> made s + length (filter IsFiring as)"
begin

text \<open>Only an accepted delivery reaches the sink, and it makes no more than its firing alerts.\<close>

lemma serve_made:
  assumes "HSink h = consume" and "ServeHTTP decode h r s = (resp, ms, s')"
  shows "if StatusCode resp = 200
    then \<exists>p. ParseWebhook (decode (HMaxBodyBytes h) (HttpBody r)) = Inr p
      \<and> made s' \<le> made s + length (filter IsFiring (Alerts p))
    else s' = s"
  using assms consume_made
  by (auto simp: ServeHTTP_def Let_def writeError_def split: if_splits option.splits sum.splits)

fun serve_all :: "(int \<Rightarrow> 'b \<Rightarrow> go_error + webhook_payload) \<Rightarrow> 's handler \<Rightarrow> 'b http_request list \<Rightarrow> 's \<Rightarrow> 's" where
  "serve_all decode h [] s = s"
| "serve_all decode h (r # rs) s = serve_all decode h rs (snd (snd (ServeHTTP decode h r s)))"

definition firing_in :: "(int \<Rightarrow> 'b \<Rightarrow> go_error + webhook_payload) \<Rightarrow> 's handler \<Rightarrow> 'b http_request \<Rightarrow> nat" where
  "firing_in decode h r =
     (case ParseWebhook (decode (HMaxBodyBytes h) (HttpBody r)) of
        Inl e \<Rightarrow> 0 | Inr p \<Rightarrow> length (filter IsFiring (Alerts p)))"

lemma serve_all_made:
  assumes "HSink h = consume"
  shows "made (serve_all decode h rs s) \<le> made s + sum_list (map (firing_in decode h) rs)"
proof (induction rs arbitrary: s)
  case (Cons r rs)
  obtain resp ms s1 where v: "ServeHTTP decode h r s = (resp, ms, s1)" by (metis prod_cases3)
  have "made s1 \<le> made s + firing_in decode h r"
    using serve_made [OF assms v] by (auto simp: firing_in_def split: if_splits)
  with Cons.IH [of s1] v show ?case by simp
qed simp

end

section \<open>The order of the checks\<close>

lemma ServeHTTP_status:
  "StatusCode (fst (ServeHTTP decode h r s)) =
    (if UrlPath r \<noteq> HPath h then 404 else if HttpMethod r \<noteq> ''POST'' then 405
     else if \<not> authorized h r then 401
     else if (case HAccepting h of None \<Rightarrow> False | Some accepting \<Rightarrow> \<not> accepting s) then 503
     else case ParseWebhook (decode (HMaxBodyBytes h) (HttpBody r)) of
       Inl e \<Rightarrow> (if errors_is e ErrMaxBytes then 413 else 400) | Inr p \<Rightarrow> 200)"
  by (simp add: ServeHTTP_def writeError_def Let_def split: sum.splits)

lemma ServeHTTP_rejected:
  "StatusCode (fst (ServeHTTP decode h r s)) \<noteq> 200 \<Longrightarrow> snd (snd (ServeHTTP decode h r s)) = s"
  by (simp add: ServeHTTP_def Let_def split: sum.splits if_splits)

end
