(* ===== verification/Sink.thy ===== *)
theory Sink
  imports Engine Matching Workload Posture Gateway
begin

text \<open>
  \<open>internal/engine/sink.go\<close>: what becomes of an alert. The sink matches a strategy, consults the
  guards and creates at most one record; it never executes anything. The 30-second deadline of
  the delivery reaches only the Kubernetes client and is left out.
\<close>

section \<open>Configuration\<close>

text \<open>
  The guard history is in the state. \<open>SWorkloads\<close> and \<open>SPause\<close> are read from the world, because
  the cluster and the pause switch may change between two reads; \<open>None\<close> is nil.
\<close>

record 'w sink =
  SClient :: "'w kube"
  SRegistry :: "'w registry"
  SWorkloads :: "('w \<Rightarrow> reader) option"
  SNamespace :: string
  SPosture :: posture
  SMetrics :: "'w recorder option"
  SEvents :: "'w eventf option"
  SNow :: "'w clock"
  SPause :: "'w \<Rightarrow> pause option"

definition sink_metrics :: "'w sink \<Rightarrow> 'w recorder" where
  "sink_metrics sk = recorder_of (SMetrics sk)"

definition reasonManual :: string where "reasonManual = ''manual''"
definition EventReasonManualStrategy :: string where "EventReasonManualStrategy = ''ManualStrategy''"
definition EventReasonGuardRejected :: string where "EventReasonGuardRejected = ''GuardRejected''"

section \<open>Reading a strategy\<close>

definition targetString :: "target \<Rightarrow> string" where
  "targetString t = (if target_IsZero t then '''' else target_string t)"

definition executionMode :: "strategy \<Rightarrow> execution_mode" where
  "executionMode st =
     (case ExecMode (Execution (StrategySpec st)) of
        ExecutionModeApproval \<Rightarrow> ExecutionModeApproval
      | ExecutionModeManual \<Rightarrow> ExecutionModeManual
      | _ \<Rightarrow> ExecutionModeAuto)"

definition escalationMode :: "strategy \<Rightarrow> escalation_mode" where
  "escalationMode st =
     (if OFMode (OnFailure (StrategySpec st)) = EscalationModeFirstSuccess
      then EscalationModeFirstSuccess else EscalationModeAll)"

definition approvalDeadline :: "strategy \<Rightarrow> time \<Rightarrow> time option" where
  "approvalDeadline st now =
     (let timeout = DefaultApprovalTimeout;
          timeout = (case ApprovalTimeout (Execution (StrategySpec st)) of
                       None \<Rightarrow> timeout | Some d \<Rightarrow> if d > 0 then d else timeout)
      in Some (time_add now timeout))"

definition guardConfig :: "strategy \<Rightarrow> guard_cfg" where
  "guardConfig st =
     (let g = Guards (StrategySpec st);
          cfg = \<lparr>Cooldown = 0, MaxPerHour = GMaxPerHour g, GiveUpAfter = \<lparr>GiveUpCount = 0, GiveUpWithin = 0\<rparr>\<rparr>;
          cfg = (case GCooldown g of None \<Rightarrow> cfg | Some d \<Rightarrow> cfg\<lparr>Cooldown := d\<rparr>)
      in case GGiveUpAfter g of None \<Rightarrow> cfg
         | Some u \<Rightarrow> cfg\<lparr>GiveUpAfter := \<lparr>GiveUpCount = GUCount u, GiveUpWithin = GUWithin u\<rparr>\<rparr>)"

definition blastRadiusConfig :: "strategy \<Rightarrow> blast_radius" where
  "blastRadiusConfig st =
     (case GBlastRadius (Guards (StrategySpec st)) of
        None \<Rightarrow> \<lparr>MinAvailable = 0, MaxUnavailablePercent = 0\<rparr>
      | Some b \<Rightarrow> \<lparr>MinAvailable = BRMinAvailable b, MaxUnavailablePercent = BRMaxUnavailablePercent b\<rparr>)"

text \<open>A result \<open>(target, err)\<close>; the target is the zero target on every error.\<close>

definition resolveTarget :: "'w sink \<Rightarrow> alert \<Rightarrow> strategy \<Rightarrow> target \<times> go_error option" where
  "resolveTarget sk a st =
     (case StrategySteps (StrategySpec st) of
        [] \<Rightarrow> (zero_target, Some (Err (''strategy '' @ quote (strat_name st) @ '' has no steps'')))
      | first # _ \<Rightarrow>
        (case registry_Get (SRegistry sk) (Action first) of
           Inl e \<Rightarrow> (zero_target, Some e)
         | Inr act \<Rightarrow>
           (case ActResolve act (AlertLabels a) (With first) of
              Inl e \<Rightarrow> (zero_target, Some e)
            | Inr t \<Rightarrow> (t, None))))"

definition rule_of :: "strategy \<Rightarrow> rule" where
  "rule_of st = \<lparr>RuleName = strat_name st, RuleEnabled = IsEnabled st, RuleMatch = Match (Trigger (StrategySpec st))\<rparr>"

definition rules_of :: "strategy list \<Rightarrow> rule list \<times> (string \<times> strategy) list" where
  "rules_of items =
     fold (\<lambda>st (rules, byName). (rules @ [rule_of st], map_put (strat_name st) st byName)) items ([], [])"

definition sink_rules :: "'w sink \<Rightarrow> 'w st \<Rightarrow> (go_error + rule list \<times> (string \<times> strategy) list) \<times> 'w st" where
  "sink_rules sk s =
     (let (listed, s) = kube_list_strategies (SClient sk) s in
      case listed of Inl e \<Rightarrow> (Inl e, s) | Inr items \<Rightarrow> (Inr (rules_of items), s))"

text \<open>What is logged about an unmatched alert, when debugging is on.\<close>

definition explainNoMatch :: "alert \<Rightarrow> rule list \<Rightarrow> (string \<times> string) list" where
  "explainNoMatch a rules =
     map (\<lambda>r. (RuleName r, WhyNot a r)) (filter (\<lambda>r. WhyNot a r \<noteq> '''') rules)"

definition labelsOf :: "alert \<Rightarrow> string" where
  "labelsOf a =
     (let keys = sort (map fst (AlertLabels a))
      in join '' '' (map (\<lambda>key. key @ ''='' @ map_get (AlertLabels a) key) keys))"

section \<open>Records\<close>

definition alert_reference :: "alert \<Rightarrow> alert_ref" where
  "alert_reference a = \<lparr>RefFingerprint = Fingerprint a, RefName = alert_name a, RefLabels = AlertLabels a,
     RefStartsAt = Some (StartsAt a)\<rparr>"

definition is_paused :: "'w sink \<Rightarrow> 'w st \<Rightarrow> bool" where
  "is_paused sk s = Paused (SPause sk (World s))"

text \<open>The literal of \<open>create\<close>, before the deadline and the pause are written into it.\<close>

definition new_record :: "'w sink \<Rightarrow> alert \<Rightarrow> strategy \<Rightarrow> target \<Rightarrow> bool \<Rightarrow> remediation" where
  "new_record sk a st t paused =
     \<lparr>Meta = \<lparr>Name = '''', GenerateName = strat_name st @ ''-'', Namespace = SNamespace sk,
        Labels = [(LabelStrategy, strat_name st), (LabelFingerprint, Fingerprint a)], Annotations = [],
        CreationTimestamp = 0, Generation = 0\<rparr>,
      Spec = \<lparr>StrategyName = strat_name st, SpecTarget = targetString t, SpecAlert = alert_reference a,
        SpecSteps = StrategySteps (StrategySpec st), Retries = OFRetries (OnFailure (StrategySpec st)),
        EscalationSteps = OFSteps (OnFailure (StrategySpec st)), EscalationMode = escalationMode st,
        SpecMode = executionMode st, ApprovalDeadline = None, Approval = None,
        DryRun = DryRunFor (SPosture sk) (TNamespace t) \<or> paused\<rparr>,
      Status = zero_status\<rparr>"

definition note_pause :: "'w sink \<Rightarrow> 'w st \<Rightarrow> remediation \<Rightarrow> remediation" where
  "note_pause sk s rem =
     (if is_paused sk s
      then (let rem = rem\<lparr>Meta := (Meta rem)\<lparr>Labels := map_put LabelPaused ''true'' (Labels (Meta rem))\<rparr>\<rparr>;
                reason = pause_reason (SPause sk (World s))
            in if reason \<noteq> ''''
               then rem\<lparr>Meta := (Meta rem)\<lparr>Annotations := map_put AnnotationPauseReason reason (Annotations (Meta rem))\<rparr>\<rparr>
               else rem)
      else rem)"

definition sink_create :: "'w sink \<Rightarrow> alert \<Rightarrow> strategy \<Rightarrow> target \<Rightarrow> 'w st \<Rightarrow> go_error option \<times> 'w st" where
  "sink_create sk a st t s =
     (let rem = new_record sk a st t (is_paused sk s);
          (rem, s) = (if SpecMode (Spec rem) = ExecutionModeApproval
                      then (let (now, s) = read_clock (SNow sk) s
                            in (rem\<lparr>Spec := (Spec rem)\<lparr>ApprovalDeadline := approvalDeadline st now\<rparr>\<rparr>, s))
                      else (rem, s));
          rem = note_pause sk s rem;
          (created, s) = create_remediation (SClient sk) rem s
      in case created of
           Inl e \<Rightarrow> (Some (Wrap ''create remediation: '' e ''''), s)
         | Inr rem \<Rightarrow> (None, s))"

definition gaveUpRecently :: "'w sink \<Rightarrow> string \<Rightarrow> string \<Rightarrow> duration \<Rightarrow> 'w st \<Rightarrow> (go_error + bool) \<times> 'w st" where
  "gaveUpRecently sk strat t window s =
     (let (listed, s) = kube_list (SClient sk) (SNamespace sk) [(LabelStrategy, strat), (LabelGaveUp, ''true'')] s in
      case listed of
        Inl e \<Rightarrow> (Inl e, s)
      | Inr items \<Rightarrow>
          (let (now, s) = read_clock (SNow sk) s;
               cutoff = time_add now (wrap64 (- window))
           in (Inr (list_ex (\<lambda>rem. SpecTarget (Spec rem) = t \<and> \<not> CreationTimestamp (Meta rem) < cutoff) items), s)))"

definition give_up_record :: "'w sink \<Rightarrow> alert \<Rightarrow> strategy \<Rightarrow> target \<Rightarrow> decision \<Rightarrow> remediation" where
  "give_up_record sk a st t d =
     \<lparr>Meta = \<lparr>Name = '''', GenerateName = strat_name st @ ''-gaveup-'', Namespace = SNamespace sk,
        Labels = [(LabelStrategy, strat_name st), (LabelFingerprint, Fingerprint a), (LabelGaveUp, ''true'')],
        Annotations = [(AnnotationGaveUpReason, DecisionReason d)], CreationTimestamp = 0, Generation = 0\<rparr>,
      Spec = \<lparr>StrategyName = strat_name st, SpecTarget = targetString t, SpecAlert = alert_reference a,
        SpecSteps = [], Retries = 0, EscalationSteps = OFSteps (OnFailure (StrategySpec st)),
        EscalationMode = escalationMode st, SpecMode = executionMode st, ApprovalDeadline = None,
        Approval = None, DryRun = False\<rparr>,
      Status = zero_status\<rparr>"

definition recordGiveUp :: "'w sink \<Rightarrow> alert \<Rightarrow> strategy \<Rightarrow> target \<Rightarrow> decision \<Rightarrow> 'w st \<Rightarrow> go_error option \<times> 'w st" where
  "recordGiveUp sk a st t d s =
     (let window = (case GGiveUpAfter (Guards (StrategySpec st)) of None \<Rightarrow> 0 | Some g \<Rightarrow> GUWithin g);
          (already, s) = gaveUpRecently sk (strat_name st) (targetString t) window s
      in case already of
           Inl e \<Rightarrow> (Some (Wrap ''look for an existing give-up record: '' e ''''), s)
         | Inr True \<Rightarrow> (None, s)
         | Inr False \<Rightarrow>
             (let (created, s) = create_remediation (SClient sk) (give_up_record sk a st t d) s
              in case created of
                   Inl e \<Rightarrow> (Some (Wrap ''create give-up record: '' e ''''), s)
                 | Inr rem \<Rightarrow> (None, s)))"

section \<open>Events on the strategy\<close>

definition publish_strategy :: "'w sink \<Rightarrow> strategy \<Rightarrow> string \<Rightarrow> string \<Rightarrow> string \<Rightarrow> 'w st \<Rightarrow> 'w st" where
  "publish_strategy sk st reason actionName msg s =
     (case SEvents sk of
        None \<Rightarrow> s
      | Some ev \<Rightarrow> count_effect (EventPublished (OnStrategy (strat_name st)) reason msg)
                    (ev (OnStrategy (strat_name st)) ''Normal'' reason actionName msg) s)"

definition recordManualRefusal :: "'w sink \<Rightarrow> strategy \<Rightarrow> alert \<Rightarrow> 'w st \<Rightarrow> 'w st" where
  "recordManualRefusal sk st a s = publish_strategy sk st EventReasonManualStrategy ''manual''
     (''did not start '' @ alert_string a @ '': this strategy is manual and never runs from an alert'') s"

definition recordRejection :: "'w sink \<Rightarrow> strategy \<Rightarrow> alert \<Rightarrow> decision \<Rightarrow> 'w st \<Rightarrow> 'w st" where
  "recordRejection sk st a d s = publish_strategy sk st EventReasonGuardRejected (Guard d)
     (''refused '' @ alert_string a @ '': guard '' @ quote (Guard d) @ '': '' @ DecisionReason d) s"

section \<open>One alert, and a delivery\<close>

text \<open>The guards, cheapest first: the one that reads the cluster is asked when the others allow.\<close>

definition guard_decision :: "'w sink \<Rightarrow> strategy \<Rightarrow> string \<Rightarrow> string \<Rightarrow> time \<Rightarrow> 'w st \<Rightarrow> decision" where
  "guard_decision sk st name t now s =
     (let d = Evaluate (guardConfig st) (Some (memory_ops (History s))) name t now in
      if Allowed d then EvaluateBlastRadius (blastRadiusConfig st) (map_option (\<lambda>rd. rd (World s)) (SWorkloads sk)) t
      else d)"

text \<open>
  The strategy of a selected rule is in the map, because both are built from the same list
  (\<open>rules_of_selected\<close>); a nil strategy would panic in the source.
\<close>

definition consumeOne ::
  "'w sink \<Rightarrow> rule list \<Rightarrow> (string \<times> strategy) list \<Rightarrow> alert \<Rightarrow> 'w st \<Rightarrow> go_error option \<times> 'w st" where
  "consumeOne sk rules byName a s =
     (if \<not> IsFiring a then (None, s)
      else case Select a rules of
        None \<Rightarrow> (None, count_effect UnmatchedCounted (MUnmatched (sink_metrics sk)) s)
      | Some rule \<Rightarrow>
        (case map_of byName (RuleName rule) of
           None \<Rightarrow> (Some (Err ''nil strategy''), s)
         | Some st \<Rightarrow>
             if ExecMode (Execution (StrategySpec st)) = ExecutionModeManual
             then (None, recordManualRefusal sk st a
                    (count_effect (RejectionCounted (RuleName rule) reasonManual)
                      (MGuardRejected (sink_metrics sk) (RuleName rule) reasonManual) s))
             else
               (let (t, err) = resolveTarget sk a st;
                    (now, s) = read_clock (SNow sk) s;
                    d = guard_decision sk st (RuleName rule) (targetString t) now s
                in if \<not> Allowed d
                   then
                     (let s = count_effect (RejectionCounted (RuleName rule) (Guard d))
                                (MGuardRejected (sink_metrics sk) (RuleName rule) (Guard d)) s;
                          s = recordRejection sk st a d s
                      in if Guard d = GuardGiveUp then recordGiveUp sk a st t d s else (None, s))
                   else
                     (let (err, s) = sink_create sk a st t s in
                      case err of
                        Some e \<Rightarrow> (Some e, s)
                      | None \<Rightarrow>
                          (let (started, s) = read_clock (SNow sk) s;
                               s = record_start (RuleName rule) started s
                           in (None, count_effect (StartCounted (RuleName rule))
                                (MRemediationStarted (sink_metrics sk) (RuleName rule)) s))))))"

fun consume_loop :: "'w sink \<Rightarrow> rule list \<Rightarrow> (string \<times> strategy) list \<Rightarrow> alert list \<Rightarrow> 'w st \<Rightarrow> 'w st" where
  "consume_loop sk rules byName [] s = s"
| "consume_loop sk rules byName (a # as) s =
     (let (err, s) = consumeOne sk rules byName a s in consume_loop sk rules byName as s)"

definition Consume :: "'w sink \<Rightarrow> alert list \<Rightarrow> 'w st \<Rightarrow> 'w st" where
  "Consume sk alerts s =
     (let (read, s) = sink_rules sk s in
      case read of
        Inl e \<Rightarrow> s
      | Inr (rules, byName) \<Rightarrow> consume_loop sk rules byName alerts s)"

section \<open>The strategies are read once\<close>

lemma rules_of_eq:
  "fst (rules_of items) = map rule_of items
   \<and> map_of (snd (rules_of items)) n = map_of (rev (map (\<lambda>st. (strat_name st, st)) items)) n"
proof -
  have "fold (\<lambda>st (rules, byName). (rules @ [rule_of st], map_put (strat_name st) st byName)) items (rules, m)
      = (rules @ map rule_of items, fold (\<lambda>st m. map_put (strat_name st) st m) items m)" for rules m
    by (induction items arbitrary: rules m) auto
  moreover have "map_of (fold (\<lambda>st m. map_put (strat_name st) st m) items m) n
      = (map_of m ++ map_of (rev (map (\<lambda>st. (strat_name st, st)) items))) n" for m :: "(string \<times> strategy) list"
    by (induction items arbitrary: m) (auto simp: map_add_def split: option.splits)
  ultimately show ?thesis by (simp add: rules_of_def)
qed

lemma rules_of_selected:
  assumes "Select a (fst (rules_of items)) = Some rule"
  shows "\<exists>st \<in> set items. map_of (snd (rules_of items)) (RuleName rule) = Some st \<and> strat_name st = RuleName rule"
proof -
  obtain st where st: "st \<in> set items" "rule = rule_of st"
    using Select_Some(1) [OF assms] rules_of_eq by auto
  then have "map_of (rev (map (\<lambda>st. (strat_name st, st)) items)) (RuleName rule) \<noteq> None"
    by (simp add: map_of_eq_None_iff rule_of_def image_image)
  then obtain st' where "map_of (rev (map (\<lambda>st. (strat_name st, st)) items)) (RuleName rule) = Some st'" by blast
  then have "st' \<in> set items \<and> strat_name st' = RuleName rule" by (auto dest!: map_of_SomeD)
  then show ?thesis using \<open>map_of _ _ = Some st'\<close> rules_of_eq by metis
qed

section \<open>What one alert causes\<close>

definition selected :: "rule list \<Rightarrow> (string \<times> strategy) list \<Rightarrow> alert \<Rightarrow> rule \<Rightarrow> strategy \<Rightarrow> bool" where
  "selected rules byName a rule st \<longleftrightarrow>
     IsFiring a \<and> Select a rules = Some rule \<and> map_of byName (RuleName rule) = Some st"

definition is_manual :: "strategy \<Rightarrow> bool" where
  "is_manual st \<longleftrightarrow> ExecMode (Execution (StrategySpec st)) = ExecutionModeManual"

text \<open>The guards' answer to the alert in the state \<open>s\<close>, on the sink's clock.\<close>

definition guards_decide :: "'w sink \<Rightarrow> alert \<Rightarrow> rule \<Rightarrow> strategy \<Rightarrow> 'w st \<Rightarrow> decision" where
  "guards_decide sk a rule st s =
     (let (now, s1) = read_clock (SNow sk) s
      in guard_decision sk st (RuleName rule) (targetString (fst (resolveTarget sk a st))) now s1)"

definition created_record :: "'w sink \<Rightarrow> alert \<Rightarrow> strategy \<Rightarrow> target \<Rightarrow> bool \<Rightarrow> remediation \<Rightarrow> bool" where
  "created_record sk a st t paused rem \<longleftrightarrow>
     (\<exists>deadline. Spec rem = (Spec (new_record sk a st t paused))\<lparr>ApprovalDeadline := deadline\<rparr>
        \<and> (deadline = None \<longleftrightarrow> executionMode st \<noteq> ExecutionModeApproval))
     \<and> Status rem = zero_status \<and> GenerateName (Meta rem) = strat_name st @ ''-'' \<and> Namespace (Meta rem) = SNamespace sk
     \<and> map_get (Labels (Meta rem)) LabelStrategy = strat_name st
     \<and> map_get (Labels (Meta rem)) LabelFingerprint = Fingerprint a
     \<and> map_of (Labels (Meta rem)) LabelGaveUp = None"

inductive consumed ::
  "'w sink \<Rightarrow> rule list \<Rightarrow> (string \<times> strategy) list \<Rightarrow> alert \<Rightarrow> 'w st \<Rightarrow> go_error option \<Rightarrow> memory_history \<Rightarrow> effect list \<Rightarrow> bool"
  for sk rules byName a s where
  resolved: "\<not> IsFiring a \<Longrightarrow> consumed sk rules byName a s None (History s) []"
| unmatched: "IsFiring a \<Longrightarrow> Select a rules = None \<Longrightarrow> consumed sk rules byName a s None (History s) [UnmatchedCounted]"
| unknown: "IsFiring a \<Longrightarrow> Select a rules = Some rule \<Longrightarrow> map_of byName (RuleName rule) = None \<Longrightarrow>
    consumed sk rules byName a s (Some e) (History s) []"
| manual: "selected rules byName a rule st \<Longrightarrow> is_manual st \<Longrightarrow> list_all is_event ev \<Longrightarrow>
    consumed sk rules byName a s None (History s) (RejectionCounted (RuleName rule) reasonManual # ev)"
| refused: "selected rules byName a rule st \<Longrightarrow> \<not> is_manual st \<Longrightarrow> d = guards_decide sk a rule st s \<Longrightarrow> \<not> Allowed d \<Longrightarrow>
    list_all is_event ev \<Longrightarrow> err = None \<or> Guard d = GuardGiveUp \<Longrightarrow>
    consumed sk rules byName a s err (History s) (RejectionCounted (RuleName rule) (Guard d) # ev)"
| gave_up: "selected rules byName a rule st \<Longrightarrow> \<not> is_manual st \<Longrightarrow> d = guards_decide sk a rule st s \<Longrightarrow> \<not> Allowed d \<Longrightarrow>
    list_all is_event ev \<Longrightarrow> Guard d = GuardGiveUp \<Longrightarrow>
    rem = give_up_record sk a st (fst (resolveTarget sk a st)) d \<Longrightarrow> (err = None \<longleftrightarrow> ok) \<Longrightarrow>
    consumed sk rules byName a s err (History s)
      (RejectionCounted (RuleName rule) (Guard d) # ev @ [CreateCall rem ok])"
| rejected_by_server: "selected rules byName a rule st \<Longrightarrow> \<not> is_manual st \<Longrightarrow> Allowed (guards_decide sk a rule st s) \<Longrightarrow>
    created_record sk a st (fst (resolveTarget sk a st)) (is_paused sk (snd (read_clock (SNow sk) s))) rem \<Longrightarrow>
    consumed sk rules byName a s (Some e) (History s) [CreateCall rem False]"
| created: "selected rules byName a rule st \<Longrightarrow> \<not> is_manual st \<Longrightarrow> Allowed (guards_decide sk a rule st s) \<Longrightarrow>
    created_record sk a st (fst (resolveTarget sk a st)) (is_paused sk (snd (read_clock (SNow sk) s))) rem \<Longrightarrow>
    consumed sk rules byName a s None (RecordStart (RuleName rule) started (History s))
      [CreateCall rem True, StartRecorded (RuleName rule) started, StartCounted (RuleName rule)]"

lemma publish_strategyD:
  "\<exists>ev. Trace (publish_strategy sk st reason n m s) = Trace s @ ev \<and> list_all is_event ev
     \<and> History (publish_strategy sk st reason n m s) = History s"
  by (cases "SEvents sk") (auto simp: publish_strategy_def count_effect_def is_event_def)

lemma gaveUpRecentlyD:
  "gaveUpRecently sk strat t window s = (x, s') \<Longrightarrow> Trace s' = Trace s \<and> History s' = History s"
  by (auto simp: gaveUpRecently_def Let_def split: prod.splits sum.splits dest!: kube_listD read_clock_eq)

lemma recordGiveUpD:
  assumes "recordGiveUp sk a st t d s = (err, s')"
  shows "History s' = History s \<and> (Trace s' = Trace s
    \<or> (\<exists>ok. Trace s' = Trace s @ [CreateCall (give_up_record sk a st t d) ok] \<and> (err = None \<longleftrightarrow> ok)))"
proof -
  let ?w = "case GGiveUpAfter (Guards (StrategySpec st)) of None \<Rightarrow> 0 | Some g \<Rightarrow> GUWithin g"
  obtain x s1 where g: "gaveUpRecently sk (strat_name st) (targetString t) ?w s = (x, s1)" by fastforce
  note G = gaveUpRecentlyD [OF g]
  obtain y s2 where c: "create_remediation (SClient sk) (give_up_record sk a st t d) s1 = (y, s2)" by fastforce
  note C = create_remediationD [OF c]
  show ?thesis
  proof (cases "x = Inr False")
    case True
    then have "s' = s2" "err = None \<longleftrightarrow> \<not> isl y"
      using assms g c by (auto simp: recordGiveUp_def Let_def split: sum.splits)
    with C G show ?thesis by auto
  next
    case False
    then have "s' = s1" using assms g
      by (auto simp: recordGiveUp_def Let_def split: sum.splits bool.splits)
    with G show ?thesis by simp
  qed
qed

lemma note_pause_fields [simp]: "Spec (note_pause sk s rem) = Spec rem" "Status (note_pause sk s rem) = Status rem"
  "GenerateName (Meta (note_pause sk s rem)) = GenerateName (Meta rem)" "Namespace (Meta (note_pause sk s rem)) = Namespace (Meta rem)"
  by (simp_all add: note_pause_def Let_def)

lemma note_pause_labels: "k \<noteq> LabelPaused \<Longrightarrow> map_of (Labels (Meta (note_pause sk s rem))) k = map_of (Labels (Meta rem)) k"
  by (simp add: note_pause_def Let_def)

lemma sink_createD:
  assumes "sink_create sk a st t s = (err, s')"
  shows "\<exists>rem. created_record sk a st t (is_paused sk s) rem
    \<and> Trace s' = Trace s @ [CreateCall rem (err = None)] \<and> History s' = History s"
proof -
  let ?rem = "new_record sk a st t (is_paused sk s)"
  obtain rem s1 where r: "(if SpecMode (Spec ?rem) = ExecutionModeApproval
      then (let (now, s) = read_clock (SNow sk) s in (?rem\<lparr>Spec := (Spec ?rem)\<lparr>ApprovalDeadline := approvalDeadline st now\<rparr>\<rparr>, s))
      else (?rem, s)) = (rem, s1)" by fastforce
  have spec: "\<exists>dl. rem = ?rem\<lparr>Spec := (Spec ?rem)\<lparr>ApprovalDeadline := dl\<rparr>\<rparr> \<and> (dl = None \<longleftrightarrow> executionMode st \<noteq> ExecutionModeApproval)"
    and s1: "Trace s1 = Trace s" "History s1 = History s"
    using r by (auto simp: new_record_def approvalDeadline_def Let_def split: if_splits prod.splits dest: read_clock_eq)
  then have rec: "created_record sk a st t (is_paused sk s) (note_pause sk s1 rem)"
    by (auto simp: created_record_def note_pause_labels map_get_def new_record_def label_defs)
  obtain y s2 where c: "create_remediation (SClient sk) (note_pause sk s1 rem) s1 = (y, s2)" by fastforce
  have "s' = s2" "err = None \<longleftrightarrow> \<not> isl y"
    using assms r c by (auto simp: sink_create_def Let_def split: sum.splits)
  with create_remediationD [OF c] s1 rec show ?thesis by auto
qed

lemma consumeOneD:
  assumes "consumeOne sk rules byName a s = (err, s')"
  shows "\<exists>es. Trace s' = Trace s @ es \<and> consumed sk rules byName a s err (History s') es"
proof -
  consider (resolved) "\<not> IsFiring a" | (unmatched) "IsFiring a" "Select a rules = None"
    | (unknown) rule where "IsFiring a" "Select a rules = Some rule" "map_of byName (RuleName rule) = None"
    | (manual) rule st where "selected rules byName a rule st" "is_manual st"
    | (guarded) rule st where "selected rules byName a rule st" "\<not> is_manual st"
    unfolding selected_def by (metis option.exhaust)
  then show ?thesis
  proof cases
    case resolved
    then have "err = None" "s' = s" using assms by (simp_all add: consumeOne_def)
    then show ?thesis using consumed.resolved [OF resolved] by auto
  next
    case unmatched
    then have "err = None" "Trace s' = Trace s @ [UnmatchedCounted]" "History s' = History s"
      using assms by (auto simp: consumeOne_def count_effect_def)
    then show ?thesis using consumed.unmatched [OF unmatched] by auto
  next
    case (unknown rule)
    then have "err = Some (Err ''nil strategy'')" "s' = s" using assms by (simp_all add: consumeOne_def)
    then show ?thesis using consumed.unknown [OF unknown] by auto
  next
    case (manual rule st)
    let ?s1 = "count_effect (RejectionCounted (RuleName rule) reasonManual)
      (MGuardRejected (sink_metrics sk) (RuleName rule) reasonManual) s"
    have "err = None" "s' = recordManualRefusal sk st a ?s1"
      using assms manual by (simp_all add: consumeOne_def selected_def is_manual_def)
    moreover obtain ev where "Trace (recordManualRefusal sk st a ?s1) = Trace ?s1 @ ev" "list_all is_event ev"
      "History (recordManualRefusal sk st a ?s1) = History ?s1"
      using publish_strategyD unfolding recordManualRefusal_def by blast
    ultimately show ?thesis using consumed.manual [OF manual, of ev] by (auto simp: count_effect_def)
  next
    case (guarded rule st)
    obtain t x where t: "resolveTarget sk a st = (t, x)" by fastforce
    obtain now s1 where clk: "read_clock (SNow sk) s = (now, s1)" by fastforce
    note F1 = read_clock_eq [OF clk]
    let ?d = "guard_decision sk st (RuleName rule) (targetString t) now s1"
    have dec: "?d = guards_decide sk a rule st s" using t clk by (simp add: guards_decide_def)
    show ?thesis
    proof (cases "Allowed ?d")
      case True
      obtain e s2 where c: "sink_create sk a st t s1 = (e, s2)" by fastforce
      from sink_createD [OF c] obtain rem where rec: "created_record sk a st t (is_paused sk s1) rem"
        and C: "Trace s2 = Trace s1 @ [CreateCall rem (e = None)]" "History s2 = History s1" by blast
      have rec': "created_record sk a st (fst (resolveTarget sk a st)) (is_paused sk (snd (read_clock (SNow sk) s))) rem"
        using rec t clk by simp
      have al: "Allowed (guards_decide sk a rule st s)" using True dec by simp
      show ?thesis
      proof (cases e)
        case (Some e')
        then have "err = Some e'" "s' = s2"
          using assms guarded t clk c True by (simp_all add: consumeOne_def selected_def is_manual_def)
        then show ?thesis using consumed.rejected_by_server [OF guarded al rec', of e'] C F1 Some by auto
      next
        case None
        obtain started s3 where clk2: "read_clock (SNow sk) s2 = (started, s3)" by fastforce
        note F2 = read_clock_eq [OF clk2]
        have "err = None" "Trace s' = Trace s2 @ [StartRecorded (RuleName rule) started, StartCounted (RuleName rule)]"
          "History s' = RecordStart (RuleName rule) started (History s2)"
          using assms guarded t clk c True None clk2 F2
          by (auto simp: consumeOne_def selected_def is_manual_def count_effect_def record_start_def)
        then show ?thesis using consumed.created [OF guarded al rec', of started] C F1 None by auto
      qed
    next
      case False
      let ?s2 = "count_effect (RejectionCounted (RuleName rule) (Guard ?d))
        (MGuardRejected (sink_metrics sk) (RuleName rule) (Guard ?d)) s1"
      obtain ev where E: "Trace (recordRejection sk st a ?d ?s2) = Trace ?s2 @ ev" "list_all is_event ev"
        "History (recordRejection sk st a ?d ?s2) = History ?s2"
        using publish_strategyD unfolding recordRejection_def by blast
      have base: "Trace (recordRejection sk st a ?d ?s2) = Trace s @ RejectionCounted (RuleName rule) (Guard ?d) # ev"
        "History (recordRejection sk st a ?d ?s2) = History s" using E F1 by (simp_all add: count_effect_def)
      note nal = False [unfolded dec]
      show ?thesis
      proof (cases "Guard ?d = GuardGiveUp")
        case True
        have g: "recordGiveUp sk a st t ?d (recordRejection sk st a ?d ?s2) = (err, s')"
          using assms guarded t clk False True by (simp add: consumeOne_def selected_def is_manual_def Let_def)
        have gu: "Guard (guards_decide sk a rule st s) = GuardGiveUp" using True dec by simp
        from recordGiveUpD [OF g] show ?thesis
        proof (elim conjE disjE exE)
          assume "History s' = History (recordRejection sk st a ?d ?s2)" "Trace s' = Trace (recordRejection sk st a ?d ?s2)"
          then show ?thesis using consumed.refused [OF guarded refl nal E(2), of err] gu base dec by auto
        next
          fix ok
          assume "History s' = History (recordRejection sk st a ?d ?s2)"
            "Trace s' = Trace (recordRejection sk st a ?d ?s2) @ [CreateCall (give_up_record sk a st t ?d) ok]"
            and ok: "err = None \<longleftrightarrow> ok"
          then show ?thesis using consumed.gave_up [OF guarded refl nal E(2) gu refl ok] base dec t by auto
        qed
      next
        case other: False
        have "err = None" "s' = recordRejection sk st a ?d ?s2"
          using assms guarded t clk False other by (simp_all add: consumeOne_def selected_def is_manual_def Let_def)
        then show ?thesis using consumed.refused [OF guarded refl nal E(2), of None] base dec by auto
      qed
    qed
  qed
qed

text \<open>The records a delivery creates.\<close>

fun creates :: "effect list \<Rightarrow> remediation list" where
  "creates [] = []"
| "creates (CreateCall rem ok # es) = (if ok then rem # creates es else creates es)"
| "creates (_ # es) = creates es"

lemma creates_append [simp]: "creates (es @ es') = creates es @ creates es'"
  by (induction es rule: creates.induct) simp_all

lemma creates_events [simp]: "list_all is_event es \<Longrightarrow> creates es = []"
  by (induction es rule: creates.induct) (auto simp: is_event_def)

lemma consumed_creates:
  "consumed sk rules byName a s err h' es \<Longrightarrow> length (creates es) \<le> (if IsFiring a then 1 else 0)"
  by (induction rule: consumed.induct) (auto simp: selected_def)

lemma consume_loop_creates:
  "\<exists>es. Trace (consume_loop sk rules byName as s) = Trace s @ es \<and> length (creates es) \<le> length (filter IsFiring as)"
proof (induction as arbitrary: s)
  case (Cons a as)
  obtain err s1 where c: "consumeOne sk rules byName a s = (err, s1)" by fastforce
  from consumeOneD [OF c] obtain es1 where "Trace s1 = Trace s @ es1" "length (creates es1) \<le> (if IsFiring a then 1 else 0)"
    using consumed_creates by blast
  moreover obtain es2 where "Trace (consume_loop sk rules byName as s1) = Trace s1 @ es2" "length (creates es2) \<le> length (filter IsFiring as)"
    using Cons.IH by blast
  ultimately show ?case using c by (intro exI [of _ "es1 @ es2"]) (auto split: if_splits)
qed simp

section \<open>The sink is what the gateway relies on\<close>

lemma Consume_creates:
  "\<exists>es. Trace (Consume sk as s) = Trace s @ es \<and> length (creates es) \<le> length (filter IsFiring as)"
proof -
  obtain x s1 where r: "sink_rules sk s = (x, s1)" by fastforce
  then have t1: "Trace s1 = Trace s"
    by (auto simp: sink_rules_def Let_def split: prod.splits sum.splits dest!: kube_list_strategiesD)
  show ?thesis
  proof (cases x)
    case (Inl e)
    then show ?thesis using r t1 by (intro exI [of _ "[]"]) (simp add: Consume_def)
  next
    case (Inr p)
    obtain rules byName where "p = (rules, byName)" by fastforce
    then have "Consume sk as s = consume_loop sk rules byName as s1" using r Inr by (simp add: Consume_def)
    then show ?thesis using consume_loop_creates [of sk rules byName as s1] t1 by auto
  qed
qed

interpretation snk: alert_sink "Consume sk" "\<lambda>s. length (creates (Trace s))" for sk
proof
  show "length (creates (Trace s)) \<le> length (creates (Trace (Consume sk as s)))
    \<and> length (creates (Trace (Consume sk as s))) \<le> length (creates (Trace s)) + length (filter IsFiring as)" for s as
    using Consume_creates [of sk as s] by auto
qed

end
