(* ===== verification/Examples.thy ===== *)
theory Examples
  imports Reconcile Sink
begin

text \<open>
  A small concrete world, on which the properties of the engine are shown to apply: the world is
  the one record the API server holds, its client accepts every call, and two actions exist,
  one that always works and one that always fails. Nothing here models code.
\<close>

definition ex_target :: target where
  "ex_target = \<lparr>TKind = ''deployment'', TNamespace = ''shop'', TName = ''api''\<rparr>"

definition ex_result :: result where
  "ex_result = \<lparr>Summary = ''ok'', ResultKubectl = '''', ResultOutputs = []\<rparr>"

definition good_action :: "'w action" where
  "good_action = \<lparr>ActName = ''good'', ActType = ''good'', ActResolve = (\<lambda>_ _. Inr ex_target),
     ActPlan = (\<lambda>_ _ w. (ex_result, None, w)), ActExecute = (\<lambda>_ _ w. (ex_result, None, w)), ActVerify = None\<rparr>"

definition bad_action :: "'w action" where
  "bad_action = \<lparr>ActName = ''bad'', ActType = ''bad'', ActResolve = (\<lambda>_ _. Inr ex_target),
     ActPlan = (\<lambda>_ _ w. (ex_result, Some (Err ''no''), w)), ActExecute = (\<lambda>_ _ w. (ex_result, Some (Err ''no''), w)),
     ActVerify = None\<rparr>"

definition ex_registry :: "'w registry" where
  "ex_registry = [(''good'', good_action), (''bad'', bad_action)]"

definition ex_step :: "string \<Rightarrow> step" where
  "ex_step n = \<lparr>Action = n, With = []\<rparr>"

definition ex_meta :: object_meta where
  "ex_meta = \<lparr>Name = ''r1'', GenerateName = '''', Namespace = ''remedik'', Labels = [], Annotations = [],
     CreationTimestamp = 1, Generation = 1\<rparr>"

definition ex_alert_ref :: alert_ref where
  "ex_alert_ref = \<lparr>RefFingerprint = ''f'', RefName = ''Down'', RefLabels = [], RefStartsAt = None\<rparr>"

definition ex_spec :: "string list \<Rightarrow> int \<Rightarrow> execution_mode \<Rightarrow> bool \<Rightarrow> remediation_spec" where
  "ex_spec steps retries m dry = \<lparr>StrategyName = ''restart'', SpecTarget = ''deployment/shop/api'', SpecAlert = ex_alert_ref,
     SpecSteps = map ex_step steps, Retries = retries, EscalationSteps = [ex_step ''good''],
     EscalationMode = EscalationModeAll, SpecMode = m, ApprovalDeadline = Some 100, Approval = None, DryRun = dry\<rparr>"

definition ex_record :: "string list \<Rightarrow> int \<Rightarrow> execution_mode \<Rightarrow> bool \<Rightarrow> remediation_state \<Rightarrow> int \<Rightarrow> remediation" where
  "ex_record steps retries m dry st a = \<lparr>Meta = ex_meta, Spec = ex_spec steps retries m dry,
     Status = zero_status\<lparr>State := st, Attempt := a\<rparr>\<rparr>"

definition ex_strategy :: strategy where
  "ex_strategy = \<lparr>StrategyMeta = ex_meta\<lparr>Name := ''restart''\<rparr>,
     StrategySpec = \<lparr>Enabled = None, Trigger = \<lparr>Match = [(''alertname'', ''Down'')]\<rparr>,
       Execution = \<lparr>ExecMode = ExecutionModeAuto, ApprovalTimeout = None\<rparr>,
       Guards = \<lparr>GCooldown = None, GMaxPerHour = 1, GBlastRadius = None, GGiveUpAfter = None\<rparr>,
       StrategySteps = [ex_step ''good''], OnFailure = \<lparr>OFRetries = 0, OFSteps = [], OFMode = EscalationModeAll\<rparr>\<rparr>,
     StrategyStatus = \<lparr>Conditions = [], LastExecutionTime = None, ExecutionCount = 0, ObservedGeneration = 0\<rparr>\<rparr>"

definition ex_kube :: "remediation kube" where
  "ex_kube = \<lparr>KubeGet = (\<lambda>_ _ w. (Inr w, w)), KubeList = (\<lambda>_ _ w. (Inr [w], w)),
     KubeUpdateStatus = (\<lambda>rem w. (Inr rem, rem)), KubeCreate = (\<lambda>rem w. (Inr rem, rem)),
     KubeDelete = (\<lambda>_ w. (None, w)), KubeGetStrategy = (\<lambda>_ w. (Inr ex_strategy, w)),
     KubeListStrategies = (\<lambda>w. (Inr [ex_strategy], w)), KubeUpdateStrategyStatus = (\<lambda>x w. (Inr x, w))\<rparr>"

definition ex_reconciler :: "remediation reconciler" where
  "ex_reconciler = \<lparr>RClient = ex_kube, RRegistry = ex_registry, RHistoryLimit = 0, RConcurrency = 0,
     RMetrics = None, REvents = None, RMapper = None, RNow = (\<lambda>w. (50, w)), RParseDuration = (\<lambda>_. Inl (Err ''duration''))\<rparr>"

definition ex_history :: memory_history where
  "ex_history = NewMemoryHistory 0"

definition ex_state :: "remediation \<Rightarrow> remediation st" where
  "ex_state rem = \<lparr>World = rem, History = ex_history, Trace = []\<rparr>"

definition ex_alert :: alert where
  "ex_alert = \<lparr>Fingerprint = ''f'', AlertStatus = StatusFiring, AlertLabels = [(''alertname'', ''Down'')],
     AlertAnnotations = [], StartsAt = 1, EndsAt = 0, GeneratorURL = ''''\<rparr>"

definition ex_sink :: "pause option \<Rightarrow> remediation sink" where
  "ex_sink p = \<lparr>SClient = ex_kube, SRegistry = ex_registry, SWorkloads = None, SNamespace = ''remedik'',
     SPosture = NewPosture False [], SMetrics = None, SEvents = None, SNow = (\<lambda>w. (50, w)), SPause = (\<lambda>_. p)\<rparr>"

definition ex_posture_paused :: "pause option" where
  "ex_posture_paused = Some \<lparr>PausedFlag = True, PauseReason = ''drill''\<rparr>"

lemmas ex_defs = ex_target_def ex_result_def good_action_def bad_action_def ex_registry_def ex_step_def ex_meta_def
  ex_alert_ref_def ex_spec_def ex_record_def ex_strategy_def ex_kube_def ex_reconciler_def ex_history_def ex_state_def
  ex_alert_def ex_sink_def ex_posture_paused_def

lemma ex_history_inv: "history_inv ex_history"
  by (simp add: ex_history_def history_inv_New in_int64_def)

text \<open>The example client answers a status update with what was written.\<close>

lemma ex_kube_reads [simp]: "KubeGet (RClient ex_reconciler) ns n w = (Inr w, w)"
  "KubeUpdateStatus (RClient ex_reconciler) rem w = (Inr rem, rem)"
  by (simp_all add: ex_reconciler_def ex_kube_def)

lemma ex_state_simps [simp]: "World (ex_state rem) = rem" "History (ex_state rem) = ex_history" "Trace (ex_state rem) = []"
  by (simp_all add: ex_state_def)

end
