(* ===== verification/EngineProperties.thy ===== *)
theory EngineProperties
  imports Lifecycle Examples
begin

text \<open>
  The properties of the step runner, the escalation, the reconciler and its state machine, each
  stated of the functions that model the code and applied to the concrete world of \<open>Examples\<close>.
\<close>

section \<open>Calls of actions\<close>

definition action_call :: "effect \<Rightarrow> bool" where
  "action_call e \<longleftrightarrow> (\<exists>n req. e = PlanCall n req) \<or> (\<exists>c n req. e = ExecuteCall c n req) \<or> (\<exists>c n req. e = VerifyCall c n req)"

definition quiet :: "effect list \<Rightarrow> bool" where
  "quiet es \<longleftrightarrow> list_all (\<lambda>e. \<not> action_call e) es"

lemma quiet_simps [simp]: "quiet []" "quiet (e # es) \<longleftrightarrow> \<not> action_call e \<and> quiet es" "quiet (es @ es') \<longleftrightarrow> quiet es \<and> quiet es'"
  by (auto simp: quiet_def)

lemma quiet_events: "list_all is_event es \<Longrightarrow> quiet es" "list_all is_delete es \<Longrightarrow> quiet es"
  by (auto simp: quiet_def is_event_def is_delete_def action_call_def list_all_iff)

lemma quiet_finish: "finish_effects rem st reason m err h h' es \<Longrightarrow> quiet es"
  by (auto simp: finish_effects_def action_call_def quiet_events split: if_splits)

lemma quiet_waited: "waited rem out es \<Longrightarrow> quiet es"
  by (auto simp: waited_def action_call_def)

lemma pass_of_Reconcile:
  assumes "fst (KubeGet (RClient r) ns n (World s)) = Inr rem"
  shows "\<exists>es. Trace (snd (Reconcile r c ns n s)) = Trace s @ es
    \<and> pass r c rem (fst (Reconcile r c ns n s)) (History s) (History (snd (Reconcile r c ns n s))) es"
  using Reconcile_pass [OF _ assms, of c "fst (Reconcile r c ns n s)" "snd (Reconcile r c ns n s)"] by simp

lemma ex_read: "fst (KubeGet (RClient ex_reconciler) ns n (World (ex_state rem))) = Inr rem"
  by simp

lemma ex_may_run: "may_run (ex_record steps k ExecutionModeAuto dry RemediationStatePending a)"
  by (simp add: may_run_def open_record_def gave_up_def ex_record_def ex_spec_def ex_meta_def map_get_def)

lemma finish_head:
  assumes "finish_effects rem st reason m err h h' es"
  shows "\<exists>rem' rest. es = StatusWrite rem' (err = None) # rest \<and> finished_as rem st reason m rem' \<and> quiet rest"
  using assms quiet_finish [OF assms] by (auto simp: finish_effects_def split: if_splits)

section \<open>The reconciler\<close>





lemma only_the_escalation_without_leave_lemma:
  assumes "fst (KubeGet (RClient r) ns n (World s)) = Inr rem" and "\<not> may_run rem"
  shows "\<exists>es1 es2. Trace (snd (Reconcile r c ns n s)) = Trace s @ es1 @ es2 \<and> escalation_calls es1 \<and> quiet es2"
proof -
  obtain es where T: "Trace (snd (Reconcile r c ns n s)) = Trace s @ es"
    and P: "pass r c rem (fst (Reconcile r c ns n s)) (History s) (History (snd (Reconcile r c ns n s))) es"
    using pass_of_Reconcile [OF assms(1)] by blast
  have none: "escalation_calls []" by (auto simp: escalation_calls_def intro: exI [of _ "[]"])
  have q: "\<exists>es1 es2. es = es1 @ es2 \<and> escalation_calls es1 \<and> quiet es2" if "quiet es"
    using that none by (metis append_Nil)
  from P have "\<exists>es1 es2. es = es1 @ es2 \<and> escalation_calls es1 \<and> quiet es2"
  proof (cases rule: pass.cases)
    case (gives_up es1 esc err es2)
    then show ?thesis using quiet_finish [OF gives_up(6)] by blast
  next
    case (times_out es1 esc err es2)
    then show ?thesis using quiet_finish [OF times_out(8)] by blast
  next
    case (interrupted err)
    then show ?thesis by (intro q quiet_finish [OF interrupted(3)])
  next
    case waits
    then show ?thesis by (intro q quiet_waited [OF waits(6)])
  next
    case (denied d ev err es')
    have "quiet es" using quiet_events(1) [OF denied(8)] quiet_finish [OF denied(9)] denied(2) by simp
    then show ?thesis by (rule q)
  next
    case idle
    then show ?thesis using q by simp
  qed (use assms(2) in simp_all)
  then show ?thesis using T by blast
qed





text \<open>A terminal record is final: a pass on it returns no error and no requeue, has no effect
  and leaves the guard history alone.\<close>

theorem terminal_is_final:
  assumes "fst (KubeGet (RClient r) ns n (World s)) = Inr rem" and "IsTerminal (rem_state rem)"
  shows "fst (Reconcile r c ns n s) = Inr 0 \<and> Trace (snd (Reconcile r c ns n s)) = Trace s
    \<and> History (snd (Reconcile r c ns n s)) = History s"
  using Reconcile_read [OF assms(1), of c] assms(2) by (auto simp: reconcile_record_def frame_def)

theorem terminal_is_final_witness:
  "Trace (snd (Reconcile ex_reconciler [] ''remedik'' ''r1''
      (ex_state (ex_record [''good''] 1 ExecutionModeAuto False RemediationStateSimulated 1)))) = []"
proof -
  have "IsTerminal (rem_state (ex_record [''good''] 1 ExecutionModeAuto False RemediationStateSimulated 1))"
    by (simp add: ex_record_def)
  from terminal_is_final [OF ex_read this, of "[]" "''remedik''" "''r1''"] show ?thesis by simp
qed

section \<open>Approval, attempts and retries\<close>

text \<open>A denial is final and silent: the pass calls no action, not even the escalation, and the
  one status it writes is Failed with the reason Denied.\<close>

theorem denied_runs_nothing:
  assumes "fst (KubeGet (RClient r) ns n (World s)) = Inr rem" and "open_record rem" and "\<not> gave_up rem"
    and "SpecMode (Spec rem) = ExecutionModeApproval" and "Approval (Spec rem) = Some d" and "Decision d = ApprovalDeny"
  shows "\<exists>ev rem' ok rest. Trace (snd (Reconcile r c ns n s)) = Trace s @ ev @ StatusWrite rem' ok # rest
    \<and> quiet ev \<and> quiet rest \<and> finished_as rem RemediationStateFailed ReasonDenied (deniedMessage d) rem'"
proof -
  obtain es where T: "Trace (snd (Reconcile r c ns n s)) = Trace s @ es"
    and P: "pass r c rem (fst (Reconcile r c ns n s)) (History s) (History (snd (Reconcile r c ns n s))) es"
    using pass_of_Reconcile [OF assms(1)] by blast
  from P have "\<exists>ev rem' ok rest. es = ev @ StatusWrite rem' ok # rest \<and> quiet ev \<and> quiet rest
    \<and> finished_as rem RemediationStateFailed ReasonDenied (deniedMessage d) rem'"
  proof (cases rule: pass.cases)
    case (denied d' ev err es')
    then have "d' = d" using assms(5) by simp
    with finish_head [OF denied(9)] obtain rem' rest where "es' = StatusWrite rem' (err = None) # rest" "quiet rest"
      "finished_as rem RemediationStateFailed ReasonDenied (deniedMessage d) rem'" by blast
    with denied(2) quiet_events(1) [OF denied(8)] show ?thesis by blast
  qed (use assms in \<open>auto simp: may_run_def open_record_def undecided_def\<close>)
  then show ?thesis using T by auto
qed

definition ex_denied :: remediation where
  "ex_denied = (let rem = ex_record [''good''] 1 ExecutionModeApproval False RemediationStateAwaitingApproval 0
     in rem\<lparr>Spec := (Spec rem)\<lparr>Approval := Some \<lparr>Decision = ApprovalDeny, By = ''ann'', Note = ''''\<rparr>\<rparr>\<rparr>)"

theorem denied_runs_nothing_witness:
  "\<exists>ev rem' ok rest. Trace (snd (Reconcile ex_reconciler [] ''remedik'' ''r1'' (ex_state ex_denied))) = ev @ StatusWrite rem' ok # rest
    \<and> quiet ev \<and> quiet rest"
proof -
  have "open_record ex_denied" "\<not> gave_up ex_denied" "SpecMode (Spec ex_denied) = ExecutionModeApproval"
    "Approval (Spec ex_denied) = Some \<lparr>Decision = ApprovalDeny, By = ''ann'', Note = ''''\<rparr>"
    by (simp_all add: ex_denied_def open_record_def gave_up_def ex_record_def ex_spec_def ex_meta_def map_get_def)
  from denied_runs_nothing [OF ex_read this, of "[]" "''remedik''" "''r1''"] show ?thesis by auto
qed

text \<open>Waiting for a decision is bounded. While nobody decided and the deadline is ahead, a pass
  calls no action and asks to be run again within the poll floor of a minute; once the deadline
  has passed, or when there is none, it ends the record as Failed with the reason
  ApprovalTimeout.\<close>

theorem waiting_is_bounded:
  assumes "fst (KubeGet (RClient r) ns n (World s)) = Inr rem" and "open_record rem" and "\<not> gave_up rem"
    and "SpecMode (Spec rem) = ExecutionModeApproval" and "undecided rem"
    and "now = fst (RNow r (snd (KubeGet (RClient r) ns n (World s))))"
  shows "if \<exists>deadline. ApprovalDeadline (Spec rem) = Some deadline \<and> now < deadline
    then (\<exists>es. Trace (snd (Reconcile r c ns n s)) = Trace s @ es \<and> quiet es)
      \<and> (isl (fst (Reconcile r c ns n s)) \<or> (\<exists>wait \<le> approvalPollFloor. fst (Reconcile r c ns n s) = Inr wait))
    else \<exists>es1 es2 rem' ok. Trace (snd (Reconcile r c ns n s)) = Trace s @ es1 @ StatusWrite rem' ok # es2
      \<and> escalation_calls es1 \<and> quiet es2
      \<and> rem_state rem' = RemediationStateFailed \<and> Reason (Status rem') = ReasonApprovalTimeout"
proof -
  obtain s0 where g: "kube_get (RClient r) ns n s = (Inr rem, s0)" and w: "World s0 = snd (KubeGet (RClient r) ns n (World s))"
    using assms(1) by (cases "KubeGet (RClient r) ns n (World s)") (auto simp: kube_get_def)
  have F0: "Trace s0 = Trace s" using kube_getD [OF g] by (simp add: frame_def)
  have rec: "Reconcile r c ns n s = await_decision r c rem s0"
    using g assms(2-5)
    by (auto simp: Reconcile_def reconcile_record_def open_record_def gave_up_def awaitsApproval_def awaitApproval_def
        undecided_def split: option.splits approval_decision.splits)
  obtain s1 where clk: "read_clock (RNow r) s0 = (now, s1)"
    using w assms(6) by (cases "RNow r (World s0)") (auto simp: read_clock_def)
  have timed: "\<exists>es1 es2 rem' ok. Trace (snd (no_requeue (timeOutApproval r c rem s1))) = Trace s @ es1 @ StatusWrite rem' ok # es2
          \<and> escalation_calls es1 \<and> quiet es2
          \<and> rem_state rem' = RemediationStateFailed \<and> Reason (Status rem') = ReasonApprovalTimeout"
    if "Trace s1 = Trace s" for s1
  proof -
    obtain err s2 where t: "timeOutApproval r c rem s1 = (err, s2)" by fastforce
    from timeOutApprovalD [OF t] obtain es1 es2 esc where E: "Trace s2 = Trace s1 @ es1 @ es2" "escalation_calls es1"
      and fe: "finish_effects (with_escalation rem esc) RemediationStateFailed ReasonApprovalTimeout timeout_message err (History s1) (History s2) es2"
      by blast
    from finish_head [OF fe] obtain rem' rest where "es2 = StatusWrite rem' (err = None) # rest" "quiet rest"
      "finished_as (with_escalation rem esc) RemediationStateFailed ReasonApprovalTimeout timeout_message rem'" by blast
    then show ?thesis using E t that
      by (intro exI [of _ es1] exI [of _ rest] exI [of _ rem'] exI [of _ "err = None"]) (auto simp: finished_as_def)
  qed
  show ?thesis
  proof (cases "ApprovalDeadline (Spec rem)")
    case None
    then show ?thesis using timed [OF F0] rec by (simp add: await_decision_def)
  next
    case (Some d)
    show ?thesis
    proof (cases "now < d")
      case False
      then show ?thesis using Some rec clk timed [of s1] read_clockD [OF clk] F0 by (simp add: await_decision_def frame_def)
    next
      case True
      obtain err s2 where m: "markAwaitingApproval r rem (time_sub d now) s1 = (err, s2)" by fastforce
      have "snd (Reconcile r c ns n s) = s2"
        "isl (fst (Reconcile r c ns n s)) \<or> fst (Reconcile r c ns n s) = Inr (min (wrap64 (time_sub d now + second)) approvalPollFloor)"
        using rec Some clk True m by (auto simp: await_decision_def split: option.splits)
      moreover have "\<exists>es. Trace s2 = Trace s @ es \<and> quiet es"
        using markAwaitingApprovalD [OF m] read_clockD [OF clk] F0 by (auto simp: frame_def action_call_def)
      ultimately show ?thesis using Some True by auto
    qed
  qed
qed

theorem waiting_is_bounded_witness:
  "\<exists>es. Trace (snd (Reconcile ex_reconciler [] ''remedik'' ''r1''
      (ex_state (ex_record [''good''] 1 ExecutionModeApproval False RemediationStatePending 0)))) = es \<and> quiet es"
proof -
  let ?rem = "ex_record [''good''] 1 ExecutionModeApproval False RemediationStatePending 0"
  have "open_record ?rem" "\<not> gave_up ?rem" "SpecMode (Spec ?rem) = ExecutionModeApproval" "undecided ?rem"
    "(50::int) = fst (RNow ex_reconciler (snd (KubeGet (RClient ex_reconciler) ''remedik'' ''r1'' (World (ex_state ?rem)))))"
    "ApprovalDeadline (Spec ?rem) = Some 100"
    by (simp_all add: open_record_def gave_up_def ex_record_def ex_spec_def ex_meta_def map_get_def undecided_def ex_reconciler_def)
  from waiting_is_bounded [OF ex_read this(1-5), of "[]"] this(6) show ?thesis by simp
qed

text \<open>The retry budget decides what a failed attempt becomes. With attempt number at most the
  retries of the record it is written Pending with the failure's reason and text and requeued
  after the backoff of the next attempt, and nothing is escalated; beyond the budget the
  escalation runs before the terminal write, and the Failed record that is written carries its
  outcome.\<close>

theorem failed_attempt_outcome:
  assumes "RunErr res = Some e"
  shows "\<exists>es1 rem' ok es2. Trace (snd (conclude_attempt r c a rem res s)) = Trace s @ es1 @ StatusWrite rem' ok # es2
    \<and> StatusSteps (Status rem') = RunSteps res \<and> Reason (Status rem') = RunReason res \<and> Message (Status rem') = err_text e
    \<and> (if a \<le> Retries (Spec rem)
       then es1 = [] \<and> es2 = [] \<and> rem_state rem' = RemediationStatePending
         \<and> fst (conclude_attempt r c a rem res s) = (if ok then Inr (Backoff (wrap32 (a + 1))) else fst (conclude_attempt r c a rem res s))
       else escalation_calls es1 \<and> quiet es2 \<and> rem_state rem' = RemediationStateFailed
         \<and> (Escalation (Status rem') = None \<longleftrightarrow> EscalationSteps (Spec rem) = []))"
proof -
  obtain out s' where c: "conclude_attempt r c a rem res s = (out, s')" by fastforce
  show ?thesis
  proof (cases "a \<le> Retries (Spec rem)")
    case True
    from conclude_retry [OF c assms True] obtain ok where "Trace s' = Trace s
      @ [StatusWrite (retry_record (with_steps rem (RunSteps res)) (RunReason res) (err_text e)) ok]"
      "if ok then out = Inr (Backoff (wrap32 (a + 1))) else isl out" by blast
    then show ?thesis using c True
      by (intro exI [of _ "[]"] exI [of _ "retry_record (with_steps rem (RunSteps res)) (RunReason res) (err_text e)"] exI [of _ ok]) simp
  next
    case False
    obtain es1 es2 esc err where f: "Trace s' = Trace s @ es1 @ es2" "escalation_calls es1"
      "esc = None \<longleftrightarrow> EscalationSteps (Spec rem) = []"
      and fe: "finish_effects (with_escalation (with_steps rem (RunSteps res)) esc) RemediationStateFailed (RunReason res) (err_text e)
        err (History s) (History s') es2"
      using conclude_failure [OF c assms False] by (elim exE conjE) (rule that)
    from finish_head [OF fe] obtain rem' rest where "es2 = StatusWrite rem' (err = None) # rest" "quiet rest"
      "finished_as (with_escalation (with_steps rem (RunSteps res)) esc) RemediationStateFailed (RunReason res) (err_text e) rem'"
      by blast
    then show ?thesis using f c False
      by (intro exI [of _ es1] exI [of _ rem'] exI [of _ "err = None"] exI [of _ rest]) (auto simp: finished_as_def)
  qed
qed

definition ex_failed :: run_result where
  "ex_failed = \<lparr>RunSteps = [], RunErr = Some (Err ''no''), RunReason = ReasonStepFailed\<rparr>"

theorem failed_attempt_outcome_witness:
  "\<exists>es1 rem' ok es2. Trace (snd (conclude_attempt ex_reconciler [] 1
      (ex_record [''bad''] 1 ExecutionModeAuto False RemediationStateRunning 1) ex_failed (ex_state (ex_record [''bad''] 1 ExecutionModeAuto False RemediationStateRunning 1)))) = es1 @ StatusWrite rem' ok # es2
    \<and> es1 = [] \<and> es2 = [] \<and> rem_state rem' = RemediationStatePending"
proof -
  have "RunErr ex_failed = Some (Err ''no'')" by (simp add: ex_failed_def)
  from failed_attempt_outcome [OF this, of ex_reconciler "[]" 1 "ex_record [''bad''] 1 ExecutionModeAuto False RemediationStateRunning 1" "ex_state (ex_record [''bad''] 1 ExecutionModeAuto False RemediationStateRunning 1)"]
  show ?thesis by (auto simp: ex_record_def ex_spec_def)
qed

section \<open>The state machine\<close>

text \<open>C7: Every pass refines the state machine: with a server that answers a status update with
  what was written, the statuses a pass writes successfully form a path of \<open>lifecycle\<close> from the
  status it read, and no write changes the plan.\<close>

theorem passes_refine_lifecycle:
  assumes "fst (KubeGet (RClient r) ns n (World s)) = Inr rem" and "status_echo (RClient r)"
  shows "\<exists>es. Trace (snd (Reconcile r c ns n s)) = Trace s @ es
    \<and> lifecycle_path (Retries (Spec rem)) (point_of rem) (map point_of (writes es))
    \<and> (\<forall>w \<in> set (writes es). Meta w = Meta rem \<and> Spec w = Spec rem)"
  using pass_of_Reconcile [OF assms(1)] pass_writes [OF _ assms(2)] by blast

lemma ex_echo: "status_echo (RClient ex_reconciler)"
  by (simp add: status_echo_def same_record_def)

theorem passes_refine_lifecycle_witness:
  "\<exists>es. Trace (snd (Reconcile ex_reconciler [] ''remedik'' ''r1''
      (ex_state (ex_record [''bad''] 0 ExecutionModeAuto False RemediationStatePending 0)))) = es
    \<and> lifecycle_path 0 (RemediationStatePending, 0) (map point_of (writes es))"
  using passes_refine_lifecycle [OF ex_read ex_echo, of "[]" "''remedik''" "''r1''"
      "ex_record [''bad''] 0 ExecutionModeAuto False RemediationStatePending 0"]
  by (auto simp: ex_record_def ex_spec_def point_of_def)

text \<open>C6: Over the whole life of a record - any number of passes, each of which may be cut off
  after any of its effects by a crash, and human decisions in between - a strategy with \<open>R\<close>
  retries starts at most \<open>R + 1\<close> attempts, the attempt counter of the record is the number of
  starts, and a record waiting to run has budget left.\<close>

theorem attempts_are_bounded:
  assumes "life r R rem ws" and "status_echo (RClient r)" and "0 \<le> R" and "R + 1 < 2 ^ 31"
  shows "int (length (filter (\<lambda>w. rem_state w = RemediationStateRunning) ws)) \<le> R + 1
    \<and> Attempt (Status rem) = int (length (filter (\<lambda>w. rem_state w = RemediationStateRunning) ws))
    \<and> (open_state (rem_state rem) \<longrightarrow> Attempt (Status rem) \<le> R)"
proof -
  have eq: "starts (map point_of ws) = length (filter (\<lambda>w. rem_state w = RemediationStateRunning) ws)"
    by (simp add: starts_def filter_map o_def point_of_def)
  from life_inv [OF assms] show ?thesis by (auto simp: lifecycle_inv_def point_of_def eq)
qed

definition ex_new :: remediation where
  "ex_new = ex_record [''bad''] 1 ExecutionModeAuto False (RemediationStateOther '''') 0"

lemma ex_life:
  "life ex_reconciler 1
     (last (ex_new # writes (Trace (snd (reconcile_record ex_reconciler [] ex_new (ex_state ex_new))))))
     (writes (Trace (snd (reconcile_record ex_reconciler [] ex_new (ex_state ex_new)))))"
proof -
  obtain out s' where p: "reconcile_record ex_reconciler [] ex_new (ex_state ex_new) = (out, s')" by fastforce
  have new: "life ex_reconciler 1 ex_new []"
    by (rule life.new) (simp_all add: ex_new_def ex_record_def ex_spec_def zero_status_def)
  have "life ex_reconciler 1 (last (ex_new # writes (take (length (Trace s')) (Trace s')))) ([] @ writes (take (length (Trace s')) (Trace s')))"
    by (rule life.reconciled [OF new p]) (simp_all add: same_record_def)
  then show ?thesis using p by simp
qed

theorem attempts_are_bounded_witness:
  "\<exists>rem ws. life ex_reconciler 1 rem ws
    \<and> int (length (filter (\<lambda>w. rem_state w = RemediationStateRunning) ws)) \<le> 2"
  using ex_life attempts_are_bounded [OF ex_life ex_echo] by auto

section \<open>Pruning and the guards' memory\<close>

text \<open>Pruning keeps the newest. Of the candidates - the terminal records of the strategy other
  than the one just finished - at most limit - 1 stay, every other one is a victim, no victim is
  newer than one that stays, and what a prune deletes is a prefix of the victims: never the kept
  record, never one that is not terminal.\<close>

theorem prune_keeps_the_newest:
  assumes "kube_list (RClient r) ns [(LabelStrategy, strat)] s = (Inr items, s0)"
  shows "\<exists>oks. Trace (snd (prune r ns strat keep s))
      = Trace s @ map2 (\<lambda>v ok. DeleteCall (rem_name v) ok) (prune_victims (prune_limit r) keep items) oks
    \<and> length oks \<le> length (prune_victims (prune_limit r) keep items)
    \<and> (fst (prune r ns strat keep s) = None \<longrightarrow> length oks = length (prune_victims (prune_limit r) keep items))
    \<and> mset (prune_kept (prune_limit r) keep items) + mset (prune_victims (prune_limit r) keep items)
        = mset (filter (\<lambda>x. IsTerminal (rem_state x) \<and> rem_name x \<noteq> keep) items)
    \<and> int (length (prune_kept (prune_limit r) keep items)) \<le> prune_limit r - 1
    \<and> (\<forall>v \<in> set (prune_victims (prune_limit r) keep items). \<forall>k \<in> set (prune_kept (prune_limit r) keep items). \<not> newer v k)"
proof -
  let ?vs = "prune_victims (prune_limit r) keep items"
  obtain err s' where d: "delete_loop (RClient r) ?vs s0 = (err, s')" by fastforce
  then have p: "prune r ns strat keep s = (err, s')" using assms by (simp add: prune_def)
  obtain oks where o: "Trace s' = Trace s0 @ map2 (\<lambda>v ok. DeleteCall (rem_name v) ok) ?vs oks"
    "length oks \<le> length ?vs" "err = None \<longrightarrow> length oks = length ?vs" using delete_loopD [OF d] by blast
  have "\<forall>v \<in> set ?vs. \<forall>k \<in> set (prune_kept (prune_limit r) keep items). \<not> newer v k"
    using prune_victims_oldest [OF prune_limit_pos] by blast
  then show ?thesis
    using o kube_listD [OF assms] p prune_partition [OF prune_limit_pos, of r keep items]
      prune_kept_length [OF prune_limit_pos, of r keep items]
    by (intro exI [of _ oks]) (simp add: prune_candidates_def)
qed

theorem prune_keeps_the_newest_witness:
  "\<exists>oks. Trace (snd (prune ex_reconciler ''remedik'' ''restart'' ''r1'' (ex_state ex_new)))
      = map2 (\<lambda>v ok. DeleteCall (rem_name v) ok) (prune_victims 200 ''r1'' [ex_new]) oks"
proof -
  have l: "kube_list (RClient ex_reconciler) ''remedik'' [(LabelStrategy, ''restart'')] (ex_state ex_new)
      = (Inr [ex_new], ex_state ex_new)"
    by (simp add: kube_list_def ex_reconciler_def ex_kube_def ex_state_def)
  have lim: "prune_limit ex_reconciler = 200"
    by (simp add: prune_limit_def DefaultHistoryLimit_def ex_reconciler_def)
  from prune_keeps_the_newest [OF l, of "''r1''"] show ?thesis unfolding lim by auto
qed

text \<open>What a remediation finishes, the cooldown sees: after a terminal write that succeeds, for
  a record with a target that is not a give-up, the guards refuse the same strategy on the same
  target for as long as less than the cooldown has passed since the completion time.\<close>

theorem finishing_starts_the_cooldown:
  assumes "fst (finish r rem st reason m s) = None" and "status_echo (RClient r)" and "history_inv (History s)"
    and "SpecTarget (Spec rem) \<noteq> ''''" and "reason \<noteq> ReasonGaveUp"
    and "0 < Cooldown cfg" and "in_int64 (now - fst (RNow r (World s)))" and "now - fst (RNow r (World s)) < Cooldown cfg"
  shows "Guard (Evaluate cfg (Some (memory_ops (History (snd (finish r rem st reason m s)))))
    (StrategyName (Spec rem)) (SpecTarget (Spec rem)) now) = GuardCooldown"
proof -
  obtain t s0 where clk: "read_clock (RNow r) s = (t, s0)" by fastforce
  have t: "t = fst (RNow r (World s))" using clk by (auto simp: read_clock_def split: prod.splits)
  let ?rem = "rem\<lparr>Status := (Status rem)\<lparr>State := st, Reason := reason, Message := m, CompletedAt := Some t\<rparr>\<rparr>"
  obtain x s1 where u: "update_status (RClient r) ?rem s0 = (x, s1)" by fastforce
  note U = update_statusD [OF u]
  obtain rem2 where x: "x = Inr rem2" using assms(1) clk u by (cases x) (auto simp: finish_def)
  have "same_record rem2 ?rem"
    using assms(2) u x by (auto simp: status_echo_def update_status_def split: prod.splits)
  then have spec: "Spec rem2 = Spec rem" by (simp add: same_record_def)
  let ?s2 = "count_effect (FinishCounted (StrategyName (Spec rem2)) (state_string st) (case StartedAt (Status rem2) of None \<Rightarrow> 0 | Some t' \<Rightarrow> time_sub t t'))
      (MRemediationFinished (metrics_of r) (StrategyName (Spec rem2)) (state_string st) (case StartedAt (Status rem2) of None \<Rightarrow> 0 | Some t' \<Rightarrow> time_sub t t'))
      (record_completion (StrategyName (Spec rem)) (SpecTarget (Spec rem)) t s1)"
  obtain y s3 where pr: "prune r (Namespace (Meta rem2)) (StrategyName (Spec rem2)) (rem_name rem2) ?s2 = (y, s3)" by fastforce
  have "snd (finish r rem st reason m s) = s3"
    using clk u x spec pr assms(4,5) by (simp add: finish_def Let_def)
  moreover have "History s3 = RecordCompletion (StrategyName (Spec rem)) (SpecTarget (Spec rem)) t (History s)"
    using pruneD [OF pr] U read_clock_eq [OF clk] by (auto simp: count_effect_def record_completion_def)
  ultimately show ?thesis
    using mem.cooldown_after_completion [OF assms(3,6), of now t] assms(7,8) t by simp
qed

theorem finishing_starts_the_cooldown_witness:
  "Guard (Evaluate \<lparr>Cooldown = 100, MaxPerHour = 0, GiveUpAfter = \<lparr>GiveUpCount = 0, GiveUpWithin = 0\<rparr>\<rparr>
     (Some (memory_ops (History (snd (finish ex_reconciler ex_new RemediationStateFailed ReasonStepFailed ''no'' (ex_state ex_new))))))
     ''restart'' ''deployment/shop/api'' 120) = GuardCooldown"
proof -
  have ok: "fst (finish ex_reconciler ex_new RemediationStateFailed ReasonStepFailed ''no'' (ex_state ex_new)) = None"
    by (simp add: finish_def Let_def update_status_def ex_reconciler_def ex_kube_def read_clock_def split: prod.splits)
  have now: "fst (RNow ex_reconciler w) = 50" for w by (simp add: ex_reconciler_def)
  have sp: "SpecTarget (Spec ex_new) = ''deployment/shop/api''" "StrategyName (Spec ex_new) = ''restart''"
    by (simp_all add: ex_new_def ex_record_def ex_spec_def)
  show ?thesis
    using finishing_starts_the_cooldown [OF ok ex_echo, of "\<lparr>Cooldown = 100, MaxPerHour = 0, GiveUpAfter = \<lparr>GiveUpCount = 0, GiveUpWithin = 0\<rparr>\<rparr>" 120]
    by (simp add: ex_history_inv now sp reason_defs in_int64_def)
qed

section \<open>Steps\<close>

text \<open>A plan stops at its first failure. Every step of the plan gets a status, in order; either
  all of them succeeded (were simulated, in a dry run), or exactly one failed and carries the
  error's text, everything before it succeeded, and every step after it is recorded as Skipped
  with nothing resolved or called. The reason is UnknownAction or StepFailed according to that
  error.\<close>

theorem run_stops_at_the_first_failure:
  assumes "Run r c labels plan s = (res, s')"
  shows "length (RunSteps res) = length plan \<and> RunReason res = run_reason '''' (RunErr res)
    \<and> (RunErr res = None \<and> list_all (\<lambda>st. Phase st = (if RunnerDryRun r then StepPhaseSimulated else StepPhaseSucceeded)) (RunSteps res)
       \<or> (\<exists>e k. RunErr res = Some e \<and> k < length plan
            \<and> (\<forall>j < k. Phase (RunSteps res ! j) = (if RunnerDryRun r then StepPhaseSimulated else StepPhaseSucceeded))
            \<and> Phase (RunSteps res ! k) = StepPhaseFailed \<and> StepMessage (RunSteps res ! k) = err_text e
            \<and> (\<forall>j. k < j \<and> j < length plan \<longrightarrow> RunSteps res ! j = skipped j (plan ! j))))"
proof -
  from Run_shape [OF assms] obtain es where sh: "run_shape r c labels 0 plan (RunSteps res) (RunErr res) es"
    and reason: "RunReason res = run_reason '''' (RunErr res)" by blast
  show ?thesis
  proof (cases "RunErr res")
    case None
    then show ?thesis using run_shape_None [of r c labels 0 plan "RunSteps res" es] run_shape_nth [OF sh] sh reason by simp
  next
    case (Some e)
    then show ?thesis using run_shape_Some [of r c labels 0 plan "RunSteps res" e es] run_shape_nth [OF sh] sh reason by simp
  qed
qed

definition ex_runner :: "bool \<Rightarrow> remediation step_runner" where
  "ex_runner dry = runner_for ex_reconciler ex_new dry"

theorem run_stops_at_the_first_failure_witness:
  "length (RunSteps (fst (Run (ex_runner False) [] [] [ex_step ''bad'', ex_step ''good''] (ex_state ex_new)))) = 2"
  using run_stops_at_the_first_failure
    [of "ex_runner False" "[]" "[]" "[ex_step ''bad'', ex_step ''good'']" "ex_state ex_new"
        "fst (Run (ex_runner False) [] [] [ex_step ''bad'', ex_step ''good''] (ex_state ex_new))"
        "snd (Run (ex_runner False) [] [] [ex_step ''bad'', ex_step ''good''] (ex_state ex_new))"] by simp

text \<open>A dry run never acts. Its calls of actions are plans that are told it is a dry run, and
  nothing it returns or leaves behind depends on what the actions would execute or verify.\<close>

theorem dry_run_never_acts:
  assumes "RunnerDryRun r"
  shows "(\<exists>es. Trace (snd (Run r c labels plan s)) = Trace s @ es \<and> list_all is_plan_call es)
    \<and> History (snd (Run r c labels plan s)) = History s
    \<and> Run (rearm f g r) c labels plan s = Run r c labels plan s"
proof -
  obtain res s' where run: "Run r c labels plan s = (res, s')" by fastforce
  from Run_shape [OF run] obtain es where "run_shape r c labels 0 plan (RunSteps res) (RunErr res) es"
    "Trace s' = Trace s @ es" "History s' = History s" by blast
  then show ?thesis using run run_shape_calls [of r c labels 0 plan "RunSteps res" "RunErr res" es] assms
    by (auto simp: Run_def run_loop_rearm)
qed

theorem dry_run_never_acts_witness:
  "\<exists>es. Trace (snd (Run (ex_runner True) [] [] [ex_step ''good''] (ex_state ex_new))) = es \<and> list_all is_plan_call es"
  using dry_run_never_acts [of "ex_runner True" "[]" "[]" "[ex_step ''good'']" "ex_state ex_new"]
  by (auto simp: ex_runner_def)

text \<open>In a live run every verification has a deadline of its own of at most ten minutes, nested
  in the context of the run, and no action is told that it is a dry run.\<close>

theorem verification_is_bounded:
  assumes "\<not> RunnerDryRun r"
  shows "\<exists>es. Trace (snd (Run r c labels plan s)) = Trace s @ es
    \<and> (\<forall>e \<in> set es. \<exists>n req. \<not> ReqDryRun req
        \<and> ((\<exists>c'. e = ExecuteCall c' n req) \<or> (\<exists>c' d. e = VerifyCall (d # c') n req \<and> 0 < d \<and> d \<le> 10 * minute)))"
proof -
  obtain res s' where run: "Run r c labels plan s = (res, s')" by fastforce
  from Run_shape [OF run] obtain es where "run_shape r c labels 0 plan (RunSteps res) (RunErr res) es"
    "Trace s' = Trace s @ es" by blast
  then have "Trace s' = Trace s @ es" "list_all is_live_call es"
    using run_shape_calls [of r c labels 0 plan "RunSteps res" "RunErr res" es] assms by auto
  then show ?thesis using run
    by (intro exI [of _ es]) (fastforce simp: list_all_iff is_live_call_def MaxVerifyTimeout_def)
qed

theorem verification_is_bounded_witness:
  "\<exists>es. Trace (snd (Run (ex_runner False) [] [] [ex_step ''good''] (ex_state ex_new))) = es
    \<and> (\<forall>e \<in> set es. \<exists>c n req. e = ExecuteCall c n req \<or> e = VerifyCall c n req)"
  using verification_is_bounded [of "ex_runner False" "[]" "[]" "[ex_step ''good'']" "ex_state ex_new"]
  by (fastforce simp: ex_runner_def)

section \<open>Escalation\<close>

text \<open>An escalation tries every channel. In a mode other than firstSuccess each channel gets a
  status that is Succeeded or Failed, none is skipped because another failed; the escalation is
  Succeeded exactly when at least one channel was, it never is a dry run, and it runs under its
  own two-minute deadline whatever budget the reconcile had left.\<close>

theorem escalation_tries_every_channel:
  assumes "EscalationSteps (Spec rem) \<noteq> []" and "EscalationMode (Spec rem) \<noteq> EscalationModeFirstSuccess"
  shows "\<exists>x es. fst (escalate r c rem a reason m s) = Some x
    \<and> length (EscSteps x) = length (EscalationSteps (Spec rem))
    \<and> (\<forall>st \<in> set (EscSteps x). Phase st = StepPhaseSucceeded \<or> Phase st = StepPhaseFailed)
    \<and> EscPhase x = (if \<exists>st \<in> set (EscSteps x). Phase st = StepPhaseSucceeded then StepPhaseSucceeded else StepPhaseFailed)
    \<and> Trace (snd (escalate r c rem a reason m s))
        = Trace s @ es @ [EscalationCounted (StrategyName (Spec rem)) (phase_string (EscPhase x))]
    \<and> list_all is_live_call es
    \<and> list_all (\<lambda>e. \<forall>c' n req. e = ExecuteCall c' n req \<longrightarrow> c' = [2 * minute]) es"
proof -
  obtain esc s' where e: "escalate r c rem a reason m s = (esc, s')" by fastforce
  obtain x :: escalation_status and es where x: "esc = Some x"
    "Trace s' = Trace s @ es @ [EscalationCounted (StrategyName (Spec rem)) (phase_string (EscPhase x))]"
    and sh: "channel_shape (runner_for r rem False) [EscalationTimeout]
         (escalationLabels rem a reason m (DryRun (Spec rem))) (EscalationMode (Spec rem)) 0
         (EscalationSteps (Spec rem)) False (EscSteps x) es"
    and ph: "EscPhase x = (if \<exists>st \<in> set (EscSteps x). Phase st = StepPhaseSucceeded then StepPhaseSucceeded else StepPhaseFailed)"
    using escalateD [OF e assms(1)] by blast
  show ?thesis
    using e x ph channel_shape_length [OF sh] channel_shape_all [OF sh assms(2)] channel_shape_calls [OF sh]
    by (intro exI [of _ x] exI [of _ es]) (simp add: EscalationTimeout_def)
qed

theorem escalation_tries_every_channel_witness:
  "\<exists>x. fst (escalate ex_reconciler [] ex_new 1 ReasonStepFailed ''no'' (ex_state ex_new)) = Some x \<and> length (EscSteps x) = 1"
proof -
  have "EscalationSteps (Spec ex_new) \<noteq> []" "EscalationMode (Spec ex_new) \<noteq> EscalationModeFirstSuccess"
    "length (EscalationSteps (Spec ex_new)) = 1"
    by (simp_all add: ex_new_def ex_record_def ex_spec_def)
  with escalation_tries_every_channel [of ex_new ex_reconciler "[]" 1 ReasonStepFailed "''no''" "ex_state ex_new"]
  show ?thesis by metis
qed

text \<open>firstSuccess is an ordered fallback: the channels fail one after the other up to the first
  that succeeds, and every channel after that one is skipped; if none succeeds, all were tried.\<close>

theorem first_success_stops_at_the_first:
  assumes "EscalationSteps (Spec rem) \<noteq> []" and "EscalationMode (Spec rem) = EscalationModeFirstSuccess"
  shows "\<exists>x k. fst (escalate r c rem a reason m s) = Some x \<and> k \<le> length (EscSteps x)
    \<and> length (EscSteps x) = length (EscalationSteps (Spec rem))
    \<and> (\<forall>j < k. Phase (EscSteps x ! j) = StepPhaseFailed)
    \<and> (k < length (EscSteps x) \<longrightarrow> Phase (EscSteps x ! k) = StepPhaseSucceeded
         \<and> (\<forall>j. k < j \<and> j < length (EscSteps x) \<longrightarrow> Phase (EscSteps x ! j) = StepPhaseSkipped))"
proof -
  obtain esc s' where e: "escalate r c rem a reason m s = (esc, s')" by fastforce
  obtain x :: escalation_status and es where x: "esc = Some x"
    and sh: "channel_shape (runner_for r rem False) [EscalationTimeout]
         (escalationLabels rem a reason m (DryRun (Spec rem))) (EscalationMode (Spec rem)) 0
         (EscalationSteps (Spec rem)) False (EscSteps x) es"
    using escalateD [OF e assms(1)] by blast
  from channel_shape_first [OF sh [unfolded assms(2)]] channel_shape_length [OF sh] e x show ?thesis by auto
qed

definition ex_fallback :: remediation where
  "ex_fallback = ex_new\<lparr>Spec := (Spec ex_new)\<lparr>EscalationSteps := [ex_step ''bad'', ex_step ''good'', ex_step ''good''],
     EscalationMode := EscalationModeFirstSuccess\<rparr>\<rparr>"

theorem first_success_stops_at_the_first_witness:
  "\<exists>x k. fst (escalate ex_reconciler [] ex_fallback 1 ReasonStepFailed ''no'' (ex_state ex_new)) = Some x
    \<and> length (EscSteps x) = 3 \<and> k \<le> 3 \<and> list_all (\<lambda>st. Phase st = StepPhaseFailed) (take k (EscSteps x))"
proof -
  have "EscalationSteps (Spec ex_fallback) \<noteq> []" "EscalationMode (Spec ex_fallback) = EscalationModeFirstSuccess"
    "length (EscalationSteps (Spec ex_fallback)) = 3"
    by (simp_all add: ex_fallback_def)
  with first_success_stops_at_the_first [of ex_fallback ex_reconciler "[]" 1 ReasonStepFailed "''no''" "ex_state ex_new"]
  show ?thesis by (auto simp: list_all_length)
qed

text \<open>An escalation cannot be lied to by an alert: each of the seven labels that describe the
  failed remediation has the value remedik gives it, whatever labels the alert carries, and every
  other label is the alert's.\<close>

theorem escalation_labels_are_authoritative:
  assumes "map_wf (RefLabels (SpecAlert (Spec rem)))"
  shows "map (map_get (escalationLabels rem attempts reason message d)) escalation_label_names
      = [rem_name rem, StrategyName (Spec rem), SpecTarget (Spec rem), reason, message, itoa attempts, format_bool d]
    \<and> (\<forall>k. k \<notin> set escalation_label_names \<longrightarrow>
         map_get (escalationLabels rem attempts reason message d) k = map_get (RefLabels (SpecAlert (Spec rem))) k)"
  unfolding escalationLabels_get [OF assms] escalation_label_names_def
  by (simp add: escalation_label_defs escalationLabels_get [OF assms])

theorem escalation_labels_are_authoritative_witness:
  "map_get (escalationLabels (ex_new\<lparr>Spec := (Spec ex_new)\<lparr>SpecAlert := ex_alert_ref\<lparr>RefLabels := [(''remedik_reason'', ''fine''), (''team'', ''web'')]\<rparr>\<rparr>\<rparr>)
     2 ReasonStepFailed ''no'' False) ''team'' = ''web''"
proof -
  let ?rem = "ex_new\<lparr>Spec := (Spec ex_new)\<lparr>SpecAlert := ex_alert_ref\<lparr>RefLabels := [(''remedik_reason'', ''fine''), (''team'', ''web'')]\<rparr>\<rparr>\<rparr>"
  have "map_wf (RefLabels (SpecAlert (Spec ?rem)))" by simp
  from escalation_labels_are_authoritative [OF this, of 2 ReasonStepFailed "''no''" False]
  show ?thesis by (simp add: escalation_label_names_def escalation_label_defs map_get_def)
qed

end
