(* ===== verification/Sweeper.thy ===== *)
theory Sweeper
  imports Engine
begin

text \<open>
  \<open>internal/engine/sweeper.go\<close>: retention on a timer. The lemmas show which records a sweep may
  delete: terminal ones, beyond the age or the count limit, and none inside the guards' floor.
\<close>

definition DefaultSweepInterval :: duration where "DefaultSweepInterval = 30 * minute"
definition maxDeletesPerSweep :: nat where "maxDeletesPerSweep = 200"
definition floorMargin :: duration where "floorMargin = 2 * hour"

record 'w sweeper =
  SwClient :: "'w kube"
  SwNamespace :: string
  MaxAge :: duration
  KeepPerStrategy :: int
  Every :: duration
  SwMetrics :: "'w recorder option"
  SwNow :: "'w clock"

definition NeedLeaderElection :: "'w sweeper \<Rightarrow> bool" where
  "NeedLeaderElection sw = True"

definition completedAt :: "remediation \<Rightarrow> time" where
  "completedAt rem = (case CompletedAt (Status rem) of Some t \<Rightarrow> t | None \<Rightarrow> CreationTimestamp (Meta rem))"

definition widen :: "guards_spec \<Rightarrow> duration \<Rightarrow> duration" where
  "widen g longest =
     (let longest = (case GCooldown g of None \<Rightarrow> longest | Some d \<Rightarrow> if d > longest then d else longest);
          longest = (if GMaxPerHour g > 0 \<and> hour > longest then hour else longest)
      in case GGiveUpAfter g of None \<Rightarrow> longest | Some u \<Rightarrow> if GUWithin u > longest then GUWithin u else longest)"

definition longest_window :: "strategy list \<Rightarrow> duration" where
  "longest_window items = fold (\<lambda>st longest. widen (Guards (StrategySpec st)) longest) items 0"

definition floor_of :: "strategy list \<Rightarrow> time \<Rightarrow> time" where
  "floor_of items now = time_add now (wrap64 (- wrap64 (longest_window items + floorMargin)))"

definition guardFloor :: "'w sweeper \<Rightarrow> time \<Rightarrow> 'w st \<Rightarrow> (go_error + time) \<times> 'w st" where
  "guardFloor sw now s =
     (let (listed, s) = kube_list_strategies (SwClient sw) s in
      case listed of Inl e \<Rightarrow> (Inl e, s) | Inr items \<Rightarrow> (Inr (floor_of items now), s))"

text \<open>The map by strategy; its order is one iteration order of the Go map.\<close>

definition by_strategy :: "remediation list \<Rightarrow> (string \<times> remediation list) list" where
  "by_strategy items =
     fold (\<lambda>rem m. if \<not> IsTerminal (rem_state rem) then m
                   else map_put (StrategyName (Spec rem))
                     ((case map_of m (StrategyName (Spec rem)) of None \<Rightarrow> [] | Some g \<Rightarrow> g) @ [rem]) m)
       items []"

definition too_old :: "'w sweeper \<Rightarrow> time \<Rightarrow> remediation \<Rightarrow> bool" where
  "too_old sw now rem \<longleftrightarrow> MaxAge sw > 0 \<and> completedAt rem < time_add now (wrap64 (- MaxAge sw))"

definition too_many :: "'w sweeper \<Rightarrow> nat \<Rightarrow> bool" where
  "too_many sw i \<longleftrightarrow> KeepPerStrategy sw > 0 \<and> int i \<ge> KeepPerStrategy sw"

fun sweep_group :: "'w sweeper \<Rightarrow> time \<Rightarrow> time \<Rightarrow> nat \<Rightarrow> remediation list \<Rightarrow> remediation list \<times> nat \<Rightarrow> remediation list \<times> nat" where
  "sweep_group sw now floor i [] acc = acc"
| "sweep_group sw now floor i (rem # rest) (out, held) =
     (if \<not> too_old sw now rem \<and> \<not> too_many sw i then sweep_group sw now floor (Suc i) rest (out, held)
      else if completedAt rem > floor then sweep_group sw now floor (Suc i) rest (out, Suc held)
      else sweep_group sw now floor (Suc i) rest (out @ [rem], held))"

definition sweep_order :: "remediation list \<Rightarrow> remediation list" where
  "sweep_order g = sort_slice (\<lambda>a b. completedAt a > completedAt b) g"

definition candidates :: "'w sweeper \<Rightarrow> remediation list \<Rightarrow> time \<Rightarrow> time \<Rightarrow> remediation list \<times> nat" where
  "candidates sw items now floor =
     fold (\<lambda>(name, g) acc. sweep_group sw now floor 0 (sweep_order g) acc) (by_strategy items) ([], 0)"

fun sweep_loop :: "'w kube \<Rightarrow> remediation list \<Rightarrow> nat \<Rightarrow> 'w st \<Rightarrow> (go_error + nat) \<times> 'w st" where
  "sweep_loop k [] deleted s = (Inr deleted, s)"
| "sweep_loop k (rem # rest) deleted s =
     (if deleted = maxDeletesPerSweep then (Inr deleted, s)
      else
        (let (err, s) = delete_remediation k rem s in
         case err of
           Some e \<Rightarrow> if isNotFound e then sweep_loop k rest deleted s
                     else (Inl (Wrap (''delete '' @ rem_name rem @ '': '') e ''''), s)
         | None \<Rightarrow> sweep_loop k rest (Suc deleted) s))"

definition Sweep :: "'w sweeper \<Rightarrow> 'w st \<Rightarrow> go_error option \<times> 'w st" where
  "Sweep sw s =
     (let (now, s) = read_clock (SwNow sw) s;
          (floor, s) = guardFloor sw now s
      in case floor of
           Inl e \<Rightarrow> (Some (Wrap ''compute the guard floor: '' e ''''), s)
         | Inr floor \<Rightarrow>
           (let (listed, s) = kube_list (SwClient sw) (SwNamespace sw) [] s in
            case listed of
              Inl e \<Rightarrow> (Some (Wrap ''list remediations: '' e ''''), s)
            | Inr items \<Rightarrow>
              (let (cands, held) = candidates sw items now floor;
                   (done, s) = sweep_loop (SwClient sw) cands 0 s
               in case done of
                    Inl e \<Rightarrow> (Some e, s)
                  | Inr deleted \<Rightarrow>
                      (None, case SwMetrics sw of None \<Rightarrow> s
                             | Some m \<Rightarrow> count_effect (SweepCounted deleted held) (MRecordsSwept m deleted held) s))))"

text \<open>\<open>Start\<close>: the interval of its ticker, and the sweeps of \<open>n\<close> ticks; an error of one is logged.\<close>

definition sweep_interval :: "'w sweeper \<Rightarrow> duration" where
  "sweep_interval sw = (if Every sw \<le> 0 then DefaultSweepInterval else Every sw)"

fun sweeper_ticks :: "'w sweeper \<Rightarrow> nat \<Rightarrow> 'w st \<Rightarrow> 'w st" where
  "sweeper_ticks sw 0 s = s"
| "sweeper_ticks sw (Suc n) s = (let (err, s) = Sweep sw s in sweeper_ticks sw n s)"

section \<open>The floor\<close>

lemma longest_window_fold:
  "fold (\<lambda>st longest. widen (Guards (StrategySpec st)) longest) items x \<ge> x"
proof (induction items arbitrary: x)
  case (Cons st items)
  have "x \<le> widen (Guards (StrategySpec st)) x" by (auto simp: widen_def Let_def split: option.splits)
  also have "\<dots> \<le> fold (\<lambda>st longest. widen (Guards (StrategySpec st)) longest) items (widen (Guards (StrategySpec st)) x)"
    by (rule Cons.IH)
  finally show ?case by simp
qed simp

definition window_of :: "guards_spec \<Rightarrow> duration" where
  "window_of g = max (case GCooldown g of None \<Rightarrow> 0 | Some d \<Rightarrow> d)
     (max (if GMaxPerHour g > 0 then hour else 0) (case GGiveUpAfter g of None \<Rightarrow> 0 | Some u \<Rightarrow> GUWithin u))"

lemma widen_eq: "0 \<le> x \<Longrightarrow> widen g x = max x (window_of g)"
  by (auto simp: widen_def window_of_def Let_def split: option.splits)

lemma longest_window_ge: "st \<in> set items \<Longrightarrow> window_of (Guards (StrategySpec st)) \<le> longest_window items"
proof -
  have "0 \<le> x \<Longrightarrow> st \<in> set items \<Longrightarrow>
    window_of (Guards (StrategySpec st)) \<le> fold (\<lambda>st longest. widen (Guards (StrategySpec st)) longest) items x" for x
  proof (induction items arbitrary: x)
    case (Cons y items)
    let ?w = "widen (Guards (StrategySpec y)) x"
    have w: "?w = max x (window_of (Guards (StrategySpec y)))" using Cons.prems(1) by (rule widen_eq)
    show ?case
    proof (cases "st \<in> set items")
      case True
      then show ?thesis using Cons.IH [of ?w] Cons.prems(1) w by simp
    next
      case False
      then have "st = y" using Cons.prems(2) by simp
      then show ?thesis using longest_window_fold [of ?w items] w by simp
    qed
  qed simp
  then show "st \<in> set items \<Longrightarrow> ?thesis" by (simp add: longest_window_def)
qed

lemma floor_of_eq:
  assumes "longest_window items + floorMargin < 2 ^ 63"
  shows "floor_of items now = now - longest_window items - floorMargin"
proof -
  have "0 \<le> longest_window items" using longest_window_fold [of 0 items] by (simp add: longest_window_def)
  then have "in_int64 (longest_window items + floorMargin)" "in_int64 (- (longest_window items + floorMargin))"
    using assms by (auto simp: in_int64_def floorMargin_def)
  then show ?thesis by (simp add: floor_of_def)
qed

section \<open>What a sweep may delete\<close>

lemma sweep_group_out:
  "rem \<in> set (fst (sweep_group sw now floor i g acc)) \<Longrightarrow>
     rem \<in> set (fst acc) \<or> (\<exists>j < length g. g ! j = rem \<and> (too_old sw now rem \<or> too_many sw (i + j)) \<and> completedAt rem \<le> floor)"
proof (induction g arbitrary: i acc)
  case (Cons x g)
  obtain out held where acc: "acc = (out, held)" by fastforce
  have shift: "\<exists>j < length g. g ! j = rem \<and> (too_old sw now rem \<or> too_many sw (Suc i + j)) \<and> completedAt rem \<le> floor \<Longrightarrow>
    \<exists>j < length (x # g). (x # g) ! j = rem \<and> (too_old sw now rem \<or> too_many sw (i + j)) \<and> completedAt rem \<le> floor"
    by (metis Suc_less_eq add_Suc_shift length_Cons nth_Cons_Suc)
  consider (keep) "\<not> too_old sw now x" "\<not> too_many sw i" | (held) "too_old sw now x \<or> too_many sw i" "completedAt x > floor"
    | (go) "too_old sw now x \<or> too_many sw i" "completedAt x \<le> floor" by fastforce
  then show ?case
  proof cases
    case keep
    then show ?thesis using Cons acc shift by fastforce
  next
    case held
    then have "sweep_group sw now floor i (x # g) acc = sweep_group sw now floor (Suc i) g (out, Suc held)" using acc by auto
    then show ?thesis using Cons.IH [of "Suc i" "(out, Suc held)"] Cons.prems acc shift by auto
  next
    case go
    then have "sweep_group sw now floor i (x # g) acc = sweep_group sw now floor (Suc i) g (out @ [x], held)" using acc by auto
    then show ?thesis using Cons.IH [of "Suc i" "(out @ [x], held)"] Cons.prems acc shift go by fastforce
  qed
qed simp

definition group_of :: "remediation list \<Rightarrow> string \<Rightarrow> remediation list" where
  "group_of items n = filter (\<lambda>x. IsTerminal (rem_state x) \<and> StrategyName (Spec x) = n) items"

lemma by_strategy_step:
  assumes "map_wf m" and "\<forall>n. map_of m n = (if group_of done n = [] then None else Some (group_of done n))"
  shows "\<forall>n. map_of (if \<not> IsTerminal (rem_state rem) then m
      else map_put (StrategyName (Spec rem))
        ((case map_of m (StrategyName (Spec rem)) of None \<Rightarrow> [] | Some g \<Rightarrow> g) @ [rem]) m) n
    = (if group_of (done @ [rem]) n = [] then None else Some (group_of (done @ [rem]) n))"
  using assms by (auto simp: group_of_def)

lemma by_strategy_groups:
  "map_wf (by_strategy items)
    \<and> (\<forall>n. map_of (by_strategy items) n = (if group_of items n = [] then None else Some (group_of items n)))"
proof -
  let ?f = "\<lambda>rem m. if \<not> IsTerminal (rem_state rem) then m
    else map_put (StrategyName (Spec rem)) ((case map_of m (StrategyName (Spec rem)) of None \<Rightarrow> [] | Some g \<Rightarrow> g) @ [rem]) m"
  have "map_wf (fold ?f items []) \<and> (\<forall>n. map_of (fold ?f items []) n = (if group_of items n = [] then None else Some (group_of items n)))"
  proof (induction items rule: rev_induct)
    case (snoc rem items)
    have step: "fold ?f (items @ [rem]) [] = ?f rem (fold ?f items [])" by simp
    have "map_wf (?f rem (fold ?f items []))" using snoc by simp
    then show ?case unfolding step using by_strategy_step [of "fold ?f items []" items rem] snoc by blast
  qed (simp add: group_of_def)
  then show ?thesis by (simp add: by_strategy_def)
qed

lemma by_strategy_group: "(n, g) \<in> set (by_strategy items) \<Longrightarrow> g = group_of items n"
  using by_strategy_groups [of items] by (metis map_of_is_SomeI option.inject option.distinct(1))

text \<open>How many records of its strategy are at least as recent as a record, itself among them.\<close>

definition rank :: "remediation list \<Rightarrow> remediation \<Rightarrow> nat" where
  "rank items rem = length (filter (\<lambda>x. completedAt rem \<le> completedAt x) (group_of items (StrategyName (Spec rem))))"

lemma newest_first: "sorted_wrt (\<lambda>a b. completedAt b \<le> completedAt a) (sweep_order g)"
proof -
  have "strict_weak (\<lambda>a b. completedAt a > completedAt b)" by (auto simp: strict_weak_def)
  from sorted_sort_slice [OF this, of g] show ?thesis by (simp add: sweep_order_def not_less)
qed

lemma rank_of_index:
  assumes "j < length (sweep_order g)"
  shows "j < length (filter (\<lambda>x. completedAt (sweep_order g ! j) \<le> completedAt x) g)"
proof -
  let ?s = "sweep_order g" and ?P = "\<lambda>x. completedAt (sweep_order g ! j) \<le> completedAt x"
  have "x \<in> set (take (Suc j) ?s) \<Longrightarrow> ?P x" for x
    using newest_first [of g] assms
    by (auto simp: in_set_conv_nth sorted_wrt_iff_nth_less less_Suc_eq)
  then have "filter ?P (take (Suc j) ?s) = take (Suc j) ?s" by (simp add: filter_id_conv)
  moreover have "length (filter ?P ?s) = length (filter ?P (take (Suc j) ?s)) + length (filter ?P (drop (Suc j) ?s))"
    by (metis append_take_drop_id filter_append length_append)
  moreover have "length (filter ?P ?s) = length (filter ?P g)"
    by (metis mset_filter mset_sort_slice size_mset sweep_order_def)
  ultimately show ?thesis using assms by simp
qed

lemma sweep_groups_out:
  "rem \<in> set (fst (fold (\<lambda>(name, g) acc. sweep_group sw now floor 0 (sweep_order g) acc) m acc)) \<Longrightarrow>
    rem \<in> set (fst acc) \<or> (\<exists>(n, g) \<in> set m. \<exists>j < length (sweep_order g). sweep_order g ! j = rem
      \<and> (too_old sw now rem \<or> too_many sw j) \<and> completedAt rem \<le> floor)"
proof (induction m arbitrary: acc)
  case (Cons p m)
  obtain n g where p: "p = (n, g)" by fastforce
  let ?acc = "sweep_group sw now floor 0 (sweep_order g) acc"
  from Cons.prems p have "rem \<in> set (fst (fold (\<lambda>(name, g) acc. sweep_group sw now floor 0 (sweep_order g) acc) m ?acc))" by simp
  from Cons.IH [OF this] show ?case using sweep_group_out [of rem sw now floor 0 "sweep_order g" acc] p by auto
qed simp

lemma candidates_sound:
  assumes "rem \<in> set (fst (candidates sw items now floor))"
  shows "rem \<in> set items \<and> IsTerminal (rem_state rem) \<and> completedAt rem \<le> floor
    \<and> (too_old sw now rem \<or> 0 < KeepPerStrategy sw \<and> KeepPerStrategy sw < int (rank items rem))"
proof -
  from assms sweep_groups_out [of rem sw now floor "by_strategy items" "([], 0)"]
  obtain n g j where g: "(n, g) \<in> set (by_strategy items)" and j: "j < length (sweep_order g)" "sweep_order g ! j = rem"
    and ok: "too_old sw now rem \<or> too_many sw j" "completedAt rem \<le> floor" by (auto simp: candidates_def)
  have grp: "g = group_of items n" using g by (rule by_strategy_group)
  have "rem \<in> set g" using j nth_mem [of j "sweep_order g"] by (simp add: sweep_order_def)
  then have mem: "rem \<in> set items" "IsTerminal (rem_state rem)" "StrategyName (Spec rem) = n" by (simp_all add: grp group_of_def)
  have "j < rank items rem" using rank_of_index [OF j(1)] j(2) grp mem(3) by (simp add: rank_def)
  then show ?thesis using ok mem by (auto simp: too_many_def)
qed

fun deletions :: "effect list \<Rightarrow> (string \<times> bool) list" where
  "deletions [] = []"
| "deletions (DeleteCall n ok # es) = (n, ok) # deletions es"
| "deletions (_ # es) = deletions es"

lemma deletions_append [simp]: "deletions (es @ es') = deletions es @ deletions es'"
  by (induction es rule: deletions.induct) simp_all

lemma sweep_loop_effects:
  assumes "sweep_loop k cands n s = (out, s')" and "n \<le> maxDeletesPerSweep"
  shows "\<exists>es. Trace s' = Trace s @ es \<and> History s' = History s
    \<and> length (filter snd (deletions es)) + n \<le> maxDeletesPerSweep
    \<and> (\<exists>oks. es = map2 (\<lambda>v ok. DeleteCall (rem_name v) ok) cands oks \<and> length oks \<le> length cands)"
  using assms
proof (induction cands arbitrary: n s)
  case Nil
  then show ?case by auto
next
  case (Cons rem cands)
  obtain e s1 where d: "delete_remediation k rem s = (e, s1)" by fastforce
  note D = delete_remediationD [OF d]
  consider (full) "n = maxDeletesPerSweep" | (gone) x where "n < maxDeletesPerSweep" "e = Some x" "isNotFound x"
    | (failed) x where "n < maxDeletesPerSweep" "e = Some x" "\<not> isNotFound x" | (deleted) "n < maxDeletesPerSweep" "e = None"
    using Cons.prems(2) by (cases e) fastforce+
  then show ?case
  proof cases
    case full
    then show ?thesis using Cons.prems by (intro exI [of _ "[]"]) (auto intro: exI [of _ "[]"])
  next
    case (gone x)
    with Cons.prems d have "sweep_loop k cands n s1 = (out, s')" by simp
    from Cons.IH [OF this Cons.prems(2)] obtain es oks where "Trace s' = Trace s1 @ es" "History s' = History s1"
      "length (filter snd (deletions es)) + n \<le> maxDeletesPerSweep" "es = map2 (\<lambda>v ok. DeleteCall (rem_name v) ok) cands oks"
      "length oks \<le> length cands" by blast
    with D gone show ?thesis
      by (intro exI [of _ "DeleteCall (rem_name rem) False # es"]) (auto intro!: exI [of _ "False # oks"])
  next
    case (failed x)
    with Cons.prems d have "s' = s1" by simp
    with D failed show ?thesis
      by (intro exI [of _ "[DeleteCall (rem_name rem) False]"]) (auto intro!: exI [of _ "[False]"])
  next
    case deleted
    with Cons.prems d have "sweep_loop k cands (Suc n) s1 = (out, s')" by simp
    from Cons.IH [OF this] deleted obtain es oks where "Trace s' = Trace s1 @ es" "History s' = History s1"
      "length (filter snd (deletions es)) + Suc n \<le> maxDeletesPerSweep" "es = map2 (\<lambda>v ok. DeleteCall (rem_name v) ok) cands oks"
      "length oks \<le> length cands" by auto
    with D deleted show ?thesis
      by (intro exI [of _ "DeleteCall (rem_name rem) True # es"]) (auto intro!: exI [of _ "True # oks"])
  qed
qed

end
