(* ===== verification/HistoryLoader.thy ===== *)
theory HistoryLoader
  imports Engine
begin

text \<open>
  \<open>internal/engine/history.go\<close>: the guard history is rebuilt from the records at startup. The
  lemmas give the rebuilt history as multisets of instants, so it depends on the records alone.
\<close>

text \<open>\<open>LNow\<close> is \<open>time.Now\<close>, which the loader reads directly.\<close>

record 'w history_loader =
  LReader :: "'w kube"
  LNamespace :: string
  LNow :: "'w clock"

definition startedAt :: "remediation \<Rightarrow> time option" where
  "startedAt rem =
     (case StartedAt (Status rem) of
        Some t \<Rightarrow> Some t
      | None \<Rightarrow> if CreationTimestamp (Meta rem) \<noteq> 0 then Some (CreationTimestamp (Meta rem)) else None)"

definition load_one :: "remediation \<Rightarrow> 'w st \<Rightarrow> 'w st" where
  "load_one rem s =
     (if map_get (Labels (Meta rem)) LabelGaveUp = ''true'' then s
      else
        (let s = (case startedAt rem of None \<Rightarrow> s | Some t \<Rightarrow> record_start (StrategyName (Spec rem)) t s)
         in if IsTerminal (rem_state rem) \<and> SpecTarget (Spec rem) \<noteq> ''''
            then (case CompletedAt (Status rem) of
                    None \<Rightarrow> s
                  | Some t \<Rightarrow> record_completion (StrategyName (Spec rem)) (SpecTarget (Spec rem)) t s)
            else s))"

definition Load :: "'w history_loader \<Rightarrow> 'w st \<Rightarrow> go_error option \<times> 'w st" where
  "Load l s =
     (let (listed, s) = kube_list (LReader l) (LNamespace l) [] s in
      case listed of
        Inl e \<Rightarrow> (Some (Wrap ''list remediations: '' e ''''), s)
      | Inr items \<Rightarrow>
          (let s = fold load_one items s;
               (now, s) = read_clock (LNow l) s
           in (None, s\<lparr>History := Prune now (History s)\<rparr>)))"

section \<open>The rebuilt history\<close>

definition replayed :: "remediation \<Rightarrow> bool" where
  "replayed rem \<longleftrightarrow> map_get (Labels (Meta rem)) LabelGaveUp \<noteq> ''true''"

definition replayed_start :: "string \<Rightarrow> remediation \<Rightarrow> time multiset" where
  "replayed_start strat rem =
     (if replayed rem \<and> StrategyName (Spec rem) = strat
      then (case startedAt rem of None \<Rightarrow> {#} | Some t \<Rightarrow> {#t#}) else {#})"

definition replayed_completion :: "string \<Rightarrow> string \<Rightarrow> remediation \<Rightarrow> time multiset" where
  "replayed_completion strat target rem =
     (if replayed rem \<and> StrategyName (Spec rem) = strat \<and> SpecTarget (Spec rem) = target \<and> target \<noteq> ''''
         \<and> IsTerminal (rem_state rem)
      then (case CompletedAt (Status rem) of None \<Rightarrow> {#} | Some t \<Rightarrow> {#t#}) else {#})"

lemma Retention_record [simp]: "Retention (RecordStart n t h) = Retention h" "Retention (RecordCompletion n g t h) = Retention h"
  by (simp_all add: RecordStart_def RecordCompletion_def Let_def)

lemma load_one_history:
  "history_inv (History s) \<Longrightarrow> history_inv (History (load_one rem s))"
  "Retention (History (load_one rem s)) = Retention (History s)"
  "starts_mset (History (load_one rem s)) strat = starts_mset (History s) strat + replayed_start strat rem"
  "completions_mset (History (load_one rem s)) strat target
     = completions_mset (History s) strat target + replayed_completion strat target rem"
  by (auto simp: load_one_def Let_def record_start_def record_completion_def replayed_start_def
      replayed_completion_def replayed_def history_invs split: option.splits)

lemma load_all_history:
  assumes "history_inv (History s)"
  shows "history_inv (History (fold load_one items s)) \<and> Retention (History (fold load_one items s)) = Retention (History s)
    \<and> starts_mset (History (fold load_one items s)) strat
        = starts_mset (History s) strat + (\<Sum>rem\<in>#mset items. replayed_start strat rem)
    \<and> completions_mset (History (fold load_one items s)) strat target
        = completions_mset (History s) strat target + (\<Sum>rem\<in>#mset items. replayed_completion strat target rem)"
  using assms
proof (induction items arbitrary: s)
  case (Cons rem items)
  from Cons.IH [of "load_one rem s"] Cons.prems show ?case by (simp add: load_one_history ac_simps)
qed simp

lemma LoadD:
  assumes "fst (KubeList (LReader l) (LNamespace l) [] (World s)) = Inr items" and "history_inv (History s)"
  shows "\<exists>now. history_inv (History (snd (Load l s))) \<and> fst (Load l s) = None
    \<and> (\<forall>strat. starts_mset (History (snd (Load l s))) strat
        = filter_mset (\<lambda>x. now - Retention (History s) \<le> x)
            (starts_mset (History s) strat + (\<Sum>rem\<in>#mset items. replayed_start strat rem)))
    \<and> (\<forall>strat target. completions_mset (History (snd (Load l s))) strat target
        = filter_mset (\<lambda>x. now - Retention (History s) \<le> x)
            (completions_mset (History s) strat target + (\<Sum>rem\<in>#mset items. replayed_completion strat target rem)))"
proof -
  obtain x s1 where k: "kube_list (LReader l) (LNamespace l) [] s = (x, s1)" by fastforce
  have x: "x = Inr items" and h1: "History s1 = History s"
    using k assms(1) kube_listD [OF k] by (auto simp: kube_list_def split: prod.splits)
  obtain now s3 where clk: "read_clock (LNow l) (fold load_one items s1) = (now, s3)" by fastforce
  have h3: "History s3 = History (fold load_one items s1)" using read_clock_eq [OF clk] by simp
  have "Load l s = (None, s3\<lparr>History := Prune now (History s3)\<rparr>)"
    using k x clk by (simp add: Load_def)
  then show ?thesis
    using load_all_history [of s1 items] assms(2) h1 h3
    by (intro exI [of _ now]) (simp add: mem.starts_prune mem.completions_prune history_inv_Prune)
qed

end
