(* ===== verification/Snapshot.thy ===== *)
theory Snapshot
  imports Engine
begin

text \<open>
  \<open>internal/engine/snapshot.go\<close>: the counts behind the metrics about the present.
\<close>

record snapshot =
  StrategiesEnabled :: nat
  StrategiesDisabled :: nat
  RecordsByState :: "(string \<times> nat) list"

record 'w snapshotter =
  SnReader :: "'w kube"
  SnNamespace :: string

definition count_up :: "string \<Rightarrow> (string \<times> nat) list \<Rightarrow> (string \<times> nat) list" where
  "count_up k m = map_put k ((case map_of m k of None \<Rightarrow> 0 | Some n \<Rightarrow> n) + 1) m"

definition shown_state :: "remediation \<Rightarrow> string" where
  "shown_state rem =
     (let state = state_string (rem_state rem)
      in if state = '''' then state_string RemediationStatePending else state)"

definition count_strategy :: "strategy \<Rightarrow> snapshot \<Rightarrow> snapshot" where
  "count_strategy st x =
     (if IsEnabled st then x\<lparr>StrategiesEnabled := StrategiesEnabled x + 1\<rparr>
      else x\<lparr>StrategiesDisabled := StrategiesDisabled x + 1\<rparr>)"

definition count_record :: "remediation \<Rightarrow> snapshot \<Rightarrow> snapshot" where
  "count_record rem x = x\<lparr>RecordsByState := count_up (shown_state rem) (RecordsByState x)\<rparr>"

definition take_snapshot :: "strategy list \<Rightarrow> remediation list \<Rightarrow> snapshot" where
  "take_snapshot sts rems =
     fold count_record rems
       (fold count_strategy sts \<lparr>StrategiesEnabled = 0, StrategiesDisabled = 0, RecordsByState = []\<rparr>)"

definition Snapshot :: "'w snapshotter \<Rightarrow> 'w st \<Rightarrow> (go_error + snapshot) \<times> 'w st" where
  "Snapshot sn s =
     (let (sts, s) = kube_list_strategies (SnReader sn) s in
      case sts of
        Inl e \<Rightarrow> (Inl (Wrap ''list strategies: '' e ''''), s)
      | Inr sts \<Rightarrow>
        (let (rems, s) = kube_list (SnReader sn) (SnNamespace sn) [] s in
         case rems of
           Inl e \<Rightarrow> (Inl (Wrap ''list remediations: '' e ''''), s)
         | Inr rems \<Rightarrow> (Inr (take_snapshot sts rems), s)))"

section \<open>The counts\<close>

definition state_count :: "snapshot \<Rightarrow> string \<Rightarrow> nat" where
  "state_count x k = (case map_of (RecordsByState x) k of None \<Rightarrow> 0 | Some n \<Rightarrow> n)"

lemma state_count_record [simp]:
  "state_count (count_record rem x) k = state_count x k + (if k = shown_state rem then 1 else 0)"
  by (auto simp: state_count_def count_record_def count_up_def)

lemma count_strategies:
  "fold count_strategy sts x = x\<lparr>StrategiesEnabled := StrategiesEnabled x + length (filter IsEnabled sts),
     StrategiesDisabled := StrategiesDisabled x + length (filter (\<lambda>st. \<not> IsEnabled st) sts)\<rparr>"
  by (induction sts arbitrary: x) (auto simp: count_strategy_def)

lemma count_records:
  "state_count (fold count_record rems x) k = state_count x k + length (filter (\<lambda>rem. shown_state rem = k) rems)
   \<and> StrategiesEnabled (fold count_record rems x) = StrategiesEnabled x
   \<and> StrategiesDisabled (fold count_record rems x) = StrategiesDisabled x"
proof (induction rems arbitrary: x)
  case (Cons rem rems)
  have "StrategiesEnabled (count_record rem x) = StrategiesEnabled x" "StrategiesDisabled (count_record rem x) = StrategiesDisabled x"
    by (simp_all add: count_record_def)
  with Cons.IH [of "count_record rem x"] show ?case by simp
qed simp

end
