(* ===== verification/StrategyController.thy ===== *)
theory StrategyController
  imports Engine
begin

text \<open>
  \<open>internal/engine/strategy.go\<close>: the status a strategy carries about itself.
  \<open>meta.SetStatusCondition\<close> is a library function: it is the field \<open>SetStatusCondition\<close>, a
  parameter. \<open>equality.Semantic.DeepEqual\<close> is equality of the modelled statuses.
\<close>

definition ConditionReady :: string where "ConditionReady = ''Ready''"
definition ReasonUsable :: string where "ReasonUsable = ''Usable''"

record 'w strategy_reconciler =
  SRClient :: "'w kube"
  SRRegistry :: "'w registry"
  SRNamespace :: string
  SetStatusCondition :: "condition list \<Rightarrow> condition \<Rightarrow> condition list"

definition actionNames :: "step list \<Rightarrow> string list" where
  "actionNames steps = map Action steps"

text \<open>The loop of \<open>newestRecord\<close>; \<open>None\<close> is the nil pointer.\<close>

fun newest_loop :: "remediation list \<Rightarrow> time option \<Rightarrow> time option" where
  "newest_loop [] newest = newest"
| "newest_loop (rem # rems) newest =
     (let created = CreationTimestamp (Meta rem) in
      case newest of
        None \<Rightarrow> newest_loop rems (Some created)
      | Some t \<Rightarrow> newest_loop rems (if created > t then Some created else newest))"

definition newestRecord :: "remediation list \<Rightarrow> time option" where
  "newestRecord records = newest_loop records None"

definition not_ready :: "strategy \<Rightarrow> string \<Rightarrow> condition" where
  "not_ready st message = \<lparr>CondType = ConditionReady, CondStatus = False,
     CondObservedGeneration = Generation (StrategyMeta st), CondLastTransitionTime = 0,
     CondReason = ReasonUnknownAction, CondMessage = message\<rparr>"

definition readiness :: "'w strategy_reconciler \<Rightarrow> strategy \<Rightarrow> condition" where
  "readiness r st =
     (case ValidateNames (SRRegistry r) (actionNames (StrategySteps (StrategySpec st))) of
        Some e \<Rightarrow> not_ready st (err_text e)
      | None \<Rightarrow>
        (case ValidateNames (SRRegistry r) (actionNames (OFSteps (OnFailure (StrategySpec st)))) of
           Some e \<Rightarrow> not_ready st (''onFailure '' @ err_text e)
         | None \<Rightarrow> \<lparr>CondType = ConditionReady, CondStatus = True,
             CondObservedGeneration = Generation (StrategyMeta st), CondLastTransitionTime = 0,
             CondReason = ReasonUsable,
             CondMessage = ''every action this strategy names is enabled in this build''\<rparr>))"

definition describe_strategy :: "'w strategy_reconciler \<Rightarrow> strategy \<Rightarrow> remediation list \<Rightarrow> strategy" where
  "describe_strategy r st records =
     (let st = st\<lparr>StrategyStatus := (StrategyStatus st)\<lparr>ObservedGeneration := Generation (StrategyMeta st),
                 ExecutionCount := int (length records), LastExecutionTime := newestRecord records\<rparr>\<rparr>
      in st\<lparr>StrategyStatus := (StrategyStatus st)\<lparr>Conditions :=
              SetStatusCondition r (Conditions (StrategyStatus st)) (readiness r st)\<rparr>\<rparr>)"

definition ReconcileStrategy :: "'w strategy_reconciler \<Rightarrow> string \<Rightarrow> 'w st \<Rightarrow> go_error option \<times> 'w st" where
  "ReconcileStrategy r name s =
     (let (got, s) = kube_get_strategy (SRClient r) name s in
      case got of
        Inl e \<Rightarrow> (if isNotFound e then None else Some e, s)
      | Inr st \<Rightarrow>
        (let (listed, s) = kube_list (SRClient r) (SRNamespace r) [(LabelStrategy, strat_name st)] s in
         case listed of
           Inl e \<Rightarrow> (Some (Wrap (''list the records of '' @ strat_name st @ '': '') e ''''), s)
         | Inr records \<Rightarrow>
           (let before = StrategyStatus st;
                st = describe_strategy r st records
            in if before = StrategyStatus st then (None, s)
               else
                 (let (written, s) = update_strategy_status (SRClient r) st s in
                  case written of
                    Inl e \<Rightarrow> (Some (Wrap (''update the status of '' @ strat_name st @ '': '') e ''''), s)
                  | Inr st \<Rightarrow> (None, s)))))"

text \<open>The request a record's event enqueues: the name of its strategy.\<close>

definition strategyOfRecord :: "remediation \<Rightarrow> string list" where
  "strategyOfRecord rem =
     (let name = map_get (Labels (Meta rem)) LabelStrategy in if name = '''' then [] else [name])"

text \<open>
  \<open>SetupWithManager\<close>: which strategies an event of the watches enqueues. A record that is only updated enqueues
  nothing.
\<close>

datatype watched =
    StrategyChanged strategy
  | RecordCreated remediation
  | RecordUpdated remediation remediation
  | RecordDeleted remediation
  | RecordGeneric remediation

fun enqueued :: "watched \<Rightarrow> string list" where
  "enqueued (StrategyChanged s) = [strat_name s]"
| "enqueued (RecordCreated rem) = strategyOfRecord rem"
| "enqueued (RecordUpdated old new) = []"
| "enqueued (RecordDeleted rem) = strategyOfRecord rem"
| "enqueued (RecordGeneric rem) = strategyOfRecord rem"

section \<open>What the status says\<close>

lemma newest_loop_eq:
  "newest_loop rems newest =
     (if rems = [] \<and> newest = None then None
      else Some (Max (set_option newest \<union> (\<lambda>rem. CreationTimestamp (Meta rem)) ` set rems)))"
proof (induction rems arbitrary: newest)
  case Nil
  then show ?case by (cases newest) simp_all
next
  case (Cons rem rems)
  let ?t = "CreationTimestamp (Meta rem)" and ?S = "(\<lambda>rem. CreationTimestamp (Meta rem)) ` set rems"
  show ?case
  proof (cases newest)
    case None
    then show ?thesis using Cons.IH [of "Some ?t"] by simp
  next
    case (Some t)
    have "Max (insert (max ?t t) ?S) = Max (insert t (insert ?t ?S))"
      by (cases "?S = {}") (simp_all add: max.assoc max.left_commute max.commute)
    moreover have "newest_loop (rem # rems) newest = newest_loop rems (Some (max ?t t))"
      using Some by (simp add: max_def)
    moreover have "set_option newest \<union> (\<lambda>rem. CreationTimestamp (Meta rem)) ` set (rem # rems) = insert t (insert ?t ?S)"
      using Some by auto
    ultimately show ?thesis using Cons.IH [of "Some (max ?t t)"] by (simp only: option.set) simp
  qed
qed

lemma readiness_iff:
  "CondStatus (readiness r st) \<longleftrightarrow>
     (\<forall>stp \<in> set (StrategySteps (StrategySpec st)) \<union> set (OFSteps (OnFailure (StrategySpec st))). Has (SRRegistry r) (Action stp))"
proof -
  have "CondStatus (readiness r st) \<longleftrightarrow>
    ValidateNames (SRRegistry r) (actionNames (StrategySteps (StrategySpec st))) = None
    \<and> ValidateNames (SRRegistry r) (actionNames (OFSteps (OnFailure (StrategySpec st)))) = None"
    by (auto simp: readiness_def not_ready_def split: option.splits)
  then show ?thesis by (auto simp: ValidateNames_None_iff actionNames_def)
qed

lemma describe_fields [simp]:
  "StrategyMeta (describe_strategy r st recs) = StrategyMeta st" "StrategySpec (describe_strategy r st recs) = StrategySpec st"
  by (simp_all add: describe_strategy_def Let_def)

lemma readiness_cong:
  "StrategyMeta st = StrategyMeta st' \<Longrightarrow> StrategySpec st = StrategySpec st' \<Longrightarrow> readiness r st = readiness r st'"
  by (simp add: readiness_def not_ready_def split: option.splits)

lemma describe_idempotent:
  assumes "\<forall>cs c. SetStatusCondition r (SetStatusCondition r cs c) c = SetStatusCondition r cs c"
  shows "describe_strategy r (describe_strategy r st recs) recs = describe_strategy r st recs"
proof -
  let ?st = "describe_strategy r st recs"
  have same: "readiness r (?st\<lparr>StrategyStatus := x\<rparr>) = readiness r st" "readiness r (st\<lparr>StrategyStatus := x\<rparr>) = readiness r st" for x
    by (rule readiness_cong; simp)+
  have "Conditions (StrategyStatus ?st) = SetStatusCondition r (Conditions (StrategyStatus st)) (readiness r st)"
    by (simp add: describe_strategy_def Let_def same)
  then have "SetStatusCondition r (Conditions (StrategyStatus ?st)) (readiness r st) = Conditions (StrategyStatus ?st)"
    using assms by simp
  then show ?thesis
    unfolding describe_strategy_def [of r ?st] Let_def
    by (simp add: same) (simp add: describe_strategy_def Let_def)
qed

end
