(* ===== verification/ComponentProperties.thy ===== *)
theory ComponentProperties
  imports Sink Sweeper HistoryLoader Snapshot StrategyController
begin

text \<open>
  The properties of the components that decide: parsing and identity of alerts, selection of a
  strategy, the guards and their history, targets, posture, retention and the strategy's status.
\<close>

section \<open>Alerts\<close>


definition ex_payload :: webhook_payload where
  "ex_payload = \<lparr>Version = ''4'', PayloadTruncated = 0, PayloadAlerts =
     [\<lparr>ItemStatus = ''firing'', ItemLabels = [(''alertname'', ''Down'')], ItemAnnotations = [], ItemStartsAt = 1,
       ItemEndsAt = 0, ItemGeneratorURL = '''', ItemFingerprint = ''''\<rparr>]\<rparr>"


text \<open>The fingerprint identifies the label set. It does not depend on the order in which the
  labels are iterated, and the text that is hashed is an injective encoding of the label set:
  two alerts with different labels never hash the same text.\<close>

theorem fingerprint_identifies_labels:
  assumes "map_wf m" and "map_wf m'"
  shows "(mset m = mset m' \<longrightarrow> DeriveFingerprint m = DeriveFingerprint m')
    \<and> (encode_labels m = encode_labels m' \<longleftrightarrow> map_of m = map_of m') \<and> length (DeriveFingerprint m) = 16"
proof -
  have "encode_labels m = encode_labels m'" if "map_of m = map_of m'"
  proof -
    have "set m = set m'" using that assms by (metis map_of_inject_set)
    then have "mset m = mset m'" using assms by (metis distinct_map set_eq_iff_mset_eq_distinct)
    then show ?thesis by (rule encode_labels_permutation [OF _ assms(1)])
  qed
  moreover have "DeriveFingerprint m = DeriveFingerprint m'" if "mset m = mset m'"
    using encode_labels_permutation [OF that assms(1)] by (simp add: DeriveFingerprint_def)
  ultimately show ?thesis using encode_labels_inject [OF _ assms] by auto
qed

theorem fingerprint_identifies_labels_witness:
  "DeriveFingerprint [(''a'', ''1''), (''b'', ''2'')] = DeriveFingerprint [(''b'', ''2''), (''a'', ''1'')]"
  using fingerprint_identifies_labels [of "[(''a'', ''1''), (''b'', ''2'')]" "[(''b'', ''2''), (''a'', ''1'')]"] by simp

section \<open>Matching\<close>

text \<open>Selection is deterministic. With rules of distinct names, the selected rule is a matching
  rule with the most matchers and, among those, the least name, and it is the same whatever the
  order in which the strategies were listed; no rule is selected exactly when none matches.\<close>

theorem select_is_most_specific:
  assumes "distinct (map RuleName rules)" and "mset rules' = mset rules"
  shows "Select a rules' = Select a rules
    \<and> (case Select a rules of
        None \<Rightarrow> \<forall>r \<in> set rules. \<not> Matches a r
      | Some r \<Rightarrow> r \<in> set rules \<and> Matches a r
          \<and> (\<forall>q \<in> set rules. Matches a q \<longrightarrow> q = r \<or> Specificity q < Specificity r
                \<or> Specificity q = Specificity r \<and> RuleName r < RuleName q))"
proof -
  have set: "set rules' = set rules" using assms(2) by (metis set_mset_mset)
  have dist: "distinct (map RuleName rules')" using assms by (metis mset_eq_imp_distinct_iff mset_map)
  have best: "q = r \<or> Specificity q < Specificity r \<or> Specificity q = Specificity r \<and> RuleName r < RuleName q"
    if "Select a rules = Some r" "q \<in> set rules" "Matches a q" for q r
  proof -
    have "\<not> precedes q r" "q \<noteq> r \<longrightarrow> RuleName q \<noteq> RuleName r"
      using Select_Some [OF that(1)] that(2,3) assms(1) by (auto simp: distinct_map inj_on_def)
    then show ?thesis by (auto simp: precedes_def split: if_splits)
  qed
  have "Select a rules' = Select a rules"
  proof (cases "Select a rules'")
    case None
    then show ?thesis using Select_None_iff [of a rules'] Select_None_iff [of a rules] set by simp
  next
    case (Some r')
    then obtain r where r: "Select a rules = Some r"
      using Select_None_iff [of a rules] Select_Some(1,2) [OF Some] set by (cases "Select a rules") auto
    have "r' = r" using Select_unique [OF r assms(1)] Select_Some [OF Some] set by blast
    then show ?thesis using Some r by simp
  qed
  then show ?thesis using best Select_None_iff [of a rules] Select_Some(1,2) [of a rules] by (auto split: option.splits)
qed

definition ex_rule :: "string \<Rightarrow> smap \<Rightarrow> rule" where
  "ex_rule n m = \<lparr>RuleName = n, RuleEnabled = True, RuleMatch = m\<rparr>"

definition ex_labelled :: "smap \<Rightarrow> alert" where
  "ex_labelled m = \<lparr>Fingerprint = ''f'', AlertStatus = StatusFiring, AlertLabels = m, AlertAnnotations = [],
     StartsAt = 1, EndsAt = 0, GeneratorURL = ''''\<rparr>"

theorem select_is_most_specific_witness:
  "Select (ex_labelled [(''a'', ''1''), (''b'', ''2'')]) [ex_rule ''x'' [(''a'', ''1'')], ex_rule ''y'' [(''a'', ''1''), (''b'', ''2'')]]
    = Select (ex_labelled [(''a'', ''1''), (''b'', ''2'')]) [ex_rule ''y'' [(''a'', ''1''), (''b'', ''2'')], ex_rule ''x'' [(''a'', ''1'')]]"
  using select_is_most_specific
    [of "[ex_rule ''y'' [(''a'', ''1''), (''b'', ''2'')], ex_rule ''x'' [(''a'', ''1'')]]"
        "[ex_rule ''x'' [(''a'', ''1'')], ex_rule ''y'' [(''a'', ''1''), (''b'', ''2'')]]"]
  by (simp add: ex_rule_def)

text \<open>What WhyNot leaves unsaid. It returns the empty string exactly for a rule that matches and
  all of whose matchers name labels the alert carries; so for a rule that matches because it wants
  a missing label to be empty it still gives a reason, although Matches accepts it.\<close>

theorem why_not_is_empty_iff:
  assumes "map_wf (RuleMatch r)"
  shows "WhyNot a r = '''' \<longleftrightarrow> Matches a r \<and> (\<forall>(k, v) \<in> set (RuleMatch r). k \<in> fst ` set (AlertLabels a))"
  by (rule WhyNot_empty_iff [OF assms])

theorem why_not_is_empty_iff_witness:
  "Matches (ex_labelled [(''a'', ''1'')]) (ex_rule ''x'' [(''b'', '''')])
    \<and> WhyNot (ex_labelled [(''a'', ''1'')]) (ex_rule ''x'' [(''b'', '''')]) \<noteq> ''''"
proof -
  have "map_wf (RuleMatch (ex_rule ''x'' [(''b'', '''')]))" by (simp add: ex_rule_def)
  from why_not_is_empty_iff [OF this, of "ex_labelled [(''a'', ''1'')]"] show ?thesis
    by (simp add: ex_rule_def ex_labelled_def Matches_iff map_get_def)
qed

section \<open>Guards and their history\<close>

text \<open>Giving up is concluded last: the guards report giveUpAfter exactly when the cooldown and
  the hourly rate would both have allowed the execution and the number of completions in the
  window reached the configured count. A target that is merely being paced is never given up.\<close>

theorem give_up_is_concluded_last:
  "Guard (Evaluate cfg (Some (memory_ops h)) s t now) = GuardGiveUp \<longleftrightarrow>
     Allowed (evaluateCooldown cfg (Some (memory_ops h)) s t now) \<and> Allowed (evaluateRate cfg (Some (memory_ops h)) s now)
     \<and> 0 < GiveUpCount (GiveUpAfter cfg) \<and> 0 < GiveUpWithin (GiveUpAfter cfg)
     \<and> GiveUpCount (GiveUpAfter cfg)
         \<le> completions_since h s t (now + wrap64 (- GiveUpWithin (GiveUpAfter cfg)))"
  by (auto simp: Evaluate_GiveUp_last evaluateGiveUp_Allowed memory_ops_def not_le not_less)

text \<open>C14: The history answers the guards' questions exactly. On every reachable history (its slices
  sorted) the number of starts or completions since an instant is the number recorded at or after
  it, and the last completion is the latest recorded, in whatever order they were recorded.\<close>

theorem history_answers_exactly:
  assumes "history_inv h"
  shows "starts_since h s since = int (size (filter_mset (\<lambda>x. since \<le> x) (starts_mset h s)))
    \<and> completions_since h s t since = int (size (filter_mset (\<lambda>x. since \<le> x) (completions_mset h s t)))
    \<and> last_completion h s t = (if completions_mset h s t = {#} then None else Some (Max_mset (completions_mset h s t)))
    \<and> history_inv (RecordStart s x h) \<and> starts_mset (RecordStart s x h) s = add_mset x (starts_mset h s)
    \<and> history_inv (RecordCompletion s t x h)
    \<and> completions_mset (RecordCompletion s t x h) s t = add_mset x (completions_mset h s t)"
  using mem.StartsSince_eq [OF assms] mem.CompletionsSince_eq [OF assms] mem.LastCompletion_eq [OF assms] assms
  by (simp add: memory_ops_def history_invs)

definition ex_history_out_of_order :: memory_history where
  "ex_history_out_of_order = RecordStart ''s'' 10 (RecordStart ''s'' 30 (NewMemoryHistory 0))"

lemma ex_out_of_order_inv: "history_inv ex_history_out_of_order"
  by (simp add: ex_history_out_of_order_def history_invs in_int64_def)

theorem history_answers_exactly_witness: "starts_since ex_history_out_of_order ''s'' 20 = 1"
proof -
  have "starts_mset ex_history_out_of_order ''s'' = {#10, 30#}"
    by (simp add: ex_history_out_of_order_def) (simp add: starts_mset_def NewMemoryHistory_def slice_of_def)
  with history_answers_exactly [OF ex_out_of_order_inv, of "''s''" 20 "''t''" 0] show ?thesis by simp
qed

text \<open>C37: Pruning is invisible to the guards as long as their windows fit in the retention: with a
  retention of at least an hour, a cooldown and a give-up window of at most the retention, every
  guard decides after a prune at the same instant as it did before.\<close>

theorem prune_is_invisible_within_retention:
  assumes "history_inv h" and "hour \<le> Retention h" and "Cooldown cfg \<le> Retention h"
    and "0 \<le> GiveUpWithin (GiveUpAfter cfg)" and "GiveUpWithin (GiveUpAfter cfg) \<le> Retention h"
  shows "Allowed (Evaluate cfg (Some (memory_ops (Prune now h))) s t now) = Allowed (Evaluate cfg (Some (memory_ops h)) s t now)"
proof -
  have r: "Retention h < 2 ^ 63" using assms(1) by (simp add: history_inv_def in_int64_def)
  then have "in_int64 (- GiveUpWithin (GiveUpAfter cfg))" using assms(4,5) by (auto simp: in_int64_def)
  moreover have "Cooldown cfg < 2 ^ 63" using r assms(3) by simp
  ultimately show ?thesis
    using mem.rate_prune [OF assms(1,2), of cfg now s] mem.giveup_prune [OF assms(1,5), of now s t]
      mem.cooldown_prune [OF assms(1,3), of now s t]
    by (simp add: Evaluate_Allowed)
qed

definition ex_cfg :: "duration \<Rightarrow> guard_cfg" where
  "ex_cfg d = \<lparr>Cooldown = d, MaxPerHour = 5, GiveUpAfter = \<lparr>GiveUpCount = 3, GiveUpWithin = hour\<rparr>\<rparr>"

theorem prune_is_invisible_within_retention_witness:
  "Allowed (Evaluate (ex_cfg hour) (Some (memory_ops (Prune 100 ex_history_out_of_order))) ''s'' ''t'' 100)
     = Allowed (Evaluate (ex_cfg hour) (Some (memory_ops ex_history_out_of_order)) ''s'' ''t'' 100)"
proof -
  have "Retention ex_history_out_of_order = 24 * hour"
    by (simp add: ex_history_out_of_order_def NewMemoryHistory_def DefaultRetention_def RecordStart_def)
  with prune_is_invisible_within_retention [OF ex_out_of_order_inv, of "ex_cfg hour" 100 "''s''" "''t''"]
  show ?thesis by (simp add: ex_cfg_def)
qed

text \<open>A cooldown longer than the retention of the history is not enforced for its length: a
  completion that is older than the retention but younger than the cooldown refuses the next
  execution until the history is pruned, and no longer refuses it afterwards. The operator's
  history keeps 24 hours and is pruned on a ticker.\<close>

theorem long_cooldown_is_forgotten:
  assumes "DefaultRetention < now - x" and "now - x < Cooldown cfg" and "in_int64 (now - x)"
  shows "Guard (Evaluate cfg (Some (memory_ops (RecordCompletion s t x (NewMemoryHistory 0)))) s t now) = GuardCooldown
    \<and> Allowed (evaluateCooldown cfg (Some (memory_ops (Prune now (RecordCompletion s t x (NewMemoryHistory 0))))) s t now)"
proof -
  have inv: "history_inv (NewMemoryHistory 0)" by (simp add: history_inv_New in_int64_def)
  have pos: "0 < Cooldown cfg" using assms by (simp add: DefaultRetention_def)
  let ?h = "RecordCompletion s t x (NewMemoryHistory 0)"
  have "completions_mset (NewMemoryHistory 0) s t = {#}" "Retention ?h = DefaultRetention"
    by (simp_all add: NewMemoryHistory_def completions_mset_def slice_of_def)
  then have "filter_mset (\<lambda>y. now - Retention ?h \<le> y) (completions_mset ?h s t) = {#}"
    using assms(1) by simp
  from mem.cooldown_forgotten [OF history_inv_RecordCompletion [OF inv] this]
    mem.cooldown_after_completion [OF inv pos assms(2,3)] show ?thesis by blast
qed

theorem long_cooldown_is_forgotten_witness:
  "Guard (Evaluate (ex_cfg (48 * hour)) (Some (memory_ops (RecordCompletion ''s'' ''t'' 0 (NewMemoryHistory 0)))) ''s'' ''t'' (30 * hour)) = GuardCooldown
    \<and> Allowed (evaluateCooldown (ex_cfg (48 * hour))
        (Some (memory_ops (Prune (30 * hour) (RecordCompletion ''s'' ''t'' 0 (NewMemoryHistory 0))))) ''s'' ''t'' (30 * hour))"
  by (rule long_cooldown_is_forgotten) (simp_all add: DefaultRetention_def ex_cfg_def in_int64_def)

section \<open>The blast radius\<close>


definition ex_workload :: workload where
  "ex_workload = \<lparr>WorkloadName = ''deployment/shop/api'', Desired = 29, Available = 22\<rparr>"


text \<open>What the guard allows on what the operator reads. When the guard allows acting on a target
  whose workload was measured on a cluster with counts in range, more than minAvailable replicas
  are up and the missing share is at most one percent less than the configured percentage.\<close>

theorem allowed_on_the_cluster_leaves_enough:
  assumes "Allowed (EvaluateBlastRadius cfg (Some (Workload (Some c))) target)"
    and "Workload (Some c) target = Inr (w, True)" and "cluster_ok c"
  shows "(MinAvailable cfg \<le> 0 \<or> MinAvailable cfg < Available w)
    \<and> (MaxUnavailablePercent cfg \<le> 0 \<or> Desired w \<le> 0
       \<or> 100 * Unavailable w \<le> (MaxUnavailablePercent cfg - 1) * Desired w)"
  using health.allowed_leaves_enough [OF assms] by (simp add: not_le [symmetric]) argo

definition ex_cluster :: cluster where
  "ex_cluster = \<lparr>GetDeployment = (\<lambda>_ n. Inr \<lparr>ObjectName = n, OwnerReferences = [], SpecReplicas = Some 3, AvailableReplicas = 3\<rparr>),
     GetStatefulSet = (\<lambda>_ _. Inl (ErrNotFound '''')), GetReplicaSet = (\<lambda>_ _. Inl (ErrNotFound '''')),
     GetDaemonSet = (\<lambda>_ _. Inl (ErrNotFound '''')), GetPod = (\<lambda>_ _. Inl (ErrNotFound ''''))\<rparr>"

theorem allowed_on_the_cluster_leaves_enough_witness:
  "Allowed (EvaluateBlastRadius \<lparr>MinAvailable = 2, MaxUnavailablePercent = 0\<rparr> (Some (Workload (Some ex_cluster))) ''deployment/shop/api'')
    \<and> (\<exists>w. Workload (Some ex_cluster) ''deployment/shop/api'' = Inr (w, True) \<and> 2 < Available w)"
proof -
  let ?cfg = "\<lparr>MinAvailable = 2, MaxUnavailablePercent = 0\<rparr>"
  have parse: "ParseTarget ''deployment/shop/api'' = Inr \<lparr>TKind = ''deployment'', TNamespace = ''shop'', TName = ''api''\<rparr>"
    by code_simp
  have kind: "to_lower ''deployment'' = ''deployment''" by code_simp
  have wl: "\<exists>w. Workload (Some ex_cluster) ''deployment/shop/api'' = Inr (w, True) \<and> Available w = 3"
    by (simp add: Workload_def parse kind deployment_def get_object_def ex_cluster_def replicated_workload_def)
  then obtain w where w: "Workload (Some ex_cluster) ''deployment/shop/api'' = Inr (w, True)" "Available w = 3" by blast
  have al: "Allowed (EvaluateBlastRadius ?cfg (Some (Workload (Some ex_cluster))) ''deployment/shop/api'')"
    using w by (simp add: EvaluateBlastRadius_def)
  have ok: "cluster_ok ex_cluster" by (auto simp: cluster_ok_def ex_cluster_def replicated_ok_def replicasOf_def count_ok_def)
  from allowed_on_the_cluster_leaves_enough [OF al w(1) ok] al w show ?thesis by auto
qed

section \<open>Targets, actions and posture\<close>

text \<open>Targets survive their textual form: a target with a kind and a name and no slash in its
  parts is parsed back from its string with its kind in lower case, and whatever is parsed at all
  is such a target.\<close>

theorem target_roundtrip:
  assumes "target_wf t"
  shows "ParseTarget (target_string t) = Inr (t\<lparr>TKind := to_lower (TKind t)\<rparr>)
    \<and> (case ParseTarget s of Inl e \<Rightarrow> True | Inr t' \<Rightarrow> target_wf t')"
  using ParseTarget_target_string [OF assms] ParseTarget_wf(1) by (auto split: sum.splits)

theorem target_roundtrip_witness:
  "ParseTarget (target_string \<lparr>TKind = ''Deployment'', TNamespace = ''shop'', TName = ''api''\<rparr>)
    = Inr \<lparr>TKind = to_lower ''Deployment'', TNamespace = ''shop'', TName = ''api''\<rparr>"
  using target_roundtrip [of "\<lparr>TKind = ''Deployment'', TNamespace = ''shop'', TName = ''api''\<rparr>"]
  by (simp add: target_wf_def)

text \<open>The registry is exactly what was registered: it is built if and only if every action has a
  name and no two share one, and then looking a name up returns the action registered under it,
  while a name that was not registered is an error that is ErrUnknownAction.\<close>

theorem registry_is_what_was_registered:
  "((\<exists>r. NewRegistry as = Inr r) \<longleftrightarrow> list_all (\<lambda>a. ActName a \<noteq> '''') as \<and> distinct (map ActName as))
   \<and> (case NewRegistry as of Inl e \<Rightarrow> True
      | Inr r \<Rightarrow> list_all (\<lambda>a. registry_Get r (ActName a) = Inr a) as
         \<and> (case registry_Get r n of Inr a \<Rightarrow> a \<in> set as \<and> ActName a = n
            | Inl e \<Rightarrow> errors_is e ErrUnknownAction \<and> n \<notin> ActName ` set as))"
proof (rule conjI)
  show "(\<exists>r. NewRegistry as = Inr r) \<longleftrightarrow> list_all (\<lambda>a. ActName a \<noteq> '''') as \<and> distinct (map ActName as)"
    using register_all_eq [of as "[]"] register_all_Inr [of as "[]"] by (auto simp: NewRegistry_def list_all_iff)
  show "case NewRegistry as of Inl e \<Rightarrow> True
   | Inr r \<Rightarrow> list_all (\<lambda>a. registry_Get r (ActName a) = Inr a) as
      \<and> (case registry_Get r n of Inr a \<Rightarrow> a \<in> set as \<and> ActName a = n | Inl e \<Rightarrow> errors_is e ErrUnknownAction \<and> n \<notin> ActName ` set as)"
  proof (cases "NewRegistry as")
    case (Inr r)
    have r: "r = map (\<lambda>a. (ActName a, a)) as" and dist: "distinct (map ActName as)"
      using register_all_eq [of as "[]" r] Inr by (simp_all add: NewRegistry_def)
    have wf: "map_wf r" using r dist by (simp add: o_def)
    have get: "registry_Get r n' = Inr a \<longleftrightarrow> a \<in> set as \<and> ActName a = n'" for n' a
      using wf r by (auto simp: registry_Get_Inr)
    have "errors_is e ErrUnknownAction \<and> n \<notin> ActName ` set as" if "registry_Get r n = Inl e" for e
      using registry_Get_unknown [OF that] get [of n] that by auto
    then show ?thesis using Inr get by (auto simp: list_all_iff split: sum.splits)
  qed simp
qed

text \<open>The flag for postures by namespace is understood or refused. When the pairs are accepted,
  a namespace has the posture m if and only if some pair says so, every pair says something, and
  no namespace was given two postures; parsing is independent of everything but the pairs.\<close>

theorem parse_posture_says_what_the_pairs_say:
  assumes "ParsePosture pairs = Inr m"
  shows "map_wf m \<and> (\<forall>ns x. map_of m ns = Some x \<longleftrightarrow> (\<exists>pair \<in> set pairs. pair_says pair ns x))
    \<and> (\<forall>pair \<in> set pairs. \<exists>ns x. pair_says pair ns x)"
  using parse_posture_loop_spec [of pairs "[]" m] assms by (simp add: ParsePosture_def)

theorem parse_posture_says_what_the_pairs_say_witness:
  "ParsePosture [''shop=live'', ''web=dryRun''] = Inr [(''shop'', ModeLive), (''web'', ModeDryRun)]
    \<and> (\<exists>pair \<in> {''shop=live'', ''web=dryRun''}. pair_says pair ''web'' ModeDryRun)"
proof -
  have p: "ParsePosture [''shop=live'', ''web=dryRun''] = Inr [(''shop'', ModeLive), (''web'', ModeDryRun)]"
    by code_simp
  from parse_posture_says_what_the_pairs_say [OF p] have "\<forall>ns x. map_of [(''shop'', ModeLive), (''web'', ModeDryRun)] ns = Some x
      \<longleftrightarrow> (\<exists>pair \<in> set [''shop=live'', ''web=dryRun'']. pair_says pair ns x)" by blast
  from this [rule_format, of "''web''" ModeDryRun] p show ?thesis by simp
qed

text \<open>The pause switch keeps its last reading. From the reading at its start and those of its
  ticks, the watcher leaves remedik paused if and only if the last reading that decided said so - a
  reading decides unless the ConfigMap could not be read, and a missing ConfigMap means not paused
  -, and if none decided it is as it was.\<close>

theorem pause_keeps_the_last_reading:
  "PausedFlag (WatcherPause (watcher_Start cm cms w)) =
     (case rev (filter decides (cm # cms)) of [] \<Rightarrow> PausedFlag (WatcherPause w) | x # _ \<Rightarrow> reading_paused x)"
  unfolding watcher_Start_pause by (rule polls_last_decision)

text \<open>The wait between attempts doubles from thirty seconds and stops at ten minutes, for every
  attempt number an int32 can hold, without overflow; the first attempt does not wait.\<close>

theorem backoff_doubles_to_its_limit:
  assumes "in_int32 attempt"
  shows "Backoff attempt = (if attempt \<le> 1 then 0 else min (30 * second * 2 ^ nat (attempt - 2)) (10 * minute))
    \<and> in_int64 (Backoff attempt)"
proof -
  have "in_int64 (Backoff attempt)" using Backoff_range [of attempt] by (auto simp: in_int64_def maxBackoff_def)
  then show ?thesis using Backoff_eq [OF _ assms] by (simp add: Backoff_def)
qed

theorem backoff_doubles_to_its_limit_witness: "Backoff 4 = 2 * minute \<and> Backoff 40 = 10 * minute"
  using backoff_doubles_to_its_limit [of 4] backoff_doubles_to_its_limit [of 40] by (simp add: in_int32_def)

section \<open>Retention, restart and status\<close>

text \<open>C35: A sweep deletes only what may go. Whatever it deletes was listed, is terminal, is too old or
  is outranked by as many records of its strategy as may be kept; it deletes at most 200 records;
  and as long as the windows do not overflow, it completed at least the longest guard window of
  every listed strategy and two hours before the sweep.\<close>

theorem sweep_spares_the_guards:
  assumes "kube_list_strategies (SwClient sw) s0 = (Inr sts, s1)" and "kube_list (SwClient sw) (SwNamespace sw) [] s1 = (Inr items, s2)"
    and "read_clock (SwNow sw) s = (now, s0)" and "longest_window sts + floorMargin < 2 ^ 63"
  shows "\<exists>es gone. Trace (snd (Sweep sw s)) = Trace s @ es \<and> map fst (deletions es) = map rem_name gone
    \<and> length (filter snd (deletions es)) \<le> 200
    \<and> (\<forall>rem \<in> set gone. rem \<in> set items \<and> IsTerminal (rem_state rem) \<and> (too_old sw now rem \<or> 0 < KeepPerStrategy sw \<and> KeepPerStrategy sw < int (rank items rem))
        \<and> (\<forall>st \<in> set sts. completedAt rem + window_of (Guards (StrategySpec st)) + 2 * hour \<le> now))"
proof -
  let ?floor = "floor_of sts now"
  obtain cands held where c: "candidates sw items now ?floor = (cands, held)" by fastforce
  obtain out s3 where l: "sweep_loop (SwClient sw) cands 0 s2 = (out, s3)" by fastforce
  have t: "Trace s2 = Trace s"
    using kube_list_strategiesD [OF assms(1)] kube_listD [OF assms(2)] read_clock_eq [OF assms(3)] by simp
  from sweep_loop_effects [OF l] obtain es oks where es: "Trace s3 = Trace s2 @ es"
    "length (filter snd (deletions es)) \<le> maxDeletesPerSweep"
    and map2: "es = map2 (\<lambda>v ok. DeleteCall (rem_name v) ok) cands oks" "length oks \<le> length cands" by auto
  have del: "map fst (deletions (map2 (\<lambda>v ok. DeleteCall (rem_name v) ok) cs oks')) = map rem_name (take (length oks') cs)"
    if "length oks' \<le> length cs" for cs oks'
    using that
  proof (induction cs arbitrary: oks')
    case (Cons c cs)
    then show ?case by (cases oks') auto
  qed simp
  have sweep: "Trace (snd (Sweep sw s)) = Trace s3 \<or> (\<exists>d. Trace (snd (Sweep sw s)) = Trace s3 @ [SweepCounted d held])"
    using assms(1-3) c l
    by (auto simp: Sweep_def guardFloor_def Let_def count_effect_def split: sum.splits option.splits)
  have good: "rem \<in> set items \<and> IsTerminal (rem_state rem) \<and> (too_old sw now rem \<or> 0 < KeepPerStrategy sw \<and> KeepPerStrategy sw < int (rank items rem))
      \<and> (\<forall>st \<in> set sts. completedAt rem + window_of (Guards (StrategySpec st)) + 2 * hour \<le> now)"
    if "rem \<in> set (take (length oks) cands)" for rem
  proof -
    have "rem \<in> set (fst (candidates sw items now ?floor))" using that c in_set_takeD by fastforce
    from candidates_sound [OF this] longest_window_ge floor_of_eq [OF assms(4), of now] show ?thesis
      by (fastforce simp: floorMargin_def)
  qed
  from sweep show ?thesis
  proof
    assume "Trace (snd (Sweep sw s)) = Trace s3"
    then show ?thesis using es t map2 del [OF map2(2)] good
      by (intro exI [of _ es] exI [of _ "take (length oks) cands"]) (simp add: maxDeletesPerSweep_def)
  next
    assume "\<exists>d. Trace (snd (Sweep sw s)) = Trace s3 @ [SweepCounted d held]"
    then obtain d where "Trace (snd (Sweep sw s)) = Trace s3 @ [SweepCounted d held]" ..
    then show ?thesis using es t map2 del [OF map2(2)] good
      by (intro exI [of _ "es @ [SweepCounted d held]"] exI [of _ "take (length oks) cands"]) (simp add: maxDeletesPerSweep_def)
  qed
qed

definition ex_sweep_kube :: "unit kube" where
  "ex_sweep_kube = \<lparr>KubeGet = (\<lambda>_ _ w. (Inl (ErrNotFound ''''), w)), KubeList = (\<lambda>_ _ w. (Inr [], w)),
     KubeUpdateStatus = (\<lambda>rem w. (Inr rem, w)), KubeCreate = (\<lambda>rem w. (Inr rem, w)), KubeDelete = (\<lambda>_ w. (None, w)),
     KubeGetStrategy = (\<lambda>_ w. (Inl (ErrNotFound ''''), w)), KubeListStrategies = (\<lambda>w. (Inr [], w)),
     KubeUpdateStrategyStatus = (\<lambda>x w. (Inr x, w))\<rparr>"

definition ex_sweeper :: "unit sweeper" where
  "ex_sweeper = \<lparr>SwClient = ex_sweep_kube, SwNamespace = ''remedik'', MaxAge = 100 * hour, KeepPerStrategy = 200,
     Every = 0, SwMetrics = None, SwNow = (\<lambda>w. (1000 * hour, w))\<rparr>"

definition ex_unit_state :: "unit st" where
  "ex_unit_state = \<lparr>World = (), History = NewMemoryHistory 0, Trace = []\<rparr>"

theorem sweep_spares_the_guards_witness:
  "\<exists>es. Trace (snd (Sweep ex_sweeper ex_unit_state)) = es \<and> length (filter snd (deletions es)) \<le> 200"
proof -
  have "kube_list_strategies (SwClient ex_sweeper) ex_unit_state = (Inr [], ex_unit_state)"
    "kube_list (SwClient ex_sweeper) (SwNamespace ex_sweeper) [] ex_unit_state = (Inr [], ex_unit_state)"
    "read_clock (SwNow ex_sweeper) ex_unit_state = (1000 * hour, ex_unit_state)"
    by (simp_all add: kube_list_strategies_def kube_list_def read_clock_def ex_sweeper_def ex_sweep_kube_def ex_unit_state_def)
  from sweep_spares_the_guards [OF this] show ?thesis
    by (auto simp: longest_window_def floorMargin_def ex_unit_state_def)
qed



text \<open>The snapshot counts everything once: the enabled and disabled strategies are all of them,
  each state counts its records, and a record the reconciler has not reached yet counts as
  Pending, never under an empty state.\<close>

theorem snapshot_counts_everything:
  "StrategiesEnabled (take_snapshot sts rems) + StrategiesDisabled (take_snapshot sts rems) = length sts
   \<and> state_count (take_snapshot sts rems) k = length (filter (\<lambda>rem. shown_state rem = k) rems)
   \<and> state_count (take_snapshot sts rems) '''' = 0"
proof -
  have "filter (\<lambda>rem. shown_state rem = '''') rems = []" by (simp add: filter_empty_conv shown_state_def Let_def)
  moreover have "state_count \<lparr>StrategiesEnabled = m, StrategiesDisabled = n, RecordsByState = []\<rparr> k = 0" for m n k
    by (simp add: state_count_def)
  ultimately show ?thesis
    by (simp add: take_snapshot_def count_records count_strategies sum_length_filter_compl)
qed

text \<open>Ready means usable: a strategy's Ready condition is true if and only if every action its
  steps and its escalation name is registered, and when it is false the message is the reason an
  execution would fail with.\<close>

theorem ready_means_usable:
  "(CondStatus (readiness r st) \<longleftrightarrow>
     list_all (\<lambda>stp. Has (SRRegistry r) (Action stp)) (StrategySteps (StrategySpec st) @ OFSteps (OnFailure (StrategySpec st))))
   \<and> CondType (readiness r st) = ConditionReady
   \<and> CondObservedGeneration (readiness r st) = Generation (StrategyMeta st)
   \<and> CondReason (readiness r st) = (if CondStatus (readiness r st) then ReasonUsable else ReasonUnknownAction)"
proof -
  have "CondType (readiness r st) = ConditionReady \<and> CondObservedGeneration (readiness r st) = Generation (StrategyMeta st)
    \<and> CondReason (readiness r st) = (if CondStatus (readiness r st) then ReasonUsable else ReasonUnknownAction)"
    by (simp add: readiness_def not_ready_def split: option.splits)
  moreover have "CondStatus (readiness r st) \<longleftrightarrow>
     list_all (\<lambda>stp. Has (SRRegistry r) (Action stp)) (StrategySteps (StrategySpec st) @ OFSteps (OnFailure (StrategySpec st)))"
    unfolding readiness_iff by (auto simp: list_all_iff)
  ultimately show ?thesis by blast
qed

text \<open>The strategy controller does not chase its own writes: once a strategy carries the status
  described from its records, another pass over the same strategy and records writes nothing,
  provided setting a condition twice is setting it once.\<close>

theorem status_settles:
  assumes "\<forall>cs c. SetStatusCondition r (SetStatusCondition r cs c) c = SetStatusCondition r cs c"
    and "kube_get_strategy (SRClient r) name s = (Inr (describe_strategy r st recs), s1)"
    and "kube_list (SRClient r) (SRNamespace r) [(LabelStrategy, strat_name st)] s1 = (Inr recs, s2)"
  shows "ReconcileStrategy r name s = (None, s2)"
  using assms(2,3) describe_idempotent [OF assms(1), of st recs] by (simp add: ReconcileStrategy_def Let_def)

definition ex_strategy0 :: strategy where
  "ex_strategy0 = \<lparr>StrategyMeta = \<lparr>Name = ''restart'', GenerateName = '''', Namespace = '''', Labels = [], Annotations = [],
       CreationTimestamp = 1, Generation = 2\<rparr>,
     StrategySpec = \<lparr>Enabled = None, Trigger = \<lparr>Match = []\<rparr>, Execution = \<lparr>ExecMode = ExecutionModeAuto, ApprovalTimeout = None\<rparr>,
       Guards = \<lparr>GCooldown = None, GMaxPerHour = 0, GBlastRadius = None, GGiveUpAfter = None\<rparr>,
       StrategySteps = [], OnFailure = \<lparr>OFRetries = 0, OFSteps = [], OFMode = EscalationModeAll\<rparr>\<rparr>,
     StrategyStatus = \<lparr>Conditions = [], LastExecutionTime = None, ExecutionCount = 0, ObservedGeneration = 0\<rparr>\<rparr>"

definition ex_base_reconciler :: "unit strategy_reconciler" where
  "ex_base_reconciler = \<lparr>SRClient = ex_sweep_kube, SRRegistry = [], SRNamespace = ''remedik'', SetStatusCondition = (\<lambda>_ c. [c])\<rparr>"

definition ex_described :: strategy where
  "ex_described = describe_strategy ex_base_reconciler ex_strategy0 []"

definition ex_strategy_reconciler :: "unit strategy_reconciler" where
  "ex_strategy_reconciler = ex_base_reconciler\<lparr>SRClient := ex_sweep_kube\<lparr>KubeGetStrategy := (\<lambda>_ w. (Inr ex_described, w))\<rparr>\<rparr>"

theorem status_settles_witness: "ReconcileStrategy ex_strategy_reconciler ''restart'' ex_unit_state = (None, ex_unit_state)"
proof -
  have "describe_strategy (r\<lparr>SRClient := k\<rparr>) st recs = describe_strategy r st recs" for r :: "unit strategy_reconciler" and k st recs
    by (simp add: describe_strategy_def readiness_def Let_def split: option.splits)
  then have d: "describe_strategy ex_strategy_reconciler ex_strategy0 [] = ex_described"
    by (simp add: ex_described_def ex_strategy_reconciler_def)
  have idem: "\<forall>cs c. SetStatusCondition ex_strategy_reconciler (SetStatusCondition ex_strategy_reconciler cs c) c
      = SetStatusCondition ex_strategy_reconciler cs c"
    by (simp add: ex_strategy_reconciler_def ex_base_reconciler_def)
  have get: "kube_get_strategy (SRClient ex_strategy_reconciler) ''restart'' ex_unit_state
      = (Inr (describe_strategy ex_strategy_reconciler ex_strategy0 []), ex_unit_state)"
    unfolding d by (simp add: kube_get_strategy_def ex_strategy_reconciler_def ex_unit_state_def)
  have ls: "kube_list (SRClient ex_strategy_reconciler) (SRNamespace ex_strategy_reconciler) [(LabelStrategy, strat_name ex_strategy0)] ex_unit_state
      = (Inr [], ex_unit_state)"
    by (simp add: kube_list_def ex_strategy_reconciler_def ex_base_reconciler_def ex_sweep_kube_def ex_unit_state_def)
  show ?thesis by (rule status_settles [OF idem get ls])
qed

section \<open>The gateway\<close>

text \<open>The gateway checks in order and touches nothing it rejects: 404 for another path, then 405
  for another method, then 401 for a wrong token, then 503 for a replica that does not hold the
  lease, then 413 or 400 for a payload that is too large or not understood; for each of them the
  state behind the sink is unchanged. Everything else is 200, and then the sink consumed exactly
  the alerts parsed from the body.\<close>

theorem gateway_checks_in_order:
  "StatusCode (fst (ServeHTTP decode h r s)) =
    (if UrlPath r \<noteq> HPath h then 404 else if HttpMethod r \<noteq> ''POST'' then 405
     else if \<not> authorized h r then 401
     else if (case HAccepting h of None \<Rightarrow> False | Some accepting \<Rightarrow> \<not> accepting s) then 503
     else case ParseWebhook (decode (HMaxBodyBytes h) (HttpBody r)) of
       Inl e \<Rightarrow> (if errors_is e ErrMaxBytes then 413 else 400) | Inr p \<Rightarrow> 200)
   \<and> snd (snd (ServeHTTP decode h r s)) =
     (if StatusCode (fst (ServeHTTP decode h r s)) = 200
      then (case ParseWebhook (decode (HMaxBodyBytes h) (HttpBody r)) of Inl e \<Rightarrow> s | Inr p \<Rightarrow> HSink h (Alerts p) s)
      else s)"
  unfolding ServeHTTP_status by (simp add: ServeHTTP_def Let_def split: sum.splits)

end
