(* ===== verification/GoText.thy ===== *)
theory GoText
  imports GoLib
begin

text \<open>
  More of Go's standard library, as the actions use it: \<open>strconv.ParseInt\<close> and \<open>Atoi\<close> in base ten,
  \<open>strings.ToUpper\<close> and \<open>Trim\<close>, the RFC 3339 form of a time in UTC, and \<open>encoding/json\<close> for
  strings, objects and arrays of strings.
\<close>

section \<open>Reading integers\<close>

text \<open>\<open>strconv.ParseInt(s, 10, bits)\<close>; \<open>None\<close> is any of its errors.\<close>

definition parse_int :: "nat \<Rightarrow> string \<Rightarrow> int option" where
  "parse_int bits s =
     (let (neg, ds) = (case s of [] \<Rightarrow> (False, [])
            | c # cs \<Rightarrow> if c = CHR ''-'' then (True, cs) else if c = CHR ''+'' then (False, cs) else (False, s))
      in if ds = [] \<or> \<not> list_all is_digit ds then None
         else let v = (if neg then - int (str_nat ds) else int (str_nat ds))
              in if - (2 ^ (bits - 1)) \<le> v \<and> v < 2 ^ (bits - 1) then Some v else None)"

definition atoi :: "string \<Rightarrow> int option" where
  "atoi s = parse_int 64 s"

lemma nat_str_head: "nat_str n = c # cs \<Longrightarrow> c \<noteq> CHR ''-'' \<and> c \<noteq> CHR ''+''"
  using nat_str_digits [of c n] by (auto simp: is_digit_def)

lemma parse_int_itoa:
  assumes "- (2 ^ (bits - 1)) \<le> v" and "v < 2 ^ (bits - 1)"
  shows "parse_int bits (itoa v) = Some v"
proof (cases "v < 0")
  case True
  moreover have "list_all is_digit (nat_str (nat (- v)))" using nat_str_digits by (auto simp: list_all_iff)
  ultimately show ?thesis using assms by (simp add: parse_int_def itoa_def)
next
  case False
  obtain c cs where n: "nat_str (nat v) = c # cs" by (cases "nat_str (nat v)") auto
  have "list_all is_digit (c # cs)" using nat_str_digits n by (metis list_all_iff)
  moreover have "str_nat (c # cs) = nat v" using str_nat_nat_str [of "nat v"] n by simp
  ultimately show ?thesis using False nat_str_head [OF n] n assms by (simp add: parse_int_def itoa_def)
qed

lemma parse_int_range: "parse_int bits s = Some v \<Longrightarrow> - (2 ^ (bits - 1)) \<le> v \<and> v < 2 ^ (bits - 1)"
  by (auto simp: parse_int_def Let_def split: prod.splits if_splits)

section \<open>More on strings\<close>

definition upper_char :: "char \<Rightarrow> char" where
  "upper_char c = (let n = (of_char c :: nat) in if 97 \<le> n \<and> n \<le> 122 then char_of (n - 32) else c)"

definition to_upper :: "string \<Rightarrow> string" where
  "to_upper s = map upper_char s"

text \<open>\<open>strings.Trim(s, cutset)\<close> for a cutset of one byte.\<close>

definition trim_char :: "char \<Rightarrow> string \<Rightarrow> string" where
  "trim_char x s = rev (dropWhile (\<lambda>c. c = x) (rev (dropWhile (\<lambda>c. c = x) s)))"

lemma set_trim_char: "c \<in> set (trim_char x s) \<Longrightarrow> c \<in> set s"
  unfolding trim_char_def by (metis set_dropWhileD set_rev)

lemma length_dropWhile_le: "length (dropWhile P s) \<le> length s"
  by (induction s) auto

lemma length_trim_char: "length (trim_char x s) \<le> length s"
  unfolding trim_char_def by (metis length_dropWhile_le length_rev order_trans)

section \<open>Times\<close>

text \<open>
  \<open>t.UTC().Format(time.RFC3339)\<close>. The day number counts from 1 March of the year 0 of the proleptic
  Gregorian calendar, 306 days before the first day a time counts from; years have four digits.
\<close>

definition civil_of_days :: "int \<Rightarrow> int \<times> int \<times> int" where
  "civil_of_days d =
     (let z = d + 306; era = z div 146097; doe = z mod 146097;
          yoe = (doe - doe div 1460 + doe div 36524 - doe div 146096) div 365;
          doy = doe - (365 * yoe + yoe div 4 - yoe div 100);
          mp = (5 * doy + 2) div 153;
          m = (if mp < 10 then mp + 3 else mp - 9)
      in (yoe + era * 400 + (if m \<le> 2 then 1 else 0), m, doy - (153 * mp + 2) div 5 + 1))"

definition pad2 :: "int \<Rightarrow> string" where "pad2 n = pad_digits 2 (nat n)"

definition rfc3339 :: "time \<Rightarrow> string" where
  "rfc3339 t =
     (let secs = t div second; (y, m, d) = civil_of_days (secs div 86400); s = secs mod 86400
      in pad_digits 4 (nat y) @ ''-'' @ pad2 m @ ''-'' @ pad2 d @ ''T'' @ pad2 (s div 3600) @ '':''
         @ pad2 (s div 60 mod 60) @ '':'' @ pad2 (s mod 60) @ ''Z'')"

section \<open>JSON\<close>

text \<open>
  How \<open>json.Marshal\<close> writes a string: quotes, backslashes and control characters are escaped, and
  so are the three characters it keeps out of HTML. Bytes above the ASCII range are kept.
\<close>

definition json_char :: "char \<Rightarrow> string" where
  "json_char c =
     (let n = (of_char c :: nat); bs = char_of (92::nat) in
      if n = 34 \<or> n = 92 then [bs, c]
      else if n = 8 then [bs, CHR ''b'']
      else if n = 12 then [bs, CHR ''f'']
      else if n = 10 then [bs, CHR ''n'']
      else if n = 13 then [bs, CHR ''r'']
      else if n = 9 then [bs, CHR ''t'']
      else if n < 32 \<or> n = 38 \<or> n = 60 \<or> n = 62
      then [bs, CHR ''u'', CHR ''0'', CHR ''0'', hex_char (n div 16), hex_char (n mod 16)]
      else [c])"

definition json_string :: "string \<Rightarrow> string" where
  "json_string s = char_of (34::nat) # concat (map json_char s) @ [char_of (34::nat)]"

definition json_member :: "string \<times> string \<Rightarrow> string" where
  "json_member m = json_string (fst m) @ '':'' @ snd m"

definition json_object :: "(string \<times> string) list \<Rightarrow> string" where
  "json_object ms = ''{'' @ join '','' (map json_member ms) @ ''}''"

definition json_array :: "string list \<Rightarrow> string" where
  "json_array xs = ''['' @ join '','' xs @ '']''"

text \<open>A \<open>map[string]string\<close> is written with its keys sorted, a nil one as \<open>null\<close>; a label map that
  an action sees is never nil.\<close>

definition json_smap :: "smap \<Rightarrow> string" where
  "json_smap m = json_object (map (\<lambda>k. (k, json_string (map_get m k))) (sort (map fst m)))"

definition json_bool :: "bool \<Rightarrow> string" where
  "json_bool b = (if b then ''true'' else ''false'')"

lemma json_smap_permutation: "mset m = mset m' \<Longrightarrow> map_wf m \<Longrightarrow> json_smap m = json_smap m'"
proof -
  assume *: "mset m = mset m'" "map_wf m"
  then have "sort (map fst m) = sort (map fst m')" by (metis mset_map properties_for_sort mset_sort sorted_sort)
  then show ?thesis using map_get_permutation [OF *] by (simp add: json_smap_def)
qed

end
