(* ===== verification/Verbs.thy ===== *)
theory Verbs
  imports Action GoText
begin

text \<open>
  What the built-in actions share. An action runs over a world \<open>'w\<close> - the cluster, the clock and the
  network, all behind clients that are records of functions - together with the list of the
  requests it sent that ask for a change. Reading is a request too, but is not listed: the list is
  what an action did to the cluster. The \<open>planned_action\<close> locales state the contract between an action and the
  engine: planning changes nothing and refuses what executing would refuse. \<open>poll_until\<close> is the loop
  of every \<open>Verify\<close>.
\<close>

section \<open>Requests that change something\<close>

text \<open>A Job as \<open>external/job.go\<close> builds it: what varies between two Jobs.\<close>

record job_object =
  JobGenerateName :: string
  JobNamespace :: string
  JobLabels :: smap
  JobAnnotations :: smap
  JobBackoffLimit :: int
  JobTTL :: int
  JobServiceAccount :: string
  JobImage :: string
  JobCommand :: "string list"
  JobEnv :: "(string \<times> string) list"
  JobConfigMap :: "string option"

text \<open>
  \<open>Patch kind namespace name subresource type body\<close>, \<open>CreateEviction namespace name grace\<close>,
  \<open>DeleteObject kind namespace name propagation\<close>, \<open>SendHTTP method url headers body\<close>.
\<close>

datatype change =
    Patch string string string string string string
  | CreateEviction string string "int option"
  | DeleteObject string string string string
  | CreateJob job_object
  | SendHTTP string string smap string

record 'w astate =
  AWorld :: 'w
  Changes :: "change list"

definition reading :: "('w \<Rightarrow> 'a \<times> 'w) \<Rightarrow> 'w astate \<Rightarrow> 'a \<times> 'w astate" where
  "reading f s = (let (x, w) = f (AWorld s) in (x, s\<lparr>AWorld := w\<rparr>))"

definition changing :: "change \<Rightarrow> ('w \<Rightarrow> 'a \<times> 'w) \<Rightarrow> 'w astate \<Rightarrow> 'a \<times> 'w astate" where
  "changing ch f s = (let (x, w) = f (AWorld s) in (x, s\<lparr>AWorld := w, Changes := Changes s @ [ch]\<rparr>))"

lemma readingD: "reading f s = (x, s') \<Longrightarrow> Changes s' = Changes s"
  by (auto simp: reading_def split: prod.splits)

lemma changingD: "changing ch f s = (x, s') \<Longrightarrow> Changes s' = Changes s @ [ch]"
  by (auto simp: changing_def split: prod.splits)

lemma Changes_reading [simp]: "Changes (snd (reading f s)) = Changes s"
  by (simp add: reading_def split: prod.splits)

lemma Changes_changing [simp]: "Changes (snd (changing ch f s)) = Changes s @ [ch]"
  by (simp add: changing_def split: prod.splits)

section \<open>Parameters and labels\<close>

text \<open>\<open>params.Get(key, labels[key])\<close>, and the namespace every namespaced action asks for first.\<close>

definition LabelNamespace :: string where "LabelNamespace = ''namespace''"
definition NameParam :: string where "NameParam = ''name''"

definition param_or_label :: "params \<Rightarrow> smap \<Rightarrow> string \<Rightarrow> string" where
  "param_or_label p labels k = params_Get p k (map_get labels k)"

definition no_namespace :: go_error where
  "no_namespace = Err (''no namespace: the alert has no '' @ quote LabelNamespace @ '' label and the step sets no ''
     @ quote LabelNamespace @ '' parameter'')"

text \<open>The answers of a read, by the predicates of \<open>apierrors\<close>.\<close>

definition fetch_error :: "target \<Rightarrow> go_error \<Rightarrow> go_error" where
  "fetch_error t e =
     (if is_not_found e then Wrap (target_string t @ '' does not exist: '') e ''''
      else if is_forbidden e then Wrap (''not permitted to read '' @ target_string t @ '': '') e ''''
      else Wrap (''read '' @ target_string t @ '': '') e '''')"

lemma is_not_found_fetch_error [simp]: "is_not_found (fetch_error t e) = is_not_found e"
  by (simp add: fetch_error_def)

type_synonym 'a outcome = "result \<times> go_error option \<times> 'a"

section \<open>Waiting for a condition\<close>

text \<open>
  \<open>for { look; select { case <-ctx.Done(): give up; case <-time.After(poll): } }\<close>. Time passes in the
  waits: \<open>wait d\<close> is what the world does meanwhile, \<open>elapsed\<close> the time waited so far and \<open>timeout\<close>
  the context's; a timer that fires at the deadline loses against it. The time the reads take is
  not counted, so the loop here looks at least as often as the one in the code.
\<close>

datatype 'b look = Answer result "go_error option" | Again 'b

function poll_until ::
  "('b \<Rightarrow> 'w astate \<Rightarrow> 'b look \<times> 'w astate) \<Rightarrow> ('b \<Rightarrow> 'w astate \<Rightarrow> 'w astate outcome) \<Rightarrow> (duration \<Rightarrow> 'w \<Rightarrow> 'w)
     \<Rightarrow> duration \<Rightarrow> duration \<Rightarrow> duration \<Rightarrow> 'b \<Rightarrow> 'w astate \<Rightarrow> 'w astate outcome" where
  "poll_until look expire wait timeout poll elapsed b s =
     (case look b s of
        (Answer r e, s) \<Rightarrow> (r, e, s)
      | (Again b, s) \<Rightarrow>
          if timeout \<le> elapsed + max 1 poll
          then expire b (s\<lparr>AWorld := wait (timeout - elapsed) (AWorld s)\<rparr>)
          else poll_until look expire wait timeout poll (elapsed + max 1 poll) b
                 (s\<lparr>AWorld := wait (max 1 poll) (AWorld s)\<rparr>))"
  by pat_completeness auto
termination
  by (relation "measure (\<lambda>(_, _, _, timeout, _, elapsed, _). nat (timeout - elapsed))") auto

declare poll_until.simps [simp del]

text \<open>The deadline of a verification: the shortest of the timeouts set on its context.\<close>

definition deadline_of :: "ctx \<Rightarrow> duration" where
  "deadline_of c = (case c of [] \<Rightarrow> 0 | d # ds \<Rightarrow> fold min ds d)"

lemma fold_min_le: "fold min ds d \<le> (d :: int)"
  proof (induction ds arbitrary: d)
  case (Cons a ds)
  from Cons.IH [of "min a d"] show ?case by (simp add: min_le_iff_disj)
qed simp

definition verify_poll ::
  "ctx \<Rightarrow> duration \<Rightarrow> (duration \<Rightarrow> 'w \<Rightarrow> 'w) \<Rightarrow> ('b \<Rightarrow> 'w astate \<Rightarrow> 'b look \<times> 'w astate)
     \<Rightarrow> ('b \<Rightarrow> 'w astate \<Rightarrow> 'w astate outcome) \<Rightarrow> 'b \<Rightarrow> 'w astate \<Rightarrow> 'w astate outcome" where
  "verify_poll c poll wait look expire b s =
     poll_until look expire wait (deadline_of (WithVerifyDeadline c)) poll 0 b s"

text \<open>What holds of every look and every wait holds of the loop.\<close>

lemma poll_until_rule:
  assumes "I b s"
    and answer: "\<And>b s r e s'. I b s \<Longrightarrow> look b s = (Answer r e, s') \<Longrightarrow> Q (r, e, s')"
    and again: "\<And>b s b' s' d. I b s \<Longrightarrow> look b s = (Again b', s') \<Longrightarrow>
      I b' (s'\<lparr>AWorld := wait d (AWorld s')\<rparr>) \<and> Q (expire b' (s'\<lparr>AWorld := wait d (AWorld s')\<rparr>))"
  shows "Q (poll_until look expire wait timeout poll elapsed b s)"
  using assms
proof (induction look expire wait timeout poll elapsed b s rule: poll_until.induct)
  case (1 look expire wait timeout poll elapsed b s)
  obtain x s1 where l: "look b s = (x, s1)" by fastforce
  show ?case
  proof (cases x)
    case (Answer r e)
    with l "1.prems"(1,2) show ?thesis by (simp add: poll_until.simps [of look])
  next
    case (Again b1)
    note next_ok = "1.prems"(3) [OF "1.prems"(1), of b1 s1]
    show ?thesis
    proof (cases "timeout \<le> elapsed + max 1 poll")
      case True
      with l Again next_ok show ?thesis by (simp add: poll_until.simps [of look])
    next
      case False
      have "Q (poll_until look expire wait timeout poll (elapsed + max 1 poll) b1 (s1\<lparr>AWorld := wait (max 1 poll) (AWorld s1)\<rparr>))"
        by (rule "1.IH" [OF l [symmetric] Again False]) (use next_ok l Again "1.prems" in blast)+
      with l Again False show ?thesis by (simp add: poll_until.simps [of look])
    qed
  qed
qed

lemma Changes_AWorld_update [simp]: "Changes (s\<lparr>AWorld := w\<rparr>) = Changes s"
  by simp

lemma poll_until_reads:
  assumes "\<And>b s. Changes (snd (look b s)) = Changes s"
    and "\<And>b s. Changes (snd (snd (expire b s))) = Changes s"
  shows "Changes (snd (snd (verify_poll c poll wait look expire b s))) = Changes s"
  unfolding verify_poll_def
proof (rule poll_until_rule [where I = "\<lambda>_ s'. Changes s' = Changes s"])
  fix b s1 r e s2
  assume "Changes s1 = Changes s" "look b s1 = (Answer r e, s2)"
  then show "Changes (snd (snd (r, e, s2))) = Changes s" using assms(1) [of b s1] by simp
next
  fix b s1 b' s2 d
  assume "Changes s1 = Changes s" "look b s1 = (Again b', s2)"
  then show "Changes (s2\<lparr>AWorld := wait d (AWorld s2)\<rparr>) = Changes s
      \<and> Changes (snd (snd (expire b' (s2\<lparr>AWorld := wait d (AWorld s2)\<rparr>)))) = Changes s"
    using assms [of b s1] assms(2) by simp
qed simp

text \<open>Where a verification that reports success got it from: a look that answered so.\<close>

lemma poll_until_success:
  assumes "poll_until look expire wait timeout poll elapsed b s = (r, None, s')"
    and "\<And>b s. fst (snd (expire b s)) \<noteq> None"
  shows "\<exists>b1 s1. look b1 s1 = (Answer r None, s')"
proof -
  have never: "expire b s \<noteq> (x, None, y)" for b s x y using assms(2) [of b s] by (metis fst_conv snd_conv)
  have "case poll_until look expire wait timeout poll elapsed b s of (r, e, s') \<Rightarrow> e = None \<longrightarrow> (\<exists>b1 s1. look b1 s1 = (Answer r None, s'))"
    by (rule poll_until_rule [where I = "\<lambda>_ _. True"]) (use never in \<open>auto split: prod.splits\<close>)
  then show ?thesis using assms(1) by simp
qed

text \<open>The loop in steps: \<open>rounds n\<close> is the state before look number \<open>n + 1\<close>, if none before answered.\<close>

primrec rounds :: "('b \<Rightarrow> 'w astate \<Rightarrow> 'b look \<times> 'w astate) \<Rightarrow> (duration \<Rightarrow> 'w \<Rightarrow> 'w) \<Rightarrow> duration \<Rightarrow> nat
    \<Rightarrow> 'b \<Rightarrow> 'w astate \<Rightarrow> ('b \<times> 'w astate) option" where
  "rounds look wait poll 0 b s = Some (b, s)"
| "rounds look wait poll (Suc n) b s =
     (case look b s of (Answer _ _, _) \<Rightarrow> None
      | (Again b, s) \<Rightarrow> rounds look wait poll n b (s\<lparr>AWorld := wait (max 1 poll) (AWorld s)\<rparr>))"

lemma poll_until_rounds:
  "\<exists>n b1 s1. rounds look wait poll n b s = Some (b1, s1) \<and> (n = 0 \<or> elapsed + int n * max 1 poll < timeout)
    \<and> ((\<exists>r e s2. look b1 s1 = (Answer r e, s2) \<and> poll_until look expire wait timeout poll elapsed b s = (r, e, s2))
      \<or> (\<exists>b2 s2. look b1 s1 = (Again b2, s2) \<and> timeout \<le> elapsed + int (Suc n) * max 1 poll
          \<and> poll_until look expire wait timeout poll elapsed b s
              = expire b2 (s2\<lparr>AWorld := wait (timeout - (elapsed + int n * max 1 poll)) (AWorld s2)\<rparr>)))"
proof (induction look expire wait timeout poll elapsed b s rule: poll_until.induct)
  case (1 look expire wait timeout poll elapsed b s)
  obtain x s1 where l: "look b s = (x, s1)" by fastforce
  show ?case
  proof (cases x)
    case (Answer r e)
    with l show ?thesis by (intro exI [of _ 0] exI [of _ b] exI [of _ s]) (simp add: poll_until.simps [of look])
  next
    case (Again b1)
    show ?thesis
    proof (cases "timeout \<le> elapsed + max 1 poll")
      case True
      with l Again show ?thesis
        by (intro exI [of _ 0] exI [of _ b] exI [of _ s]) (simp add: poll_until.simps [of look])
    next
      case False
      let ?s = "s1\<lparr>AWorld := wait (max 1 poll) (AWorld s1)\<rparr>" and ?e = "elapsed + max 1 poll"
      have step: "poll_until look expire wait timeout poll elapsed b s = poll_until look expire wait timeout poll ?e b1 ?s"
        using l Again False by (simp add: poll_until.simps [of look])
      from "1.IH" [OF l [symmetric] Again False] obtain n b2 s2 where n: "rounds look wait poll n b1 ?s = Some (b2, s2)"
        "n = 0 \<or> ?e + int n * max 1 poll < timeout"
        and out: "(\<exists>r e s3. look b2 s2 = (Answer r e, s3) \<and> poll_until look expire wait timeout poll ?e b1 ?s = (r, e, s3))
          \<or> (\<exists>b3 s3. look b2 s2 = (Again b3, s3) \<and> timeout \<le> ?e + int (Suc n) * max 1 poll
              \<and> poll_until look expire wait timeout poll ?e b1 ?s
                = expire b3 (s3\<lparr>AWorld := wait (timeout - (?e + int n * max 1 poll)) (AWorld s3)\<rparr>))" by blast
      have shift: "?e + int k * max 1 poll = elapsed + int (Suc k) * max 1 poll" for k
        by (simp add: algebra_simps)
      have "rounds look wait poll (Suc n) b s = Some (b2, s2)" using l Again n(1) by simp
      moreover have "elapsed + int (Suc n) * max 1 poll < timeout" using n(2) False shift [of n] by auto
      ultimately show ?thesis using out unfolding step shift by blast
    qed
  qed
qed

section \<open>The contract\<close>

text \<open>
  \<open>plan\<close> and \<open>execute\<close> of an action. Planning changes nothing; executing sends at most one change, of
  the kind the request asks for; and what planning refuses, executing refuses with the same error
  before it changes anything.
\<close>

locale planned_action =
  fixes plan :: "ctx \<Rightarrow> request \<Rightarrow> 'w astate \<Rightarrow> 'w astate outcome"
    and execute :: "ctx \<Rightarrow> request \<Rightarrow> 'w astate \<Rightarrow> 'w astate outcome"
    and intended :: "request \<Rightarrow> change \<Rightarrow> bool"
  assumes plan_changes: "Changes (snd (snd (plan c r s))) = Changes s"
    and execute_changes: "\<exists>cs. Changes (snd (snd (execute c r s))) = Changes s @ cs \<and> length cs \<le> 1 \<and> list_all (intended r) cs"
    and plan_refusal: "fst (snd (plan c r s)) = Some e \<Longrightarrow>
      fst (snd (execute c r s)) = Some e \<and> Changes (snd (snd (execute c r s))) = Changes s"
begin

lemma change_was_planned:
  "Changes (snd (snd (execute c r s))) \<noteq> Changes s \<Longrightarrow> fst (snd (plan c r s)) = None"
  using plan_refusal [of c r s] by (cases "fst (snd (plan c r s))") auto

lemma success_was_planned: "fst (snd (execute c r s)) = None \<Longrightarrow> fst (snd (plan c r s)) = None"
  using plan_refusal [of c r s] by (cases "fst (snd (plan c r s))") auto

end

text \<open>
  What the comments of the actions promise beyond it: a plan that is accepted is one that executing
  gets to send, or finds already done.
\<close>

locale predictable_action = planned_action +
  assumes plan_promise: "fst (snd (plan c r s)) = None \<Longrightarrow>
      (\<exists>ch. Changes (snd (snd (execute c r s))) = Changes s @ [ch]) \<or> fst (snd (execute c r s)) = None"
begin

lemma refused_without_a_change:
  assumes "fst (snd (execute c r s)) = Some e" and "Changes (snd (snd (execute c r s))) = Changes s"
  shows "fst (snd (plan c r s)) \<noteq> None"
  using plan_promise [of c r s] assms by auto

end

end
