(* ===== verification/Restart.thy ===== *)
theory Restart
  imports Verbs
begin

text \<open>
  \<open>internal/action/workload/restart.go\<close>: which workload an alert or a step means, how far its rollout
  has got, and the rolling restart. The objects are what the code reads of the API's Deployments,
  StatefulSets and DaemonSets; the client is a record of functions over the world.
\<close>

definition RestartAnnotation :: string where "RestartAnnotation = ''kubectl.kubernetes.io/restartedAt''"
definition LabelDeployment :: string where "LabelDeployment = ''deployment''"
definition LabelStatefulSet :: string where "LabelStatefulSet = ''statefulset''"
definition LabelDaemonSet :: string where "LabelDaemonSet = ''daemonset''"
definition KindParam :: string where "KindParam = ''kind''"
definition DefaultVerifyPoll :: duration where "DefaultVerifyPoll = 2 * second"

section \<open>The objects and the client\<close>

record replicated_object =
  RoName :: string
  RoUID :: string
  RoLabels :: smap
  RoAnnotations :: smap
  RoResourceVersion :: string
  RoGeneration :: int
  RoSpecReplicas :: "int option"
  RoObserved :: int
  RoUpdated :: int
  RoCurrent :: int
  RoAvailable :: int
  RoReady :: int

record daemon_object =
  DoResourceVersion :: string
  DoGeneration :: int
  DoObserved :: int
  DoDesired :: int
  DoUpdated :: int
  DoCurrent :: int
  DoAvailable :: int
  DoReady :: int

datatype workload_object = Deployment replicated_object | StatefulSet replicated_object | DaemonSet daemon_object

fun resource_version :: "workload_object \<Rightarrow> string" where
  "resource_version (Deployment o') = RoResourceVersion o'"
| "resource_version (StatefulSet o') = RoResourceVersion o'"
| "resource_version (DaemonSet o') = DoResourceVersion o'"

text \<open>Reads are by namespace and name; a patch answers with the object as it is afterwards.\<close>

record 'w workload_client =
  ReadDeployment :: "string \<Rightarrow> string \<Rightarrow> 'w \<Rightarrow> (go_error + replicated_object) \<times> 'w"
  ReadStatefulSet :: "string \<Rightarrow> string \<Rightarrow> 'w \<Rightarrow> (go_error + replicated_object) \<times> 'w"
  ReadDaemonSet :: "string \<Rightarrow> string \<Rightarrow> 'w \<Rightarrow> (go_error + daemon_object) \<times> 'w"
  PatchWorkload :: "change \<Rightarrow> 'w \<Rightarrow> (go_error + workload_object) \<times> 'w"
  Wait :: "duration \<Rightarrow> 'w \<Rightarrow> 'w"

record 'w restart =
  RestartClient :: "'w workload_client"
  RestartNow :: "'w \<Rightarrow> time \<times> 'w"
  RestartPoll :: duration
  RestartName :: string
  PinnedKind :: string

definition NewDeploymentRestart :: "'w workload_client \<Rightarrow> ('w \<Rightarrow> time \<times> 'w) \<Rightarrow> 'w restart" where
  "NewDeploymentRestart c now = \<lparr>RestartClient = c, RestartNow = now, RestartPoll = DefaultVerifyPoll,
     RestartName = ''deployment.restart'', PinnedKind = ''Deployment''\<rparr>"

definition NewWorkloadRestart :: "'w workload_client \<Rightarrow> ('w \<Rightarrow> time \<times> 'w) \<Rightarrow> 'w restart" where
  "NewWorkloadRestart c now = \<lparr>RestartClient = c, RestartNow = now, RestartPoll = DefaultVerifyPoll,
     RestartName = ''workload.restart'', PinnedKind = ''''\<rparr>"

section \<open>Which workload\<close>

definition canonicalKind :: "string \<Rightarrow> string option" where
  "canonicalKind kind =
     (let k = to_lower kind in
      if k \<in> {''deployment'', ''deploy'', ''deployments''} then Some ''Deployment''
      else if k \<in> {''statefulset'', ''sts'', ''statefulsets''} then Some ''StatefulSet''
      else if k \<in> {''daemonset'', ''ds'', ''daemonsets''} then Some ''DaemonSet''
      else None)"

definition labelFor :: "string \<Rightarrow> string" where
  "labelFor kind = (if kind = ''StatefulSet'' then LabelStatefulSet
     else if kind = ''DaemonSet'' then LabelDaemonSet else LabelDeployment)"

definition workloadKinds :: "(string \<times> string) list" where
  "workloadKinds = [(''Deployment'', LabelDeployment), (''StatefulSet'', LabelStatefulSet), (''DaemonSet'', LabelDaemonSet)]"

fun first_label :: "(string \<times> string) list \<Rightarrow> smap \<Rightarrow> params \<Rightarrow> (string \<times> string) option" where
  "first_label [] labels p = None"
| "first_label ((kind, label) # rest) labels p =
     (if param_or_label p labels label \<noteq> '''' then Some (kind, param_or_label p labels label)
      else first_label rest labels p)"

definition restart_workload :: "string \<Rightarrow> smap \<Rightarrow> params \<Rightarrow> go_error + (string \<times> string)" where
  "restart_workload pinned labels p =
     (if pinned \<noteq> '''' then
        (let label = labelFor pinned;
             name = params_Get p NameParam (param_or_label p labels label)
         in if name = ''''
            then Inl (Err (''no '' @ to_lower pinned @ '': the alert has no '' @ quote label
                   @ '' label and the step sets no '' @ quote NameParam @ '' or '' @ quote label @ '' parameter''))
            else Inr (pinned, name))
      else if params_Get p KindParam '''' \<noteq> '''' then
        (let named = params_Get p KindParam '''' in
         case canonicalKind named of
           None \<Rightarrow> Inl (Err (''unsupported '' @ KindParam @ '' '' @ quote named
                     @ '': want one of Deployment, StatefulSet or DaemonSet''))
         | Some kind \<Rightarrow>
             (let name = params_Get p NameParam (param_or_label p labels (labelFor kind)) in
              if name = ''''
              then Inl (Err (''no name: the step sets '' @ KindParam @ ''='' @ named @ '' but neither ''
                     @ quote NameParam @ '' nor the '' @ quote (labelFor kind) @ '' label''))
              else Inr (kind, name)))
      else
        (case first_label workloadKinds labels p of
           Some x \<Rightarrow> Inr x
         | None \<Rightarrow> Inl (Err (''no workload: the alert carries none of the '' @ quote LabelDeployment @ '', ''
             @ quote LabelStatefulSet @ '' or '' @ quote LabelDaemonSet @ '' labels, and the step sets no ''
             @ quote KindParam @ '' and '' @ quote NameParam
             @ ''. An alert naming only a pod is not enough: guessing an owner from a pod name is how the wrong workload gets restarted''))))"

definition restart_Resolve :: "string \<Rightarrow> smap \<Rightarrow> params \<Rightarrow> go_error + target" where
  "restart_Resolve pinned labels p =
     (let namespace = param_or_label p labels LabelNamespace in
      if namespace = '''' then Inl no_namespace
      else case restart_workload pinned labels p of
        Inl e \<Rightarrow> Inl e
      | Inr (kind, name) \<Rightarrow> Inr \<lparr>TKind = kind, TNamespace = namespace, TName = name\<rparr>)"

section \<open>How far a rollout has got\<close>

record rollout =
  Generation' :: int
  Observed :: int
  RolloutDesired :: int
  Updated :: int
  Current :: int
  RolloutAvailable :: int
  Ready :: int
  Unit :: string

definition replicated_rollout :: "replicated_object \<Rightarrow> rollout" where
  "replicated_rollout ob =
     \<lparr>Generation' = RoGeneration ob, Observed = RoObserved ob,
      RolloutDesired = (case RoSpecReplicas ob of None \<Rightarrow> 1 | Some n \<Rightarrow> n), Updated = RoUpdated ob,
      Current = RoCurrent ob, RolloutAvailable = RoAvailable ob, Ready = RoReady ob, Unit = ''replicas''\<rparr>"

fun readRollout :: "workload_object \<Rightarrow> rollout" where
  "readRollout (Deployment ob) = replicated_rollout ob"
| "readRollout (StatefulSet ob) = replicated_rollout ob"
| "readRollout (DaemonSet ob) =
     \<lparr>Generation' = DoGeneration ob, Observed = DoObserved ob, RolloutDesired = DoDesired ob, Updated = DoUpdated ob,
      Current = DoCurrent ob, RolloutAvailable = DoAvailable ob, Ready = DoReady ob, Unit = ''nodes''\<rparr>"

definition ratio :: "int \<Rightarrow> int \<Rightarrow> string" where
  "ratio a b = itoa a @ ''/'' @ itoa b"

definition rollout_describe :: "rollout \<Rightarrow> string \<times> bool" where
  "rollout_describe r =
     (if Observed r < Generation' r
      then (''waiting for the controller to observe generation '' @ itoa (Generation' r) @ '' (at '' @ itoa (Observed r) @ '')'', False)
      else let unit = (if Unit r = '''' then ''replicas'' else Unit r) in
        if Updated r < RolloutDesired r then (ratio (Updated r) (RolloutDesired r) @ '' '' @ unit @ '' updated'', False)
        else if Current r > Updated r
        then (itoa (wrap32 (Current r - Updated r)) @ '' old '' @ unit @ '' still terminating'', False)
        else if RolloutAvailable r < RolloutDesired r
        then (ratio (RolloutAvailable r) (RolloutDesired r) @ '' '' @ unit @ '' available'', False)
        else (ratio (Ready r) (RolloutDesired r) @ '' '' @ unit @ '' updated, available and ready'', True))"

text \<open>What a finished rollout is: the controller saw the current specification, every replica runs it,
  none of the old ones is left, and all of them are available.\<close>

definition rolled_out :: "rollout \<Rightarrow> bool" where
  "rolled_out r \<longleftrightarrow> Generation' r \<le> Observed r \<and> RolloutDesired r \<le> Updated r \<and> Current r \<le> Updated r
     \<and> RolloutDesired r \<le> RolloutAvailable r"

lemma rollout_describe_done [simp]: "snd (rollout_describe r) \<longleftrightarrow> rolled_out r"
  by (auto simp: rollout_describe_def rolled_out_def Let_def)

section \<open>The action\<close>

definition kubectlRestart :: "target \<Rightarrow> string" where
  "kubectlRestart t = ''kubectl rollout restart '' @ to_lower (TKind t) @ ''/'' @ TName t @ '' -n '' @ TNamespace t"

text \<open>\<open>client.Get\<close> into the empty object of the kind, as \<open>emptyWorkload\<close> chooses it.\<close>

definition as_kind :: "('a \<Rightarrow> workload_object) \<Rightarrow> ('w \<Rightarrow> (go_error + 'a) \<times> 'w) \<Rightarrow> 'w \<Rightarrow> (go_error + workload_object) \<times> 'w" where
  "as_kind k f w = (let (x, w) = f w in (case x of Inl e \<Rightarrow> Inl e | Inr ob \<Rightarrow> Inr (k ob), w))"

definition get_workload :: "'w workload_client \<Rightarrow> string \<Rightarrow> string \<Rightarrow> string \<Rightarrow> 'w \<Rightarrow> (go_error + workload_object) \<times> 'w" where
  "get_workload cl kind namespace name =
     (if kind = ''Deployment'' then as_kind Deployment (ReadDeployment cl namespace name)
      else if kind = ''StatefulSet'' then as_kind StatefulSet (ReadStatefulSet cl namespace name)
      else as_kind DaemonSet (ReadDaemonSet cl namespace name))"

definition restart_fetch :: "'w workload_client \<Rightarrow> target \<Rightarrow> 'w astate \<Rightarrow> (go_error + workload_object) \<times> 'w astate" where
  "restart_fetch cl t s =
     (case canonicalKind (TKind t) of
        None \<Rightarrow> (Inl (Err (''unsupported workload kind '' @ quote (TKind t))), s)
      | Some kind \<Rightarrow>
          (let (ob, s) = reading (get_workload cl kind (TNamespace t) (TName t)) s in
           (case ob of Inl e \<Rightarrow> Inl (fetch_error t e) | Inr ob \<Rightarrow> Inr ob, s)))"

definition restart_Plan :: "'w restart \<Rightarrow> ctx \<Rightarrow> request \<Rightarrow> 'w astate \<Rightarrow> 'w astate outcome" where
  "restart_Plan a c r s =
     (let t = ReqTarget r; (ob, s) = restart_fetch (RestartClient a) t s in
      case ob of Inl e \<Rightarrow> (zero_result, Some e, s)
      | Inr ob \<Rightarrow>
          (let state = readRollout ob;
               result = zero_result\<lparr>Summary := ''restart '' @ target_string t @ '' ('' @ itoa (RolloutDesired state) @ '' ''
                   @ Unit state @ '') by patching '' @ RestartAnnotation @ '' on its pod template'',
                 ResultKubectl := kubectlRestart t\<rparr>
           in (result_Output ''readyReplicas'' (itoa (Ready state))
                (result_Output ''replicas'' (itoa (RolloutDesired state)) result), None, s)))"

definition restart_patch :: "string \<Rightarrow> string" where
  "restart_patch stamp =
     json_object [(''spec'', json_object [(''template'', json_object [(''metadata'',
       json_object [(''annotations'', ''{'' @ quote RestartAnnotation @ '':'' @ quote stamp @ ''}'')])])])]"

definition restart_change :: "target \<Rightarrow> string \<Rightarrow> change" where
  "restart_change t stamp = Patch (the (canonicalKind (TKind t))) (TNamespace t) (TName t) '''' ''strategic-merge'' (restart_patch stamp)"

definition restart_Execute :: "'w restart \<Rightarrow> ctx \<Rightarrow> request \<Rightarrow> 'w astate \<Rightarrow> 'w astate outcome" where
  "restart_Execute a c r s =
     (let t = ReqTarget r; (ob, s) = restart_fetch (RestartClient a) t s in
      case ob of Inl e \<Rightarrow> (zero_result, Some e, s)
      | Inr ob \<Rightarrow>
          (let (now, s) = reading (RestartNow a) s;
               stamp = rfc3339 now;
               (patched, s) = changing (restart_change t stamp) (PatchWorkload (RestartClient a) (restart_change t stamp)) s
           in case patched of
                Inl e \<Rightarrow> (zero_result, Some (if is_forbidden e
                    then Wrap (''not permitted to patch '' @ target_string t @ '': '') e ''''
                    else Wrap (''patch '' @ target_string t @ '': '') e ''''), s)
              | Inr ob \<Rightarrow>
                  (let result = zero_result\<lparr>Summary := ''restarted '' @ target_string t @ '': set '' @ RestartAnnotation @ ''=''
                          @ stamp @ '' (resourceVersion '' @ resource_version ob @ '')'',
                        ResultKubectl := kubectlRestart t\<rparr>
                   in (result_Output ''resourceVersion'' (resource_version ob)
                        (result_Output ''replicas'' (itoa (RolloutDesired (readRollout ob)))
                          (result_Output ''restartedAt'' stamp result)), None, s))))"

definition restart_look :: "'w restart \<Rightarrow> target \<Rightarrow> string \<Rightarrow> 'w astate \<Rightarrow> string look \<times> 'w astate" where
  "restart_look a t seen s =
     (let (ob, s) = restart_fetch (RestartClient a) t s in
      case ob of Inl e \<Rightarrow> (Answer (zero_result\<lparr>Summary := seen\<rparr>) (Some e), s)
      | Inr ob \<Rightarrow>
          (let state = readRollout ob; (says, finished) = rollout_describe state in
           if finished
           then (Answer (result_Output ''updatedReplicas'' (itoa (Updated state))
                  (result_Output ''readyReplicas'' (itoa (Ready state)) (zero_result\<lparr>Summary := says\<rparr>))) None, s)
           else (Again says, s)))"

definition restart_expired :: "string \<Rightarrow> 'w astate \<Rightarrow> 'w astate outcome" where
  "restart_expired says s = (zero_result\<lparr>Summary := says\<rparr>, Some (Err (''the rollout did not complete in time: '' @ says)), s)"

definition restart_Verify :: "'w restart \<Rightarrow> ctx \<Rightarrow> request \<Rightarrow> result \<Rightarrow> 'w astate \<Rightarrow> 'w astate outcome" where
  "restart_Verify a c r executed s =
     verify_poll c (RestartPoll a) (Wait (RestartClient a)) (restart_look a (ReqTarget r)) restart_expired '''' s"

definition restart_action :: "'w restart \<Rightarrow> 'w astate action" where
  "restart_action a = \<lparr>ActName = RestartName a, ActType = ''*workload.Restart'', ActResolve = restart_Resolve (PinnedKind a),
     ActPlan = restart_Plan a, ActExecute = restart_Execute a, ActVerify = Some (restart_Verify a)\<rparr>"

section \<open>The contract\<close>

lemma restart_fetchD: "restart_fetch cl t s = (ob, s') \<Longrightarrow>
    Changes s' = Changes s \<and> (\<forall>x. ob = Inr x \<longrightarrow> canonicalKind (TKind t) \<noteq> None)"
  by (auto simp: restart_fetch_def dest: readingD split: option.splits prod.splits)

definition restart_intended :: "request \<Rightarrow> change \<Rightarrow> bool" where
  "restart_intended r ch \<longleftrightarrow> (\<exists>stamp. ch = restart_change (ReqTarget r) stamp)"

interpretation restart: predictable_action "restart_Plan a" "restart_Execute a" restart_intended for a
proof unfold_locales
  fix c r s
  show "Changes (snd (snd (restart_Plan a c r s))) = Changes s"
    by (auto simp: restart_Plan_def Let_def dest: restart_fetchD split: prod.splits sum.splits)
  show "\<exists>cs. Changes (snd (snd (restart_Execute a c r s))) = Changes s @ cs \<and> length cs \<le> 1 \<and> list_all (restart_intended r) cs"
    by (auto simp: restart_Execute_def restart_intended_def Let_def dest!: restart_fetchD changingD readingD
        split: prod.splits sum.splits)
  show "fst (snd (restart_Execute a c r s)) = Some e \<and> Changes (snd (snd (restart_Execute a c r s))) = Changes s"
    if "fst (snd (restart_Plan a c r s)) = Some e" for e
    using that by (auto simp: restart_Execute_def restart_Plan_def Let_def dest: restart_fetchD split: prod.splits sum.splits)
  show "(\<exists>ch. Changes (snd (snd (restart_Execute a c r s))) = Changes s @ [ch]) \<or> fst (snd (restart_Execute a c r s)) = None"
    if "fst (snd (restart_Plan a c r s)) = None"
    using that by (auto simp: restart_Execute_def restart_Plan_def Let_def dest!: restart_fetchD changingD readingD split: prod.splits sum.splits)
qed

lemma restart_look_reads: "Changes (snd (restart_look a t b s)) = Changes s"
  by (auto simp: restart_look_def Let_def dest: restart_fetchD split: prod.splits sum.splits)

lemma restart_Verify_reads: "Changes (snd (snd (restart_Verify a c r x s))) = Changes s"
  unfolding restart_Verify_def by (rule poll_until_reads) (simp_all add: restart_look_reads restart_expired_def)

text \<open>A restart is verified only by a workload read after it that is rolled out.\<close>

lemma restart_Verify_success:
  assumes "restart_Verify a c r x s = (res, None, s')"
  shows "\<exists>ob s1. restart_fetch (RestartClient a) (ReqTarget r) s1 = (Inr ob, s') \<and> rolled_out (readRollout ob)"
proof -
  from poll_until_success [OF assms [unfolded restart_Verify_def verify_poll_def]]
  obtain b s1 where "restart_look a (ReqTarget r) b s1 = (Answer res None, s')" by (auto simp: restart_expired_def)
  then show ?thesis by (auto simp: restart_look_def Let_def simp flip: rollout_describe_done split: prod.splits sum.splits if_splits)
qed

end
