(* ===== verification/Scale.thy ===== *)
theory Scale
  imports Restart
begin

text \<open>
  \<open>internal/action/workload/scale.go\<close>: \<open>deployment.scale\<close>, \<open>hpa.scale\<close> and the arithmetic they share,
  on 32-bit integers that wrap as the code's do.
\<close>

definition ReplicasParam :: string where "ReplicasParam = ''replicas''"
definition IncreaseByParam :: string where "IncreaseByParam = ''increaseBy''"
definition IncreasePercentParam :: string where "IncreasePercentParam = ''increasePercent''"
definition MaxParam :: string where "MaxParam = ''max''"
definition LabelHPA :: string where "LabelHPA = ''horizontalpodautoscaler''"

section \<open>How many\<close>

definition parsePositiveInt32 :: "string \<Rightarrow> string \<Rightarrow> go_error + int" where
  "parsePositiveInt32 raw param =
     (if raw = '''' then Inl (Err (''the step sets no '' @ quote param))
      else case parse_int 32 raw of
        None \<Rightarrow> Inl (Err (''parameter '' @ quote param @ '': '' @ quote raw @ '' is not a whole number''))
      | Some n \<Rightarrow>
          if n \<le> 0 then Inl (Err (''parameter '' @ quote param @ '': '' @ itoa n @ '' is not a positive number''))
          else Inr n)"

text \<open>\<open>current + delta\<close> and \<open>current + (current*share+99)/100\<close>.\<close>

definition increased_by :: "int \<Rightarrow> int \<Rightarrow> int" where
  "increased_by current delta = wrap32 (current + delta)"

definition increased_percent :: "int \<Rightarrow> int \<Rightarrow> int" where
  "increased_percent current share = wrap32 (current + go_div (wrap32 (wrap32 (current * share) + 99)) 100)"

definition relative_want :: "params \<Rightarrow> int \<Rightarrow> go_error + int" where
  "relative_want p current =
     (let by' = params_Get p IncreaseByParam ''''; percent = params_Get p IncreasePercentParam '''' in
      if by' \<noteq> ''''
      then (case parsePositiveInt32 by' IncreaseByParam of Inl e \<Rightarrow> Inl e | Inr d \<Rightarrow> Inr (increased_by current d))
      else (case parsePositiveInt32 percent IncreasePercentParam of Inl e \<Rightarrow> Inl e | Inr d \<Rightarrow> Inr (increased_percent current d)))"

definition capped :: "int \<Rightarrow> int \<Rightarrow> int \<Rightarrow> go_error + int" where
  "capped current ceiling want =
     (let want = (if want > ceiling then ceiling else want) in
      if want \<le> current
      then Inl (Err (''the ceiling of '' @ itoa ceiling @ '' is already reached at '' @ itoa current @ '' replicas: raise ''
             @ quote MaxParam @ '' if there is more headroom to give''))
      else Inr want)"

definition targetCount :: "params \<Rightarrow> int \<Rightarrow> go_error + int" where
  "targetCount p current =
     (let absolute = params_Get p ReplicasParam ''''; by' = params_Get p IncreaseByParam '''';
          percent = params_Get p IncreasePercentParam '''';
          n = length (filter (\<lambda>v. v \<noteq> '''') [absolute, by', percent])
      in if n = 0
         then Inl (Err (''the step must set one of '' @ quote ReplicasParam @ '', '' @ quote IncreaseByParam @ '' or ''
                @ quote IncreasePercentParam))
         else if n \<noteq> 1
         then Inl (Err (''the step sets more than one of '' @ quote ReplicasParam @ '', '' @ quote IncreaseByParam @ '' and ''
                @ quote IncreasePercentParam @ ''; they mean different things''))
         else if absolute \<noteq> '''' then parsePositiveInt32 absolute ReplicasParam
         else case parsePositiveInt32 (params_Get p MaxParam '''') MaxParam of
           Inl e \<Rightarrow> Inl (Wrap ''a relative change needs a ceiling: '' e '''')
         | Inr ceiling \<Rightarrow> (case relative_want p current of Inl e \<Rightarrow> Inl e | Inr want \<Rightarrow> capped current ceiling want))"

lemma parsePositiveInt32_range: "parsePositiveInt32 raw param = Inr n \<Longrightarrow> 0 < n \<and> n < 2 ^ 31"
  by (auto simp: parsePositiveInt32_def dest: parse_int_range split: option.splits if_splits)

lemma parsePositiveInt32_itoa: "0 < n \<Longrightarrow> n < 2 ^ 31 \<Longrightarrow> parsePositiveInt32 (itoa n) param = Inr n"
  using parse_int_itoa [of 32 n] by (simp add: parsePositiveInt32_def itoa_def)

lemma cappedD: "capped current ceiling want = Inr n \<Longrightarrow> current < n \<and> n \<le> ceiling"
  by (auto simp: capped_def Let_def split: if_splits)

text \<open>Whatever the arithmetic does, a relative change ends between the current count and the ceiling.\<close>

lemma targetCount_relative:
  assumes "targetCount p current = Inr n" and "params_Get p ReplicasParam '''' = ''''"
  shows "\<exists>ceiling. parsePositiveInt32 (params_Get p MaxParam '''') MaxParam = Inr ceiling \<and> current < n \<and> n \<le> ceiling"
  using assms by (auto simp: targetCount_def Let_def dest: cappedD split: if_splits sum.splits)

lemma targetCount_positive:
  assumes "targetCount p current = Inr n" and "0 \<le> current"
  shows "0 < n \<and> n < 2 ^ 31"
proof (cases "params_Get p ReplicasParam '''' = ''''")
  case True
  from targetCount_relative [OF assms(1) True] parsePositiveInt32_range assms(2) show ?thesis by fastforce
next
  case False
  then have "parsePositiveInt32 (params_Get p ReplicasParam '''') ReplicasParam = Inr n"
    using assms(1) by (auto simp: targetCount_def Let_def split: if_splits sum.splits)
  then show ?thesis by (rule parsePositiveInt32_range)
qed

text \<open>Without overflow the share is rounded up to a whole replica.\<close>

lemma increased_percent_rounds_up:
  assumes "0 \<le> current" and "0 \<le> share" and "current * share + 99 < 2 ^ 31" and "current + (current * share + 99) div 100 < 2 ^ 31"
  shows "100 * (increased_percent current share - current) \<in> {current * share ..< current * share + 100}"
proof -
  have cs: "0 \<le> current * share" using assms by simp
  have "in_int32 (current * share)" "in_int32 (current * share + 99)" using assms(3) cs by (auto simp: in_int32_def)
  moreover have "in_int32 (current + (current * share + 99) div 100)" using assms(1,4) cs by (auto simp: in_int32_def)
  ultimately have "increased_percent current share = current + (current * share + 99) div 100"
    using cs by (simp add: increased_percent_def)
  then show ?thesis by simp presburger
qed

section \<open>deployment.scale\<close>

record autoscaler =
  HpaName :: string
  HpaRefKind :: string
  HpaRefName :: string
  HpaMaxReplicas :: int
  HpaCurrentReplicas :: int

record 'w scale_client =
  ScaleWorkloads :: "'w workload_client"
  ListAutoscalers :: "string \<Rightarrow> 'w \<Rightarrow> (go_error + autoscaler list) \<times> 'w"
  GetAutoscaler :: "string \<Rightarrow> string \<Rightarrow> 'w \<Rightarrow> (go_error + autoscaler) \<times> 'w"
  SendPatch :: "change \<Rightarrow> 'w \<Rightarrow> go_error option \<times> 'w"

record 'w deployment_scale =
  ScaleClient :: "'w scale_client"
  ScalePoll :: duration

definition NewDeploymentScale :: "'w scale_client \<Rightarrow> 'w deployment_scale" where
  "NewDeploymentScale c = \<lparr>ScaleClient = c, ScalePoll = DefaultVerifyPoll\<rparr>"

definition scale_Resolve :: "smap \<Rightarrow> params \<Rightarrow> go_error + target" where
  "scale_Resolve labels p = restart_Resolve ''Deployment'' labels p"

definition checkAutoscaler :: "'w scale_client \<Rightarrow> request \<Rightarrow> 'w astate \<Rightarrow> go_error option \<times> 'w astate" where
  "checkAutoscaler cl r s =
     (let t = ReqTarget r; (listed, s) = reading (ListAutoscalers cl (TNamespace t)) s in
      case listed of
        Inl e \<Rightarrow> (Some (if is_forbidden e
            then Wrap (''cannot tell whether '' @ target_string t @ '' is autoscaled, so remedik will not scale it: '') e ''''
            else Wrap (''list autoscalers in '' @ TNamespace t @ '': '') e ''''), s)
      | Inr items \<Rightarrow>
          (case find (\<lambda>h. HpaRefKind h = ''Deployment'' \<and> HpaRefName h = TName t) items of
             None \<Rightarrow> (None, s)
           | Some h \<Rightarrow> (Some (Err (target_string t @ '' is scaled by horizontalpodautoscaler/'' @ HpaName h
               @ '': setting replicas would be reverted on its next interval, and remedik would have recorded a success that did not stick. Use hpa.scale to raise its ceiling instead'')), s)))"

text \<open>\<open>deployment.scale\<close> reads a Deployment, by name.\<close>

definition get_error :: "target \<Rightarrow> go_error \<Rightarrow> go_error" where
  "get_error t e = (if is_not_found e then Wrap (target_string t @ '' does not exist: '') e ''''
     else Wrap (''read '' @ target_string t @ '': '') e '''')"

definition scale_plan :: "'w deployment_scale \<Rightarrow> request \<Rightarrow> 'w astate \<Rightarrow> (go_error + (replicated_object \<times> int)) \<times> 'w astate" where
  "scale_plan a r s =
     (let cl = ScaleClient a; t = ReqTarget r;
          (got, s) = reading (ReadDeployment (ScaleWorkloads cl) (TNamespace t) (TName t)) s
      in case got of
           Inl e \<Rightarrow> (Inl (get_error t e), s)
         | Inr d \<Rightarrow>
             (let (refused, s) = checkAutoscaler cl r s in
              case refused of
                Some e \<Rightarrow> (Inl e, s)
              | None \<Rightarrow> (case targetCount (ReqParams r) (RolloutDesired (replicated_rollout d)) of
                    Inl e \<Rightarrow> (Inl e, s) | Inr want \<Rightarrow> (Inr (d, want), s))))"

definition kubectlScale :: "target \<Rightarrow> int \<Rightarrow> string" where
  "kubectlScale t n = ''kubectl scale deployment/'' @ TName t @ '' -n '' @ TNamespace t @ '' --replicas='' @ itoa n"

definition scale_result :: "string \<Rightarrow> request \<Rightarrow> int \<Rightarrow> int \<Rightarrow> result" where
  "scale_result verb r current want =
     result_Output ''replicasAfter'' (itoa want) (result_Output ''replicasBefore'' (itoa current)
       (zero_result\<lparr>Summary := verb @ '' '' @ target_string (ReqTarget r) @ '' from '' @ itoa current @ '' to '' @ itoa want @ '' replicas'',
                    ResultKubectl := kubectlScale (ReqTarget r) want\<rparr>))"

definition scale_Plan :: "'w deployment_scale \<Rightarrow> ctx \<Rightarrow> request \<Rightarrow> 'w astate \<Rightarrow> 'w astate outcome" where
  "scale_Plan a c r s =
     (let (planned, s) = scale_plan a r s in
      case planned of Inl e \<Rightarrow> (zero_result, Some e, s)
      | Inr (d, want) \<Rightarrow> (scale_result ''scale'' r (RolloutDesired (replicated_rollout d)) want, None, s))"

definition scale_change :: "target \<Rightarrow> int \<Rightarrow> change" where
  "scale_change t n = Patch ''Deployment'' (TNamespace t) (TName t) ''scale'' ''merge''
     (json_object [(''spec'', json_object [(''replicas'', itoa n)])])"

definition scale_Execute :: "'w deployment_scale \<Rightarrow> ctx \<Rightarrow> request \<Rightarrow> 'w astate \<Rightarrow> 'w astate outcome" where
  "scale_Execute a c r s =
     (let (planned, s) = scale_plan a r s in
      case planned of Inl e \<Rightarrow> (zero_result, Some e, s)
      | Inr (d, want) \<Rightarrow>
          (let t = ReqTarget r; current = RolloutDesired (replicated_rollout d);
               (err, s) = changing (scale_change t want) (SendPatch (ScaleClient a) (scale_change t want)) s
           in case err of
                Some e \<Rightarrow> (zero_result, Some (if is_forbidden e
                    then Wrap (''not permitted to scale '' @ target_string t @ '': '') e ''''
                    else Wrap (''scale '' @ target_string t @ '': '') e ''''), s)
              | None \<Rightarrow> (scale_result ''scaled'' r current want, None, s)))"

definition scale_look :: "'w deployment_scale \<Rightarrow> target \<Rightarrow> int \<Rightarrow> string \<Rightarrow> 'w astate \<Rightarrow> string look \<times> 'w astate" where
  "scale_look a t want seen s =
     (let (got, s) = reading (ReadDeployment (ScaleWorkloads (ScaleClient a)) (TNamespace t) (TName t)) s in
      case got of
        Inl e \<Rightarrow> (Answer (zero_result\<lparr>Summary := seen\<rparr>) (Some (Wrap (''read '' @ target_string t @ '': '') e '''')), s)
      | Inr d \<Rightarrow>
          (let available = RoAvailable d; says = ratio available want @ '' replicas available'' in
           if available \<ge> want
           then (Answer (result_Output ''availableReplicas'' (itoa available) (zero_result\<lparr>Summary := says\<rparr>)) None, s)
           else (Again says, s)))"

definition scale_expired :: "string \<Rightarrow> 'w astate \<Rightarrow> 'w astate outcome" where
  "scale_expired says s =
     (zero_result\<lparr>Summary := says\<rparr>, Some (Err (''the new replicas did not become available in time: '' @ says)), s)"

definition scale_Verify :: "'w deployment_scale \<Rightarrow> ctx \<Rightarrow> request \<Rightarrow> result \<Rightarrow> 'w astate \<Rightarrow> 'w astate outcome" where
  "scale_Verify a c r executed s =
     (case atoi (map_get (ResultOutputs executed) ''replicasAfter'') of
        None \<Rightarrow> (zero_result, Some (Err ''no replica count was recorded to verify''), s)
      | Some want \<Rightarrow> verify_poll c (ScalePoll a) (Wait (ScaleWorkloads (ScaleClient a))) (scale_look a (ReqTarget r) want) scale_expired '''' s)"

definition scale_action :: "'w deployment_scale \<Rightarrow> 'w astate action" where
  "scale_action a = \<lparr>ActName = ''deployment.scale'', ActType = ''*workload.DeploymentScale'', ActResolve = scale_Resolve,
     ActPlan = scale_Plan a, ActExecute = scale_Execute a, ActVerify = Some (scale_Verify a)\<rparr>"

lemma checkAutoscalerD: "checkAutoscaler cl r s = (e, s') \<Longrightarrow> Changes s' = Changes s"
  by (auto simp: checkAutoscaler_def Let_def dest: readingD split: prod.splits sum.splits option.splits)

lemma scale_planD: "scale_plan a r s = (x, s') \<Longrightarrow>
    Changes s' = Changes s \<and> (\<forall>d want. x = Inr (d, want) \<longrightarrow> targetCount (ReqParams r) (RolloutDesired (replicated_rollout d)) = Inr want)"
  by (auto simp: scale_plan_def Let_def dest!: readingD checkAutoscalerD split: prod.splits sum.splits option.splits)

definition scale_intended :: "request \<Rightarrow> change \<Rightarrow> bool" where
  "scale_intended r ch \<longleftrightarrow> (\<exists>want current. ch = scale_change (ReqTarget r) want \<and> targetCount (ReqParams r) current = Inr want)"

lemma scale_intendedI: "targetCount (ReqParams r) current = Inr want \<Longrightarrow> scale_intended r (scale_change (ReqTarget r) want)"
  by (auto simp: scale_intended_def)

interpretation scale: predictable_action "scale_Plan a" "scale_Execute a" scale_intended for a
proof unfold_locales
  fix c r s
  show "Changes (snd (snd (scale_Plan a c r s))) = Changes s"
    by (auto simp: scale_Plan_def dest: scale_planD split: prod.splits sum.splits)
  show "\<exists>cs. Changes (snd (snd (scale_Execute a c r s))) = Changes s @ cs \<and> length cs \<le> 1 \<and> list_all (scale_intended r) cs"
    by (auto simp: scale_Execute_def Let_def intro: scale_intendedI dest!: scale_planD changingD split: prod.splits sum.splits option.splits)
  show "fst (snd (scale_Execute a c r s)) = Some e \<and> Changes (snd (snd (scale_Execute a c r s))) = Changes s"
    if "fst (snd (scale_Plan a c r s)) = Some e" for e
    using that by (auto simp: scale_Execute_def scale_Plan_def dest: scale_planD split: prod.splits sum.splits)
  show "(\<exists>ch. Changes (snd (snd (scale_Execute a c r s))) = Changes s @ [ch]) \<or> fst (snd (scale_Execute a c r s)) = None"
    if "fst (snd (scale_Plan a c r s)) = None"
    using that by (auto simp: scale_Execute_def scale_Plan_def Let_def dest!: scale_planD changingD split: prod.splits sum.splits option.splits)
qed

lemma scale_Verify_reads: "Changes (snd (snd (scale_Verify a c r x s))) = Changes s"
proof -
  have "Changes (snd (scale_look a t want b s)) = Changes s" for t want b s
    by (auto simp: scale_look_def Let_def dest: readingD split: prod.splits sum.splits)
  then show ?thesis by (auto simp: scale_Verify_def scale_expired_def intro!: poll_until_reads split: option.splits)
qed

section \<open>hpa.scale\<close>

definition hpa_Resolve :: "smap \<Rightarrow> params \<Rightarrow> go_error + target" where
  "hpa_Resolve labels p =
     (let namespace = param_or_label p labels LabelNamespace; name = params_Get p NameParam (param_or_label p labels LabelHPA) in
      if namespace = '''' then Inl no_namespace
      else if name = '''' then Inl (Err (''no autoscaler: the alert has no '' @ quote LabelHPA @ '' label and the step sets no ''
             @ quote NameParam @ '' parameter''))
      else Inr \<lparr>TKind = ''HorizontalPodAutoscaler'', TNamespace = namespace, TName = name\<rparr>)"

definition hpa_plan :: "'w scale_client \<Rightarrow> request \<Rightarrow> 'w astate \<Rightarrow> (go_error + (autoscaler \<times> int)) \<times> 'w astate" where
  "hpa_plan cl r s =
     (let t = ReqTarget r; (got, s) = reading (GetAutoscaler cl (TNamespace t) (TName t)) s in
      case got of
        Inl e \<Rightarrow> (Inl (get_error t e), s)
      | Inr h \<Rightarrow>
          (case targetCount (ReqParams r) (HpaMaxReplicas h) of
             Inl e \<Rightarrow> (Inl e, s)
           | Inr want \<Rightarrow>
               if want \<le> HpaMaxReplicas h
               then (Inl (Err (target_string t @ '' already allows '' @ itoa (HpaMaxReplicas h) @ '' replicas, and this step asks for ''
                       @ itoa want @ '': lowering an autoscaler's ceiling during an incident is not a remediation'')), s)
               else (Inr (h, want), s)))"

definition kubectlPatchHPA :: "target \<Rightarrow> int \<Rightarrow> string" where
  "kubectlPatchHPA t n = ''kubectl patch hpa '' @ TName t @ '' -n '' @ TNamespace t @ '' --type=merge -p ''
     @ [char_of (39::nat)] @ json_object [(''spec'', json_object [(''maxReplicas'', itoa n)])] @ [char_of (39::nat)]"

definition hpa_Plan :: "'w scale_client \<Rightarrow> ctx \<Rightarrow> request \<Rightarrow> 'w astate \<Rightarrow> 'w astate outcome" where
  "hpa_Plan cl c r s =
     (let (planned, s) = hpa_plan cl r s in
      case planned of Inl e \<Rightarrow> (zero_result, Some e, s)
      | Inr (h, want) \<Rightarrow>
          (result_Output ''currentReplicas'' (itoa (HpaCurrentReplicas h))
            (result_Output ''maxReplicasAfter'' (itoa want) (result_Output ''maxReplicasBefore'' (itoa (HpaMaxReplicas h))
              (zero_result\<lparr>Summary := ''raise '' @ target_string (ReqTarget r) @ '' maxReplicas from '' @ itoa (HpaMaxReplicas h)
                             @ '' to '' @ itoa want, ResultKubectl := kubectlPatchHPA (ReqTarget r) want\<rparr>))), None, s))"

definition hpa_change :: "target \<Rightarrow> int \<Rightarrow> change" where
  "hpa_change t n = Patch ''HorizontalPodAutoscaler'' (TNamespace t) (TName t) '''' ''merge''
     (json_object [(''spec'', json_object [(''maxReplicas'', itoa n)])])"

definition hpa_Execute :: "'w scale_client \<Rightarrow> ctx \<Rightarrow> request \<Rightarrow> 'w astate \<Rightarrow> 'w astate outcome" where
  "hpa_Execute cl c r s =
     (let (planned, s) = hpa_plan cl r s in
      case planned of Inl e \<Rightarrow> (zero_result, Some e, s)
      | Inr (h, want) \<Rightarrow>
          (let t = ReqTarget r; (err, s) = changing (hpa_change t want) (SendPatch cl (hpa_change t want)) s in
           case err of
             Some e \<Rightarrow> (zero_result, Some (if is_forbidden e
                 then Wrap (''not permitted to patch '' @ target_string t @ '': '') e ''''
                 else Wrap (''patch '' @ target_string t @ '': '') e ''''), s)
           | None \<Rightarrow>
               (result_Output ''maxReplicasAfter'' (itoa want) (result_Output ''maxReplicasBefore'' (itoa (HpaMaxReplicas h))
                  (zero_result\<lparr>Summary := ''raised '' @ target_string t @ '' maxReplicas from '' @ itoa (HpaMaxReplicas h)
                             @ '' to '' @ itoa want @ ''; the autoscaler decides whether to use the headroom'',
                     ResultKubectl := kubectlPatchHPA t want\<rparr>)), None, s)))"

definition hpa_action :: "'w scale_client \<Rightarrow> 'w astate action" where
  "hpa_action cl = \<lparr>ActName = ''hpa.scale'', ActType = ''*workload.HPAScale'', ActResolve = hpa_Resolve,
     ActPlan = hpa_Plan cl, ActExecute = hpa_Execute cl, ActVerify = None\<rparr>"

lemma hpa_planD: "hpa_plan cl r s = (x, s') \<Longrightarrow> Changes s' = Changes s
    \<and> (\<forall>h want. x = Inr (h, want) \<longrightarrow> targetCount (ReqParams r) (HpaMaxReplicas h) = Inr want \<and> HpaMaxReplicas h < want)"
  by (auto simp: hpa_plan_def Let_def dest!: readingD split: prod.splits sum.splits if_splits)

definition hpa_intended :: "request \<Rightarrow> change \<Rightarrow> bool" where
  "hpa_intended r ch \<longleftrightarrow> (\<exists>want current. ch = hpa_change (ReqTarget r) want
     \<and> targetCount (ReqParams r) current = Inr want \<and> current < want)"

lemma hpa_intendedI: "targetCount (ReqParams r) current = Inr want \<Longrightarrow> current < want \<Longrightarrow> hpa_intended r (hpa_change (ReqTarget r) want)"
  by (auto simp: hpa_intended_def)

interpretation hpa: predictable_action "hpa_Plan cl" "hpa_Execute cl" hpa_intended for cl
proof unfold_locales
  fix c r s
  show "Changes (snd (snd (hpa_Plan cl c r s))) = Changes s"
    by (auto simp: hpa_Plan_def dest: hpa_planD split: prod.splits sum.splits)
  show "\<exists>cs. Changes (snd (snd (hpa_Execute cl c r s))) = Changes s @ cs \<and> length cs \<le> 1 \<and> list_all (hpa_intended r) cs"
    by (auto simp: hpa_Execute_def Let_def intro: hpa_intendedI dest!: hpa_planD changingD split: prod.splits sum.splits option.splits)
  show "fst (snd (hpa_Execute cl c r s)) = Some e \<and> Changes (snd (snd (hpa_Execute cl c r s))) = Changes s"
    if "fst (snd (hpa_Plan cl c r s)) = Some e" for e
    using that by (auto simp: hpa_Execute_def hpa_Plan_def dest: hpa_planD split: prod.splits sum.splits)
  show "(\<exists>ch. Changes (snd (snd (hpa_Execute cl c r s))) = Changes s @ [ch]) \<or> fst (snd (hpa_Execute cl c r s)) = None"
    if "fst (snd (hpa_Plan cl c r s)) = None"
    using that by (auto simp: hpa_Execute_def hpa_Plan_def Let_def dest!: hpa_planD changingD split: prod.splits sum.splits option.splits)
qed

end
