(* ===== verification/PodDelete.thy ===== *)
theory PodDelete
  imports Restart
begin

text \<open>
  \<open>internal/action/workload/pod.go\<close> and \<open>job.go\<close>: evicting a pod so that its controller replaces it,
  and deleting a Job so that its CronJob makes a clean one.
\<close>

section \<open>Pods and Jobs, as the actions read them\<close>

record owner_ref =
  OwKind :: string
  OwName :: string
  OwUID :: string
  OwController :: "bool option"

text \<open>The first owner that is the controller.\<close>

definition controller_ref :: "owner_ref list \<Rightarrow> owner_ref option" where
  "controller_ref refs = find (\<lambda>ref. OwController ref = Some True) refs"

definition owner_description :: "owner_ref list \<Rightarrow> string" where
  "owner_description refs = (case controller_ref refs of Some ref \<Rightarrow> to_lower (OwKind ref) @ ''/'' @ OwName ref | None \<Rightarrow> ''nothing'')"

text \<open>\<open>PodEmptyDirs\<close> says for each volume whether it is an emptyDir; \<open>PodExits\<close> gives for each
  container its exit code if it has terminated.\<close>

record pod =
  PodNamespace :: string
  PodName :: string
  PodUID :: string
  PodOwners :: "owner_ref list"
  PodAnnotations :: smap
  PodCreated :: time
  PodTerminating :: bool
  PodNode :: string
  PodPhase :: string
  PodEmptyDirs :: "bool list"
  PodExits :: "int option list"

record batch_job =
  BatchUID :: string
  BatchOwners :: "owner_ref list"
  BatchTerminating :: bool
  BatchFailed :: int
  BatchSucceeded :: int
  BatchConditions :: "(string \<times> string) list"

section \<open>pod.delete\<close>

definition LabelPod :: string where "LabelPod = ''pod''"
definition RequireOwnerParam :: string where "RequireOwnerParam = ''requireOwner''"
definition GracePeriodParam :: string where "GracePeriodParam = ''gracePeriodSeconds''"

record 'w pod_client =
  GetPod' :: "string \<Rightarrow> string \<Rightarrow> 'w \<Rightarrow> (go_error + pod) \<times> 'w"
  SendEviction :: "change \<Rightarrow> 'w \<Rightarrow> go_error option \<times> 'w"
  PodWait :: "duration \<Rightarrow> 'w \<Rightarrow> 'w"

record 'w pod_delete =
  PodClient :: "'w pod_client"
  PodPoll :: duration

definition NewPodDelete :: "'w pod_client \<Rightarrow> 'w pod_delete" where
  "NewPodDelete c = \<lparr>PodClient = c, PodPoll = DefaultVerifyPoll\<rparr>"

definition pod_Resolve :: "smap \<Rightarrow> params \<Rightarrow> go_error + target" where
  "pod_Resolve labels p =
     (let namespace = param_or_label p labels LabelNamespace; name = param_or_label p labels LabelPod in
      if namespace = '''' then Inl no_namespace
      else if name = '''' then Inl (Err (''no pod: the alert has no '' @ quote LabelPod @ '' label and the step sets no ''
             @ quote LabelPod @ '' parameter''))
      else Inr \<lparr>TKind = ''Pod'', TNamespace = namespace, TName = name\<rparr>)"

definition pod_fetch :: "'w pod_client \<Rightarrow> target \<Rightarrow> 'w astate \<Rightarrow> (go_error + pod) \<times> 'w astate" where
  "pod_fetch cl t s =
     (let (got, s) = reading (GetPod' cl (TNamespace t) (TName t)) s in
      (case got of Inl e \<Rightarrow> Inl (fetch_error t e) | Inr p \<Rightarrow> Inr p, s))"

definition checkOwner :: "pod \<Rightarrow> target \<Rightarrow> params \<Rightarrow> go_error option" where
  "checkOwner pd t p =
     (if params_Get p RequireOwnerParam ''true'' = ''false'' then None
      else if controller_ref (PodOwners pd) \<noteq> None then None
      else Some (Err (target_string t @ '' has no controller owner, so nothing would recreate it: evicting it would be a deletion, not a remediation. Set ''
             @ RequireOwnerParam @ ''='' @ quote ''false'' @ '' on the step if that is genuinely what you want'')))"

definition parseNonNegativeInt :: "string \<Rightarrow> go_error + int" where
  "parseNonNegativeInt raw =
     (case parse_int 64 raw of
        None \<Rightarrow> Inl (Err (quote raw @ '' is not a whole number''))
      | Some n \<Rightarrow> if n < 0 then Inl (Err (itoa n @ '' is negative'')) else Inr n)"

definition gracePeriod :: "params \<Rightarrow> go_error + int option" where
  "gracePeriod p =
     (let raw = params_Get p GracePeriodParam '''' in
      if raw = '''' then Inr None
      else case parseNonNegativeInt raw of
        Inl e \<Rightarrow> Inl (Wrap (''parameter '' @ quote GracePeriodParam @ '': '') e '''') | Inr n \<Rightarrow> Inr (Some n))"

definition kubectlEvict :: "target \<Rightarrow> string" where
  "kubectlEvict t = ''kubectl delete pod '' @ TName t @ '' -n '' @ TNamespace t
     @ ''  # remedik uses the Eviction API, which honours PodDisruptionBudgets''"

definition nodeOrUnknown :: "pod \<Rightarrow> string" where
  "nodeOrUnknown pd = (if PodNode pd = '''' then ''(unscheduled)'' else PodNode pd)"

definition pod_Plan :: "'w pod_delete \<Rightarrow> ctx \<Rightarrow> request \<Rightarrow> 'w astate \<Rightarrow> 'w astate outcome" where
  "pod_Plan a c r s =
     (let t = ReqTarget r; (got, s) = pod_fetch (PodClient a) t s in
      case got of Inl e \<Rightarrow> (zero_result, Some e, s)
      | Inr pd \<Rightarrow>
          (case checkOwner pd t (ReqParams r) of
             Some e \<Rightarrow> (zero_result, Some e, s)
           | None \<Rightarrow>
               (let owner = owner_description (PodOwners pd);
                    result = zero_result\<lparr>Summary := ''evict '' @ target_string t @ '' through the Eviction API, so '' @ owner
                        @ '' replaces it (a PodDisruptionBudget may refuse)'', ResultKubectl := kubectlEvict t\<rparr>
                in (result_Output ''uid'' (PodUID pd) (result_Output ''phase'' (PodPhase pd)
                     (result_Output ''node'' (PodNode pd) (result_Output ''owner'' owner result))), None, s))))"

definition pod_refusal :: "target \<Rightarrow> go_error \<Rightarrow> go_error" where
  "pod_refusal t e =
     (if is_too_many_requests e then Wrap (''a PodDisruptionBudget refused the eviction of '' @ target_string t @ '': '') e
           ''. The pod is still running; the retry budget will try again after the backoff''
      else if is_forbidden e then Wrap (''not permitted to evict '' @ target_string t @ '': '') e ''''
      else if is_not_found e then Wrap (target_string t @ '' went away before it could be evicted: '') e ''''
      else Wrap (''evict '' @ target_string t @ '': '') e '''')"

definition pod_Execute :: "'w pod_delete \<Rightarrow> ctx \<Rightarrow> request \<Rightarrow> 'w astate \<Rightarrow> 'w astate outcome" where
  "pod_Execute a c r s =
     (let t = ReqTarget r; (got, s) = pod_fetch (PodClient a) t s in
      case got of Inl e \<Rightarrow> (zero_result, Some e, s)
      | Inr pd \<Rightarrow>
          (case checkOwner pd t (ReqParams r) of
             Some e \<Rightarrow> (zero_result, Some e, s)
           | None \<Rightarrow>
               (case gracePeriod (ReqParams r) of
                  Inl e \<Rightarrow> (zero_result, Some e, s)
                | Inr grace \<Rightarrow>
                    (let ch = CreateEviction (TNamespace t) (TName t) grace;
                         (err, s) = changing ch (SendEviction (PodClient a) ch) s
                     in case err of
                          Some e \<Rightarrow> (zero_result, Some (pod_refusal t e), s)
                        | None \<Rightarrow>
                            (let owner = owner_description (PodOwners pd);
                                 result = zero_result\<lparr>Summary := ''evicted '' @ target_string t @ '' from node ''
                                     @ nodeOrUnknown pd @ ''; '' @ owner @ '' will replace it'', ResultKubectl := kubectlEvict t\<rparr>
                             in (result_Output ''uid'' (PodUID pd) (result_Output ''node'' (PodNode pd)
                                  (result_Output ''owner'' owner result)), None, s))))))"

definition pod_look :: "'w pod_delete \<Rightarrow> target \<Rightarrow> string \<Rightarrow> string \<Rightarrow> 'w astate \<Rightarrow> string look \<times> 'w astate" where
  "pod_look a t was seen s =
     (let (got, s) = pod_fetch (PodClient a) t s in
      case got of
        Inl e \<Rightarrow>
          (if is_not_found e
           then (Answer (result_Output ''outcome'' ''deleted'' (zero_result\<lparr>Summary := target_string t @ '' is gone''\<rparr>)) None, s)
           else (Answer zero_result (Some e), s))
      | Inr pd \<Rightarrow>
          if was \<noteq> '''' \<and> PodUID pd \<noteq> was
          then (Answer (result_Output ''outcome'' ''replaced''
                 (zero_result\<lparr>Summary := target_string t @ '' was replaced (new UID '' @ PodUID pd @ '')''\<rparr>)) None, s)
          else if PodTerminating pd then (Again (target_string t @ '' is terminating''), s)
          else (Again (target_string t @ '' is still '' @ to_lower (PodPhase pd)), s))"

definition pod_expired :: "string \<Rightarrow> 'w astate \<Rightarrow> 'w astate outcome" where
  "pod_expired says s = (zero_result\<lparr>Summary := says\<rparr>, Some (Err (''the pod did not go away in time: '' @ says)), s)"

definition pod_Verify :: "'w pod_delete \<Rightarrow> ctx \<Rightarrow> request \<Rightarrow> result \<Rightarrow> 'w astate \<Rightarrow> 'w astate outcome" where
  "pod_Verify a c r executed s =
     verify_poll c (PodPoll a) (PodWait (PodClient a))
       (pod_look a (ReqTarget r) (map_get (ResultOutputs executed) ''uid'')) pod_expired '''' s"

definition pod_action :: "'w pod_delete \<Rightarrow> 'w astate action" where
  "pod_action a = \<lparr>ActName = ''pod.delete'', ActType = ''*workload.PodDelete'', ActResolve = pod_Resolve,
     ActPlan = pod_Plan a, ActExecute = pod_Execute a, ActVerify = Some (pod_Verify a)\<rparr>"

lemma pod_fetchD: "pod_fetch cl t s = (x, s') \<Longrightarrow> Changes s' = Changes s"
  by (auto simp: pod_fetch_def dest: readingD split: prod.splits)

definition pod_intended :: "request \<Rightarrow> change \<Rightarrow> bool" where
  "pod_intended r ch \<longleftrightarrow> (\<exists>grace. ch = CreateEviction (TNamespace (ReqTarget r)) (TName (ReqTarget r)) grace
     \<and> gracePeriod (ReqParams r) = Inr grace)"

interpretation pod: planned_action "pod_Plan a" "pod_Execute a" pod_intended for a
proof unfold_locales
  fix c r s
  show "Changes (snd (snd (pod_Plan a c r s))) = Changes s"
    by (auto simp: pod_Plan_def Let_def dest: pod_fetchD split: prod.splits sum.splits option.splits)
  show "\<exists>cs. Changes (snd (snd (pod_Execute a c r s))) = Changes s @ cs \<and> length cs \<le> 1 \<and> list_all (pod_intended r) cs"
    by (auto simp: pod_Execute_def pod_intended_def Let_def dest!: pod_fetchD changingD split: prod.splits sum.splits option.splits)
  show "fst (snd (pod_Execute a c r s)) = Some e \<and> Changes (snd (snd (pod_Execute a c r s))) = Changes s"
    if "fst (snd (pod_Plan a c r s)) = Some e" for e
    using that by (auto simp: pod_Execute_def pod_Plan_def Let_def dest: pod_fetchD split: prod.splits sum.splits option.splits)
qed

lemma pod_look_reads: "Changes (snd (pod_look a t was b s)) = Changes s"
  by (auto simp: pod_look_def Let_def dest: pod_fetchD split: prod.splits sum.splits)

lemma pod_Verify_reads: "Changes (snd (snd (pod_Verify a c r x s))) = Changes s"
  unfolding pod_Verify_def by (rule poll_until_reads) (simp_all add: pod_look_reads pod_expired_def)

text \<open>An eviction is verified only by the pod being gone, or replaced by one with another UID.\<close>

lemma pod_Verify_success:
  assumes "pod_Verify a c r x s = (res, None, s')"
  shows "\<exists>s1 got. pod_fetch (PodClient a) (ReqTarget r) s1 = (got, s')
    \<and> (case got of Inl e \<Rightarrow> is_not_found e
       | Inr pd \<Rightarrow> map_get (ResultOutputs x) ''uid'' \<noteq> '''' \<and> PodUID pd \<noteq> map_get (ResultOutputs x) ''uid'')"
proof -
  from poll_until_success [OF assms [unfolded pod_Verify_def verify_poll_def]]
  obtain b s1 where "pod_look a (ReqTarget r) (map_get (ResultOutputs x) ''uid'') b s1 = (Answer res None, s')"
    by (auto simp: pod_expired_def)
  then show ?thesis
    by (intro exI [of _ s1] exI [of _ "fst (pod_fetch (PodClient a) (ReqTarget r) s1)"])
      (auto simp: pod_look_def Let_def split: prod.splits sum.splits if_splits)
qed

section \<open>job.delete\<close>

definition LabelJob :: string where "LabelJob = ''job_name''"
definition JobParam :: string where "JobParam = ''job''"
definition PropagationParam :: string where "PropagationParam = ''propagationPolicy''"

record 'w job_client =
  GetJob :: "string \<Rightarrow> string \<Rightarrow> 'w \<Rightarrow> (go_error + batch_job) \<times> 'w"
  SendDelete :: "change \<Rightarrow> 'w \<Rightarrow> go_error option \<times> 'w"
  JobWait :: "duration \<Rightarrow> 'w \<Rightarrow> 'w"

record 'w job_delete =
  JobClient :: "'w job_client"
  JobPoll :: duration

definition NewJobDelete :: "'w job_client \<Rightarrow> 'w job_delete" where
  "NewJobDelete c = \<lparr>JobClient = c, JobPoll = DefaultVerifyPoll\<rparr>"

definition job_Resolve :: "smap \<Rightarrow> params \<Rightarrow> go_error + target" where
  "job_Resolve labels p =
     (let namespace = param_or_label p labels LabelNamespace;
          name = params_Get p LabelJob (params_Get p JobParam (map_get labels LabelJob))
      in if namespace = '''' then Inl no_namespace
         else if name = '''' then Inl (Err (''no job: the alert has no '' @ quote LabelJob @ '' label and the step sets no ''
                @ quote JobParam @ '' parameter. The Prometheus '' @ quote JobParam
                @ '' label is the scrape job, not the Kubernetes Job, so it is deliberately not used here''))
         else Inr \<lparr>TKind = ''Job'', TNamespace = namespace, TName = name\<rparr>)"

definition job_fetch :: "'w job_client \<Rightarrow> target \<Rightarrow> 'w astate \<Rightarrow> (go_error + batch_job) \<times> 'w astate" where
  "job_fetch cl t s =
     (let (got, s) = reading (GetJob cl (TNamespace t) (TName t)) s in
      (case got of Inl e \<Rightarrow> Inl (fetch_error t e) | Inr j \<Rightarrow> Inr j, s))"

definition propagation :: "params \<Rightarrow> go_error + string" where
  "propagation p =
     (let value' = params_Get p PropagationParam ''Background'' in
      if value' \<in> {''Background'', ''Foreground'', ''Orphan''} then Inr value'
      else Inl (Err (''parameter '' @ quote PropagationParam @ '': '' @ quote value' @ '' is not one of Background, Foreground or Orphan'')))"

definition kubectlDeleteJob :: "target \<Rightarrow> string" where
  "kubectlDeleteJob t = ''kubectl delete job '' @ TName t @ '' -n '' @ TNamespace t"

definition job_Plan :: "'w job_delete \<Rightarrow> ctx \<Rightarrow> request \<Rightarrow> 'w astate \<Rightarrow> 'w astate outcome" where
  "job_Plan a c r s =
     (let t = ReqTarget r; (got, s) = job_fetch (JobClient a) t s in
      case got of Inl e \<Rightarrow> (zero_result, Some e, s)
      | Inr j \<Rightarrow>
          (case propagation (ReqParams r) of
             Inl e \<Rightarrow> (zero_result, Some e, s)
           | Inr policy \<Rightarrow>
               (let owner = owner_description (BatchOwners j);
                    result = zero_result\<lparr>Summary := ''delete '' @ target_string t @ '' and its pods, so '' @ owner @ '' creates a fresh run'',
                      ResultKubectl := kubectlDeleteJob t\<rparr>
                in (result_Output ''succeeded'' (itoa (BatchSucceeded j)) (result_Output ''failed'' (itoa (BatchFailed j))
                     (result_Output ''owner'' owner result)), None, s))))"

definition job_refusal :: "target \<Rightarrow> go_error \<Rightarrow> go_error" where
  "job_refusal t e =
     (if is_forbidden e then Wrap (''not permitted to delete '' @ target_string t @ '': '') e ''''
      else if is_not_found e then Wrap (target_string t @ '' went away before it could be deleted: '') e ''''
      else Wrap (''delete '' @ target_string t @ '': '') e '''')"

definition job_Execute :: "'w job_delete \<Rightarrow> ctx \<Rightarrow> request \<Rightarrow> 'w astate \<Rightarrow> 'w astate outcome" where
  "job_Execute a c r s =
     (let t = ReqTarget r; (got, s) = job_fetch (JobClient a) t s in
      case got of Inl e \<Rightarrow> (zero_result, Some e, s)
      | Inr j \<Rightarrow>
          (case propagation (ReqParams r) of
             Inl e \<Rightarrow> (zero_result, Some e, s)
           | Inr policy \<Rightarrow>
               (let ch = DeleteObject ''Job'' (TNamespace t) (TName t) policy;
                    (err, s) = changing ch (SendDelete (JobClient a) ch) s
                in case err of
                     Some e \<Rightarrow> (zero_result, Some (job_refusal t e), s)
                   | None \<Rightarrow>
                       (result_Output ''uid'' (BatchUID j) (result_Output ''propagationPolicy'' policy
                          (result_Output ''owner'' (owner_description (BatchOwners j))
                            (zero_result\<lparr>Summary := ''deleted '' @ target_string t @ '' ('' @ itoa (BatchFailed j)
                                 @ '' failed pods), propagating to its pods'', ResultKubectl := kubectlDeleteJob t\<rparr>))), None, s))))"

definition job_look :: "'w job_delete \<Rightarrow> target \<Rightarrow> string \<Rightarrow> 'w astate \<Rightarrow> string look \<times> 'w astate" where
  "job_look a t seen s =
     (let (got, s) = job_fetch (JobClient a) t s in
      case got of
        Inl e \<Rightarrow>
          (if is_not_found e
           then (Answer (result_Output ''outcome'' ''deleted'' (zero_result\<lparr>Summary := target_string t @ '' is gone''\<rparr>)) None, s)
           else (Answer zero_result (Some e), s))
      | Inr j \<Rightarrow> (Again (target_string t @ (if BatchTerminating j then '' is terminating'' else '' still exists'')), s))"

definition job_expired :: "string \<Rightarrow> 'w astate \<Rightarrow> 'w astate outcome" where
  "job_expired says s = (zero_result\<lparr>Summary := says\<rparr>, Some (Err (''the job did not go away in time: '' @ says)), s)"

definition job_Verify :: "'w job_delete \<Rightarrow> ctx \<Rightarrow> request \<Rightarrow> result \<Rightarrow> 'w astate \<Rightarrow> 'w astate outcome" where
  "job_Verify a c r executed s =
     verify_poll c (JobPoll a) (JobWait (JobClient a)) (job_look a (ReqTarget r)) job_expired '''' s"

definition job_action :: "'w job_delete \<Rightarrow> 'w astate action" where
  "job_action a = \<lparr>ActName = ''job.delete'', ActType = ''*workload.JobDelete'', ActResolve = job_Resolve,
     ActPlan = job_Plan a, ActExecute = job_Execute a, ActVerify = Some (job_Verify a)\<rparr>"

lemma job_fetchD: "job_fetch cl t s = (x, s') \<Longrightarrow> Changes s' = Changes s"
  by (auto simp: job_fetch_def dest: readingD split: prod.splits)

definition job_intended :: "request \<Rightarrow> change \<Rightarrow> bool" where
  "job_intended r ch \<longleftrightarrow> (\<exists>policy \<in> {''Background'', ''Foreground'', ''Orphan''}.
     ch = DeleteObject ''Job'' (TNamespace (ReqTarget r)) (TName (ReqTarget r)) policy)"

lemma propagation_policy: "propagation p = Inr policy \<Longrightarrow> policy \<in> {''Background'', ''Foreground'', ''Orphan''}"
  by (auto simp: propagation_def Let_def split: if_splits)

lemma job_intendedI: "propagation p = Inr policy \<Longrightarrow>
    job_intended r (DeleteObject ''Job'' (TNamespace (ReqTarget r)) (TName (ReqTarget r)) policy)"
  using propagation_policy by (auto simp: job_intended_def)

interpretation job_deletion: predictable_action "job_Plan a" "job_Execute a" job_intended for a
proof unfold_locales
  fix c r s
  show "Changes (snd (snd (job_Plan a c r s))) = Changes s"
    by (auto simp: job_Plan_def Let_def dest: job_fetchD split: prod.splits sum.splits)
  show "\<exists>cs. Changes (snd (snd (job_Execute a c r s))) = Changes s @ cs \<and> length cs \<le> 1 \<and> list_all (job_intended r) cs"
    by (auto simp: job_Execute_def Let_def intro: job_intendedI dest!: job_fetchD changingD split: prod.splits sum.splits option.splits)
  show "fst (snd (job_Execute a c r s)) = Some e \<and> Changes (snd (snd (job_Execute a c r s))) = Changes s"
    if "fst (snd (job_Plan a c r s)) = Some e" for e
    using that by (auto simp: job_Execute_def job_Plan_def Let_def dest: job_fetchD split: prod.splits sum.splits)
  show "(\<exists>ch. Changes (snd (snd (job_Execute a c r s))) = Changes s @ [ch]) \<or> fst (snd (job_Execute a c r s)) = None"
    if "fst (snd (job_Plan a c r s)) = None"
    using that by (auto simp: job_Execute_def job_Plan_def Let_def dest!: job_fetchD changingD split: prod.splits sum.splits option.splits)
qed

lemma job_Verify_reads: "Changes (snd (snd (job_Verify a c r x s))) = Changes s"
proof -
  have "Changes (snd (job_look a t b s)) = Changes s" for t b s
    by (auto simp: job_look_def dest: job_fetchD split: prod.splits sum.splits)
  then show ?thesis unfolding job_Verify_def by (intro poll_until_reads) (simp_all add: job_expired_def)
qed

end
