(* ===== verification/Rollback.thy ===== *)
theory Rollback
  imports PodDelete
begin

text \<open>
  \<open>internal/action/workload/rollback.go\<close>: putting back an earlier revision of a Deployment, which one
  that is, and the refusal of what a GitOps controller manages. How a pod template is written as
  JSON is the API machinery's; here it is a parameter.
\<close>

definition RevisionAnnotation :: string where "RevisionAnnotation = ''deployment.kubernetes.io/revision''"
definition ToRevisionParam :: string where "ToRevisionParam = ''toRevision''"
definition IgnoreGitOpsParam :: string where "IgnoreGitOpsParam = ''ignoreGitOps''"

record pod_template =
  TemplateLabels :: smap
  TemplateRest :: string

record replica_set =
  RsName :: string
  RsOwners :: "owner_ref list"
  RsAnnotations :: smap
  RsTemplate :: pod_template

record 'w rollback_client =
  RollbackWorkloads :: "'w workload_client"
  ListReplicaSets :: "string \<Rightarrow> 'w \<Rightarrow> (go_error + replica_set list) \<times> 'w"
  SendRollback :: "change \<Rightarrow> 'w \<Rightarrow> go_error option \<times> 'w"
  EncodeTemplate :: "pod_template \<Rightarrow> go_error + string"

record 'w deployment_rollback =
  RollbackClient :: "'w rollback_client"
  RollbackPoll :: duration

definition NewDeploymentRollback :: "'w rollback_client \<Rightarrow> 'w deployment_rollback" where
  "NewDeploymentRollback c = \<lparr>RollbackClient = c, RollbackPoll = DefaultVerifyPoll\<rparr>"

definition rollback_Resolve :: "smap \<Rightarrow> params \<Rightarrow> go_error + target" where
  "rollback_Resolve labels p =
     (let namespace = param_or_label p labels LabelNamespace; name = params_Get p NameParam (param_or_label p labels LabelDeployment) in
      if namespace = '''' then Inl no_namespace
      else if name = '''' then Inl (Err (''no deployment: the alert has no '' @ quote LabelDeployment @ '' label and the step sets no ''
             @ quote LabelDeployment @ '' parameter''))
      else Inr \<lparr>TKind = ''Deployment'', TNamespace = namespace, TName = name\<rparr>)"

section \<open>Which revision\<close>

text \<open>The markers of Argo CD and Flux: key, whether it is an annotation, controller.\<close>

definition gitOpsMarkers :: "(string \<times> bool \<times> string) list" where
  "gitOpsMarkers = [(''argocd.argoproj.io/instance'', True, ''Argo CD''), (''app.kubernetes.io/instance'', False, ''Argo CD''),
     (''kustomize.toolkit.fluxcd.io/name'', False, ''Flux''), (''helm.toolkit.fluxcd.io/name'', False, ''Flux'')]"

definition marker_value :: "replicated_object \<Rightarrow> string \<times> bool \<times> string \<Rightarrow> string" where
  "marker_value d m = map_get (if fst (snd m) then RoAnnotations d else RoLabels d) (fst m)"

definition checkGitOps :: "replicated_object \<Rightarrow> request \<Rightarrow> go_error option" where
  "checkGitOps d r =
     (if params_Get (ReqParams r) IgnoreGitOpsParam ''false'' = ''true'' then None
      else case find (\<lambda>m. marker_value d m \<noteq> '''') gitOpsMarkers of
        None \<Rightarrow> None
      | Some m \<Rightarrow> Some (Err (target_string (ReqTarget r) @ '' is managed by '' @ snd (snd m) @ '' (''
          @ (if fst (snd m) then ''annotation'' else ''label'') @ '' '' @ fst m @ ''='' @ marker_value d m
          @ ''): a rollback would be reverted within minutes, and remedik would have recorded a success while the outage continued. Revert the commit instead, or set ''
          @ IgnoreGitOpsParam @ ''='' @ quote ''true'' @ '' on the step if you know better'')))"

definition ownedReplicaSets :: "replicated_object \<Rightarrow> replica_set list \<Rightarrow> replica_set list" where
  "ownedReplicaSets d sets = filter (\<lambda>rs. list_ex (\<lambda>ref. OwController ref = Some True \<and> OwUID ref = RoUID d) (RsOwners rs)) sets"

definition revisionOf :: "smap \<Rightarrow> int" where
  "revisionOf annotations = (case parse_int 64 (map_get annotations RevisionAnnotation) of None \<Rightarrow> 0 | Some n \<Rightarrow> n)"

definition rs_revision :: "replica_set \<Rightarrow> int" where
  "rs_revision rs = revisionOf (RsAnnotations rs)"

definition revisionList :: "replica_set list \<Rightarrow> string" where
  "revisionList sets = join '', '' (map (itoa \<circ> rs_revision) sets)"

definition requestedRevision :: "params \<Rightarrow> go_error + int" where
  "requestedRevision p =
     (let raw = params_Get p ToRevisionParam '''' in
      if raw = '''' then Inr 0
      else case parse_int 64 raw of
        Some n \<Rightarrow> if n \<le> 0 then Inl (Err (''parameter '' @ quote ToRevisionParam @ '': '' @ quote raw @ '' is not a revision number''))
                  else Inr n
      | None \<Rightarrow> Inl (Err (''parameter '' @ quote ToRevisionParam @ '': '' @ quote raw @ '' is not a revision number'')))"

definition newest_revision_first :: "replica_set list \<Rightarrow> replica_set list" where
  "newest_revision_first owned = sort_slice (\<lambda>a b. rs_revision a > rs_revision b) owned"

definition choose_revision :: "target \<Rightarrow> params \<Rightarrow> int \<Rightarrow> replica_set list \<Rightarrow> go_error + replica_set" where
  "choose_revision t p current owned =
     (case requestedRevision p of
        Inl e \<Rightarrow> Inl e
      | Inr wanted \<Rightarrow>
          if wanted = 0
          then (case find (\<lambda>rs. rs_revision rs < current) owned of
                  Some rs \<Rightarrow> Inr rs
                | None \<Rightarrow> Inl (Err (target_string t @ '' is at revision '' @ itoa current
                    @ '' and has no earlier one kept: there is nothing to roll back to'')))
          else (case find (\<lambda>rs. rs_revision rs = wanted) owned of
                  Some rs \<Rightarrow> if wanted = current
                    then Inl (Err (target_string t @ '' is already at revision '' @ itoa wanted)) else Inr rs
                | None \<Rightarrow> Inl (Err (target_string t @ '' has no revision '' @ itoa wanted @ '' kept; available: '' @ revisionList owned))))"

record rollback =
  RollbackCurrent :: int
  RollbackRevision :: int
  RollbackSet :: replica_set

definition rollbackTarget :: "'w deployment_rollback \<Rightarrow> request \<Rightarrow> 'w astate \<Rightarrow> (go_error + (replicated_object \<times> rollback)) \<times> 'w astate" where
  "rollbackTarget a r s =
     (let cl = RollbackClient a; t = ReqTarget r;
          (got, s) = reading (ReadDeployment (RollbackWorkloads cl) (TNamespace t) (TName t)) s
      in case got of
           Inl e \<Rightarrow> (Inl (if is_not_found e then Wrap (target_string t @ '' does not exist: '') e ''''
                          else Wrap (''read '' @ target_string t @ '': '') e ''''), s)
         | Inr d \<Rightarrow>
             (case checkGitOps d r of
                Some e \<Rightarrow> (Inl e, s)
              | None \<Rightarrow>
                  (let current = revisionOf (RoAnnotations d);
                       (listed, s) = reading (ListReplicaSets cl (TNamespace t)) s
                   in case listed of
                        Inl e \<Rightarrow> (Inl (Wrap (''list the revisions of '' @ target_string t @ '': '') e ''''), s)
                      | Inr sets \<Rightarrow>
                          (let owned = ownedReplicaSets d sets in
                           if owned = []
                           then (Inl (Err (target_string t @ '' has no revision history to roll back to: its ReplicaSets are gone, which usually means revisionHistoryLimit is 0'')), s)
                           else (case choose_revision t (ReqParams r) current (newest_revision_first owned) of
                                   Inl e \<Rightarrow> (Inl e, s)
                                 | Inr rs \<Rightarrow> (Inr (d, \<lparr>RollbackCurrent = current, RollbackRevision = rs_revision rs, RollbackSet = rs\<rparr>), s))))))"

section \<open>The action\<close>

definition kubectlRollback :: "target \<Rightarrow> int \<Rightarrow> string" where
  "kubectlRollback t revision = ''kubectl rollout undo deployment/'' @ TName t @ '' -n '' @ TNamespace t
     @ '' --to-revision='' @ itoa revision"

definition rollback_Plan :: "'w deployment_rollback \<Rightarrow> ctx \<Rightarrow> request \<Rightarrow> 'w astate \<Rightarrow> 'w astate outcome" where
  "rollback_Plan a c r s =
     (let (planned, s) = rollbackTarget a r s in
      case planned of Inl e \<Rightarrow> (zero_result, Some e, s)
      | Inr (d, rb) \<Rightarrow>
          (result_Output ''replicas'' (itoa (RolloutDesired (replicated_rollout d)))
            (result_Output ''toRevision'' (itoa (RollbackRevision rb)) (result_Output ''currentRevision'' (itoa (RollbackCurrent rb))
              (zero_result\<lparr>Summary := ''roll '' @ target_string (ReqTarget r) @ '' back from revision '' @ itoa (RollbackCurrent rb)
                   @ '' to revision '' @ itoa (RollbackRevision rb),
                 ResultKubectl := kubectlRollback (ReqTarget r) (RollbackRevision rb)\<rparr>))), None, s))"

text \<open>The template that goes back is the old one without the hash its ReplicaSet was labelled with.\<close>

definition restored_template :: "replica_set \<Rightarrow> pod_template" where
  "restored_template rs = (RsTemplate rs)\<lparr>TemplateLabels := filter (\<lambda>(k, v). k \<noteq> ''pod-template-hash'') (TemplateLabels (RsTemplate rs))\<rparr>"

definition rollback_change :: "target \<Rightarrow> string \<Rightarrow> change" where
  "rollback_change t encoded = Patch ''Deployment'' (TNamespace t) (TName t) '''' ''merge''
     (json_object [(''spec'', json_object [(''template'', encoded)])])"

definition rollback_Execute :: "'w deployment_rollback \<Rightarrow> ctx \<Rightarrow> request \<Rightarrow> 'w astate \<Rightarrow> 'w astate outcome" where
  "rollback_Execute a c r s =
     (let (planned, s) = rollbackTarget a r s in
      case planned of Inl e \<Rightarrow> (zero_result, Some e, s)
      | Inr (d, rb) \<Rightarrow>
          (let t = ReqTarget r in
           case EncodeTemplate (RollbackClient a) (restored_template (RollbackSet rb)) of
             Inl e \<Rightarrow> (zero_result, Some (Wrap ''build the rollback patch: '' e ''''), s)
           | Inr encoded \<Rightarrow>
               (let (err, s) = changing (rollback_change t encoded) (SendRollback (RollbackClient a) (rollback_change t encoded)) s in
                case err of
                  Some e \<Rightarrow> (zero_result, Some (if is_forbidden e
                      then Wrap (''not permitted to update '' @ target_string t @ '': '') e ''''
                      else Wrap (''roll '' @ target_string t @ '' back: '') e ''''), s)
                | None \<Rightarrow>
                    (result_Output ''replicaSet'' (RsName (RollbackSet rb))
                      (result_Output ''fromRevision'' (itoa (RollbackCurrent rb)) (result_Output ''rolledBackTo'' (itoa (RollbackRevision rb))
                        (zero_result\<lparr>Summary := ''rolled '' @ target_string t @ '' back to revision '' @ itoa (RollbackRevision rb)
                             @ '' (from '' @ itoa (RollbackCurrent rb) @ '')'',
                           ResultKubectl := kubectlRollback t (RollbackRevision rb)\<rparr>))), None, s))))"

definition rollback_Verify :: "'w deployment_rollback \<Rightarrow> ('w \<Rightarrow> time \<times> 'w) \<Rightarrow> ctx \<Rightarrow> request \<Rightarrow> result \<Rightarrow> 'w astate \<Rightarrow> 'w astate outcome" where
  "rollback_Verify a now c r executed s =
     restart_Verify \<lparr>RestartClient = RollbackWorkloads (RollbackClient a), RestartNow = now, RestartPoll = RollbackPoll a,
        RestartName = ''deployment.rollback'', PinnedKind = ''Deployment''\<rparr> (WithVerifyDeadline c) r zero_result s"

definition rollback_action :: "'w deployment_rollback \<Rightarrow> ('w \<Rightarrow> time \<times> 'w) \<Rightarrow> 'w astate action" where
  "rollback_action a now = \<lparr>ActName = ''deployment.rollback'', ActType = ''*workload.DeploymentRollback'', ActResolve = rollback_Resolve,
     ActPlan = rollback_Plan a, ActExecute = rollback_Execute a, ActVerify = Some (rollback_Verify a now)\<rparr>"

section \<open>What is rolled back to\<close>

lemma newest_revision_first_sorted: "sorted_wrt (\<lambda>a b. rs_revision b \<le> rs_revision a) (newest_revision_first owned)"
proof -
  have "strict_weak (\<lambda>a b. rs_revision a > rs_revision b)" by (auto simp: strict_weak_def)
  from sorted_sort_slice [OF this, of owned] show ?thesis by (simp add: newest_revision_first_def not_less)
qed

lemma find_sorted_greatest:
  assumes "sorted_wrt (\<lambda>a b. f b \<le> (f a :: int)) xs" and "find P xs = Some x" and "y \<in> set xs" and "P y"
  shows "f y \<le> f x"
  using assms by (induction xs) (auto split: if_splits)

lemma find_Some_iff': "find P xs = Some x \<Longrightarrow> x \<in> set xs \<and> P x"
  by (induction xs) (auto split: if_splits)

text \<open>Without a revision asked for it is the latest of the earlier ones, otherwise the one asked for.\<close>

lemma choose_revisionD:
  assumes "choose_revision t p current (newest_revision_first owned) = Inr rs"
  shows "rs \<in> set owned \<and> rs_revision rs \<noteq> current
    \<and> (if params_Get p ToRevisionParam '''' = ''''
       then rs_revision rs < current \<and> (\<forall>y \<in> set owned. rs_revision y < current \<longrightarrow> rs_revision y \<le> rs_revision rs)
       else parse_int 64 (params_Get p ToRevisionParam '''') = Some (rs_revision rs))"
proof (cases "params_Get p ToRevisionParam '''' = ''''")
  case True
  then have f: "find (\<lambda>rs. rs_revision rs < current) (newest_revision_first owned) = Some rs"
    using assms by (auto simp: choose_revision_def requestedRevision_def split: option.splits)
  from find_Some_iff' [OF f] find_sorted_greatest [OF newest_revision_first_sorted f] True show ?thesis
    by (auto simp: newest_revision_first_def)
next
  case False
  then obtain wanted where w: "requestedRevision p = Inr wanted" "wanted \<noteq> 0" "parse_int 64 (params_Get p ToRevisionParam '''') = Some wanted"
    using assms by (auto simp: choose_revision_def requestedRevision_def Let_def split: sum.splits option.splits if_splits)
  then have "find (\<lambda>rs. rs_revision rs = wanted) (newest_revision_first owned) = Some rs \<and> wanted \<noteq> current"
    using assms by (auto simp: choose_revision_def split: option.splits if_splits)
  then show ?thesis using find_Some_iff' [of "\<lambda>rs. rs_revision rs = wanted" "newest_revision_first owned" rs] w False
    by (simp add: newest_revision_first_def)
qed

lemma rollbackTargetD:
  assumes "rollbackTarget a r s = (x, s')"
  shows "Changes s' = Changes s \<and> (\<forall>d rb. x = Inr (d, rb) \<longrightarrow> checkGitOps d r = None
    \<and> (\<exists>sets. choose_revision (ReqTarget r) (ReqParams r) (revisionOf (RoAnnotations d)) (newest_revision_first (ownedReplicaSets d sets))
          = Inr (RollbackSet rb))
    \<and> RollbackCurrent rb = revisionOf (RoAnnotations d) \<and> RollbackRevision rb = rs_revision (RollbackSet rb))"
  using assms by (auto simp: rollbackTarget_def Let_def dest!: readingD split: prod.splits sum.splits option.splits if_splits)

definition rollback_intended :: "request \<Rightarrow> change \<Rightarrow> bool" where
  "rollback_intended r ch \<longleftrightarrow> (\<exists>encoded. ch = rollback_change (ReqTarget r) encoded)"

lemma rollback_intendedI: "rollback_intended r (rollback_change (ReqTarget r) encoded)"
  by (auto simp: rollback_intended_def)

interpretation rollback: planned_action "rollback_Plan a" "rollback_Execute a" rollback_intended for a
proof unfold_locales
  fix c r s
  show "Changes (snd (snd (rollback_Plan a c r s))) = Changes s"
    by (auto simp: rollback_Plan_def dest: rollbackTargetD split: prod.splits sum.splits)
  show "\<exists>cs. Changes (snd (snd (rollback_Execute a c r s))) = Changes s @ cs \<and> length cs \<le> 1 \<and> list_all (rollback_intended r) cs"
    by (auto simp: rollback_Execute_def Let_def rollback_intendedI dest!: changingD split: prod.splits sum.splits option.splits)
      (auto dest!: rollbackTargetD intro: rollback_intendedI)
  show "fst (snd (rollback_Execute a c r s)) = Some e \<and> Changes (snd (snd (rollback_Execute a c r s))) = Changes s"
    if "fst (snd (rollback_Plan a c r s)) = Some e" for e
    using that by (auto simp: rollback_Execute_def rollback_Plan_def dest: rollbackTargetD split: prod.splits sum.splits)
qed

lemma rollback_Verify_reads: "Changes (snd (snd (rollback_Verify a now c r x s))) = Changes s"
  by (simp add: rollback_Verify_def restart_Verify_reads)

end
