(* ===== verification/Node.thy ===== *)
theory Node
  imports PodDelete
begin

text \<open>
  \<open>internal/action/node/cordon.go\<close> and \<open>drain.go\<close>: making a node schedulable or not, and emptying it.
  \<open>Execute\<close> of the drain is a loop that waits for disruption budgets until its context ends. The
  engine gives a plan's execution no deadline, so the loop may not end: its model is a partial
  function whose value is \<open>None\<close> when it does not.
\<close>

definition LabelNode :: string where "LabelNode = ''node''"
definition DefaultPoll :: duration where "DefaultPoll = 2 * second"

record node =
  NodeUnschedulable :: bool
  NodeConditions :: "(string \<times> string) list"

record 'w node_client =
  GetNode :: "string \<Rightarrow> 'w \<Rightarrow> (go_error + node) \<times> 'w"
  PatchNode :: "change \<Rightarrow> 'w \<Rightarrow> (go_error + node) \<times> 'w"
  ListNodePods :: "string \<Rightarrow> 'w \<Rightarrow> (go_error + pod list) \<times> 'w"
  EvictPod :: "change \<Rightarrow> 'w \<Rightarrow> go_error option \<times> 'w"
  NodeWait :: "duration \<Rightarrow> 'w \<Rightarrow> 'w"

definition resolveNode :: "smap \<Rightarrow> params \<Rightarrow> go_error + target" where
  "resolveNode labels p =
     (let name = params_Get p NameParam (param_or_label p labels LabelNode) in
      if name = '''' then Inl (Err (''no node: the alert has no '' @ quote LabelNode @ '' label and the step sets no ''
             @ quote NameParam @ '' parameter''))
      else Inr \<lparr>TKind = ''Node'', TNamespace = '''', TName = name\<rparr>)"

definition fetchNode :: "'w node_client \<Rightarrow> target \<Rightarrow> 'w astate \<Rightarrow> (go_error + node) \<times> 'w astate" where
  "fetchNode cl t s =
     (let (got, s) = reading (GetNode cl (TName t)) s in
      (case got of Inl e \<Rightarrow> Inl (fetch_error t e) | Inr n \<Rightarrow> Inr n, s))"

definition isReady :: "node \<Rightarrow> bool" where
  "isReady n = (case find (\<lambda>c. fst c = ''Ready'') (NodeConditions n) of Some c \<Rightarrow> snd c = ''True'' | None \<Rightarrow> False)"

lemma fetchNodeD: "fetchNode cl t s = (x, s') \<Longrightarrow> Changes s' = Changes s"
  by (auto simp: fetchNode_def dest: readingD split: prod.splits)

section \<open>node.cordon and node.uncordon\<close>

record 'w cordon =
  CordonClient :: "'w node_client"
  CordonPoll :: duration
  MakeUnschedulable :: bool
  CordonName :: string

definition NewCordon :: "'w node_client \<Rightarrow> 'w cordon" where
  "NewCordon c = \<lparr>CordonClient = c, CordonPoll = DefaultPoll, MakeUnschedulable = True, CordonName = ''node.cordon''\<rparr>"

definition NewUncordon :: "'w node_client \<Rightarrow> 'w cordon" where
  "NewUncordon c = \<lparr>CordonClient = c, CordonPoll = DefaultPoll, MakeUnschedulable = False, CordonName = ''node.uncordon''\<rparr>"

definition schedulability :: "bool \<Rightarrow> string" where
  "schedulability b = (if b then ''unschedulable'' else ''schedulable'')"

definition cordon_describe :: "'w cordon \<Rightarrow> target \<Rightarrow> node \<Rightarrow> result" where
  "cordon_describe a t n =
     (let word = (if MakeUnschedulable a then ''cordon'' else ''uncordon'') in
      result_Output ''ready'' (json_bool (isReady n)) (result_Output ''unschedulable'' (json_bool (NodeUnschedulable n))
        (zero_result\<lparr>Summary := word @ '' '' @ target_string t @ '': it is currently '' @ schedulability (NodeUnschedulable n),
                     ResultKubectl := ''kubectl '' @ word @ '' '' @ TName t\<rparr>)))"

definition cordon_Plan :: "'w cordon \<Rightarrow> ctx \<Rightarrow> request \<Rightarrow> 'w astate \<Rightarrow> 'w astate outcome" where
  "cordon_Plan a c r s =
     (let (got, s) = fetchNode (CordonClient a) (ReqTarget r) s in
      case got of Inl e \<Rightarrow> (zero_result, Some e, s) | Inr n \<Rightarrow> (cordon_describe a (ReqTarget r) n, None, s))"

definition cordon_change :: "target \<Rightarrow> bool \<Rightarrow> change" where
  "cordon_change t b = Patch ''Node'' '''' (TName t) '''' ''merge''
     (json_object [(''spec'', json_object [(''unschedulable'', json_bool b)])])"

definition cordon_Execute :: "'w cordon \<Rightarrow> ctx \<Rightarrow> request \<Rightarrow> 'w astate \<Rightarrow> 'w astate outcome" where
  "cordon_Execute a c r s =
     (let t = ReqTarget r; (got, s) = fetchNode (CordonClient a) t s in
      case got of Inl e \<Rightarrow> (zero_result, Some e, s)
      | Inr n \<Rightarrow>
          if NodeUnschedulable n = MakeUnschedulable a
          then (result_Output ''changed'' ''false'' (cordon_describe a t n), None, s)
          else
            (let ch = cordon_change t (MakeUnschedulable a);
                 (patched, s) = changing ch (PatchNode (CordonClient a) ch) s
             in case patched of
                  Inl e \<Rightarrow> (zero_result, Some (if is_forbidden e
                      then Wrap (''not permitted to patch '' @ target_string t @ '': '') e ''''
                      else Wrap (''patch '' @ target_string t @ '': '') e ''''), s)
                | Inr n \<Rightarrow> (result_Output ''changed'' ''true'' (cordon_describe a t n), None, s)))"

definition cordon_look :: "'w cordon \<Rightarrow> target \<Rightarrow> unit \<Rightarrow> 'w astate \<Rightarrow> unit look \<times> 'w astate" where
  "cordon_look a t seen s =
     (let (got, s) = fetchNode (CordonClient a) t s in
      case got of Inl e \<Rightarrow> (Answer zero_result (Some e), s)
      | Inr n \<Rightarrow>
          if NodeUnschedulable n = MakeUnschedulable a
          then (Answer (zero_result\<lparr>Summary := target_string t @ '' is '' @ schedulability (MakeUnschedulable a)\<rparr>) None, s)
          else (Again (), s))"

definition cordon_expired :: "'w cordon \<Rightarrow> target \<Rightarrow> unit \<Rightarrow> 'w astate \<Rightarrow> 'w astate outcome" where
  "cordon_expired a t seen s =
     (zero_result\<lparr>Summary := target_string t @ '' is still '' @ schedulability (\<not> MakeUnschedulable a)\<rparr>,
      Some (Err (target_string t @ '' did not become '' @ schedulability (MakeUnschedulable a) @ '' in time'')), s)"

definition cordon_Verify :: "'w cordon \<Rightarrow> ctx \<Rightarrow> request \<Rightarrow> result \<Rightarrow> 'w astate \<Rightarrow> 'w astate outcome" where
  "cordon_Verify a c r executed s =
     verify_poll c (CordonPoll a) (NodeWait (CordonClient a)) (cordon_look a (ReqTarget r)) (cordon_expired a (ReqTarget r)) () s"

definition cordon_action :: "'w cordon \<Rightarrow> 'w astate action" where
  "cordon_action a = \<lparr>ActName = CordonName a, ActType = ''*node.Cordon'', ActResolve = resolveNode,
     ActPlan = cordon_Plan a, ActExecute = cordon_Execute a, ActVerify = Some (cordon_Verify a)\<rparr>"

definition cordon_intended :: "'w cordon \<Rightarrow> request \<Rightarrow> change \<Rightarrow> bool" where
  "cordon_intended a r ch \<longleftrightarrow> ch = cordon_change (ReqTarget r) (MakeUnschedulable a)"

interpretation cordon: predictable_action "cordon_Plan a" "cordon_Execute a" "cordon_intended a" for a
proof unfold_locales
  fix c r s
  show "Changes (snd (snd (cordon_Plan a c r s))) = Changes s"
    by (auto simp: cordon_Plan_def dest: fetchNodeD split: prod.splits sum.splits)
  show "\<exists>cs. Changes (snd (snd (cordon_Execute a c r s))) = Changes s @ cs \<and> length cs \<le> 1 \<and> list_all (cordon_intended a r) cs"
    by (auto simp: cordon_Execute_def cordon_intended_def Let_def dest!: fetchNodeD changingD split: prod.splits sum.splits)
  show "fst (snd (cordon_Execute a c r s)) = Some e \<and> Changes (snd (snd (cordon_Execute a c r s))) = Changes s"
    if "fst (snd (cordon_Plan a c r s)) = Some e" for e
    using that by (auto simp: cordon_Execute_def cordon_Plan_def Let_def dest: fetchNodeD split: prod.splits sum.splits)
  show "(\<exists>ch. Changes (snd (snd (cordon_Execute a c r s))) = Changes s @ [ch]) \<or> fst (snd (cordon_Execute a c r s)) = None"
    if "fst (snd (cordon_Plan a c r s)) = None"
    using that by (auto simp: cordon_Execute_def cordon_Plan_def Let_def dest!: fetchNodeD changingD split: prod.splits sum.splits)
qed

lemma cordon_Verify_reads: "Changes (snd (snd (cordon_Verify a c r x s))) = Changes s"
proof -
  have "Changes (snd (cordon_look a t b s)) = Changes s" for t b s
    by (auto simp: cordon_look_def dest: fetchNodeD split: prod.splits sum.splits)
  then show ?thesis unfolding cordon_Verify_def by (intro poll_until_reads) (simp_all add: cordon_expired_def)
qed

end
