(* ===== verification/Drain.thy ===== *)
theory Drain
  imports Node
begin

text \<open>
  \<open>internal/action/node/drain.go\<close>: which pods a drain may evict, the loop that evicts them while
  disruption budgets refuse, and the verification. \<open>evict_loop\<close> is a partial function: its value is
  \<open>None\<close> when the loop does not end, which happens only without a deadline on the context.
\<close>

section \<open>Which pods a drain evicts\<close>

definition DeleteEmptyDirParam :: string where "DeleteEmptyDirParam = ''deleteEmptyDirData''"
definition EvictBarePodsParam :: string where "EvictBarePodsParam = ''evictBarePods''"
definition MaxPodsParam :: string where "MaxPodsParam = ''maxPods''"
definition mirrorPodAnnotation :: string where "mirrorPodAnnotation = ''kubernetes.io/config.mirror''"
definition retryAfterRefusal :: duration where "retryAfterRefusal = 5 * second"

record 'w drain =
  DrainClient :: "'w node_client"
  DrainPoll :: duration

definition NewDrain :: "'w node_client \<Rightarrow> 'w drain" where
  "NewDrain c = \<lparr>DrainClient = c, DrainPoll = retryAfterRefusal\<rparr>"

record skipped_pod =
  SkippedPod :: string
  SkippedReason :: string

definition isTerminal :: "pod \<Rightarrow> bool" where
  "isTerminal p \<longleftrightarrow> PodPhase p = ''Succeeded'' \<or> PodPhase p = ''Failed''"

definition ownerKind :: "pod \<Rightarrow> string" where
  "ownerKind p = (case controller_ref (PodOwners p) of Some ref \<Rightarrow> OwKind ref | None \<Rightarrow> '''')"

definition hasEmptyDir :: "pod \<Rightarrow> bool" where
  "hasEmptyDir p \<longleftrightarrow> list_ex id (PodEmptyDirs p)"

definition podName :: "pod \<Rightarrow> string" where
  "podName p = PodNamespace p @ ''/'' @ PodName p"

datatype verdict = Elsewhere | Skip string | Evict

definition drain_verdict :: "request \<Rightarrow> pod \<Rightarrow> verdict" where
  "drain_verdict r p =
     (let allowEmptyDir = params_Get (ReqParams r) DeleteEmptyDirParam ''false'' = ''true'';
          allowBare = params_Get (ReqParams r) EvictBarePodsParam ''false'' = ''true''
      in if PodNode p \<noteq> TName (ReqTarget r) then Elsewhere
         else if isTerminal p then Skip ''already finished''
         else if map_get (PodAnnotations p) mirrorPodAnnotation \<noteq> '''' then Skip ''a mirror pod''
         else if ownerKind p = ''DaemonSet'' then Skip ''owned by a DaemonSet''
         else if ownerKind p = '''' \<and> \<not> allowBare then Skip ''has no controller, so nothing would recreate it''
         else if hasEmptyDir p \<and> \<not> allowEmptyDir then Skip ''uses an emptyDir whose contents would be lost''
         else Evict)"

definition skipped_of :: "request \<Rightarrow> pod list \<Rightarrow> skipped_pod list" where
  "skipped_of r pods =
     concat (map (\<lambda>p. case drain_verdict r p of Skip reason \<Rightarrow> [\<lparr>SkippedPod = podName p, SkippedReason = reason\<rparr>] | _ \<Rightarrow> []) pods)"

definition plural :: "nat \<Rightarrow> string \<Rightarrow> string" where
  "plural n unit = (if n = 1 then ''1 '' @ unit else nat_str n @ '' '' @ unit @ ''s'')"

definition drain_names :: "pod list \<Rightarrow> string" where
  "drain_names pods =
     join '', '' (map podName (take 10 pods)
       @ (if 10 < length pods then [''and '' @ nat_str (length pods - 10) @ '' more''] else []))"

definition summarise :: "skipped_pod list \<Rightarrow> string" where
  "summarise skipped =
     (if skipped = [] then ''nothing skipped''
      else (let reasons = map SkippedReason skipped in
        ''skipping '' @ join '', '' (map (\<lambda>reason. nat_str (count_list reasons reason) @ '' '' @ reason) (sort (remdups reasons)))))"

definition kubectlDrain :: "target \<Rightarrow> string" where
  "kubectlDrain t = ''kubectl drain '' @ TName t @ '' --ignore-daemonsets --delete-emptydir-data=false''"

text \<open>\<open>classify\<close>: the pods to evict and the ones left alone, or why the drain is refused.\<close>

definition drain_limit :: "request \<Rightarrow> nat \<Rightarrow> go_error option" where
  "drain_limit r k =
     (let limit = params_Get (ReqParams r) MaxPodsParam '''' in
      if limit = '''' then None
      else case atoi limit of
        None \<Rightarrow> Some (Err (''parameter '' @ quote MaxPodsParam @ '': '' @ quote limit @ '' is not a positive number''))
      | Some n \<Rightarrow>
          if n \<le> 0 then Some (Err (''parameter '' @ quote MaxPodsParam @ '': '' @ quote limit @ '' is not a positive number''))
          else if n < int k
          then Some (Err (target_string (ReqTarget r) @ '' holds '' @ nat_str k @ '' evictable pods and the step allows ''
                 @ itoa n @ '': draining it would move more than this strategy said it may''))
          else None)"

definition drain_classify ::
  "'w drain \<Rightarrow> request \<Rightarrow> 'w astate \<Rightarrow> (go_error + pod list \<times> skipped_pod list) \<times> 'w astate" where
  "drain_classify a r s =
     (let (got, s) = reading (ListNodePods (DrainClient a) (TName (ReqTarget r))) s in
      (case got of
         Inl e \<Rightarrow> Inl (Wrap (''list the pods on '' @ target_string (ReqTarget r) @ '': '') e '''')
       | Inr pods \<Rightarrow>
           (let evictable = sort_slice (\<lambda>p q. podName p < podName q) (filter (\<lambda>p. drain_verdict r p = Evict) pods);
                skipped = sort_slice (\<lambda>p q. SkippedPod p < SkippedPod q) (skipped_of r pods)
            in case drain_limit r (length evictable) of
                 Some e \<Rightarrow> Inl e | None \<Rightarrow> Inr (evictable, skipped)), s))"

definition drain_Plan :: "'w drain \<Rightarrow> ctx \<Rightarrow> request \<Rightarrow> 'w astate \<Rightarrow> 'w astate outcome" where
  "drain_Plan a c r s =
     (let t = ReqTarget r; (got, s) = fetchNode (DrainClient a) t s in
      case got of Inl e \<Rightarrow> (zero_result, Some e, s)
      | Inr n \<Rightarrow>
          (let (classes, s) = drain_classify a r s in
           case classes of Inl e \<Rightarrow> (zero_result, Some e, s)
           | Inr (evictable, skipped) \<Rightarrow>
               (let result = zero_result\<lparr>Summary := ''cordon '' @ target_string t @ '' and evict '' @ plural (length evictable) ''pod''
                        @ '' through the Eviction API, honouring PodDisruptionBudgets ('' @ summarise skipped @ '')'',
                      ResultKubectl := kubectlDrain t\<rparr>
                in (result_Output ''alreadyCordoned'' (json_bool (NodeUnschedulable n))
                     (result_Output ''skipped'' (nat_str (length skipped))
                       (result_Output ''pods'' (drain_names evictable)
                         (result_Output ''podsToEvict'' (nat_str (length evictable)) result))), None, s))))"

section \<open>Evicting\<close>

definition drain_eviction :: "pod \<Rightarrow> change" where
  "drain_eviction p = CreateEviction (PodNamespace p) (PodName p) None"

text \<open>One pass over the pods: how many are gone, which are left, and the error that ended it.\<close>

fun evict_round ::
  "'w node_client \<Rightarrow> pod list \<Rightarrow> nat \<Rightarrow> pod list \<Rightarrow> 'w astate \<Rightarrow> (nat \<times> pod list \<times> go_error option) \<times> 'w astate" where
  "evict_round cl [] n still s = ((n, still, None), s)"
| "evict_round cl (p # ps) n still s =
     (let ch = drain_eviction p; (err, s) = changing ch (EvictPod cl ch) s in
      case err of
        None \<Rightarrow> evict_round cl ps (n + 1) still s
      | Some e \<Rightarrow>
          if is_not_found e then evict_round cl ps (n + 1) still s
          else if is_too_many_requests e then evict_round cl ps n (still @ [p]) s
          else if is_forbidden e
          then ((n, still @ p # ps, Some (Wrap (''not permitted to evict '' @ podName p @ '': '') e '''')), s)
          else ((n, still @ p # ps, Some (Wrap (''evict '' @ podName p @ '': '') e '''')), s))"

definition partly_drained :: "target \<Rightarrow> pod list \<Rightarrow> go_error" where
  "partly_drained t still = Err (target_string t @ '' is only partly drained: '' @ plural (length still) ''pod''
     @ '' still there, refused by a PodDisruptionBudget. The node stays cordoned; nothing new will be scheduled on it'')"

partial_function (option) evict_loop ::
  "'w drain \<Rightarrow> target \<Rightarrow> ctx \<Rightarrow> duration \<Rightarrow> nat \<Rightarrow> pod list \<Rightarrow> 'w astate \<Rightarrow> ((nat \<times> pod list \<times> go_error option) \<times> 'w astate) option" where
  "evict_loop a t c elapsed n pods s =
     (case evict_round (DrainClient a) pods n [] s of
        ((n, still, err), s) \<Rightarrow>
          if err \<noteq> None then Some ((n, still, err), s)
          else if still = [] then Some ((n, [], None), s)
          else if c \<noteq> [] \<and> deadline_of c \<le> elapsed + max 1 (DrainPoll a)
          then Some ((n, still, Some (partly_drained t still)),
                 s\<lparr>AWorld := NodeWait (DrainClient a) (deadline_of c - elapsed) (AWorld s)\<rparr>)
          else evict_loop a t c (elapsed + max 1 (DrainPoll a)) n still
                 (s\<lparr>AWorld := NodeWait (DrainClient a) (max 1 (DrainPoll a)) (AWorld s)\<rparr>))"

definition drain_result :: "target \<Rightarrow> skipped_pod list \<Rightarrow> nat \<Rightarrow> pod list \<Rightarrow> go_error option \<Rightarrow> result" where
  "drain_result t skipped evicted refused err =
     (let result = result_Output ''skipped'' (nat_str (length skipped)) (result_Output ''evicted'' (nat_str evicted)
            (zero_result\<lparr>Summary := ''cordoned '' @ target_string t @ '' and evicted '' @ plural evicted ''pod'' @ '' ('' @ summarise skipped @ '')'',
               ResultKubectl := kubectlDrain t\<rparr>));
          result = (if refused \<noteq> [] then result_Output ''remaining'' (drain_names refused) result else result)
      in if err = None then result
         else result\<lparr>Summary := ''drained '' @ target_string t @ '' of '' @ plural evicted ''pod'' @ '' and stopped: ''
                @ plural (length refused) ''pod'' @ '' still there''\<rparr>)"

definition drain_evict_all ::
  "'w drain \<Rightarrow> ctx \<Rightarrow> target \<Rightarrow> pod list \<Rightarrow> skipped_pod list \<Rightarrow> 'w astate \<Rightarrow> 'w astate outcome option" where
  "drain_evict_all a c t evictable skipped s =
     (case evict_loop a t c 0 0 evictable s of
        None \<Rightarrow> None
      | Some ((evicted, refused, err), s) \<Rightarrow> Some (drain_result t skipped evicted refused err, err, s))"

definition drain_Execute :: "'w drain \<Rightarrow> ctx \<Rightarrow> request \<Rightarrow> 'w astate \<Rightarrow> 'w astate outcome option" where
  "drain_Execute a c r s =
     (let t = ReqTarget r; (got, s) = fetchNode (DrainClient a) t s in
      case got of Inl e \<Rightarrow> Some (zero_result, Some e, s)
      | Inr n \<Rightarrow>
          (let (classes, s) = drain_classify a r s in
           case classes of Inl e \<Rightarrow> Some (zero_result, Some e, s)
           | Inr (evictable, skipped) \<Rightarrow>
               if NodeUnschedulable n then drain_evict_all a c t evictable skipped s
               else
                 (let ch = cordon_change t True; (patched, s) = changing ch (PatchNode (DrainClient a) ch) s in
                  case patched of
                    Inl e \<Rightarrow> Some (zero_result, Some (Wrap (''cordon '' @ target_string t @ '' before draining: '') e ''''), s)
                  | Inr _ \<Rightarrow> drain_evict_all a c t evictable skipped s)))"

definition drain_look :: "'w drain \<Rightarrow> request \<Rightarrow> string \<times> nat \<Rightarrow> 'w astate \<Rightarrow> (string \<times> nat) look \<times> 'w astate" where
  "drain_look a r seen s =
     (let t = ReqTarget r; (classes, s) = drain_classify a r s in
      case classes of Inl e \<Rightarrow> (Answer zero_result (Some e), s)
      | Inr (evictable, skipped) \<Rightarrow>
          if evictable = []
          then (Answer (result_Output ''remainingPods'' ''0'' (zero_result\<lparr>Summary := target_string t @ '' is drained''\<rparr>)) None, s)
          else (Again (target_string t @ '' still holds '' @ plural (length evictable) ''pod'' @ '': '' @ drain_names evictable,
                  length evictable), s))"

definition drain_expired :: "string \<times> nat \<Rightarrow> 'w astate \<Rightarrow> 'w astate outcome" where
  "drain_expired seen s =
     (result_Output ''remainingPods'' (nat_str (snd seen)) (zero_result\<lparr>Summary := fst seen\<rparr>),
      Some (Err (''the drain did not finish in time: '' @ fst seen)), s)"

definition drain_Verify :: "'w drain \<Rightarrow> ctx \<Rightarrow> request \<Rightarrow> result \<Rightarrow> 'w astate \<Rightarrow> 'w astate outcome" where
  "drain_Verify a c r executed s =
     verify_poll c (DrainPoll a) (NodeWait (DrainClient a)) (drain_look a r) drain_expired ('''', 0) s"

text \<open>The action as the engine sees it. An execution that does not end has no outcome to give.\<close>

definition drain_action :: "'w drain \<Rightarrow> 'w astate action" where
  "drain_action a = \<lparr>ActName = ''node.drain'', ActType = ''*node.Drain'', ActResolve = resolveNode,
     ActPlan = drain_Plan a, ActExecute = (\<lambda>c r s. the (drain_Execute a c r s)), ActVerify = Some (drain_Verify a)\<rparr>"

section \<open>What a drain does\<close>

lemma drain_verdict_Evict:
  "drain_verdict r p = Evict \<longleftrightarrow> PodNode p = TName (ReqTarget r) \<and> \<not> isTerminal p
     \<and> map_get (PodAnnotations p) mirrorPodAnnotation = '''' \<and> ownerKind p \<noteq> ''DaemonSet''
     \<and> (ownerKind p \<noteq> '''' \<or> params_Get (ReqParams r) EvictBarePodsParam ''false'' = ''true'')
     \<and> (\<not> hasEmptyDir p \<or> params_Get (ReqParams r) DeleteEmptyDirParam ''false'' = ''true'')"
  by (auto simp: drain_verdict_def Let_def)

lemma drain_classifyD:
  assumes "drain_classify a r s = (x, s')"
  shows "Changes s' = Changes s"
    and "x = Inr (evictable, skipped) \<Longrightarrow> p \<in> set evictable \<Longrightarrow> drain_verdict r p = Evict"
    and "x = Inr (evictable, skipped) \<Longrightarrow> drain_limit r (length evictable) = None"
  using assms by (auto simp: drain_classify_def Let_def dest: readingD split: prod.splits sum.splits option.splits)

text \<open>A round evicts pods it was given, and accounts for each of them.\<close>

lemma evict_round_cases:
  obtains (gone) s1 where "evict_round cl (p # pods) n still s = evict_round cl pods (n + 1) still s1"
      "Changes s1 = Changes s @ [drain_eviction p]"
  | (refused) s1 where "evict_round cl (p # pods) n still s = evict_round cl pods n (still @ [p]) s1"
      "Changes s1 = Changes s @ [drain_eviction p]"
  | (failed) s1 e where "evict_round cl (p # pods) n still s = ((n, still @ p # pods, Some e), s1)"
      "Changes s1 = Changes s @ [drain_eviction p]"
proof -
  obtain err1 s1 where ch: "changing (drain_eviction p) (EvictPod cl (drain_eviction p)) s = (err1, s1)" by fastforce
  note [simp] = changingD [OF ch]
  show thesis
  proof (cases err1)
    case None
    with ch show thesis by (intro gone [of s1]) simp_all
  next
    case (Some e)
    consider "is_not_found e" | "\<not> is_not_found e" "is_too_many_requests e"
      | "\<not> is_not_found e" "\<not> is_too_many_requests e" "is_forbidden e"
      | "\<not> is_not_found e" "\<not> is_too_many_requests e" "\<not> is_forbidden e" by blast
    then show thesis
    proof cases
      case 1
      with ch Some show thesis by (intro gone [of s1]) simp_all
    next
      case 2
      with ch Some show thesis by (intro refused [of s1]) simp_all
    next
      case 3
      with ch Some show thesis by (intro failed [of _ s1]) simp_all
    next
      case 4
      with ch Some show thesis by (intro failed [of _ s1]) simp_all
    qed
  qed
qed

lemma evict_round_sound:
  assumes "evict_round cl pods n still s = ((n', still', err), s')"
  shows "n' + length still' = n + length still + length pods \<and> set still' \<subseteq> set still \<union> set pods
    \<and> (\<exists>ps. Changes s' = Changes s @ map drain_eviction ps \<and> set ps \<subseteq> set pods)"
  using assms
proof (induction pods arbitrary: n still s)
  case (Cons p pods)
  show ?case
  proof (cases rule: evict_round_cases [of cl p pods n still s])
    case (gone s1)
    from Cons.IH [OF gone(1) [symmetric, unfolded Cons.prems]] obtain ps where
      *: "n' + length still' = n + 1 + length still + length pods" "set still' \<subseteq> set still \<union> set pods"
        "Changes s' = Changes s1 @ map drain_eviction ps" "set ps \<subseteq> set pods" by blast
    show ?thesis by (intro conjI exI [of _ "p # ps"]) (use * gone(2) in auto)
  next
    case (refused s1)
    from Cons.IH [OF refused(1) [symmetric, unfolded Cons.prems]] obtain ps where
      *: "n' + length still' = n + length (still @ [p]) + length pods" "set still' \<subseteq> set (still @ [p]) \<union> set pods"
        "Changes s' = Changes s1 @ map drain_eviction ps" "set ps \<subseteq> set pods" by blast
    show ?thesis by (intro conjI exI [of _ "p # ps"]) (use * refused(2) in auto)
  next
    case (failed s1 e)
    show ?thesis by (intro conjI exI [of _ "[p]"]) (use failed Cons.prems in auto)
  qed
qed auto

text \<open>Induction over the rounds of a loop that ends.\<close>

lemma evict_loop_rule:
  assumes "evict_loop a t c elapsed n pods s = Some y"
    and stop: "\<And>n pods s n1 still err err2 s1 s2. evict_round (DrainClient a) pods n [] s = ((n1, still, err), s1) \<Longrightarrow>
      Changes s2 = Changes s1 \<Longrightarrow> (err2 = None \<longrightarrow> still = []) \<Longrightarrow> err \<noteq> None \<or> still = [] \<or> c \<noteq> [] \<Longrightarrow> P n pods s ((n1, still, err2), s2)"
    and again: "\<And>n pods s n1 still s1 w y. evict_round (DrainClient a) pods n [] s = ((n1, still, None), s1) \<Longrightarrow>
      P n1 still (s1\<lparr>AWorld := w\<rparr>) y \<Longrightarrow> P n pods s y"
  shows "P n pods s y"
proof -
  have "a' = a \<longrightarrow> c' = c \<longrightarrow> P n pods s y" if "evict_loop a' t c' elapsed n pods s = Some y" for a' t c' elapsed n pods s y
    using that
  proof (rule evict_loop.raw_induct [rotated])
    fix loop a' t c' elapsed n pods s y
    assume IH: "\<And>a' t c' elapsed n pods s y. loop a' t c' elapsed n pods s = Some y \<Longrightarrow> a' = a \<longrightarrow> c' = c \<longrightarrow> P n pods s y"
      and run: "(case evict_round (DrainClient a') pods n [] s of
        ((n, still, err), s) \<Rightarrow>
          if err \<noteq> None then Some ((n, still, err), s)
          else if still = [] then Some ((n, [], None), s)
          else if c' \<noteq> [] \<and> deadline_of c' \<le> elapsed + max 1 (DrainPoll a')
          then Some ((n, still, Some (partly_drained t still)),
                 s\<lparr>AWorld := NodeWait (DrainClient a') (deadline_of c' - elapsed) (AWorld s)\<rparr>)
          else loop a' t c' (elapsed + max 1 (DrainPoll a')) n still
                 (s\<lparr>AWorld := NodeWait (DrainClient a') (max 1 (DrainPoll a')) (AWorld s)\<rparr>)) = Some y"
    show "a' = a \<longrightarrow> c' = c \<longrightarrow> P n pods s y"
    proof (intro impI)
      assume eq: "a' = a" "c' = c"
      obtain n1 still err1 s1 where round: "evict_round (DrainClient a) pods n [] s = ((n1, still, err1), s1)"
        by (metis prod_cases3 surj_pair)
      note run = run [unfolded eq round prod.case]
      consider "err1 \<noteq> None" | "err1 = None" "still = []"
        | "err1 = None" "still \<noteq> []" "c \<noteq> [] \<and> deadline_of c \<le> elapsed + max 1 (DrainPoll a)"
        | "err1 = None" "still \<noteq> []" "\<not> (c \<noteq> [] \<and> deadline_of c \<le> elapsed + max 1 (DrainPoll a))" by blast
      then show "P n pods s y"
      proof cases
        case 1
        then have "y = ((n1, still, err1), s1)" using run by simp
        then show ?thesis using stop [OF round refl, of err1] 1 by simp
      next
        case 2
        then have "y = ((n1, still, None), s1)" using run by simp
        then show ?thesis using stop [OF round refl, of None] 2 by simp
      next
        case 3
        let ?s = "s1\<lparr>AWorld := NodeWait (DrainClient a) (deadline_of c - elapsed) (AWorld s1)\<rparr>"
        have "y = ((n1, still, Some (partly_drained t still)), ?s)" using run 3 by simp
        then show ?thesis using stop [OF round, of ?s "Some (partly_drained t still)"] 3 by simp
      next
        case 4
        then have "loop a t c (elapsed + max 1 (DrainPoll a)) n1 still
            (s1\<lparr>AWorld := NodeWait (DrainClient a) (max 1 (DrainPoll a)) (AWorld s1)\<rparr>) = Some y" using run by auto
        from IH [OF this] round 4(1) show ?thesis by (blast intro: again)
      qed
    qed
  qed
  from this [OF assms(1)] show ?thesis by simp
qed

lemma evict_loop_sound:
  assumes "evict_loop a t c elapsed n pods s = Some ((n', still, err), s')"
  shows "n' + length still = n + length pods \<and> set still \<subseteq> set pods \<and> (err = None \<longrightarrow> still = [])
    \<and> (\<exists>ps. Changes s' = Changes s @ map drain_eviction ps \<and> set ps \<subseteq> set pods)"
proof -
  let ?P = "\<lambda>n pods s y. case y of ((n', still, err), s') \<Rightarrow> n' + length still = n + length pods \<and> set still \<subseteq> set pods
    \<and> (err = None \<longrightarrow> still = []) \<and> (\<exists>ps. Changes s' = Changes s @ map drain_eviction ps \<and> set ps \<subseteq> set pods)"
  have "?P n pods s ((n', still, err), s')"
    using assms
  proof (rule evict_loop_rule)
    fix n pods s n1 still err err2 s1 and s2 :: "'a astate"
    assume "evict_round (DrainClient a) pods n [] s = ((n1, still, err), s1)" "Changes s2 = Changes s1" "err2 = None \<longrightarrow> still = []"
    then show "?P n pods s ((n1, still, err2), s2)" using evict_round_sound [of "DrainClient a" pods n "[]" s] by fastforce
  next
    fix n pods s n1 still s1 w y
    assume round: "evict_round (DrainClient a) pods n [] s = ((n1, still, None), s1)" and P: "?P n1 still (s1\<lparr>AWorld := w\<rparr>) y"
    obtain n2 still2 err2 s2 where y: "y = ((n2, still2, err2), s2)" by (metis prod_cases3 surj_pair)
    from P y obtain qs where q: "Changes s2 = Changes s1 @ map drain_eviction qs" "set qs \<subseteq> set still" by auto
    from evict_round_sound [OF round] obtain ps where p: "Changes s1 = Changes s @ map drain_eviction ps" "set ps \<subseteq> set pods" "set still \<subseteq> set pods"
      "n1 + length still = n + length pods" by auto
    have "\<exists>rs. Changes s2 = Changes s @ map drain_eviction rs \<and> set rs \<subseteq> set pods"
      by (intro exI [of _ "ps @ qs"]) (use p q in auto)
    with P y p show "?P n pods s y" by auto
  qed
  then show ?thesis by simp
qed

text \<open>With a deadline the loop ends.\<close>

lemma evict_loop_ends: "c \<noteq> [] \<Longrightarrow> \<exists>y. evict_loop a t c elapsed n pods s = Some y"
proof (induction "nat (deadline_of c - elapsed)" arbitrary: elapsed n pods s rule: less_induct)
  case less
  obtain n1 still1 err1 s1 where round: "evict_round (DrainClient a) pods n [] s = ((n1, still1, err1), s1)"
    by (metis prod_cases3 surj_pair)
  show ?case
  proof (cases "err1 \<noteq> None \<or> still1 = [] \<or> deadline_of c \<le> elapsed + max 1 (DrainPoll a)")
    case True
    then show ?thesis using round less.prems by (subst evict_loop.simps) auto
  next
    case False
    then have "nat (deadline_of c - (elapsed + max 1 (DrainPoll a))) < nat (deadline_of c - elapsed)" by linarith
    from less.hyps [OF this less.prems] False round show ?thesis by (subst evict_loop.simps) simp
  qed
qed

text \<open>Without one it does not, when a budget keeps refusing.\<close>

definition always_refused :: "'w node_client \<Rightarrow> pod \<Rightarrow> bool" where
  "always_refused cl p \<longleftrightarrow>
     (\<forall>w. \<exists>e. fst (EvictPod cl (drain_eviction p) w) = Some e \<and> is_too_many_requests e \<and> \<not> is_not_found e)"

definition refuses_only_by_budget :: "'w node_client \<Rightarrow> bool" where
  "refuses_only_by_budget cl \<longleftrightarrow>
     (\<forall>ch w e. fst (EvictPod cl ch w) = Some e \<longrightarrow> is_not_found e \<or> is_too_many_requests e)"

lemma evict_round_keeps_refused:
  assumes "evict_round cl pods n still s = ((n', still', err), s')" and "p \<in> set pods \<or> p \<in> set still"
    and "always_refused cl p" and "refuses_only_by_budget cl"
  shows "err = None \<and> p \<in> set still'"
  using assms(1,2)
proof (induction pods arbitrary: n still s)
  case (Cons q pods)
  obtain err1 s1 where ch: "changing (drain_eviction q) (EvictPod cl (drain_eviction q)) s = (err1, s1)" by fastforce
  then have err1: "err1 = fst (EvictPod cl (drain_eviction q) (AWorld s))" by (auto simp: changing_def split: prod.splits)
  show ?case
  proof (cases "q = p")
    case True
    then obtain e where "err1 = Some e" "is_too_many_requests e" "\<not> is_not_found e"
      using assms(3) err1 by (metis always_refused_def)
    then show ?thesis using Cons ch True by auto
  next
    case False
    then have "p \<in> set pods \<or> p \<in> set still" using Cons.prems(2) by auto
    moreover have "err1 = Some e \<Longrightarrow> is_not_found e \<or> is_too_many_requests e" for e
      using assms(4) err1 by (metis refuses_only_by_budget_def)
    ultimately show ?thesis using Cons ch by (auto split: option.splits if_splits)
  qed
qed auto

lemma evict_loop_may_not_end:
  assumes "always_refused (DrainClient a) p" and "refuses_only_by_budget (DrainClient a)" and "p \<in> set pods"
  shows "evict_loop a t [] elapsed n pods s = None"
proof (rule ccontr)
  assume "evict_loop a t [] elapsed n pods s \<noteq> None"
  then obtain y where "evict_loop a t [] elapsed n pods s = Some y" by blast
  then have "p \<notin> set pods"
    by (rule evict_loop_rule [where P = "\<lambda>_ pods _ _. p \<notin> set pods"])
      (use evict_round_keeps_refused [OF _ _ assms(1,2)] in fastforce)+
  with assms(3) show False by simp
qed

section \<open>Verifying and planning read only\<close>

lemma drain_Plan_reads: "Changes (snd (snd (drain_Plan a c r s))) = Changes s"
  by (auto simp: drain_Plan_def Let_def dest!: fetchNodeD drain_classifyD(1) split: prod.splits sum.splits)

lemma drain_look_reads: "Changes (snd (drain_look a r b s)) = Changes s"
  by (auto simp: drain_look_def Let_def dest!: drain_classifyD(1) split: prod.splits sum.splits)

lemma drain_Verify_reads: "Changes (snd (snd (drain_Verify a c r x s))) = Changes s"
  unfolding drain_Verify_def by (rule poll_until_reads) (simp_all add: drain_look_reads drain_expired_def)

text \<open>What planning refuses, executing refuses too, before it touches the node.\<close>

lemma drain_refusal_planned:
  assumes "fst (snd (drain_Plan a c r s)) = Some e"
  shows "\<exists>s'. drain_Execute a c r s = Some (zero_result, Some e, s') \<and> Changes s' = Changes s"
  using assms by (auto simp: drain_Plan_def drain_Execute_def Let_def dest!: fetchNodeD drain_classifyD(1) split: prod.splits sum.splits)

section \<open>The changes of a drain\<close>

lemma drain_evict_all_sound:
  assumes "drain_evict_all a c t evictable skipped s = Some (res, err, s')"
  shows "\<exists>ps. Changes s' = Changes s @ map drain_eviction ps \<and> set ps \<subseteq> set evictable"
    and "err = None \<Longrightarrow> map_of (ResultOutputs res) ''evicted'' = Some (nat_str (length evictable))"
proof -
  from assms obtain n still where y: "evict_loop a t c 0 0 evictable s = Some ((n, still, err), s')"
    and res: "res = drain_result t skipped n still err"
    by (auto simp: drain_evict_all_def split: option.splits)
  note sound = evict_loop_sound [OF y]
  show "\<exists>ps. Changes s' = Changes s @ map drain_eviction ps \<and> set ps \<subseteq> set evictable" using sound by auto
  show "map_of (ResultOutputs res) ''evicted'' = Some (nat_str (length evictable))" if "err = None"
    using sound that res by (auto simp: drain_result_def result_Output_def Let_def)
qed

text \<open>A drain cordons first, unless it was, and then evicts pods it may evict.\<close>

lemma drain_Execute_cases:
  assumes "drain_Execute a c r s = Some (res, err, s')"
  obtains (nothing) "Changes s' = Changes s" "err \<noteq> None"
  | (failed) "Changes s' = Changes s @ [cordon_change (ReqTarget r) True]" "err \<noteq> None"
  | (evicted) cordon evictable skipped s1 s2 where "cordon \<in> {[], [cordon_change (ReqTarget r) True]}"
      "fst (drain_classify a r s1) = Inr (evictable, skipped)" "Changes s2 = Changes s @ cordon"
      "drain_evict_all a c (ReqTarget r) evictable skipped s2 = Some (res, err, s')"
proof -
  obtain got s1 where fetched: "fetchNode (DrainClient a) (ReqTarget r) s = (got, s1)" by fastforce
  obtain classes s2 where classified: "drain_classify a r s1 = (classes, s2)" by fastforce
  obtain patched s3 where patched: "changing (cordon_change (ReqTarget r) True)
      (PatchNode (DrainClient a) (cordon_change (ReqTarget r) True)) s2 = (patched, s3)" by fastforce
  note changes = fetchNodeD [OF fetched] drain_classifyD(1) [OF classified] changingD [OF patched]
  show thesis
  proof (cases got)
    case (Inl e)
    show thesis by (rule nothing) (use assms fetched changes Inl in \<open>auto simp: drain_Execute_def\<close>)
  next
    case got: (Inr nd)
    show thesis
    proof (cases classes)
      case (Inl e)
      show thesis by (rule nothing) (use assms fetched classified changes got Inl in \<open>auto simp: drain_Execute_def\<close>)
    next
      case (Inr ec)
      obtain evictable skipped where ec: "ec = (evictable, skipped)" by fastforce
      have run: "(if NodeUnschedulable nd then drain_evict_all a c (ReqTarget r) evictable skipped s2
          else case patched of
            Inl e \<Rightarrow> Some (zero_result, Some (Wrap (''cordon '' @ target_string (ReqTarget r) @ '' before draining: '') e ''''), s3)
          | Inr _ \<Rightarrow> drain_evict_all a c (ReqTarget r) evictable skipped s3) = Some (res, err, s')"
        using assms fetched classified patched got Inr ec
        by (cases "NodeUnschedulable nd") (simp_all add: drain_Execute_def Let_def)
      have classify: "fst (drain_classify a r s1) = Inr (evictable, skipped)" using classified Inr ec by simp
      show thesis
      proof (cases "NodeUnschedulable nd")
        case True
        show thesis by (rule evicted [of "[]", OF _ classify]) (use run changes True in auto)
      next
        case False
        show thesis
        proof (cases patched)
          case (Inl e)
          show thesis by (rule failed) (use run False changes Inl in auto)
        next
          case (Inr x)
          show thesis by (rule evicted [of "[cordon_change (ReqTarget r) True]", OF _ classify]) (use run False changes Inr in auto)
        qed
      qed
    qed
  qed
qed

lemma drain_Execute_changes:
  assumes "drain_Execute a c r s = Some (res, err, s')"
  shows "\<exists>cordon ps. Changes s' = Changes s @ cordon @ map drain_eviction ps
    \<and> cordon \<in> {[], [cordon_change (ReqTarget r) True]} \<and> (\<forall>p \<in> set ps. drain_verdict r p = Evict)"
  using assms
proof (cases rule: drain_Execute_cases)
  case nothing
  then show ?thesis by (intro exI [of _ "[]"]) simp
next
  case failed
  then show ?thesis by (intro exI [of _ "[cordon_change (ReqTarget r) True]"] exI [of _ "[]"]) simp
next
  case (evicted cordon evictable skipped s1 s2)
  from drain_evict_all_sound(1) [OF evicted(4)] obtain ps where
    "Changes s' = Changes s2 @ map drain_eviction ps" "set ps \<subseteq> set evictable" by blast
  moreover have "\<forall>p \<in> set evictable. drain_verdict r p = Evict"
    using evicted(2) drain_classifyD(2) [of a r s1] by (metis fst_conv surj_pair)
  ultimately show ?thesis using evicted by (intro exI [of _ cordon] exI [of _ ps]) auto
qed

lemma drain_Execute_ends: "c \<noteq> [] \<Longrightarrow> \<exists>out. drain_Execute a c r s = Some out"
proof -
  assume c: "c \<noteq> []"
  have "\<exists>out. drain_evict_all a c t evictable skipped s = Some out" for t evictable skipped s
    using evict_loop_ends [OF c, of a t 0 0 evictable s] by (auto simp: drain_evict_all_def)
  then show ?thesis by (auto simp: drain_Execute_def Let_def split: prod.splits sum.splits)
qed

end
