(* ===== verification/Pvc.thy ===== *)
theory Pvc
  imports Node
begin

text \<open>
  \<open>internal/action/node/pvc.go\<close>: growing a PersistentVolumeClaim. Quantities are those of
  \<open>k8s.io/apimachinery\<close>: a type \<open>'q\<close> with the operations the code calls, as a record of functions.
\<close>

definition SizeParam :: string where "SizeParam = ''size''"
definition IncreasePercentParam :: string where "IncreasePercentParam = ''increasePercent''"
definition MaxSizeParam :: string where "MaxSizeParam = ''maxSize''"
definition LabelPVC :: string where "LabelPVC = ''persistentvolumeclaim''"

text \<open>\<open>QNew\<close> is \<open>NewQuantity\<close> in binary format; \<open>QZero\<close> is what a missing entry of a resource list reads as.\<close>

record 'q quantities =
  QParse :: "string \<Rightarrow> 'q option"
  QString :: "'q \<Rightarrow> string"
  QValue :: "'q \<Rightarrow> int"
  QCmp :: "'q \<Rightarrow> 'q \<Rightarrow> int"
  QNew :: "int \<Rightarrow> 'q"
  QZero :: 'q

record 'q claim =
  ClaimStorageClass :: "string option"
  ClaimRequested :: "'q option"
  ClaimCapacity :: "'q option"

text \<open>\<open>GetStorageClass\<close> answers with the class's \<open>allowVolumeExpansion\<close>.\<close>

record ('w, 'q) pvc_client =
  GetClaim :: "string \<Rightarrow> string \<Rightarrow> 'w \<Rightarrow> (go_error + 'q claim) \<times> 'w"
  GetStorageClass :: "string \<Rightarrow> 'w \<Rightarrow> (go_error + bool option) \<times> 'w"
  PatchClaim :: "change \<Rightarrow> 'w \<Rightarrow> go_error option \<times> 'w"
  PvcWait :: "duration \<Rightarrow> 'w \<Rightarrow> 'w"

record ('w, 'q) pvc_expand =
  PvcClient :: "('w, 'q) pvc_client"
  PvcPoll :: duration
  PvcQuantities :: "'q quantities"

definition NewPVCExpand :: "('w, 'q) pvc_client \<Rightarrow> 'q quantities \<Rightarrow> ('w, 'q) pvc_expand" where
  "NewPVCExpand c q = \<lparr>PvcClient = c, PvcPoll = DefaultPoll, PvcQuantities = q\<rparr>"

definition pvc_Resolve :: "smap \<Rightarrow> params \<Rightarrow> go_error + target" where
  "pvc_Resolve labels p =
     (let namespace = param_or_label p labels LabelNamespace;
          name = params_Get p NameParam (param_or_label p labels LabelPVC) in
      if namespace = '''' then Inl no_namespace
      else if name = '''' then Inl (Err (''no claim: the alert has no '' @ quote LabelPVC @ '' label and the step sets no ''
             @ quote NameParam @ '' parameter''))
      else Inr \<lparr>TKind = ''PersistentVolumeClaim'', TNamespace = namespace, TName = name\<rparr>)"

definition claim_requested :: "'q quantities \<Rightarrow> 'q claim \<Rightarrow> 'q" where
  "claim_requested q cm = (case ClaimRequested cm of Some x \<Rightarrow> x | None \<Rightarrow> QZero q)"

section \<open>The target size\<close>

definition parsePercent :: "string \<Rightarrow> go_error + int" where
  "parsePercent raw =
     (let bad = Inl (Err (''parameter '' @ quote IncreasePercentParam @ '': '' @ quote raw @ '' is not a positive percentage'')) in
      case atoi raw of None \<Rightarrow> bad | Some share \<Rightarrow> if share \<le> 0 then bad else Inr share)"

definition checkGrowth :: "'q quantities \<Rightarrow> 'q \<Rightarrow> 'q \<Rightarrow> go_error + 'q" where
  "checkGrowth q want current =
     (if QCmp q want current \<le> 0
      then Inl (Err (''the claim already requests '' @ QString q current @ '' and this step asks for '' @ QString q want
             @ '': Kubernetes cannot shrink a volume, and there is nothing to do when it is already large enough''))
      else Inr want)"

text \<open>The arithmetic is on \<open>int64\<close> and wraps.\<close>

definition mebibyte :: int where "mebibyte = 2 ^ 20"

definition grown_size :: "int \<Rightarrow> int \<Rightarrow> int" where
  "grown_size current share =
     (let grown = wrap64 (current + go_div (wrap64 (current * share)) 100)
      in wrap64 (go_div (wrap64 (grown + mebibyte - 1)) mebibyte * mebibyte))"

definition targetSize :: "'q quantities \<Rightarrow> params \<Rightarrow> 'q \<Rightarrow> go_error + 'q" where
  "targetSize q p current =
     (let absolute = params_Get p SizeParam ''''; percent = params_Get p IncreasePercentParam '''' in
      if absolute \<noteq> '''' \<and> percent \<noteq> ''''
      then Inl (Err (''the step sets both '' @ quote SizeParam @ '' and '' @ quote IncreasePercentParam @ ''; they mean different things''))
      else if absolute = '''' \<and> percent = ''''
      then Inl (Err (''the step must set '' @ quote SizeParam @ '' or '' @ quote IncreasePercentParam))
      else if absolute \<noteq> ''''
      then (case QParse q absolute of
              None \<Rightarrow> Inl (Err (''parameter '' @ quote SizeParam @ '': '' @ quote absolute @ '' is not a quantity such as '' @ quote ''50Gi''))
            | Some want \<Rightarrow> checkGrowth q want current)
      else (case parsePercent percent of
              Inl e \<Rightarrow> Inl e
            | Inr share \<Rightarrow>
                (case QParse q (params_Get p MaxSizeParam '''') of
                   None \<Rightarrow> Inl (Err (''a relative increase needs a ceiling: parameter '' @ quote MaxSizeParam
                              @ '' must be a quantity such as '' @ quote ''200Gi''))
                 | Some ceiling \<Rightarrow>
                     (let want = QNew q (grown_size (QValue q current) share);
                          want = (if QCmp q want ceiling > 0 then ceiling else want)
                      in checkGrowth q want current))))"

lemma checkGrowthD: "checkGrowth q want current = Inr x \<Longrightarrow> x = want \<and> 0 < QCmp q want current"
  by (simp add: checkGrowth_def split: if_splits)

lemma targetSize_grows: "targetSize q p current = Inr want \<Longrightarrow> 0 < QCmp q want current"
  by (auto simp: targetSize_def Let_def dest: checkGrowthD split: if_splits sum.splits option.splits)

lemma targetSize_ceiling:
  assumes "targetSize q p current = Inr want" and "params_Get p IncreasePercentParam '''' \<noteq> ''''"
  shows "\<exists>ceiling. QParse q (params_Get p MaxSizeParam '''') = Some ceiling \<and> (want = ceiling \<or> QCmp q want ceiling \<le> 0)"
  using assms by (auto simp: targetSize_def Let_def dest!: checkGrowthD split: if_splits sum.splits option.splits)

text \<open>Where nothing overflows, the grown size is the share rounded up to whole mebibytes.\<close>

lemma grown_size_exact:
  assumes "0 \<le> current" and "0 \<le> share" and "current * share < 2 ^ 62" and "current < 2 ^ 61"
  shows "grown_size current share mod mebibyte = 0"
    and "current + current * share div 100 \<le> grown_size current share"
    and "grown_size current share < current + current * share div 100 + mebibyte"
proof -
  let ?g = "current + current * share div 100"
  have cs: "0 \<le> current * share" using assms by simp
  then have d: "0 \<le> current * share div 100" "current * share div 100 \<le> current * share div 1"
    by (auto intro: zdiv_mono2)
  then have g: "0 \<le> ?g" "?g < 2 ^ 61 + 2 ^ 62" using assms by simp_all
  let ?k = "(?g + mebibyte - 1) div mebibyte"
  have k: "?g \<le> ?k * mebibyte" "?k * mebibyte < ?g + mebibyte" "0 \<le> ?k"
    using g by (auto simp: mebibyte_def) 
  have cur: "in_int64 (current * share)" using cs assms(3) by (simp add: in_int64_def)
  have first: "wrap64 (current + go_div (wrap64 (current * share)) 100) = ?g"
    using cs g cur by (simp add: in_int64_def)
  have second: "wrap64 (?g + mebibyte - 1) = ?g + mebibyte - 1" and third: "wrap64 (?k * mebibyte) = ?k * mebibyte"
    using g k by (simp_all add: in_int64_def mebibyte_def)
  have "grown_size current share = ?k * mebibyte"
    unfolding grown_size_def Let_def first second using third g by (simp add: mebibyte_def)
  then show "grown_size current share mod mebibyte = 0" "?g \<le> grown_size current share" "grown_size current share < ?g + mebibyte"
    using k by auto
qed

section \<open>The action\<close>

definition pvc_fetch :: "('w, 'q) pvc_client \<Rightarrow> target \<Rightarrow> 'w astate \<Rightarrow> (go_error + 'q claim) \<times> 'w astate" where
  "pvc_fetch cl t s =
     (let (got, s) = reading (GetClaim cl (TNamespace t) (TName t)) s in
      (case got of Inl e \<Rightarrow> Inl (fetch_error t e) | Inr cm \<Rightarrow> Inr cm, s))"

definition checkExpandable :: "('w, 'q) pvc_client \<Rightarrow> 'q claim \<Rightarrow> target \<Rightarrow> 'w astate \<Rightarrow> go_error option \<times> 'w astate" where
  "checkExpandable cl cm t s =
     (let name = (case ClaimStorageClass cm of Some n \<Rightarrow> n | None \<Rightarrow> '''') in
      if name = ''''
      then (Some (Err (target_string t @ '' names no StorageClass, so remedik cannot tell whether it may be expanded'')), s)
      else (let (got, s) = reading (GetStorageClass cl name) s in
        (case got of
           Inl e \<Rightarrow> Some (Wrap (''read storageclass/'' @ name @ '' to check whether '' @ target_string t @ '' may be expanded: '') e '''')
         | Inr allow \<Rightarrow>
             if allow = Some True then None
             else Some (Err (''storageclass/'' @ name @ '' does not set allowVolumeExpansion, so '' @ target_string t
                    @ '' cannot grow: the API server would accept the change and nothing would happen, and remedik would have recorded a success that did nothing'')), s)))"

definition pvc_plan :: "('w, 'q) pvc_expand \<Rightarrow> request \<Rightarrow> 'w astate \<Rightarrow> (go_error + 'q claim \<times> 'q) \<times> 'w astate" where
  "pvc_plan a r s =
     (let (got, s) = pvc_fetch (PvcClient a) (ReqTarget r) s in
      case got of Inl e \<Rightarrow> (Inl e, s)
      | Inr cm \<Rightarrow>
          (let (refused, s) = checkExpandable (PvcClient a) cm (ReqTarget r) s in
           case refused of Some e \<Rightarrow> (Inl e, s)
           | None \<Rightarrow>
               (case targetSize (PvcQuantities a) (ReqParams r) (claim_requested (PvcQuantities a) cm) of
                  Inl e \<Rightarrow> (Inl e, s) | Inr want \<Rightarrow> (Inr (cm, want), s))))"

definition kubectlExpand :: "target \<Rightarrow> string \<Rightarrow> string" where
  "kubectlExpand t amount = ''kubectl patch pvc '' @ TName t @ '' -n '' @ TNamespace t @ '' --type=merge -p '' @ [char_of (39::nat)]
     @ json_object [(''spec'', json_object [(''resources'', json_object [(''requests'',
         json_object [(''storage'', char_of (34::nat) # amount @ [char_of (34::nat)])])])])] @ [char_of (39::nat)]"

definition pvc_result :: "('w, 'q) pvc_expand \<Rightarrow> target \<Rightarrow> string \<Rightarrow> string \<Rightarrow> 'q claim \<Rightarrow> 'q \<Rightarrow> result" where
  "pvc_result a t verb rest cm want =
     (let q = PvcQuantities a; before = QString q (claim_requested q cm); after = QString q want in
      result_Output ''sizeAfter'' after (result_Output ''sizeBefore'' before
        (zero_result\<lparr>Summary := verb @ '' '' @ target_string t @ '' from '' @ before @ '' to '' @ after @ rest,
           ResultKubectl := kubectlExpand t after\<rparr>)))"

definition pvc_Plan :: "('w, 'q) pvc_expand \<Rightarrow> ctx \<Rightarrow> request \<Rightarrow> 'w astate \<Rightarrow> 'w astate outcome" where
  "pvc_Plan a c r s =
     (let (planned, s) = pvc_plan a r s in
      case planned of Inl e \<Rightarrow> (zero_result, Some e, s)
      | Inr (cm, want) \<Rightarrow> (pvc_result a (ReqTarget r) ''expand'' '''' cm want, None, s))"

definition pvc_change :: "('w, 'q) pvc_expand \<Rightarrow> target \<Rightarrow> 'q \<Rightarrow> change" where
  "pvc_change a t want = Patch ''PersistentVolumeClaim'' (TNamespace t) (TName t) '''' ''merge''
     (json_object [(''spec'', json_object [(''resources'', json_object [(''requests'',
        json_object [(''storage'', quote (QString (PvcQuantities a) want))])])])])"

definition pvc_Execute :: "('w, 'q) pvc_expand \<Rightarrow> ctx \<Rightarrow> request \<Rightarrow> 'w astate \<Rightarrow> 'w astate outcome" where
  "pvc_Execute a c r s =
     (let t = ReqTarget r; (planned, s) = pvc_plan a r s in
      case planned of Inl e \<Rightarrow> (zero_result, Some e, s)
      | Inr (cm, want) \<Rightarrow>
          (let ch = pvc_change a t want; (err, s) = changing ch (PatchClaim (PvcClient a) ch) s in
           case err of
             Some e \<Rightarrow> (zero_result, Some (if is_forbidden e then Wrap (''not permitted to patch '' @ target_string t @ '': '') e ''''
                          else Wrap (''expand '' @ target_string t @ '': '') e ''''), s)
           | None \<Rightarrow> (pvc_result a t ''expanded'' ''; expansion is one-way, Kubernetes cannot shrink it back'' cm want, None, s)))"

definition pvc_look :: "('w, 'q) pvc_expand \<Rightarrow> target \<Rightarrow> 'q \<Rightarrow> string \<Rightarrow> 'w astate \<Rightarrow> string look \<times> 'w astate" where
  "pvc_look a t want seen s =
     (let q = PvcQuantities a; (got, s) = pvc_fetch (PvcClient a) t s in
      case got of Inl e \<Rightarrow> (Answer (zero_result\<lparr>Summary := seen\<rparr>) (Some e), s)
      | Inr cm \<Rightarrow>
          (let capacity = (case ClaimCapacity cm of Some x \<Rightarrow> x | None \<Rightarrow> QZero q) in
           if 0 \<le> QCmp q capacity want
           then (Answer (result_Output ''capacity'' (QString q capacity)
                  (zero_result\<lparr>Summary := target_string t @ '' is now '' @ QString q capacity\<rparr>)) None, s)
           else (Again (target_string t @ '' reports '' @ QString q capacity @ '' of '' @ QString q want), s)))"

definition pvc_expired :: "string \<Rightarrow> 'w astate \<Rightarrow> 'w astate outcome" where
  "pvc_expired seen s =
     (zero_result\<lparr>Summary := seen\<rparr>,
      Some (Err (''the volume did not report the new size in time: '' @ seen
        @ ''. Some CSI drivers finish the filesystem resize only when the pod restarts'')), s)"

definition pvc_Verify :: "('w, 'q) pvc_expand \<Rightarrow> ctx \<Rightarrow> request \<Rightarrow> result \<Rightarrow> 'w astate \<Rightarrow> 'w astate outcome" where
  "pvc_Verify a c r executed s =
     (case QParse (PvcQuantities a) (map_get (ResultOutputs executed) ''sizeAfter'') of
        None \<Rightarrow> (zero_result, Some (Err ''no target size was recorded to verify''), s)
      | Some want \<Rightarrow> verify_poll c (PvcPoll a) (PvcWait (PvcClient a)) (pvc_look a (ReqTarget r) want) pvc_expired '''' s)"

definition pvc_action :: "('w, 'q) pvc_expand \<Rightarrow> 'w astate action" where
  "pvc_action a = \<lparr>ActName = ''pvc.expand'', ActType = ''*node.PVCExpand'', ActResolve = pvc_Resolve,
     ActPlan = pvc_Plan a, ActExecute = pvc_Execute a, ActVerify = Some (pvc_Verify a)\<rparr>"

section \<open>Its contract\<close>

lemma pvc_fetchD: "pvc_fetch cl t s = (x, s') \<Longrightarrow> Changes s' = Changes s"
  by (auto simp: pvc_fetch_def dest: readingD split: prod.splits)

lemma checkExpandableD: "checkExpandable cl cm t s = (x, s') \<Longrightarrow> Changes s' = Changes s"
  by (auto simp: checkExpandable_def Let_def dest: readingD split: prod.splits if_splits)

lemma checkExpandable_allowed:
  "checkExpandable cl cm t s = (None, s') \<Longrightarrow>
     \<exists>name. ClaimStorageClass cm = Some name \<and> fst (GetStorageClass cl name (AWorld s)) = Inr (Some True)"
  by (auto simp: checkExpandable_def reading_def Let_def split: prod.splits if_splits sum.splits option.splits)

lemma pvc_planD:
  assumes "pvc_plan a r s = (x, s')"
  shows "Changes s' = Changes s"
    and "x = Inr (cm, want) \<Longrightarrow> 0 < QCmp (PvcQuantities a) want (claim_requested (PvcQuantities a) cm)"
  using assms
  by (auto simp: pvc_plan_def Let_def dest!: pvc_fetchD checkExpandableD dest: targetSize_grows split: prod.splits sum.splits option.splits)

definition pvc_intended :: "('w, 'q) pvc_expand \<Rightarrow> request \<Rightarrow> change \<Rightarrow> bool" where
  "pvc_intended a r ch \<longleftrightarrow> (\<exists>want cm. ch = pvc_change a (ReqTarget r) want
     \<and> 0 < QCmp (PvcQuantities a) want (claim_requested (PvcQuantities a) cm))"

lemma pvc_intendedI:
  "0 < QCmp (PvcQuantities a) want (claim_requested (PvcQuantities a) cm) \<Longrightarrow> pvc_intended a r (pvc_change a (ReqTarget r) want)"
  unfolding pvc_intended_def by blast

interpretation pvc: predictable_action "pvc_Plan a" "pvc_Execute a" "pvc_intended a" for a
proof unfold_locales
  fix c r s
  obtain planned s1 where p: "pvc_plan a r s = (planned, s1)" by fastforce
  note changes = pvc_planD(1) [OF p]
  have grows: "pvc_intended a r (pvc_change a (ReqTarget r) want)" if "planned = Inr (cm, want)" for cm want
    using pvc_planD(2) [OF p that] by (rule pvc_intendedI)
  show "Changes (snd (snd (pvc_Plan a c r s))) = Changes s"
    using p changes by (auto simp: pvc_Plan_def split: sum.splits)
  show "\<exists>cs. Changes (snd (snd (pvc_Execute a c r s))) = Changes s @ cs \<and> length cs \<le> 1 \<and> list_all (pvc_intended a r) cs"
    using p changes
    by (auto simp: pvc_Execute_def Let_def dest!: changingD intro: grows split: prod.splits sum.splits option.splits)
  show "fst (snd (pvc_Execute a c r s)) = Some e \<and> Changes (snd (snd (pvc_Execute a c r s))) = Changes s"
    if "fst (snd (pvc_Plan a c r s)) = Some e" for e
    using that p changes by (auto simp: pvc_Execute_def pvc_Plan_def Let_def split: sum.splits)
  show "(\<exists>ch. Changes (snd (snd (pvc_Execute a c r s))) = Changes s @ [ch]) \<or> fst (snd (pvc_Execute a c r s)) = None"
    if "fst (snd (pvc_Plan a c r s)) = None"
    using that p changes by (auto simp: pvc_Execute_def pvc_Plan_def Let_def dest!: changingD split: prod.splits sum.splits option.splits)
qed

lemma pvc_look_reads: "Changes (snd (pvc_look a t want b s)) = Changes s"
  by (auto simp: pvc_look_def Let_def dest: pvc_fetchD split: prod.splits sum.splits)

lemma pvc_Verify_reads: "Changes (snd (snd (pvc_Verify a c r x s))) = Changes s"
  by (auto simp: pvc_Verify_def pvc_look_reads pvc_expired_def intro!: poll_until_reads split: option.splits)

lemma pvc_Verify_success:
  assumes "pvc_Verify a c r x s = (res, None, s')"
  shows "\<exists>want s1 cm. QParse (PvcQuantities a) (map_get (ResultOutputs x) ''sizeAfter'') = Some want
    \<and> pvc_fetch (PvcClient a) (ReqTarget r) s1 = (Inr cm, s')
    \<and> 0 \<le> QCmp (PvcQuantities a) (case ClaimCapacity cm of Some y \<Rightarrow> y | None \<Rightarrow> QZero (PvcQuantities a)) want"
proof -
  from assms obtain want where want: "QParse (PvcQuantities a) (map_get (ResultOutputs x) ''sizeAfter'') = Some want"
    and poll: "verify_poll c (PvcPoll a) (PvcWait (PvcClient a)) (pvc_look a (ReqTarget r) want) pvc_expired '''' s = (res, None, s')"
    by (auto simp: pvc_Verify_def split: option.splits)
  from poll_until_success [OF poll [unfolded verify_poll_def]]
  obtain b s1 where "pvc_look a (ReqTarget r) want b s1 = (Answer res None, s')" by (auto simp: pvc_expired_def)
  then obtain cm where "pvc_fetch (PvcClient a) (ReqTarget r) s1 = (Inr cm, s')"
    "0 \<le> QCmp (PvcQuantities a) (case ClaimCapacity cm of Some y \<Rightarrow> y | None \<Rightarrow> QZero (PvcQuantities a)) want"
    by (auto simp: pvc_look_def Let_def split: prod.splits sum.splits if_splits)
  with want show ?thesis by blast
qed

end
