(* ===== verification/Webhook.thy ===== *)
theory Webhook
  imports Verbs
begin

text \<open>
  \<open>internal/action/external/webhook.go\<close>: posting the incident to an endpoint outside the cluster.
  \<open>UrlError\<close> is the error \<open>url.Parse\<close> gives, if any, and \<open>HttpDo\<close> what the HTTP client answers;
  the Secret is read through \<open>GetSecret\<close>.
\<close>

section \<open>Of net/url and net/http\<close>

text \<open>The scheme of a URL: the letters, digits and \<open>+-.\<close> before the first colon, in lower case.\<close>

definition is_letter :: "char \<Rightarrow> bool" where
  "is_letter c \<longleftrightarrow> (let n = (of_char (lower_char c) :: nat) in 97 \<le> n \<and> n \<le> 122)"

fun get_scheme :: "string \<Rightarrow> string \<Rightarrow> string" where
  "get_scheme seen [] = ''''"
| "get_scheme seen (c # cs) =
     (if is_letter c then get_scheme (seen @ [c]) cs
      else if is_digit c \<or> c \<in> set ''+-.'' then (if seen = [] then '''' else get_scheme (seen @ [c]) cs)
      else if c = CHR '':'' then seen
      else '''')"

definition url_scheme :: "string \<Rightarrow> string" where
  "url_scheme s = to_lower (get_scheme [] (fst (str_cut (CHR ''#'') s)))"

text \<open>\<open>Header.Set\<close> stores under the canonical form of the name, if it is a name at all.\<close>

definition token_char :: "char \<Rightarrow> bool" where
  "token_char c \<longleftrightarrow> is_letter c \<or> is_digit c \<or> c = char_of (39::nat) \<or> c = char_of (96::nat) \<or> c \<in> set ''!#$%&*+-.^_|~''"

fun canonical_from :: "bool \<Rightarrow> string \<Rightarrow> string" where
  "canonical_from up [] = []"
| "canonical_from up (c # cs) =
     (if up then upper_char c else lower_char c) # canonical_from (c = CHR ''-'') cs"

definition canonical_header :: "string \<Rightarrow> string" where
  "canonical_header name = (if list_all token_char name then canonical_from True name else name)"

record webhook_response =
  RespStatus :: string
  RespCode :: int
  RespBody :: string

section \<open>Parameters\<close>

definition URLParam :: string where "URLParam = ''url''"
definition MethodParam :: string where "MethodParam = ''method''"
definition SecretParam :: string where "SecretParam = ''secretRef''"
definition SecretKeyParam :: string where "SecretKeyParam = ''secretKey''"
definition HeaderParam :: string where "HeaderParam = ''header''"
definition HeaderPrefixParam :: string where "HeaderPrefixParam = ''headerPrefix''"
definition TimeoutParam :: string where "TimeoutParam = ''timeout''"
definition FormatParam :: string where "FormatParam = ''format''"
definition AlertNameParam :: string where "AlertNameParam = ''alertname''"
definition SeverityParam :: string where "SeverityParam = ''severity''"
definition FormatRemedik :: string where "FormatRemedik = ''remedik''"
definition FormatAlertmanager :: string where "FormatAlertmanager = ''alertmanager''"
definition DefaultEscalationAlertName :: string where "DefaultEscalationAlertName = ''RemediationFailed''"
definition DefaultEscalationSeverity :: string where "DefaultEscalationSeverity = ''critical''"
definition DefaultWebhookTimeout :: duration where "DefaultWebhookTimeout = 10 * second"
definition MaxWebhookTimeout :: duration where "MaxWebhookTimeout = 2 * minute"
definition maxResponseBytes :: nat where "maxResponseBytes = 4096"

record 'w webhook_client =
  GetSecret :: "string \<Rightarrow> string \<Rightarrow> 'w \<Rightarrow> (go_error + smap) \<times> 'w"
  HttpDo :: "duration \<Rightarrow> change \<Rightarrow> 'w \<Rightarrow> (go_error + webhook_response) \<times> 'w"
  UrlError :: "string \<Rightarrow> go_error option"
  WebhookNow :: "'w \<Rightarrow> time \<times> 'w"

record 'w webhook_call =
  WebhookClient :: "'w webhook_client"
  OperatorNS :: string
  WebhookDuration :: parse_duration

definition NewWebhookCall :: "'w webhook_client \<Rightarrow> string \<Rightarrow> parse_duration \<Rightarrow> 'w webhook_call" where
  "NewWebhookCall c ns pd = \<lparr>WebhookClient = c, OperatorNS = ns, WebhookDuration = pd\<rparr>"

definition webhook_Resolve :: "smap \<Rightarrow> params \<Rightarrow> go_error + target" where
  "webhook_Resolve labels p = Inr zero_target"

section \<open>The bodies\<close>

definition targetOrEmpty :: "target \<Rightarrow> string" where
  "targetOrEmpty t = (if target_IsZero t then '''' else target_string t)"

definition firstNonEmpty :: "string list \<Rightarrow> string" where
  "firstNonEmpty xs = (case find (\<lambda>v. v \<noteq> '''') xs of Some v \<Rightarrow> v | None \<Rightarrow> '''')"

definition json_omitempty :: "string \<Rightarrow> string \<Rightarrow> (string \<times> string) list" where
  "json_omitempty k v = (if v = '''' then [] else [(k, json_string v)])"

definition payloadOf :: "request \<Rightarrow> string" where
  "payloadOf r = json_object
     ([(''remediation'', json_string (ReqRemediation r)), (''strategy'', json_string (ReqStrategy r)),
       (''namespace'', json_string (ReqNamespace r))]
      @ json_omitempty ''target'' (targetOrEmpty (ReqTarget r))
      @ [(''dryRun'', json_bool (ReqDryRun r)),
         (''alert'', json_object (json_omitempty ''name'' (map_get (ReqLabels r) ''alertname''))),
         (''labels'', json_smap (ReqLabels r))])"

definition escalation_labels :: "request \<Rightarrow> smap" where
  "escalation_labels r =
     map_put ''alertname'' (params_Get (ReqParams r) AlertNameParam DefaultEscalationAlertName)
       (map_put ''severity'' (params_Get (ReqParams r) SeverityParam DefaultEscalationSeverity) (ReqLabels r))"

definition escalation_annotations :: "request \<Rightarrow> smap" where
  "escalation_annotations r =
     [(''summary'', ''remedik could not remediate '' @ firstNonEmpty [targetOrEmpty (ReqTarget r), ReqStrategy r]),
      (''remediation'', ReqRemediation r)]
     @ (let msg = map_get (ReqLabels r) ''remedik_message'' in if msg \<noteq> '''' then [(''description'', msg)] else [])
     @ (if ReqDryRun r then [(''dryRun'', ''this remediation only reported; nothing was changed'')] else [])"

definition alertmanagerBodyOf :: "request \<Rightarrow> time \<Rightarrow> string" where
  "alertmanagerBodyOf r now = json_array [json_object
     [(''labels'', json_smap (escalation_labels r)),
      (''annotations'', json_smap (escalation_annotations r)),
      (''startsAt'', json_string (rfc3339 now))]]"

section \<open>Preparing the call\<close>

record call =
  CallEndpoint :: string
  CallFormat :: string
  CallMethod :: string
  CallTimeout :: duration
  CallHeader :: string
  CallHeaderPrefix :: string
  CallCredential :: string
  CallCredentialFrom :: string
  CallBody :: string

definition curl :: "call \<Rightarrow> string" where
  "curl cl =
     (let q = [char_of (39::nat)];
          auth = (if CallCredentialFrom cl \<noteq> ''''
                  then '' -H '' @ q @ CallHeader cl @ '': '' @ CallHeaderPrefix cl @ ''<'' @ CallCredentialFrom cl @ ''>'' @ q
                  else '''')
      in ''curl -X '' @ CallMethod cl @ '' '' @ CallEndpoint cl @ auth @ '' -H '' @ q @ ''Content-Type: application/json'' @ q @ '' -d @-'')"

definition credential :: "'w webhook_call \<Rightarrow> string \<Rightarrow> string \<Rightarrow> 'w astate \<Rightarrow> (go_error + string) \<times> 'w astate" where
  "credential a name key s =
     (let ns = OperatorNS a; (got, s) = reading (GetSecret (WebhookClient a) ns name) s in
      (case got of
         Inl e \<Rightarrow> Inl (if is_not_found e then Err (''secret '' @ ns @ ''/'' @ name @ '' does not exist'')
                       else if is_forbidden e then Wrap (''not permitted to read secret '' @ ns @ ''/'' @ name @ '': '') e ''''
                       else Wrap (''read secret '' @ ns @ ''/'' @ name @ '': '') e '''')
       | Inr d \<Rightarrow>
           if map_get d key = '''' then Inl (Err (''secret '' @ ns @ ''/'' @ name @ '' has no '' @ quote key @ '' key''))
           else Inr (map_get d key), s))"

definition call_checks :: "'w webhook_call \<Rightarrow> request \<Rightarrow> go_error + call" where
  "call_checks a r =
     (let p = ReqParams r; endpoint = params_Get p URLParam '''' in
      if endpoint = '''' then Inl (Err (''no '' @ URLParam @ '': the step must name the endpoint to call''))
      else case UrlError (WebhookClient a) endpoint of
        Some e \<Rightarrow> Inl (Wrap (''parameter '' @ quote URLParam @ '': '') e '''')
      | None \<Rightarrow>
          if url_scheme endpoint \<noteq> ''http'' \<and> url_scheme endpoint \<noteq> ''https''
          then Inl (Err (''parameter '' @ quote URLParam @ '': '' @ quote endpoint @ '' is not an http or https URL''))
          else
            (let verb = to_upper (params_Get p MethodParam ''POST'') in
             if verb \<notin> {''POST'', ''PUT'', ''PATCH''}
             then Inl (Err (''parameter '' @ quote MethodParam @ '': '' @ quote verb @ '' is not one of POST, PUT or PATCH''))
             else case params_Duration (WebhookDuration a) p TimeoutParam DefaultWebhookTimeout of
               Inl e \<Rightarrow> Inl e
             | Inr timeout \<Rightarrow>
                 if MaxWebhookTimeout < timeout
                 then Inl (Err (''parameter '' @ quote TimeoutParam @ '': '' @ dur_str timeout @ '' exceeds the maximum of '' @ dur_str MaxWebhookTimeout))
                 else Inr \<lparr>CallEndpoint = endpoint, CallFormat = '''', CallMethod = verb, CallTimeout = timeout,
                        CallHeader = params_Get p HeaderParam ''Authorization'',
                        CallHeaderPrefix = params_Get p HeaderPrefixParam ''Bearer '',
                        CallCredential = '''', CallCredentialFrom = '''', CallBody = ''''\<rparr>))"

definition with_credential :: "'w webhook_call \<Rightarrow> request \<Rightarrow> call \<Rightarrow> 'w astate \<Rightarrow> (go_error + call) \<times> 'w astate" where
  "with_credential a r cl s =
     (let name = params_Get (ReqParams r) SecretParam ''''; key = params_Get (ReqParams r) SecretKeyParam ''token'' in
      if name = '''' then (Inr cl, s)
      else (let (got, s) = credential a name key s in
        (case got of Inl e \<Rightarrow> Inl e
         | Inr c \<Rightarrow> Inr (cl\<lparr>CallCredential := c, CallCredentialFrom := name @ ''/'' @ key\<rparr>), s)))"

definition with_body :: "'w webhook_call \<Rightarrow> request \<Rightarrow> call \<Rightarrow> 'w astate \<Rightarrow> (go_error + call) \<times> 'w astate" where
  "with_body a r cl s =
     (let format = params_Get (ReqParams r) FormatParam FormatRemedik in
      if format = FormatRemedik then (Inr (cl\<lparr>CallFormat := format, CallBody := payloadOf r\<rparr>), s)
      else if format = FormatAlertmanager
      then (let (now, s) = reading (WebhookNow (WebhookClient a)) s in
            (Inr (cl\<lparr>CallFormat := format, CallBody := alertmanagerBodyOf r now\<rparr>), s))
      else (Inl (Err (''parameter '' @ quote FormatParam @ '': '' @ quote format @ '' is not a known format; use ''
                  @ quote FormatRemedik @ '' or '' @ quote FormatAlertmanager)), s))"

definition webhook_prepare :: "'w webhook_call \<Rightarrow> request \<Rightarrow> 'w astate \<Rightarrow> (go_error + call) \<times> 'w astate" where
  "webhook_prepare a r s =
     (case call_checks a r of Inl e \<Rightarrow> (Inl e, s)
      | Inr cl \<Rightarrow>
          (let (got, s) = with_credential a r cl s in
           case got of Inl e \<Rightarrow> (Inl e, s) | Inr cl \<Rightarrow> with_body a r cl s))"

section \<open>Planning and calling\<close>

definition webhook_Plan :: "'w webhook_call \<Rightarrow> ctx \<Rightarrow> request \<Rightarrow> 'w astate \<Rightarrow> 'w astate outcome" where
  "webhook_Plan a c r s =
     (let (got, s) = webhook_prepare a r s in
      case got of Inl e \<Rightarrow> (zero_result, Some e, s)
      | Inr cl \<Rightarrow>
          (let result = result_Output ''method'' (CallMethod cl) (result_Output ''url'' (CallEndpoint cl)
                 (zero_result\<lparr>Summary := CallMethod cl @ '' '' @ CallEndpoint cl @ '' with the alert, the strategy and the plan'',
                    ResultKubectl := curl cl\<rparr>))
           in (if CallCredentialFrom cl \<noteq> '''' then result_Output ''credentialFrom'' (CallCredentialFrom cl) result else result, None, s)))"

definition webhook_headers :: "call \<Rightarrow> smap" where
  "webhook_headers cl =
     (let h = [(''Content-Type'', ''application/json''), (''User-Agent'', ''remedik'')] in
      if CallHeader cl \<noteq> '''' \<and> CallCredential cl \<noteq> ''''
      then map_put (canonical_header (CallHeader cl)) (CallHeaderPrefix cl @ CallCredential cl) h else h)"

definition readCapped :: "webhook_response \<Rightarrow> string" where
  "readCapped resp = trim_space (take maxResponseBytes (RespBody resp))"

definition webhook_request :: "call \<Rightarrow> change" where
  "webhook_request cl = SendHTTP (CallMethod cl) (CallEndpoint cl) (webhook_headers cl) (CallBody cl)"

definition webhook_answer :: "call \<Rightarrow> webhook_response \<Rightarrow> result \<times> go_error option" where
  "webhook_answer cl resp =
     (let body = readCapped resp;
          says = CallMethod cl @ '' '' @ CallEndpoint cl @ '' answered '' @ RespStatus resp;
          result = result_Output ''status'' (itoa (RespCode resp)) (result_Output ''url'' (CallEndpoint cl)
            (zero_result\<lparr>Summary := says, ResultKubectl := curl cl\<rparr>));
          result = (if body \<noteq> '''' then result_Output ''response'' body result else result)
      in (result, if RespCode resp < 200 \<or> 299 < RespCode resp then Some (Err (says @ '': '' @ body)) else None))"

definition webhook_Execute :: "'w webhook_call \<Rightarrow> ctx \<Rightarrow> request \<Rightarrow> 'w astate \<Rightarrow> 'w astate outcome" where
  "webhook_Execute a c r s =
     (let (got, s) = webhook_prepare a r s in
      case got of Inl e \<Rightarrow> (zero_result, Some e, s)
      | Inr cl \<Rightarrow>
          (let (answer, s) = changing (webhook_request cl) (HttpDo (WebhookClient a) (CallTimeout cl) (webhook_request cl)) s in
           case answer of
             Inl e \<Rightarrow> (zero_result, Some (Wrap (''call '' @ CallEndpoint cl @ '': '') e ''''), s)
           | Inr resp \<Rightarrow> (let (result, err) = webhook_answer cl resp in (result, err, s))))"

definition webhook_action :: "'w webhook_call \<Rightarrow> 'w astate action" where
  "webhook_action a = \<lparr>ActName = ''webhook.call'', ActType = ''*external.WebhookCall'', ActResolve = webhook_Resolve,
     ActPlan = webhook_Plan a, ActExecute = webhook_Execute a, ActVerify = None\<rparr>"

section \<open>The contract\<close>

lemma credentialD: "credential a name key s = (x, s') \<Longrightarrow> Changes s' = Changes s"
  by (auto simp: credential_def Let_def dest: readingD split: prod.splits)

lemma with_credentialD:
  assumes "with_credential a r cl s = (x, s')"
  shows "Changes s' = Changes s"
    and "x = Inr cl' \<Longrightarrow> CallEndpoint cl' = CallEndpoint cl \<and> CallMethod cl' = CallMethod cl \<and> CallTimeout cl' = CallTimeout cl"
  using assms by (auto simp: with_credential_def Let_def dest: credentialD split: prod.splits sum.splits if_splits)

lemma with_bodyD:
  assumes "with_body a r cl s = (x, s')"
  shows "Changes s' = Changes s"
    and "x = Inr cl' \<Longrightarrow> CallEndpoint cl' = CallEndpoint cl \<and> CallMethod cl' = CallMethod cl \<and> CallTimeout cl' = CallTimeout cl"
  using assms by (auto simp: with_body_def Let_def dest: readingD split: prod.splits sum.splits if_splits)

lemma params_Duration_positive: "params_Duration pd p k d = Inr x \<Longrightarrow> 0 < d \<Longrightarrow> 0 < x"
  by (auto simp: params_Duration_def Let_def split: if_splits sum.splits)

lemma call_checksD:
  assumes "call_checks a r = Inr cl"
  shows "CallEndpoint cl = params_Get (ReqParams r) URLParam ''''" and "CallMethod cl \<in> {''POST'', ''PUT'', ''PATCH''}"
    and "0 < CallTimeout cl" and "CallTimeout cl \<le> MaxWebhookTimeout" and "url_scheme (CallEndpoint cl) \<in> {''http'', ''https''}"
  using assms params_Duration_positive [of "WebhookDuration a" "ReqParams r" TimeoutParam DefaultWebhookTimeout]
  by (auto simp: call_checks_def Let_def DefaultWebhookTimeout_def split: if_splits option.splits sum.splits)

lemma webhook_prepareD:
  assumes "webhook_prepare a r s = (x, s')"
  shows "Changes s' = Changes s \<and> (\<forall>cl. x = Inr cl \<longrightarrow> (\<exists>cl0. call_checks a r = Inr cl0 \<and> CallEndpoint cl = CallEndpoint cl0
      \<and> CallMethod cl = CallMethod cl0 \<and> CallTimeout cl = CallTimeout cl0))"
proof (cases "call_checks a r")
  case checked: (Inr cl0)
  obtain got s1 where w: "with_credential a r cl0 s = (got, s1)" by fastforce
  show ?thesis
  proof (cases got)
    case (Inl e)
    with assms checked w with_credentialD(1) [OF w] show ?thesis by (auto simp: webhook_prepare_def)
  next
    case (Inr cl1)
    with assms checked w have b: "with_body a r cl1 s1 = (x, s')" by (simp add: webhook_prepare_def)
    have "Changes s' = Changes s" using with_bodyD(1) [OF b] with_credentialD(1) [OF w] by simp
    moreover have "CallEndpoint cl = CallEndpoint cl0 \<and> CallMethod cl = CallMethod cl0 \<and> CallTimeout cl = CallTimeout cl0"
      if "x = Inr cl" for cl using with_bodyD(2) [OF b that] with_credentialD(2) [OF w Inr] by simp
    ultimately show ?thesis using checked by blast
  qed
qed (use assms in \<open>auto simp: webhook_prepare_def\<close>)

definition webhook_intended :: "request \<Rightarrow> change \<Rightarrow> bool" where
  "webhook_intended r ch \<longleftrightarrow> (\<exists>verb headers body. ch = SendHTTP verb (params_Get (ReqParams r) URLParam '''') headers body
     \<and> verb \<in> {''POST'', ''PUT'', ''PATCH''})"

lemma webhook_request_intended:
  assumes "webhook_prepare a r s = (Inr cl, s')"
  shows "webhook_intended r (webhook_request cl)" and "0 < CallTimeout cl" and "CallTimeout cl \<le> MaxWebhookTimeout"
proof -
  from webhook_prepareD [OF assms] obtain cl0 where "call_checks a r = Inr cl0" "CallEndpoint cl = CallEndpoint cl0"
    "CallMethod cl = CallMethod cl0" "CallTimeout cl = CallTimeout cl0" by auto
  then show "webhook_intended r (webhook_request cl)" "0 < CallTimeout cl" "CallTimeout cl \<le> MaxWebhookTimeout"
    using call_checksD [of a r cl0] by (auto simp: webhook_intended_def webhook_request_def)
qed

interpretation webhook: predictable_action "webhook_Plan a" "webhook_Execute a" webhook_intended for a
proof unfold_locales
  fix c r s
  obtain got s1 where p: "webhook_prepare a r s = (got, s1)" by fastforce
  then have changes: "Changes s1 = Changes s" using webhook_prepareD by blast
  have call: "webhook_intended r (webhook_request cl)" if "got = Inr cl" for cl
    using webhook_request_intended(1) p that by blast
  show "Changes (snd (snd (webhook_Plan a c r s))) = Changes s"
    using p changes by (simp add: webhook_Plan_def Let_def split: sum.split)
  show "\<exists>cs. Changes (snd (snd (webhook_Execute a c r s))) = Changes s @ cs \<and> length cs \<le> 1 \<and> list_all (webhook_intended r) cs"
    using p changes by (auto simp: webhook_Execute_def dest!: changingD intro: call split: prod.splits sum.splits)
  show "fst (snd (webhook_Execute a c r s)) = Some e \<and> Changes (snd (snd (webhook_Execute a c r s))) = Changes s"
    if "fst (snd (webhook_Plan a c r s)) = Some e" for e
    using that p changes by (auto simp: webhook_Execute_def webhook_Plan_def Let_def split: sum.splits)
  show "(\<exists>ch. Changes (snd (snd (webhook_Execute a c r s))) = Changes s @ [ch]) \<or> fst (snd (webhook_Execute a c r s)) = None"
    if "fst (snd (webhook_Plan a c r s)) = None"
    using that p changes by (auto simp: webhook_Execute_def webhook_Plan_def Let_def dest!: changingD split: prod.splits sum.splits)
qed

text \<open>A call that succeeds is one that was answered with a 2xx status.\<close>

lemma webhook_success:
  assumes "webhook_Execute a c r s = (res, None, s')"
  shows "\<exists>cl s1 resp. webhook_prepare a r s = (Inr cl, s1) \<and> Changes s' = Changes s @ [webhook_request cl]
    \<and> changing (webhook_request cl) (HttpDo (WebhookClient a) (CallTimeout cl) (webhook_request cl)) s1 = (Inr resp, s')
    \<and> 200 \<le> RespCode resp \<and> RespCode resp \<le> 299"
proof -
  obtain got s1 where p: "webhook_prepare a r s = (got, s1)" by fastforce
  with assms obtain cl where cl: "got = Inr cl" by (cases got) (auto simp: webhook_Execute_def)
  obtain answer s2 where h: "changing (webhook_request cl) (HttpDo (WebhookClient a) (CallTimeout cl) (webhook_request cl)) s1 = (answer, s2)"
    by fastforce
  with assms p cl obtain resp where resp: "answer = Inr resp" by (cases answer) (auto simp: webhook_Execute_def)
  then have "s2 = s'" "200 \<le> RespCode resp" "RespCode resp \<le> 299"
    using assms p cl h by (auto simp: webhook_Execute_def webhook_answer_def Let_def split: if_splits)
  moreover have "Changes s2 = Changes s @ [webhook_request cl]" using changingD [OF h] webhook_prepareD [OF p] by simp
  ultimately show ?thesis using p cl h resp by blast
qed

text \<open>What is recorded of an answer is bounded.\<close>

lemma length_trim_space: "length (trim_space s) \<le> length s"
  unfolding trim_space_def by (metis length_dropWhile_le length_rev order_trans)

lemma length_readCapped: "length (readCapped resp) \<le> maxResponseBytes"
  using length_trim_space [of "take maxResponseBytes (RespBody resp)"] by (simp add: readCapped_def)

section \<open>The credential stays out of the record\<close>

text \<open>
  \<open>map_secrets f\<close> is the world in which every Secret holds other values. A plan cannot tell the
  two apart, unless a value became empty: neither the value nor anything computed from it is in what is recorded.
\<close>

definition map_secrets :: "(string \<Rightarrow> string) \<Rightarrow> 'w webhook_call \<Rightarrow> 'w webhook_call" where
  "map_secrets f a = a\<lparr>WebhookClient := (WebhookClient a)\<lparr>GetSecret :=
     \<lambda>ns name w. case GetSecret (WebhookClient a) ns name w of
        (got, w) \<Rightarrow> (case got of Inl e \<Rightarrow> Inl e | Inr d \<Rightarrow> Inr (map (map_prod id f) d), w)\<rparr>\<rparr>"

definition mask :: "call \<Rightarrow> call" where
  "mask cl = cl\<lparr>CallCredential := ''''\<rparr>"

lemma mask_eqD: "mask cl' = mask cl \<Longrightarrow> \<exists>x. cl' = cl\<lparr>CallCredential := x\<rparr>"
  by (cases cl; cases cl') (simp add: mask_def)

lemma curl_without_credential: "curl (cl\<lparr>CallCredential := x\<rparr>) = curl cl"
  by (simp add: curl_def cong: if_cong)

lemma map_of_map_values: "map_of (map (map_prod id f) d) k = map_option f (map_of d k)"
  by (induction d) auto

lemma map_get_map_secrets: "(\<And>v. f v = '''' \<longleftrightarrow> v = '''') \<Longrightarrow> map_get (map (map_prod id f) d) k = f (map_get d k)"
  by (simp add: map_get_def map_of_map_values split: option.splits) (metis)

lemma credential_map_secrets:
  assumes "\<And>v. f v = '''' \<longleftrightarrow> v = ''''"
  shows "credential (map_secrets f a) name key s = (case credential a name key s of (got, s') \<Rightarrow> (map_sum id f got, s'))"
proof -
  note f = map_get_map_secrets [OF assms]
  obtain got w where "GetSecret (WebhookClient a) (OperatorNS a) name (AWorld s) = (got, w)" by fastforce
  then show ?thesis
    by (cases got) (simp_all add: credential_def map_secrets_def reading_def Let_def f assms)
qed

lemma map_secrets_sel:
  "UrlError (WebhookClient (map_secrets f a)) = UrlError (WebhookClient a)"
  "WebhookNow (WebhookClient (map_secrets f a)) = WebhookNow (WebhookClient a)"
  "WebhookDuration (map_secrets f a) = WebhookDuration a"
  by (simp_all add: map_secrets_def)

lemma call_checks_map_secrets: "call_checks (map_secrets f a) r = call_checks a r"
  unfolding call_checks_def map_secrets_sel by (rule refl)

lemma with_credential_map_secrets:
  assumes "\<And>v. f v = '''' \<longleftrightarrow> v = ''''"
  shows "map_sum id mask (fst (with_credential (map_secrets f a) r cl s)) = map_sum id mask (fst (with_credential a r cl s))"
    and "snd (with_credential (map_secrets f a) r cl s) = snd (with_credential a r cl s)"
  by (simp_all add: with_credential_def credential_map_secrets [OF assms] mask_def Let_def split: prod.splits sum.splits)

lemma with_body_mask:
  assumes "mask cl' = mask cl"
  shows "map_sum id mask (fst (with_body (map_secrets f a) r cl' s)) = map_sum id mask (fst (with_body a r cl s))
    \<and> snd (with_body (map_secrets f a) r cl' s) = snd (with_body a r cl s)"
proof -
  from mask_eqD [OF assms] obtain x where "cl' = cl\<lparr>CallCredential := x\<rparr>" by blast
  then show ?thesis
    by (cases "reading (WebhookNow (WebhookClient a)) s") (simp add: with_body_def map_secrets_sel mask_def Let_def cong: if_cong)
qed

lemma webhook_prepare_map_secrets:
  assumes "\<And>v. f v = '''' \<longleftrightarrow> v = ''''"
  shows "map_sum id mask (fst (webhook_prepare (map_secrets f a) r s)) = map_sum id mask (fst (webhook_prepare a r s))
    \<and> snd (webhook_prepare (map_secrets f a) r s) = snd (webhook_prepare a r s)"
proof (cases "call_checks a r")
  case (Inr cl)
  obtain got s1 where w: "with_credential a r cl s = (got, s1)" by fastforce
  obtain got' s1' where w': "with_credential (map_secrets f a) r cl s = (got', s1')" by fastforce
  from with_credential_map_secrets [OF assms, of a r cl s] w w'
  have eq: "map_sum id mask got' = map_sum id mask got" "s1' = s1" by simp_all
  show ?thesis
    using eq with_body_mask [of _ _ f a r s1] Inr w w'
    by (cases got; cases got') (auto simp: webhook_prepare_def call_checks_map_secrets)
qed (simp add: webhook_prepare_def call_checks_map_secrets)

lemma plan_hides_secrets:
  assumes "\<And>v. f v = '''' \<longleftrightarrow> v = ''''"
  shows "webhook_Plan (map_secrets f a) c r s = webhook_Plan a c r s"
proof -
  obtain got s1 where p: "webhook_prepare a r s = (got, s1)" by fastforce
  obtain got' s1' where p': "webhook_prepare (map_secrets f a) r s = (got', s1')" by fastforce
  from webhook_prepare_map_secrets [OF assms, of a r s] p p'
  have eq: "map_sum id mask got' = map_sum id mask got" "s1' = s1" by simp_all
  show ?thesis
  proof (cases got)
    case (Inl e)
    with eq have "got' = got" by (cases got') auto
    with eq p p' Inl show ?thesis by (simp add: webhook_Plan_def)
  next
    case (Inr cl)
    with eq obtain cl' where "got' = Inr cl'" "mask cl' = mask cl" by (cases got') auto
    with mask_eqD obtain x where "got' = Inr (cl\<lparr>CallCredential := x\<rparr>)" by blast
    with eq p p' Inr show ?thesis by (simp add: webhook_Plan_def Let_def curl_without_credential)
  qed
qed

end
