(* ===== verification/JobRun.thy ===== *)
theory JobRun
  imports PodDelete Webhook
begin

text \<open>
  \<open>internal/action/external/job.go\<close> and \<open>logs.go\<close>: running somebody else's container as a step, from
  an image (\<open>job.run\<close>) or a script in a ConfigMap (\<open>script.run\<close>). How \<open>json.Unmarshal\<close> reads an array
  of strings is the parameter \<open>DecodeStrings\<close>. The calls made on a context that has ended are given a
  flag that says so, because their answer depends on it.
\<close>

definition ImageParam :: string where "ImageParam = ''image''"
definition CommandParam :: string where "CommandParam = ''command''"
definition ServiceAccountParam :: string where "ServiceAccountParam = ''serviceAccount''"
definition TTLParam :: string where "TTLParam = ''ttlSecondsAfterFinished''"
definition BackoffParam :: string where "BackoffParam = ''backoffLimit''"
definition ConfigMapParam :: string where "ConfigMapParam = ''configMap''"
definition ConfigMapKeyParam :: string where "ConfigMapKeyParam = ''key''"
definition DefaultTTL :: int where "DefaultTTL = 3600"
definition logTailLines :: int where "logTailLines = 20"
definition maxLogBytes :: nat where "maxLogBytes = 2048"
definition DefaultJobPoll :: duration where "DefaultJobPoll = 2 * second"
definition scriptMountPath :: string where "scriptMountPath = ''/remedik/scripts''"

text \<open>\<open>SendJob\<close> answers with the name the API server generated. \<open>LogStream\<close> opens a pod's log: its
  content and the error that ends it, if any.\<close>

record 'w run_client =
  RunGetJob :: "string \<Rightarrow> string \<Rightarrow> 'w \<Rightarrow> (go_error + batch_job) \<times> 'w"
  RunGetConfigMap :: "string \<Rightarrow> string \<Rightarrow> 'w \<Rightarrow> (go_error + smap) \<times> 'w"
  RunListPods :: "bool \<Rightarrow> string \<Rightarrow> string \<Rightarrow> 'w \<Rightarrow> (go_error + pod list) \<times> 'w"
  SendJob :: "change \<Rightarrow> 'w \<Rightarrow> (go_error + string) \<times> 'w"
  LogStream :: "bool \<Rightarrow> string \<Rightarrow> string \<Rightarrow> int \<Rightarrow> 'w \<Rightarrow> (go_error + string \<times> go_error option) \<times> 'w"
  RunNow :: "'w \<Rightarrow> time \<times> 'w"
  RunWait :: "duration \<Rightarrow> 'w \<Rightarrow> 'w"
  DecodeStrings :: "string \<Rightarrow> go_error + string list"

record 'w job_run =
  RunClient :: "'w run_client"
  RunHasLogs :: bool
  RunName :: string
  RunPoll :: duration
  RunOperatorAccount :: string
  RunScript :: bool

definition NewJobRun :: "'w run_client \<Rightarrow> bool \<Rightarrow> string \<Rightarrow> 'w job_run" where
  "NewJobRun c logs account = \<lparr>RunClient = c, RunHasLogs = logs, RunName = ''job.run'', RunPoll = DefaultJobPoll,
     RunOperatorAccount = account, RunScript = False\<rparr>"

definition NewScriptRun :: "'w run_client \<Rightarrow> bool \<Rightarrow> string \<Rightarrow> 'w job_run" where
  "NewScriptRun c logs account = \<lparr>RunClient = c, RunHasLogs = logs, RunName = ''script.run'', RunPoll = DefaultJobPoll,
     RunOperatorAccount = account, RunScript = True\<rparr>"

definition run_Resolve :: "smap \<Rightarrow> params \<Rightarrow> go_error + target" where
  "run_Resolve labels p = Inr zero_target"

section \<open>Names\<close>

text \<open>The regular expressions replace one character at a time; label and object names are ASCII.\<close>

definition name_safe :: "char \<Rightarrow> bool" where
  "name_safe c \<longleftrightarrow> (let n = (of_char c :: nat) in 97 \<le> n \<and> n \<le> 122 \<or> 48 \<le> n \<and> n \<le> 57 \<or> n = 45)"

definition env_safe :: "char \<Rightarrow> bool" where
  "env_safe c \<longleftrightarrow> (let n = (of_char c :: nat) in 65 \<le> n \<and> n \<le> 90 \<or> 48 \<le> n \<and> n \<le> 57 \<or> n = 95)"

definition sanitiseName :: "string \<Rightarrow> string" where
  "sanitiseName s =
     (let out = trim_char (CHR ''-'') (map (\<lambda>c. if name_safe c then c else CHR ''-'') (to_lower s));
          out = (if 40 < length out then trim_char (CHR ''-'') (take 40 out) else out)
      in if out = '''' then ''remediation'' else out)"

definition env_name :: "string \<Rightarrow> string" where
  "env_name key = ''REMEDIK_ALERT_'' @ map (\<lambda>c. if env_safe c then c else CHR ''_'') (to_upper key)"

definition environment :: "request \<Rightarrow> (string \<times> string) list" where
  "environment r =
     [(''REMEDIK_REMEDIATION'', ReqRemediation r), (''REMEDIK_STRATEGY'', ReqStrategy r),
      (''REMEDIK_NAMESPACE'', ReqNamespace r), (''REMEDIK_TARGET'', targetOrEmpty (ReqTarget r)),
      (''REMEDIK_ALERT_LABELS'', json_smap (ReqLabels r))]
     @ map (\<lambda>key. (env_name key, map_get (ReqLabels r) key)) (sort (map fst (ReqLabels r)))"

section \<open>The Job\<close>

record job_spec =
  SpecImage :: string
  SpecCommand :: "string list"
  SpecServiceAccount :: string
  SpecTTL :: int
  SpecBackoff :: int
  SpecConfigMap :: string
  SpecConfigMapKey :: string

definition job_kubectl :: "job_spec \<Rightarrow> string \<Rightarrow> string" where
  "job_kubectl sp ns =
     ''kubectl create job remedik-<name> -n '' @ ns @ '' --image='' @ SpecImage sp @ '' -- '' @ join '' '' (SpecCommand sp)
     @ (if SpecConfigMap sp \<noteq> ''''
        then ''  # with '' @ SpecConfigMap sp @ ''/'' @ SpecConfigMapKey sp @ '' mounted at '' @ scriptMountPath else '''')"

definition build_job :: "job_spec \<Rightarrow> request \<Rightarrow> time \<Rightarrow> job_object" where
  "build_job sp r now =
     \<lparr>JobGenerateName = ''remedik-'' @ sanitiseName (ReqStrategy r) @ ''-'',
      JobNamespace = ReqNamespace r,
      JobLabels = [(''app.kubernetes.io/managed-by'', ''remedik''), (''remedik.dev/strategy'', sanitiseName (ReqStrategy r))],
      JobAnnotations = [(''remedik.dev/remediation'', ReqRemediation r), (''remedik.dev/created-at'', rfc3339 now)],
      JobBackoffLimit = SpecBackoff sp, JobTTL = SpecTTL sp, JobServiceAccount = SpecServiceAccount sp,
      JobImage = SpecImage sp, JobCommand = SpecCommand sp, JobEnv = environment r,
      JobConfigMap = (if SpecConfigMap sp \<noteq> '''' then Some (SpecConfigMap sp) else None)\<rparr>"

definition parseCommand :: "'w run_client \<Rightarrow> string \<Rightarrow> go_error + string list" where
  "parseCommand cl raw =
     (if raw = '''' then Inr []
      else case DecodeStrings cl raw of
        Inl e \<Rightarrow> Inl (Wrap (''parameter '' @ quote CommandParam @ '': '') e
           ('' '' @ [char_of (226::nat), char_of (128::nat), char_of (148::nat)] @ '' it is a JSON array, such as ''
            @ json_array (map json_string [''/bin/sh'', ''-c'', ''echo hello''])))
      | Inr cmd \<Rightarrow> if cmd = [] then Inl (Err (''parameter '' @ quote CommandParam @ '': the array is empty'')) else Inr cmd)"

definition parseInt32 :: "string \<Rightarrow> string \<Rightarrow> go_error + int" where
  "parseInt32 raw param =
     (case parse_int 32 raw of
        None \<Rightarrow> Inl (Err (''parameter '' @ quote param @ '': '' @ quote raw @ '' is not a whole number''))
      | Some n \<Rightarrow> if n < 0 then Inl (Err (''parameter '' @ quote param @ '': '' @ itoa n @ '' is negative'')) else Inr n)"

definition int32_param :: "params \<Rightarrow> string \<Rightarrow> int \<Rightarrow> go_error + int" where
  "int32_param p param fallback =
     (let raw = params_Get p param '''' in if raw = '''' then Inr fallback else parseInt32 raw param)"

text \<open>The script's ConfigMap and key, and the command that runs it when the step gives none.\<close>

definition prepareScript :: "'w job_run \<Rightarrow> request \<Rightarrow> job_spec \<Rightarrow> 'w astate \<Rightarrow> (go_error + job_spec) \<times> 'w astate" where
  "prepareScript a r sp s =
     (let ns = ReqNamespace r; cm = params_Get (ReqParams r) ConfigMapParam '''' in
      if cm = '''' then (Inl (Err (''no '' @ ConfigMapParam @ '': the step must name the ConfigMap holding the script'')), s)
      else
        (let (got, s) = reading (RunGetConfigMap (RunClient a) ns cm) s in
         (case got of
            Inl e \<Rightarrow> Inl (if is_not_found e then Err (''configmap '' @ ns @ ''/'' @ cm @ '' does not exist'')
                          else Wrap (''read configmap '' @ ns @ ''/'' @ cm @ '': '') e '''')
          | Inr d \<Rightarrow>
              (let given = params_Get (ReqParams r) ConfigMapKeyParam '''' in
               if given = '''' \<and> length d \<noteq> 1
               then Inl (Err (''no '' @ ConfigMapKeyParam @ '': configmap '' @ ns @ ''/'' @ cm @ '' holds ''
                      @ nat_str (length d) @ '' keys, so the step must say which''))
               else
                 (let key = (if given = '''' then fst (hd d) else given) in
                  if map_of d key = None
                  then Inl (Err (''configmap '' @ ns @ ''/'' @ cm @ '' has no '' @ quote key @ '' key''))
                  else Inr (sp\<lparr>SpecConfigMap := cm, SpecConfigMapKey := key,
                         SpecCommand := (if SpecCommand sp = [] then [''/bin/sh'', scriptMountPath @ ''/'' @ key]
                                         else SpecCommand sp)\<rparr>))), s)))"

definition spec_checks :: "'w job_run \<Rightarrow> request \<Rightarrow> job_spec \<Rightarrow> go_error + job_spec" where
  "spec_checks a r sp =
     (if SpecCommand sp = []
      then Inl (Err (''no '' @ CommandParam @ '': the step must say what to run, as a JSON array such as ''
             @ json_array (map json_string [''/bin/sh'', ''-c'', ''echo hello''])))
      else case int32_param (ReqParams r) TTLParam (SpecTTL sp) of Inl e \<Rightarrow> Inl e
      | Inr ttl \<Rightarrow>
          (case int32_param (ReqParams r) BackoffParam (SpecBackoff sp) of Inl e \<Rightarrow> Inl e
           | Inr backoff \<Rightarrow>
               if RunOperatorAccount a \<noteq> '''' \<and> SpecServiceAccount sp = RunOperatorAccount a
               then Inl (Err (''a Job may not run as '' @ quote (RunOperatorAccount a)
                      @ '', which is remedik's own ServiceAccount: it would inherit every permission the operator holds. Name a ServiceAccount with exactly the access this remediation needs''))
               else Inr (sp\<lparr>SpecTTL := ttl, SpecBackoff := backoff\<rparr>)))"

definition run_prepare :: "'w job_run \<Rightarrow> request \<Rightarrow> 'w astate \<Rightarrow> (go_error + job_spec) \<times> 'w astate" where
  "run_prepare a r s =
     (let image = params_Get (ReqParams r) ImageParam '''' in
      if image = '''' then (Inl (Err (''no '' @ ImageParam @ '': the step must name the image to run'')), s)
      else case parseCommand (RunClient a) (params_Get (ReqParams r) CommandParam '''') of
        Inl e \<Rightarrow> (Inl e, s)
      | Inr cmd \<Rightarrow>
          (let sp = \<lparr>SpecImage = image, SpecCommand = cmd, SpecServiceAccount = params_Get (ReqParams r) ServiceAccountParam ''default'',
                     SpecTTL = DefaultTTL, SpecBackoff = 0, SpecConfigMap = '''', SpecConfigMapKey = ''''\<rparr>;
               (got, s) = (if RunScript a then prepareScript a r sp s else (Inr sp, s))
           in (case got of Inl e \<Rightarrow> Inl e | Inr sp \<Rightarrow> spec_checks a r sp, s)))"

section \<open>Planning and creating\<close>

definition run_outputs :: "job_spec \<Rightarrow> result \<Rightarrow> result" where
  "run_outputs sp result =
     (let result = result_Output ''serviceAccount'' (SpecServiceAccount sp) (result_Output ''image'' (SpecImage sp) result)
      in if SpecConfigMap sp \<noteq> '''' then result_Output ''script'' (SpecConfigMap sp @ ''/'' @ SpecConfigMapKey sp) result else result)"

definition run_Plan :: "'w job_run \<Rightarrow> ctx \<Rightarrow> request \<Rightarrow> 'w astate \<Rightarrow> 'w astate outcome" where
  "run_Plan a c r s =
     (let (got, s) = run_prepare a r s in
      case got of Inl e \<Rightarrow> (zero_result, Some e, s)
      | Inr sp \<Rightarrow>
          (run_outputs sp (zero_result\<lparr>Summary := ''run '' @ SpecImage sp @ '' in namespace '' @ ReqNamespace r @ '' as serviceaccount/''
               @ SpecServiceAccount sp @ '': '' @ join '' '' (SpecCommand sp), ResultKubectl := job_kubectl sp (ReqNamespace r)\<rparr>), None, s))"

definition run_Execute :: "'w job_run \<Rightarrow> ctx \<Rightarrow> request \<Rightarrow> 'w astate \<Rightarrow> 'w astate outcome" where
  "run_Execute a c r s =
     (let (got, s) = run_prepare a r s in
      case got of Inl e \<Rightarrow> (zero_result, Some e, s)
      | Inr sp \<Rightarrow>
          (let (now, s) = reading (RunNow (RunClient a)) s; ch = CreateJob (build_job sp r now);
               (created, s) = changing ch (SendJob (RunClient a) ch) s
           in case created of
                Inl e \<Rightarrow> (zero_result, Some (if is_forbidden e then Wrap (''not permitted to create a Job in '' @ ReqNamespace r @ '': '') e ''''
                             else Wrap ''create the Job: '' e ''''), s)
              | Inr name \<Rightarrow>
                  (run_outputs sp (result_Output ''job'' name (zero_result\<lparr>Summary := ''created job/'' @ name @ '' running '' @ SpecImage sp
                      @ '' as serviceaccount/'' @ SpecServiceAccount sp, ResultKubectl := job_kubectl sp (ReqNamespace r)\<rparr>)), None, s)))"

section \<open>Logs\<close>

text \<open>\<open>PodLogs.TailLogs\<close>: at most twice the bound is read, and an error past it is not seen.\<close>

definition TailLogs :: "'w run_client \<Rightarrow> bool \<Rightarrow> string \<Rightarrow> string \<Rightarrow> int \<Rightarrow> 'w \<Rightarrow> (go_error + string) \<times> 'w" where
  "TailLogs cl ended ns pd lines w =
     (let (opened, w) = LogStream cl ended ns pd lines w in
      (case opened of
         Inl e \<Rightarrow> Inl (Wrap (''open the log stream for '' @ ns @ ''/'' @ pd @ '': '') e '''')
       | Inr (content, failure) \<Rightarrow>
           (case failure of
              Some e \<Rightarrow> if length content < maxLogBytes * 2
                         then Inl (Wrap (''read the logs of '' @ ns @ ''/'' @ pd @ '': '') e '''')
                         else Inr (take (maxLogBytes * 2) content)
            | None \<Rightarrow> Inr (take (maxLogBytes * 2) content)), w))"

definition capLog :: "string \<Rightarrow> string" where
  "capLog s = (if length s \<le> maxLogBytes then s
     else [char_of (226::nat), char_of (128::nat), char_of (166::nat)] @ drop (length s - maxLogBytes) s)"

definition exitCode :: "pod \<Rightarrow> int option" where
  "exitCode pd = (case find (\<lambda>x. x \<noteq> None) (PodExits pd) of Some x \<Rightarrow> x | None \<Rightarrow> None)"

definition newest_pod :: "pod list \<Rightarrow> pod" where
  "newest_pod pods = foldl (\<lambda>newest pd. if PodCreated newest < PodCreated pd then pd else newest) (hd pods) pods"

definition attachLogs :: "'w job_run \<Rightarrow> bool \<Rightarrow> string \<Rightarrow> string \<Rightarrow> result \<Rightarrow> 'w astate \<Rightarrow> result \<times> 'w astate" where
  "attachLogs a ended ns job result s =
     (let (got, s) = reading (RunListPods (RunClient a) ended ns job) s in
      case got of
        Inl e \<Rightarrow> (result_Output ''logs'' (''could not list the Job's pods: '' @ err_text e) result, s)
      | Inr [] \<Rightarrow> (result_Output ''logs'' ''the Job left no pod to read'' result, s)
      | Inr pods \<Rightarrow>
          (let newest = newest_pod pods;
               result = (case exitCode newest of Some code \<Rightarrow> result_Output ''exitCode'' (itoa code) result | None \<Rightarrow> result);
               result = result_Output ''pod'' (PodName newest) result
           in if \<not> RunHasLogs a then (result, s)
              else
                (let (logs, s) = reading (TailLogs (RunClient a) ended ns (PodName newest) logTailLines) s in
                 (case logs of
                    Inl e \<Rightarrow> result_Output ''logs'' (''could not read the pod's logs: '' @ err_text e) result
                  | Inr logs \<Rightarrow> let logs = trim_space logs in if logs \<noteq> '''' then result_Output ''logs'' (capLog logs) result else result, s))))"

section \<open>Verifying\<close>

definition run_failedForGood :: "batch_job \<Rightarrow> bool" where
  "run_failedForGood b \<longleftrightarrow> list_ex (\<lambda>c. fst c = ''Failed'' \<and> snd c = ''True'') (BatchConditions b)"

definition run_look :: "'w job_run \<Rightarrow> string \<Rightarrow> string \<Rightarrow> unit \<Rightarrow> 'w astate \<Rightarrow> unit look \<times> 'w astate" where
  "run_look a ns name seen s =
     (let (got, s) = reading (RunGetJob (RunClient a) ns name) s in
      case got of
        Inl e \<Rightarrow> (Answer zero_result (Some (Wrap (''read job/'' @ name @ '': '') e '''')), s)
      | Inr b \<Rightarrow>
          if 0 < BatchSucceeded b
          then (let (result, s) = attachLogs a False ns name
                       (result_Output ''jobOutcome'' ''Succeeded'' (zero_result\<lparr>Summary := ''job/'' @ name @ '' succeeded''\<rparr>)) s
                in (Answer result None, s))
          else if 0 < BatchFailed b \<and> run_failedForGood b
          then (let (result, s) = attachLogs a False ns name
                       (result_Output ''jobOutcome'' ''Failed'' (zero_result\<lparr>Summary := ''job/'' @ name @ '' failed''\<rparr>)) s
                in (Answer result (Some (Err (''job/'' @ name @ '' failed after '' @ itoa (BatchFailed b) @ '' attempt(s)''))), s))
          else (Again (), s))"

definition run_expired :: "'w job_run \<Rightarrow> string \<Rightarrow> string \<Rightarrow> unit \<Rightarrow> 'w astate \<Rightarrow> 'w astate outcome" where
  "run_expired a ns name seen s =
     (let says = ''job/'' @ name @ '' is still running'';
          (result, s) = attachLogs a True ns name (result_Output ''jobOutcome'' ''Running'' (zero_result\<lparr>Summary := says\<rparr>)) s
      in (result, Some (Err (says @ '' and did not finish in time'')), s))"

definition run_Verify :: "'w job_run \<Rightarrow> ctx \<Rightarrow> request \<Rightarrow> result \<Rightarrow> 'w astate \<Rightarrow> 'w astate outcome" where
  "run_Verify a c r executed s =
     (let name = map_get (ResultOutputs executed) ''job'' in
      if name = '''' then (zero_result, Some (Err ''no Job was recorded to verify''), s)
      else verify_poll c (RunPoll a) (RunWait (RunClient a)) (run_look a (ReqNamespace r) name) (run_expired a (ReqNamespace r) name) () s)"

definition run_action :: "'w job_run \<Rightarrow> 'w astate action" where
  "run_action a = \<lparr>ActName = RunName a, ActType = ''*external.JobRun'', ActResolve = run_Resolve,
     ActPlan = run_Plan a, ActExecute = run_Execute a, ActVerify = Some (run_Verify a)\<rparr>"

section \<open>The contract\<close>

lemma prepareScriptD:
  assumes "prepareScript a r sp s = (x, s')"
  shows "Changes s' = Changes s"
    and "x = Inr sp' \<Longrightarrow> SpecImage sp' = SpecImage sp \<and> SpecServiceAccount sp' = SpecServiceAccount sp"
  using assms by (auto simp: prepareScript_def Let_def dest: readingD split: prod.splits sum.splits if_splits)

lemma int32_param_range:
  "int32_param p k d = Inr x \<Longrightarrow> 0 \<le> d \<Longrightarrow> d < 2 ^ 31 \<Longrightarrow> 0 \<le> x \<and> x < 2 ^ 31"
  using parse_int_range [of 32 "params_Get p k ''''" x]
  by (auto simp: int32_param_def parseInt32_def Let_def split: if_splits option.splits)

lemma spec_checksD:
  assumes "spec_checks a r sp = Inr sp'"
  shows "SpecImage sp' = SpecImage sp" and "SpecServiceAccount sp' = SpecServiceAccount sp"
    and "SpecCommand sp' = SpecCommand sp" and "SpecCommand sp' \<noteq> []"
    and "RunOperatorAccount a = '''' \<or> SpecServiceAccount sp' \<noteq> RunOperatorAccount a"
    and "int32_param (ReqParams r) TTLParam (SpecTTL sp) = Inr (SpecTTL sp')"
    and "int32_param (ReqParams r) BackoffParam (SpecBackoff sp) = Inr (SpecBackoff sp')"
  using assms by (auto simp: spec_checks_def split: if_splits sum.splits)

lemma run_prepareD:
  assumes "run_prepare a r s = (x, s')"
  shows "Changes s' = Changes s"
  using assms by (auto simp: run_prepare_def Let_def dest: prepareScriptD(1) split: prod.splits sum.splits if_splits)

definition run_intended :: "'w job_run \<Rightarrow> request \<Rightarrow> change \<Rightarrow> bool" where
  "run_intended a r ch \<longleftrightarrow> (\<exists>j. ch = CreateJob j \<and> JobNamespace j = ReqNamespace r
     \<and> (RunOperatorAccount a = '''' \<or> JobServiceAccount j \<noteq> RunOperatorAccount a)
     \<and> JobImage j = params_Get (ReqParams r) ImageParam '''' \<and> JobCommand j \<noteq> [])"

lemma run_prepare_spec:
  assumes "run_prepare a r s = (Inr sp, s')"
  shows "SpecImage sp = params_Get (ReqParams r) ImageParam ''''" and "SpecCommand sp \<noteq> []"
    and "RunOperatorAccount a = '''' \<or> SpecServiceAccount sp \<noteq> RunOperatorAccount a"
proof -
  let ?image = "params_Get (ReqParams r) ImageParam ''''"
  obtain cmd where cmd: "?image \<noteq> ''''" "parseCommand (RunClient a) (params_Get (ReqParams r) CommandParam '''') = Inr cmd"
    using assms by (auto simp: run_prepare_def Let_def split: if_splits sum.splits)
  define sp0 where "sp0 = \<lparr>SpecImage = ?image, SpecCommand = cmd, SpecServiceAccount = params_Get (ReqParams r) ServiceAccountParam ''default'',
    SpecTTL = DefaultTTL, SpecBackoff = 0, SpecConfigMap = '''', SpecConfigMapKey = ''''\<rparr>"
  obtain got s1 where g: "(if RunScript a then prepareScript a r sp0 s else (Inr sp0, s)) = (got, s1)" by fastforce
  with assms cmd obtain sp1 where sp1: "got = Inr sp1" "spec_checks a r sp1 = Inr sp"
    by (auto simp: run_prepare_def Let_def sp0_def [symmetric] split: sum.splits)
  have "SpecImage sp1 = SpecImage sp0"
    using g sp1(1) prepareScriptD(2) [of a r sp0 s got s1 sp1] by (auto split: if_splits)
  then show "SpecImage sp = ?image" "SpecCommand sp \<noteq> []" "RunOperatorAccount a = '''' \<or> SpecServiceAccount sp \<noteq> RunOperatorAccount a"
    using spec_checksD [OF sp1(2)] by (simp_all add: sp0_def)
qed

interpretation job_run: predictable_action "run_Plan a" "run_Execute a" "run_intended a" for a
proof unfold_locales
  fix c r s
  obtain got s1 where p: "run_prepare a r s = (got, s1)" by fastforce
  note changes = run_prepareD [OF p]
  have job: "run_intended a r (CreateJob (build_job sp r now))" if "got = Inr sp" for sp now
    using run_prepare_spec [OF p [unfolded that]] by (simp add: run_intended_def build_job_def)
  show "Changes (snd (snd (run_Plan a c r s))) = Changes s"
    using p changes by (simp add: run_Plan_def split: sum.split)
  show "\<exists>cs. Changes (snd (snd (run_Execute a c r s))) = Changes s @ cs \<and> length cs \<le> 1 \<and> list_all (run_intended a r) cs"
    using p changes by (auto simp: run_Execute_def Let_def dest!: changingD readingD intro: job split: prod.splits sum.splits)
  show "fst (snd (run_Execute a c r s)) = Some e \<and> Changes (snd (snd (run_Execute a c r s))) = Changes s"
    if "fst (snd (run_Plan a c r s)) = Some e" for e
    using that p changes by (auto simp: run_Execute_def run_Plan_def split: sum.splits)
  show "(\<exists>ch. Changes (snd (snd (run_Execute a c r s))) = Changes s @ [ch]) \<or> fst (snd (run_Execute a c r s)) = None"
    if "fst (snd (run_Plan a c r s)) = None"
    using that p changes by (auto simp: run_Execute_def run_Plan_def Let_def dest!: changingD readingD split: prod.splits sum.splits)
qed

lemma attachLogsD: "attachLogs a ended ns job result s = (x, s') \<Longrightarrow> Changes s' = Changes s"
  by (auto simp: attachLogs_def Let_def dest!: readingD split: prod.splits sum.splits list.splits if_splits)

lemma run_look_reads: "Changes (snd (run_look a ns name b s)) = Changes s"
  by (auto simp: run_look_def Let_def dest!: readingD attachLogsD split: prod.splits sum.splits)

lemma run_expired_reads: "Changes (snd (snd (run_expired a ns name b s))) = Changes s"
  by (auto simp: run_expired_def Let_def dest!: attachLogsD split: prod.splits)

lemma run_Verify_reads: "Changes (snd (snd (run_Verify a c r x s))) = Changes s"
  by (auto simp: run_Verify_def Let_def run_look_reads run_expired_reads intro!: poll_until_reads)

lemma run_expired_fails: "fst (snd (run_expired a ns name b s)) \<noteq> None"
  by (simp add: run_expired_def Let_def split: prod.split)

text \<open>A Job counts as done when it reports a success, and only then.\<close>

lemma run_Verify_success:
  assumes "run_Verify a c r x s = (res, None, s')"
  shows "\<exists>s1 b s2. reading (RunGetJob (RunClient a) (ReqNamespace r) (map_get (ResultOutputs x) ''job'')) s1 = (Inr b, s2)
    \<and> 0 < BatchSucceeded b"
proof -
  let ?name = "map_get (ResultOutputs x) ''job''"
  from assms have poll: "verify_poll c (RunPoll a) (RunWait (RunClient a)) (run_look a (ReqNamespace r) ?name)
      (run_expired a (ReqNamespace r) ?name) () s = (res, None, s')"
    by (simp add: run_Verify_def Let_def split: if_splits)
  from poll_until_success [OF poll [unfolded verify_poll_def] run_expired_fails]
  obtain b s1 where "run_look a (ReqNamespace r) ?name b s1 = (Answer res None, s')" by blast
  then show ?thesis
    by (auto simp: run_look_def Let_def split: prod.splits sum.splits if_splits)
qed

section \<open>What a Job is given\<close>

lemma name_safe_dash: "name_safe (CHR ''-'')" by (simp add: name_safe_def)

lemma trim_char_ends:
  assumes "trim_char x s \<noteq> []"
  shows "hd (trim_char x s) \<noteq> x" and "last (trim_char x s) \<noteq> x"
proof -
  let ?t = "dropWhile (\<lambda>c. c = x) s" let ?u = "dropWhile (\<lambda>c. c = x) (rev ?t)"
  have u: "?u \<noteq> []" using assms by (simp add: trim_char_def)
  from hd_dropWhile [OF u] have last: "hd ?u \<noteq> x" .
  then show "last (trim_char x s) \<noteq> x" using u by (simp add: trim_char_def last_rev)
  obtain ys where ys: "rev ?t = ys @ ?u" by (metis takeWhile_dropWhile_id)
  then have t: "?t = rev ?u @ rev ys" by (metis rev_append rev_rev_ident)
  then have "hd (rev ?u) = hd ?t" using u by (metis hd_append2 rev_is_Nil_conv)
  moreover have "?t \<noteq> []" using u by (metis dropWhile.simps(1) rev.simps(1))
  then have "hd ?t \<noteq> x" by (rule hd_dropWhile)
  ultimately show "hd (trim_char x s) \<noteq> x" unfolding trim_char_def by metis
qed

lemma sanitiseName_ok:
  "sanitiseName s \<noteq> []" "length (sanitiseName s) \<le> 40" "list_all name_safe (sanitiseName s)"
  "hd (sanitiseName s) \<noteq> CHR ''-''" "last (sanitiseName s) \<noteq> CHR ''-''"
proof -
  define out where "out = trim_char (CHR ''-'') (map (\<lambda>c. if name_safe c then c else CHR ''-'') (to_lower s))"
  define cut where "cut = (if 40 < length out then trim_char (CHR ''-'') (take 40 out) else out)"
  have name: "sanitiseName s = (if cut = '''' then ''remediation'' else cut)"
    by (simp add: sanitiseName_def out_def cut_def Let_def)
  have "name_safe c" if "c \<in> set out" for c
    using set_trim_char [OF that [unfolded out_def]] name_safe_dash by auto
  then have "name_safe c" if "c \<in> set cut" for c
    using that set_trim_char [of c "CHR ''-''" "take 40 out"] by (auto simp: cut_def dest: in_set_takeD split: if_splits)
  then have safe: "list_all name_safe cut" by (simp add: list_all_iff)
  have len: "length cut \<le> 40"
    using length_trim_char [of "CHR ''-''" "take 40 out"] by (simp add: cut_def)
  have ends: "hd cut \<noteq> CHR ''-'' \<and> last cut \<noteq> CHR ''-''" if "cut \<noteq> []"
  proof (cases "40 < length out")
    case True
    then have "cut = trim_char (CHR ''-'') (take 40 out)" by (simp add: cut_def)
    then show ?thesis using that trim_char_ends [of "CHR ''-''" "take 40 out"] by simp
  next
    case False
    then have "cut = out" by (simp add: cut_def)
    then show ?thesis using that trim_char_ends unfolding out_def by blast
  qed
  show "sanitiseName s \<noteq> []" "length (sanitiseName s) \<le> 40" "list_all name_safe (sanitiseName s)"
    "hd (sanitiseName s) \<noteq> CHR ''-''" "last (sanitiseName s) \<noteq> CHR ''-''"
    using safe len ends by (auto simp: name name_safe_def)
qed

lemma environment_names:
  assumes "(name, v) \<in> set (environment r)"
  shows "take 8 name = ''REMEDIK_''"
  using assms by (auto simp: environment_def env_name_def)

text \<open>A label called \<open>labels\<close> hides the variable that holds all of them.\<close>

lemma labels_label_hides_labels:
  assumes "map_of (ReqLabels r) ''labels'' = Some v"
  shows "(''REMEDIK_ALERT_LABELS'', v) \<in> set (drop 5 (environment r))"
    and "environment r ! 4 = (''REMEDIK_ALERT_LABELS'', json_smap (ReqLabels r))"
proof -
  have "env_name ''labels'' = ''REMEDIK_ALERT_LABELS''" by code_simp
  moreover have "''labels'' \<in> set (map fst (ReqLabels r))" using assms by (metis map_of_SomeD image_eqI fst_conv set_map)
  moreover have "map_get (ReqLabels r) ''labels'' = v" using assms by (simp add: map_get_def)
  ultimately have "(''REMEDIK_ALERT_LABELS'', v)
      \<in> (\<lambda>key. (env_name key, map_get (ReqLabels r) key)) ` set (map fst (ReqLabels r))" by (intro image_eqI [of _ _ "''labels''"]) simp_all
  then show "(''REMEDIK_ALERT_LABELS'', v) \<in> set (drop 5 (environment r))"
    by (simp add: environment_def)
qed (simp add: environment_def)

section \<open>What is recorded of the logs\<close>

lemma length_capLog: "length (capLog s) \<le> maxLogBytes + 3"
  by (simp add: capLog_def)

lemma TailLogs_bounded: "fst (TailLogs cl ended ns pd lines w) = Inr x \<Longrightarrow> length x \<le> 2 * maxLogBytes"
  by (auto simp: TailLogs_def split: prod.splits sum.splits option.splits if_splits)

text \<open>
  The client refuses a call whose context has ended. Verification attaches the logs of a Job that did
  not finish on the context that has just ended, so they are never read.
\<close>

definition refuses_ended_calls :: "'w run_client \<Rightarrow> bool" where
  "refuses_ended_calls cl \<longleftrightarrow> (\<forall>ns job w. \<exists>e w'. RunListPods cl True ns job w = (Inl e, w'))"

lemma timeout_reads_no_logs:
  assumes "refuses_ended_calls (RunClient a)"
  shows "\<exists>e s'. run_expired a ns name () s
    = (result_Output ''logs'' (''could not list the Job's pods: '' @ err_text e)
         (result_Output ''jobOutcome'' ''Running'' (zero_result\<lparr>Summary := ''job/'' @ name @ '' is still running''\<rparr>)),
       Some (Err (''job/'' @ name @ '' is still running and did not finish in time'')), s')"
proof -
  from assms obtain e w' where "RunListPods (RunClient a) True ns name (AWorld s) = (Inl e, w')"
    unfolding refuses_ended_calls_def by blast
  then show ?thesis
    by (intro exI [of _ e] exI [of _ "s\<lparr>AWorld := w'\<rparr>"]) (simp add: run_expired_def attachLogs_def reading_def Let_def)
qed

end
