(* ===== verification/Catalogue.thy ===== *)
theory Catalogue
  imports Steps Scale Rollback Drain Pvc JobRun
begin

text \<open>
  The actions remedik ships and the registry \<open>cmd/remedik/main.go\<close> builds of them, with what holds
  of every one: planning and verifying change nothing. It follows that a dry run of a plan changes
  nothing, whatever the plan.
\<close>

section \<open>The registry of built-in actions\<close>

text \<open>What \<open>buildRegistry\<close> gets: the client, seen through what each action calls of it, and remedik's
  namespace and account. The quantities, the durations and the clock are the libraries'.\<close>

record ('w, 'q) registry_deps =
  DepWorkloads :: "'w workload_client"
  DepPods :: "'w pod_client"
  DepJobs :: "'w job_client"
  DepRollback :: "'w rollback_client"
  DepScale :: "'w scale_client"
  DepWebhook :: "'w webhook_client"
  DepRun :: "'w run_client"
  DepNodes :: "'w node_client"
  DepClaims :: "('w, 'q) pvc_client"
  DepQuantities :: "'q quantities"
  DepNow :: "'w \<Rightarrow> time \<times> 'w"
  DepParseDuration :: parse_duration
  DepNamespace :: string
  DepServiceAccount :: string

definition available_actions :: "('w, 'q) registry_deps \<Rightarrow> 'w astate action list" where
  "available_actions d =
     [restart_action (NewDeploymentRestart (DepWorkloads d) (DepNow d)),
      restart_action (NewWorkloadRestart (DepWorkloads d) (DepNow d)),
      pod_action (NewPodDelete (DepPods d)),
      job_action (NewJobDelete (DepJobs d)),
      rollback_action (NewDeploymentRollback (DepRollback d)) (DepNow d),
      scale_action (NewDeploymentScale (DepScale d)),
      hpa_action (DepScale d),
      webhook_action (NewWebhookCall (DepWebhook d) (DepNamespace d) (DepParseDuration d)),
      run_action (NewJobRun (DepRun d) True (DepServiceAccount d)),
      run_action (NewScriptRun (DepRun d) True (DepServiceAccount d)),
      cordon_action (NewCordon (DepNodes d)),
      cordon_action (NewUncordon (DepNodes d)),
      drain_action (NewDrain (DepNodes d)),
      pvc_action (NewPVCExpand (DepClaims d) (DepQuantities d))]"

definition by_name :: "'w action list \<Rightarrow> 'w registry" where
  "by_name actions = fold (\<lambda>a m. map_put (ActName a) a m) actions []"

fun select_actions :: "'w registry \<Rightarrow> string list \<Rightarrow> string list \<Rightarrow> go_error + 'w action list" where
  "select_actions byName names [] = Inr []"
| "select_actions byName names (name # rest) =
     (case map_of byName name of
        None \<Rightarrow> Inl (Err (''--actions names '' @ quote name @ '', which this build does not implement (available: '' @ join '', '' names @ '')''))
      | Some a \<Rightarrow> (case select_actions byName names rest of Inl e \<Rightarrow> Inl e | Inr selected \<Rightarrow> Inr (a # selected)))"

definition buildRegistry :: "('w, 'q) registry_deps \<Rightarrow> string list \<Rightarrow> go_error + 'w astate registry" where
  "buildRegistry d enabled =
     (let actions = available_actions d in
      if enabled = [] then NewRegistry actions
      else case select_actions (by_name actions) (map ActName actions) enabled of
        Inl e \<Rightarrow> Inl e | Inr selected \<Rightarrow> NewRegistry selected)"

definition builtin_names :: "string list" where
  "builtin_names =
     [''deployment.restart'', ''workload.restart'', ''pod.delete'', ''job.delete'', ''deployment.rollback'', ''deployment.scale'',
      ''hpa.scale'', ''webhook.call'', ''job.run'', ''script.run'', ''node.cordon'', ''node.uncordon'', ''node.drain'', ''pvc.expand'']"

lemma names_of_available: "map ActName (available_actions d) = builtin_names"
  by (simp add: available_actions_def builtin_names_def restart_action_def NewDeploymentRestart_def NewWorkloadRestart_def
      pod_action_def job_action_def rollback_action_def scale_action_def hpa_action_def webhook_action_def run_action_def
      NewJobRun_def NewScriptRun_def cordon_action_def NewCordon_def NewUncordon_def drain_action_def pvc_action_def)

lemma builtin_names_ok: "distinct builtin_names" "'''' \<notin> set builtin_names"
  by (simp_all add: builtin_names_def)

lemma map_of_by_name_aux:
  "map_of (fold (\<lambda>a m. map_put (ActName a) a m) actions m) = map_of m ++ map_of (map (\<lambda>a. (ActName a, a)) (rev actions))"
  by (induction actions arbitrary: m) (simp_all add: map_add_def fun_eq_iff split: option.splits)

lemma map_of_by_name: "map_of (by_name actions) = map_of (map (\<lambda>a. (ActName a, a)) (rev actions))"
  by (simp add: by_name_def map_of_by_name_aux)

lemma by_name_member: "map_of (by_name actions) n = Some a \<Longrightarrow> a \<in> set actions \<and> ActName a = n"
  by (auto simp: map_of_by_name dest!: map_of_SomeD)

lemma by_name_total: "n \<in> ActName ` set actions \<Longrightarrow> map_of (by_name actions) n \<noteq> None"
  by (auto simp: map_of_by_name map_of_eq_None_iff image_iff)

lemma select_actionsD:
  "select_actions (by_name actions) names enabled = Inr selected \<Longrightarrow> set selected \<subseteq> set actions \<and> map ActName selected = enabled"
proof (induction enabled arbitrary: selected)
  case (Cons n ns)
  from Cons.prems obtain a rest where a: "map_of (by_name actions) n = Some a"
    and rest: "select_actions (by_name actions) names ns = Inr rest" and sel: "selected = a # rest"
    by (auto split: option.splits sum.splits)
  from Cons.IH [OF rest] by_name_member [OF a] sel show ?case by simp
qed simp

lemma select_actions_total:
  "set enabled \<subseteq> ActName ` set actions \<Longrightarrow> \<exists>selected. select_actions (by_name actions) names enabled = Inr selected"
proof (induction enabled)
  case (Cons n ns)
  then have "map_of (by_name actions) n \<noteq> None" by (intro by_name_total) simp
  with Cons show ?case by auto
qed simp

lemma NewRegistryD:
  assumes "NewRegistry actions = Inr reg"
  shows "reg = map (\<lambda>a. (ActName a, a)) actions" and "distinct (map ActName actions)"
  using register_all_eq [of actions "[]" reg] assms by (simp_all add: NewRegistry_def)

text \<open>A registry holds the actions that were asked for, each under its name, or all of them.\<close>

lemma buildRegistry_contents:
  assumes "buildRegistry d enabled = Inr reg"
  shows "map fst reg = (if enabled = [] then builtin_names else enabled)"
    and "map_of reg n = Some a \<Longrightarrow> a \<in> set (available_actions d) \<and> ActName a = n"
proof -
  from assms obtain selected where sel: "NewRegistry selected = Inr reg" "set selected \<subseteq> set (available_actions d)"
    "map ActName selected = (if enabled = [] then builtin_names else enabled)"
    by (auto simp: buildRegistry_def Let_def names_of_available split: if_splits sum.splits dest: select_actionsD)
  note reg = NewRegistryD(1) [OF sel(1)]
  show "map fst reg = (if enabled = [] then builtin_names else enabled)" using sel(3) reg by (simp add: comp_def)
  show "map_of reg n = Some a \<Longrightarrow> a \<in> set (available_actions d) \<and> ActName a = n"
    using sel(2) reg by (auto dest!: map_of_SomeD)
qed

text \<open>It is built exactly from lists of known names without repetitions.\<close>

lemma buildRegistry_ok_iff:
  "(\<exists>reg. buildRegistry d enabled = Inr reg) \<longleftrightarrow> distinct enabled \<and> set enabled \<subseteq> set builtin_names"
proof
  assume "\<exists>reg. buildRegistry d enabled = Inr reg"
  then obtain reg where reg: "buildRegistry d enabled = Inr reg" by blast
  show "distinct enabled \<and> set enabled \<subseteq> set builtin_names"
  proof (cases "enabled = []")
    case False
    with reg obtain selected where sel: "select_actions (by_name (available_actions d)) (map ActName (available_actions d)) enabled = Inr selected"
      "NewRegistry selected = Inr reg" by (auto simp: buildRegistry_def Let_def split: sum.splits)
    from select_actionsD [OF sel(1)] have "set (map ActName selected) \<subseteq> set (map ActName (available_actions d))"
      "map ActName selected = enabled" by (metis image_mono set_map, blast)
    then show ?thesis using NewRegistryD(2) [OF sel(2)] unfolding names_of_available by simp
  qed simp
next
  assume ok: "distinct enabled \<and> set enabled \<subseteq> set builtin_names"
  have registers: "\<exists>reg. NewRegistry actions = Inr reg" if "distinct (map ActName actions)" "'''' \<notin> ActName ` set actions" for actions :: "'a astate action list"
    unfolding NewRegistry_def by (rule register_all_Inr) (use that in \<open>auto simp: image_iff\<close>)
  show "\<exists>reg. buildRegistry d enabled = Inr reg"
  proof (cases "enabled = []")
    case True
    have "distinct (map ActName (available_actions d))" "'''' \<notin> ActName ` set (available_actions d)"
      using builtin_names_ok names_of_available [of d] by (metis, metis set_map)
    from registers [OF this] True show ?thesis by (simp add: buildRegistry_def)
  next
    case False
    have "set enabled \<subseteq> ActName ` set (available_actions d)" using ok names_of_available [of d] by (metis set_map)
    from select_actions_total [OF this] obtain selected where
      sel: "select_actions (by_name (available_actions d)) (map ActName (available_actions d)) enabled = Inr selected" by blast
    have names: "map ActName selected = enabled" using select_actionsD [OF sel] by simp
    have "'''' \<notin> ActName ` set selected" using names ok builtin_names_ok(2) by (metis set_map subsetD)
    with registers [of selected] ok names sel False show ?thesis by (simp add: buildRegistry_def)
  qed
qed

section \<open>Planning and verifying only read\<close>

definition reads_only :: "'w astate action \<Rightarrow> bool" where
  "reads_only a \<longleftrightarrow>
     (\<forall>c r s. Changes (snd (snd (ActPlan a c r s))) = Changes s)
     \<and> (case ActVerify a of None \<Rightarrow> True | Some check \<Rightarrow> \<forall>c r x s. Changes (snd (snd (check c r x s))) = Changes s)"

lemma available_actions_read:
  assumes "a \<in> set (available_actions d)"
  shows "reads_only a"
proof -
  have "reads_only (restart_action x)" "reads_only (pod_action y)" "reads_only (job_action z)" "reads_only (rollback_action u now)"
    "reads_only (scale_action v)" "reads_only (hpa_action w)" "reads_only (webhook_action p)" "reads_only (run_action q)"
    "reads_only (cordon_action m)" "reads_only (drain_action n)" "reads_only (pvc_action k)"
    for x y z u now v w p q m n and k :: "('a, 'b) pvc_expand"
    by (simp_all add: reads_only_def restart_action_def pod_action_def job_action_def rollback_action_def scale_action_def
        hpa_action_def webhook_action_def run_action_def cordon_action_def drain_action_def pvc_action_def
        restart.plan_changes pod.plan_changes job_deletion.plan_changes rollback.plan_changes scale.plan_changes hpa.plan_changes
        webhook.plan_changes job_run.plan_changes cordon.plan_changes drain_Plan_reads pvc.plan_changes
        restart_Verify_reads pod_Verify_reads job_Verify_reads rollback_Verify_reads scale_Verify_reads run_Verify_reads
        cordon_Verify_reads drain_Verify_reads pvc_Verify_reads)
  then show ?thesis using assms unfolding available_actions_def by auto
qed

section \<open>A dry run changes nothing\<close>

definition clock_reads :: "('w astate \<Rightarrow> time \<times> 'w astate) \<Rightarrow> bool" where
  "clock_reads now \<longleftrightarrow> (\<forall>s. Changes (snd (now s)) = Changes s)"

lemma read_clock_changes: "clock_reads now \<Longrightarrow> read_clock now s = (t, s') \<Longrightarrow> Changes (World s') = Changes (World s)"
  by (auto simp: clock_reads_def read_clock_def split: prod.splits) (metis snd_conv)

lemma fail_step_changes:
  "clock_reads (RunnerNow r) \<Longrightarrow> fail_step r e st s = (x, s') \<Longrightarrow> Changes (World s') = Changes (World s)"
  by (auto simp: fail_step_def finish_step_def dest: read_clock_changes split: prod.splits)

lemma finish_step_changes:
  "clock_reads (RunnerNow r) \<Longrightarrow> finish_step r ph m st s = (x, s') \<Longrightarrow> Changes (World s') = Changes (World s)"
  by (auto simp: finish_step_def dest: read_clock_changes split: prod.splits)

lemma call_plan_changes:
  "reads_only act \<Longrightarrow> call_plan act c req s = (x, s') \<Longrightarrow> Changes (World s') = Changes (World s)"
  by (auto simp: call_plan_def reads_only_def emit_def split: prod.splits) (metis snd_conv)

definition registry_reads :: "'w astate registry \<Rightarrow> bool" where
  "registry_reads reg \<longleftrightarrow> (\<forall>n a. map_of reg n = Some a \<longrightarrow> reads_only a)"

lemma dry_step_changes:
  assumes "RunnerDryRun r" and clock: "clock_reads (RunnerNow r)" and reg: "registry_reads (RunnerRegistry r)"
    and "runStep r c i labels stp s = (x, s')"
  shows "Changes (World s') = Changes (World s)"
proof -
  obtain t s1 where t: "read_clock (RunnerNow r) s = (t, s1)" by fastforce
  note start = read_clock_changes [OF clock t]
  show ?thesis
  proof (cases "registry_Get (RunnerRegistry r) (Action stp)")
    case (Inl e)
    with assms(4) t start show ?thesis by (auto simp: runStep_def dest: fail_step_changes [OF clock])
  next
    case (Inr act)
    then have act: "reads_only act" using reg by (simp add: registry_Get_Inr registry_reads_def)
    show ?thesis
    proof (cases "ActResolve act labels (With stp)")
      case (Inl e)
      with assms(4) t start Inr show ?thesis by (auto simp: runStep_def dest: fail_step_changes [OF clock])
    next
      case target: (Inr tg)
      define req where "req = \<lparr>ReqTarget = tg, ReqParams = With stp, ReqLabels = labels, ReqRemediation = RunnerRemediation r,
        ReqStrategy = RunnerStrategy r, ReqNamespace = RunnerNamespace r, ReqDryRun = RunnerDryRun r\<rparr>"
      obtain res err s2 where plan: "call_plan act c req s1 = ((res, err), s2)" by (metis surj_pair)
      note planned = call_plan_changes [OF act plan]
      show ?thesis
        using assms(1,4) t start Inr target plan planned
        by (cases err) (auto simp: runStep_def Let_def req_def dest!: fail_step_changes [OF clock] finish_step_changes [OF clock] split: prod.splits)
    qed
  qed
qed

lemma dry_loop_changes:
  assumes "RunnerDryRun r" and "clock_reads (RunnerNow r)" and "registry_reads (RunnerRegistry r)"
    and "run_loop r c labels i plan res s = (res', s')"
  shows "Changes (World s') = Changes (World s)"
  using assms(4)
proof (induction plan arbitrary: i res s)
  case (Cons stp plan)
  obtain x s1 where step: "runStep r c i labels stp s = (x, s1)" by fastforce
  obtain st err where x: "x = (st, err)" by fastforce
  note dry_step_changes [OF assms(1-3) step]
  with Cons step x show ?case by (cases "RunErr res") (auto simp: Let_def)
qed simp

lemma dry_Run_changes:
  "RunnerDryRun r \<Longrightarrow> clock_reads (RunnerNow r) \<Longrightarrow> registry_reads (RunnerRegistry r) \<Longrightarrow> Run r c labels plan s = (res, s')
     \<Longrightarrow> Changes (World s') = Changes (World s)"
  unfolding Run_def by (rule dry_loop_changes)

lemma buildRegistry_reads: "buildRegistry d enabled = Inr reg \<Longrightarrow> registry_reads reg"
  using buildRegistry_contents(2) available_actions_read unfolding registry_reads_def by blast

end
