(* ===== verification/DryRun.thy ===== *)
theory DryRun
  imports Catalogue Lifecycle
begin

text \<open>
  A whole pass of the reconciler over a dry run, with the built-in actions: it changes nothing in the
  cluster besides remedik's own records. What is relied on of the collaborators is that the calls for
  records, the clock, the events and the metrics are not requests of an action.
\<close>

abbreviation changed :: "'w astate st \<Rightarrow> change list" where
  "changed s \<equiv> Changes (World s)"

definition kube_quiet :: "'w astate kube \<Rightarrow> bool" where
  "kube_quiet k \<longleftrightarrow>
     (\<forall>ns n w. Changes (snd (KubeGet k ns n w)) = Changes w) \<and> (\<forall>ns sel w. Changes (snd (KubeList k ns sel w)) = Changes w)
     \<and> (\<forall>rem w. Changes (snd (KubeUpdateStatus k rem w)) = Changes w) \<and> (\<forall>rem w. Changes (snd (KubeDelete k rem w)) = Changes w)"

definition recorder_quiet :: "'w astate recorder \<Rightarrow> bool" where
  "recorder_quiet m \<longleftrightarrow>
     (\<forall>a b d w. Changes (MRemediationFinished m a b d w) = Changes w) \<and> (\<forall>a b w. Changes (MEscalationFinished m a b w) = Changes w)"

definition events_quiet :: "'w astate eventf option \<Rightarrow> bool" where
  "events_quiet e \<longleftrightarrow> (\<forall>f x a b c d w. e = Some f \<longrightarrow> Changes (f x a b c d w) = Changes w)"

definition engine_quiet :: "'w astate reconciler \<Rightarrow> bool" where
  "engine_quiet r \<longleftrightarrow> clock_reads (RNow r) \<and> registry_reads (RRegistry r) \<and> kube_quiet (RClient r) \<and> status_echo (RClient r)
     \<and> recorder_quiet (metrics_of r) \<and> events_quiet (REvents r)"

section \<open>Record keeping changes nothing\<close>

lemma kube_get_changes: "kube_quiet k \<Longrightarrow> kube_get k ns n s = (x, s') \<Longrightarrow> changed s' = changed s"
  by (auto simp: kube_quiet_def kube_get_def split: prod.splits) (metis snd_conv)

lemma kube_list_changes: "kube_quiet k \<Longrightarrow> kube_list k ns sel s = (x, s') \<Longrightarrow> changed s' = changed s"
  by (auto simp: kube_quiet_def kube_list_def split: prod.splits) (metis snd_conv)

lemma update_status_changes: "kube_quiet k \<Longrightarrow> update_status k rem s = (x, s') \<Longrightarrow> changed s' = changed s"
  by (auto simp: kube_quiet_def update_status_def emit_def split: prod.splits) (metis snd_conv)

lemma delete_remediation_changes: "kube_quiet k \<Longrightarrow> delete_remediation k rem s = (x, s') \<Longrightarrow> changed s' = changed s"
  by (auto simp: kube_quiet_def delete_remediation_def emit_def split: prod.splits) (metis snd_conv)

lemma delete_loop_changes: "kube_quiet k \<Longrightarrow> delete_loop k rems s = (x, s') \<Longrightarrow> changed s' = changed s"
proof (induction k rems s rule: delete_loop.induct)
  case (2 k old rest s)
  obtain err s1 where d: "delete_remediation k old s = (err, s1)" by fastforce
  note first = delete_remediation_changes [OF "2.prems"(1) d]
  show ?case
  proof (cases "err = None \<or> isNotFound (the err)")
    case True
    then have "delete_loop k rest s1 = (x, s')" using "2.prems"(2) d by (auto split: option.splits)
    with "2.IH" d first "2.prems"(1) True show ?thesis by (cases err) auto
  next
    case False
    with "2.prems"(2) d first show ?thesis by (auto split: option.splits)
  qed
qed simp

lemma prune_changes:
  assumes "kube_quiet (RClient r)" and "prune r ns strat keep s = (x, s')"
  shows "changed s' = changed s"
  using assms(2)
  by (auto simp: prune_def dest!: kube_list_changes [OF assms(1)] delete_loop_changes [OF assms(1)] split: prod.splits sum.splits)

lemma finish_changes:
  assumes "engine_quiet r" and "finish r rem state reason message s = (x, s')"
  shows "changed s' = changed s"
proof -
  from assms(1) have q: "clock_reads (RNow r)" "kube_quiet (RClient r)" "recorder_quiet (metrics_of r)" by (simp_all add: engine_quiet_def)
  have counted: "changed (count_effect e (MRemediationFinished (metrics_of r) a b d) s) = changed s" for e a b d s
    using q(3) by (simp add: count_effect_def emit_def recorder_quiet_def)
  have completed: "changed (record_completion a b t s) = changed s" for a b t s by (simp add: record_completion_def emit_def)
  show ?thesis
    using assms(2)
    by (auto simp: finish_def Let_def counted completed dest!: read_clock_changes [OF q(1)] update_status_changes [OF q(2)] prune_changes [OF q(2)]
        split: prod.splits sum.splits if_splits)
qed

lemma no_requeue_changes: "engine_quiet r \<Longrightarrow> no_requeue (finish r rem state reason message s) = (x, s') \<Longrightarrow> changed s' = changed s"
  by (cases "finish r rem state reason message s") (auto simp: no_requeue_def dest: finish_changes)

section \<open>A pass over a dry run\<close>

text \<open>The escalation of a dry run is the one part that runs for real, so a record without one is quiet.\<close>

definition quiet_record :: "remediation \<Rightarrow> bool" where
  "quiet_record rem \<longleftrightarrow> DryRun (Spec rem) \<and> EscalationSteps (Spec rem) = []"

lemma escalate_none: "quiet_record rem \<Longrightarrow> escalate r c rem attempts reason message s = (None, s)"
  by (simp add: escalate_def quiet_record_def)

lemma quiet_record_status [simp]: "quiet_record (rem\<lparr>Status := st\<rparr>) = quiet_record rem"
  by (simp add: quiet_record_def)

lemma update_status_quiet:
  assumes "engine_quiet r" and "update_status (RClient r) rem s = (Inr rem1, s')" and "quiet_record rem"
  shows "quiet_record rem1"
proof -
  have "same_record rem1 rem"
    using assms(1,2) by (auto simp: engine_quiet_def status_echo_def update_status_def split: prod.splits)
  then show ?thesis using assms(3) by (simp add: same_record_def quiet_record_def)
qed

lemma conclude_changes:
  assumes "engine_quiet r" and "quiet_record rem" and "conclude_attempt r c attempt rem res s = (x, s')"
  shows "changed s' = changed s"
proof -
  from assms(1) have k: "kube_quiet (RClient r)" by (simp add: engine_quiet_def)
  show ?thesis
  proof (cases "RunErr res")
    case None
    with assms show ?thesis by (auto simp: conclude_attempt_def Let_def dest: no_requeue_changes)
  next
    case (Some e)
    show ?thesis
    proof (cases "attempt \<le> retriesFor (rem\<lparr>Status := (Status rem)\<lparr>StatusSteps := RunSteps res\<rparr>\<rparr>)")
      case True
      with assms(3) Some show ?thesis
        by (auto simp: conclude_attempt_def Let_def dest: update_status_changes [OF k] split: prod.splits sum.splits)
    next
      case False
      with assms Some show ?thesis
        by (auto simp: conclude_attempt_def Let_def escalate_none dest: no_requeue_changes split: prod.splits)
    qed
  qed
qed

lemma runAttempt_changes:
  assumes "engine_quiet r" and "quiet_record rem" and "runAttempt r c rem s = (x, s')"
  shows "changed s' = changed s"
proof -
  from assms(1) have q: "clock_reads (RNow r)" "kube_quiet (RClient r)" "registry_reads (RRegistry r)" by (simp_all add: engine_quiet_def)
  obtain t s1 where t: "read_clock (RNow r) s = (t, s1)" by fastforce
  obtain written s2 where w: "update_status (RClient r) (running_record rem t) s1 = (written, s2)" by fastforce
  have start: "changed s2 = changed s" using read_clock_changes [OF q(1) t] update_status_changes [OF q(2) w] by simp
  show ?thesis
  proof (cases written)
    case (Inl e)
    with assms(3) t w start show ?thesis by (auto simp: runAttempt_def Let_def)
  next
    case (Inr rem1)
    have quiet: "quiet_record rem1"
      using update_status_quiet [OF assms(1), of _ s1 rem1 s2] w Inr assms(2) by (simp add: running_record_def)
    obtain res s3 where run: "Run (runner_for r rem1 (DryRun (Spec rem1))) c (RefLabels (SpecAlert (Spec rem1))) (SpecSteps (Spec rem1)) s2 = (res, s3)"
      by fastforce
    have "changed s3 = changed s2"
      by (rule dry_Run_changes [OF _ _ _ run]) (use quiet q in \<open>simp_all add: quiet_record_def runner_for_def\<close>)
    moreover have "conclude_attempt r c (wrap32 (Attempt (Status rem) + 1)) rem1 res s3 = (x, s')"
      using assms(3) t w Inr run by (simp add: runAttempt_def Let_def)
    ultimately show ?thesis using conclude_changes [OF assms(1) quiet] start by simp
  qed
qed

lemma recordApproval_changes: "engine_quiet r \<Longrightarrow> changed (recordApproval r rem d b s) = changed s"
  by (auto simp: engine_quiet_def events_quiet_def recordApproval_def count_effect_def emit_def Let_def split: option.splits)

lemma timeOutApproval_changes:
  "engine_quiet r \<Longrightarrow> quiet_record rem \<Longrightarrow> timeOutApproval r c rem s = (x, s') \<Longrightarrow> changed s' = changed s"
  by (auto simp: timeOutApproval_def escalate_none Let_def dest: finish_changes)

lemma await_decision_changes:
  assumes "engine_quiet r" and "quiet_record rem" and "await_decision r c rem s = (x, s')"
  shows "changed s' = changed s"
proof -
  from assms(1) have q: "clock_reads (RNow r)" "kube_quiet (RClient r)" by (simp_all add: engine_quiet_def)
  have timed: "changed s2 = changed s1" if "no_requeue (timeOutApproval r c rem s1) = (y, s2)" for s1 y s2
    using that timeOutApproval_changes [OF assms(1,2)] by (cases "timeOutApproval r c rem s1") (auto simp: no_requeue_def)
  have marked: "changed s2 = changed s1" if "markAwaitingApproval r rem left s1 = (y, s2)" for left s1 y s2
    using that by (auto simp: markAwaitingApproval_def Let_def dest: update_status_changes [OF q(2)] split: if_splits prod.splits sum.splits)
  show ?thesis
    using assms(3)
    by (auto simp: await_decision_def Let_def dest: timed dest!: marked read_clock_changes [OF q(1)] split: option.splits prod.splits if_splits)
qed

lemma reconcile_record_changes:
  assumes "engine_quiet r" and "quiet_record rem" and "reconcile_record r c rem s = (x, s')"
  shows "changed s' = changed s"
proof -
  have gone: "changed s2 = changed s1" if "no_requeue (markGaveUp r c rem s1) = (y, s2)" for s1 y s2
    using that assms(1,2) by (auto simp: markGaveUp_def escalate_none Let_def dest: no_requeue_changes)
  have cut: "changed s2 = changed s1" if "no_requeue (markInterrupted r rem s1) = (y, s2)" for s1 y s2
    using that assms(1) by (auto simp: markInterrupted_def Let_def dest: no_requeue_changes)
  have waits: "changed s2 = changed s1" if "awaitApproval r c rem s1 = (y, s2)" for s1 y s2
    using that runAttempt_changes [OF assms(1,2)] await_decision_changes [OF assms(1,2)] no_requeue_changes [OF assms(1)]
      recordApproval_changes [OF assms(1)]
    by (fastforce simp: awaitApproval_def split: option.splits approval_decision.splits)
  show ?thesis
    using assms(3) gone cut waits runAttempt_changes [OF assms(1,2)] by (auto simp: reconcile_record_def split: if_splits)
qed

lemma Reconcile_dry_changes:
  assumes "engine_quiet r" and "\<And>rem w. KubeGet (RClient r) ns n (World s) = (Inr rem, w) \<Longrightarrow> quiet_record rem"
    and "Reconcile r c ns n s = (x, s')"
  shows "changed s' = changed s"
proof -
  from assms(1) have k: "kube_quiet (RClient r)" by (simp add: engine_quiet_def)
  obtain got s1 where g: "kube_get (RClient r) ns n s = (got, s1)" by fastforce
  note read = kube_get_changes [OF k g]
  show ?thesis
  proof (cases got)
    case (Inl e)
    with assms(3) g read show ?thesis by (auto simp: Reconcile_def)
  next
    case (Inr rem)
    have "quiet_record rem" using g Inr assms(2) by (auto simp: kube_get_def split: prod.splits)
    from reconcile_record_changes [OF assms(1) this, of c s1 x s'] assms(3) g Inr read show ?thesis by (simp add: Reconcile_def)
  qed
qed

end
