(* ===== verification/DashPosture.thy ===== *)
theory DashPosture
  imports GoLib
begin

text \<open>
  The two types of \<open>internal/dashboard\<close> that the command fills in: the posture as the pages say it
  (\<open>view.go\<close>), and a configured link out of them (\<open>links.go\<close>).
\<close>

section \<open>Posture\<close>

record dash_posture =
  PDryRun :: bool
  PLive :: "string list"
  PDryRunOnly :: "string list"
  PPaused :: bool

definition ActsAnywhere :: "dash_posture \<Rightarrow> bool" where
  "ActsAnywhere p = (if PPaused p then False else \<not> PDryRun p \<or> 0 < length (PLive p))"

definition posture_mixed :: "dash_posture \<Rightarrow> bool" where
  "posture_mixed p \<longleftrightarrow> 0 < length (PLive p) \<or> 0 < length (PDryRunOnly p)"

definition Exceptions :: "dash_posture \<Rightarrow> string list" where
  "Exceptions p = (if PDryRun p then PLive p else PDryRunOnly p)"

definition postureChipLimit :: nat where "postureChipLimit = 3"

definition ExceptionsBrief :: "dash_posture \<Rightarrow> string" where
  "ExceptionsBrief p =
     (let names = Exceptions p in
      if length names \<le> postureChipLimit then join '', '' names
      else join '', '' (take postureChipLimit names) @ '' and ''
           @ itoa (int (length names) - int postureChipLimit) @ '' more'')"

definition ExceptionsAll :: "dash_posture \<Rightarrow> string" where
  "ExceptionsAll p = join '', '' (Exceptions p)"

section \<open>Links\<close>

record link =
  LinkName :: string
  LinkURL :: string

end
