(* ===== verification/Command.thy ===== *)
theory Command
  imports Catalogue Controller Sink Sweeper StrategyController HistoryLoader Gateway Snapshot DashPosture
begin

text \<open>
  \<open>cmd/remedik/main.go\<close>: the flags that are parsed by hand, how the parts are configured and wired to
  each other, and the life of the process that holds them - the guards are replayed once the lease is
  won, and the gateway accepts alerts only from then until a shutdown begins. The manager, the flag
  package and the sockets are the libraries'.
\<close>

section \<open>Flags\<close>

record options =
  OptActions :: "string list"
  OptServiceAccount :: string
  OptNamespace :: string
  OptDryRun :: bool
  OptPosture :: "string list"
  OptHistoryLimit :: int
  OptConcurrency :: int
  OptMaxRecordAge :: duration
  OptGatewayPath :: string
  OptGatewayToken :: string
  OptDashboardLinks :: "string list"

definition splitActions :: "string \<Rightarrow> string list" where
  "splitActions raw = filter (\<lambda>n. n \<noteq> '''') (map trim_space (split_on (CHR '','') raw))"

text \<open>The values the flags have when none is given, in a process started in a namespace and an account.\<close>

definition default_options :: "string \<Rightarrow> string \<Rightarrow> string \<Rightarrow> options" where
  "default_options namespace account token =
     \<lparr>OptActions = splitActions '''', OptServiceAccount = account, OptNamespace = namespace, OptDryRun = True,
      OptPosture = [], OptHistoryLimit = DefaultHistoryLimit, OptConcurrency = DefaultConcurrency, OptMaxRecordAge = 0,
      OptGatewayPath = DefaultPath, OptGatewayToken = token, OptDashboardLinks = []\<rparr>"

definition parseLogLevel :: "string \<Rightarrow> go_error + int" where
  "parseLogLevel s =
     (let l = to_lower (trim_space s) in
      if l = ''debug'' then Inr (- 4)
      else if l = ''info'' then Inr 0
      else if l = ''warn'' \<or> l = ''warning'' then Inr 4
      else if l = ''error'' then Inr 8
      else Inl (Err (''invalid --log-level '' @ quote s @ '': want debug, info, warn or error'')))"

definition postureLabels :: "posture \<Rightarrow> smap option" where
  "postureLabels p = (if Overrides p = [] then None else Some (map (\<lambda>(ns, m). (ns, mode_string m)) (Overrides p)))"

definition dashboardLinks :: "string list \<Rightarrow> link list" where
  "dashboardLinks values =
     concat (map (\<lambda>v. let (name, target, found) = str_cut (CHR ''='') v; name = trim_space name; target = trim_space target in
                      if \<not> found \<or> name = '''' \<or> target = '''' then [] else [\<lparr>LinkName = name, LinkURL = target\<rparr>]) values)"

definition dashboardPosture :: "posture \<Rightarrow> dash_posture" where
  "dashboardPosture p =
     \<lparr>PDryRun = (Default p \<noteq> ModeLive), PLive = Namespaces p ModeLive, PDryRunOnly = Namespaces p ModeDryRun,
      PPaused = False\<rparr>"

definition dashboardStatus :: "string \<Rightarrow> string" where
  "dashboardStatus addr = (if addr = '''' then ''disabled'' else addr)"

datatype posture_warning = MixedPosture "string list" "string list" | DryRunIsOn

definition startup_warning :: "options \<Rightarrow> posture \<Rightarrow> posture_warning option" where
  "startup_warning opts p =
     (if Mixed p then Some (MixedPosture (Namespaces p ModeLive) (Namespaces p ModeDryRun))
      else if OptDryRun opts then Some DryRunIsOn else None)"

section \<open>The parts and their wiring\<close>

text \<open>
  What \<open>run\<close> gets from the libraries: the error of setting up the scheme, the manager and the clients,
  if any; the client for records; the recorders; the REST mapper; the pause switch as it stands.
\<close>

record ('w, 'q) platform =
  PlatformError :: "go_error option"
  PlatformDeps :: "('w, 'q) registry_deps"
  PlatformKube :: "'w astate kube"
  PlatformMetrics :: "'w astate recorder"
  PlatformEvents :: "'w astate eventf"
  PlatformMapper :: rest_mapper
  PlatformWorkloads :: "'w astate \<Rightarrow> reader"
  PlatformPause :: "'w astate \<Rightarrow> pause"
  PlatformNow :: "'w astate clock"
  PlatformSetCondition :: "condition list \<Rightarrow> condition \<Rightarrow> condition list"

record 'w parts =
  PartReconciler :: "'w reconciler"
  PartStrategies :: "'w strategy_reconciler"
  PartLoader :: "'w history_loader"
  PartSink :: "'w sink"
  PartSweeper :: "'w sweeper"
  PartSnapshotter :: "'w snapshotter"
  PartWorkers :: int

definition deps_of :: "options \<Rightarrow> ('w, 'q) platform \<Rightarrow> ('w, 'q) registry_deps" where
  "deps_of opts pf = (PlatformDeps pf)\<lparr>DepNamespace := OptNamespace opts, DepServiceAccount := OptServiceAccount opts\<rparr>"

definition new_reconciler :: "options \<Rightarrow> ('w, 'q) platform \<Rightarrow> 'w astate registry \<Rightarrow> 'w astate reconciler" where
  "new_reconciler opts pf reg =
     \<lparr>RClient = PlatformKube pf, RRegistry = reg, RHistoryLimit = OptHistoryLimit opts, RConcurrency = OptConcurrency opts,
      RMetrics = Some (PlatformMetrics pf), REvents = Some (PlatformEvents pf), RMapper = Some (PlatformMapper pf),
      RNow = PlatformNow pf, RParseDuration = DepParseDuration (PlatformDeps pf)\<rparr>"

definition new_sink :: "options \<Rightarrow> ('w, 'q) platform \<Rightarrow> 'w astate registry \<Rightarrow> posture \<Rightarrow> 'w astate sink" where
  "new_sink opts pf reg p =
     \<lparr>SClient = PlatformKube pf, SRegistry = reg, SWorkloads = Some (PlatformWorkloads pf), SNamespace = OptNamespace opts,
      SPosture = p, SMetrics = Some (PlatformMetrics pf), SEvents = Some (PlatformEvents pf), SNow = PlatformNow pf,
      SPause = (\<lambda>w. Some (PlatformPause pf w))\<rparr>"

definition new_sweeper :: "options \<Rightarrow> ('w, 'q) platform \<Rightarrow> 'w astate sweeper" where
  "new_sweeper opts pf =
     \<lparr>SwClient = PlatformKube pf, SwNamespace = OptNamespace opts, MaxAge = OptMaxRecordAge opts, KeepPerStrategy = OptHistoryLimit opts,
      Every = 0, SwMetrics = Some (PlatformMetrics pf), SwNow = PlatformNow pf\<rparr>"

definition run_parts :: "options \<Rightarrow> ('w, 'q) platform \<Rightarrow> go_error + 'w astate parts" where
  "run_parts opts pf =
     (if OptNamespace opts = '''' then Inl (Err ''no namespace: set --namespace or REMEDIK_NAMESPACE'')
      else case ParsePosture (OptPosture opts) of
        Inl e \<Rightarrow> Inl (Wrap ''--namespace-posture: '' e '''')
      | Inr overrides \<Rightarrow>
          (case PlatformError pf of Some e \<Rightarrow> Inl e
           | None \<Rightarrow>
               (case buildRegistry (deps_of opts pf) (OptActions opts) of
                  Inl e \<Rightarrow> Inl (Wrap ''build action registry: '' e '''')
                | Inr reg \<Rightarrow>
                    (case SetupWithManager (new_reconciler opts pf reg) of
                       Inl e \<Rightarrow> Inl (Wrap ''register the remediation controller: '' e '''')
                     | Inr workers \<Rightarrow> Inr
                         \<lparr>PartReconciler = new_reconciler opts pf reg,
                          PartStrategies = \<lparr>SRClient = PlatformKube pf, SRRegistry = reg, SRNamespace = OptNamespace opts,
                             SetStatusCondition = PlatformSetCondition pf\<rparr>,
                          PartLoader = \<lparr>LReader = PlatformKube pf, LNamespace = OptNamespace opts, LNow = PlatformNow pf\<rparr>,
                          PartSink = new_sink opts pf reg (NewPosture (OptDryRun opts) overrides),
                          PartSweeper = new_sweeper opts pf,
                          PartSnapshotter = \<lparr>SnReader = PlatformKube pf, SnNamespace = OptNamespace opts\<rparr>,
                          PartWorkers = workers\<rparr>))))"

section \<open>The process\<close>

text \<open>\<open>SignalDone\<close> is the signal context, \<open>GuardsWarm\<close> the channel the guard warmer closes.\<close>

record 'w process =
  Operator :: "'w st"
  SignalDone :: bool
  GuardsWarm :: bool

definition accepting :: "'w process \<Rightarrow> bool" where
  "accepting p \<longleftrightarrow> \<not> SignalDone p \<and> GuardsWarm p"

definition gateway_config :: "options \<Rightarrow> 'w parts \<Rightarrow> 'w process config" where
  "gateway_config opts ps =
     \<lparr>CfgSink = Some (\<lambda>alerts p. p\<lparr>Operator := Consume (PartSink ps) alerts (Operator p)\<rparr>),
      CfgPath = OptGatewayPath opts, CfgToken = OptGatewayToken opts, CfgMaxBodyBytes = 0, CfgAccepting = Some accepting\<rparr>"

definition httpServer_NeedLeaderElection :: bool where "httpServer_NeedLeaderElection = False"
definition guardWarmer_NeedLeaderElection :: bool where "guardWarmer_NeedLeaderElection = True"

text \<open>\<open>guardWarmer.Start\<close>, up to the wait for the end: an error stops the manager.\<close>

definition guardWarmer_Start :: "'w history_loader \<Rightarrow> 'w process \<Rightarrow> go_error option \<times> 'w process" where
  "guardWarmer_Start l p =
     (let (err, s) = Load l (Operator p) in
      case err of
        Some e \<Rightarrow> (Some (Wrap ''rebuild guard history: '' e ''''), p\<lparr>Operator := s\<rparr>)
      | None \<Rightarrow> (None, p\<lparr>Operator := s, GuardsWarm := True\<rparr>))"

text \<open>\<open>historyPruner.Start\<close>: a prune per tick, at the ticks' times.\<close>

definition historyPruneInterval :: duration where "historyPruneInterval = 5 * minute"

fun historyPruner_Start :: "time list \<Rightarrow> 'w process \<Rightarrow> 'w process" where
  "historyPruner_Start [] p = p"
| "historyPruner_Start (now # ticks) p =
     historyPruner_Start ticks (p\<lparr>Operator := (Operator p)\<lparr>History := Prune now (History (Operator p))\<rparr>\<rparr>)"

text \<open>The steps of the process that concern its gateway: a request, the lease being won, a prune, a signal.\<close>

inductive process_step ::
  "(int \<Rightarrow> 'b \<Rightarrow> go_error + webhook_payload) \<Rightarrow> 'w process handler \<Rightarrow> 'w history_loader \<Rightarrow> 'w process \<Rightarrow> 'w process \<Rightarrow> bool"
  for decode h l where
  request: "ServeHTTP decode h req p = (resp, ms, p') \<Longrightarrow> process_step decode h l p p'"
| lease: "\<not> GuardsWarm p \<Longrightarrow> guardWarmer_Start l p = (err, p') \<Longrightarrow> process_step decode h l p p'"
| tick: "process_step decode h l p (historyPruner_Start [now] p)"
| signal: "process_step decode h l p (p\<lparr>SignalDone := True\<rparr>)"

inductive_cases process_stepE: "process_step decode h l p p'"

definition booted :: "'w \<Rightarrow> memory_history \<Rightarrow> 'w process" where
  "booted w h = \<lparr>Operator = \<lparr>World = w, History = h, Trace = []\<rparr>, SignalDone = False, GuardsWarm = False\<rparr>"

section \<open>No alert is taken before the guards are warm\<close>

definition wired :: "'w process handler \<Rightarrow> 'w sink \<Rightarrow> bool" where
  "wired h sk \<longleftrightarrow> HAccepting h = Some accepting \<and> HSink h = (\<lambda>alerts p. p\<lparr>Operator := Consume sk alerts (Operator p)\<rparr>)"

lemma gateway_is_wired: "NewHandler (gateway_config opts ps) = Inr h \<Longrightarrow> wired h (PartSink ps)"
  by (auto simp: NewHandler_def gateway_config_def wired_def)

lemma served:
  assumes "wired h sk" and "ServeHTTP decode h req p = (resp, ms, p')"
  shows "SignalDone p' = SignalDone p" and "GuardsWarm p' = GuardsWarm p"
    and "\<not> accepting p \<Longrightarrow> p' = p \<and> StatusCode resp \<noteq> 200"
  using assms by (auto simp: wired_def ServeHTTP_def writeError_def Let_def split: if_splits sum.splits)

lemma Load_creates: "Load l s = (err, s') \<Longrightarrow> creates (Trace s') = creates (Trace s)"
proof -
  assume load: "Load l s = (err, s')"
  have "creates (Trace (load_one rem s)) = creates (Trace s)" for rem and s :: "'a st"
    by (simp add: load_one_def record_start_def record_completion_def Let_def split: option.splits)
  then have "creates (Trace (fold load_one items s)) = creates (Trace s)" for items and s :: "'a st"
    by (induction items arbitrary: s) simp_all
  then show ?thesis
    using load by (auto simp: Load_def dest!: kube_listD read_clock_eq split: prod.splits sum.splits)
qed

lemma warmed:
  assumes "guardWarmer_Start l p = (err, p')"
  shows "creates (Trace (Operator p')) = creates (Trace (Operator p))" and "SignalDone p' = SignalDone p"
    and "GuardsWarm p' \<longleftrightarrow> GuardsWarm p \<or> err = None"
  using assms by (auto simp: guardWarmer_Start_def dest!: Load_creates split: prod.splits option.splits)

lemma historyPruner_fields [simp]:
  "Trace (Operator (historyPruner_Start ticks p)) = Trace (Operator p)" "GuardsWarm (historyPruner_Start ticks p) = GuardsWarm p"
  "SignalDone (historyPruner_Start ticks p) = SignalDone p"
  by (induction ticks p rule: historyPruner_Start.induct) simp_all

text \<open>Records are created only while the gateway accepts, and not from the signal on.\<close>

lemma process_step_facts:
  assumes "wired h sk" and "process_step decode h l p p'"
  shows "creates (Trace (Operator p')) = creates (Trace (Operator p)) \<or> accepting p"
    and "SignalDone p \<Longrightarrow> SignalDone p'"
    and "GuardsWarm p' \<Longrightarrow> GuardsWarm p \<or> guardWarmer_Start l p = (None, p')"
proof -
  show "creates (Trace (Operator p')) = creates (Trace (Operator p)) \<or> accepting p"
    using assms(2) by (cases rule: process_step.cases) (auto dest: warmed(1) served(3) [OF assms(1)])
  show "SignalDone p \<Longrightarrow> SignalDone p'"
    using assms(2) by (cases rule: process_step.cases) (auto dest: warmed(2) served(1) [OF assms(1)])
  show "GuardsWarm p' \<Longrightarrow> GuardsWarm p \<or> guardWarmer_Start l p = (None, p')"
    using assms(2) by (cases rule: process_step.cases) (auto dest: warmed(3) served(2) [OF assms(1)])
qed

lemma cold_creates_nothing:
  assumes "wired h sk" and "(process_step decode h l)\<^sup>*\<^sup>* (booted w hist) p" and "\<not> GuardsWarm p"
  shows "creates (Trace (Operator p)) = []"
  using assms(2,3)
proof (induction rule: rtranclp_induct)
  case base
  then show ?case by (simp add: booted_def)
next
  case (step p p')
  show ?case
  proof (cases "GuardsWarm p")
    case False
    with step process_step_facts(1) [OF assms(1) step.hyps(2)] show ?thesis by (auto simp: accepting_def)
  next
    case True
    have "GuardsWarm p'" using step.hyps(2) True by (cases rule: process_step.cases) (auto dest: served(2) [OF assms(1)])
    with step.prems show ?thesis by simp
  qed
qed

lemma warm_after_a_load:
  assumes "wired h sk" and "(process_step decode h l)\<^sup>*\<^sup>* (booted w hist) p" and "GuardsWarm p"
  shows "\<exists>p1 p2. (process_step decode h l)\<^sup>*\<^sup>* (booted w hist) p1 \<and> creates (Trace (Operator p1)) = []
    \<and> guardWarmer_Start l p1 = (None, p2) \<and> (process_step decode h l)\<^sup>*\<^sup>* p2 p"
  using assms(2,3)
proof (induction rule: rtranclp_induct)
  case base
  then show ?case by (simp add: booted_def)
next
  case (step p p')
  show ?case
  proof (cases "GuardsWarm p")
    case True
    with step.IH step.hyps(2) show ?thesis by (meson rtranclp.rtrancl_into_rtrancl)
  next
    case False
    with process_step_facts(3) [OF assms(1) step.hyps(2) step.prems] have "guardWarmer_Start l p = (None, p')" by simp
    moreover have "creates (Trace (Operator p)) = []" using cold_creates_nothing [OF assms(1) step.hyps(1) False] .
    ultimately show ?thesis using step.hyps(1) by blast
  qed
qed

lemma signal_ends_creation:
  assumes "wired h sk" and "(process_step decode h l)\<^sup>*\<^sup>* p p'" and "SignalDone p"
  shows "SignalDone p' \<and> creates (Trace (Operator p')) = creates (Trace (Operator p))"
  using assms(2,3)
  by (induction rule: rtranclp_induct) (auto dest: process_step_facts(1,2) [OF assms(1)] simp: accepting_def)

section \<open>What the wiring gives\<close>

lemma run_partsD:
  assumes "run_parts opts pf = Inr ps"
  shows "OptNamespace opts \<noteq> ''''" and "buildRegistry (deps_of opts pf) (OptActions opts) = Inr (RRegistry (PartReconciler ps))"
    and "SRegistry (PartSink ps) = RRegistry (PartReconciler ps)" and "SRRegistry (PartStrategies ps) = RRegistry (PartReconciler ps)"
    and "\<exists>overrides. ParsePosture (OptPosture opts) = Inr overrides \<and> SPosture (PartSink ps) = NewPosture (OptDryRun opts) overrides"
    and "1 \<le> PartWorkers ps"
    and "PartReconciler ps = new_reconciler opts pf (RRegistry (PartReconciler ps))"
  using assms
  by (auto simp: run_parts_def new_sink_def new_reconciler_def SetupWithManager_def Let_def split: if_splits sum.splits option.splits)

lemma default_is_dry:
  assumes "run_parts (default_options ns account token) pf = Inr ps"
  shows "DryRunFor (SPosture (PartSink ps)) n"
  using run_partsD(5) [OF assms] by (auto simp: default_options_def ParsePosture_def DryRunFor_def NewPosture_def)

lemma splitActions_clean: "n \<in> set (splitActions raw) \<Longrightarrow> n \<noteq> '''' \<and> CHR '','' \<notin> set n"
proof -
  have sub: "c \<in> set (trim_space s) \<Longrightarrow> c \<in> set s" for c s
    unfolding trim_space_def by (metis set_dropWhileD set_rev)
  assume "n \<in> set (splitActions raw)"
  then obtain part where "part \<in> set (split_on (CHR '','') raw)" "n = trim_space part" "n \<noteq> ''''" by (auto simp: splitActions_def)
  with split_on_parts [of part "CHR '',''" raw] sub show ?thesis by blast
qed

lemma splitActions_empty: "splitActions '''' = []"
  by (simp add: splitActions_def trim_space_def)

end
