(* ===== verification/ActionProperties.thy ===== *)
theory ActionProperties
  imports DryRun Command Examples
begin

text \<open>
  What the built-in actions do to the cluster and how the command wires them, each property with a
  concrete instance: a cluster of one Deployment with two revisions, one node with one pod that a
  disruption budget keeps, and claims whose sizes are plain integers.
\<close>

section \<open>A small cluster\<close>

definition ex_deployment :: replicated_object where
  "ex_deployment = \<lparr>RoName = ''api'', RoUID = ''u1'', RoLabels = [], RoAnnotations = [(RevisionAnnotation, ''2'')],
     RoResourceVersion = ''7'', RoGeneration = 1, RoSpecReplicas = Some 3, RoObserved = 1, RoUpdated = 3, RoCurrent = 3,
     RoAvailable = 3, RoReady = 3\<rparr>"

definition ex_workloads :: "unit workload_client" where
  "ex_workloads = \<lparr>ReadDeployment = (\<lambda>_ _ w. (Inr ex_deployment, w)), ReadStatefulSet = (\<lambda>_ _ w. (Inl (ErrNotFound ''none''), w)),
     ReadDaemonSet = (\<lambda>_ _ w. (Inl (ErrNotFound ''none''), w)), PatchWorkload = (\<lambda>_ w. (Inr (Deployment ex_deployment), w)),
     Wait = (\<lambda>_ w. w)\<rparr>"

definition ex_owner :: owner_ref where
  "ex_owner = \<lparr>OwKind = ''Deployment'', OwName = ''api'', OwUID = ''u1'', OwController = Some True\<rparr>"

definition ex_revision :: "string \<Rightarrow> replica_set" where
  "ex_revision n = \<lparr>RsName = ''api-'' @ n, RsOwners = [ex_owner], RsAnnotations = [(RevisionAnnotation, n)],
     RsTemplate = \<lparr>TemplateLabels = [(''pod-template-hash'', n)], TemplateRest = ''{}''\<rparr>\<rparr>"

definition ex_rollback :: "unit rollback_client" where
  "ex_rollback = \<lparr>RollbackWorkloads = ex_workloads, ListReplicaSets = (\<lambda>_ w. (Inr [ex_revision ''2'', ex_revision ''1''], w)),
     SendRollback = (\<lambda>_ w. (None, w)), EncodeTemplate = (\<lambda>t. Inr (TemplateRest t))\<rparr>"

definition ex_scale :: "unit scale_client" where
  "ex_scale = \<lparr>ScaleWorkloads = ex_workloads, ListAutoscalers = (\<lambda>_ w. (Inr [], w)),
     GetAutoscaler = (\<lambda>_ _ w. (Inl (ErrNotFound ''none''), w)), SendPatch = (\<lambda>_ w. (None, w))\<rparr>"

definition ex_pod :: pod where
  "ex_pod = \<lparr>PodNamespace = ''shop'', PodName = ''api-1'', PodUID = ''p1'', PodOwners = [ex_owner], PodAnnotations = [],
     PodCreated = 0, PodTerminating = False, PodNode = ''n1'', PodPhase = ''Running'', PodEmptyDirs = [], PodExits = []\<rparr>"

definition ex_pods :: "unit pod_client" where
  "ex_pods = \<lparr>GetPod' = (\<lambda>_ _ w. (Inr ex_pod, w)), SendEviction = (\<lambda>_ w. (None, w)), PodWait = (\<lambda>_ w. w)\<rparr>"

definition ex_jobs :: "unit job_client" where
  "ex_jobs = \<lparr>GetJob = (\<lambda>_ _ w. (Inl (ErrNotFound ''none''), w)), SendDelete = (\<lambda>_ w. (None, w)), JobWait = (\<lambda>_ w. w)\<rparr>"

definition ex_nodes :: "unit node_client" where
  "ex_nodes = \<lparr>GetNode = (\<lambda>_ w. (Inr \<lparr>NodeUnschedulable = True, NodeConditions = []\<rparr>, w)),
     PatchNode = (\<lambda>_ w. (Inr \<lparr>NodeUnschedulable = True, NodeConditions = []\<rparr>, w)), ListNodePods = (\<lambda>_ w. (Inr [ex_pod], w)),
     EvictPod = (\<lambda>_ w. (Some (ErrTooManyRequests ''budget''), w)), NodeWait = (\<lambda>_ w. w)\<rparr>"

definition ex_quantities :: "int quantities" where
  "ex_quantities = \<lparr>QParse = atoi, QString = itoa, QValue = (\<lambda>q. q), QCmp = (\<lambda>a b. a - b), QNew = (\<lambda>q. q), QZero = 0\<rparr>"

definition ex_claims :: "(unit, int) pvc_client" where
  "ex_claims = \<lparr>GetClaim = (\<lambda>_ _ w. (Inr \<lparr>ClaimStorageClass = Some ''fast'', ClaimRequested = Some 10, ClaimCapacity = Some 10\<rparr>, w)),
     GetStorageClass = (\<lambda>_ w. (Inr (Some True), w)), PatchClaim = (\<lambda>_ w. (None, w)), PvcWait = (\<lambda>_ w. w)\<rparr>"

definition ex_webhook :: "unit webhook_client" where
  "ex_webhook = \<lparr>GetSecret = (\<lambda>_ _ w. (Inr [(''token'', ''s3cret'')], w)),
     HttpDo = (\<lambda>_ _ w. (Inr \<lparr>RespStatus = ''200 OK'', RespCode = 200, RespBody = ''ok''\<rparr>, w)),
     UrlError = (\<lambda>_. None), WebhookNow = (\<lambda>w. (0, w))\<rparr>"

definition ex_run :: "unit run_client" where
  "ex_run = \<lparr>RunGetJob = (\<lambda>_ _ w. (Inl (ErrNotFound ''none''), w)), RunGetConfigMap = (\<lambda>_ _ w. (Inl (ErrNotFound ''none''), w)),
     RunListPods = (\<lambda>_ _ _ w. (Inr [], w)), SendJob = (\<lambda>_ w. (Inr ''job-1'', w)), LogStream = (\<lambda>_ _ _ _ w. (Inr ('''', None), w)),
     RunNow = (\<lambda>w. (0, w)), RunWait = (\<lambda>_ w. w), DecodeStrings = (\<lambda>raw. Inr [raw])\<rparr>"

definition ex_deps :: "(unit, int) registry_deps" where
  "ex_deps = \<lparr>DepWorkloads = ex_workloads, DepPods = ex_pods, DepJobs = ex_jobs, DepRollback = ex_rollback, DepScale = ex_scale,
     DepWebhook = ex_webhook, DepRun = ex_run, DepNodes = ex_nodes, DepClaims = ex_claims, DepQuantities = ex_quantities,
     DepNow = (\<lambda>w. (0, w)), DepParseDuration = (\<lambda>_. Inl (Err ''duration'')), DepNamespace = ''remedik'', DepServiceAccount = ''remedik''\<rparr>"

definition ex_request :: "target \<Rightarrow> params \<Rightarrow> request" where
  "ex_request t p = \<lparr>ReqTarget = t, ReqParams = p, ReqLabels = [], ReqRemediation = ''r1'', ReqStrategy = ''restart'',
     ReqNamespace = ''remedik'', ReqDryRun = False\<rparr>"

definition ex_deployment_target :: target where
  "ex_deployment_target = \<lparr>TKind = ''Deployment'', TNamespace = ''shop'', TName = ''api''\<rparr>"

definition ex_node_target :: target where
  "ex_node_target = \<lparr>TKind = ''Node'', TNamespace = '''', TName = ''n1''\<rparr>"

definition ex_cluster :: "unit astate" where
  "ex_cluster = \<lparr>AWorld = (), Changes = []\<rparr>"

section \<open>What the actions send\<close>

lemma no_autoscaler:
  assumes "checkAutoscaler cl r s = (None, s')"
  shows "\<exists>items. fst (ListAutoscalers cl (TNamespace (ReqTarget r)) (AWorld s)) = Inr items
    \<and> find (\<lambda>h. HpaRefKind h = ''Deployment'' \<and> HpaRefName h = TName (ReqTarget r)) items = None"
  using assms by (auto simp: checkAutoscaler_def reading_def Let_def split: prod.splits sum.splits option.splits)

lemma scale_plan_asks:
  assumes "scale_plan a r s = (Inr x, s')"
  shows "\<exists>s1 s2. checkAutoscaler (ScaleClient a) r s1 = (None, s2)"
  using assms by (auto simp: scale_plan_def Let_def split: prod.splits sum.splits option.splits)

text \<open>C18: Scaling by an amount or a share never passes the ceiling. When \<open>deployment.scale\<close> executes a step
  that sets no absolute count, every request it sends is one patch of the scale subresource of its
  target, to a count above the one the Deployment asks for and not above the step's \<open>max\<close>, in the
  range of a 32-bit integer, and no autoscaler of the namespace scales that Deployment.\<close>

theorem scaling_stays_below_its_ceiling:
  assumes "params_Get (ReqParams r) ReplicasParam '''' = ''''"
    and "Changes (snd (snd (scale_Execute a c r s))) = Changes s @ ch # cs"
  shows "\<exists>d want ceiling items w. cs = [] \<and> ch = scale_change (ReqTarget r) want
    \<and> fst (ReadDeployment (ScaleWorkloads (ScaleClient a)) (TNamespace (ReqTarget r)) (TName (ReqTarget r)) (AWorld s)) = Inr d
    \<and> RolloutDesired (replicated_rollout d) < want \<and> want \<le> ceiling
    \<and> parse_int 32 (params_Get (ReqParams r) MaxParam '''') = Some ceiling
    \<and> fst (ListAutoscalers (ScaleClient a) (TNamespace (ReqTarget r)) w) = Inr items
    \<and> \<not> list_ex (\<lambda>h. HpaRefKind h = ''Deployment'' \<and> HpaRefName h = TName (ReqTarget r)) items"
proof -
  obtain planned s1 where p: "scale_plan a r s = (planned, s1)" by fastforce
  have sends: "\<exists>d want. planned = Inr (d, want) \<and> cs = [] \<and> ch = scale_change (ReqTarget r) want"
    using assms(2) p scale_planD [OF p]
    by (auto simp: scale_Execute_def Let_def dest!: changingD split: prod.splits sum.splits option.splits)
  then obtain d want where plan: "planned = Inr (d, want)" and sent: "cs = []" "ch = scale_change (ReqTarget r) want" by blast
  have count: "targetCount (ReqParams r) (RolloutDesired (replicated_rollout d)) = Inr want" using scale_planD [OF p] plan by simp
  obtain ceiling where max: "parsePositiveInt32 (params_Get (ReqParams r) MaxParam '''') MaxParam = Inr ceiling"
    and between: "RolloutDesired (replicated_rollout d) < want" "want \<le> ceiling" using targetCount_relative [OF count assms(1)] by blast
  have parsed: "parse_int 32 (params_Get (ReqParams r) MaxParam '''') = Some ceiling"
    using max by (auto simp: parsePositiveInt32_def split: option.splits if_splits)
  have read: "fst (ReadDeployment (ScaleWorkloads (ScaleClient a)) (TNamespace (ReqTarget r)) (TName (ReqTarget r)) (AWorld s)) = Inr d"
    using p plan by (auto simp: scale_plan_def reading_def Let_def split: prod.splits sum.splits option.splits)
  obtain s2 s3 where asked: "checkAutoscaler (ScaleClient a) r s2 = (None, s3)"
    using scale_plan_asks [OF p [unfolded plan]] by blast
  obtain items where listed: "fst (ListAutoscalers (ScaleClient a) (TNamespace (ReqTarget r)) (AWorld s2)) = Inr items"
    and "find (\<lambda>h. HpaRefKind h = ''Deployment'' \<and> HpaRefName h = TName (ReqTarget r)) items = None"
    using no_autoscaler [OF asked] by blast
  then have "\<not> list_ex (\<lambda>h. HpaRefKind h = ''Deployment'' \<and> HpaRefName h = TName (ReqTarget r)) items"
    by (auto simp: find_None_iff list_ex_iff)
  with sent between parsed read listed show ?thesis by blast
qed

definition ex_scaling :: request where
  "ex_scaling = ex_request ex_deployment_target [(''increaseBy'', ''5''), (''max'', ''6'')]"

lemma ex_scaled: "Changes (snd (snd (scale_Execute (NewDeploymentScale ex_scale) [] ex_scaling ex_cluster)))
    = [scale_change ex_deployment_target 6]"
  by code_simp

theorem scaling_stays_below_its_ceiling_witness:
  "\<exists>want ceiling. scale_change ex_deployment_target 6 = scale_change ex_deployment_target want \<and> want \<le> ceiling
    \<and> parse_int 32 ''6'' = Some ceiling"
proof -
  have p: "params_Get (ReqParams ex_scaling) ReplicasParam '''' = ''''"
    "params_Get (ReqParams ex_scaling) MaxParam '''' = ''6''" "ReqTarget ex_scaling = ex_deployment_target" by code_simp+
  have "Changes (snd (snd (scale_Execute (NewDeploymentScale ex_scale) [] ex_scaling ex_cluster)))
      = Changes ex_cluster @ scale_change ex_deployment_target 6 # []" using ex_scaled by (simp add: ex_cluster_def)
  from scaling_stays_below_its_ceiling [OF p(1) this] p(2,3) show ?thesis by auto
qed


definition ex_undo :: request where
  "ex_undo = ex_request ex_deployment_target []"

lemma ex_undone: "Changes (snd (snd (rollback_Execute (NewDeploymentRollback ex_rollback) [] ex_undo ex_cluster)))
    = [rollback_change ex_deployment_target ''{}'']"
  by code_simp


text \<open>A volume only grows, on a class that lets it, and a relative growth not past its ceiling. When
  \<open>pvc.expand\<close> executes, the one request it sends patches its claim to a size larger than the one the
  claim requests; the claim names a storage class that allows expansion; and when the step gives a
  percentage, the new size does not exceed the parsed \<open>maxSize\<close> of the step.\<close>

theorem expansion_only_grows:
  assumes "Changes (snd (snd (pvc_Execute a c r s))) = Changes s @ ch # cs"
  shows "\<exists>cm want class_name w. cs = [] \<and> ch = pvc_change a (ReqTarget r) want
    \<and> fst (GetClaim (PvcClient a) (TNamespace (ReqTarget r)) (TName (ReqTarget r)) (AWorld s)) = Inr cm
    \<and> 0 < QCmp (PvcQuantities a) want (claim_requested (PvcQuantities a) cm)
    \<and> ClaimStorageClass cm = Some class_name \<and> fst (GetStorageClass (PvcClient a) class_name w) = Inr (Some True)
    \<and> (if params_Get (ReqParams r) IncreasePercentParam '''' = '''' then True
       else \<exists>ceiling. QParse (PvcQuantities a) (params_Get (ReqParams r) MaxSizeParam '''') = Some ceiling
         \<and> (want = ceiling \<or> QCmp (PvcQuantities a) want ceiling \<le> 0))"
proof -
  obtain planned s1 where p: "pvc_plan a r s = (planned, s1)" by fastforce
  have "\<exists>cm want. planned = Inr (cm, want) \<and> cs = [] \<and> ch = pvc_change a (ReqTarget r) want"
    using assms p pvc_planD(1) [OF p] by (auto simp: pvc_Execute_def Let_def dest!: changingD split: prod.splits sum.splits option.splits)
  then obtain cm want where plan: "planned = Inr (cm, want)" and sent: "cs = []" "ch = pvc_change a (ReqTarget r) want" by blast
  note grows = pvc_planD(2) [OF p plan]
  from p plan obtain s2 s3 where fetched: "pvc_fetch (PvcClient a) (ReqTarget r) s = (Inr cm, s2)"
    and allowed: "checkExpandable (PvcClient a) cm (ReqTarget r) s2 = (None, s3)"
    and wanted: "targetSize (PvcQuantities a) (ReqParams r) (claim_requested (PvcQuantities a) cm) = Inr want"
    by (auto simp: pvc_plan_def split: prod.splits sum.splits option.splits)
  have read: "fst (GetClaim (PvcClient a) (TNamespace (ReqTarget r)) (TName (ReqTarget r)) (AWorld s)) = Inr cm"
    using fetched by (auto simp: pvc_fetch_def reading_def split: prod.splits sum.splits)
  obtain n where "ClaimStorageClass cm = Some n" "fst (GetStorageClass (PvcClient a) n (AWorld s2)) = Inr (Some True)"
    using checkExpandable_allowed [OF allowed] by blast
  moreover have "if params_Get (ReqParams r) IncreasePercentParam '''' = '''' then True
      else \<exists>ceiling. QParse (PvcQuantities a) (params_Get (ReqParams r) MaxSizeParam '''') = Some ceiling
        \<and> (want = ceiling \<or> QCmp (PvcQuantities a) want ceiling \<le> 0)"
    using targetSize_ceiling [OF wanted] by simp
  ultimately show ?thesis using sent read grows by blast
qed

definition ex_expansion :: request where
  "ex_expansion = ex_request ex_node_target [(''increasePercent'', ''50''), (''maxSize'', ''12'')]"

lemma ex_grown: "targetSize ex_quantities (ReqParams ex_expansion) 10 = Inr 12"
proof -
  have p: "params_Get (ReqParams ex_expansion) SizeParam '''' = ''''"
    "params_Get (ReqParams ex_expansion) Pvc.IncreasePercentParam '''' = ''50''"
    "params_Get (ReqParams ex_expansion) MaxSizeParam '''' = ''12''"
    "parsePercent ''50'' = Inr 50" "atoi ''12'' = Some 12" by code_simp+
  have "grown_size 10 50 = 1048576" by (simp add: grown_size_def mebibyte_def go_div_def wrap64_def)
  then show ?thesis unfolding targetSize_def Let_def p using p by (simp add: ex_quantities_def checkGrowth_def)
qed

lemma ex_expanded: "Changes (snd (snd (pvc_Execute (NewPVCExpand ex_claims ex_quantities) [] ex_expansion ex_cluster)))
    = [pvc_change (NewPVCExpand ex_claims ex_quantities) ex_node_target 12]"
proof -
  have "ReqTarget ex_expansion = ex_node_target" by (simp add: ex_expansion_def ex_request_def)
  with ex_grown show ?thesis
    by (simp add: pvc_Execute_def pvc_plan_def pvc_fetch_def checkExpandable_def reading_def changing_def NewPVCExpand_def ex_claims_def
      ex_cluster_def claim_requested_def Let_def)
qed

theorem expansion_only_grows_witness:
  "\<exists>cm want. pvc_change (NewPVCExpand ex_claims ex_quantities) ex_node_target 12
      = pvc_change (NewPVCExpand ex_claims ex_quantities) ex_node_target want
    \<and> 0 < want - claim_requested ex_quantities cm \<and> want \<le> 12"
proof -
  have p: "params_Get (ReqParams ex_expansion) Pvc.IncreasePercentParam '''' = ''50''"
    "QParse ex_quantities (params_Get (ReqParams ex_expansion) MaxSizeParam '''') = Some 12"
    "ReqTarget ex_expansion = ex_node_target" by code_simp+
  have q: "PvcQuantities (NewPVCExpand ex_claims ex_quantities) = ex_quantities" "QCmp ex_quantities x y = x - y" for x y
    by (simp_all add: NewPVCExpand_def ex_quantities_def)
  have "Changes (snd (snd (pvc_Execute (NewPVCExpand ex_claims ex_quantities) [] ex_expansion ex_cluster)))
      = Changes ex_cluster @ pvc_change (NewPVCExpand ex_claims ex_quantities) ex_node_target 12 # []"
    using ex_expanded by (simp add: ex_cluster_def)
  from expansion_only_grows [OF this] p q show ?thesis by auto
qed

section \<open>Draining a node\<close>


definition ex_drain :: "unit drain" where
  "ex_drain = NewDrain ex_nodes"

definition ex_draining :: request where
  "ex_draining = ex_request ex_node_target []"

text \<open>With a deadline a drain ends. Whatever the cluster answers, and however long its disruption
  budgets refuse, an execution whose context has a deadline gives a result, with an error if a pod
  it had to evict is still there.\<close>

theorem drain_ends_at_its_deadline:
  assumes "c \<noteq> []"
  shows "\<exists>res err s'. drain_Execute a c r s = Some (res, err, s')
    \<and> (if map_of (ResultOutputs res) ''remaining'' = None then True else err \<noteq> None)"
proof -
  obtain res err s' where out: "drain_Execute a c r s = Some (res, err, s')"
    using drain_Execute_ends [OF assms, of a r s] by (metis prod_cases3)
  have "map_of (ResultOutputs res) ''remaining'' = None" if none: "err = None"
    using out
  proof (cases rule: drain_Execute_cases)
    case (evicted cordon evictable skipped s1 s2)
    then obtain n still where loop: "evict_loop a (ReqTarget r) c 0 0 evictable s2 = Some ((n, still, err), s')"
      and res: "res = drain_result (ReqTarget r) skipped n still err"
      by (auto simp: drain_evict_all_def split: option.splits)
    have "still = []" using evict_loop_sound [OF loop] none by simp
    then show ?thesis using none res by (simp add: drain_result_def result_Output_def zero_result_def Let_def map_put_def)
  qed (use none in auto)
  with out show ?thesis by (cases err) auto
qed

theorem drain_ends_at_its_deadline_witness:
  "\<exists>res err s'. drain_Execute ex_drain [minute] ex_draining ex_cluster = Some (res, err, s')"
  using drain_ends_at_its_deadline [of "[minute]" ex_drain ex_draining ex_cluster] by auto




section \<open>Running a Job\<close>

text \<open>C19: A Job never runs as the operator. When \<open>job.run\<close> or \<open>script.run\<close> executes for an operator whose
  account is known, the one request it sends creates a Job in remedik's namespace, of the image the
  step names and with a command, under another account than the operator's; its generated name is
  a valid object name, and every variable it is given has the prefix \<open>REMEDIK_\<close>.\<close>

theorem jobs_never_run_as_the_operator:
  assumes "RunOperatorAccount a \<noteq> ''''" and "Changes (snd (snd (run_Execute a c r s))) = Changes s @ ch # cs"
  shows "\<exists>j name. cs = [] \<and> ch = CreateJob j \<and> JobServiceAccount j \<noteq> RunOperatorAccount a \<and> JobNamespace j = ReqNamespace r
    \<and> JobImage j = params_Get (ReqParams r) ImageParam '''' \<and> JobCommand j \<noteq> []
    \<and> JobGenerateName j = ''remedik-'' @ name @ ''-'' \<and> name \<noteq> [] \<and> length name \<le> 40 \<and> list_all name_safe name
    \<and> hd name \<noteq> CHR ''-'' \<and> last name \<noteq> CHR ''-''
    \<and> list_all (\<lambda>(n, v). take 8 n = ''REMEDIK_'') (JobEnv j)"
proof -
  obtain got s1 where p: "run_prepare a r s = (got, s1)" by fastforce
  have "\<exists>sp now. got = Inr sp \<and> cs = [] \<and> ch = CreateJob (build_job sp r now)"
    using assms(2) p run_prepareD [OF p] by (auto simp: run_Execute_def Let_def dest!: changingD readingD split: prod.splits sum.splits)
  then obtain sp now where sp: "got = Inr sp" and sent: "cs = []" "ch = CreateJob (build_job sp r now)" by blast
  note spec = run_prepare_spec [OF p [unfolded sp]]
  have "list_all (\<lambda>(n, v). take 8 n = ''REMEDIK_'') (environment r)"
    unfolding list_all_iff using environment_names by blast
  then show ?thesis
    using sent spec assms(1) sanitiseName_ok [of "ReqStrategy r"]
    by (intro exI [of _ "build_job sp r now"] exI [of _ "sanitiseName (ReqStrategy r)"]) (simp add: build_job_def)
qed

definition ex_job :: "unit job_run" where
  "ex_job = NewJobRun ex_run True ''remedik''"

definition ex_running :: request where
  "ex_running = ex_request zero_target [(''image'', ''busybox''), (''command'', ''true'')]"

lemma ex_ran: "\<exists>j. Changes (snd (snd (run_Execute ex_job [] ex_running ex_cluster))) = [CreateJob j]"
proof -
  have "run_prepare ex_job ex_running ex_cluster = (Inr \<lparr>SpecImage = ''busybox'', SpecCommand = [''true''], SpecServiceAccount = ''default'',
      SpecTTL = 3600, SpecBackoff = 0, SpecConfigMap = '''', SpecConfigMapKey = ''''\<rparr>, ex_cluster)" by code_simp
  then show ?thesis
    by (simp add: run_Execute_def ex_job_def NewJobRun_def ex_run_def reading_def changing_def ex_cluster_def Let_def)
qed

theorem jobs_never_run_as_the_operator_witness:
  "\<exists>j. Changes (snd (snd (run_Execute ex_job [] ex_running ex_cluster))) = [CreateJob j] \<and> JobServiceAccount j \<noteq> ''remedik''
    \<and> JobImage j = ''busybox''"
proof -
  obtain j where j: "Changes (snd (snd (run_Execute ex_job [] ex_running ex_cluster))) = Changes ex_cluster @ CreateJob j # []"
    using ex_ran by (auto simp: ex_cluster_def)
  have p: "RunOperatorAccount ex_job = ''remedik''" "params_Get (ReqParams ex_running) ImageParam '''' = ''busybox''" by code_simp+
  from jobs_never_run_as_the_operator [OF _ j] p j show ?thesis by (auto simp: ex_cluster_def)
qed

section \<open>Calling a webhook\<close>

text \<open>C22: A plan does not reveal a credential. What planning a webhook call gives - the summary, the command
  line, the outputs, the error - is the same whatever the values of the Secrets are, as long as the
  same ones are empty: nothing of the credential reaches the record.\<close>

theorem webhook_plans_hide_credentials:
  assumes "\<And>v. f v = '''' \<longleftrightarrow> v = ''''"
  shows "webhook_Plan (map_secrets f a) c r s = webhook_Plan a c r s"
  using assms by (rule plan_hides_secrets)

theorem webhook_plans_hide_credentials_witness:
  "webhook_Plan (map_secrets (\<lambda>v. v @ v) (NewWebhookCall ex_webhook ''remedik'' (\<lambda>_. Inl (Err ''duration'')))) [] ex_draining ex_cluster
    = webhook_Plan (NewWebhookCall ex_webhook ''remedik'' (\<lambda>_. Inl (Err ''duration''))) [] ex_draining ex_cluster"
  by (rule webhook_plans_hide_credentials) simp

section \<open>The contract of every built-in action\<close>

lemma available_actions_refuse:
  assumes "a \<in> set (available_actions d)" and "fst (snd (ActPlan a c r s)) = Some e"
  shows "fst (snd (ActExecute a c r s)) = Some e \<and> Changes (snd (snd (ActExecute a c r s))) = Changes s"
proof -
  let ?P = "\<lambda>act. fst (snd (ActPlan act c r s)) = Some e \<longrightarrow>
    fst (snd (ActExecute act c r s)) = Some e \<and> Changes (snd (snd (ActExecute act c r s))) = Changes s"
  have "?P (restart_action x)" "?P (pod_action y)" "?P (job_action z)" "?P (rollback_action u now)"
    "?P (scale_action v)" "?P (hpa_action w)" "?P (webhook_action p)" "?P (run_action q)" "?P (cordon_action m)" "?P (pvc_action k)"
    for x y z u now v w p q m and k :: "('a, 'b) pvc_expand"
    by (auto simp: restart_action_def pod_action_def job_action_def rollback_action_def
        scale_action_def hpa_action_def webhook_action_def run_action_def cordon_action_def pvc_action_def
        dest: restart.plan_refusal pod.plan_refusal job_deletion.plan_refusal rollback.plan_refusal scale.plan_refusal
        hpa.plan_refusal webhook.plan_refusal job_run.plan_refusal cordon.plan_refusal pvc.plan_refusal)
  moreover have "?P (drain_action n)" for n
    using drain_refusal_planned [of n c r s e] by (auto simp: drain_action_def)
  ultimately have "\<forall>act \<in> set (available_actions d). ?P act" unfolding available_actions_def by simp
  with assms show ?thesis by blast
qed

text \<open>C5: Every built-in action keeps the engine's contract: planning and verifying send no request that
  changes anything, and what planning refuses, executing refuses with the same error before it
  sends one.\<close>

theorem builtin_actions_keep_the_contract:
  assumes "a \<in> set (available_actions d)"
  shows "Changes (snd (snd (ActPlan a c r s))) = Changes s
    \<and> (case ActVerify a of None \<Rightarrow> True | Some check \<Rightarrow> Changes (snd (snd (check c r x s))) = Changes s)
    \<and> (case fst (snd (ActPlan a c r s)) of None \<Rightarrow> True
       | Some e \<Rightarrow> fst (snd (ActExecute a c r s)) = Some e \<and> Changes (snd (snd (ActExecute a c r s))) = Changes s)"
  using available_actions_read [OF assms] available_actions_refuse [OF assms, of c r s]
  by (auto simp: reads_only_def split: option.splits)

lemma ex_refusal: "fst (snd (job_Plan (NewJobDelete ex_jobs) [] ex_undo ex_cluster)) \<noteq> None"
  by code_simp

theorem builtin_actions_keep_the_contract_witness:
  "\<exists>e. fst (snd (job_Execute (NewJobDelete ex_jobs) [] ex_undo ex_cluster)) = Some e
    \<and> Changes (snd (snd (job_Execute (NewJobDelete ex_jobs) [] ex_undo ex_cluster))) = []"
proof -
  have "job_action (NewJobDelete ex_jobs) \<in> set (available_actions ex_deps)" by (simp add: available_actions_def ex_deps_def)
  from builtin_actions_keep_the_contract [OF this, of "[]" ex_undo ex_cluster zero_result] ex_refusal show ?thesis
    by (auto simp: job_action_def ex_cluster_def split: option.splits)
qed

text \<open>C36: The registry holds what was asked for. \<open>buildRegistry\<close> succeeds exactly on lists of distinct names of
  built-in actions; the registry then lists those names in that order, or all fourteen when none was
  given, and under each name stands a built-in action that has this name.\<close>

theorem registry_holds_what_was_asked_for:
  "case buildRegistry d enabled of
     Inl e \<Rightarrow> \<not> (distinct enabled \<and> set enabled \<subseteq> set builtin_names)
   | Inr reg \<Rightarrow> distinct enabled \<and> set enabled \<subseteq> set builtin_names
       \<and> map fst reg = (if enabled = [] then builtin_names else enabled) \<and> distinct (map fst reg)
       \<and> list_all (\<lambda>(n, a). ActName a = n \<and> a \<in> set (available_actions d)) reg"
proof (cases "buildRegistry d enabled")
  case (Inl e)
  then show ?thesis using buildRegistry_ok_iff [of d enabled] by auto
next
  case (Inr reg)
  have "distinct enabled \<and> set enabled \<subseteq> set builtin_names" using Inr buildRegistry_ok_iff [of d enabled] by blast
  moreover have names: "map fst reg = (if enabled = [] then builtin_names else enabled)" by (rule buildRegistry_contents(1) [OF Inr])
  ultimately have ok: "distinct (map fst reg)" using builtin_names_ok(1) by simp
  then have "list_all (\<lambda>(n, a). ActName a = n \<and> a \<in> set (available_actions d)) reg"
    using buildRegistry_contents(2) [OF Inr] by (auto simp: list_all_iff)
  with Inr names ok show ?thesis using buildRegistry_ok_iff [of d enabled] by auto
qed

section \<open>Verifying\<close>

lemma deadline_of_hd: "deadline_of (t # c) \<le> t"
  using fold_min_le [of c t] by (simp add: deadline_of_def)

text \<open>C16: A verification looks a bounded number of times. Under the deadline the engine sets for a step, at most
  ten minutes, an action that polls every two seconds looks at the cluster at most 300 times; it
  returns what a look answered, or, when no look answered before the deadline, its error for that.\<close>

theorem polling_is_bounded:
  assumes "VerifyTimeout pd p = Inr t" and "2 * second \<le> every"
  shows "\<exists>n b1 s1. n < 300 \<and> rounds look wait every n b s = Some (b1, s1)
    \<and> (case look b1 s1 of
         (Answer r e, s2) \<Rightarrow> verify_poll (t # c) every wait look expire b s = (r, e, s2)
       | (Again b2, s2) \<Rightarrow> \<exists>d. verify_poll (t # c) every wait look expire b s = expire b2 (s2\<lparr>AWorld := wait d (AWorld s2)\<rparr>))"
proof -
  let ?T = "deadline_of (WithVerifyDeadline (t # c))"
  have t: "?T \<le> 10 * minute"
    using VerifyTimeout_bounds [OF assms(1)] deadline_of_hd [of t c] by (simp add: WithVerifyDeadline_def MaxVerifyTimeout_def)
  have every: "max 1 every = every" using assms(2) by simp
  obtain n b1 s1 where n: "rounds look wait every n b s = Some (b1, s1)" "n = 0 \<or> 0 + int n * max 1 every < ?T"
    and out: "(\<exists>r e s2. look b1 s1 = (Answer r e, s2) \<and> poll_until look expire wait ?T every 0 b s = (r, e, s2))
      \<or> (\<exists>b2 s2. look b1 s1 = (Again b2, s2) \<and> ?T \<le> 0 + int (Suc n) * max 1 every
          \<and> poll_until look expire wait ?T every 0 b s = expire b2 (s2\<lparr>AWorld := wait (?T - (0 + int n * max 1 every)) (AWorld s2)\<rparr>))"
    using poll_until_rounds [of look wait every b s 0 ?T expire] by blast
  have "n < 300"
  proof (rule ccontr)
    assume "\<not> n < 300"
    then have "300 * (2 * second) \<le> int n * every" using assms(2) by (intro mult_mono) auto
    moreover have "n \<noteq> 0" using \<open>\<not> n < 300\<close> by simp
    ultimately show False using n(2) t every by simp
  qed
  moreover have "case look b1 s1 of
         (Answer r e, s2) \<Rightarrow> verify_poll (t # c) every wait look expire b s = (r, e, s2)
       | (Again b2, s2) \<Rightarrow> \<exists>d. verify_poll (t # c) every wait look expire b s = expire b2 (s2\<lparr>AWorld := wait d (AWorld s2)\<rparr>)"
    using out unfolding verify_poll_def by (auto intro!: exI [of _ "?T - int n * max 1 every"])
  ultimately show ?thesis using n(1) by - (intro exI conjI, assumption+)
qed

theorem polling_is_bounded_witness:
  "\<exists>n b1 s1. n < 300 \<and> rounds (restart_look (NewDeploymentRestart ex_workloads (\<lambda>w. (0, w))) ex_deployment_target) (\<lambda>_ w. w)
     (2 * second) n '''' ex_cluster = Some (b1, s1)"
proof -
  have "VerifyTimeout (\<lambda>_. Inl (Err ''duration'')) [] = Inr DefaultVerifyTimeout" by code_simp
  from polling_is_bounded [OF this order_refl, of "restart_look (NewDeploymentRestart ex_workloads (\<lambda>w. (0, w))) ex_deployment_target"]
  show ?thesis by blast
qed

text \<open>A step that succeeded for real was verified by its action, after it executed.\<close>

lemma succeeded_step:
  assumes "runStep r c i labels stp s = ((st, None), s')" and "\<not> RunnerDryRun r"
    and "registry_Get (RunnerRegistry r) (Action stp) = Inr act" and "ActVerify act = Some check"
  shows "\<exists>req executed t w w1 res w2. ActResolve act labels (With stp) = Inr (ReqTarget req) \<and> ReqParams req = With stp
    \<and> VerifyTimeout (RunnerParseDuration r) (With stp) = Inr t
    \<and> ActExecute act c req w = (executed, None, w1) \<and> check (t # c) req executed w1 = (res, None, w2)"
proof -
  have failed: "fail_step r e x y \<noteq> ((st, None), s')" for e x y by (auto simp: fail_step_def split: prod.splits)
  obtain started s1 where clk: "read_clock (RunnerNow r) s = (started, s1)" by fastforce
  obtain tg where tg: "ActResolve act labels (With stp) = Inr tg"
    using assms(1,3) clk failed by (cases "ActResolve act labels (With stp)") (auto simp: runStep_def Let_def)
  define req where "req = \<lparr>ReqTarget = tg, ReqParams = With stp, ReqLabels = labels, ReqRemediation = RunnerRemediation r,
    ReqStrategy = RunnerStrategy r, ReqNamespace = RunnerNamespace r, ReqDryRun = RunnerDryRun r\<rparr>"
  let ?s2 = "publish_step (EvStarting (RunnerEvents r) tg (Action stp) i) s1"
  obtain executed err w1 where ex: "ActExecute act c req (World ?s2) = (executed, err, w1)" by (metis prod_cases3)
  show ?thesis
  proof (cases err)
    case (Some e)
    then show ?thesis using assms(1-3) clk failed tg ex
      by (auto simp: runStep_def call_execute_def req_def Let_def)
  next
    case None
    show ?thesis
    proof (cases "VerifyTimeout (RunnerParseDuration r) (With stp)")
      case (Inl e)
      then show ?thesis using assms clk failed tg ex None
        by (auto simp: runStep_def call_execute_def verify_def req_def Let_def)
    next
      case (Inr t)
      obtain res verr w2 where v: "check (t # c) req executed w1 = (res, verr, w2)" by (metis prod_cases3)
      have "verr = None" using assms clk failed tg ex None Inr v
        by (cases verr) (auto simp: runStep_def call_execute_def verify_def emit_def req_def Let_def)
      then show ?thesis using tg Inr ex None v
        by (intro exI [of _ req] exI [of _ executed] exI [of _ t] exI [of _ "World ?s2"] exI [of _ w1] exI [of _ res] exI [of _ w2])
          (simp add: req_def)
    qed
  qed
qed

lemma restart_in_registry:
  assumes "buildRegistry d enabled = Inr reg" and "map_of reg ''deployment.restart'' = Some act"
  shows "act = restart_action (NewDeploymentRestart (DepWorkloads d) (DepNow d))"
proof -
  let ?r = "restart_action (NewDeploymentRestart (DepWorkloads d) (DepNow d))"
  have act: "act \<in> set (available_actions d)" "ActName act = ActName ?r"
    using buildRegistry_contents(2) [OF assms] by (simp_all add: restart_action_def NewDeploymentRestart_def)
  have "?r \<in> set (available_actions d)" by (simp add: available_actions_def)
  moreover have "inj_on ActName (set (available_actions d))"
    using builtin_names_ok(1) names_of_available [of d] by (metis distinct_map)
  ultimately show ?thesis using act by (metis inj_onD)
qed

lemma restart_Resolve_kind: "restart_Resolve ''Deployment'' labels p = Inr t \<Longrightarrow> TKind t = ''Deployment''"
  by (auto simp: restart_Resolve_def restart_workload_def Let_def split: if_splits)


definition ex_live_runner :: "unit astate registry \<Rightarrow> unit astate step_runner" where
  "ex_live_runner reg = \<lparr>RunnerRegistry = reg, RunnerRemediation = ''r1'', RunnerStrategy = ''restart'', RunnerNamespace = ''remedik'',
     RunnerDryRun = False, RunnerEvents = NopStepEvents, RunnerNow = (\<lambda>w. (0, w)), RunnerParseDuration = (\<lambda>_. Inl (Err ''duration''))\<rparr>"

lemma ex_restarted:
  assumes "buildRegistry ex_deps [] = Inr reg"
  shows "\<exists>st s'. runStep (ex_live_runner reg) [] 0 [(''namespace'', ''shop''), (''deployment'', ''api'')]
    \<lparr>Action = ''deployment.restart'', With = []\<rparr> \<lparr>World = ex_cluster, History = ex_history, Trace = []\<rparr> = ((st, None), s')"
proof -
  let ?a = "NewDeploymentRestart ex_workloads (\<lambda>w. (0, w))"
  let ?labels = "[(''namespace'', ''shop''), (''deployment'', ''api'')]"
  have sel: "DepWorkloads ex_deps = ex_workloads" "DepNow ex_deps = (\<lambda>w. (0, w))" by (simp_all add: ex_deps_def)
  have "map fst reg = builtin_names" using buildRegistry_contents(1) [OF assms] by simp
  moreover have "''deployment.restart'' \<in> set builtin_names" by (simp add: builtin_names_def)
  ultimately have "''deployment.restart'' \<in> set (map fst reg)" by (simp only:)
  then obtain act where "map_of reg ''deployment.restart'' = Some act"
    by (cases "map_of reg ''deployment.restart''") (simp only: map_of_eq_None_iff set_map, blast)
  with restart_in_registry [OF assms this] have get: "registry_Get reg ''deployment.restart'' = Inr (restart_action ?a)"
    by (simp add: registry_Get_Inr sel)
  have res: "restart_Resolve ''Deployment'' ?labels [] = Inr ex_deployment_target" by code_simp
  have time: "VerifyTimeout (\<lambda>_. Inl (Err ''duration'')) [] = Inr DefaultVerifyTimeout" by code_simp
  have canon: "canonicalKind ''Deployment'' = Some ''Deployment''" by code_simp
  have exec: "\<exists>x s1. restart_Execute ?a [] req ex_cluster = (x, None, s1)" if "ReqTarget req = ex_deployment_target" for req
    using that canon by (simp add: restart_Execute_def restart_fetch_def get_workload_def as_kind_def reading_def changing_def
        NewDeploymentRestart_def ex_workloads_def ex_deployment_target_def Let_def)
  have ver: "\<exists>x s2. restart_Verify ?a c req y s1 = (x, None, s2)" if "ReqTarget req = ex_deployment_target" for c req y s1
    using that canon by (simp add: restart_Verify_def verify_poll_def poll_until.simps restart_look_def restart_fetch_def get_workload_def
        as_kind_def reading_def NewDeploymentRestart_def ex_workloads_def ex_deployment_target_def rollout_describe_def
        replicated_rollout_def ex_deployment_def Let_def)
  let ?stp = "\<lparr>Action = ''deployment.restart'', With = []\<rparr>" and ?s = "\<lparr>World = ex_cluster, History = ex_history, Trace = []\<rparr>"
  define r where "r = ex_live_runner reg"
  define req where "req = request_for r ?labels ?stp ex_deployment_target"
  have runner: "\<not> RunnerDryRun r" "RunnerRegistry r = reg" "RunnerParseDuration r = (\<lambda>_. Inl (Err ''duration''))"
    "read_clock (RunnerNow r) ?s = (0, ?s)" "ReqTarget req = ex_deployment_target" "ReqParams req = []"
    "World (publish_step (EvStarting (RunnerEvents r) ex_deployment_target (Action ?stp) 0) ?s) = ex_cluster"
    by (simp_all add: r_def req_def ex_live_runner_def request_for_def read_clock_def publish_step_def NopStepEvents_def)
  obtain x w1 where "restart_Execute ?a [] req ex_cluster = (x, None, w1)" using exec [OF runner(5)] by blast
  then obtain s1 where ex: "call_execute (restart_action ?a) [] req
      (publish_step (EvStarting (RunnerEvents r) ex_deployment_target (Action ?stp) 0) ?s) = ((x, None), s1)"
    using runner(7) by (simp add: call_execute_def restart_action_def)
  obtain y w2 where "restart_Verify ?a [DefaultVerifyTimeout] req x (World s1) = (y, None, w2)" using ver [OF runner(5)] by blast
  then have "fst (verify r (restart_action ?a) [] req x st s1) = (fst (fst (verify r (restart_action ?a) [] req x st s1)), None)" for st
    using time runner(3,6) by (simp add: verify_def restart_action_def Let_def)
  then obtain st2 s2 where ve: "verify r (restart_action ?a) [] req x
      (record_result x (started_status 0 ?stp 0 ex_deployment_target)) s1 = ((st2, None), s2)" by (metis prod.collapse)
  have "ActResolve (restart_action ?a) ?labels (With ?stp) = Inr ex_deployment_target" "registry_Get (RunnerRegistry r) (Action ?stp) = Inr (restart_action ?a)"
    using res get runner(2) by (simp_all add: restart_action_def NewDeploymentRestart_def)
  from runStep_live [OF runner(4,1) this(2,1) ex [unfolded req_def] ve [unfolded req_def]] show ?thesis
    by (simp add: r_def split: prod.split)
qed


section \<open>The operator as the command wires it\<close>

text \<open>C3: A dry run of the wired operator touches nothing. When the parts the command builds reconcile a record
  that is a dry run and has no escalation, whatever its plan, its state and the actions it names, no
  request that changes anything is sent by an action; what is relied on is that the calls for
  records, the clock, the metrics and the events are not requests of an action, and that the API
  server answers a status update with the record it was given.\<close>

theorem dry_operator_touches_nothing:
  assumes "run_parts opts pf = Inr ps" and "clock_reads (PlatformNow pf)" and "kube_quiet (PlatformKube pf)"
    and "status_echo (PlatformKube pf)" and "recorder_quiet (PlatformMetrics pf)" and "events_quiet (Some (PlatformEvents pf))"
    and "fst (KubeGet (PlatformKube pf) ns n (World s)) = Inr rem" and "DryRun (Spec rem)" and "EscalationSteps (Spec rem) = []"
  shows "Changes (World (snd (Reconcile (PartReconciler ps) c ns n s))) = Changes (World s)"
proof -
  let ?r = "PartReconciler ps"
  note wiring = run_partsD(7) [OF assms(1)]
  have parts: "RClient ?r = PlatformKube pf" "RNow ?r = PlatformNow pf" "REvents ?r = Some (PlatformEvents pf)"
    "RMetrics ?r = Some (PlatformMetrics pf)"
    by (subst wiring, simp add: new_reconciler_def)+
  have "engine_quiet ?r"
    using assms(2-6) buildRegistry_reads [OF run_partsD(2) [OF assms(1)]]
    by (simp add: engine_quiet_def parts metrics_of_def recorder_of_def)
  moreover have "quiet_record rem'" if "KubeGet (RClient ?r) ns n (World s) = (Inr rem', w)" for rem' w
    using that assms(7-9) by (simp add: parts quiet_record_def)
  ultimately show ?thesis
    using Reconcile_dry_changes [of ?r ns n s c "fst (Reconcile ?r c ns n s)" "snd (Reconcile ?r c ns n s)"] by simp
qed

definition ex_dry_record :: remediation where
  "ex_dry_record = (let rem = ex_record [''deployment.restart''] 0 ExecutionModeAuto True RemediationStatePending 0
     in rem\<lparr>Spec := (Spec rem)\<lparr>EscalationSteps := []\<rparr>\<rparr>)"

definition ex_records :: "unit astate kube" where
  "ex_records = \<lparr>KubeGet = (\<lambda>_ _ w. (Inr ex_dry_record, w)), KubeList = (\<lambda>_ _ w. (Inr [], w)),
     KubeUpdateStatus = (\<lambda>rem w. (Inr rem, w)), KubeCreate = (\<lambda>rem w. (Inr rem, w)), KubeDelete = (\<lambda>_ w. (None, w)),
     KubeGetStrategy = (\<lambda>_ w. (Inr ex_strategy, w)), KubeListStrategies = (\<lambda>w. (Inr [ex_strategy], w)),
     KubeUpdateStrategyStatus = (\<lambda>x w. (Inr x, w))\<rparr>"

definition ex_platform :: "(unit, int) platform" where
  "ex_platform = \<lparr>PlatformError = None, PlatformDeps = ex_deps, PlatformKube = ex_records, PlatformMetrics = NopRecorder,
     PlatformEvents = (\<lambda>_ _ _ _ _ w. w), PlatformMapper = \<lparr>ResourceFor = (\<lambda>_. Inl (Err ''none'')), KindFor = (\<lambda>_. Inl (Err ''none''))\<rparr>, PlatformWorkloads = (\<lambda>_ _. Inr (zero_workload, False)),
     PlatformPause = (\<lambda>_. \<lparr>PausedFlag = False, PauseReason = ''''\<rparr>), PlatformNow = (\<lambda>w. (0, w)), PlatformSetCondition = (\<lambda>cs c. cs)\<rparr>"

lemma ex_parts: "\<exists>ps. run_parts (default_options ''remedik'' ''remedik'' '''') ex_platform = Inr ps"
proof -
  let ?o = "default_options ''remedik'' ''remedik'' ''''"
  obtain reg where reg: "buildRegistry (deps_of ?o ex_platform) [] = Inr reg"
    using buildRegistry_ok_iff [of "deps_of ?o ex_platform" "[]"] by auto
  have opts: "OptActions ?o = []" "OptNamespace ?o = ''remedik''" "OptPosture ?o = []"
    by (simp_all add: default_options_def splitActions_empty)
  have "SetupWithManager (new_reconciler ?o ex_platform reg) = Inr DefaultConcurrency"
    by (simp add: SetupWithManager_def new_reconciler_def default_options_def DefaultConcurrency_def)
  then show ?thesis using reg by (simp add: run_parts_def opts ParsePosture_def ex_platform_def)
qed

theorem dry_operator_touches_nothing_witness:
  "\<exists>ps. run_parts (default_options ''remedik'' ''remedik'' '''') ex_platform = Inr ps
    \<and> Changes (World (snd (Reconcile (PartReconciler ps) [] ''remedik'' ''r1''
         \<lparr>World = ex_cluster, History = ex_history, Trace = []\<rparr>))) = []"
proof -
  obtain ps where ps: "run_parts (default_options ''remedik'' ''remedik'' '''') ex_platform = Inr ps" using ex_parts by blast
  have "clock_reads (PlatformNow ex_platform)" "kube_quiet (PlatformKube ex_platform)" "status_echo (PlatformKube ex_platform)"
    "recorder_quiet (PlatformMetrics ex_platform)" "events_quiet (Some (PlatformEvents ex_platform))"
    "fst (KubeGet (PlatformKube ex_platform) ''remedik'' ''r1'' ex_cluster) = Inr ex_dry_record"
    "DryRun (Spec ex_dry_record)" "EscalationSteps (Spec ex_dry_record) = []"
    by (simp_all add: ex_platform_def clock_reads_def kube_quiet_def ex_records_def status_echo_def same_record_def
        recorder_quiet_def NopRecorder_def events_quiet_def ex_dry_record_def ex_record_def ex_spec_def Let_def)
  with dry_operator_touches_nothing [OF ps this(1-5), of "''remedik''" "''r1''" "\<lparr>World = ex_cluster, History = ex_history, Trace = []\<rparr>" ex_dry_record "[]"]
  have "Changes (World (snd (Reconcile (PartReconciler ps) [] ''remedik'' ''r1'' \<lparr>World = ex_cluster, History = ex_history, Trace = []\<rparr>))) = []"
    by (simp add: ex_cluster_def)
  with ps show ?thesis by blast
qed



end
