(* ===== verification/GoFloat.thy ===== *)
theory GoFloat
  imports Complex_Main Prelude
begin

text \<open>
  Go's \<open>float64\<close>, as far as the dashboard uses it: non-negative numbers far from the limits of the
  exponent. A double is the fraction it denotes, and every operation rounds its exact result to the
  nearest fraction with a 53-bit numerator over or under a power of two, ties to the even one.
\<close>

type_synonym double = "nat \<times> nat"

fun bit_count :: "nat \<Rightarrow> nat" where
  "bit_count n = (if n = 0 then 0 else Suc (bit_count (n div 2)))"

declare bit_count.simps [simp del]

definition round_even :: "nat \<Rightarrow> nat \<Rightarrow> nat" where
  "round_even n d =
     (let q = n div d; r = n mod d in
      if 2 * r < d then q else if d < 2 * r then q + 1 else if even q then q else q + 1)"

text \<open>\<open>n/d\<close> has the exponent \<open>k\<close> if it lies between \<open>2 ^ k\<close> and \<open>2 ^ (k+1)\<close>.\<close>

definition below_power :: "nat \<Rightarrow> nat \<Rightarrow> int \<Rightarrow> bool" where
  "below_power n d k \<longleftrightarrow> (if 0 \<le> k then n < d * 2 ^ nat k else n * 2 ^ nat (- k) < d)"

definition exponent_of :: "nat \<Rightarrow> nat \<Rightarrow> int" where
  "exponent_of n d = (let k = int (bit_count n) - int (bit_count d) in if below_power n d k then k - 1 else k)"

definition fl :: "nat \<Rightarrow> nat \<Rightarrow> double" where
  "fl n d =
     (if n = 0 then (0, 1)
      else let s = 52 - exponent_of n d in
        if 0 \<le> s then (round_even (n * 2 ^ nat s) d, 2 ^ nat s)
        else (round_even n (d * 2 ^ nat (- s)) * 2 ^ nat (- s), 1))"

definition float64 :: "nat \<Rightarrow> double" where "float64 n = fl n 1"

definition fdiv :: "double \<Rightarrow> double \<Rightarrow> double" where
  "fdiv x y = fl (fst x * snd y) (snd x * fst y)"

definition fmul :: "double \<Rightarrow> double \<Rightarrow> double" where
  "fmul x y = fl (fst x * fst y) (snd x * snd y)"

definition fadd :: "double \<Rightarrow> double \<Rightarrow> double" where
  "fadd x y = fl (fst x * snd y + fst y * snd x) (snd x * snd y)"

definition trunc :: "double \<Rightarrow> nat" where
  "trunc x = fst x div snd x"

text \<open>\<open>%.1f\<close>: the nearest tenth, ties to even.\<close>

definition tenths :: "double \<Rightarrow> nat" where
  "tenths x = round_even (10 * fst x) (snd x)"

section \<open>The rounding error\<close>

definition the_real :: "double \<Rightarrow> real" where
  "the_real x = of_nat (fst x) / of_nat (snd x)"

lemma round_even_error:
  assumes "0 < d"
  shows "\<bar>real (round_even n d) - real n / real d\<bar> \<le> 1 / 2"
proof -
  have n: "real n = real (n div d) * real d + real (n mod d)"
    by (metis div_mult_mod_eq of_nat_add of_nat_mult)
  have "real n / real d = real (n div d) + real (n mod d) / real d"
    using assms by (subst n) (simp add: field_simps)
  moreover have "2 * (n mod d) \<le> d \<Longrightarrow> real (n mod d) / real d \<le> 1 / 2"
    using assms by (simp add: field_simps)
  moreover have "d \<le> 2 * (n mod d) \<Longrightarrow> 1 / 2 \<le> real (n mod d) / real d"
    using assms by (simp add: field_simps)
  moreover have "0 \<le> real (n mod d) / real d" "real (n mod d) / real d < 1" using assms by simp_all
  ultimately show ?thesis by (auto simp: round_even_def Let_def abs_le_iff)
qed

lemma bit_count_bounds: "0 < n \<Longrightarrow> 2 ^ (bit_count n - 1) \<le> n \<and> n < 2 ^ bit_count n \<and> 0 < bit_count n"
proof (induction n rule: bit_count.induct)
  case (1 n)
  show ?case
  proof (cases "n div 2 = 0")
    case True
    then have "n = 1" using "1.prems" by (simp add: div_eq_0_iff)
    then show ?thesis by (simp add: bit_count.simps)
  next
    case False
    with "1.IH" "1.prems" have IH: "2 ^ (bit_count (n div 2) - 1) \<le> n div 2" "n div 2 < 2 ^ bit_count (n div 2)" "0 < bit_count (n div 2)"
      by auto
    have "bit_count n = Suc (bit_count (n div 2))" using "1.prems" by (subst bit_count.simps) simp
    moreover have "2 ^ bit_count (n div 2) \<le> n"
    proof -
      have "(2::nat) ^ bit_count (n div 2) = 2 * 2 ^ (bit_count (n div 2) - 1)" using IH(3) by (metis power_eq_if not_gr_zero)
      then show ?thesis using IH(1) by linarith
    qed
    moreover have "n < 2 * 2 ^ bit_count (n div 2)" using IH(2) by linarith
    ultimately show ?thesis by simp
  qed
qed


lemma below_power_real: "0 < d \<Longrightarrow> below_power n d k \<longleftrightarrow> real n / real d < 2 powi k"
proof (cases "0 \<le> k")
  case True
  assume "0 < d"
  have "below_power n d k \<longleftrightarrow> real n < real (d * 2 ^ nat k)" using True by (simp only: below_power_def of_nat_less_iff if_True)
  also have "\<dots> \<longleftrightarrow> real n / real d < 2 powi k" using True \<open>0 < d\<close> by (simp add: power_int_def field_simps)
  finally show ?thesis .
next
  case False
  assume "0 < d"
  have "below_power n d k \<longleftrightarrow> real (n * 2 ^ nat (- k)) < real d" using False by (simp only: below_power_def of_nat_less_iff if_False)
  also have "\<dots> \<longleftrightarrow> real n / real d < 2 powi k" using False \<open>0 < d\<close> by (simp add: power_int_def field_simps)
  finally show ?thesis .
qed

lemma exponent_of_bounds:
  assumes "0 < n" "0 < d"
  shows "2 powi exponent_of n d \<le> real n / real d" "real n / real d < 2 powi (exponent_of n d + 1)"
proof -
  define a b where "a = bit_count n" and "b = bit_count d"
  have A: "2 ^ (a - 1) \<le> n" "n < 2 ^ a" "0 < a" using bit_count_bounds [OF assms(1)] by (auto simp: a_def)
  have B: "2 ^ (b - 1) \<le> d" "d < 2 ^ b" "0 < b" using bit_count_bounds [OF assms(2)] by (auto simp: b_def)
  have a: "2 powi (int a - 1) \<le> real n" "real n < 2 powi int a"
    using A by (simp_all add: power_int_def nat_diff_distrib flip: of_nat_power)
  have b: "2 powi (int b - 1) \<le> real d" "real d < 2 powi int b"
    using B by (simp_all add: power_int_def nat_diff_distrib flip: of_nat_power)
  have lo: "2 powi (int a - int b - 1) \<le> real n / real d"
  proof -
    have "2 powi (int a - int b - 1) * real d \<le> 2 powi (int a - int b - 1) * 2 powi int b"
      using b(2) by (intro mult_left_mono) auto
    also have "\<dots> = 2 powi (int a - 1)" by (subst power_int_add [symmetric]) (simp_all add: algebra_simps)
    also have "\<dots> \<le> real n" by (rule a)
    finally show ?thesis using assms by (simp add: field_simps)
  qed
  have hi: "real n / real d < 2 powi (int a - int b + 1)"
  proof -
    have "real n < 2 powi int a" by (rule a)
    also have "\<dots> = 2 powi (int a - int b + 1) * 2 powi (int b - 1)" by (subst power_int_add [symmetric]) (simp_all add: algebra_simps)
    also have "\<dots> \<le> 2 powi (int a - int b + 1) * real d" using b(1) by (intro mult_left_mono) auto
    finally show ?thesis using assms by (simp add: field_simps)
  qed
  show "2 powi exponent_of n d \<le> real n / real d"
    using lo by (auto simp: exponent_of_def Let_def below_power_real assms a_def b_def algebra_simps)
  show "real n / real d < 2 powi (exponent_of n d + 1)"
    using hi by (auto simp: exponent_of_def Let_def below_power_real assms a_def b_def algebra_simps)
qed

lemma fl_error:
  assumes "0 < d"
  shows "\<bar>the_real (fl n d) - real n / real d\<bar> \<le> real n / real d / 2 ^ 53"
proof (cases "n = 0")
  case False
  define s where "s = 52 - exponent_of n d"
  define m where "m = (if 0 \<le> s then round_even (n * 2 ^ nat s) d else round_even n (d * 2 ^ nat (- s)))"
  have m: "\<bar>real m - real n / real d * 2 powi s\<bar> \<le> 1 / 2"
    using round_even_error [OF assms, of "n * 2 ^ nat s"] round_even_error [of "d * 2 ^ nat (- s)" n] assms
    by (auto simp: m_def power_int_def field_simps split: if_splits)
  have f: "the_real (fl n d) = real m * 2 powi (- s)"
    using False by (auto simp: fl_def Let_def the_real_def m_def power_int_def power_one_over divide_simps simp flip: s_def)
  have "the_real (fl n d) - real n / real d = (real m - real n / real d * 2 powi s) * 2 powi (- s)"
    by (simp add: f left_diff_distrib power_int_minus)
  then have "\<bar>the_real (fl n d) - real n / real d\<bar> = \<bar>real m - real n / real d * 2 powi s\<bar> * 2 powi (- s)"
    by (simp add: abs_mult)
  also have "\<dots> \<le> 1 / 2 * 2 powi (- s)" using m by (intro mult_right_mono) auto
  also have "\<dots> = 2 powi exponent_of n d / 2 ^ 53"
    by (simp add: s_def power_int_diff)
  also have "\<dots> \<le> real n / real d / 2 ^ 53"
    using exponent_of_bounds [of n d] False assms by (intro divide_right_mono) auto
  finally show ?thesis .
qed (simp add: fl_def the_real_def)

lemma fl_den [simp]: "0 < snd (fl n d)"
  by (simp add: fl_def Let_def)

text \<open>Evaluation on numerals.\<close>

lemma bit_count_numeral: "bit_count (numeral k) = Suc (bit_count (numeral k div 2))"
  by (subst bit_count.simps) simp

lemma bit_count_small: "bit_count 0 = 0" "bit_count (Suc 0) = Suc 0" "bit_count 1 = Suc 0"
  by (simp_all add: bit_count.simps)

lemmas float_eval = fl_def float64_def fdiv_def fmul_def fadd_def trunc_def tenths_def exponent_of_def
  below_power_def round_even_def bit_count_numeral bit_count_small Let_def

end
