(* ===== verification/DashText.thy ===== *)
theory DashText
  imports GoFloat GoText Types
begin

text \<open>
  \<open>internal/dashboard/format.go\<close> and \<open>formatting.go\<close>: times, durations, states and counts as the
  pages of the dashboard say them. Durations become words through \<open>float64\<close> seconds, minutes and
  hours, as in the code.
\<close>

section \<open>Floating-point durations\<close>

text \<open>\<open>d.Seconds()\<close>, \<open>d.Minutes()\<close> and \<open>d.Hours()\<close>: whole units plus the fraction, of a duration that
  is not negative.\<close>

definition in_units :: "duration \<Rightarrow> duration \<Rightarrow> double" where
  "in_units unit d = fadd (float64 (nat (d div unit))) (fdiv (float64 (nat (d mod unit))) (float64 (nat unit)))"

definition dur_seconds :: "duration \<Rightarrow> double" where "dur_seconds d = in_units second d"
definition dur_minutes :: "duration \<Rightarrow> double" where "dur_minutes d = in_units minute d"
definition dur_hours :: "duration \<Rightarrow> double" where "dur_hours d = in_units hour d"

definition int_of_float :: "double \<Rightarrow> int" where "int_of_float x = int (trunc x)"

section \<open>Times\<close>

definition FormatAge :: "time \<Rightarrow> time \<Rightarrow> string" where
  "FormatAge t now =
     (let d = time_sub now t in
      if d < 0 then ''0s''
      else if d < minute then itoa (int_of_float (dur_seconds d)) @ ''s''
      else if d < hour then itoa (int_of_float (dur_minutes d)) @ ''m''
      else if d < 24 * hour then itoa (int_of_float (dur_hours d)) @ ''h''
      else if d < 365 * 24 * hour then itoa (int_of_float (fdiv (dur_hours d) (float64 24))) @ ''d''
      else itoa (int_of_float (fdiv (fdiv (dur_hours d) (float64 24)) (float64 365))) @ ''y'')"

definition FormatAgeOf :: "time option \<Rightarrow> time \<Rightarrow> string" where
  "FormatAgeOf t now = (case t of None \<Rightarrow> '''' | Some t \<Rightarrow> if t = 0 then '''' else FormatAge t now)"

definition clock_of :: "time \<Rightarrow> string" where
  "clock_of t =
     (let s = (t div second) mod 86400
      in pad2 (s div 3600) @ '':'' @ pad2 (s div 60 mod 60) @ '':'' @ pad2 (s mod 60))"

definition FormatTimestamp :: "time \<Rightarrow> string" where
  "FormatTimestamp t =
     (let (y, m, d) = civil_of_days (t div second div 86400)
      in pad_digits 4 (nat y) @ ''-'' @ pad2 m @ ''-'' @ pad2 d @ '' '' @ clock_of t @ '' UTC'')"

definition FormatTimestampOf :: "time option \<Rightarrow> string" where
  "FormatTimestampOf t = (case t of None \<Rightarrow> '''' | Some t \<Rightarrow> if t = 0 then '''' else FormatTimestamp t)"

definition FormatClock :: "time \<Rightarrow> string" where
  "FormatClock t = clock_of t @ '' UTC''"

definition FormatDuration :: "duration \<Rightarrow> string" where
  "FormatDuration d =
     (if d < 0 then ''''
      else if d < second then itoa (go_div d millisecond) @ ''ms''
      else if d < minute then
        (let t = tenths (dur_seconds d) in nat_str (t div 10) @ ''.'' @ nat_str (t mod 10) @ ''s'')
      else if d < hour then
        itoa (int_of_float (dur_minutes d)) @ ''m '' @ itoa (int_of_float (dur_seconds d) mod 60) @ ''s''
      else itoa (int_of_float (dur_hours d)) @ ''h '' @ itoa (int_of_float (dur_minutes d) mod 60) @ ''m'')"

definition FormatSpan :: "time option \<Rightarrow> time option \<Rightarrow> string" where
  "FormatSpan from to =
     (case (from, to) of
        (Some f, Some t) \<Rightarrow>
          if f = 0 \<or> t = 0 then ''''
          else (let span = time_sub t f in if span \<le> 0 then '''' else FormatDuration span)
      | _ \<Rightarrow> '''')"

definition FormatCountdown :: "duration \<Rightarrow> string" where
  "FormatCountdown d =
     (if d \<le> 0 then ''''
      else if d < minute then itoa (int_of_float (dur_seconds d)) @ ''s''
      else if d < hour then
        itoa (int_of_float (dur_minutes d)) @ ''m '' @ pad2 (int_of_float (dur_seconds d) mod 60) @ ''s''
      else itoa (int_of_float (dur_hours d)) @ ''h '' @ itoa (int_of_float (dur_minutes d) mod 60) @ ''m'')"

section \<open>Counts\<close>

definition plural_form :: "string \<Rightarrow> string \<times> string" where
  "plural_form name =
     (let (singular, pluralForm, irregular) = str_cut (CHR ''-'') name
      in (singular, if irregular then pluralForm else singular @ ''s''))"

definition unit_word :: "int \<Rightarrow> string \<Rightarrow> string" where
  "unit_word n name = (let (singular, pluralForm) = plural_form name in if n = 1 then singular else pluralForm)"

definition plural_of :: "int \<Rightarrow> string \<Rightarrow> string" where
  "plural_of n name =
     (let (singular, pluralForm) = plural_form name
      in if n = 1 then ''1 '' @ singular else itoa n @ '' '' @ pluralForm)"

definition FormatPeriod :: "duration \<Rightarrow> string" where
  "FormatPeriod d =
     (if d < minute then ''less than a minute''
      else if d < hour then plural_of (int_of_float (dur_minutes d)) ''minute''
      else if d < 24 * hour then plural_of (int_of_float (dur_hours d)) ''hour''
      else plural_of (int_of_float (fdiv (dur_hours d) (float64 24))) ''day'')"

definition percent :: "int \<Rightarrow> int \<Rightarrow> int" where
  "percent part whole =
     (if whole = 0 then 0
      else int_of_float (fadd (fmul (fdiv (float64 (nat part)) (float64 (nat whole))) (float64 100)) (1, 2)))"

definition successRate :: "int \<Rightarrow> int \<Rightarrow> string" where
  "successRate succeeded failed =
     (let whole = succeeded + failed
      in if whole = 0 then ''nothing executed yet''
         else itoa (percent succeeded whole) @ ''% of executed runs'')"

definition failedDetail :: "int \<Rightarrow> int \<Rightarrow> string" where
  "failedDetail succeeded failed =
     (if failed = 0 then ''none''
      else itoa (percent failed (succeeded + failed)) @ ''% of executed runs'')"

definition shortDuration :: "duration \<Rightarrow> string" where
  "shortDuration d =
     (if d = 0 then ''0''
      else if go_mod d hour = 0 then itoa (go_div d hour) @ ''h''
      else if go_mod d minute = 0 then itoa (go_div d minute) @ ''m''
      else if go_mod d second = 0 then itoa (go_div d second) @ ''s''
      else dur_str d)"

text \<open>An em dash and a middle dot, in UTF-8.\<close>

definition em_dash :: string where "em_dash = map char_of [226::nat, 128, 148]"
definition middle_dot :: string where "middle_dot = map char_of [194::nat, 183]"

section \<open>States\<close>

definition toneOK :: string where "toneOK = ''ok''"
definition toneFailed :: string where "toneFailed = ''failed''"
definition toneDryRun :: string where "toneDryRun = ''dryrun''"
definition toneRunning :: string where "toneRunning = ''running''"
definition toneWaiting :: string where "toneWaiting = ''waiting''"
definition toneWarn :: string where "toneWarn = ''warn''"
definition toneMuted :: string where "toneMuted = ''muted''"

lemmas tone_defs = toneOK_def toneFailed_def toneDryRun_def toneRunning_def toneWaiting_def
  toneWarn_def toneMuted_def

definition displayState :: "remediation_state \<Rightarrow> string" where
  "displayState state =
     (if state_string state = '''' then state_string RemediationStatePending else state_string state)"

fun stateTone :: "remediation_state \<Rightarrow> string" where
  "stateTone RemediationStateSucceeded = toneOK"
| "stateTone RemediationStateFailed = toneFailed"
| "stateTone RemediationStateSimulated = toneDryRun"
| "stateTone RemediationStateRunning = toneRunning"
| "stateTone RemediationStatePending = toneWaiting"
| "stateTone RemediationStateAwaitingApproval = toneWarn"
| "stateTone (RemediationStateOther s) = toneWaiting"

fun phaseTone :: "step_phase \<Rightarrow> string" where
  "phaseTone StepPhaseSucceeded = toneOK"
| "phaseTone StepPhaseFailed = toneFailed"
| "phaseTone StepPhaseSimulated = toneDryRun"
| "phaseTone StepPhaseRunning = toneRunning"
| "phaseTone StepPhaseSkipped = toneMuted"
| "phaseTone StepPhasePending = toneWaiting"
| "phaseTone (StepPhaseOther s) = toneWaiting"

fun notReadyMessage :: "condition list \<Rightarrow> string" where
  "notReadyMessage [] = ''''"
| "notReadyMessage (c # cs) =
     (if CondType c \<noteq> ''Ready'' \<or> CondStatus c then notReadyMessage cs
      else if CondMessage c \<noteq> '''' then CondMessage c else CondReason c)"

fun first_plan :: "step_status list \<Rightarrow> string" where
  "first_plan [] = ''''"
| "first_plan (st # sts) = (if Plan st \<noteq> '''' then Plan st else first_plan sts)"

definition firstPlan :: "remediation \<Rightarrow> string" where
  "firstPlan rem = first_plan (StatusSteps (Status rem))"

section \<open>Percentages are close\<close>

lemma fl_close: "0 < d \<Longrightarrow> \<bar>the_real (fl n d) - real n / real d\<bar> \<le> real n / real d / 10 ^ 15"
proof -
  assume d: "0 < d"
  have "real n / real d / 2 ^ 53 \<le> real n / real d / 10 ^ 15" by (intro divide_left_mono) auto
  with fl_error [OF d, of n] show ?thesis by linarith
qed

lemma the_real_nonneg [simp]: "0 \<le> the_real x"
  by (simp add: the_real_def)

lemma float64_small: "0 < snd (float64 n)" by (simp add: float64_def)

lemma trunc_bounds: "0 < snd x \<Longrightarrow> real (trunc x) \<le> the_real x \<and> the_real x < real (trunc x) + 1"
proof -
  assume x: "0 < snd x"
  have "fst x = trunc x * snd x + fst x mod snd x" by (simp add: trunc_def)
  then have f: "real (fst x) = real (trunc x) * real (snd x) + real (fst x mod snd x)" by (metis of_nat_add of_nat_mult)
  have "real (fst x mod snd x) < real (snd x)" using x by simp
  then show ?thesis using x f by (simp add: the_real_def field_simps)
qed

lemma the_real_fdiv: "0 < snd x \<Longrightarrow> 0 < fst y \<Longrightarrow>
    \<bar>the_real (fdiv x y) - the_real x / the_real y\<bar> \<le> the_real x / the_real y / 10 ^ 15"
  using fl_close [of "snd x * fst y" "fst x * snd y"] by (simp add: fdiv_def the_real_def field_simps)

lemma the_real_fmul: "0 < snd x \<Longrightarrow> 0 < snd y \<Longrightarrow>
    \<bar>the_real (fmul x y) - the_real x * the_real y\<bar> \<le> the_real x * the_real y / 10 ^ 15"
  using fl_close [of "snd x * snd y" "fst x * fst y"] by (simp add: fmul_def the_real_def field_simps)

lemma the_real_fadd: "0 < snd x \<Longrightarrow> 0 < snd y \<Longrightarrow>
    \<bar>the_real (fadd x y) - (the_real x + the_real y)\<bar> \<le> (the_real x + the_real y) / 10 ^ 15"
proof -
  assume p: "0 < snd x" "0 < snd y"
  have "real (fst x * snd y + fst y * snd x) / real (snd x * snd y) = the_real x + the_real y"
    using p by (simp add: the_real_def field_simps)
  moreover have "0 < snd x * snd y" using p by simp
  ultimately show ?thesis
    using fl_close [of "snd x * snd y" "fst x * snd y + fst y * snd x"] by (simp only: fadd_def)
qed

text \<open>\<open>y\<close> is \<open>x\<close> up to a relative error of \<open>c\<close>.\<close>

definition near :: "real \<Rightarrow> real \<Rightarrow> real \<Rightarrow> bool" where
  "near c x y \<longleftrightarrow> (1 - c) * x \<le> y \<and> y \<le> (1 + c) * x"

lemma nearI: "\<bar>y - x\<bar> \<le> x / 10 ^ 15 \<Longrightarrow> near (1 / 10 ^ 15) x y"
  by (cases "x \<le> y") (simp_all add: near_def abs_if field_simps)

lemma near_trans:
  assumes "near c x y" "near d y z" "0 \<le> x" "0 \<le> y" "0 \<le> c" "0 \<le> d" "d \<le> 1"
    and "(1 + c) * (1 + d) \<le> 1 + e" and "1 - e \<le> (1 - c) * (1 - d)"
  shows "near e x z"
proof -
  have "z \<le> (1 + d) * y" using assms(2) by (simp add: near_def)
  also have "\<dots> \<le> (1 + d) * ((1 + c) * x)" using assms by (intro mult_left_mono) (auto simp: near_def)
  also have "\<dots> = ((1 + c) * (1 + d)) * x" by simp
  also have "\<dots> \<le> (1 + e) * x" using assms by (intro mult_right_mono) auto
  finally have 1: "z \<le> (1 + e) * x" .
  have "(1 - e) * x \<le> ((1 - c) * (1 - d)) * x" using assms by (intro mult_right_mono) auto
  also have "\<dots> = (1 - d) * ((1 - c) * x)" by simp
  also have "\<dots> \<le> (1 - d) * y" using assms by (intro mult_left_mono) (auto simp: near_def)
  also have "\<dots> \<le> z" using assms(2) by (simp add: near_def)
  finally show ?thesis using 1 by (simp add: near_def)
qed

lemma near_scale: "near c x y \<Longrightarrow> 0 \<le> k \<Longrightarrow> near c (x * k) (y * k)"
  by (auto simp: near_def mult.assoc [symmetric] intro!: mult_right_mono)

lemma near_under:
  assumes "near c x y" "0 < x" "0 \<le> k" "0 \<le> c" "c < 1" and "1 \<le> (1 + e) * (1 - c)" "(1 - e) * (1 + c) \<le> 1"
  shows "near e (k / x) (k / y)"
proof -
  have y: "0 < (1 - c) * x" "(1 - c) * x \<le> y" "y \<le> (1 + c) * x" using assms by (auto simp: near_def)
  then have yp: "0 < y" by linarith
  have "k / y \<le> k / ((1 - c) * x)" using y yp assms by (intro divide_left_mono mult_pos_pos) auto
  also have "\<dots> = 1 / (1 - c) * (k / x)" by simp
  also have "\<dots> \<le> (1 + e) * (k / x)"
    using assms by (intro mult_right_mono) (simp_all add: divide_le_eq)
  finally have 1: "k / y \<le> (1 + e) * (k / x)" .
  have "(1 - e) * (k / x) \<le> 1 / (1 + c) * (k / x)"
    using assms by (intro mult_right_mono) (simp_all add: le_divide_eq)
  also have "\<dots> = k / ((1 + c) * x)" by simp
  also have "\<dots> \<le> k / y" using y yp assms by (intro divide_left_mono mult_pos_pos) auto
  finally show ?thesis using 1 by (simp add: near_def)
qed

lemma near_pos: "near c x y \<Longrightarrow> 0 < x \<Longrightarrow> c < 1 \<Longrightarrow> 0 < y"
proof -
  assume *: "near c x y" "0 < x" "c < 1"
  then have "0 < (1 - c) * x" by simp
  with *(1) show "0 < y" by (simp add: near_def)
qed

lemma the_real_pos_iff: "0 < snd x \<Longrightarrow> 0 < the_real x \<longleftrightarrow> 0 < fst x"
  by (cases "fst x = 0") (simp_all add: the_real_def)

lemma float_ops_den [simp]: "0 < snd (float64 n)" "0 < snd (fmul x y)" if "0 < snd x" "0 < snd y" for n x y
  using that by (simp_all add: float64_def fmul_def)

lemma near_float64: "near (1 / 10 ^ 15) (real n) (the_real (float64 n))"
  using fl_close [of 1 n] by (intro nearI) (simp add: float64_def)

lemma near_fdiv: "0 < snd x \<Longrightarrow> 0 < fst y \<Longrightarrow> near (1 / 10 ^ 15) (the_real x / the_real y) (the_real (fdiv x y))"
  by (intro nearI the_real_fdiv)

lemma near_fmul: "0 < snd x \<Longrightarrow> 0 < snd y \<Longrightarrow> near (1 / 10 ^ 15) (the_real x * the_real y) (the_real (fmul x y))"
  by (intro nearI the_real_fmul)

lemma near_fadd: "0 < snd x \<Longrightarrow> 0 < snd y \<Longrightarrow> near (1 / 10 ^ 15) (the_real x + the_real y) (the_real (fadd x y))"
  by (intro nearI the_real_fadd)

lemma percent_float:
  fixes p t :: nat
  assumes "0 < t"
  shows "near (1 / 10 ^ 14) (real p / real t * 100) (the_real (fmul (fdiv (float64 p) (float64 t)) (float64 100)))"
proof -
  let ?a = "the_real (float64 p)" and ?b = "the_real (float64 t)"
  have b: "0 < ?b" using near_pos [OF near_float64, of t] assms by simp
  have B: "0 < fst (float64 t)" using b the_real_pos_iff [OF float64_small, of t] by simp
  have 1: "near (1 / 10 ^ 15) (real p / real t) (?a / real t)"
    using near_scale [OF near_float64 [of p], of "1 / real t"] by simp
  have 2: "near (2 / 10 ^ 15) (?a / real t) (?a / ?b)"
    by (rule near_under [OF near_float64]) (use assms in simp_all)
  have 3: "near (4 / 10 ^ 15) (real p / real t) (?a / ?b)"
    by (rule near_trans [OF 1 2]) (use b in simp_all)
  have 4: "near (6 / 10 ^ 15) (real p / real t) (the_real (fdiv (float64 p) (float64 t)))"
    by (rule near_trans [OF 3 near_fdiv]) (use b B float64_small in simp_all)
  have 5: "near (8 / 10 ^ 15) (real p / real t * 100) (the_real (fdiv (float64 p) (float64 t)) * the_real (float64 100))"
  proof (rule near_trans)
    show "near (6 / 10 ^ 15) (real p / real t * 100) (the_real (fdiv (float64 p) (float64 t)) * 100)"
      using near_scale [OF 4, of 100] by simp
    show "near (1 / 10 ^ 15) (the_real (fdiv (float64 p) (float64 t)) * 100) (the_real (fdiv (float64 p) (float64 t)) * the_real (float64 100))"
      using near_scale [OF near_float64 [of 100], of "the_real (fdiv (float64 p) (float64 t))"] by (simp add: mult.commute)
  qed simp_all
  have "0 < snd (fdiv (float64 p) (float64 t))" using B float64_small [of p] by (simp add: fdiv_def)
  then show ?thesis
    by (intro near_trans [OF 5 near_fmul]) (use float64_small in simp_all)
qed

lemma percent_exact:
  assumes "0 < whole" "0 \<le> part" "part \<le> whole"
  shows "0 \<le> percent part whole" "percent part whole \<le> 100"
    and "\<bar>real_of_int (percent part whole) - 100 * real_of_int part / real_of_int whole\<bar> \<le> 1 / 2 + 1 / 10 ^ 10"
proof -
  define q where "q = real (nat part) / real (nat whole) * 100"
  define m where "m = fmul (fdiv (float64 (nat part)) (float64 (nat whole))) (float64 100)"
  define s where "s = fadd m (1, 2)"
  have q: "0 \<le> q" "q \<le> 100" using assms by (auto simp: q_def field_simps)
  have qe: "q = 100 * real_of_int part / real_of_int whole" using assms by (simp add: q_def)
  have m: "near (1 / 10 ^ 14) q (the_real m)" using percent_float [of "nat whole" "nat part"] assms by (simp add: q_def m_def)
  have "0 < the_real (float64 (nat whole))" using near_pos [OF near_float64, of "nat whole"] assms by simp
  then have "0 < fst (float64 (nat whole))" using the_real_pos_iff [OF float64_small] by simp
  then have md: "0 < snd m" using float64_small by (simp add: m_def fdiv_def fmul_def)
  have "near (1 / 10 ^ 15) (the_real m + 1 / 2) (the_real s)"
    using near_fadd [OF md, of "(1, 2)"] by (simp add: s_def the_real_def)
  then have s: "\<bar>the_real s - (q + 1 / 2)\<bar> \<le> 1 / 10 ^ 10"
    using m q by (cases "q + 1 / 2 \<le> the_real s") (simp_all add: near_def abs_if)
  have sd: "0 < snd s" using md by (simp add: s_def fadd_def)
  have p: "percent part whole = int (trunc s)" using assms by (simp add: percent_def int_of_float_def s_def m_def)
  have t: "real (trunc s) \<le> the_real s" "the_real s < real (trunc s) + 1" using trunc_bounds [OF sd] by auto
  show "0 \<le> percent part whole" by (simp add: p)
  have "the_real s \<le> q + 1 / 2 + 1 / 10 ^ 10" using s by linarith
  moreover have "1 / 10 ^ 10 < (1::real) / 2" by simp
  ultimately have "real (trunc s) < 101" using t q by linarith
  then show "percent part whole \<le> 100" by (simp add: p)
  show "\<bar>real_of_int (percent part whole) - 100 * real_of_int part / real_of_int whole\<bar> \<le> 1 / 2 + 1 / 10 ^ 10"
  proof -
    have "\<bar>real (trunc s) - q\<bar> \<le> 1 / 2 + 1 / 10 ^ 10" using t s by linarith
    then show ?thesis by (simp only: p qe [symmetric] of_int_of_nat_eq)
  qed
qed

end
