(* ===== verification/DashFilter.thy ===== *)
theory DashFilter
  imports DashText
begin

text \<open>
  \<open>internal/dashboard/filter.go\<close>, \<open>sort.go\<close> and \<open>listPath\<close> of \<open>remediations.go\<close>: what a list is narrowed
  to and ordered by, both carried by the query string of a link, with what the code uses of
  \<open>net/url\<close>.
\<close>

section \<open>Query strings\<close>

type_synonym url_values = "(string \<times> string list) list"

definition unreserved :: "char \<Rightarrow> bool" where
  "unreserved c \<longleftrightarrow>
     (let n = (of_char c :: nat) in
      48 \<le> n \<and> n \<le> 57 \<or> 65 \<le> n \<and> n \<le> 90 \<or> 97 \<le> n \<and> n \<le> 122 \<or> n = 45 \<or> n = 95 \<or> n = 46 \<or> n = 126)"

definition upper_hex :: "nat \<Rightarrow> char" where
  "upper_hex d = (if d < 10 then char_of (48 + d) else char_of (55 + d))"

definition escape_char :: "char \<Rightarrow> string" where
  "escape_char c =
     (let n = (of_char c :: nat) in
      if unreserved c then [c]
      else if n = 32 then ''+''
      else [CHR ''%'', upper_hex (n div 16), upper_hex (n mod 16)])"

definition QueryEscape :: "string \<Rightarrow> string" where
  "QueryEscape s = concat (map escape_char s)"

definition unhex :: "char \<Rightarrow> nat option" where
  "unhex c =
     (let n = (of_char c :: nat) in
      if 48 \<le> n \<and> n \<le> 57 then Some (n - 48)
      else if 65 \<le> n \<and> n \<le> 70 then Some (n - 55)
      else if 97 \<le> n \<and> n \<le> 102 then Some (n - 87)
      else None)"

fun QueryUnescape :: "string \<Rightarrow> string option" where
  "QueryUnescape [] = Some []"
| "QueryUnescape (c # cs) =
     (if c = CHR ''%'' then
        (case cs of
           a # b # rest \<Rightarrow>
             (case (unhex a, unhex b) of
                (Some x, Some y) \<Rightarrow> map_option ((#) (char_of (16 * x + y))) (QueryUnescape rest)
              | _ \<Rightarrow> None)
         | _ \<Rightarrow> None)
      else map_option ((#) (if c = CHR ''+'' then CHR '' '' else c)) (QueryUnescape cs))"

definition values_get :: "url_values \<Rightarrow> string \<Rightarrow> string" where
  "values_get q k = (case map_of q k of Some (v # vs) \<Rightarrow> v | _ \<Rightarrow> '''')"

definition values_set :: "string \<Rightarrow> string \<Rightarrow> url_values \<Rightarrow> url_values" where
  "values_set k v q = map_put k [v] q"

definition values_add :: "string \<times> string \<Rightarrow> url_values \<Rightarrow> url_values" where
  "values_add kv q =
     map_put (fst kv) ((case map_of q (fst kv) of None \<Rightarrow> [] | Some vs \<Rightarrow> vs) @ [snd kv]) q"

definition values_encode :: "url_values \<Rightarrow> string" where
  "values_encode q =
     join ''&'' (concat (map (\<lambda>k. map (\<lambda>v. QueryEscape k @ ''='' @ QueryEscape v)
       (case map_of q k of None \<Rightarrow> [] | Some vs \<Rightarrow> vs)) (sort (map fst q))))"

text \<open>\<open>r.URL.Query()\<close>: a part with a semicolon or an escape that does not read is left out.\<close>

definition parse_part :: "string \<Rightarrow> (string \<times> string) option" where
  "parse_part p =
     (if CHR '';'' \<in> set p \<or> p = '''' then None
      else let (k, v, found) = str_cut (CHR ''='') p
        in case (QueryUnescape k, QueryUnescape v) of
             (Some k, Some v) \<Rightarrow> Some (k, v)
           | _ \<Rightarrow> None)"

definition ParseQuery :: "string \<Rightarrow> url_values" where
  "ParseQuery s = fold values_add (List.map_filter parse_part (split_on (CHR ''&'') s)) []"

section \<open>The filter\<close>

definition paramNamespace :: string where "paramNamespace = ''namespace''"
definition paramStrategy :: string where "paramStrategy = ''strategy''"
definition paramState :: string where "paramState = ''state''"
definition paramEscalation :: string where "paramEscalation = ''escalation''"
definition paramTarget :: string where "paramTarget = ''target''"
definition paramAlert :: string where "paramAlert = ''alert''"
definition paramSort :: string where "paramSort = ''sort''"
definition paramDir :: string where "paramDir = ''dir''"
definition paramPage :: string where "paramPage = ''page''"

lemmas param_defs = paramNamespace_def paramStrategy_def paramState_def paramEscalation_def
  paramTarget_def paramAlert_def paramSort_def paramDir_def paramPage_def

definition EscalationNone :: string where "EscalationNone = ''none''"
definition EscalationFailed :: string where "EscalationFailed = ''failed''"
definition EscalationSucceeded :: string where "EscalationSucceeded = ''succeeded''"

lemmas escalation_word_defs = EscalationNone_def EscalationFailed_def EscalationSucceeded_def

record list_filter =
  FNamespace :: string
  FStrategy :: string
  FState :: string
  FEscalation :: string
  FTarget :: string
  FAlert :: string

definition no_filter :: list_filter where
  "no_filter = \<lparr>FNamespace = '''', FStrategy = '''', FState = '''', FEscalation = '''', FTarget = '''', FAlert = ''''\<rparr>"

definition ParseFilter :: "url_values \<Rightarrow> list_filter" where
  "ParseFilter query =
     \<lparr>FNamespace = trim_space (values_get query paramNamespace),
      FStrategy = trim_space (values_get query paramStrategy),
      FState = trim_space (values_get query paramState),
      FEscalation = trim_space (values_get query paramEscalation),
      FTarget = trim_space (values_get query paramTarget),
      FAlert = trim_space (values_get query paramAlert)\<rparr>"

definition filter_active :: "list_filter \<Rightarrow> bool" where
  "filter_active f \<longleftrightarrow> FNamespace f \<noteq> '''' \<or> FStrategy f \<noteq> '''' \<or> FState f \<noteq> ''''
     \<or> FEscalation f \<noteq> '''' \<or> FTarget f \<noteq> '''' \<or> FAlert f \<noteq> ''''"

definition TargetNamespace :: "string \<Rightarrow> string" where
  "TargetNamespace target =
     (let (kind, rest, first) = str_cut (CHR ''/'') target in
      if \<not> first then ''''
      else let (ns, name, two) = str_cut (CHR ''/'') rest in
        if \<not> two then ''''
        else if CHR ''/'' \<in> set name then ''''
        else ns)"

definition escalationOutcome :: "remediation \<Rightarrow> string" where
  "escalationOutcome rem =
     (case Escalation (Status rem) of
        None \<Rightarrow> EscalationNone
      | Some e \<Rightarrow> if EscPhase e \<noteq> StepPhaseSucceeded then EscalationFailed else EscalationSucceeded)"

definition filter_matches :: "list_filter \<Rightarrow> remediation \<Rightarrow> bool" where
  "filter_matches f rem =
     (if FNamespace f \<noteq> '''' \<and> TargetNamespace (SpecTarget (Spec rem)) \<noteq> FNamespace f then False
      else if FStrategy f \<noteq> '''' \<and> StrategyName (Spec rem) \<noteq> FStrategy f then False
      else if FState f \<noteq> '''' \<and> displayState (State (Status rem)) \<noteq> FState f then False
      else if FEscalation f \<noteq> '''' \<and> escalationOutcome rem \<noteq> FEscalation f then False
      else if FTarget f \<noteq> '''' \<and> SpecTarget (Spec rem) \<noteq> FTarget f then False
      else if FAlert f \<noteq> '''' \<and> RefName (SpecAlert (Spec rem)) \<noteq> FAlert f then False
      else True)"

text \<open>The clauses, as the parameters that carry them. The code ranges over a map of them; what it
  builds is a map again.\<close>

definition filter_clauses :: "list_filter \<Rightarrow> (string \<times> string) list" where
  "filter_clauses f =
     [(paramNamespace, FNamespace f), (paramStrategy, FStrategy f), (paramState, FState f),
      (paramEscalation, FEscalation f), (paramTarget, FTarget f), (paramAlert, FAlert f)]"

definition filter_values :: "list_filter \<Rightarrow> url_values" where
  "filter_values f = fold (\<lambda>(k, v) q. if v \<noteq> '''' then values_set k v q else q) (filter_clauses f) []"

definition remediationsPath :: string where "remediationsPath = ''/remediations''"

definition filter_query :: "list_filter \<Rightarrow> string" where
  "filter_query f = (let q = filter_values f in if q = [] then '''' else ''?'' @ values_encode q)"

definition filter_path :: "list_filter \<Rightarrow> string" where
  "filter_path f = remediationsPath @ filter_query f"

section \<open>The order\<close>

definition SortAge :: string where "SortAge = ''age''"
definition SortName :: string where "SortName = ''name''"
definition SortStrategy :: string where "SortStrategy = ''strategy''"
definition SortTarget :: string where "SortTarget = ''target''"
definition SortAlert :: string where "SortAlert = ''alert''"
definition SortState :: string where "SortState = ''state''"
definition SortTook :: string where "SortTook = ''took''"

lemmas sort_key_defs = SortAge_def SortName_def SortStrategy_def SortTarget_def SortAlert_def
  SortState_def SortTook_def

record list_order =
  SortKey :: string
  SortDesc :: bool

definition default_order :: list_order where
  "default_order = \<lparr>SortKey = '''', SortDesc = False\<rparr>"

definition sortable :: "string set" where
  "sortable = {SortAge, SortName, SortStrategy, SortTarget, SortAlert, SortState, SortTook}"

definition descendsFirst :: "string \<Rightarrow> bool" where
  "descendsFirst key \<longleftrightarrow> key = SortAge \<or> key = SortTook"

definition ParseSort :: "url_values \<Rightarrow> list_order" where
  "ParseSort query =
     (let key = trim_space (values_get query paramSort) in
      if key \<notin> sortable then default_order
      else let s = \<lparr>SortKey = key, SortDesc = descendsFirst key\<rparr>;
               dir = trim_space (values_get query paramDir)
        in if dir = ''asc'' then s\<lparr>SortDesc := False\<rparr>
           else if dir = ''desc'' then s\<lparr>SortDesc := True\<rparr>
           else s)"

definition order_query :: "list_order \<Rightarrow> url_values" where
  "order_query s =
     (if SortKey s = '''' then []
      else values_set paramDir (if SortDesc s then ''desc'' else ''asc'') (values_set paramSort (SortKey s) []))"

definition order_active :: "list_order \<Rightarrow> bool" where
  "order_active s \<longleftrightarrow> SortKey s \<noteq> ''''"

definition GroupsAdjacent :: "list_order \<Rightarrow> bool" where
  "GroupsAdjacent s \<longleftrightarrow> SortKey s = '''' \<or> SortKey s = SortAge"

definition took :: "remediation \<Rightarrow> duration" where
  "took rem =
     (case (StartedAt (Status rem), CompletedAt (Status rem)) of
        (Some from, Some to) \<Rightarrow>
          if from = 0 \<or> to = 0 then 0
          else (let span = time_sub to from in if 0 < span then span else 0)
      | _ \<Rightarrow> 0)"

abbreviation created :: "remediation \<Rightarrow> time" where
  "created rem \<equiv> CreationTimestamp (Meta rem)"

definition newer_first :: "remediation \<Rightarrow> remediation \<Rightarrow> bool" where
  "newer_first a b = (if created a = created b then rem_name a < rem_name b else created b < created a)"

definition sortNewestFirst :: "remediation list \<Rightarrow> remediation list" where
  "sortNewestFirst rs = sort_slice newer_first rs"

text \<open>What a column compares: whether \<open>a\<close> comes before \<open>b\<close>, and whether they tie.\<close>

definition column_compare :: "string \<Rightarrow> remediation \<Rightarrow> remediation \<Rightarrow> bool \<times> bool" where
  "column_compare key a b =
     (if key = SortName then (rem_name a < rem_name b, rem_name a = rem_name b)
      else if key = SortStrategy then
        (StrategyName (Spec a) < StrategyName (Spec b), StrategyName (Spec a) = StrategyName (Spec b))
      else if key = SortTarget then
        (SpecTarget (Spec a) < SpecTarget (Spec b), SpecTarget (Spec a) = SpecTarget (Spec b))
      else if key = SortAlert then
        (RefName (SpecAlert (Spec a)) < RefName (SpecAlert (Spec b)),
         RefName (SpecAlert (Spec a)) = RefName (SpecAlert (Spec b)))
      else if key = SortState then
        (displayState (State (Status a)) < displayState (State (Status b)),
         displayState (State (Status a)) = displayState (State (Status b)))
      else if key = SortTook then (took a < took b, took a = took b)
      else (created a < created b, created a = created b))"

definition sort_less :: "list_order \<Rightarrow> remediation \<Rightarrow> remediation \<Rightarrow> bool" where
  "sort_less s a b =
     (let (ordered, tie) = column_compare (SortKey s) a b in
      if tie then
        (if created a \<noteq> created b then created b < created a else rem_name a < rem_name b)
      else if SortDesc s then \<not> ordered
      else ordered)"

definition Apply :: "list_order \<Rightarrow> remediation list \<Rightarrow> remediation list" where
  "Apply s rs = (if SortKey s = '''' then sortNewestFirst rs else sort_slice (sort_less s) rs)"

definition withDirection :: "string \<Rightarrow> bool \<Rightarrow> string" where
  "withDirection what desc = (if desc then what @ '', Z to A'' else what @ '', A to Z'')"

definition Describe :: "list_order \<Rightarrow> string" where
  "Describe s =
     (let key = SortKey s in
      if key = '''' then ''newest first''
      else if key = SortAge then (if SortDesc s then ''newest first'' else ''oldest first'')
      else if key = SortTook then (if SortDesc s then ''slowest first'' else ''quickest first'')
      else if key = SortName then withDirection ''by name'' (SortDesc s)
      else if key = SortStrategy then withDirection ''by strategy'' (SortDesc s)
      else if key = SortTarget then withDirection ''by target'' (SortDesc s)
      else if key = SortAlert then withDirection ''by alert'' (SortDesc s)
      else if key = SortState then withDirection ''by state'' (SortDesc s)
      else ''newest first'')"

section \<open>Links\<close>

definition list_values :: "list_filter \<Rightarrow> list_order \<Rightarrow> int \<Rightarrow> url_values" where
  "list_values f order page =
     (let q = fold (\<lambda>(k, vs) q. map_put k vs q) (order_query order) (filter_values f)
      in if 1 < page then values_set paramPage (itoa page) q else q)"

definition listPath :: "list_filter \<Rightarrow> list_order \<Rightarrow> int \<Rightarrow> string" where
  "listPath f order page =
     (let q = list_values f order page
      in if q = [] then remediationsPath else remediationsPath @ ''?'' @ values_encode q)"

definition ParsePage :: "url_values \<Rightarrow> int" where
  "ParsePage query =
     (case atoi (values_get query paramPage) of
        None \<Rightarrow> 1
      | Some page \<Rightarrow> if page < 1 then 1 else page)"

definition sortedPath :: "list_filter \<Rightarrow> list_order \<Rightarrow> string" where
  "sortedPath f order = listPath f order 1"

record column =
  ColLabel :: string
  ColKey :: string
  ColURL :: string
  ColSorted :: string
  ColNumeric :: bool

definition column_specs :: "(string \<times> string \<times> bool) list" where
  "column_specs =
     [(''Remediation'', SortName, False), (''Strategy'', SortStrategy, False), (''Target'', SortTarget, False),
      (''Alert'', SortAlert, False), (''State'', SortState, False), (''Took'', SortTook, True), (''Age'', SortAge, True)]"

definition Columns :: "list_filter \<Rightarrow> list_order \<Rightarrow> column list" where
  "Columns f current =
     map (\<lambda>(label, key, numeric).
       let inForce = (SortKey current = key);
           next = \<lparr>SortKey = key, SortDesc = (if inForce then \<not> SortDesc current else descendsFirst key)\<rparr>
       in \<lparr>ColLabel = label, ColKey = key, ColURL = sortedPath f next,
           ColSorted = (if inForce then (if SortDesc current then ''descending'' else ''ascending'') else ''''),
           ColNumeric = numeric\<rparr>) column_specs"

section \<open>The controls\<close>

record filter_option =
  OptValue :: string
  OptURL :: string
  OptSelected :: bool
  OptCount :: int

record filter_group =
  GLabel :: string
  GParam :: string
  GAllURL :: string
  GAllSelected :: bool
  GOptions :: "filter_option list"
  GAsSelect :: bool
  GQuickPicks :: "filter_option list"
  GKeep :: list_filter

definition KeptParams :: "filter_group \<Rightarrow> (string \<times> string) list" where
  "KeptParams g = filter (\<lambda>(k, v). k \<noteq> GParam g \<and> v \<noteq> '''') (filter_clauses (GKeep g))"

record filter_options =
  ONamespaces :: "string list"
  OStrategies :: "string list"
  OStates :: "string list"
  OEscalations :: "string list"

text \<open>A set of strings is a Go map to \<open>true\<close>; \<open>sortedKeys\<close> lists it in order.\<close>

definition add_key :: "string \<Rightarrow> string list \<Rightarrow> string list" where
  "add_key k ks = (if k \<in> set ks then ks else ks @ [k])"

definition sortedKeys :: "string list \<Rightarrow> string list" where
  "sortedKeys ks = sort ks"

definition BuildFilterOptions :: "remediation list \<Rightarrow> filter_options" where
  "BuildFilterOptions rs =
     (let ns = fold (\<lambda>r ks. let n = TargetNamespace (SpecTarget (Spec r)) in if n \<noteq> '''' then add_key n ks else ks) rs [];
          ss = fold (\<lambda>r ks. let n = StrategyName (Spec r) in if n \<noteq> '''' then add_key n ks else ks) rs [];
          sts = fold (\<lambda>r ks. add_key (displayState (State (Status r))) ks) rs [];
          es = fold (\<lambda>r ks. if State (Status r) = RemediationStateFailed then add_key (escalationOutcome r) ks else ks) rs []
      in \<lparr>ONamespaces = sortedKeys ns, OStrategies = sortedKeys ss, OStates = sortedKeys sts,
          OEscalations = sortedKeys es\<rparr>)"

definition options_any :: "filter_options \<Rightarrow> bool" where
  "options_any opts \<longleftrightarrow> 1 < length (ONamespaces opts) \<or> 1 < length (OStrategies opts)
     \<or> 1 < length (OStates opts) \<or> 1 < length (OEscalations opts)"

definition pillLimit :: nat where "pillLimit = 8"
definition quickPickLimit :: nat where "quickPickLimit = 4"

definition tally_get :: "(string \<times> int) list \<Rightarrow> string \<Rightarrow> int" where
  "tally_get counts k = (case map_of counts k of None \<Rightarrow> 0 | Some n \<Rightarrow> n)"

definition tally_inc :: "string \<Rightarrow> (string \<times> int) list \<Rightarrow> (string \<times> int) list" where
  "tally_inc k counts = map_put k (tally_get counts k + 1) counts"

definition countByValue :: "remediation list \<Rightarrow> list_filter \<Rightarrow> (remediation \<Rightarrow> string) \<Rightarrow> (string \<times> int) list" where
  "countByValue rs rest key =
     fold (\<lambda>rem counts.
       if \<not> filter_matches rest rem then counts
       else if key rem \<noteq> '''' then tally_inc (key rem) counts
       else counts) rs []"

fun first_picks :: "nat \<Rightarrow> filter_option list \<Rightarrow> filter_option list" where
  "first_picks limit [] = []"
| "first_picks 0 (x # xs) = []"
| "first_picks (Suc n) (x # xs) = x # first_picks n xs"

definition busiest :: "filter_option list \<Rightarrow> nat \<Rightarrow> string \<Rightarrow> filter_option list" where
  "busiest options limit chosen =
     (let ranked = sort_slice (\<lambda>a b. OptCount b < OptCount a) options;
          picks = first_picks limit ranked;
          seen = map OptValue picks
      in if chosen \<noteq> '''' \<and> chosen \<notin> set seen then
           (case find (\<lambda>x. OptValue x = chosen) options of
              None \<Rightarrow> picks
            | Some x \<Rightarrow> picks @ [x])
         else picks)"

record dimension =
  DLabel :: string
  DParam :: string
  DValues :: "string list"
  DChosen :: string
  DRest :: list_filter
  DSet :: "list_filter \<Rightarrow> string \<Rightarrow> list_filter"
  DKey :: "remediation \<Rightarrow> string"
  DNarrow :: "(list_filter \<Rightarrow> list_filter) option"

definition dimensions :: "filter_options \<Rightarrow> list_filter \<Rightarrow> dimension list" where
  "dimensions opts active =
     [\<lparr>DLabel = ''Namespace'', DParam = paramNamespace, DValues = ONamespaces opts, DChosen = FNamespace active,
       DRest = active\<lparr>FNamespace := ''''\<rparr>, DSet = (\<lambda>f v. f\<lparr>FNamespace := v\<rparr>),
       DKey = (\<lambda>r. TargetNamespace (SpecTarget (Spec r))), DNarrow = None\<rparr>,
      \<lparr>DLabel = ''Strategy'', DParam = paramStrategy, DValues = OStrategies opts, DChosen = FStrategy active,
       DRest = active\<lparr>FStrategy := ''''\<rparr>, DSet = (\<lambda>f v. f\<lparr>FStrategy := v\<rparr>),
       DKey = (\<lambda>r. StrategyName (Spec r)), DNarrow = None\<rparr>,
      \<lparr>DLabel = ''State'', DParam = paramState, DValues = OStates opts, DChosen = FState active,
       DRest = active\<lparr>FState := ''''\<rparr>, DSet = (\<lambda>f v. f\<lparr>FState := v\<rparr>),
       DKey = (\<lambda>r. displayState (State (Status r))), DNarrow = None\<rparr>,
      \<lparr>DLabel = ''Escalation'', DParam = paramEscalation, DValues = OEscalations opts, DChosen = FEscalation active,
       DRest = active\<lparr>FEscalation := ''''\<rparr>, DSet = (\<lambda>f v. f\<lparr>FEscalation := v\<rparr>),
       DKey = escalationOutcome, DNarrow = Some (\<lambda>f. f\<lparr>FState := state_string RemediationStateFailed\<rparr>)\<rparr>]"

definition narrow :: "dimension \<Rightarrow> list_filter \<Rightarrow> list_filter" where
  "narrow d f = (case DNarrow d of None \<Rightarrow> f | Some g \<Rightarrow> g f)"

definition option_target :: "dimension \<Rightarrow> string \<Rightarrow> list_filter" where
  "option_target d v = (if v \<noteq> DChosen d then narrow d (DSet d (DRest d) v) else DRest d)"

definition dimension_options :: "dimension \<Rightarrow> list_order \<Rightarrow> remediation list \<Rightarrow> filter_option list" where
  "dimension_options d order rs =
     (let counts = countByValue rs (narrow d (DRest d)) (DKey d)
      in map (\<lambda>v. \<lparr>OptValue = v, OptURL = sortedPath (option_target d v) order,
                    OptSelected = (v = DChosen d), OptCount = tally_get counts v\<rparr>) (DValues d))"

definition dimension_group :: "dimension \<Rightarrow> list_order \<Rightarrow> remediation list \<Rightarrow> filter_group" where
  "dimension_group d order rs =
     (let options = dimension_options d order rs; many = pillLimit < length options
      in \<lparr>GLabel = DLabel d, GParam = DParam d, GAllURL = sortedPath (DRest d) order,
          GAllSelected = (DChosen d = ''''), GOptions = options, GAsSelect = many,
          GQuickPicks = (if many then busiest options quickPickLimit (DChosen d) else []),
          GKeep = DRest d\<rparr>)"

definition Groups :: "filter_options \<Rightarrow> list_filter \<Rightarrow> list_order \<Rightarrow> remediation list \<Rightarrow> filter_group list" where
  "Groups opts active order rs =
     map (\<lambda>d. dimension_group d order rs) (filter (\<lambda>d. 2 \<le> length (DValues d)) (dimensions opts active))"

section \<open>A query string reads back\<close>

lemma unhex_upper_hex [simp]: "d < 16 \<Longrightarrow> unhex (upper_hex d) = Some d"
  by (simp add: unhex_def upper_hex_def of_char_of)

lemma of_char_less: "(of_char (c :: char) :: nat) < 256"
  by (metis of_char_mod_256 mod_less_divisor zero_less_numeral)

lemma char_of_of_char_nat: "char_of (of_char (c :: char) :: nat) = c"
  by simp

lemma unescape_escape_char: "QueryUnescape (escape_char c @ t) = map_option ((#) c) (QueryUnescape t)"
proof (cases "unreserved c")
  case True
  then have "c \<noteq> CHR ''%''" "c \<noteq> CHR ''+''" by (auto simp: unreserved_def)
  with True show ?thesis by (simp add: escape_char_def Let_def)
next
  case False
  let ?n = "of_char c :: nat"
  show ?thesis
  proof (cases "?n = 32")
    case True
    then have "of_char c = (of_char (CHR '' '') :: nat)" by simp
    then have "c = CHR '' ''" by (simp only: of_char_eq_iff)
    with False show ?thesis by (simp add: escape_char_def)
  next
    case sp: False
    have "?n div 16 < 16" using of_char_less [of c] by (simp add: less_mult_imp_div_less)
    then have "QueryUnescape (escape_char c @ t) = map_option ((#) (char_of (16 * (?n div 16) + ?n mod 16))) (QueryUnescape t)"
      using False sp by (simp add: escape_char_def Let_def)
    also have "16 * (?n div 16) + ?n mod 16 = ?n" by simp
    finally show ?thesis by (simp only: char_of_of_char_nat)
  qed
qed

lemma unescape_escape: "QueryUnescape (QueryEscape s @ t) = map_option ((@) s) (QueryUnescape t)"
proof (induction s)
  case Nil
  show ?case by (simp add: QueryEscape_def map_option_idI)
next
  case (Cons c s)
  have "QueryUnescape (QueryEscape (c # s) @ t) = map_option ((#) c) (QueryUnescape (QueryEscape s @ t))"
    using unescape_escape_char [of c "QueryEscape s @ t"] by (simp add: QueryEscape_def)
  also have "\<dots> = map_option ((@) (c # s)) (QueryUnescape t)"
    by (cases "QueryUnescape t") (simp_all add: Cons.IH)
  finally show ?case .
qed

lemma unescape_escaped [simp]: "QueryUnescape (QueryEscape s) = Some s"
  using unescape_escape [of s "[]"] by simp

definition query_char :: "char \<Rightarrow> bool" where
  "query_char c \<longleftrightarrow> unreserved c \<or> c = CHR ''+'' \<or> c = CHR ''%''"

lemma unreserved_upper_hex: "d < 16 \<Longrightarrow> unreserved (upper_hex d)"
  by (auto simp: unreserved_def upper_hex_def of_char_of Let_def)

lemma escape_chars: "c \<in> set (QueryEscape s) \<Longrightarrow> query_char c"
proof -
  have "query_char x" if "x \<in> set (escape_char d)" for x d
    using that unreserved_upper_hex [of "of_char d div 16"] unreserved_upper_hex [of "of_char d mod 16"] of_char_less [of d]
    by (auto simp: escape_char_def query_char_def Let_def less_mult_imp_div_less split: if_splits)
  then show "c \<in> set (QueryEscape s) \<Longrightarrow> query_char c" by (auto simp: QueryEscape_def)
qed

lemma query_char_not [simp]: "\<not> query_char (CHR ''&'')" "\<not> query_char (CHR ''='')" "\<not> query_char (CHR '';'')"
  "\<not> query_char (CHR ''/'')" "\<not> query_char (CHR ''#'')" "\<not> query_char (CHR ''?'')" "\<not> query_char (CHR '':'')"
  by (simp_all add: query_char_def unreserved_def)

lemma escape_not_in [simp]: "CHR ''&'' \<notin> set (QueryEscape s)" "CHR ''='' \<notin> set (QueryEscape s)" "CHR '';'' \<notin> set (QueryEscape s)"
  using escape_chars by fastforce+

lemma str_cut_no_sep: "sep \<notin> set s \<Longrightarrow> str_cut sep (s @ sep # t) = (s, t, True)"
  by (induction s) auto

lemma parse_part_pair [simp]: "parse_part (QueryEscape k @ ''='' @ QueryEscape v) = Some (k, v)"
proof -
  have "str_cut (CHR ''='') (QueryEscape k @ CHR ''='' # QueryEscape v) = (QueryEscape k, QueryEscape v, True)"
    by (rule str_cut_no_sep) simp
  then show ?thesis by (simp add: parse_part_def)
qed

definition part_of :: "string \<times> string \<Rightarrow> string" where
  "part_of p = QueryEscape (fst p) @ ''='' @ QueryEscape (snd p)"

lemma parse_part_of [simp]: "parse_part (part_of p) = Some p"
  by (cases p) (simp add: part_of_def del: append.simps append_Cons)

lemma split_on_join:
  "\<forall>x \<in> set xs. sep \<notin> set x \<Longrightarrow> xs \<noteq> [] \<Longrightarrow> split_on sep (join [sep] xs) = xs"
proof (induction xs rule: induct_list012)
  case (3 x y zs)
  then show ?case by (simp add: split_on_append)
qed (simp_all add: split_on_no_sep)

text \<open>The values a link carries: one per parameter.\<close>

definition singles :: "(string \<times> string) list \<Rightarrow> url_values" where
  "singles ps = map (\<lambda>(k, v). (k, [v])) ps"

lemma map_fst_singles [simp]: "map fst (singles ps) = map fst ps"
  by (simp add: singles_def comp_def case_prod_beta)

lemma map_of_singles: "map_of (singles ps) k = map_option (\<lambda>v. [v]) (map_of ps k)"
  by (induction ps) (auto simp: singles_def)

lemma update_new: "k \<notin> fst ` set m \<Longrightarrow> AList.update k v m = m @ [(k, v)]"
  by (induction m) auto

lemma fold_values_add:
  "map_wf (m @ ps) \<Longrightarrow> fold values_add ps (singles m) = singles (m @ ps)"
proof (induction ps arbitrary: m)
  case (Cons p ps)
  obtain k v where p: "p = (k, v)" by (cases p)
  with Cons.prems have k: "k \<notin> fst ` set m" by auto
  then have "map_of m k = None" by (simp add: map_of_eq_None_iff)
  moreover have "fst ` set (singles m) = fst ` set m" by (metis list.set_map map_fst_singles)
  ultimately have "values_add p (singles m) = singles (m @ [p])"
    using k by (simp add: values_add_def p map_of_singles map_put_def update_new) (simp add: singles_def)
  with Cons.IH [of "m @ [p]"] Cons.prems show ?case by simp
qed simp

lemma values_encode_singles:
  assumes "map_wf ps"
  shows "values_encode (singles ps) = join ''&'' (map part_of (sort_key fst ps))"
proof -
  have s: "sort (map fst ps) = map fst (sort_key fst ps)"
    by (rule properties_for_sort) (simp_all add: sorted_sort_key)
  have "concat (map (\<lambda>k. map (\<lambda>v. QueryEscape k @ ''='' @ QueryEscape v)
       (case map_of (singles ps) k of None \<Rightarrow> [] | Some vs \<Rightarrow> vs)) (map fst qs)) = map part_of qs"
    if "set qs \<subseteq> set ps" for qs
    using that
  proof (induction qs)
    case (Cons q qs)
    have "map_of ps (fst q) = Some (snd q)" using Cons.prems assms by (simp add: map_of_is_SomeI)
    with Cons show ?case by (simp add: map_of_singles part_of_def)
  qed simp
  from this [of "sort_key fst ps"] show ?thesis by (simp add: values_encode_def s)
qed

lemma ParseQuery_encode:
  assumes "map_wf ps" and "ps \<noteq> []"
  shows "ParseQuery (values_encode (singles ps)) = singles (sort_key fst ps)"
proof -
  let ?qs = "sort_key fst ps"
  have wf: "map_wf ?qs" using assms(1) by (metis distinct_sort mset_eq_imp_distinct_iff mset_map mset_sort)
  have "split_on (CHR ''&'') (join ''&'' (map part_of ?qs)) = map part_of ?qs"
    using assms(2) by (intro split_on_join) (auto simp: part_of_def set_empty [symmetric] simp del: set_empty)
  moreover have "List.map_filter parse_part (map part_of qs) = qs" for qs
    by (induction qs) (simp_all add: List.map_filter_simps)
  ultimately show ?thesis
    using fold_values_add [of "[]" ?qs] wf
    by (simp add: ParseQuery_def values_encode_singles [OF assms(1)] singles_def [of "[]"])
qed

lemma values_get_singles:
  assumes "map_wf ps"
  shows "values_get (singles (sort_key fst ps)) k = map_get ps k"
proof -
  have "map_of (sort_key fst ps) = map_of ps"
    by (metis assms map_of_permutation mset_sort)
  then show ?thesis by (cases "map_of ps k") (simp_all add: values_get_def map_of_singles map_get_def)
qed

text \<open>What a link to the list carries, parameter by parameter.\<close>

definition list_pairs :: "list_filter \<Rightarrow> list_order \<Rightarrow> int \<Rightarrow> (string \<times> string) list" where
  "list_pairs f order page =
     filter (\<lambda>(k, v). v \<noteq> '''') (filter_clauses f)
     @ (if SortKey order = '''' then [] else [(paramSort, SortKey order), (paramDir, if SortDesc order then ''desc'' else ''asc'')])
     @ (if 1 < page then [(paramPage, itoa page)] else [])"

lemma map_wf_list_pairs [simp]: "map_wf (list_pairs f order page)"
  by (simp add: list_pairs_def filter_clauses_def param_defs)

lemma singles_snoc: "singles (m @ [(k, v)]) = singles m @ [(k, [v])]"
  by (simp add: singles_def)

lemma map_put_singles: "k \<notin> fst ` set m \<Longrightarrow> map_put k [v] (singles m) = singles (m @ [(k, v)])"
  by (metis list.set_map map_fst_singles map_put_def singles_snoc update_new)

lemma fold_clauses:
  "map_wf (m @ ps) \<Longrightarrow> fold (\<lambda>(k, v) q. if v \<noteq> '''' then values_set k v q else q) ps (singles m)
     = singles (m @ filter (\<lambda>(k, v). v \<noteq> '''') ps)"
proof (induction ps arbitrary: m)
  case (Cons p ps)
  obtain k v where p: "p = (k, v)" by (cases p)
  show ?case
  proof (cases "v = ''''")
    case True
    with p Cons.IH [of m] Cons.prems show ?thesis by simp
  next
    case False
    with p Cons.prems have "values_set k v (singles m) = singles (m @ [p])"
      by (simp add: values_set_def map_put_singles)
    with p False Cons.IH [of "m @ [p]"] Cons.prems show ?thesis by simp
  qed
qed simp

lemma filter_values_singles: "filter_values f = singles (filter (\<lambda>(k, v). v \<noteq> '''') (filter_clauses f))"
proof -
  have "map_wf (filter_clauses f)" by (simp add: filter_clauses_def param_defs)
  with fold_clauses [of "[]" "filter_clauses f"] show ?thesis
    by (simp add: filter_values_def singles_def [of "[]"])
qed

lemma list_values_singles: "list_values f order page = singles (list_pairs f order page)"
proof -
  let ?c = "filter (\<lambda>(k, v). v \<noteq> '''') (filter_clauses f)"
  have k: "paramSort \<notin> fst ` set ?c" "paramDir \<notin> fst ` set ?c" "paramPage \<notin> fst ` set ?c"
    by (auto simp: filter_clauses_def param_defs)
  have d: "paramSort \<noteq> paramDir" "paramSort \<noteq> paramPage" "paramDir \<noteq> paramPage" by (simp_all add: param_defs)
  show ?thesis
    using k d by (auto simp: list_values_def filter_values_singles order_query_def values_set_def map_put_singles
        list_pairs_def map_put_def [of paramSort "[_]" "[]"] map_put_def [of paramDir "[_]" "[_]"])
qed

lemma map_get_Cons: "map_get ((k, v) # m) k' = (if k' = k then v else map_get m k')"
  by (simp add: map_get_def)

lemma map_get_Nil: "map_get [] k = ''''"
  by (simp add: map_get_def)

lemma map_get_nonempty:
  "map_wf m \<Longrightarrow> map_get (filter (\<lambda>(k, v). v \<noteq> '''') m @ n) k = (if map_get m k \<noteq> '''' then map_get m k else map_get n k)"
proof (induction m)
  case (Cons p m)
  obtain a v where p: "p = (a, v)" by (cases p)
  have "a \<notin> fst ` set m" using Cons.prems p by simp
  then have "map_get m a = ''''" by (simp add: map_get_def map_of_eq_None_iff [THEN iffD2])
  with Cons p show ?case by (auto simp: map_get_Cons)
qed (simp add: map_get_Nil)

lemma map_get_list_pairs:
  "map_get (list_pairs f order page) paramNamespace = FNamespace f"
  "map_get (list_pairs f order page) paramStrategy = FStrategy f"
  "map_get (list_pairs f order page) paramState = FState f"
  "map_get (list_pairs f order page) paramEscalation = FEscalation f"
  "map_get (list_pairs f order page) paramTarget = FTarget f"
  "map_get (list_pairs f order page) paramAlert = FAlert f"
  "map_get (list_pairs f order page) paramSort = SortKey order"
  "map_get (list_pairs f order page) paramDir =
     (if SortKey order = '''' then '''' else if SortDesc order then ''desc'' else ''asc'')"
  "map_get (list_pairs f order page) paramPage = (if 1 < page then itoa page else '''')"
proof -
  have c: "map_wf (filter_clauses f)" by (simp add: filter_clauses_def param_defs)
  have k: "paramSort \<noteq> paramDir" "paramSort \<noteq> paramPage" "paramDir \<noteq> paramPage" by (simp_all add: param_defs)
  have "map_get (filter_clauses f) paramNamespace = FNamespace f" "map_get (filter_clauses f) paramStrategy = FStrategy f"
    "map_get (filter_clauses f) paramState = FState f" "map_get (filter_clauses f) paramEscalation = FEscalation f"
    "map_get (filter_clauses f) paramTarget = FTarget f" "map_get (filter_clauses f) paramAlert = FAlert f"
    "map_get (filter_clauses f) paramSort = ''''" "map_get (filter_clauses f) paramDir = ''''" "map_get (filter_clauses f) paramPage = ''''"
    by (simp_all add: filter_clauses_def map_get_Cons map_get_Nil) (simp_all add: param_defs)
  note this [simp]
  have "k \<notin> {paramSort, paramDir, paramPage} \<Longrightarrow> map_get ((if SortKey order = '''' then [] else [(paramSort, SortKey order), (paramDir, if SortDesc order then ''desc'' else ''asc'')])
     @ (if 1 < page then [(paramPage, itoa page)] else [])) k = ''''" for k
    by (simp add: map_get_Cons map_get_Nil)
  note r = this
  have n: "paramNamespace \<notin> {paramSort, paramDir, paramPage}" "paramStrategy \<notin> {paramSort, paramDir, paramPage}"
    "paramState \<notin> {paramSort, paramDir, paramPage}" "paramEscalation \<notin> {paramSort, paramDir, paramPage}"
    "paramTarget \<notin> {paramSort, paramDir, paramPage}" "paramAlert \<notin> {paramSort, paramDir, paramPage}"
    by (simp_all add: param_defs)
  show "map_get (list_pairs f order page) paramNamespace = FNamespace f"
    "map_get (list_pairs f order page) paramStrategy = FStrategy f"
    "map_get (list_pairs f order page) paramState = FState f"
    "map_get (list_pairs f order page) paramEscalation = FEscalation f"
    "map_get (list_pairs f order page) paramTarget = FTarget f"
    "map_get (list_pairs f order page) paramAlert = FAlert f"
    unfolding list_pairs_def by (simp_all only: map_get_nonempty [OF c]) (simp_all add: r [OF n(1)] r [OF n(2)] r [OF n(3)] r [OF n(4)] r [OF n(5)] r [OF n(6)])
  show "map_get (list_pairs f order page) paramSort = SortKey order"
    "map_get (list_pairs f order page) paramDir =
     (if SortKey order = '''' then '''' else if SortDesc order then ''desc'' else ''asc'')"
    "map_get (list_pairs f order page) paramPage = (if 1 < page then itoa page else '''')"
    unfolding list_pairs_def using k by (simp_all add: map_get_nonempty [OF c] map_get_Cons map_get_Nil)
qed

text \<open>A filter that the parser could have made, and an order.\<close>

definition trimmed :: "string \<Rightarrow> bool" where "trimmed s \<longleftrightarrow> trim_space s = s"

definition filter_wf :: "list_filter \<Rightarrow> bool" where
  "filter_wf f \<longleftrightarrow> list_all (\<lambda>p. trimmed (snd p)) (filter_clauses f)"

definition order_wf :: "list_order \<Rightarrow> bool" where
  "order_wf s \<longleftrightarrow> SortKey s \<in> sortable \<or> s = default_order"

text \<open>The query string of a URL: what follows the first question mark.\<close>

definition url_query :: "string \<Rightarrow> string" where
  "url_query url = (let (path, query, found) = str_cut (CHR ''?'') url in if found then query else '''')"

lemma remediationsPath_no_query: "CHR ''?'' \<notin> set remediationsPath"
  by (simp add: remediationsPath_def)

lemma str_cut_absent: "sep \<notin> set s \<Longrightarrow> str_cut sep s = (s, [], False)"
  by (induction s) auto

lemma url_query_append: "CHR ''?'' \<notin> set path \<Longrightarrow> url_query (path @ ''?'' @ q) = q"
  by (simp add: url_query_def str_cut_no_sep)

lemma url_query_none: "CHR ''?'' \<notin> set path \<Longrightarrow> url_query path = ''''"
  by (simp add: url_query_def str_cut_absent)

lemma ParseQuery_Nil: "ParseQuery '''' = []"
  by (simp add: ParseQuery_def List.map_filter_simps parse_part_def)

lemma singles_Nil [simp]: "singles [] = []" by (simp add: singles_def)

lemma singles_empty [simp]: "singles ps = [] \<longleftrightarrow> ps = []" by (simp add: singles_def)

lemma ParseQuery_listPath:
  "ParseQuery (url_query (listPath f order page)) = singles (sort_key fst (list_pairs f order page))"
proof (cases "list_pairs f order page = []")
  case True
  then show ?thesis
    using remediationsPath_no_query by (simp add: listPath_def list_values_singles url_query_none ParseQuery_Nil)
next
  case False
  then show ?thesis
    using remediationsPath_no_query
    by (simp add: listPath_def list_values_singles url_query_append ParseQuery_encode del: append.simps append_Cons)
qed

lemma values_get_listPath:
  "values_get (ParseQuery (url_query (listPath f order page))) k = map_get (list_pairs f order page) k"
  by (simp add: ParseQuery_listPath values_get_singles)

lemma ParseFilter_listPath:
  "filter_wf f \<Longrightarrow> ParseFilter (ParseQuery (url_query (listPath f order page))) = f"
  by (simp add: ParseFilter_def values_get_listPath map_get_list_pairs filter_wf_def filter_clauses_def trimmed_def)

lemma ParseSort_listPath:
  assumes "order_wf order"
  shows "ParseSort (ParseQuery (url_query (listPath f order page))) = order"
proof (cases "order = default_order")
  case True
  then show ?thesis
    by (simp add: ParseSort_def values_get_listPath map_get_list_pairs default_order_def sortable_def sort_key_defs trim_space_def)
next
  case False
  with assms have "SortKey order \<in> sortable" by (simp add: order_wf_def)
  then have "SortKey order \<in> sortable \<and> trim_space (SortKey order) = SortKey order \<and> SortKey order \<noteq> ''''"
    by (auto simp: sortable_def sort_key_defs trim_space_def is_space_def)
  moreover have "trim_space ''asc'' = ''asc''" "trim_space ''desc'' = ''desc''"
    by (simp_all add: trim_space_def is_space_def)
  ultimately show ?thesis
    by (simp add: ParseSort_def values_get_listPath map_get_list_pairs)
qed

lemma ParsePage_listPath:
  assumes "1 \<le> page" "in_int64 page"
  shows "ParsePage (ParseQuery (url_query (listPath f order page))) = page"
proof -
  have "atoi (itoa page) = Some page" using assms parse_int_itoa [of 64 page] by (simp add: atoi_def in_int64_def)
  moreover have "atoi '''' = None" by (simp add: atoi_def parse_int_def)
  ultimately show ?thesis using assms by (auto simp: ParsePage_def values_get_listPath map_get_list_pairs)
qed

lemma filter_path_listPath: "filter_path f = listPath f default_order 1"
  by (simp add: filter_path_def filter_query_def listPath_def list_values_def order_query_def default_order_def Let_def)

section \<open>What is kept\<close>

lemma TargetNamespace_split:
  "TargetNamespace t = (case split_on (CHR ''/'') t of [kind, ns, name] \<Rightarrow> ns | _ \<Rightarrow> '''')"
proof -
  have cut: "str_cut sep s = (if sep \<in> set s then (hd (split_on sep s), join [sep] (tl (split_on sep s)), True) else (s, [], False))" for sep s
  proof (induction s)
    case (Cons c s)
    obtain p ps where p: "split_on sep s = p # ps" by (cases "split_on sep s") auto
    show ?case
    proof (cases "c = sep")
      case True
      then show ?thesis using join_split_on [of sep s] by simp
    qed (use Cons p in auto)
  qed simp
  show ?thesis
  proof (cases "CHR ''/'' \<in> set t")
    case False
    then show ?thesis by (simp add: TargetNamespace_def cut split_on_no_sep)
  next
    case True
    obtain a as where a: "split_on (CHR ''/'') t = a # as" by (cases "split_on (CHR ''/'') t") auto
    have "as \<noteq> []"
    proof
      assume "as = []"
      then have "t = a" using join_split_on [of "CHR ''/''" t] a by simp
      moreover have "CHR ''/'' \<notin> set a" using split_on_parts [of a "CHR ''/''" t] a by simp
      ultimately show False using True by simp
    qed
    have parts: "\<forall>x \<in> set as. CHR ''/'' \<notin> set x" using split_on_parts [of _ "CHR ''/''" t] a by simp
    define rest where "rest = join ''/'' as"
    have r: "split_on (CHR ''/'') rest = as" unfolding rest_def using parts \<open>as \<noteq> []\<close> by (intro split_on_join) auto
    have T: "TargetNamespace t = (let (ns, name, two) = str_cut (CHR ''/'') rest in
        if \<not> two then '''' else if CHR ''/'' \<in> set name then '''' else ns)"
      using True a by (simp add: TargetNamespace_def cut [of _ t] rest_def)
    show ?thesis
    proof -
      consider x where "as = [x]" | x y zs where "as = x # y # zs" using \<open>as \<noteq> []\<close> by (metis list.exhaust)
      then show ?thesis
      proof cases
        case (1 x)
        then have "CHR ''/'' \<notin> set rest" using parts by (simp add: rest_def)
        then show ?thesis using 1 a T by (simp add: cut)
      next
        case (2 x y zs)
        have c: "str_cut (CHR ''/'') rest = (x, join ''/'' (y # zs), True)"
          using 2 parts str_cut_no_sep [of "CHR ''/''" x "join ''/'' (y # zs)"] by (simp add: rest_def)
        show ?thesis using 2 a T c parts by (cases zs) simp_all
      qed
    qed
  qed
qed

lemma filter_matches_iff:
  "filter_matches f r \<longleftrightarrow>
     (FNamespace f = '''' \<or> TargetNamespace (SpecTarget (Spec r)) = FNamespace f)
     \<and> (FStrategy f = '''' \<or> StrategyName (Spec r) = FStrategy f)
     \<and> (FState f = '''' \<or> displayState (State (Status r)) = FState f)
     \<and> (FEscalation f = '''' \<or> escalationOutcome r = FEscalation f)
     \<and> (FTarget f = '''' \<or> SpecTarget (Spec r) = FTarget f)
     \<and> (FAlert f = '''' \<or> RefName (SpecAlert (Spec r)) = FAlert f)"
  by (auto simp: filter_matches_def)

lemma inactive_matches: "\<not> filter_active f \<Longrightarrow> filter_matches f r"
  by (simp add: filter_active_def filter_matches_iff)

lemma tally_get_inc: "tally_get (tally_inc k m) k' = tally_get m k' + (if k' = k then 1 else 0)"
  by (simp add: tally_inc_def tally_get_def)

lemma tally_get_Nil [simp]: "tally_get [] k = 0"
  by (simp add: tally_get_def)

lemma fold_tally:
  "v \<noteq> '''' \<Longrightarrow> tally_get (fold (\<lambda>r m. if \<not> P r then m else if key r \<noteq> '''' then tally_inc (key r) m else m) rs m) v
     = tally_get m v + int (length (filter (\<lambda>r. P r \<and> key r = v) rs))"
  by (induction rs arbitrary: m) (auto simp: tally_get_inc)

lemma countByValue_count:
  "v \<noteq> '''' \<Longrightarrow> tally_get (countByValue rs rest key) v = int (length (filter (\<lambda>r. filter_matches rest r \<and> key r = v) rs))"
  by (simp add: countByValue_def fold_tally)

lemma option_target_matches:
  assumes "d \<in> set (dimensions opts active)" and "v \<noteq> ''''" and "v \<noteq> DChosen d"
  shows "filter_matches (option_target d v) r \<longleftrightarrow> filter_matches (narrow d (DRest d)) r \<and> DKey d r = v"
proof -
  have v: "(if v \<noteq> DChosen d then x else y) = x" for x y :: list_filter using assms(3) by simp
  from assms(1) consider "d = dimensions opts active ! 0" | "d = dimensions opts active ! 1"
    | "d = dimensions opts active ! 2" | "d = dimensions opts active ! 3"
    by (auto simp: dimensions_def)
  then show ?thesis
    unfolding option_target_def v using assms(2)
    by cases (simp_all add: dimensions_def narrow_def filter_matches_iff conj_ac)
qed

lemma option_target_wf:
  assumes "d \<in> set (dimensions opts active)" and "filter_wf active" and "trimmed v"
  shows "filter_wf (option_target d v)"
proof -
  have "trimmed ''''" "trimmed ''Failed''" by (simp_all add: trimmed_def trim_space_def is_space_def)
  then show ?thesis
    using assms by (auto simp: dimensions_def option_target_def narrow_def filter_wf_def filter_clauses_def)
qed

lemma option_target_chosen: "option_target d (DChosen d) = DRest d"
  by (simp add: option_target_def)

lemma dimension_options_count:
  assumes "d \<in> set (dimensions opts active)" and "x \<in> set (dimension_options d order rs)"
    and "OptValue x \<noteq> ''''" and "\<not> OptSelected x"
  shows "OptCount x = int (length (filter (filter_matches (option_target d (OptValue x))) rs))"
    and "OptURL x = sortedPath (option_target d (OptValue x)) order"
proof -
  have x: "OptValue x \<noteq> DChosen d" "OptCount x = tally_get (countByValue rs (narrow d (DRest d)) (DKey d)) (OptValue x)"
    "OptURL x = sortedPath (option_target d (OptValue x)) order"
    using assms(2,4) by (auto simp: dimension_options_def Let_def)
  have "filter_matches (option_target d (OptValue x)) = (\<lambda>r. filter_matches (narrow d (DRest d)) r \<and> DKey d r = OptValue x)"
    using option_target_matches [OF assms(1,3) x(1)] by (intro ext) simp
  then show "OptCount x = int (length (filter (filter_matches (option_target d (OptValue x))) rs))"
    using countByValue_count [OF assms(3)] x(2) by simp
  show "OptURL x = sortedPath (option_target d (OptValue x)) order" by (rule x(3))
qed

section \<open>Orders\<close>

lemma sorted_unique:
  assumes "sorted_wrt P xs" "sorted_wrt P ys" "mset xs = mset ys"
    and "\<And>a b. a \<in> set xs \<Longrightarrow> b \<in> set xs \<Longrightarrow> P a b \<Longrightarrow> P b a \<Longrightarrow> a = b"
  shows "xs = ys"
  using assms
proof (induction xs arbitrary: ys)
  case (Cons x xs)
  then obtain y ys' where ys: "ys = y # ys'" by (cases ys) auto
  have sets: "set (x # xs) = set ys" using Cons.prems(3) by (metis set_mset_mset)
  have "x = y"
  proof (rule ccontr)
    assume "x \<noteq> y"
    then have "x \<in> set ys'" "y \<in> set xs" using sets ys by auto
    then have "P x y" "P y x" using Cons.prems(1,2) ys by auto
    then show False using Cons.prems(4) \<open>x \<noteq> y\<close> \<open>y \<in> set xs\<close> by auto
  qed
  moreover have "xs = ys'"
    using Cons.prems ys \<open>x = y\<close> by (intro Cons.IH) auto
  ultimately show ?case using ys by simp
qed simp

lemma sort_slice_unique:
  assumes "strict_weak lt" "mset xs = mset ys"
    and "\<And>a b. a \<in> set xs \<Longrightarrow> b \<in> set xs \<Longrightarrow> \<not> lt a b \<Longrightarrow> \<not> lt b a \<Longrightarrow> a = b"
  shows "sort_slice lt xs = sort_slice lt ys"
  using assms by (intro sorted_unique [OF sorted_sort_slice sorted_sort_slice]) auto

lemma strict_weak_newer_first: "strict_weak newer_first"
  unfolding strict_weak_def newer_first_def by (auto split: if_splits)

definition by_column :: "bool \<Rightarrow> (remediation \<Rightarrow> 'b::linorder) \<Rightarrow> remediation \<Rightarrow> remediation \<Rightarrow> bool" where
  "by_column desc k a b = (if k a = k b then newer_first a b else if desc then k b < k a else k a < k b)"

lemma strict_weak_by_column: "strict_weak (by_column desc k)"
proof -
  have n: "\<not> newer_first x x" "\<not> newer_first y x \<Longrightarrow> \<not> newer_first z y \<Longrightarrow> \<not> newer_first z x"
    "newer_first x y \<Longrightarrow> \<not> newer_first y x" for x y z
    using strict_weak_newer_first unfolding strict_weak_def by blast+
  have b: "\<not> by_column desc k y x \<longleftrightarrow> (if desc then k y < k x else k x < k y) \<or> k x = k y \<and> \<not> newer_first y x" for x y
    by (auto simp: by_column_def)
  show ?thesis
    unfolding strict_weak_def
  proof (intro conjI allI impI)
    fix x y z
    show "\<not> by_column desc k x x" by (simp add: b n)
    show "\<not> by_column desc k z x" if "\<not> by_column desc k y x" "\<not> by_column desc k z y"
      using that n(2) [of y x z] unfolding b by (cases desc) auto
    show "\<not> by_column desc k y x" if "by_column desc k x y"
      using that n(3) [of x y] unfolding by_column_def by (cases desc) (auto split: if_splits)
  qed
qed

lemma column_compare_key:
  obtains (words) k :: "remediation \<Rightarrow> string" where "\<And>a b. column_compare key a b = (k a < k b, k a = k b)"
  | (number) k :: "remediation \<Rightarrow> int" where "\<And>a b. column_compare key a b = (k a < k b, k a = k b)"
proof (cases "key \<in> {SortName, SortStrategy, SortTarget, SortAlert, SortState}")
  case True
  then show thesis
    by (intro words [of "if key = SortName then rem_name else if key = SortStrategy then (\<lambda>r. StrategyName (Spec r))
      else if key = SortTarget then (\<lambda>r. SpecTarget (Spec r)) else if key = SortAlert then (\<lambda>r. RefName (SpecAlert (Spec r)))
      else (\<lambda>r. displayState (State (Status r)))"]) (auto simp: column_compare_def)
next
  case False
  then show thesis
    by (intro number [of "if key = SortTook then took else created"]) (auto simp: column_compare_def)
qed

lemma sort_less_by_column:
  assumes "\<And>a b. column_compare (SortKey s) a b = (k a < k b, k a = k b)"
  shows "sort_less s = by_column (SortDesc s) k"
  by (intro ext) (auto simp: sort_less_def assms by_column_def newer_first_def)

lemma strict_weak_sort_less: "strict_weak (sort_less s)"
  by (rule column_compare_key [of "SortKey s"]) (simp_all add: sort_less_by_column strict_weak_by_column)

lemma sort_less_total: "\<not> sort_less s a b \<Longrightarrow> \<not> sort_less s b a \<Longrightarrow> rem_name a = rem_name b"
  by (rule column_compare_key [of "SortKey s"]) (auto simp: sort_less_by_column by_column_def newer_first_def split: if_splits)

lemma newer_total: "\<not> newer_first a b \<Longrightarrow> \<not> newer_first b a \<Longrightarrow> rem_name a = rem_name b"
  by (auto simp: newer_first_def split: if_splits)

definition order_less :: "list_order \<Rightarrow> remediation \<Rightarrow> remediation \<Rightarrow> bool" where
  "order_less s = (if SortKey s = '''' then newer_first else sort_less s)"

lemma Apply_order_less: "Apply s rs = sort_slice (order_less s) rs"
  by (simp add: Apply_def order_less_def sortNewestFirst_def)

lemma strict_weak_order_less: "strict_weak (order_less s)"
  by (simp add: order_less_def strict_weak_newer_first strict_weak_sort_less)

lemma mset_Apply [simp]: "mset (Apply s rs) = mset rs"
  by (simp add: Apply_order_less)

lemma set_Apply [simp]: "set (Apply s rs) = set rs"
  by (simp add: Apply_order_less)

lemma length_Apply [simp]: "length (Apply s rs) = length rs"
  by (simp add: Apply_order_less)

lemma sorted_Apply: "sorted_wrt (\<lambda>a b. \<not> order_less s b a) (Apply s rs)"
  by (simp add: Apply_order_less sorted_sort_slice strict_weak_order_less)

lemma Apply_unique:
  assumes "mset rs = mset rs'" and "distinct (map rem_name rs)"
  shows "Apply s rs = Apply s rs'"
  unfolding Apply_order_less
proof (rule sort_slice_unique [OF strict_weak_order_less assms(1)])
  fix a b
  assume "a \<in> set rs" "b \<in> set rs" "\<not> order_less s a b" "\<not> order_less s b a"
  then show "a = b"
    using sort_less_total [of s a b] newer_total [of a b] assms(2)
    by (auto simp: order_less_def distinct_map inj_on_def split: if_splits)
qed

section \<open>What is read is well-formed\<close>

lemma trimmed_trim [simp]: "trimmed (trim_space s)"
proof -
  let ?a = "dropWhile is_space s"
  let ?b = "rev (dropWhile is_space (rev ?a))"
  have "dropWhile is_space ?b = ?b"
  proof (cases ?b)
    case Nil
    show ?thesis unfolding Nil by simp
  next
    case (Cons c cs)
    have "prefix ?b ?a" by (metis suffix_dropWhile suffix_to_prefix rev_rev_ident)
    then have "?a \<noteq> [] \<and> hd ?a = c" using Cons by (metis hd_append2 list.distinct(1) list.sel(1) prefix_def append_is_Nil_conv)
    then have "\<not> is_space c" using hd_dropWhile [of is_space s] by auto
    then show ?thesis unfolding Cons by simp
  qed
  moreover have "rev (dropWhile is_space (rev ?b)) = ?b" by simp
  ultimately show ?thesis by (simp add: trimmed_def trim_space_def)
qed

lemma filter_wf_ParseFilter [simp]: "filter_wf (ParseFilter q)"
  by (simp add: filter_wf_def filter_clauses_def ParseFilter_def)

lemma order_wf_ParseSort [simp]: "order_wf (ParseSort q)"
  by (simp add: order_wf_def ParseSort_def Let_def)

lemma ParsePage_range: "1 \<le> ParsePage q \<and> in_int64 (ParsePage q)"
  using parse_int_range [of 64 "values_get q paramPage"]
  by (auto simp: ParsePage_def atoi_def in_int64_def split: option.splits)

end
