(* ===== verification/DashList.thy ===== *)
theory DashList
  imports DashFilter DashPosture
begin

text \<open>
  \<open>internal/dashboard/remediations.go\<close>, the helpers of \<open>view.go\<close> and \<open>buildRow\<close> of \<open>remediation.go\<close>: the list
  of executions, narrowed, ordered, cut into pages and drawn as lines that collapse repeats.
\<close>

section \<open>Helpers\<close>

definition newestFirst :: "remediation list \<Rightarrow> remediation list" where
  "newestFirst rs = sortNewestFirst rs"

definition applyFilter :: "remediation list \<Rightarrow> list_filter \<Rightarrow> remediation list" where
  "applyFilter rs f = (if \<not> filter_active f then rs else filter (filter_matches f) rs)"

definition sortedLabels :: "smap \<Rightarrow> (string \<times> string) list" where
  "sortedLabels m = sort_slice (\<lambda>a b. fst a < fst b) m"

definition escalationMarker :: "escalation_status option \<Rightarrow> string" where
  "escalationMarker esc =
     (case esc of
        None \<Rightarrow> ''''
      | Some e \<Rightarrow> if EscPhase e = StepPhaseSucceeded then ''sent'' else ''failed'')"

section \<open>Rows\<close>

record row =
  RowName :: string
  RowURL :: string
  RowStrategy :: string
  RowStrategyURL :: string
  RowTarget :: string
  RowTargetURL :: string
  RowAlert :: string
  RowAlertURL :: string
  RowState :: string
  RowStateURL :: string
  RowTone :: string
  RowAge :: string
  RowAgeExact :: string
  RowDuration :: string
  RowAttempt :: int
  RowDryRun :: bool
  RowReason :: string
  RowEscalated :: string

definition buildRow :: "remediation \<Rightarrow> time \<Rightarrow> list_filter \<Rightarrow> list_order \<Rightarrow> row" where
  "buildRow rem now base order =
     (let sp = Spec rem; st = Status rem; state = displayState (State st);
          link = (\<lambda>v pivot. if v \<noteq> '''' then sortedPath pivot order else '''')
      in \<lparr>RowName = rem_name rem, RowURL = ''/remediations/'' @ rem_name rem,
          RowStrategy = StrategyName sp,
          RowStrategyURL = link (StrategyName sp) (base\<lparr>FStrategy := StrategyName sp\<rparr>),
          RowTarget = SpecTarget sp,
          RowTargetURL = link (SpecTarget sp) (base\<lparr>FTarget := SpecTarget sp\<rparr>),
          RowAlert = RefName (SpecAlert sp),
          RowAlertURL = link (RefName (SpecAlert sp)) (base\<lparr>FAlert := RefName (SpecAlert sp)\<rparr>),
          RowState = state,
          RowStateURL = link state (base\<lparr>FState := state\<rparr>),
          RowTone = stateTone (State st),
          RowAge = FormatAge (created rem) now,
          RowAgeExact = FormatTimestamp (created rem),
          RowDuration = FormatSpan (StartedAt st) (CompletedAt st),
          RowAttempt = Attempt st, RowDryRun = DryRun sp, RowReason = Reason st,
          RowEscalated = escalationMarker (Escalation st)\<rparr>)"

section \<open>Lines\<close>

record line =
  LineRow :: row
  LineCount :: int
  LineNewestAge :: string
  LineOldestAge :: string
  LineGroupURL :: string

definition Repeats :: "line \<Rightarrow> bool" where "Repeats g \<longleftrightarrow> 1 < LineCount g"

definition sameFact :: "remediation \<Rightarrow> remediation \<Rightarrow> bool" where
  "sameFact a b \<longleftrightarrow> StrategyName (Spec a) = StrategyName (Spec b)
     \<and> SpecTarget (Spec a) = SpecTarget (Spec b)
     \<and> RefName (SpecAlert (Spec a)) = RefName (SpecAlert (Spec b))
     \<and> State (Status a) = State (Status b)"

definition run_span :: "remediation list \<Rightarrow> time \<times> time" where
  "run_span run =
     (let t0 = created (hd run)
      in fold (\<lambda>rem (newest, oldest).
           let t = created rem in
           (if newest < t then t else newest, if t < oldest then t else oldest)) (tl run) (t0, t0))"

definition runFilter :: "list_filter \<Rightarrow> remediation \<Rightarrow> list_filter" where
  "runFilter base rem =
     base\<lparr>FStrategy := StrategyName (Spec rem), FTarget := SpecTarget (Spec rem),
          FAlert := RefName (SpecAlert (Spec rem)), FState := displayState (State (Status rem))\<rparr>"

definition build_line :: "remediation list \<Rightarrow> time \<Rightarrow> list_filter \<Rightarrow> list_order \<Rightarrow> line" where
  "build_line run now base order =
     (let first = hd run; many = 1 < length run; (newest, oldest) = run_span run
      in \<lparr>LineRow = buildRow first now base order, LineCount = int (length run),
          LineNewestAge = (if many then FormatAge newest now else ''''),
          LineOldestAge = (if many then FormatAge oldest now else ''''),
          LineGroupURL = (if many then listPath (runFilter base first) order 1 else '''')\<rparr>)"

text \<open>The runs of a page: from each record as far as the ones after it say the same.\<close>

declare length_dropWhile_le [termination_simp]

fun runs :: "bool \<Rightarrow> remediation list \<Rightarrow> remediation list list" where
  "runs collapse [] = []"
| "runs collapse (r # rs) =
     (if collapse then (r # takeWhile (sameFact r) rs) # runs collapse (dropWhile (sameFact r) rs)
      else [r] # runs collapse rs)"

definition buildLines :: "remediation list \<Rightarrow> time \<Rightarrow> list_filter \<Rightarrow> list_order \<Rightarrow> bool \<Rightarrow> line list" where
  "buildLines page now base order collapse = map (\<lambda>run. build_line run now base order) (runs collapse page)"

section \<open>Pages\<close>

definition pageSize :: int where "pageSize = 100"

record paging =
  PPage :: int
  PPages :: int
  PFirst :: int
  PLast :: int
  PPrevURL :: string
  PNextURL :: string

definition pageOf :: "int \<Rightarrow> int \<Rightarrow> list_filter \<Rightarrow> list_order \<Rightarrow> paging" where
  "pageOf n page f order =
     (let p0 = (n + pageSize - 1) div pageSize;
          pages = (if p0 < 1 then 1 else p0);
          p = min (max page 1) pages
      in \<lparr>PPage = p, PPages = pages,
          PFirst = (if n = 0 then 0 else (p - 1) * pageSize + 1),
          PLast = min (p * pageSize) n,
          PPrevURL = (if 1 < p then listPath f order (p - 1) else ''''),
          PNextURL = (if p < pages then listPath f order (p + 1) else '''')\<rparr>)"

section \<open>Counts\<close>

record state_counts =
  CSucceeded :: int
  CFailed :: int
  CSimulated :: int
  CInFlight :: int
  CAwaiting :: int

definition zero_counts :: state_counts where
  "zero_counts = \<lparr>CSucceeded = 0, CFailed = 0, CSimulated = 0, CInFlight = 0, CAwaiting = 0\<rparr>"

fun tally_state :: "remediation_state \<Rightarrow> state_counts \<Rightarrow> state_counts" where
  "tally_state RemediationStateSucceeded c = c\<lparr>CSucceeded := CSucceeded c + 1\<rparr>"
| "tally_state RemediationStateFailed c = c\<lparr>CFailed := CFailed c + 1\<rparr>"
| "tally_state RemediationStateSimulated c = c\<lparr>CSimulated := CSimulated c + 1\<rparr>"
| "tally_state RemediationStateAwaitingApproval c =
     c\<lparr>CAwaiting := CAwaiting c + 1, CInFlight := CInFlight c + 1\<rparr>"
| "tally_state RemediationStatePending c = c\<lparr>CInFlight := CInFlight c + 1\<rparr>"
| "tally_state RemediationStateRunning c = c\<lparr>CInFlight := CInFlight c + 1\<rparr>"
| "tally_state (RemediationStateOther s) c = c\<lparr>CInFlight := CInFlight c + 1\<rparr>"

definition tally :: "remediation list \<Rightarrow> state_counts" where
  "tally rs = fold (\<lambda>r. tally_state (State (Status r))) rs zero_counts"

section \<open>The page\<close>

record applied_clause =
  ACLabel :: string
  ACValue :: string
  ACRemoveURL :: string
  ACMono :: bool

definition appliedClauses :: "list_filter \<Rightarrow> list_order \<Rightarrow> applied_clause list" where
  "appliedClauses f order =
     (if FTarget f \<noteq> '''' then
        [\<lparr>ACLabel = ''Target'', ACValue = FTarget f, ACRemoveURL = sortedPath (f\<lparr>FTarget := ''''\<rparr>) order, ACMono = True\<rparr>]
      else [])
     @ (if FAlert f \<noteq> '''' then
        [\<lparr>ACLabel = ''Alert'', ACValue = FAlert f, ACRemoveURL = sortedPath (f\<lparr>FAlert := ''''\<rparr>) order, ACMono = False\<rparr>]
      else [])"

record remediations_view =
  VRows :: "line list"
  VTotal :: int
  VTotalUnfiltered :: int
  VShown :: int
  VGrouped :: bool
  VCollapsed :: int
  VFilter :: list_filter
  VGroups :: "filter_group list"
  VSort :: list_order
  VColumns :: "column list"
  VClauses :: "applied_clause list"
  VPaging :: paging
  VSucceeded :: int
  VFailed :: int
  VSimulated :: int
  VInFlight :: int

definition page_slice :: "int \<Rightarrow> remediation list \<Rightarrow> remediation list" where
  "page_slice page kept =
     (let start = min ((page - 1) * pageSize) (int (length kept));
          stop = min (start + pageSize) (int (length kept))
      in take (nat (stop - start)) (drop (nat start) kept))"

definition buildRemediations :: "remediation list \<Rightarrow> list_filter \<Rightarrow> list_order \<Rightarrow> int \<Rightarrow> time \<Rightarrow> remediations_view" where
  "buildRemediations rs f order page now =
     (let ordered = newestFirst rs;
          options = BuildFilterOptions ordered;
          kept = Apply order (applyFilter ordered f);
          counts = tally kept;
          paging = pageOf (int (length kept)) page f order;
          drawn = page_slice (PPage paging) kept;
          grouped = GroupsAdjacent order;
          rows = buildLines drawn now f order grouped
      in \<lparr>VRows = rows, VTotal = int (length kept), VTotalUnfiltered = int (length ordered),
          VShown = int (length drawn), VGrouped = grouped,
          VCollapsed = int (length drawn) - int (length rows),
          VFilter = f, VGroups = Groups options f order ordered, VSort = order,
          VColumns = Columns f order, VClauses = appliedClauses f order, VPaging = paging,
          VSucceeded = CSucceeded counts, VFailed = CFailed counts, VSimulated = CSimulated counts,
          VInFlight = CInFlight counts\<rparr>)"

definition Filtered :: "remediations_view \<Rightarrow> bool" where "Filtered v = filter_active (VFilter v)"
definition Ordering :: "remediations_view \<Rightarrow> string" where "Ordering v = Describe (VSort v)"
definition Excluded :: "remediations_view \<Rightarrow> int" where "Excluded v = VTotalUnfiltered v - VTotal v"
definition HasRows :: "remediations_view \<Rightarrow> bool" where "HasRows v \<longleftrightarrow> 0 < VTotal v"
definition list_empty :: "remediations_view \<Rightarrow> bool" where "list_empty v \<longleftrightarrow> VTotalUnfiltered v = 0"
definition Many :: "paging \<Rightarrow> bool" where "Many p \<longleftrightarrow> 1 < PPages p"

text \<open>\<open>GET /remediations\<close>: what the query string asks for.\<close>

definition list_page :: "remediation list \<Rightarrow> url_values \<Rightarrow> time \<Rightarrow> remediations_view" where
  "list_page rs query now = buildRemediations rs (ParseFilter query) (ParseSort query) (ParsePage query) now"

section \<open>The choices offered\<close>

lemma displayState_nonempty [simp]: "displayState st \<noteq> ''''"
  by (simp add: displayState_def)

lemma escalationOutcome_nonempty [simp]: "escalationOutcome r \<noteq> ''''"
  by (auto simp: escalationOutcome_def escalation_word_defs split: option.splits)

lemma set_add_key [simp]: "set (add_key k ks) = insert k (set ks)"
  by (auto simp: add_key_def)

lemma distinct_add_key [simp]: "distinct (add_key k ks) = distinct ks"
  by (auto simp: add_key_def)

lemma set_fold_add_key:
  "set (fold (\<lambda>r ks. if P r then add_key (key r) ks else ks) rs ks) = set ks \<union> key ` {r \<in> set rs. P r}"
  by (induction rs arbitrary: ks) auto

lemma distinct_fold_add_key:
  "distinct (fold (\<lambda>r ks. if P r then add_key (key r) ks else ks) rs ks) = distinct ks"
  by (induction rs arbitrary: ks) auto

lemma BuildFilterOptions_sets:
  "set (ONamespaces (BuildFilterOptions rs)) = targetNs ` {r \<in> set rs. targetNs r \<noteq> ''''}"
  "set (OStrategies (BuildFilterOptions rs)) = (\<lambda>r. StrategyName (Spec r)) ` {r \<in> set rs. StrategyName (Spec r) \<noteq> ''''}"
  "set (OStates (BuildFilterOptions rs)) = (\<lambda>r. displayState (State (Status r))) ` set rs"
  "set (OEscalations (BuildFilterOptions rs)) = escalationOutcome ` {r \<in> set rs. State (Status r) = RemediationStateFailed}"
  if "targetNs = (\<lambda>r. TargetNamespace (SpecTarget (Spec r)))"
  using that set_fold_add_key [of "\<lambda>r. True" "\<lambda>r. displayState (State (Status r))" rs "[]"]
  by (simp_all add: BuildFilterOptions_def sortedKeys_def set_fold_add_key Let_def)

lemma option_values_nonempty:
  "d \<in> set (dimensions (BuildFilterOptions rs) active) \<Longrightarrow> v \<in> set (DValues d) \<Longrightarrow> v \<noteq> ''''"
  by (auto simp: dimensions_def BuildFilterOptions_sets [OF refl] displayState_nonempty [symmetric] escalationOutcome_nonempty [symmetric])

section \<open>Counting\<close>

lemma applyFilter_filter: "applyFilter rs f = filter (filter_matches f) rs"
proof (cases "filter_active f")
  case False
  then have "filter (filter_matches f) rs = rs" by (simp add: filter_id_conv inactive_matches)
  with False show ?thesis by (simp add: applyFilter_def)
qed (simp add: applyFilter_def)

lemma mset_newestFirst [simp]: "mset (newestFirst rs) = mset rs"
  by (simp add: newestFirst_def sortNewestFirst_def)

lemma set_newestFirst [simp]: "set (newestFirst rs) = set rs"
  by (metis mset_newestFirst set_mset_mset)

lemma length_filter_mset: "length (filter P xs) = size (filter_mset P (mset xs))"
  by (metis mset_filter size_mset)

lemma length_filter_newestFirst: "length (filter P (newestFirst rs)) = length (filter P rs)"
  by (simp add: length_filter_mset)

definition kept_list :: "remediation list \<Rightarrow> list_filter \<Rightarrow> list_order \<Rightarrow> remediation list" where
  "kept_list rs f order = Apply order (applyFilter (newestFirst rs) f)"

lemma length_kept_list: "length (kept_list rs f order) = length (filter (filter_matches f) rs)"
  by (simp add: kept_list_def applyFilter_filter length_filter_newestFirst)

lemma mset_kept_list: "mset (kept_list rs f order) = mset (filter (filter_matches f) rs)"
  by (simp add: kept_list_def applyFilter_filter)

lemma VTotal_buildRemediations: "VTotal (buildRemediations rs f order page now) = int (length (filter (filter_matches f) rs))"
  by (simp add: buildRemediations_def Let_def applyFilter_filter length_filter_newestFirst)

lemma option_link_shows_its_count:
  assumes "filter_wf f" and "order_wf order"
    and "g \<in> set (VGroups (buildRemediations rs f order page now))" and "x \<in> set (GOptions g)"
    and "\<not> OptSelected x" and "trimmed (OptValue x)"
  shows "VTotal (list_page rs (ParseQuery (url_query (OptURL x))) now') = OptCount x"
proof -
  let ?rs = "newestFirst rs" and ?o = "BuildFilterOptions (newestFirst rs)"
  obtain d where d: "d \<in> set (dimensions ?o f)" and g: "g = dimension_group d order ?rs"
    using assms(3) by (auto simp: buildRemediations_def Groups_def Let_def)
  have x: "x \<in> set (dimension_options d order ?rs)" using assms(4) g by (simp add: dimension_group_def Let_def)
  have v: "OptValue x \<noteq> ''''"
    using x option_values_nonempty [OF d] by (auto simp: dimension_options_def Let_def)
  note c = dimension_options_count [OF d x v assms(5)]
  have "filter_wf (option_target d (OptValue x))" by (rule option_target_wf [OF d assms(1,6)])
  then have "list_page rs (ParseQuery (url_query (OptURL x))) now'
      = buildRemediations rs (option_target d (OptValue x)) order 1 now'"
    using assms(2) c(2) by (simp add: list_page_def sortedPath_def ParseFilter_listPath ParseSort_listPath ParsePage_listPath in_int64_def)
  then show ?thesis using c(1) by (simp add: VTotal_buildRemediations length_filter_newestFirst)
qed

section \<open>Runs\<close>

lemma concat_runs: "concat (runs g rs) = rs"
  by (induction g rs rule: runs.induct) auto

lemma runs_nonempty: "run \<in> set (runs g rs) \<Longrightarrow> run \<noteq> []"
  by (induction g rs rule: runs.induct) (auto split: if_splits)

lemma runs_same: "run \<in> set (runs g rs) \<Longrightarrow> r \<in> set run \<Longrightarrow> sameFact (hd run) r"
proof (induction g rs rule: runs.induct)
  case (2 g r' rs)
  have "sameFact r' r'" by (simp add: sameFact_def)
  with 2 show ?case by (cases g) (auto dest: set_takeWhileD)
qed simp

lemma sameFact_trans: "sameFact a b \<Longrightarrow> sameFact a c \<Longrightarrow> sameFact b c"
  by (auto simp: sameFact_def)

lemma runs_maximal:
  "runs True rs = xs @ a # b # ys \<Longrightarrow> \<not> sameFact (hd a) (hd b)"
proof (induction True rs arbitrary: xs rule: runs.induct)
  case (2 r rs)
  show ?case
  proof (cases xs)
    case Nil
    then have a: "a = r # takeWhile (sameFact r) rs" and b: "runs True (dropWhile (sameFact r) rs) = b # ys"
      using "2.prems" by simp_all
    then obtain r' rs' where d: "dropWhile (sameFact r) rs = r' # rs'" by (cases "dropWhile (sameFact r) rs") auto
    then have "hd b = r'" using b by auto
    moreover have "\<not> sameFact r r'" using d by (metis dropWhile_eq_Cons_conv)
    ultimately show ?thesis using a by simp
  next
    case (Cons x xs')
    then show ?thesis using 2 by simp
  qed
qed simp

lemma sum_run_lengths: "sum_list (map (\<lambda>run. int (length run)) (runs g rs)) = int (length rs)"
proof -
  have "int (length (concat xss)) = sum_list (map (\<lambda>run. int (length run)) xss)" for xss :: "remediation list list"
    by (induction xss) auto
  from this [of "runs g rs"] show ?thesis by (simp add: concat_runs)
qed

lemma runFilter_matches: "filter_matches base r \<Longrightarrow> sameFact r0 r \<Longrightarrow> filter_matches (runFilter base r0) r"
  by (auto simp: filter_matches_iff runFilter_def sameFact_def)

section \<open>Pages\<close>

definition page_count :: "int \<Rightarrow> int" where "page_count n = max 1 ((n + pageSize - 1) div pageSize)"

lemma PPages_pageOf [simp]: "PPages (pageOf n page f order) = page_count n"
  by (simp add: pageOf_def page_count_def Let_def)

lemma PPage_pageOf: "PPage (pageOf n page f order) = min (max page 1) (page_count n)"
  by (simp add: pageOf_def page_count_def Let_def max_def)

lemma page_slice_eq:
  "1 \<le> p \<Longrightarrow> page_slice p kept = take 100 (drop (100 * nat (p - 1)) kept)"
proof -
  assume "1 \<le> p"
  then have "nat (p * 100 - 100) = 100 * nat (p - 1)" by (simp add: nat_mult_distrib algebra_simps flip: nat_mult_distrib)
  then show ?thesis by (auto simp: page_slice_def pageSize_def min_def Let_def algebra_simps intro: take_all drop_all)
qed

lemma concat_slices: "concat (map (\<lambda>i. take k (drop (k * i) xs)) [0..<m]) = take (k * m) xs"
proof (induction m)
  case (Suc m)
  have "take (k * m) xs @ take k (drop (k * m) xs) = take (k * Suc m) xs"
    by (metis add.commute mult_Suc_right take_add)
  with Suc show ?case by simp
qed simp

lemma concat_pages:
  "concat (map (\<lambda>p. page_slice p kept) [1..page_count (int (length kept))]) = kept"
proof -
  let ?n = "page_count (int (length kept))"
  have "[1..?n] = map (\<lambda>i. int i + 1) [0..<nat ?n]"
    by (rule nth_equalityI) (auto simp: page_count_def nth_upto)
  then have "concat (map (\<lambda>p. page_slice p kept) [1..?n]) = take (100 * nat ?n) kept"
    by (simp add: comp_def page_slice_eq concat_slices)
  moreover have "length kept \<le> 100 * nat ?n"
    by (simp add: page_count_def pageSize_def max_def) linarith
  ultimately show ?thesis by simp
qed

section \<open>Lines, counts and quick picks\<close>

lemma find_SomeD: "find P xs = Some x \<Longrightarrow> P x \<and> x \<in> set xs"
  by (auto simp: find_Some_iff)

abbreviation view_cut :: "remediation list \<Rightarrow> list_filter \<Rightarrow> list_order \<Rightarrow> int \<Rightarrow> time \<Rightarrow> remediation list" where
  "view_cut rs f order page now \<equiv>
     page_slice (PPage (VPaging (buildRemediations rs f order page now))) (kept_list rs f order)"

lemma buildRemediations_fields:
  "VPaging (buildRemediations rs f order page now) = pageOf (int (length (kept_list rs f order))) page f order"
  "VRows (buildRemediations rs f order page now)
     = buildLines (view_cut rs f order page now) now f order (GroupsAdjacent order)"
  "VShown (buildRemediations rs f order page now) = int (length (view_cut rs f order page now))"
  "VTotal (buildRemediations rs f order page now) = int (length (kept_list rs f order))"
  by (simp_all add: buildRemediations_def kept_list_def Let_def)

lemma tally_total:
  "CSucceeded (tally rs) + CFailed (tally rs) + CSimulated (tally rs) + CInFlight (tally rs) = int (length rs)"
proof -
  have "CSucceeded c' + CFailed c' + CSimulated c' + CInFlight c'
      = CSucceeded c + CFailed c + CSimulated c + CInFlight c + int (length rs)"
    if "c' = fold (\<lambda>r. tally_state (State (Status r))) rs c" for c c'
    using that
  proof (induction rs arbitrary: c)
    case (Cons r rs)
    have "c' = fold (\<lambda>r. tally_state (State (Status r))) rs (tally_state (State (Status r)) c)" using Cons.prems by simp
    from Cons.IH [OF this] show ?case by (cases "State (Status r)") simp_all
  qed simp
  then show ?thesis by (simp add: tally_def zero_counts_def)
qed

lemma line_counts: "sum_list (map LineCount (buildLines page now f order g)) = int (length page)"
proof -
  have "LineCount (build_line run now f order) = int (length run)" for run
    by (simp add: build_line_def case_prod_beta Let_def)
  then have "map LineCount (buildLines page now f order g) = map (\<lambda>run. int (length run)) (runs g page)"
    by (simp add: buildLines_def)
  then show ?thesis by (simp only: sum_run_lengths)
qed

lemma set_first_picks: "set (first_picks n xs) \<subseteq> set xs"
  by (induction n xs rule: first_picks.induct) auto

lemma set_busiest: "set (busiest options limit chosen) \<subseteq> set options"
  using set_first_picks [of limit "sort_slice (\<lambda>a b. OptCount b < OptCount a) options"]
  by (auto simp: busiest_def Let_def split: option.splits dest!: find_SomeD)

lemma quick_picks_are_options: "g \<in> set (Groups opts f order rs) \<Longrightarrow> set (GQuickPicks g) \<subseteq> set (GOptions g)"
  by (auto simp: Groups_def dimension_group_def Let_def split: if_splits intro: set_busiest [THEN subsetD])

end
