(* ===== verification/DashOverview.thy ===== *)
theory DashOverview
  imports DashList
begin

text \<open>
  \<open>internal/dashboard/overview.go\<close>, \<open>impact.go\<close> and the dry-run report of \<open>view.go\<close>: the front page, which
  says whether anything is wrong now, where remedik has been acting and what that adds up to.
\<close>

section \<open>Windows\<close>

text \<open>The two layouts the windows format a bucket with: \<open>15:04\<close> and \<open>Mon 2\<close>.\<close>

datatype layout = HourMinute | WeekdayDay

record window =
  WKey :: string
  WLabel :: string
  WShort :: string
  WBuckets :: int
  WBucket :: duration
  WUnit :: string
  WLayout :: layout

definition activityHours :: int where "activityHours = 24"

definition day_window :: window where
  "day_window = \<lparr>WKey = ''24h'', WLabel = ''last 24 hours'', WShort = ''24h'', WBuckets = activityHours,
     WBucket = hour, WUnit = ''hour'', WLayout = HourMinute\<rparr>"

definition week_window :: window where
  "week_window = \<lparr>WKey = ''7d'', WLabel = ''last 7 days'', WShort = ''7d'', WBuckets = 7,
     WBucket = 24 * hour, WUnit = ''day'', WLayout = WeekdayDay\<rparr>"

definition windows :: "window list" where "windows = [day_window, week_window]"

definition Span :: "window \<Rightarrow> duration" where "Span w = WBuckets w * WBucket w"

definition Start :: "window \<Rightarrow> time \<Rightarrow> time" where
  "Start w now = time_add (now - now mod WBucket w) (- (WBuckets w - 1) * WBucket w)"

definition paramRange :: string where "paramRange = ''range''"

definition window_url :: "window \<Rightarrow> string" where
  "window_url w = (if WKey w = WKey day_window then ''/'' else ''/?'' @ paramRange @ ''='' @ QueryEscape (WKey w))"

definition ParseWindow :: "url_values \<Rightarrow> window" where
  "ParseWindow query =
     (case find (\<lambda>w. WKey w = values_get query paramRange) windows of
        Some w \<Rightarrow> w
      | None \<Rightarrow> day_window)"

definition Windows :: "window \<Rightarrow> (string \<times> string \<times> bool) list" where
  "Windows w = map (\<lambda>x. (WShort x, window_url x, WKey x = WKey w)) windows"

text \<open>A bucket's label is formatted in the zone of the clock, whose offset from UTC is a parameter.\<close>

definition format_layout :: "(time \<Rightarrow> duration) \<Rightarrow> layout \<Rightarrow> time \<Rightarrow> string" where
  "format_layout offset l t =
     (let local = t + offset t; s = (local div second) mod 86400; d = local div second div 86400
      in case l of
           HourMinute \<Rightarrow> pad2 (s div 3600) @ '':'' @ pad2 (s div 60 mod 60)
         | WeekdayDay \<Rightarrow>
             [''Mon'', ''Tue'', ''Wed'', ''Thu'', ''Fri'', ''Sat'', ''Sun''] ! nat (d mod 7) @ '' ''
             @ itoa (snd (snd (civil_of_days d))))"

section \<open>Activity\<close>

definition ranAt :: "remediation \<Rightarrow> time" where
  "ranAt rem = (case StartedAt (Status rem) of Some t \<Rightarrow> t | None \<Rightarrow> created rem)"

record activity_bar =
  BarLabel :: string
  BarSucceeded :: int
  BarFailed :: int
  BarSimulated :: int
  BarTotal :: int
  BarPercent :: int
  BarSucceededPct :: int
  BarFailedPct :: int
  BarSimulatedPct :: int

record activity_panel =
  ABars :: "activity_bar list"
  ABusiest :: int
  AScale :: int
  ATotal :: int
  AFailed :: int
  AWindow :: string

definition activityScaleFloor :: int where "activityScaleFloor = 4"

definition empty_bar :: "string \<Rightarrow> activity_bar" where
  "empty_bar label = \<lparr>BarLabel = label, BarSucceeded = 0, BarFailed = 0, BarSimulated = 0, BarTotal = 0,
     BarPercent = 0, BarSucceededPct = 0, BarFailedPct = 0, BarSimulatedPct = 0\<rparr>"

definition bar_add :: "remediation_state \<Rightarrow> activity_bar \<Rightarrow> activity_bar" where
  "bar_add st b =
     (let b' = (if st = RemediationStateSucceeded then b\<lparr>BarSucceeded := BarSucceeded b + 1\<rparr>
                else if st = RemediationStateFailed then b\<lparr>BarFailed := BarFailed b + 1\<rparr>
                else if st = RemediationStateSimulated then b\<lparr>BarSimulated := BarSimulated b + 1\<rparr>
                else b)
      in b'\<lparr>BarTotal := BarTotal b' + 1\<rparr>)"

definition activity_add :: "window \<Rightarrow> time \<Rightarrow> remediation \<Rightarrow> activity_panel \<Rightarrow> activity_panel" where
  "activity_add w start rem p =
     (let t = ranAt rem in
      if t < start then p
      else let bucket = go_div (time_sub t start) (WBucket w) in
        if bucket < 0 \<or> int (length (ABars p)) \<le> bucket then p
        else let st = State (Status rem); bar = bar_add st (ABars p ! nat bucket)
          in p\<lparr>ABars := (ABars p)[nat bucket := bar],
               ATotal := ATotal p + 1,
               AFailed := (if st = RemediationStateFailed then AFailed p + 1 else AFailed p),
               ABusiest := (if ABusiest p < BarTotal bar then BarTotal bar else ABusiest p)\<rparr>)"

definition bar_scale :: "int \<Rightarrow> activity_bar \<Rightarrow> activity_bar" where
  "bar_scale scale b =
     (let b1 = (if 0 < scale then b\<lparr>BarPercent := go_div (BarTotal b * 100) scale\<rparr> else b)
      in if 0 < BarTotal b1 then
           (let s = go_div (BarSucceeded b1 * 100) (BarTotal b1); f = go_div (BarFailed b1 * 100) (BarTotal b1)
            in b1\<lparr>BarSucceededPct := s, BarFailedPct := f, BarSimulatedPct := 100 - s - f\<rparr>)
         else b1)"

definition buildActivity :: "(time \<Rightarrow> duration) \<Rightarrow> remediation list \<Rightarrow> window \<Rightarrow> time \<Rightarrow> activity_panel" where
  "buildActivity offset rs w now =
     (let start = Start w now;
          bars = map (\<lambda>i. empty_bar (format_layout offset (WLayout w) (time_add start (i * WBucket w)))) [0..WBuckets w - 1];
          p = fold (activity_add w start) rs
                \<lparr>ABars = bars, ABusiest = 0, AScale = 0, ATotal = 0, AFailed = 0, AWindow = WLabel w\<rparr>;
          scale = (if ABusiest p < activityScaleFloor then activityScaleFloor else ABusiest p)
      in p\<lparr>AScale := scale, ABars := map (bar_scale scale) (ABars p)\<rparr>)"

definition FailureRate :: "activity_panel \<Rightarrow> int" where
  "FailureRate p = (if ATotal p = 0 then 0 else go_div (AFailed p * 100) (ATotal p))"

section \<open>Impact\<close>

record impact_slice =
  ISExecuted :: int
  ISSucceeded :: int
  ISAlone :: int
  ISResolutions :: "duration list"
  ISOldest :: time

record impact_figure =
  IFLabel :: string
  IFValue :: string
  IFDetail :: string
  IFDelta :: string
  IFDirection :: string
  IFTone :: string
  IFURL :: string

record impact_panel =
  IPWindow :: string
  IPFigures :: "impact_figure list"
  IPCovered :: string
  IPComparable :: bool

definition medianFloor :: nat where "medianFloor = 5"

definition resolution :: "remediation \<Rightarrow> duration option" where
  "resolution rem =
     (case (RefStartsAt (SpecAlert (Spec rem)), CompletedAt (Status rem)) of
        (Some firing, Some finished) \<Rightarrow>
          if firing = 0 \<or> finished = 0 then None
          else (let span = time_sub finished firing in if 0 < span then Some span else None)
      | _ \<Rightarrow> None)"

definition impact_add :: "time \<Rightarrow> time \<Rightarrow> remediation \<Rightarrow> impact_slice \<Rightarrow> impact_slice" where
  "impact_add from to rem s =
     (let t = ranAt rem; st = State (Status rem) in
      if t < from \<or> \<not> t < to then s
      else if st \<noteq> RemediationStateSucceeded \<and> st \<noteq> RemediationStateFailed then s
      else
        let s1 = (if st = RemediationStateSucceeded then
                    s\<lparr>ISExecuted := ISExecuted s + 1, ISSucceeded := ISSucceeded s + 1,
                      ISAlone := (if Approval (Spec rem) = None then ISAlone s + 1 else ISAlone s)\<rparr>
                  else s\<lparr>ISExecuted := ISExecuted s + 1\<rparr>);
            s2 = (if ISOldest s1 = 0 \<or> t < ISOldest s1 then s1\<lparr>ISOldest := t\<rparr> else s1)
        in case resolution rem of
             Some r \<Rightarrow> s2\<lparr>ISResolutions := ISResolutions s2 @ [r]\<rparr>
           | None \<Rightarrow> s2)"

definition collectImpact :: "remediation list \<Rightarrow> time \<Rightarrow> time \<Rightarrow> impact_slice" where
  "collectImpact rs from to =
     fold (impact_add from to) rs
       \<lparr>ISExecuted = 0, ISSucceeded = 0, ISAlone = 0, ISResolutions = [], ISOldest = 0\<rparr>"

definition medianOf :: "duration list \<Rightarrow> duration" where
  "medianOf ds = (let s = sort_slice (<) ds in s ! ((length s - 1) div 2))"

definition points :: "int \<Rightarrow> string \<times> string" where
  "points change =
     (if 0 < change then (''up '' @ itoa change @ '' points'', ''better'')
      else if change < 0 then (''down '' @ itoa (- change) @ '' points'', ''worse'')
      else (''level'', ''level''))"

definition path_of_state :: "remediation_state \<Rightarrow> string" where
  "path_of_state st = filter_path (no_filter\<lparr>FState := state_string st\<rparr>)"

definition handledAlone :: "impact_slice \<Rightarrow> impact_slice \<Rightarrow> bool \<Rightarrow> impact_figure" where
  "handledAlone current previous comparable =
     (let share = percent (ISAlone current) (ISExecuted current);
          figure = \<lparr>IFLabel = ''Handled without a person'', IFValue = itoa share @ ''%'',
            IFDetail = itoa (ISAlone current) @ '' of '' @ plural_of (ISExecuted current) ''execution''
              @ '' ran for real, succeeded, and needed no approval'',
            IFDelta = '''', IFDirection = '''', IFTone = toneOK, IFURL = path_of_state RemediationStateSucceeded\<rparr>
      in if \<not> comparable then figure
         else let (delta, direction) = points (share - percent (ISAlone previous) (ISExecuted previous))
           in figure\<lparr>IFDelta := delta, IFDirection := direction\<rparr>)"

definition alertToOutcome :: "impact_slice \<Rightarrow> impact_slice \<Rightarrow> bool \<Rightarrow> impact_figure" where
  "alertToOutcome current previous comparable =
     (let figure = \<lparr>IFLabel = ''Alert to outcome'', IFValue = '''', IFDetail = '''', IFDelta = '''',
            IFDirection = '''', IFTone = toneMuted, IFURL = remediationsPath\<rparr>;
          n = int (length (ISResolutions current))
      in if length (ISResolutions current) < medianFloor then
           figure\<lparr>IFValue := em_dash,
             IFDetail := plural_of n ''record'' @ '' in this window carry both a firing time and an outcome ''
               @ em_dash @ '' too few for a median''\<rparr>
         else
           let median = medianOf (ISResolutions current);
               figure = figure\<lparr>IFValue := FormatDuration median,
                 IFDetail := ''median over '' @ plural_of n ''record'' @ '', from the alert firing''\<rparr>
           in if \<not> comparable \<or> length (ISResolutions previous) < medianFloor then figure
              else let change = wrap64 (median - medianOf (ISResolutions previous))
                in if 0 < change then
                     figure\<lparr>IFDelta := FormatDuration change @ '' slower'', IFDirection := ''worse''\<rparr>
                   else if change < 0 then
                     figure\<lparr>IFDelta := FormatDuration (wrap64 (- change)) @ '' faster'', IFDirection := ''better''\<rparr>
                   else figure\<lparr>IFDelta := ''unchanged'', IFDirection := ''level''\<rparr>)"

definition volume :: "impact_slice \<Rightarrow> impact_slice \<Rightarrow> bool \<Rightarrow> impact_figure" where
  "volume current previous comparable =
     (let figure = \<lparr>IFLabel = ''Ran for real'', IFValue = itoa (ISExecuted current),
            IFDetail = plural_of (ISExecuted current - ISSucceeded current) ''execution'' @ '' failed'',
            IFDelta = '''', IFDirection = '''', IFTone = toneMuted, IFURL = remediationsPath\<rparr>;
          change = ISExecuted current - ISExecuted previous
      in if \<not> comparable then figure
         else if 0 < change then
           figure\<lparr>IFDelta := itoa change @ '' more than the window before'', IFDirection := ''level''\<rparr>
         else if change < 0 then
           figure\<lparr>IFDelta := itoa (- change) @ '' fewer than the window before'', IFDirection := ''level''\<rparr>
         else figure\<lparr>IFDelta := ''the same as the window before'', IFDirection := ''level''\<rparr>)"

definition buildImpact :: "remediation list \<Rightarrow> window \<Rightarrow> time \<Rightarrow> impact_panel" where
  "buildImpact rs w now =
     (let span = Span w;
          current = collectImpact rs (time_add now (- span)) now;
          previous = collectImpact rs (time_add now (- 2 * span)) (time_add now (- span));
          comparable = (0 < ISExecuted previous);
          panel = \<lparr>IPWindow = WLabel w, IPFigures = [], IPCovered = '''', IPComparable = comparable\<rparr>
      in if ISExecuted current = 0 then panel
         else panel\<lparr>IPCovered :=
               (if ISOldest current \<noteq> 0 then
                  (let covered = time_sub now (ISOldest current)
                   in if WBucket w \<le> wrap64 (span - covered) then FormatPeriod covered else '''')
                else ''''),
             IPFigures := [handledAlone current previous comparable, alertToOutcome current previous comparable,
                volume current previous comparable]\<rparr>)"

section \<open>What needs a person\<close>

record attention_item =
  AICount :: int
  AILabel :: string
  AIDetail :: string
  AITone :: string
  AIURL :: string

definition approvalsPath :: string where "approvalsPath = ''/approvals''"

record attention_counts =
  NFailed :: int
  NUnheard :: int
  NUntold :: int
  NInterrupted :: int
  NWaiting :: int

definition attention_add :: "remediation \<Rightarrow> attention_counts \<Rightarrow> attention_counts" where
  "attention_add rem n =
     (let st = Status rem in
      if State st = RemediationStateAwaitingApproval then n\<lparr>NWaiting := NWaiting n + 1\<rparr>
      else if State st \<noteq> RemediationStateFailed then n
      else
        let n1 = n\<lparr>NFailed := NFailed n + 1\<rparr>;
            n2 = (case Escalation st of
                    None \<Rightarrow> n1\<lparr>NUntold := NUntold n1 + 1\<rparr>
                  | Some e \<Rightarrow> if EscPhase e \<noteq> StepPhaseSucceeded then n1\<lparr>NUnheard := NUnheard n1 + 1\<rparr> else n1)
        in if Reason st = ReasonInterrupted then n2\<lparr>NInterrupted := NInterrupted n2 + 1\<rparr> else n2)"

definition attention_counts_of :: "remediation list \<Rightarrow> attention_counts" where
  "attention_counts_of rs =
     fold attention_add rs \<lparr>NFailed = 0, NUnheard = 0, NUntold = 0, NInterrupted = 0, NWaiting = 0\<rparr>"

definition buildAttention :: "remediation list \<Rightarrow> attention_item list" where
  "buildAttention rs =
     (let n = attention_counts_of rs;
          failedState = state_string RemediationStateFailed;
          failedURL = filter_path (no_filter\<lparr>FState := failedState\<rparr>);
          unheardURL = filter_path (no_filter\<lparr>FState := failedState, FEscalation := EscalationFailed\<rparr>);
          untoldURL = filter_path (no_filter\<lparr>FState := failedState, FEscalation := EscalationNone\<rparr>);
          items =
            (if 0 < NWaiting n then
               [\<lparr>AICount = NWaiting n, AILabel = plural_of (NWaiting n) ''remediation-remediations'' @ '' waiting for you'',
                 AIDetail = ''Nothing will run until somebody approves or denies them, and they escalate if nobody does.'',
                 AITone = toneWaiting, AIURL = approvalsPath\<rparr>] else [])
            @ (if 0 < NUnheard n then
               [\<lparr>AICount = NUnheard n, AILabel = unit_word (NUnheard n) ''escalation-escalations'' @ '' failed'',
                 AIDetail = ''A remediation failed and the attempt to report it failed too. Assume nobody was told.'',
                 AITone = toneFailed, AIURL = unheardURL\<rparr>] else [])
            @ (if 0 < NUntold n then
               [\<lparr>AICount = NUntold n, AILabel = unit_word (NUntold n) ''failure-failures'' @ '' with no escalation'',
                 AIDetail = ''Their strategies declare no onFailure.steps, so no alert went anywhere. Not a fault ''
                   @ em_dash @ '' but worth knowing before concluding it is quiet.'',
                 AITone = toneWaiting, AIURL = untoldURL\<rparr>] else [])
            @ (if 0 < NInterrupted n then
               [\<lparr>AICount = NInterrupted n, AILabel = unit_word (NInterrupted n) ''execution-executions'' @ '' interrupted'',
                 AIDetail = ''The operator restarted mid-execution. They were failed, never resumed.'',
                 AITone = toneWaiting, AIURL = failedURL\<rparr>] else [])
      in items
         @ (if 0 < NFailed n \<and> items = [] then
              [\<lparr>AICount = NFailed n, AILabel = unit_word (NFailed n) ''remediation-remediations'' @ '' failed'',
                AIDetail = ''Each was escalated successfully, so somebody was told.'',
                AITone = toneFailed, AIURL = failedURL\<rparr>] else []))"

section \<open>Posture\<close>

record posture_panel =
  PPHeadline :: string
  PPDetail :: string
  PPTone :: string
  PPMixed :: bool
  PPShowNames :: bool
  PPLive :: "string list"
  PPReporting :: "string list"

definition postureNameLimit :: nat where "postureNameLimit = 3"

fun joinNames :: "string list \<Rightarrow> string" where
  "joinNames [] = ''none''"
| "joinNames [a] = a"
| "joinNames [a, b] = a @ '' and '' @ b"
| "joinNames names = join '', '' (butlast names) @ '' and '' @ last names"

definition nameOrCount :: "string list \<Rightarrow> string" where
  "nameOrCount names =
     (if postureNameLimit < length names then itoa (int (length names)) @ '' namespaces'' else joinNames names)"

definition buildPosturePanel :: "dash_posture \<Rightarrow> posture_panel" where
  "buildPosturePanel p =
     (if PPaused p then
        \<lparr>PPHeadline = ''Remediation is paused'',
         PPDetail = ''Every strategy only reports, whatever its posture says. Records still appear, marked Simulated, so nothing about what would have happened is lost.'',
         PPTone = toneWarn, PPMixed = False, PPShowNames = False, PPLive = [], PPReporting = []\<rparr>
      else
        let mixed = posture_mixed p;
            panel = (\<lambda>headline detail show_names tone.
              \<lparr>PPHeadline = headline, PPDetail = detail, PPTone = tone, PPMixed = mixed, PPShowNames = show_names,
               PPLive = PLive p, PPReporting = PDryRunOnly p\<rparr>)
        in if mixed \<and> PDryRun p then
             panel ''Mixed'' (''Reporting only, except in '' @ nameOrCount (PLive p) @ '', where remedik acts.'')
               (postureNameLimit < length (PLive p)) toneRunning
           else if mixed then
             panel ''Mixed''
               (''Acting on matching alerts, except in '' @ nameOrCount (PDryRunOnly p) @ '', where remedik only reports.'')
               (postureNameLimit < length (PDryRunOnly p)) toneRunning
           else if PDryRun p then
             panel ''Dry-run'' ''Alerts are matched and recorded. Nothing in the cluster is changed.'' False toneDryRun
           else panel ''Live'' ''Matching alerts are remediated.'' False toneOK)"

section \<open>Breakdowns\<close>

record breakdown =
  BDName :: string
  BDTotal :: int
  BDFailed :: int
  BDSimulated :: int
  BDShare :: int
  BDFailedShare :: int
  BDURL :: string

definition breakdownLimit :: nat where "breakdownLimit = 5"

definition targetNamespaceOf :: "remediation \<Rightarrow> string" where
  "targetNamespaceOf rem = TargetNamespace (SpecTarget (Spec rem))"

definition strategyOf :: "remediation \<Rightarrow> string" where
  "strategyOf rem = StrategyName (Spec rem)"

definition byNamespace :: "string \<Rightarrow> string" where
  "byNamespace name = filter_path (no_filter\<lparr>FNamespace := name\<rparr>)"

definition byStrategy :: "string \<Rightarrow> string" where
  "byStrategy name = filter_path (no_filter\<lparr>FStrategy := name\<rparr>)"

definition breakdown_add ::
  "(remediation \<Rightarrow> string) \<Rightarrow> (string \<Rightarrow> string) \<Rightarrow> remediation \<Rightarrow> (string \<times> breakdown) list \<Rightarrow> (string \<times> breakdown) list" where
  "breakdown_add key link rem rows =
     (let name = key rem in
      if name = '''' then rows
      else
        let r0 = (case map_of rows name of
                    Some r \<Rightarrow> r
                  | None \<Rightarrow> \<lparr>BDName = name, BDTotal = 0, BDFailed = 0, BDSimulated = 0, BDShare = 0,
                             BDFailedShare = 0, BDURL = link name\<rparr>);
            r1 = r0\<lparr>BDTotal := BDTotal r0 + 1\<rparr>;
            st = State (Status rem);
            r2 = (if st = RemediationStateFailed then r1\<lparr>BDFailed := BDFailed r1 + 1\<rparr>
                  else if st = RemediationStateSimulated then r1\<lparr>BDSimulated := BDSimulated r1 + 1\<rparr>
                  else r1)
        in map_put name r2 rows)"

definition breakdown_less :: "breakdown \<Rightarrow> breakdown \<Rightarrow> bool" where
  "breakdown_less a b = (if BDTotal a \<noteq> BDTotal b then BDTotal b < BDTotal a else BDName a < BDName b)"

definition breakdown_share :: "int \<Rightarrow> breakdown \<Rightarrow> breakdown" where
  "breakdown_share largest b =
     b\<lparr>BDShare := go_div (BDTotal b * 100) largest,
       BDFailedShare := (if 0 < BDTotal b then go_div (BDFailed b * 100) (BDTotal b) else BDFailedShare b)\<rparr>"

definition buildBreakdown :: "remediation list \<Rightarrow> (remediation \<Rightarrow> string) \<Rightarrow> (string \<Rightarrow> string) \<Rightarrow> breakdown list" where
  "buildBreakdown rs key link =
     (let sorted = sort_slice breakdown_less (map snd (fold (breakdown_add key link) rs []));
          shared = (case sorted of [] \<Rightarrow> [] | b # bs \<Rightarrow> map (breakdown_share (BDTotal b)) sorted)
      in take breakdownLimit shared)"

section \<open>The dry-run report\<close>

record simulated_tally =
  STStrategy :: string
  STCount :: int
  STTargets :: int
  STShare :: int
  STExample :: string
  STLastRun :: string

record dry_run_report =
  DRActive :: bool
  DRSimulated :: int
  DRTargets :: int
  DRSince :: string
  DRSinceAge :: string
  DRPeriod :: string
  DRByStrategy :: "simulated_tally list"

record strategy_tally =
  TCount :: int
  TTargets :: "string list"
  TExample :: string
  TLast :: time

record report_state =
  RSByStrategy :: "(string \<times> strategy_tally) list"
  RSTargets :: "string list"
  RSSimulated :: int
  RSEarliest :: time

definition report_add :: "remediation \<Rightarrow> report_state \<Rightarrow> report_state" where
  "report_add rem s =
     (if State (Status rem) \<noteq> RemediationStateSimulated then s
      else
        let t = created rem; target = SpecTarget (Spec rem); name = StrategyName (Spec rem);
            t0 = (case map_of (RSByStrategy s) name of
                    Some x \<Rightarrow> x
                  | None \<Rightarrow> \<lparr>TCount = 0, TTargets = [], TExample = firstPlan rem, TLast = t\<rparr>);
            t1 = t0\<lparr>TCount := TCount t0 + 1,
                    TTargets := (if target \<noteq> '''' then add_key target (TTargets t0) else TTargets t0),
                    TLast := (if TLast t0 < t then t else TLast t0)\<rparr>
        in s\<lparr>RSSimulated := RSSimulated s + 1,
             RSEarliest := (if RSEarliest s = 0 \<or> t < RSEarliest s then t else RSEarliest s),
             RSTargets := (if target \<noteq> '''' then add_key target (RSTargets s) else RSTargets s),
             RSByStrategy := map_put name t1 (RSByStrategy s)\<rparr>)"

definition buildDryRunReport :: "remediation list \<Rightarrow> bool \<Rightarrow> time \<Rightarrow> dry_run_report option" where
  "buildDryRunReport rs dryRun now =
     (let s = fold report_add rs \<lparr>RSByStrategy = [], RSTargets = [], RSSimulated = 0, RSEarliest = 0\<rparr> in
      if \<not> dryRun \<and> RSSimulated s = 0 then None
      else
        let e = RSEarliest s;
            rows = map (\<lambda>(name, t). \<lparr>STStrategy = name, STCount = TCount t, STTargets = int (length (TTargets t)),
                     STShare = percent (TCount t) (RSSimulated s), STExample = TExample t,
                     STLastRun = FormatAge (TLast t) now\<rparr>) (RSByStrategy s)
        in Some \<lparr>DRActive = dryRun, DRSimulated = RSSimulated s, DRTargets = int (length (RSTargets s)),
             DRSince = (if e \<noteq> 0 then FormatTimestamp e else ''''),
             DRSinceAge = (if e \<noteq> 0 then FormatAge e now else ''''),
             DRPeriod = (if e \<noteq> 0 then FormatPeriod (time_sub now e) else ''''),
             DRByStrategy = sort_slice (\<lambda>a b. if STCount a \<noteq> STCount b then STCount b < STCount a
                                             else STStrategy a < STStrategy b) rows\<rparr>)"

section \<open>The front page\<close>

record stat =
  StatLabel :: string
  StatValue :: string
  StatDetail :: string
  StatTone :: string
  StatURL :: string

definition inFlightDetail :: "state_counts \<Rightarrow> string" where
  "inFlightDetail c =
     (let working = CInFlight c - CAwaiting c in
      if CAwaiting c = 0 then ''pending or running''
      else if working = 0 then ''waiting for a person''
      else itoa (CAwaiting c) @ '' waiting for a person, '' @ itoa working @ '' pending or running'')"

definition inFlightURL :: "state_counts \<Rightarrow> string" where
  "inFlightURL c = (if 0 < CAwaiting c then approvalsPath else path_of_state RemediationStatePending)"

record overview_view =
  OVPosturePanel :: posture_panel
  OVAttention :: "attention_item list"
  OVStats :: "stat list"
  OVImpact :: impact_panel
  OVWindow :: window
  OVActivity :: activity_panel
  OVNamespaces :: "breakdown list"
  OVStrategies :: "breakdown list"
  OVRecent :: "row list"
  OVTotal :: int
  OVDryRunning :: "dry_run_report option"
  OVStrategyCount :: int
  OVEnabledCount :: int

definition recentLimit :: nat where "recentLimit = 8"

definition overview_stats :: "int \<Rightarrow> int \<Rightarrow> state_counts \<Rightarrow> stat list" where
  "overview_stats n strategyCount c =
     [\<lparr>StatLabel = ''Executions'', StatValue = itoa n,
       StatDetail = ''across '' @ plural_of strategyCount ''strategy-strategies'', StatTone = toneMuted, StatURL = remediationsPath\<rparr>,
      \<lparr>StatLabel = ''Succeeded'', StatValue = itoa (CSucceeded c), StatDetail = successRate (CSucceeded c) (CFailed c),
       StatTone = toneOK, StatURL = path_of_state RemediationStateSucceeded\<rparr>,
      \<lparr>StatLabel = ''Failed'', StatValue = itoa (CFailed c), StatDetail = failedDetail (CSucceeded c) (CFailed c),
       StatTone = toneFailed, StatURL = path_of_state RemediationStateFailed\<rparr>,
      \<lparr>StatLabel = ''Simulated'', StatValue = itoa (CSimulated c), StatDetail = ''recorded, nothing changed'',
       StatTone = toneDryRun, StatURL = path_of_state RemediationStateSimulated\<rparr>,
      \<lparr>StatLabel = ''In flight'', StatValue = itoa (CInFlight c), StatDetail = inFlightDetail c,
       StatTone = toneRunning, StatURL = inFlightURL c\<rparr>]"

definition buildOverview ::
  "(time \<Rightarrow> duration) \<Rightarrow> remediation list \<Rightarrow> strategy list \<Rightarrow> dash_posture \<Rightarrow> window \<Rightarrow> time \<Rightarrow> overview_view" where
  "buildOverview offset rs strategies p w now =
     (let ordered = newestFirst rs; counts = tally ordered; n = int (length strategies)
      in \<lparr>OVPosturePanel = buildPosturePanel p,
          OVAttention = buildAttention ordered,
          OVStats = overview_stats (int (length rs)) n counts,
          OVImpact = buildImpact ordered w now,
          OVWindow = w,
          OVActivity = buildActivity offset ordered w now,
          OVNamespaces = buildBreakdown ordered targetNamespaceOf byNamespace,
          OVStrategies = buildBreakdown ordered strategyOf byStrategy,
          OVRecent = map (\<lambda>r. buildRow r now no_filter default_order) (take recentLimit ordered),
          OVTotal = int (length ordered),
          OVDryRunning = buildDryRunReport ordered (PDryRun p) now,
          OVStrategyCount = n,
          OVEnabledCount = int (length (filter IsEnabled strategies))\<rparr>)"

end
