(* ===== verification/DashNamespaces.thy ===== *)
theory DashNamespaces
  imports DashOverview
begin

text \<open>
  \<open>internal/dashboard/namespaces.go\<close> and \<open>strategies.go\<close>: where remediation is going badly, and what each
  strategy has been allowed to do and has done.
\<close>

section \<open>The filter of the namespaces page\<close>

definition postureLiveLabel :: string where "postureLiveLabel = ''Live''"
definition postureReportingLabel :: string where "postureReportingLabel = ''Reporting''"
definition attentionLimit :: nat where "attentionLimit = 12"
definition namespacesPath :: string where "namespacesPath = ''/namespaces''"

definition paramNamespaceName :: string where "paramNamespaceName = ''ns''"
definition paramPosture :: string where "paramPosture = ''posture''"
definition paramShow :: string where "paramShow = ''show''"
definition ShowAttention :: string where "ShowAttention = ''attention''"
definition ShowUnheard :: string where "ShowUnheard = ''unheard''"
definition PostureLive :: string where "PostureLive = ''live''"
definition PostureReporting :: string where "PostureReporting = ''dryRun''"

lemmas ns_word_defs = paramNamespaceName_def paramPosture_def paramShow_def ShowAttention_def ShowUnheard_def
  PostureLive_def PostureReporting_def postureLiveLabel_def postureReportingLabel_def namespacesPath_def

record namespace_filter =
  NFName :: string
  NFPosture :: string
  NFShow :: string

definition ParseNamespaceFilter :: "url_values \<Rightarrow> namespace_filter" where
  "ParseNamespaceFilter query =
     (let posture = trim_space (values_get query paramPosture); show_word = trim_space (values_get query paramShow)
      in \<lparr>NFName = trim_space (values_get query paramNamespaceName),
          NFPosture = (if posture = PostureLive then PostureLive
                       else if posture = PostureReporting then PostureReporting else ''''),
          NFShow = (if show_word = ShowAttention then ShowAttention
                    else if show_word = ShowUnheard then ShowUnheard else '''')\<rparr>)"

definition namespace_filter_active :: "namespace_filter \<Rightarrow> bool" where
  "namespace_filter_active f \<longleftrightarrow> NFName f \<noteq> '''' \<or> NFPosture f \<noteq> '''' \<or> NFShow f \<noteq> ''''"

definition namespace_filter_path :: "namespace_filter \<Rightarrow> string" where
  "namespace_filter_path f =
     (let q = fold (\<lambda>(k, v) q. if v \<noteq> '''' then values_set k v q else q)
                [(paramNamespaceName, NFName f), (paramPosture, NFPosture f), (paramShow, NFShow f)] []
      in if q = [] then namespacesPath else namespacesPath @ ''?'' @ values_encode q)"

section \<open>Rows\<close>

record namespace_row =
  NRName :: string
  NRPosture :: string
  NRPostureTone :: string
  NRPostureDetail :: string
  NRPostureNote :: string
  NRTotal :: int
  NRSucceeded :: int
  NRFailed :: int
  NRSimulated :: int
  NRInFlight :: int
  NRUnheard :: int
  NRRanForReal :: int
  NRRanDry :: int
  NRRate :: string
  NRRatePct :: int
  NRLast :: string
  NRTone :: string
  NRNote :: string
  NRURL :: string

definition new_row :: "string \<Rightarrow> namespace_row" where
  "new_row name =
     \<lparr>NRName = name, NRPosture = '''', NRPostureTone = '''', NRPostureDetail = '''', NRPostureNote = '''',
      NRTotal = 0, NRSucceeded = 0, NRFailed = 0, NRSimulated = 0, NRInFlight = 0, NRUnheard = 0,
      NRRanForReal = 0, NRRanDry = 0, NRRate = '''', NRRatePct = 0, NRLast = '''', NRTone = '''', NRNote = '''',
      NRURL = byNamespace name\<rparr>"

definition NeedsAttention :: "namespace_row \<Rightarrow> bool" where
  "NeedsAttention r \<longleftrightarrow> 0 < NRFailed r \<or> 0 < NRUnheard r"

definition keeps :: "namespace_filter \<Rightarrow> namespace_row \<Rightarrow> bool" where
  "keeps f r =
     (if NFName f \<noteq> '''' \<and> NRName r \<noteq> NFName f then False
      else if NFPosture f = PostureLive \<and> NRPosture r \<noteq> postureLiveLabel then False
      else if NFPosture f = PostureReporting \<and> NRPosture r = postureLiveLabel then False
      else if NFShow f = ShowAttention then NeedsAttention r
      else if NFShow f = ShowUnheard then 0 < NRUnheard r
      else True)"

definition wasHeard :: "remediation \<Rightarrow> bool" where
  "wasHeard rem = (case Escalation (Status rem) of None \<Rightarrow> False | Some e \<Rightarrow> EscPhase e = StepPhaseSucceeded)"

definition count_outcome :: "remediation \<Rightarrow> namespace_row \<Rightarrow> namespace_row" where
  "count_outcome rem r =
     (let st = State (Status rem) in
      if st = RemediationStateSucceeded then r\<lparr>NRSucceeded := NRSucceeded r + 1\<rparr>
      else if st = RemediationStateFailed then
        (let r' = r\<lparr>NRFailed := NRFailed r + 1\<rparr>
         in if \<not> wasHeard rem then r'\<lparr>NRUnheard := NRUnheard r' + 1\<rparr> else r')
      else if st = RemediationStateSimulated then r\<lparr>NRSimulated := NRSimulated r + 1\<rparr>
      else r\<lparr>NRInFlight := NRInFlight r + 1\<rparr>)"

definition count_execution :: "remediation \<Rightarrow> namespace_row \<Rightarrow> namespace_row" where
  "count_execution rem r =
     (let r1 = r\<lparr>NRTotal := NRTotal r + 1\<rparr>;
          r2 = (if DryRun (Spec rem) then r1\<lparr>NRRanDry := NRRanDry r1 + 1\<rparr> else r1\<lparr>NRRanForReal := NRRanForReal r1 + 1\<rparr>)
      in count_outcome rem r2)"

text \<open>The rows by name, each with the newest time seen for it.\<close>

type_synonym rows_by_name = "(string \<times> namespace_row \<times> time) list"

definition namespace_add :: "time \<Rightarrow> remediation \<Rightarrow> rows_by_name \<Rightarrow> rows_by_name" where
  "namespace_add now rem rows =
     (let name = targetNamespaceOf rem in
      if name = '''' then rows
      else
        let (r0, latest) = (case map_of rows name of Some x \<Rightarrow> x | None \<Rightarrow> (new_row name, 0));
            r1 = count_execution rem r0;
            t = created rem
        in map_put name (if latest < t then (r1\<lparr>NRLast := FormatAge t now\<rparr>, t) else (r1, latest)) rows)"

definition collect_rows :: "time \<Rightarrow> remediation list \<Rightarrow> rows_by_name" where
  "collect_rows now rs = fold (namespace_add now) rs []"

definition namespace_dry_run :: "dash_posture \<Rightarrow> string \<Rightarrow> bool" where
  "namespace_dry_run p name =
     (let d = (if name \<in> set (PLive p) then False else PDryRun p)
      in if name \<in> set (PDryRunOnly p) then True else d)"

definition applyPosture :: "dash_posture \<Rightarrow> string \<Rightarrow> namespace_row \<Rightarrow> namespace_row" where
  "applyPosture p name r =
     (if PPaused p then
        r\<lparr>NRPosture := ''Paused'', NRPostureTone := toneWarn,
          NRPostureDetail := ''remediation is paused; remedik only reports here''\<rparr>
      else if namespace_dry_run p name then
        (let r' = r\<lparr>NRPosture := postureReportingLabel, NRPostureTone := toneDryRun,
                    NRPostureDetail := ''remedik plans here, it does not act''\<rparr>
         in if 0 < NRRanForReal r' then r'\<lparr>NRPostureNote := itoa (NRRanForReal r') @ '' ran live''\<rparr> else r')
      else
        (let r' = r\<lparr>NRPosture := postureLiveLabel, NRPostureTone := toneOK, NRPostureDetail := ''remedik acts here''\<rparr>
         in if 0 < NRRanDry r' \<and> NRRanForReal r' = 0
            then r'\<lparr>NRPostureNote := itoa (NRRanDry r') @ '' only reported''\<rparr> else r'))"

definition rate_row :: "namespace_row \<Rightarrow> namespace_row" where
  "rate_row r =
     (let ran = NRSucceeded r + NRFailed r; pct = go_div (NRSucceeded r * 100) ran in
      if ran = 0 then r\<lparr>NRRate := ''nothing ran for real'', NRRatePct := -1\<rparr>
      else r\<lparr>NRRatePct := pct, NRRate := itoa pct @ ''% of '' @ plural_of ran ''attempt-attempts''\<rparr>)"

definition tone_row :: "namespace_row \<Rightarrow> namespace_row" where
  "tone_row r =
     (if 0 < NRUnheard r then
        r\<lparr>NRTone := toneFailed, NRNote := plural_of (NRUnheard r) ''failure-failures'' @ '' nobody was told about''\<rparr>
      else if 0 < NRFailed r then
        r\<lparr>NRTone := toneWarn, NRNote := plural_of (NRFailed r) ''failure-failures'' @ '', escalated''\<rparr>
      else if NRSimulated r = NRTotal r \<and> 0 < NRTotal r then
        r\<lparr>NRTone := toneDryRun, NRNote := ''only ever reported''\<rparr>
      else if 0 < NRSucceeded r then r\<lparr>NRTone := toneOK, NRNote := ''no failures recorded''\<rparr>
      else r\<lparr>NRTone := toneMuted\<rparr>)"

definition summarise_row :: "namespace_row \<Rightarrow> namespace_row" where
  "summarise_row r = tone_row (rate_row r)"

definition row_less :: "namespace_row \<Rightarrow> namespace_row \<Rightarrow> bool" where
  "row_less a b =
     (if NRUnheard a \<noteq> NRUnheard b then NRUnheard b < NRUnheard a
      else if NRFailed a \<noteq> NRFailed b then NRFailed b < NRFailed a
      else if NRTotal a \<noteq> NRTotal b then NRTotal b < NRTotal a
      else NRName a < NRName b)"

definition sortNamespaceRows :: "namespace_row list \<Rightarrow> namespace_row list" where
  "sortNamespaceRows rows = sort_slice row_less rows"

section \<open>The controls\<close>

record namespace_counts =
  NCAttention :: int
  NCUnheard :: int
  NCLive :: int
  NCReporting :: int

definition counts_add :: "namespace_row \<Rightarrow> namespace_counts \<Rightarrow> namespace_counts" where
  "counts_add r c =
     (let c1 = (if NeedsAttention r then c\<lparr>NCAttention := NCAttention c + 1\<rparr> else c);
          c2 = (if 0 < NRUnheard r then c1\<lparr>NCUnheard := NCUnheard c1 + 1\<rparr> else c1)
      in if NRPosture r = postureLiveLabel then c2\<lparr>NCLive := NCLive c2 + 1\<rparr>
         else c2\<lparr>NCReporting := NCReporting c2 + 1\<rparr>)"

record namespace_option =
  NOLabel :: string
  NOURL :: string
  NOSelected :: bool
  NOCount :: int
  NOCountless :: bool

text \<open>The value is cleared, when it is the one in force, before it is compared again for \<open>Selected\<close>.\<close>

definition namespace_option_of :: "namespace_filter \<Rightarrow> string \<Rightarrow> string \<Rightarrow> string \<Rightarrow> int \<Rightarrow> namespace_option" where
  "namespace_option_of active label v0 param n =
     (let chosen = (if param = paramPosture then NFPosture active else NFShow active);
          v = (if v0 = chosen then '''' else v0);
          next = (if param = paramPosture then active\<lparr>NFPosture := v\<rparr> else active\<lparr>NFShow := v\<rparr>)
      in \<lparr>NOLabel = label, NOURL = namespace_filter_path next, NOSelected = (v \<noteq> '''' \<and> v = chosen),
          NOCount = n, NOCountless = False\<rparr>)"

lemma option_never_selected: "\<not> NOSelected (namespace_option_of active label v param n)"
  by (simp add: namespace_option_of_def Let_def)

definition all_option :: "string \<Rightarrow> bool \<Rightarrow> namespace_option" where
  "all_option url selected =
     \<lparr>NOLabel = ''All'', NOURL = url, NOSelected = selected, NOCount = 0, NOCountless = True\<rparr>"

definition namespaceGroups :: "namespace_filter \<Rightarrow> namespace_counts \<Rightarrow> (string \<times> namespace_option list) list" where
  "namespaceGroups active c =
     (let show_options =
            [all_option (namespace_filter_path (active\<lparr>NFShow := ''''\<rparr>)) (NFShow active = '''')]
            @ (if 0 < NCAttention c then [namespace_option_of active ''Needs attention'' ShowAttention paramShow (NCAttention c)] else [])
            @ (if 0 < NCUnheard c then [namespace_option_of active ''Nobody was told'' ShowUnheard paramShow (NCUnheard c)] else []);
          posture_options =
            [all_option (namespace_filter_path (active\<lparr>NFPosture := ''''\<rparr>)) (NFPosture active = '''')]
            @ (if 0 < NCLive c then [namespace_option_of active ''Acting'' PostureLive paramPosture (NCLive c)] else [])
            @ (if 0 < NCReporting c then [namespace_option_of active ''Reporting only'' PostureReporting paramPosture (NCReporting c)] else [])
      in (if 1 < length show_options then [(''Show'', show_options)] else [])
         @ (if 2 < length posture_options then [(''Posture'', posture_options)] else []))"

section \<open>The page\<close>

record namespaces_view =
  NVRows :: "namespace_row list"
  NVRest :: "namespace_row list"
  NVTotal :: int
  NVExecutions :: int
  NVAttention :: int
  NVWithheld :: int
  NVShifted :: int
  NVFilter :: namespace_filter
  NVGroups :: "(string \<times> namespace_option list) list"
  NVNames :: "string list"
  NVShown :: int

definition finish_row :: "dash_posture \<Rightarrow> string \<times> namespace_row \<times> time \<Rightarrow> namespace_row" where
  "finish_row p x = summarise_row (applyPosture p (fst x) (fst (snd x)))"

definition buildNamespaces :: "remediation list \<Rightarrow> dash_posture \<Rightarrow> time \<Rightarrow> namespace_filter \<Rightarrow> namespaces_view" where
  "buildNamespaces rs p now f =
     (let byName = collect_rows now rs;
          rows = map (finish_row p) byName;
          counts = fold counts_add rows \<lparr>NCAttention = 0, NCUnheard = 0, NCLive = 0, NCReporting = 0\<rparr>;
          kept = filter (keeps f) rows;
          wrong = sortNamespaceRows (filter NeedsAttention kept);
          fine = sortNamespaceRows (filter (\<lambda>r. \<not> NeedsAttention r) kept)
      in \<lparr>NVRows = take attentionLimit wrong,
          NVRest = drop attentionLimit wrong @ fine,
          NVTotal = int (length byName),
          NVExecutions = sum_list (map NRTotal rows),
          NVAttention = NCAttention counts,
          NVWithheld = (if attentionLimit < length wrong then int (length wrong) - int attentionLimit else 0),
          NVShifted = int (length (filter (\<lambda>r. NRPostureNote r \<noteq> '''') (wrong @ fine))),
          NVFilter = f, NVGroups = namespaceGroups f counts, NVNames = sort (map fst byName),
          NVShown = int (length wrong) + int (length fine)\<rparr>)"

definition RestTitle :: "namespaces_view \<Rightarrow> string" where
  "RestTitle v =
     (if 0 < NVWithheld v then ''Everything else'' else if 0 < NVAttention v then ''Quiet'' else ''Every namespace'')"

definition RestNote :: "namespaces_view \<Rightarrow> string" where
  "RestNote v =
     (if 0 < NVWithheld v then
        plural_of (NVWithheld v) ''namespace-namespaces'' @ '' with failures that did not fit above, then ''
        @ plural_of (int (length (NVRest v)) - NVWithheld v) ''namespace-namespaces'' @ '' with none''
      else ''no failures on record, busiest first'')"

definition namespaces_summary :: "namespaces_view \<Rightarrow> string" where
  "namespaces_summary v =
     (let absence = ''Namespaces remedik has never touched do not appear '' @ em_dash @ '' their absence is the answer.'';
          shifted = (if 0 < NVShifted v then
            '' '' @ plural_of (NVShifted v) ''namespace-namespaces'' @ '' hold executions that ran under a different posture from the one configured now, which is why a count can look impossible beside its chip.''
            else '''')
      in if NVAttention v = 0 then
           plural_of (NVTotal v) ''namespace-namespaces'' @ '', none of them with a failure on record.'' @ shifted @ '' '' @ absence
         else plural_of (NVAttention v) ''namespace-namespaces'' @ '' of '' @ itoa (NVTotal v) @ '' have something wrong.''
              @ shifted @ '' '' @ absence)"

definition AllQuiet :: "namespaces_view \<Rightarrow> bool" where
  "AllQuiet v \<longleftrightarrow> 0 < NVTotal v \<and> NVAttention v = 0"

definition AttentionLabel :: "namespaces_view \<Rightarrow> string" where
  "AttentionLabel v = (if NVAttention v = 1 then ''1 needs attention'' else itoa (NVAttention v) @ '' need attention'')"

definition ClearNameURL :: "namespaces_view \<Rightarrow> string" where
  "ClearNameURL v = namespace_filter_path ((NVFilter v)\<lparr>NFName := ''''\<rparr>)"

section \<open>Strategies\<close>

definition ShowNotReady :: string where "ShowNotReady = ''not-ready''"
definition ShowDisabled :: string where "ShowDisabled = ''disabled''"

record step_spec_view =
  SSNumber :: int
  SSAction :: string
  SSParams :: "(string \<times> string) list"

record strategy_view =
  SVName :: string
  SVEnabled :: bool
  SVMode :: string
  SVMatchers :: "(string \<times> string) list"
  SVCooldown :: string
  SVMaxPerHour :: string
  SVSteps :: "step_spec_view list"
  SVRuns :: int
  SVLastRun :: string
  SVLastRunExact :: string
  SVAge :: string
  SVSucceeded :: int
  SVFailed :: int
  SVSimulated :: int
  SVRecent :: "row list"
  SVNotReady :: string

definition HasGuards :: "strategy_view \<Rightarrow> bool" where
  "HasGuards s \<longleftrightarrow> SVCooldown s \<noteq> '''' \<or> SVMaxPerHour s \<noteq> ''''"

fun mode_word :: "execution_mode \<Rightarrow> string" where
  "mode_word ExecutionModeAuto = ''auto''"
| "mode_word ExecutionModeApproval = ''approval''"
| "mode_word ExecutionModeManual = ''manual''"
| "mode_word (ExecutionModeOther s) = s"

definition showsStrategy :: "string \<Rightarrow> strategy_view \<Rightarrow> bool" where
  "showsStrategy show_word item =
     (if show_word = ShowNotReady then SVNotReady item \<noteq> ''''
      else if show_word = ShowDisabled then \<not> SVEnabled item
      else True)"

definition perStrategyRecent :: nat where "perStrategyRecent = 5"

definition strategy_item :: "strategy \<Rightarrow> remediation list \<Rightarrow> time \<Rightarrow> strategy_view" where
  "strategy_item s mine now =
     (let sp = StrategySpec s; st = StrategyStatus s; g = Guards sp; mode = mode_word (ExecMode (Execution sp));
          counts = tally mine
      in \<lparr>SVName = strat_name s, SVEnabled = IsEnabled s,
          SVMode = (if mode = '''' then mode_word ExecutionModeAuto else mode),
          SVMatchers = sortedLabels (Match (Trigger sp)),
          SVCooldown = (case GCooldown g of Some d \<Rightarrow> if 0 < d then shortDuration d else '''' | None \<Rightarrow> ''''),
          SVMaxPerHour = (if 0 < GMaxPerHour g then itoa (GMaxPerHour g) else ''''),
          SVSteps = map (\<lambda>(j, step). \<lparr>SSNumber = int j + 1, SSAction = Action step, SSParams = sortedLabels (With step)\<rparr>)
            (enumerate 0 (StrategySteps sp)),
          SVRuns = (if ExecutionCount st = 0 then int (length mine) else ExecutionCount st),
          SVLastRun = FormatAgeOf (LastExecutionTime st) now,
          SVLastRunExact = FormatTimestampOf (LastExecutionTime st),
          SVAge = FormatAge (CreationTimestamp (StrategyMeta s)) now,
          SVSucceeded = CSucceeded counts, SVFailed = CFailed counts, SVSimulated = CSimulated counts,
          SVRecent = map (\<lambda>r. buildRow r now no_filter default_order) (take perStrategyRecent mine),
          SVNotReady = notReadyMessage (Conditions st)\<rparr>)"

record strategies_view =
  SWStrategies :: "strategy_view list"
  SWTotal :: int
  SWEnabled :: int
  SWDisabled :: int
  SWNotReady :: int
  SWShow :: string
  SWShown :: int

definition buildStrategies :: "strategy list \<Rightarrow> remediation list \<Rightarrow> time \<Rightarrow> string \<Rightarrow> strategies_view" where
  "buildStrategies strategies rs now show_word =
     (let ordered = newestFirst rs;
          sorted = sort_slice (\<lambda>a b. strat_name a < strat_name b) strategies;
          items = map (\<lambda>s. strategy_item s (filter (\<lambda>r. StrategyName (Spec r) = strat_name s) ordered) now) sorted;
          shown = filter (showsStrategy show_word) items
      in \<lparr>SWStrategies = shown, SWTotal = int (length strategies),
          SWEnabled = int (length (filter SVEnabled items)),
          SWDisabled = int (length (filter (\<lambda>i. \<not> SVEnabled i) items)),
          SWNotReady = int (length (filter (\<lambda>i. SVNotReady i \<noteq> '''') items)),
          SWShow = show_word, SWShown = int (length shown)\<rparr>)"

text \<open>\<open>GET /strategies\<close>: an unknown view is the view of all.\<close>

definition strategies_show :: "url_values \<Rightarrow> string" where
  "strategies_show query =
     (let s = values_get query ''show'' in if s \<noteq> ShowNotReady \<and> s \<noteq> ShowDisabled then '''' else s)"

section \<open>Rows count what happened\<close>

definition in_namespace :: "string \<Rightarrow> (remediation \<Rightarrow> bool) \<Rightarrow> remediation list \<Rightarrow> int" where
  "in_namespace name P rs = int (length (filter (\<lambda>r. targetNamespaceOf r = name \<and> P r) rs))"

lemma in_namespace_Nil [simp]: "in_namespace name P [] = 0"
  by (simp add: in_namespace_def)

lemma in_namespace_snoc [simp]:
  "in_namespace name P (rs @ [r]) = in_namespace name P rs + (if targetNamespaceOf r = name \<and> P r then 1 else 0)"
  by (simp add: in_namespace_def)

lemma in_namespace_nonneg [simp]: "0 \<le> in_namespace name P rs"
  by (simp add: in_namespace_def)

abbreviation in_state :: "remediation_state \<Rightarrow> remediation \<Rightarrow> bool" where
  "in_state st r \<equiv> State (Status r) = st"

definition unheard :: "remediation \<Rightarrow> bool" where
  "unheard r \<longleftrightarrow> in_state RemediationStateFailed r \<and> \<not> wasHeard r"

definition row_counts :: "string \<Rightarrow> remediation list \<Rightarrow> namespace_row \<Rightarrow> bool" where
  "row_counts name rs row \<longleftrightarrow> NRName row = name
     \<and> NRTotal row = in_namespace name (\<lambda>r. True) rs
     \<and> NRSucceeded row = in_namespace name (in_state RemediationStateSucceeded) rs
     \<and> NRFailed row = in_namespace name (in_state RemediationStateFailed) rs
     \<and> NRSimulated row = in_namespace name (in_state RemediationStateSimulated) rs
     \<and> NRInFlight row = in_namespace name (\<lambda>r. \<not> IsTerminal (State (Status r))) rs
     \<and> NRUnheard row = in_namespace name unheard rs
     \<and> NRRanDry row = in_namespace name (\<lambda>r. DryRun (Spec r)) rs
     \<and> NRRanForReal row = in_namespace name (\<lambda>r. \<not> DryRun (Spec r)) rs"

lemma row_counts_new: "row_counts name [] (new_row name)"
  by (simp add: row_counts_def new_row_def)

lemma count_execution_fields:
  "NRName (count_execution r row) = NRName row"
  "NRTotal (count_execution r row) = NRTotal row + 1"
  "NRSucceeded (count_execution r row) = NRSucceeded row + (if in_state RemediationStateSucceeded r then 1 else 0)"
  "NRFailed (count_execution r row) = NRFailed row + (if in_state RemediationStateFailed r then 1 else 0)"
  "NRSimulated (count_execution r row) = NRSimulated row + (if in_state RemediationStateSimulated r then 1 else 0)"
  "NRInFlight (count_execution r row) = NRInFlight row + (if IsTerminal (State (Status r)) then 0 else 1)"
  "NRUnheard (count_execution r row) = NRUnheard row + (if unheard r then 1 else 0)"
  "NRRanDry (count_execution r row) = NRRanDry row + (if DryRun (Spec r) then 1 else 0)"
  "NRRanForReal (count_execution r row) = NRRanForReal row + (if DryRun (Spec r) then 0 else 1)"
  by (simp_all add: count_execution_def count_outcome_def unheard_def terminal_states Let_def)

lemma row_counts_add:
  "row_counts name rs row \<Longrightarrow> targetNamespaceOf r = name \<Longrightarrow> row_counts name (rs @ [r]) (count_execution r row)"
  by (simp add: row_counts_def count_execution_fields)

lemma row_counts_other:
  "row_counts name rs row \<Longrightarrow> targetNamespaceOf r \<noteq> name \<Longrightarrow> row_counts name (rs @ [r]) row"
  by (simp add: row_counts_def)

lemma row_counts_last: "row_counts name rs row \<Longrightarrow> row_counts name rs (row\<lparr>NRLast := x\<rparr>)"
  by (simp add: row_counts_def)

definition rows_ok :: "remediation list \<Rightarrow> rows_by_name \<Rightarrow> bool" where
  "rows_ok rs rows \<longleftrightarrow> map_wf rows \<and> fst ` set rows = {targetNamespaceOf r | r. r \<in> set rs \<and> targetNamespaceOf r \<noteq> ''''}
     \<and> (\<forall>name x. map_of rows name = Some x \<longrightarrow> row_counts name rs (fst x))"

lemma fst_map_put: "fst ` set (map_put k v m) = insert k (fst ` set m)"
  by (simp add: dom_map_of_conv_image_fst [symmetric])

lemma in_namespace_absent: "\<forall>r \<in> set rs. targetNamespaceOf r \<noteq> name \<Longrightarrow> in_namespace name P rs = 0"
  by (simp add: in_namespace_def filter_empty_conv)

lemma rows_ok_add:
  assumes "rows_ok rs rows"
  shows "rows_ok (rs @ [r]) (namespace_add now r rows)"
proof (cases "targetNamespaceOf r = ''''")
  case True
  have "\<forall>name \<in> fst ` set rows. name \<noteq> ''''" using assms by (auto simp: rows_ok_def)
  then have "map_of rows name = Some x \<Longrightarrow> name \<noteq> ''''" for name x
    by (metis map_of_SomeD fst_conv imageI)
  then show ?thesis
    using assms True row_counts_other [of _ rs _ r] by (fastforce simp: rows_ok_def namespace_add_def)
next
  case False
  let ?n = "targetNamespaceOf r"
  obtain row t where old: "(case map_of rows ?n of Some x \<Rightarrow> x | None \<Rightarrow> (new_row ?n, 0)) = (row, t)" by (cases "(case map_of rows ?n of Some x \<Rightarrow> x | None \<Rightarrow> (new_row ?n, 0))")
  have rc: "row_counts ?n rs row"
  proof (cases "map_of rows ?n")
    case None
    then have "?n \<notin> fst ` set rows" by (simp add: map_of_eq_None_iff)
    then have "\<forall>r' \<in> set rs. targetNamespaceOf r' \<noteq> ?n" using assms False by (auto simp: rows_ok_def)
    then have "row_counts ?n rs (new_row ?n)" by (simp add: row_counts_def new_row_def in_namespace_absent)
    then show ?thesis using old None by simp
  next
    case (Some x)
    then show ?thesis using old assms by (auto simp: rows_ok_def)
  qed
  define row' where "row' = (if t < created r then ((count_execution r row)\<lparr>NRLast := FormatAge (created r) now\<rparr>, created r) else (count_execution r row, t))"
  have add: "namespace_add now r rows = map_put ?n row' rows"
    using False old by (simp add: namespace_add_def Let_def row'_def)
  have "row_counts ?n (rs @ [r]) (fst row')"
    using row_counts_add [OF rc refl] row_counts_last by (simp add: row'_def)
  then have "row_counts name (rs @ [r]) (fst x)" if "map_of (map_put ?n row' rows) name = Some x" for name x
  proof (cases "name = ?n")
    case False
    then have "map_of rows name = Some x" using that by simp
    then have "row_counts name rs (fst x)" using assms unfolding rows_ok_def by blast
    then show ?thesis using False by (intro row_counts_other) auto
  qed (use that in simp)
  moreover have "fst ` set (map_put ?n row' rows) = {targetNamespaceOf r' | r'. r' \<in> set (rs @ [r]) \<and> targetNamespaceOf r' \<noteq> ''''}"
    using assms False by (auto simp: rows_ok_def fst_map_put)
  ultimately show ?thesis
    unfolding add rows_ok_def using assms by (auto simp: rows_ok_def)
qed

lemma rows_ok_collect: "rows_ok rs (collect_rows now rs)"
proof (induction rs rule: rev_induct)
  case Nil
  show ?case by (simp add: collect_rows_def rows_ok_def)
next
  case (snoc r rs)
  then show ?case using rows_ok_add [of rs "collect_rows now rs" r now] by (simp add: collect_rows_def)
qed

lemma row_counts_rate [simp]: "row_counts name rs (rate_row r) = row_counts name rs r"
  by (simp add: rate_row_def row_counts_def Let_def)

lemma row_counts_tone [simp]: "row_counts name rs (tone_row r) = row_counts name rs r"
  by (simp add: tone_row_def row_counts_def)

lemma row_counts_posture [simp]: "row_counts name rs (applyPosture p n r) = row_counts name rs r"
  by (simp add: applyPosture_def row_counts_def Let_def)

lemma posture_rate [simp]: "NRPosture (rate_row r) = NRPosture r" "NRName (rate_row r) = NRName r"
  by (simp_all add: rate_row_def Let_def)

lemma posture_tone [simp]: "NRPosture (tone_row r) = NRPosture r" "NRName (tone_row r) = NRName r"
  by (simp_all add: tone_row_def)

lemma row_counts_finish: "row_counts name rs (fst (snd x)) \<Longrightarrow> row_counts name rs (finish_row p x)"
  by (simp add: finish_row_def summarise_row_def)

lemma finish_row_posture:
  "NRPosture (finish_row p x) = (if PPaused p then ''Paused'' else if namespace_dry_run p (fst x) then postureReportingLabel else postureLiveLabel)"
  by (simp add: finish_row_def summarise_row_def applyPosture_def Let_def)

lemma finish_row_name: "NRName (finish_row p x) = NRName (fst (snd x))"
  by (simp add: finish_row_def summarise_row_def applyPosture_def Let_def)

definition all_rows :: "remediation list \<Rightarrow> dash_posture \<Rightarrow> time \<Rightarrow> namespace_row list" where
  "all_rows rs p now = map (finish_row p) (collect_rows now rs)"

lemma collect_rows_entry: "x \<in> set (collect_rows now rs) \<Longrightarrow> row_counts (fst x) rs (fst (snd x))"
  using rows_ok_collect [of rs now]
  by (cases x) (auto simp: rows_ok_def)

lemma all_rows_counts: "row \<in> set (all_rows rs p now) \<Longrightarrow> row_counts (NRName row) rs row"
proof -
  assume "row \<in> set (all_rows rs p now)"
  then obtain x where x: "x \<in> set (collect_rows now rs)" "row = finish_row p x" by (auto simp: all_rows_def)
  then have "row_counts (fst x) rs row" using row_counts_finish [OF collect_rows_entry] by simp
  then show ?thesis by (simp add: row_counts_def)
qed

lemma all_rows_names: "map NRName (all_rows rs p now) = map fst (collect_rows now rs)"
proof -
  have "NRName (fst (snd x)) = fst x" if "x \<in> set (collect_rows now rs)" for x
    using collect_rows_entry [OF that] by (simp add: row_counts_def)
  then show ?thesis by (simp add: all_rows_def finish_row_name)
qed

lemma all_rows_distinct: "distinct (map NRName (all_rows rs p now))"
  using rows_ok_collect [of rs now] by (simp add: all_rows_names rows_ok_def)

lemma all_rows_name_set:
  "NRName ` set (all_rows rs p now) = {targetNamespaceOf r | r. r \<in> set rs \<and> targetNamespaceOf r \<noteq> ''''}"
proof -
  have "NRName ` set (all_rows rs p now) = fst ` set (collect_rows now rs)"
    using arg_cong [OF all_rows_names [of rs p now], of set] by (simp only: set_map)
  also have "\<dots> = {targetNamespaceOf r | r. r \<in> set rs \<and> targetNamespaceOf r \<noteq> ''''}"
    using rows_ok_collect [of rs now] unfolding rows_ok_def by blast
  finally show ?thesis .
qed

lemma all_rows_posture:
  "row \<in> set (all_rows rs p now) \<Longrightarrow> NRPosture row =
     (if PPaused p then ''Paused'' else if namespace_dry_run p (NRName row) then postureReportingLabel else postureLiveLabel)"
  proof -
  assume "row \<in> set (all_rows rs p now)"
  then obtain x where x: "x \<in> set (collect_rows now rs)" "row = finish_row p x" by (auto simp: all_rows_def)
  have "NRName row = NRName (fst (snd x))" by (simp only: x(2) finish_row_name)
  also have "\<dots> = fst x" using collect_rows_entry [OF x(1)] by (simp only: row_counts_def)
  finally have "NRName row = fst x" .
  then show ?thesis using finish_row_posture [of p x] by (simp only: x(2) [symmetric])
qed

lemma mset_sortNamespaceRows [simp]: "mset (sortNamespaceRows rows) = mset rows"
  by (simp add: sortNamespaceRows_def)

lemma set_sortNamespaceRows [simp]: "set (sortNamespaceRows rows) = set rows"
  by (metis mset_sortNamespaceRows set_mset_mset)

lemma mset_view_rows:
  "mset (NVRows (buildNamespaces rs p now f) @ NVRest (buildNamespaces rs p now f)) = mset (filter (keeps f) (all_rows rs p now))"
proof -
  let ?k = "filter (keeps f) (all_rows rs p now)"
  have "NVRows (buildNamespaces rs p now f) @ NVRest (buildNamespaces rs p now f)
      = sortNamespaceRows (filter NeedsAttention ?k) @ sortNamespaceRows (filter (\<lambda>r. \<not> NeedsAttention r) ?k)"
    by (simp add: buildNamespaces_def Let_def all_rows_def)
  moreover have "mset (filter P xs) + mset (filter (\<lambda>x. \<not> P x) xs) = mset xs" for P and xs :: "namespace_row list"
    by (induction xs) auto
  ultimately show ?thesis by (simp del: mset_filter filter_filter)
qed

lemma counts_fold:
  "NCAttention (fold counts_add rows c) = NCAttention c + int (length (filter NeedsAttention rows))"
  by (induction rows arbitrary: c) (auto simp: counts_add_def Let_def)

lemma row_less_strict: "strict_weak row_less"
  unfolding strict_weak_def row_less_def by (auto split: if_splits)

section \<open>What is shown\<close>

lemma view_row_in_all: "row \<in> set (NVRows (buildNamespaces rs p now f) @ NVRest (buildNamespaces rs p now f))
    \<longleftrightarrow> row \<in> set (filter (keeps f) (all_rows rs p now))"
  using mset_view_rows [of rs p now f] by (metis set_mset_mset)

lemma in_namespace_pos: "0 < in_namespace name P rs \<longleftrightarrow> (\<exists>r \<in> set rs. targetNamespaceOf r = name \<and> P r)"
  by (auto simp: in_namespace_def filter_empty_conv)

lemma row_needs_attention:
  "row_counts name rs row \<Longrightarrow> NeedsAttention row \<longleftrightarrow> (\<exists>r \<in> set rs. targetNamespaceOf r = name \<and> in_state RemediationStateFailed r)"
  by (auto simp: row_counts_def NeedsAttention_def in_namespace_pos unheard_def)

lemma attention_is_failed_namespaces:
  "NVAttention (buildNamespaces rs p now f)
     = int (card {targetNamespaceOf r | r. r \<in> set rs \<and> targetNamespaceOf r \<noteq> '''' \<and> in_state RemediationStateFailed r})"
proof -
  let ?rows = "all_rows rs p now"
  let ?need = "filter NeedsAttention ?rows"
  have "NVAttention (buildNamespaces rs p now f) = int (length ?need)"
    by (simp add: buildNamespaces_def Let_def counts_fold all_rows_def)
  also have "length ?need = length (map NRName ?need)" by simp
  also have "\<dots> = card (NRName ` set ?need)"
    using distinct_card [of "map NRName ?need"] all_rows_distinct [of rs p now]
    by (simp add: distinct_map_filter)
  also have "NRName ` set ?need = {targetNamespaceOf r | r. r \<in> set rs \<and> targetNamespaceOf r \<noteq> '''' \<and> in_state RemediationStateFailed r}"
    (is "_ = ?F")
  proof (intro set_eqI iffI)
    fix n
    assume "n \<in> NRName ` set ?need"
    then obtain row where row: "row \<in> set ?rows" "NeedsAttention row" "n = NRName row" by auto
    then have "n \<in> NRName ` set ?rows" by simp
    then have "n \<noteq> ''''" by (auto simp: all_rows_name_set)
    moreover obtain r where "r \<in> set rs" "targetNamespaceOf r = n" "in_state RemediationStateFailed r"
      using row row_needs_attention [OF all_rows_counts [OF row(1)]] by auto
    ultimately show "n \<in> ?F" by blast
  next
    fix n
    assume "n \<in> ?F"
    then obtain r where r: "r \<in> set rs" "targetNamespaceOf r = n" "n \<noteq> ''''" "in_state RemediationStateFailed r" by auto
    then have "n \<in> NRName ` set ?rows" by (auto simp: all_rows_name_set)
    then obtain row where row: "row \<in> set ?rows" "n = NRName row" by auto
    then have "NeedsAttention row" using row_needs_attention [OF all_rows_counts [OF row(1)]] r by auto
    then show "n \<in> NRName ` set ?need" using row by auto
  qed
  finally show ?thesis by simp
qed

end
