(* ===== verification/DashDetail.thy ===== *)
theory DashDetail
  imports DashNamespaces
begin

text \<open>
  \<open>internal/dashboard/remediation.go\<close>, \<open>timeline.go\<close>, \<open>explain.go\<close>, \<open>links.go\<close> and \<open>approvals.go\<close>: the page of
  one execution, with its steps, its moments in order, what a rule makes of its failure, the links out
  of it, and the queue of the records that wait for a person.
\<close>

section \<open>Steps\<close>

record step_view =
  VSNumber :: int
  VSAction :: string
  VSTarget :: string
  VSPhase :: string
  VSTone :: string
  VSPlan :: string
  VSMessage :: string
  VSParams :: "(string \<times> string) list"
  VSStarted :: string
  VSDuration :: string
  VSKubectl :: string
  VSOutputs :: "(string \<times> string) list"
  VSVerified :: string
  VSRan :: bool

text \<open>\<open>v1alpha1.StepPhase(s)\<close>: the phase a string names.\<close>

definition phase_of_string :: "string \<Rightarrow> step_phase" where
  "phase_of_string s =
     (case find (\<lambda>p. phase_string p = s) [StepPhasePending, StepPhaseRunning, StepPhaseSucceeded, StepPhaseFailed,
         StepPhaseSkipped, StepPhaseSimulated] of
        Some p \<Rightarrow> p | None \<Rightarrow> StepPhaseOther s)"

definition status_at :: "step_status list \<Rightarrow> int \<Rightarrow> step_status option" where
  "status_at recorded i = map_of (rev (map (\<lambda>st. (Index st, st)) recorded)) i"

definition highest_index :: "step_status list \<Rightarrow> int" where
  "highest_index recorded = fold (\<lambda>st h. if h < Index st then Index st else h) recorded (-1)"

definition step_view_at :: "step list \<Rightarrow> step_status list \<Rightarrow> int \<Rightarrow> step_view" where
  "step_view_at plan recorded i =
     (let planned = (if nat i < length plan then Some (plan ! nat i) else None);
          v0 = \<lparr>VSNumber = i + 1,
            VSAction = (case planned of Some s \<Rightarrow> Action s | None \<Rightarrow> ''''),
            VSTarget = '''', VSPhase = phase_string StepPhasePending, VSTone = '''', VSPlan = '''', VSMessage = '''',
            VSParams = (case planned of Some s \<Rightarrow> sortedLabels (With s) | None \<Rightarrow> []),
            VSStarted = '''', VSDuration = '''', VSKubectl = '''', VSOutputs = [], VSVerified = '''', VSRan = False\<rparr>;
          v1 = (case status_at recorded i of
            None \<Rightarrow> v0
          | Some st \<Rightarrow>
              v0\<lparr>VSRan := True,
                 VSAction := (if StepAction st \<noteq> '''' then StepAction st else VSAction v0),
                 VSTarget := StepTarget st, VSPhase := phase_string (Phase st), VSPlan := Plan st,
                 VSMessage := StepMessage st, VSKubectl := Kubectl st, VSOutputs := sortedLabels (Outputs st),
                 VSVerified := Verified st, VSStarted := FormatTimestampOf (StepStartedAt st),
                 VSDuration := FormatSpan (StepStartedAt st) (StepCompletedAt st)\<rparr>)
      in v1\<lparr>VSTone := phaseTone (phase_of_string (VSPhase v1))\<rparr>)"

definition joinSteps :: "step list \<Rightarrow> step_status list \<Rightarrow> step_view list" where
  "joinSteps plan recorded =
     map (step_view_at plan recorded) [0..max (int (length plan)) (highest_index recorded + 1) - 1]"

definition buildSteps :: "remediation \<Rightarrow> step_view list" where
  "buildSteps rem = joinSteps (SpecSteps (Spec rem)) (StatusSteps (Status rem))"

definition failedStep :: "step_view list \<Rightarrow> step_view option" where
  "failedStep steps = find (\<lambda>s. VSPhase s = phase_string StepPhaseFailed) steps"

section \<open>Escalation and approval\<close>

record escalation_view =
  EVPhase :: string
  EVTone :: string
  EVMessage :: string
  EVCompleted :: string
  EVSteps :: "step_view list"
  EVSent :: bool

definition ShowMessage :: "escalation_view \<Rightarrow> bool" where
  "ShowMessage v = (if EVMessage v = '''' then False else list_all (\<lambda>s. VSMessage s \<noteq> EVMessage v) (EVSteps v))"

definition buildEscalation :: "remediation \<Rightarrow> escalation_view option" where
  "buildEscalation rem =
     (case Escalation (Status rem) of
        None \<Rightarrow> None
      | Some esc \<Rightarrow>
          Some \<lparr>EVPhase = phase_string (EscPhase esc), EVTone = phaseTone (EscPhase esc), EVMessage = EscMessage esc,
            EVCompleted = FormatTimestampOf (EscCompletedAt esc),
            EVSteps = joinSteps (EscalationSteps (Spec rem)) (EscSteps esc),
            EVSent = (EscPhase esc = StepPhaseSucceeded)\<rparr>)"

record approval_view =
  AVApprove :: string
  AVDeny :: string
  AVDeadline :: string
  AVLeft :: string

definition patch_command :: "remediation \<Rightarrow> string \<Rightarrow> string" where
  "patch_command rem decision =
     (let q = [char_of (34::nat)] in
      ''kubectl -n '' @ Namespace (Meta rem) @ '' patch remediation '' @ rem_name rem @ '' --type merge ''
      @ [char_of (92::nat), char_of (10::nat)] @ ''  -p '' @ [char_of (39::nat)] @ ''{'' @ q @ ''spec'' @ q @ '':{'' @ q
      @ ''approval'' @ q @ '':{'' @ q @ ''decision'' @ q @ '':'' @ q @ decision @ q @ '','' @ q @ ''by'' @ q @ '':'' @ q
      @ ''YOUR-NAME'' @ q @ ''}}}'' @ [char_of (39::nat)])"

definition approvalCommands :: "remediation \<Rightarrow> string \<times> string" where
  "approvalCommands rem = (patch_command rem ''approve'', patch_command rem ''deny'')"

definition buildApproval :: "remediation \<Rightarrow> time \<Rightarrow> approval_view option" where
  "buildApproval rem now =
     (if State (Status rem) \<noteq> RemediationStateAwaitingApproval then None
      else
        let (approve, deny) = approvalCommands rem;
            deadline = ApprovalDeadline (Spec rem)
        in Some \<lparr>AVApprove = approve, AVDeny = deny,
             AVDeadline = (case deadline of Some d \<Rightarrow> FormatTimestamp d | None \<Rightarrow> ''''),
             AVLeft = (case deadline of
                Some d \<Rightarrow> let left = time_sub d now in if 0 < left then FormatDuration left else ''''
              | None \<Rightarrow> '''')\<rparr>)"

section \<open>The one line\<close>

definition summarise_record :: "remediation \<Rightarrow> step_view list \<Rightarrow> string" where
  "summarise_record rem steps =
     (let st = Status rem;
          waiting = ''Created and waiting for the reconciler to pick it up.''
      in case State st of
           RemediationStateSucceeded \<Rightarrow> ''Completed '' @ plural_of (int (length steps)) ''step'' @ ''.''
         | RemediationStateSimulated \<Rightarrow>
             ''Dry-run: the plan below was recorded and nothing in the cluster was changed.''
         | RemediationStateFailed \<Rightarrow>
             (if Reason st = ReasonInterrupted then
                ''The operator restarted while this attempt was running. It was failed rather than resumed, because silently repeating a step that had already changed something is the worse outcome.''
              else if Reason st = ReasonUnknownAction then
                ''A step named an action this build does not implement. '' @ Message st
              else if Reason st = ReasonStepFailed then
                (case failedStep steps of
                   Some s \<Rightarrow> ''Step '' @ itoa (VSNumber s) @ '' ('' @ VSAction s @ '') failed: '' @ VSMessage s
                 | None \<Rightarrow> ''A step failed and no retries remained. '' @ Message st)
              else if Message st \<noteq> '''' then Message st
              else ''The execution failed.'')
         | RemediationStateRunning \<Rightarrow> ''Attempt '' @ itoa (Attempt st) @ '' is running.''
         | RemediationStateAwaitingApproval \<Rightarrow>
             (if Message st \<noteq> '''' then Message st
              else ''Waiting for somebody to approve or deny it. Nothing has been resolved or planned yet: that happens when it is approved, against the cluster as it is then.'')
         | RemediationStatePending \<Rightarrow>
             (if 0 < Attempt st then
                ''Attempt '' @ itoa (Attempt st) @ '' failed; waiting to retry ('' @ plural_of (Retries (Spec rem)) ''retry-retries''
                @ '' allowed).''
              else waiting)
         | RemediationStateOther s \<Rightarrow> waiting)"

section \<open>This target, before\<close>

record target_mark =
  TMName :: string
  TMURL :: string
  TMState :: string
  TMTone :: string
  TMAge :: string
  TMCurrent :: bool

record target_history =
  THTarget :: string
  THURL :: string
  THMarks :: "target_mark list"
  THMore :: int
  THRepeated :: bool

definition historyLimit :: nat where "historyLimit = 6"

definition target_mark_of :: "remediation \<Rightarrow> time \<Rightarrow> remediation \<Rightarrow> target_mark" where
  "target_mark_of rem now x =
     \<lparr>TMName = rem_name x, TMURL = ''/remediations/'' @ rem_name x, TMState = displayState (State (Status x)),
      TMTone = stateTone (State (Status x)), TMAge = FormatAge (created x) now, TMCurrent = (rem_name x = rem_name rem)\<rparr>"

definition buildTargetHistory :: "remediation \<Rightarrow> remediation list \<Rightarrow> time \<Rightarrow> target_history option" where
  "buildTargetHistory rem rs now =
     (if SpecTarget (Spec rem) = '''' then None
      else
        let mine = filter (\<lambda>r. SpecTarget (Spec r) = SpecTarget (Spec rem)) rs in
        if length mine < 2 then None
        else Some \<lparr>THTarget = SpecTarget (Spec rem),
               THURL = filter_path (no_filter\<lparr>FTarget := SpecTarget (Spec rem)\<rparr>),
               THMarks = map (target_mark_of rem now) (take historyLimit (sortNewestFirst mine)),
               THMore = (if historyLimit < length mine then int (length mine) - int historyLimit else 0),
               THRepeated = True\<rparr>)"

section \<open>The timeline\<close>

record timeline_entry =
  TELabel :: string
  TEDetail :: string
  TETone :: string
  TEAt :: string
  TEElapsed :: string
  TEDuration :: string
  TEBar :: int

record timeline =
  TLEntries :: "timeline_entry list"
  TLTotal :: string
  TLInstant :: bool

record moment =
  MEntry :: timeline_entry
  MAt :: time
  MKnown :: bool
  MSpan :: duration

definition barFloor :: duration where "barFloor = second"

definition no_timeline :: timeline where
  "no_timeline = \<lparr>TLEntries = [], TLTotal = '''', TLInstant = False\<rparr>"

definition known_time :: "time option \<Rightarrow> bool" where
  "known_time moment_at = (case moment_at of Some t \<Rightarrow> t \<noteq> 0 | None \<Rightarrow> False)"

definition moment_of :: "string \<Rightarrow> string \<Rightarrow> string \<Rightarrow> time option \<Rightarrow> duration \<Rightarrow> moment" where
  "moment_of label detail tone moment_at len =
     \<lparr>MEntry = \<lparr>TELabel = label, TEDetail = detail, TETone = tone, TEAt = FormatTimestampOf moment_at, TEElapsed = '''',
        TEDuration = (if barFloor \<le> len then FormatDuration len else ''''), TEBar = 0\<rparr>,
      MAt = (if known_time moment_at then the moment_at else 0), MKnown = known_time moment_at, MSpan = len\<rparr>"

definition between :: "time option \<Rightarrow> time option \<Rightarrow> duration" where
  "between from to =
     (case (from, to) of
        (Some f, Some t) \<Rightarrow> if f = 0 \<or> t = 0 then 0 else (let span = time_sub t f in if 0 < span then span else 0)
      | _ \<Rightarrow> 0)"

definition postureWord :: "bool \<Rightarrow> string" where
  "postureWord dryRun = (if dryRun then ''reporting only'' else ''acting'')"

definition attemptWord :: "int \<Rightarrow> string" where
  "attemptWord attempt = (if 1 < attempt then ''Attempt '' @ itoa attempt @ '' started'' else ''Started'')"

definition approvalWord :: "approval_decision \<Rightarrow> string" where
  "approvalWord decision = (if decision = ApprovalDeny then ''Denied by a person'' else ''Approved by a person'')"

definition approvalDetail :: "approval \<Rightarrow> string" where
  "approvalDetail d =
     (let who = (if By d = '''' then ''nobody named'' else By d)
      in if Note d \<noteq> '''' then who @ '' '' @ em_dash @ '' '' @ Note d else who)"

definition stepDetail :: "step_status \<Rightarrow> string" where
  "stepDetail st =
     (if StepMessage st \<noteq> '''' then StepMessage st else if Plan st \<noteq> '''' then Plan st else phase_string (Phase st))"

definition escalationWord :: "escalation_status \<Rightarrow> string" where
  "escalationWord esc = (if EscPhase esc = StepPhaseSucceeded then ''Somebody was told'' else ''Telling somebody failed'')"

definition escalationDetail :: "escalation_status \<Rightarrow> string" where
  "escalationDetail esc =
     (if EscMessage esc \<noteq> '''' then EscMessage esc
      else if EscPhase esc = StepPhaseSucceeded then ''the escalation went out''
      else ''assume nobody knows'')"

definition moments :: "remediation \<Rightarrow> moment list" where
  "moments rem =
     (let sp = Spec rem; st = Status rem in
      (if known_time (RefStartsAt (SpecAlert sp))
       then [moment_of ''Alert fired'' (RefName (SpecAlert sp)) toneWarn (RefStartsAt (SpecAlert sp)) 0] else [])
      @ [moment_of ''Recorded'' (StrategyName sp @ '' matched, '' @ postureWord (DryRun sp)) toneMuted (Some (created rem)) 0]
      @ (case Approval sp of
           Some d \<Rightarrow> [moment_of (approvalWord (Decision d)) (approvalDetail d) toneWaiting None 0]
         | None \<Rightarrow> if State st = RemediationStateAwaitingApproval
             then [moment_of ''Waiting for a person'' ''nothing is resolved or planned until it is approved'' toneWarn None 0]
             else [])
      @ (if known_time (StartedAt st) then [moment_of (attemptWord (Attempt st)) '''' toneRunning (StartedAt st) 0] else [])
      @ map (\<lambda>x. moment_of (''Step '' @ itoa (wrap32 (Index x + 1)) @ '' '' @ em_dash @ '' '' @ StepAction x) (stepDetail x)
               (phaseTone (Phase x)) (StepStartedAt x) (between (StepStartedAt x) (StepCompletedAt x))) (StatusSteps st)
      @ (if known_time (CompletedAt st)
         then [moment_of (displayState (State st)) (Reason st) (stateTone (State st)) (CompletedAt st) 0] else [])
      @ (case Escalation st of
           Some esc \<Rightarrow> [moment_of (escalationWord esc) (escalationDetail esc) (phaseTone (EscPhase esc)) (EscCompletedAt esc) 0]
         | None \<Rightarrow> []))"

definition extent :: "moment list \<Rightarrow> time \<times> time" where
  "extent ms =
     fold (\<lambda>m (first, final).
       if \<not> MKnown m then (first, final)
       else (if first = 0 \<or> MAt m < first then MAt m else first, if final < MAt m then MAt m else final)) ms (0, 0)"

text \<open>The entries, each with the gap since the one before it that has a time.\<close>

fun entries :: "duration \<Rightarrow> time option \<Rightarrow> moment list \<Rightarrow> timeline_entry list" where
  "entries whole previous [] = []"
| "entries whole previous (m # ms) =
     (let e0 = MEntry m;
          e1 = (case previous of
                  Some p \<Rightarrow>
                    if MKnown m \<and> barFloor \<le> time_sub (MAt m) p
                    then e0\<lparr>TEElapsed := ''+'' @ FormatDuration (time_sub (MAt m) p)\<rparr> else e0
                | None \<Rightarrow> e0);
          e2 = (if barFloor \<le> MSpan m \<and> 0 < whole then e1\<lparr>TEBar := go_div (wrap64 (MSpan m * 100)) whole\<rparr> else e1)
      in e2 # entries whole (if MKnown m then Some (MAt m) else previous) ms)"

definition buildTimeline :: "remediation \<Rightarrow> timeline" where
  "buildTimeline rem =
     (let ms = moments rem in
      if length ms < 2 then no_timeline
      else
        let (first, final) = extent ms; whole = time_sub final first; instant = (whole < barFloor)
        in \<lparr>TLEntries = entries whole None ms, TLTotal = (if instant then '''' else FormatDuration whole),
            TLInstant = instant\<rparr>)"

section \<open>Explanations\<close>

record explanation =
  EXCause :: string
  EXAlso :: string
  EXNext :: string
  EXNextWhy :: string
  EXRead :: "string list"
  EXTone :: string

definition ReasonGuardRejected :: string where "ReasonGuardRejected = ''GuardRejected''"

fun failure_message_of :: "step_status list \<Rightarrow> string \<Rightarrow> string" where
  "failure_message_of [] m = m"
| "failure_message_of (st # sts) m =
     (if Phase st = StepPhaseFailed \<and> StepMessage st \<noteq> '''' then StepMessage st else failure_message_of sts m)"

definition failureMessage :: "remediation \<Rightarrow> string" where
  "failureMessage rem = failure_message_of (StatusSteps (Status rem)) (Message (Status rem))"

definition has_reason :: "string \<Rightarrow> remediation \<Rightarrow> bool" where
  "has_reason want rem \<longleftrightarrow> Reason (Status rem) = want"

definition stepFailedWithAny :: "string list \<Rightarrow> remediation \<Rightarrow> bool" where
  "stepFailedWithAny phrases rem =
     (if Reason (Status rem) \<noteq> ReasonStepFailed then False
      else list_ex (\<lambda>phrase. sublist phrase (to_lower (failureMessage rem))) phrases)"

definition stepFailedWith :: "string \<Rightarrow> remediation \<Rightarrow> bool" where
  "stepFailedWith phrase = stepFailedWithAny [phrase]"

definition explain_with :: "string \<Rightarrow> string \<Rightarrow> string \<Rightarrow> string list \<Rightarrow> string \<Rightarrow> explanation" where
  "explain_with cause next why read tone =
     \<lparr>EXCause = cause, EXAlso = '''', EXNext = next, EXNextWhy = why, EXRead = read, EXTone = tone\<rparr>"

definition unknownAction :: "remediation \<Rightarrow> explanation" where
  "unknownAction rem = explain_with
     ''The strategy names an action this build does not have. That is one of two things and they need different fixes: the name is misspelled, or the action is real and the chart does not enable it.''
     ''kubectl get remediationstrategies'' ''the READY column names the step and lists what is enabled''
     [''status.reason'', ''spec.steps[].action''] toneFailed"

definition interrupted :: "remediation \<Rightarrow> explanation" where
  "interrupted rem = explain_with
     (''The operator restarted while this attempt was running. It was failed rather than resumed, so any step above marked Succeeded did happen and anything after it did not ''
      @ em_dash @ '' the cluster is somewhere in the middle of this plan.'')
     '''' '''' [''status.reason'', ''status.steps[].phase''] toneFailed"

definition approvalTimedOut :: "remediation \<Rightarrow> explanation" where
  "approvalTimedOut rem = explain_with
     (''Nobody decided in time, so it expired. That is silence, not refusal: the difference matters, because a denial would have said why.''
      @ (if wasHeard rem then '' The escalation went out, so somebody was told the alert is still true.'' else ''''))
     (''kubectl get remediationstrategy '' @ StrategyName (Spec rem) @ '' -o yaml'')
     ''execution.approvalTimeout is the window nobody made it inside''
     [''status.reason'', ''spec.approvalDeadline''] toneWarn"

definition denied :: "remediation \<Rightarrow> explanation" where
  "denied rem = explain_with
     ((case Approval (Spec rem) of Some a \<Rightarrow> if By a \<noteq> '''' then By a else ''Somebody'' | None \<Rightarrow> ''Somebody'')
      @ '' looked at this and said no, so nothing ran and nothing was escalated '' @ em_dash
      @ '' telling them again is not information.''
      @ (case Approval (Spec rem) of Some a \<Rightarrow> if Note a \<noteq> '''' then '' They left a note: '' @ Note a else '''' | None \<Rightarrow> ''''))
     '''' '''' [''spec.approval.decision'', ''spec.approval.by''] toneMuted"

definition gaveUp :: "remediation \<Rightarrow> explanation" where
  "gaveUp rem = explain_with
     (''remedik remediated this target enough times inside the strategy'' @ [char_of (39::nat)]
      @ ''s giveUpAfter window without the problem going away, so it stopped. This record performed nothing: it is the decision, not an attempt.'')
     '''' '''' [''status.reason'', ''spec.target''] toneWarn"

definition guardRejected :: "remediation \<Rightarrow> explanation" where
  "guardRejected rem = explain_with
     (''A guard refused this before anything ran '' @ em_dash
      @ '' a cooldown that had not elapsed, an hourly limit already reached, or a blast radius wider than the strategy allows. Nothing in the cluster was touched.'')
     (''kubectl get remediationstrategy '' @ StrategyName (Spec rem) @ '' -o yaml'')
     ''the guards block is what refused it'' [''status.reason'', ''status.message''] toneMuted"

definition lookAtTarget :: "string \<Rightarrow> string \<times> string" where
  "lookAtTarget target =
     (case split_on (CHR ''/'') target of
        [kind, name] \<Rightarrow> (''kubectl get '' @ kind @ '' '' @ name, ''whether the object is there at all'')
      | [kind, ns, name] \<Rightarrow> (''kubectl -n '' @ ns @ '' get '' @ kind @ '' '' @ name, ''whether the object is there at all'')
      | _ \<Rightarrow> ('''', ''''))"

definition notFound :: "remediation \<Rightarrow> explanation" where
  "notFound rem =
     (let claimed = map_get (RefLabels (SpecAlert (Spec rem))) ''namespace'';
          actual = TargetNamespace (SpecTarget (Spec rem));
          e = (if claimed \<noteq> '''' \<and> actual \<noteq> '''' \<and> claimed \<noteq> actual then
                 explain_with (''The alert says namespace '' @ quote claimed @ '' and the step looked in '' @ quote actual
                     @ ''. The target was built from labels that disagree '' @ em_dash
                     @ '' which is what a managed rule package producing `exported_namespace` looks like from here.'')
                   '''' '''' [''spec.alert.labels.namespace'', ''spec.target'', ''status.steps[].message''] toneFailed
               else
                 explain_with (''The object the step was told to act on does not exist. Either it has been deleted since the alert fired ''
                     @ em_dash @ '' a workload that was replaced, or scaled away '' @ em_dash
                     @ '' or it never existed under that name.'')
                   '''' '''' [''spec.target'', ''status.steps[].message''] toneFailed);
          (command, why) = lookAtTarget (SpecTarget (Spec rem))
      in if command \<noteq> '''' then e\<lparr>EXNext := command, EXNextWhy := why\<rparr> else e)"

definition forbidden :: "remediation \<Rightarrow> explanation" where
  "forbidden rem = explain_with
     (''The identity the step runs as is not allowed to do this. An action'' @ [char_of (39::nat)]
      @ ''s authority is named, never inherited: a remediation Job runs as the ServiceAccount its step names '' @ em_dash
      @ '' remedik'' @ [char_of (39::nat)] @ ''s own is refused on purpose '' @ em_dash
      @ '' so the missing permission belongs to that account, not to the operator.'')
     ''kubectl auth can-i --list --as=system:serviceaccount:NAMESPACE:NAME''
     ''what the account the step names is actually allowed to do''
     [''status.steps[].message'', ''spec.steps[].with.serviceAccountName''] toneFailed"

definition alreadyExists :: "remediation \<Rightarrow> explanation" where
  "alreadyExists rem = explain_with
     ''The step tried to create something that is already there. Usually an earlier attempt of this same remediation got that far before failing, so the retry met its own leftovers.''
     '''' '''' [''status.attempt'', ''status.steps[].message''] toneFailed"

definition tooSlow :: "remediation \<Rightarrow> explanation" where
  "tooSlow rem = explain_with
     ''The step did not finish inside the time it was given. What it started may still be running in the cluster: a timeout stops remedik waiting, it does not undo what was already asked for.''
     '''' '''' [''status.steps[].message'', ''status.steps[].startedAt''] toneFailed"

definition unreachable :: "remediation \<Rightarrow> explanation" where
  "unreachable rem = explain_with
     (''Something the step had to reach was not reachable from inside the cluster '' @ em_dash
      @ '' a name that does not resolve, or a port with nothing on it. The remediation is fine; the thing it was talking to is not.'')
     '''' '''' [''status.steps[].message''] toneFailed"

definition conflicted :: "remediation \<Rightarrow> explanation" where
  "conflicted rem = explain_with
     (''The object changed under the step between reading it and writing it. Something else is editing the same workload ''
      @ em_dash @ '' another controller, a deploy, or a person.'')
     '''' '''' [''status.steps[].message''] toneFailed"

definition explain_rules :: "((remediation \<Rightarrow> bool) \<times> (remediation \<Rightarrow> explanation)) list" where
  "explain_rules =
     [(has_reason ReasonUnknownAction, unknownAction),
      (has_reason ReasonInterrupted, interrupted),
      (has_reason ReasonApprovalTimeout, approvalTimedOut),
      (has_reason ReasonDenied, denied),
      (has_reason ReasonGaveUp, gaveUp),
      (has_reason ReasonGuardRejected, guardRejected),
      (stepFailedWith ''not found'', notFound),
      (stepFailedWith ''forbidden'', forbidden),
      (stepFailedWith ''already exists'', alreadyExists),
      (stepFailedWithAny [''context deadline exceeded'', ''timeout'', ''timed out''], tooSlow),
      (stepFailedWithAny [''no such host'', ''connection refused'', ''dial tcp''], unreachable),
      (stepFailedWithAny [''conflict'', ''the object has been modified''], conflicted)]"

definition repeatedFloor :: nat where "repeatedFloor = 3"

definition repeatedly :: "target_history option \<Rightarrow> string" where
  "repeatedly history =
     (case history of
        None \<Rightarrow> ''''
      | Some h \<Rightarrow>
          let marks = THMarks h;
              failures = length (filter (\<lambda>m. TMTone m = toneFailed) marks);
              successes = length (filter (\<lambda>m. TMTone m = toneOK) marks);
              whole = int (length marks) + THMore h
          in if length marks < repeatedFloor then ''''
             else if repeatedFloor \<le> failures then
               ''This is not the first time: '' @ itoa (int failures) @ '' of the last '' @ itoa (int (length marks))
               @ '' remediations for this target failed. Remediation is not the fix here '' @ em_dash
               @ '' something keeps putting it back.''
             else if repeatedFloor \<le> successes then
               ''remedik has fixed this target '' @ plural_of (int successes) ''time'' @ '', out of the ''
               @ plural_of whole ''remediation'' @ '' it still has records for. The problem keeps returning rather than being fixed.''
             else '''')"

definition explain :: "remediation \<Rightarrow> target_history option \<Rightarrow> explanation option" where
  "explain rem history =
     (case find (\<lambda>r. fst r rem) explain_rules of
        Some r \<Rightarrow> Some ((snd r rem)\<lparr>EXAlso := repeatedly history\<rparr>)
      | None \<Rightarrow>
          if repeatedly history \<noteq> '''' then
            Some \<lparr>EXCause = '''', EXAlso = repeatedly history, EXNext = '''', EXNextWhy = '''',
              EXRead = [''the other records for this target''], EXTone = toneWarn\<rparr>
          else None)"

section \<open>Links out\<close>

text \<open>\<open>url.Parse\<close> is a parameter: the scheme of the URL it reads, or \<open>None\<close> for an error.\<close>

definition hasControlChars :: "string \<Rightarrow> bool" where
  "hasControlChars s = list_ex (\<lambda>c. (of_char c :: nat) < 32 \<or> (of_char c :: nat) = 127) s"

definition safeLinkTemplate :: "(string \<Rightarrow> string option) \<Rightarrow> string \<Rightarrow> bool" where
  "safeLinkTemplate url_scheme template =
     (case url_scheme template of None \<Rightarrow> False | Some scheme \<Rightarrow> scheme = ''http'' \<or> scheme = ''https'')"

definition validLinks :: "(string \<Rightarrow> string option) \<Rightarrow> link list \<Rightarrow> link list" where
  "validLinks url_scheme links =
     filter (\<lambda>l. \<not> (trim_space (LinkName l) = '''' \<or> hasControlChars (LinkName l) \<or> hasControlChars (LinkURL l)
                   \<or> \<not> safeLinkTemplate url_scheme (LinkURL l))) links"

definition linkPad :: duration where "linkPad = 15 * minute"

definition linkWindow :: "remediation \<Rightarrow> time \<Rightarrow> time \<times> time" where
  "linkWindow rem now =
     (let from = (case RefStartsAt (SpecAlert (Spec rem)) of
            Some t \<Rightarrow> if t \<noteq> 0 \<and> t < created rem then t else created rem
          | None \<Rightarrow> created rem);
          to = (case CompletedAt (Status rem) of Some t \<Rightarrow> if t \<noteq> 0 then t else now | None \<Rightarrow> now);
          to = (if to < from then from else to)
      in (time_add from (- linkPad), time_add to linkPad))"

text \<open>\<open>strings.Replacer\<close>: at each position the first pair, in argument order, whose key starts there.\<close>

function replace_all :: "(string \<times> string) list \<Rightarrow> string \<Rightarrow> string" where
  "replace_all pairs [] = []"
| "replace_all pairs (c # cs) =
     (case find (\<lambda>p. fst p \<noteq> '''' \<and> prefix (fst p) (c # cs)) pairs of
        Some (k, v) \<Rightarrow> v @ replace_all pairs (drop (length k) (c # cs))
      | None \<Rightarrow> c # replace_all pairs cs)"
  by pat_completeness auto
termination
  by (relation "measure (length \<circ> snd)") (auto dest!: find_SomeD)

definition link_values :: "remediation \<Rightarrow> time \<Rightarrow> (string \<times> string) list" where
  "link_values rem now =
     (let (from, to) = linkWindow rem now
      in [(''{namespace}'', QueryEscape (TargetNamespace (SpecTarget (Spec rem)))),
          (''{target}'', QueryEscape (SpecTarget (Spec rem))),
          (''{name}'', QueryEscape (rem_name rem)),
          (''{alert}'', QueryEscape (RefName (SpecAlert (Spec rem)))),
          (''{fingerprint}'', QueryEscape (RefFingerprint (SpecAlert (Spec rem)))),
          (''{from}'', QueryEscape (rfc3339 from)),
          (''{to}'', QueryEscape (rfc3339 to))])"

definition resolveLinks :: "link list \<Rightarrow> remediation \<Rightarrow> time \<Rightarrow> link list" where
  "resolveLinks links rem now =
     map (\<lambda>l. \<lparr>LinkName = LinkName l, LinkURL = replace_all (link_values rem now) (LinkURL l)\<rparr>) links"

section \<open>The queue\<close>

record waiting_view =
  WVName :: string
  WVURL :: string
  WVStrategy :: string
  WVStrategyURL :: string
  WVTarget :: string
  WVTargetURL :: string
  WVAlert :: string
  WVAge :: string
  WVCreated :: string
  WVLeft :: string
  WVExpired :: bool
  WVDeadline :: string
  WVNoDeadline :: bool
  WVleft :: duration
  WVTone :: string
  WVSteps :: "step_view list"
  WVApprove :: string
  WVDeny :: string

definition approvalCritical :: duration where "approvalCritical = minute"
definition approvalSoon :: duration where "approvalSoon = 5 * minute"

definition buildWaiting :: "remediation \<Rightarrow> time \<Rightarrow> waiting_view" where
  "buildWaiting rem now =
     (let sp = Spec rem; (approve, deny) = approvalCommands rem;
          v = \<lparr>WVName = rem_name rem, WVURL = ''/remediations/'' @ rem_name rem, WVStrategy = StrategyName sp,
            WVStrategyURL = (if StrategyName sp \<noteq> '''' then filter_path (no_filter\<lparr>FStrategy := StrategyName sp\<rparr>) else ''''),
            WVTarget = SpecTarget sp,
            WVTargetURL = (if SpecTarget sp \<noteq> '''' then filter_path (no_filter\<lparr>FTarget := SpecTarget sp\<rparr>) else ''''),
            WVAlert = RefName (SpecAlert sp), WVAge = FormatAge (created rem) now, WVCreated = FormatTimestamp (created rem),
            WVLeft = '''', WVExpired = False, WVDeadline = '''', WVNoDeadline = False, WVleft = 0, WVTone = toneWaiting,
            WVSteps = joinSteps (SpecSteps sp) [], WVApprove = approve, WVDeny = deny\<rparr>;
          overdue = v\<lparr>WVNoDeadline := True, WVExpired := True, WVTone := toneFailed, WVleft := - (2 ^ 63)\<rparr>
      in case ApprovalDeadline sp of
           None \<Rightarrow> overdue
         | Some d \<Rightarrow>
             if d = 0 then overdue
             else
               let left = time_sub d now; v = v\<lparr>WVDeadline := FormatTimestamp d, WVleft := left\<rparr>
               in if left \<le> 0 then v\<lparr>WVExpired := True, WVTone := toneFailed\<rparr>
                  else if left \<le> approvalCritical then v\<lparr>WVLeft := FormatCountdown left, WVTone := toneFailed\<rparr>
                  else if left \<le> approvalSoon then v\<lparr>WVLeft := FormatCountdown left, WVTone := toneWarn\<rparr>
                  else v\<lparr>WVLeft := FormatCountdown left\<rparr>)"

definition askingSentence :: "int \<Rightarrow> string \<times> string" where
  "askingSentence n =
     (if n = 1 then (''1 strategy asks for approval'', ''so this queue fills when it matches an alert'')
      else (itoa n @ '' strategies ask for approval'', ''so this queue fills when one of them matches an alert''))"

record approvals_view =
  AQQueue :: "waiting_view list"
  AQExpired :: int
  AQApprovalStrategies :: int
  AQNamed :: "string list"
  AQAsking :: string
  AQFills :: string

definition waiting_less :: "waiting_view \<Rightarrow> waiting_view \<Rightarrow> bool" where
  "waiting_less a b = (if WVleft a \<noteq> WVleft b then WVleft a < WVleft b else WVName a < WVName b)"

definition buildApprovals :: "remediation list \<Rightarrow> strategy list \<Rightarrow> time \<Rightarrow> approvals_view" where
  "buildApprovals rs strategies now =
     (let asking = filter (\<lambda>s. ExecMode (Execution (StrategySpec s)) = ExecutionModeApproval) strategies;
          (words, fills) = askingSentence (int (length asking));
          queue = map (\<lambda>r. buildWaiting r now) (filter (\<lambda>r. State (Status r) = RemediationStateAwaitingApproval) rs)
      in \<lparr>AQQueue = sort_slice waiting_less queue, AQExpired = int (length (filter WVExpired queue)),
          AQApprovalStrategies = int (length asking), AQNamed = sort (map strat_name asking),
          AQAsking = words, AQFills = fills\<rparr>)"

section \<open>The page of one record\<close>

record remediation_view =
  RVName :: string
  RVStrategy :: string
  RVTarget :: string
  RVState :: string
  RVTone :: string
  RVSummary :: string
  RVReason :: string
  RVMessage :: string
  RVDryRun :: bool
  RVAttempt :: int
  RVMaxAttempts :: int
  RVCreated :: string
  RVCreatedAge :: string
  RVStarted :: string
  RVCompleted :: string
  RVDuration :: string
  RVAlertName :: string
  RVAlertFingerprint :: string
  RVAlertStartsAt :: string
  RVAlertStartsAge :: string
  RVAlertLabels :: "(string \<times> string) list"
  RVSteps :: "step_view list"
  RVEscalation :: "escalation_view option"
  RVFailed :: bool
  RVExplanation :: "explanation option"
  RVTimeline :: timeline
  RVHistory :: "target_history option"
  RVApproval :: "approval_view option"

definition buildRemediation :: "remediation \<Rightarrow> remediation list \<Rightarrow> time \<Rightarrow> remediation_view" where
  "buildRemediation rem rs now =
     (let sp = Spec rem; st = Status rem; steps = buildSteps rem; history = buildTargetHistory rem rs now
      in \<lparr>RVName = rem_name rem, RVStrategy = StrategyName sp, RVTarget = SpecTarget sp,
          RVState = displayState (State st), RVTone = stateTone (State st), RVSummary = summarise_record rem steps,
          RVReason = Reason st, RVMessage = Message st, RVDryRun = DryRun sp, RVAttempt = Attempt st,
          RVMaxAttempts = wrap32 (Retries sp + 1),
          RVCreated = FormatTimestamp (created rem), RVCreatedAge = FormatAge (created rem) now,
          RVStarted = FormatTimestampOf (StartedAt st), RVCompleted = FormatTimestampOf (CompletedAt st),
          RVDuration = FormatSpan (StartedAt st) (CompletedAt st),
          RVAlertName = RefName (SpecAlert sp), RVAlertFingerprint = RefFingerprint (SpecAlert sp),
          RVAlertStartsAt = FormatTimestampOf (RefStartsAt (SpecAlert sp)),
          RVAlertStartsAge = FormatAgeOf (RefStartsAt (SpecAlert sp)) now,
          RVAlertLabels = sortedLabels (RefLabels (SpecAlert sp)),
          RVSteps = steps, RVEscalation = buildEscalation rem, RVFailed = (State st = RemediationStateFailed),
          RVExplanation = explain rem history, RVTimeline = buildTimeline rem, RVHistory = history,
          RVApproval = buildApproval rem now\<rparr>)"

definition NobodyWasTold :: "remediation_view \<Rightarrow> bool" where
  "NobodyWasTold v \<longleftrightarrow> RVFailed v \<and> RVEscalation v = None"

definition ShowRawMessage :: "remediation_view \<Rightarrow> bool" where
  "ShowRawMessage v =
     (if RVMessage v = '''' then False
      else if sublist (RVMessage v) (RVSummary v) then False
      else RVReason v \<noteq> ReasonStepFailed \<and> RVReason v \<noteq> ReasonUnknownAction)"

end
