(* ===== verification/DashHandler.thy ===== *)
theory DashHandler
  imports DashDetail
begin

text \<open>
  \<open>internal/dashboard/dashboard.go\<close>, \<open>palette.go\<close> and the classes of \<open>assets.go\<close>: the handler that serves the
  pages. It is a function of the request, of what its dash_reader answers and of the clock; the HTML templates
  and the embedded files are parameters.
\<close>

section \<open>The palette\<close>

record palette_entry =
  PEKind :: string
  PELabel :: string
  PEDetail :: string
  PEURL :: string

definition paletteLimit :: nat where "paletteLimit = 100"
definition paletteRecords :: nat where "paletteRecords = 20"
definition palettePath :: string where "palettePath = ''/palette''"

definition palettePages :: "palette_entry list" where
  "palettePages =
     [\<lparr>PEKind = ''page'', PELabel = ''Overview'', PEDetail = ''is anything wrong right now'', PEURL = ''/''\<rparr>,
      \<lparr>PEKind = ''page'', PELabel = ''Remediations'', PEDetail = ''every execution kept'', PEURL = remediationsPath\<rparr>,
      \<lparr>PEKind = ''page'', PELabel = ''Namespaces'', PEDetail = ''where it is going badly'', PEURL = namespacesPath\<rparr>,
      \<lparr>PEKind = ''page'', PELabel = ''Approvals'', PEDetail = ''waiting for a person'', PEURL = approvalsPath\<rparr>,
      \<lparr>PEKind = ''page'', PELabel = ''Strategies'', PEDetail = ''what remedik may do'', PEURL = ''/strategies''\<rparr>]"

definition count_names :: "(remediation \<Rightarrow> string) \<Rightarrow> remediation list \<Rightarrow> (string \<times> int) list" where
  "count_names key rs = fold (\<lambda>r m. if key r \<noteq> '''' then tally_inc (key r) m else m) rs []"

definition counted :: "string \<Rightarrow> (string \<times> int) list \<Rightarrow> (string \<Rightarrow> string) \<Rightarrow> palette_entry list" where
  "counted kind m link =
     (let es = map (\<lambda>(name, n). \<lparr>PEKind = kind, PELabel = name, PEDetail = plural_of n ''record'', PEURL = link name\<rparr>) m;
          less = (\<lambda>a b. if tally_get m (PELabel a) \<noteq> tally_get m (PELabel b)
                        then tally_get m (PELabel b) < tally_get m (PELabel a)
                        else PELabel a < PELabel b)
      in take paletteLimit (sort_slice less es))"

text \<open>Strategies come from the resources; the records add those that are gone.\<close>

definition declared_counts :: "strategy list \<Rightarrow> (string \<times> int) list \<Rightarrow> (string \<times> int) list" where
  "declared_counts strategies m =
     fold (\<lambda>(name, n) d. if map_of d name = None then map_put name n d else d) m
       (fold (\<lambda>s d. map_put (strat_name s) (tally_get m (strat_name s)) d) strategies [])"

definition record_entry :: "time \<Rightarrow> remediation \<Rightarrow> palette_entry" where
  "record_entry now r =
     \<lparr>PEKind = ''remediation'', PELabel = rem_name r,
      PEDetail = displayState (State (Status r)) @ '' '' @ middle_dot @ '' '' @ FormatAge (created r) now @ '' old'',
      PEURL = ''/remediations/'' @ rem_name r\<rparr>"

definition buildPalette :: "remediation list \<Rightarrow> strategy list \<Rightarrow> time \<Rightarrow> palette_entry list" where
  "buildPalette rs strategies now =
     palettePages
     @ counted ''namespace'' (count_names targetNamespaceOf rs) byNamespace
     @ counted ''strategy'' (declared_counts strategies (count_names strategyOf rs)) byStrategy
     @ counted ''alert'' (count_names (\<lambda>r. RefName (SpecAlert (Spec r))) rs)
         (\<lambda>name. filter_path (no_filter\<lparr>FAlert := name\<rparr>))
     @ map (record_entry now) (take paletteRecords (newestFirst rs))"

definition palette_json :: "palette_entry list \<Rightarrow> string" where
  "palette_json es =
     json_object [(''entries'', json_array (map (\<lambda>e.
       json_object ([(''kind'', json_string (PEKind e)), (''label'', json_string (PELabel e))]
         @ (if PEDetail e = '''' then [] else [(''detail'', json_string (PEDetail e))])
         @ [(''url'', json_string (PEURL e))])) es))]"

section \<open>Assets\<close>

definition pctClass :: "int \<Rightarrow> string" where
  "pctClass p =
     (if p \<le> 0 then ''pct-0'' else if 100 \<le> p then ''pct-100'' else ''pct-'' @ itoa (go_div (p + 2) 5 * 5))"

text \<open>\<open>path.Ext\<close>: from the last dot of the last element.\<close>

definition path_ext :: "string \<Rightarrow> string" where
  "path_ext name =
     (let base = rev (takeWhile (\<lambda>c. c \<noteq> CHR ''/'') (rev name));
          tail = takeWhile (\<lambda>c. c \<noteq> CHR ''.'') (rev base)
      in if CHR ''.'' \<in> set base then CHR ''.'' # rev tail else '''')"

definition contentTypeFor :: "string \<Rightarrow> string" where
  "contentTypeFor name =
     (let ext = path_ext name in
      if ext = ''.css'' then ''text/css; charset=utf-8''
      else if ext = ''.js'' then ''text/javascript; charset=utf-8''
      else if ext = ''.svg'' then ''image/svg+xml''
      else if ext = ''.png'' then ''image/png''
      else ''application/octet-stream'')"

section \<open>Requests and responses\<close>

text \<open>A path has no percent escapes here; the names of Kubernetes objects need none.\<close>

record dash_request =
  DMethod :: string
  DPath :: string
  DQuery :: string
  DAuthorization :: string

record dash_response =
  DStatus :: int
  DHeaders :: smap
  DBody :: string

datatype 'a routed = Served 'a | Redirected string

text \<open>\<open>base64.StdEncoding.DecodeString\<close>: line breaks are skipped, the padding is required.\<close>

definition b64_digit :: "char \<Rightarrow> nat option" where
  "b64_digit c =
     (let n = (of_char c :: nat) in
      if 65 \<le> n \<and> n \<le> 90 then Some (n - 65)
      else if 97 \<le> n \<and> n \<le> 122 then Some (n - 71)
      else if 48 \<le> n \<and> n \<le> 57 then Some (n + 4)
      else if n = 43 then Some 62
      else if n = 47 then Some 63
      else None)"

fun b64_quads :: "string \<Rightarrow> string option" where
  "b64_quads [] = Some []"
| "b64_quads (a # b # c # d # rest) =
     (case (b64_digit a, b64_digit b) of
        (Some x, Some y) \<Rightarrow>
          (let c1 = char_of (4 * x + y div 16) in
           if d = CHR ''='' then
             (if rest \<noteq> [] then None
              else if c = CHR ''='' then Some [c1]
              else (case b64_digit c of Some z \<Rightarrow> Some [c1, char_of (16 * (y mod 16) + z div 4)] | None \<Rightarrow> None))
           else
             (case (b64_digit c, b64_digit d) of
                (Some z, Some w) \<Rightarrow>
                  map_option (\<lambda>r. c1 # char_of (16 * (y mod 16) + z div 4) # char_of (64 * (z mod 4) + w) # r) (b64_quads rest)
              | _ \<Rightarrow> None))
      | _ \<Rightarrow> None)"
| "b64_quads _ = None"

definition base64_decode :: "string \<Rightarrow> string option" where
  "base64_decode s = b64_quads (filter (\<lambda>c. (of_char c :: nat) \<noteq> 10 \<and> (of_char c :: nat) \<noteq> 13) s)"

section \<open>The handler\<close>

record dash_reader =
  ReadRemediation :: "string \<Rightarrow> string \<Rightarrow> go_error + remediation"
  ListRemediations :: "string \<Rightarrow> go_error + remediation list"
  ListStrategies :: "go_error + strategy list"

record dash_config =
  DCReader :: "dash_reader option"
  DCNamespace :: string
  DCToken :: string
  DCPosture :: dash_posture
  DCPaused :: "(bool \<times> string) option"
  DCCluster :: string
  DCVersion :: string
  DCLinks :: "link list"
  DCLogger :: bool

record dash_handler =
  DHReader :: dash_reader
  DHNamespace :: string
  DHToken :: string
  DHPosture :: dash_posture
  DHPaused :: "(bool \<times> string) option"
  DHCluster :: string
  DHVersion :: string
  DHLinks :: "link list"

definition NewDashboard :: "(string \<Rightarrow> string option) \<Rightarrow> dash_config \<Rightarrow> go_error + dash_handler" where
  "NewDashboard url_scheme cfg =
     (case DCReader cfg of
        None \<Rightarrow> Inl (Err ''dashboard: Reader is required'')
      | Some rd \<Rightarrow>
          if DCNamespace cfg = '''' then Inl (Err ''dashboard: Namespace is required'')
          else if \<not> DCLogger cfg then Inl (Err ''dashboard: Logger is required'')
          else Inr \<lparr>DHReader = rd, DHNamespace = DCNamespace cfg, DHToken = DCToken cfg, DHPosture = DCPosture cfg,
                 DHPaused = DCPaused cfg, DHCluster = DCCluster cfg, DHVersion = DCVersion cfg,
                 DHLinks = validLinks url_scheme (DCLinks cfg)\<rparr>)"

record page_chrome =
  PgTitle :: string
  PgNav :: string
  PgDryRun :: bool
  PgPaused :: bool
  PgPauseReason :: string
  PgPosture :: dash_posture
  PgNamespace :: string
  PgCluster :: string
  PgVersion :: string
  PgAsset :: string
  PgRenderedAt :: string

datatype page_view =
    OverviewPage overview_view
  | RemediationsPage remediations_view
  | RemediationPage remediation_view "link list"
  | NamespacesPage namespaces_view
  | ApprovalsPage approvals_view
  | StrategiesPage strategies_view
  | ErrorPage int string string

text \<open>
  What surrounds the handler: the templates (an error or the page), the embedded files, the fingerprint of
  the assets, the zone of the clock, and the clock, by the readings of one request.
\<close>

record dash_env =
  Render :: "page_chrome \<Rightarrow> int \<Rightarrow> page_view \<Rightarrow> go_error + string"
  ServeStatic :: "dash_request \<Rightarrow> smap \<Rightarrow> dash_response"
  AssetVersion :: string
  ZoneOffset :: "time \<Rightarrow> duration"
  Clock :: "nat \<Rightarrow> time"

definition pauseState :: "dash_handler \<Rightarrow> bool \<times> string" where
  "pauseState h = (case DHPaused h of None \<Rightarrow> (False, '''') | Some p \<Rightarrow> p)"

definition viewPosture :: "dash_handler \<Rightarrow> dash_posture" where
  "viewPosture h = (DHPosture h)\<lparr>PPaused := fst (pauseState h)\<rparr>"

definition chrome :: "dash_env \<Rightarrow> dash_handler \<Rightarrow> time \<Rightarrow> string \<Rightarrow> string \<Rightarrow> page_chrome" where
  "chrome env h now title nav =
     (let (paused, reason) = pauseState h
      in \<lparr>PgTitle = title, PgNav = nav, PgDryRun = PDryRun (DHPosture h), PgPaused = paused, PgPauseReason = reason,
          PgPosture = (DHPosture h)\<lparr>PPaused := paused\<rparr>, PgNamespace = DHNamespace h, PgCluster = DHCluster h,
          PgVersion = DHVersion h, PgAsset = AssetVersion env, PgRenderedAt = FormatClock now\<rparr>)"

definition csp :: string where
  "csp =
     (let q = (\<lambda>w. [char_of (39::nat)] @ w @ [char_of (39::nat)]) in
      ''default-src '' @ q ''none'' @ ''; style-src '' @ q ''self'' @ ''; script-src '' @ q ''self'' @ ''; img-src '' @ q ''self''
      @ '' data:; connect-src '' @ q ''self'' @ ''; base-uri '' @ q ''none'' @ ''; form-action '' @ q ''self''
      @ ''; frame-ancestors '' @ q ''none'')"

definition securityHeaders :: "smap \<Rightarrow> smap" where
  "securityHeaders head =
     map_put ''Referrer-Policy'' ''no-referrer''
       (map_put ''X-Frame-Options'' ''DENY''
         (map_put ''X-Content-Type-Options'' ''nosniff'' (map_put ''Content-Security-Policy'' csp head)))"

definition writePage :: "dash_request \<Rightarrow> smap \<Rightarrow> int \<Rightarrow> string \<Rightarrow> dash_response" where
  "writePage r head status page =
     \<lparr>DStatus = status,
      DHeaders = map_put ''Cache-Control'' ''no-store''
        (map_put ''Content-Length'' (itoa (int (length page)))
          (map_put ''Content-Type'' ''text/html; charset=utf-8'' head)),
      DBody = (if DMethod r = ''HEAD'' then '''' else page)\<rparr>"

text \<open>\<open>http.Error\<close>.\<close>

definition http_error :: "dash_request \<Rightarrow> smap \<Rightarrow> int \<Rightarrow> string \<Rightarrow> dash_response" where
  "http_error r head status msg =
     \<lparr>DStatus = status,
      DHeaders = map_put ''X-Content-Type-Options'' ''nosniff'' (map_put ''Content-Type'' ''text/plain; charset=utf-8'' head),
      DBody = (if DMethod r = ''HEAD'' then '''' else msg @ [char_of (10::nat)])\<rparr>"

definition dash_fail ::
  "dash_env \<Rightarrow> dash_handler \<Rightarrow> dash_request \<Rightarrow> smap \<Rightarrow> time \<Rightarrow> int \<Rightarrow> string \<Rightarrow> string \<Rightarrow> dash_response" where
  "dash_fail env h r head now status title detail =
     (let head = securityHeaders head in
      case Render env (chrome env h now title '''') 0 (ErrorPage status title detail) of
        Inl e \<Rightarrow> http_error r head status title
      | Inr page \<Rightarrow> writePage r head status page)"

definition unavailable :: "dash_env \<Rightarrow> dash_handler \<Rightarrow> dash_request \<Rightarrow> smap \<Rightarrow> time \<Rightarrow> string \<Rightarrow> go_error \<Rightarrow> dash_response" where
  "unavailable env h r head now what e =
     dash_fail env h r head now 503 ''Cannot read from the cluster''
       (''The operator could not '' @ what @ '': '' @ err_text e)"

definition dash_render :: "dash_env \<Rightarrow> dash_request \<Rightarrow> smap \<Rightarrow> page_chrome \<Rightarrow> int \<Rightarrow> page_view \<Rightarrow> dash_response" where
  "dash_render env r head page waiting view =
     (case Render env page waiting view of
        Inl e \<Rightarrow> http_error r head 500 ''the dashboard could not render this page''
      | Inr body \<Rightarrow> writePage r head 200 body)"

definition awaiting :: "remediation list \<Rightarrow> int" where
  "awaiting rs = int (length (filter (\<lambda>r. State (Status r) = RemediationStateAwaitingApproval) rs))"

definition dash_query :: "dash_request \<Rightarrow> url_values" where
  "dash_query r = ParseQuery (DQuery r)"

section \<open>The pages\<close>

definition overview :: "dash_env \<Rightarrow> dash_handler \<Rightarrow> dash_request \<Rightarrow> smap \<Rightarrow> dash_response" where
  "overview env h r head =
     (case ListRemediations (DHReader h) (DHNamespace h) of
        Inl e \<Rightarrow> unavailable env h r head (Clock env 0) ''list remediations'' e
      | Inr rs \<Rightarrow>
        (case ListStrategies (DHReader h) of
           Inl e \<Rightarrow> unavailable env h r head (Clock env 0) ''list strategies'' e
         | Inr strategies \<Rightarrow>
             dash_render env r head (chrome env h (Clock env 1) ''Overview'' ''overview'') (awaiting rs)
               (OverviewPage (buildOverview (ZoneOffset env) rs strategies (viewPosture h)
                  (ParseWindow (dash_query r)) (Clock env 0)))))"

definition remediations :: "dash_env \<Rightarrow> dash_handler \<Rightarrow> dash_request \<Rightarrow> smap \<Rightarrow> dash_response" where
  "remediations env h r head =
     (case ListRemediations (DHReader h) (DHNamespace h) of
        Inl e \<Rightarrow> unavailable env h r head (Clock env 0) ''list remediations'' e
      | Inr rs \<Rightarrow>
          dash_render env r head (chrome env h (Clock env 1) ''Remediations'' ''remediations'') (awaiting rs)
            (RemediationsPage (list_page rs (dash_query r) (Clock env 0))))"

definition remediation_page :: "dash_env \<Rightarrow> dash_handler \<Rightarrow> dash_request \<Rightarrow> smap \<Rightarrow> string \<Rightarrow> dash_response" where
  "remediation_page env h r head name =
     (case ReadRemediation (DHReader h) (DHNamespace h) name of
        Inl e \<Rightarrow>
          if is_not_found e then
            dash_fail env h r head (Clock env 0) 404 ''No such remediation''
              (''There is no Remediation named '' @ quote name @ '' in namespace '' @ DHNamespace h
               @ ''. Terminal records are pruned once a strategy has enough of them.'')
          else unavailable env h r head (Clock env 0) ''read remediation'' e
      | Inr rem \<Rightarrow>
          (let rs = (case ListRemediations (DHReader h) (DHNamespace h) of Inl e \<Rightarrow> [] | Inr rs \<Rightarrow> rs)
           in dash_render env r head (chrome env h (Clock env 2) (rem_name rem) ''remediations'') (awaiting rs)
                (RemediationPage (buildRemediation rem rs (Clock env 0)) (resolveLinks (DHLinks h) rem (Clock env 1)))))"

definition namespaces_page :: "dash_env \<Rightarrow> dash_handler \<Rightarrow> dash_request \<Rightarrow> smap \<Rightarrow> dash_response" where
  "namespaces_page env h r head =
     (case ListRemediations (DHReader h) (DHNamespace h) of
        Inl e \<Rightarrow> unavailable env h r head (Clock env 0) ''list remediations'' e
      | Inr rs \<Rightarrow>
          dash_render env r head (chrome env h (Clock env 1) ''Namespaces'' ''namespaces'') (awaiting rs)
            (NamespacesPage (buildNamespaces rs (viewPosture h) (Clock env 0) (ParseNamespaceFilter (dash_query r)))))"

definition approvals_page :: "dash_env \<Rightarrow> dash_handler \<Rightarrow> dash_request \<Rightarrow> smap \<Rightarrow> dash_response" where
  "approvals_page env h r head =
     (case ListRemediations (DHReader h) (DHNamespace h) of
        Inl e \<Rightarrow> unavailable env h r head (Clock env 0) ''list remediations'' e
      | Inr rs \<Rightarrow>
        (case ListStrategies (DHReader h) of
           Inl e \<Rightarrow> unavailable env h r head (Clock env 0) ''list strategies'' e
         | Inr strategies \<Rightarrow>
             (let view = buildApprovals rs strategies (Clock env 0)
              in dash_render env r head (chrome env h (Clock env 1) ''Approvals'' ''approvals'')
                   (int (length (AQQueue view))) (ApprovalsPage view))))"

definition strategies_page :: "dash_env \<Rightarrow> dash_handler \<Rightarrow> dash_request \<Rightarrow> smap \<Rightarrow> dash_response" where
  "strategies_page env h r head =
     (case ListStrategies (DHReader h) of
        Inl e \<Rightarrow> unavailable env h r head (Clock env 0) ''list strategies'' e
      | Inr strategies \<Rightarrow>
        (case ListRemediations (DHReader h) (DHNamespace h) of
           Inl e \<Rightarrow> unavailable env h r head (Clock env 0) ''list remediations'' e
         | Inr rs \<Rightarrow>
             dash_render env r head (chrome env h (Clock env 1) ''Strategies'' ''strategies'') (awaiting rs)
               (StrategiesPage (buildStrategies strategies rs (Clock env 0) (strategies_show (dash_query r))))))"

definition palette_page :: "dash_env \<Rightarrow> dash_handler \<Rightarrow> dash_request \<Rightarrow> smap \<Rightarrow> dash_response" where
  "palette_page env h r head =
     (case ListRemediations (DHReader h) (DHNamespace h) of
        Inl e \<Rightarrow> unavailable env h r head (Clock env 0) ''list remediations'' e
      | Inr rs \<Rightarrow>
        (case ListStrategies (DHReader h) of
           Inl e \<Rightarrow> unavailable env h r head (Clock env 0) ''list strategies'' e
         | Inr strategies \<Rightarrow>
             (let body = palette_json (buildPalette rs strategies (Clock env 0))
              in \<lparr>DStatus = 200,
                  DHeaders = map_put ''Content-Length'' (itoa (int (length body)))
                    (map_put ''Cache-Control'' ''no-store''
                      (map_put ''Content-Type'' ''application/json; charset=utf-8'' head)),
                  DBody = (if DMethod r = ''HEAD'' then '''' else body)\<rparr>)))"

definition notFoundPage :: "dash_env \<Rightarrow> dash_handler \<Rightarrow> dash_request \<Rightarrow> smap \<Rightarrow> dash_response" where
  "notFoundPage env h r head =
     dash_fail env h r head (Clock env 0) 404 ''Page not found''
       (''The dashboard serves the overview, the remediations, the namespaces, the approvals queue, the strategies, and one page per remediation. There is nothing at ''
        @ DPath r @ ''.'')"

section \<open>Routing\<close>

text \<open>\<open>http.ServeMux\<close>: a path that is not clean is redirected to the clean one.\<close>

definition clean_segments :: "string \<Rightarrow> string list" where
  "clean_segments p =
     rev (fold (\<lambda>seg acc. if seg = '''' \<or> seg = ''.'' then acc
                          else if seg = ''..'' then tl acc
                          else seg # acc) (split_on (CHR ''/'') p) [])"

definition clean_path :: "string \<Rightarrow> string" where
  "clean_path p =
     (let segs = clean_segments p; np = CHR ''/'' # join ''/'' segs
      in if p \<noteq> '''' \<and> last p = CHR ''/'' \<and> segs \<noteq> [] then np @ ''/'' else np)"

definition strip :: "string \<Rightarrow> string \<Rightarrow> string option" where
  "strip pre s = (if prefix pre s then Some (drop (length pre) s) else None)"

definition dash_mux :: "dash_env \<Rightarrow> dash_handler \<Rightarrow> dash_request \<Rightarrow> smap \<Rightarrow> dash_response routed" where
  "dash_mux env h r head =
     (let p = DPath r in
      if clean_path p \<noteq> p then Redirected (clean_path p)
      else Served
       (if p = ''/'' then overview env h r head
        else if p = remediationsPath \<or> p = remediationsPath @ ''/'' then remediations env h r head
        else if p = namespacesPath \<or> p = namespacesPath @ ''/'' then namespaces_page env h r head
        else if p = approvalsPath \<or> p = approvalsPath @ ''/'' then approvals_page env h r head
        else if p = ''/strategies'' then strategies_page env h r head
        else if p = palettePath then palette_page env h r head
        else if prefix ''/static/'' p then ServeStatic env r head
        else case strip ''/remediations/'' p of
               Some name \<Rightarrow> if CHR ''/'' \<in> set name then notFoundPage env h r head
                            else remediation_page env h r head name
             | None \<Rightarrow> notFoundPage env h r head))"

definition tokenMatches :: "dash_handler \<Rightarrow> string \<Rightarrow> bool" where
  "tokenMatches h presented \<longleftrightarrow> presented = DHToken h"

definition dash_authorized :: "dash_handler \<Rightarrow> dash_request \<Rightarrow> bool" where
  "dash_authorized h r =
     (if DHToken h = '''' then True
      else
        let (scheme, rest, found) = str_cut (CHR '' '') (DAuthorization r) in
        if \<not> found then False
        else let rest = trim_space rest in
          if to_lower scheme = ''bearer'' then tokenMatches h rest
          else if to_lower scheme = ''basic'' then
            (case base64_decode rest of
               None \<Rightarrow> False
             | Some decoded \<Rightarrow>
                 let (user, password, colon) = str_cut (CHR '':'') decoded in colon \<and> tokenMatches h password)
          else False)"

definition basic_challenge :: string where
  "basic_challenge = ''Basic realm='' @ [char_of (34::nat)] @ ''remedik'' @ [char_of (34::nat)] @ '', charset=''
     @ [char_of (34::nat)] @ ''UTF-8'' @ [char_of (34::nat)]"

definition serve_dashboard :: "dash_env \<Rightarrow> dash_handler \<Rightarrow> dash_request \<Rightarrow> dash_response routed" where
  "serve_dashboard env h r =
     (if DMethod r \<noteq> ''GET'' \<and> DMethod r \<noteq> ''HEAD'' then
        Served (dash_fail env h r (map_put ''Allow'' ''GET, HEAD'' []) (Clock env 0) 405
          ''The dashboard is read-only'' ''It serves GET and HEAD. Changing anything is done with kubectl.'')
      else if \<not> dash_authorized h r then
        Served (dash_fail env h r (map_put ''WWW-Authenticate'' basic_challenge []) (Clock env 0) 401
          ''Authentication required''
          ''Present the dashboard token: as a bearer token, or as the password in the browser prompt (the username is ignored).'')
      else dash_mux env h r (securityHeaders []))"

section \<open>Headers and tokens\<close>

lemma securityHeaders_get [simp]:
  "map_get (securityHeaders head) ''Content-Security-Policy'' = csp"
  "map_get (securityHeaders head) ''X-Frame-Options'' = ''DENY''"
  by (simp_all add: securityHeaders_def map_get_def)

lemma writePage_fields [simp]:
  "DStatus (writePage r head status page) = status"
  "map_get (DHeaders (writePage r head status page)) ''Content-Security-Policy'' = map_get head ''Content-Security-Policy''"
  "map_get (DHeaders (writePage r head status page)) ''X-Frame-Options'' = map_get head ''X-Frame-Options''"
  by (simp_all add: writePage_def map_get_def)

lemma http_error_fields [simp]:
  "DStatus (http_error r head status msg) = status"
  "map_get (DHeaders (http_error r head status msg)) ''Content-Security-Policy'' = map_get head ''Content-Security-Policy''"
  "map_get (DHeaders (http_error r head status msg)) ''X-Frame-Options'' = map_get head ''X-Frame-Options''"
  by (simp_all add: http_error_def map_get_def)

lemma dash_fail_headers [simp]:
  "DStatus (dash_fail env h r head now status title detail) = status"
  "map_get (DHeaders (dash_fail env h r head now status title detail)) ''Content-Security-Policy'' = csp"
  "map_get (DHeaders (dash_fail env h r head now status title detail)) ''X-Frame-Options'' = ''DENY''"
  by (simp_all add: dash_fail_def Let_def split: sum.splits)

lemma dash_fail_reader [simp]: "dash_fail env (h\<lparr>DHReader := rd\<rparr>) r head now = dash_fail env h r head now"
  by (intro ext) (simp add: dash_fail_def chrome_def pauseState_def)

lemma authorized_reader [simp]: "dash_authorized (h\<lparr>DHReader := rd\<rparr>) r = dash_authorized h r"
proof -
  have "DHToken (h\<lparr>DHReader := rd\<rparr>) = DHToken h" by simp
  then show ?thesis unfolding dash_authorized_def tokenMatches_def by (simp only:)
qed

lemma str_cut_join: "str_cut sep s = (a, b, True) \<Longrightarrow> s = a @ sep # b"
  by (induction s arbitrary: a) (auto split: if_splits prod.splits)

lemma authorized_presents:
  assumes "dash_authorized h r" and "DHToken h \<noteq> ''''"
  obtains scheme rest where "DAuthorization r = scheme @ '' '' @ rest"
    and "to_lower scheme = ''bearer'' \<and> trim_space rest = DHToken h
       \<or> to_lower scheme = ''basic'' \<and> (\<exists>user. base64_decode (trim_space rest) = Some (user @ '':'' @ DHToken h))"
proof -
  obtain scheme rest found where cut: "str_cut (CHR '' '') (DAuthorization r) = (scheme, rest, found)" by (cases "str_cut (CHR '' '') (DAuthorization r)")
  with assms have found: "found" by (simp add: dash_authorized_def split: if_splits)
  with cut have "DAuthorization r = scheme @ '' '' @ rest" using str_cut_join by fastforce
  moreover have "to_lower scheme = ''bearer'' \<and> trim_space rest = DHToken h
       \<or> to_lower scheme = ''basic'' \<and> (\<exists>user. base64_decode (trim_space rest) = Some (user @ '':'' @ DHToken h))"
    using assms cut found
    by (auto simp: dash_authorized_def tokenMatches_def Let_def split: if_splits option.splits prod.splits dest!: str_cut_join)
  ultimately show thesis by (rule that)
qed

end
