(* ===== verification/DashFigures.thy ===== *)
theory DashFigures
  imports DashOverview
begin

text \<open>
  What the figures of the front page count: the bars of the activity panel, the breakdowns and the cards, and
  the lists their links lead to.
\<close>

section \<open>The activity of a window\<close>

definition in_bucket :: "window \<Rightarrow> time \<Rightarrow> int \<Rightarrow> remediation \<Rightarrow> bool" where
  "in_bucket w now i r \<longleftrightarrow> Start w now + i * WBucket w \<le> ranAt r \<and> ranAt r < Start w now + (i + 1) * WBucket w"

definition in_window :: "window \<Rightarrow> time \<Rightarrow> remediation \<Rightarrow> bool" where
  "in_window w now r \<longleftrightarrow> Start w now \<le> ranAt r \<and> ranAt r < Start w now + Span w"

definition how_many :: "(remediation \<Rightarrow> bool) \<Rightarrow> remediation list \<Rightarrow> int" where
  "how_many P rs = int (length (filter P rs))"

lemma how_many_Nil [simp]: "how_many P [] = 0"
  by (simp add: how_many_def)

lemma how_many_snoc [simp]: "how_many P (rs @ [r]) = how_many P rs + (if P r then 1 else 0)"
  by (simp add: how_many_def)

lemma how_many_nonneg [simp]: "0 \<le> how_many P rs"
  by (simp add: how_many_def)

lemma window_numbers:
  assumes "w \<in> set windows"
  shows "0 < WBucket w" and "0 < WBuckets w" and "WBuckets w * WBucket w < 2 ^ 62"
  using assms by (auto simp: windows_def day_window_def week_window_def activityHours_def)

lemma bucket_index:
  assumes "w \<in> set windows" and "Start w now \<le> ranAt r" and "0 \<le> i" and "i < WBuckets w"
  shows "go_div (time_sub (ranAt r) (Start w now)) (WBucket w) = i \<longleftrightarrow> in_bucket w now i r"
proof -
  let ?B = "WBucket w" and ?t = "ranAt r - Start w now"
  let ?d = "time_sub (ranAt r) (Start w now)"
  note n = window_numbers [OF assms(1)]
  have "(i + 1) * ?B \<le> WBuckets w * ?B" using assms(4) n(1) by simp
  then have lim: "(i + 1) * ?B < 2 ^ 62" using n(3) by linarith
  have d: "?d = min (2 ^ 63 - 1) ?t" "0 \<le> ?d" using assms(2) by (simp_all add: time_sub_def)
  have "go_div ?d ?B = i \<longleftrightarrow> ?d div ?B = i" using d(2) n(1) by simp
  also have "\<dots> \<longleftrightarrow> i * ?B \<le> ?d \<and> ?d < (i + 1) * ?B"
  proof
    assume "?d div ?B = i"
    then have e: "?d = i * ?B + ?d mod ?B" by (metis div_mult_mod_eq)
    have "0 \<le> ?d mod ?B" "?d mod ?B < ?B" using n(1) by simp_all
    then show "i * ?B \<le> ?d \<and> ?d < (i + 1) * ?B" using e by (simp only: distrib_right) linarith
  next
    assume "i * ?B \<le> ?d \<and> ?d < (i + 1) * ?B"
    then have "0 \<le> ?d - i * ?B" "?d - i * ?B < ?B" by (simp_all add: distrib_right)
    then show "?d div ?B = i" by (intro int_div_pos_eq [where r = "?d - i * ?B"]) simp_all
  qed
  also have "\<dots> \<longleftrightarrow> i * ?B \<le> ?t \<and> ?t < (i + 1) * ?B"
  proof -
    have "i * ?B \<le> (i + 1) * ?B" using n(1) by (simp add: distrib_right)
    then show ?thesis using lim d(1) by auto
  qed
  finally show ?thesis by (auto simp: in_bucket_def)
qed

lemma in_bucket_window:
  "w \<in> set windows \<Longrightarrow> 0 \<le> i \<Longrightarrow> i < WBuckets w \<Longrightarrow> in_bucket w now i r \<Longrightarrow> in_window w now r"
proof -
  assume a: "w \<in> set windows" "0 \<le> i" "i < WBuckets w" "in_bucket w now i r"
  have "0 \<le> i * WBucket w" "(i + 1) * WBucket w \<le> WBuckets w * WBucket w"
    using a window_numbers [OF a(1)] by simp_all
  then show ?thesis using a(4) unfolding in_bucket_def in_window_def Span_def by linarith
qed

definition bar_ok :: "window \<Rightarrow> time \<Rightarrow> remediation list \<Rightarrow> int \<Rightarrow> activity_bar \<Rightarrow> bool" where
  "bar_ok w now rs i b \<longleftrightarrow> BarTotal b = how_many (in_bucket w now i) rs
     \<and> BarSucceeded b = how_many (\<lambda>r. in_bucket w now i r \<and> State (Status r) = RemediationStateSucceeded) rs
     \<and> BarFailed b = how_many (\<lambda>r. in_bucket w now i r \<and> State (Status r) = RemediationStateFailed) rs
     \<and> BarSimulated b = how_many (\<lambda>r. in_bucket w now i r \<and> State (Status r) = RemediationStateSimulated) rs"

definition panel_ok :: "window \<Rightarrow> time \<Rightarrow> remediation list \<Rightarrow> activity_panel \<Rightarrow> bool" where
  "panel_ok w now rs p \<longleftrightarrow> int (length (ABars p)) = WBuckets w
     \<and> (\<forall>i < length (ABars p). bar_ok w now rs (int i) (ABars p ! i) \<and> BarTotal (ABars p ! i) \<le> ABusiest p
          \<and> BarPercent (ABars p ! i) = 0 \<and> BarSucceededPct (ABars p ! i) = 0 \<and> BarFailedPct (ABars p ! i) = 0
          \<and> BarSimulatedPct (ABars p ! i) = 0)
     \<and> ATotal p = how_many (in_window w now) rs
     \<and> AFailed p = how_many (\<lambda>r. in_window w now r \<and> State (Status r) = RemediationStateFailed) rs"

lemma bar_ok_other: "bar_ok w now rs i b \<Longrightarrow> \<not> in_bucket w now i r \<Longrightarrow> bar_ok w now (rs @ [r]) i b"
  by (simp add: bar_ok_def)

lemma bar_ok_add: "bar_ok w now rs i b \<Longrightarrow> in_bucket w now i r \<Longrightarrow> bar_ok w now (rs @ [r]) i (bar_add (State (Status r)) b)"
  by (simp add: bar_ok_def bar_add_def Let_def)

lemma bar_add_pct [simp]:
  "BarPercent (bar_add st b) = BarPercent b" "BarSucceededPct (bar_add st b) = BarSucceededPct b"
  "BarFailedPct (bar_add st b) = BarFailedPct b" "BarSimulatedPct (bar_add st b) = BarSimulatedPct b"
  "BarTotal (bar_add st b) = BarTotal b + 1"
  by (simp_all add: bar_add_def Let_def)

lemma panel_ok_add:
  assumes w: "w \<in> set windows" and ok: "panel_ok w now rs p"
  shows "panel_ok w now (rs @ [r]) (activity_add w (Start w now) r p)"
proof (cases "in_window w now r")
  case False
  have "activity_add w (Start w now) r p = p"
  proof (cases "ranAt r < Start w now")
    case late: False
    let ?k = "go_div (time_sub (ranAt r) (Start w now)) (WBucket w)"
    have "\<not> (0 \<le> ?k \<and> ?k < WBuckets w)"
      using bucket_index [OF w, of now r ?k] in_bucket_window [OF w, of ?k now r] late False by auto
    then have "?k < 0 \<or> int (length (ABars p)) \<le> ?k" using ok by (auto simp: panel_ok_def)
    then show ?thesis by (simp only: activity_add_def Let_def if_True if_False late)
  qed (simp add: activity_add_def)
  moreover have "\<not> in_bucket w now (int i) r" if "i < length (ABars p)" for i
    using that False in_bucket_window [OF w, of "int i" now r] ok by (auto simp: panel_ok_def)
  ultimately show ?thesis using ok False bar_ok_other by (auto simp: panel_ok_def)
next
  case True
  then have start: "Start w now \<le> ranAt r" by (simp add: in_window_def)
  define k where "k = go_div (time_sub (ranAt r) (Start w now)) (WBucket w)"
  note n = window_numbers [OF w]
  have d: "0 \<le> time_sub (ranAt r) (Start w now)" "time_sub (ranAt r) (Start w now) < WBuckets w * WBucket w"
    using True by (auto simp: time_sub_def in_window_def Span_def)
  have k0: "0 \<le> k" using d(1) n(1) by (simp add: k_def pos_imp_zdiv_nonneg_iff)
  have "k * WBucket w \<le> time_sub (ranAt r) (Start w now)"
    using d(1) n(1) by (simp add: k_def) (metis div_mult_mod_eq le_add_same_cancel1 pos_mod_sign)
  then have "k * WBucket w < WBuckets w * WBucket w" using d(2) by linarith
  then have kn: "k < WBuckets w" using n(1) by (simp add: mult_less_cancel_right)
  have len: "int (length (ABars p)) = WBuckets w" using ok by (simp add: panel_ok_def)
  have here: "in_bucket w now i r \<longleftrightarrow> i = k" if "0 \<le> i" "i < WBuckets w" for i
    using bucket_index [OF w start that] by (auto simp: k_def)
  let ?st = "State (Status r)"
  define bar where "bar = bar_add ?st (ABars p ! nat k)"
  have add: "activity_add w (Start w now) r p = p\<lparr>ABars := (ABars p)[nat k := bar], ATotal := ATotal p + 1,
      AFailed := (if ?st = RemediationStateFailed then AFailed p + 1 else AFailed p),
      ABusiest := (if ABusiest p < BarTotal bar then BarTotal bar else ABusiest p)\<rparr>"
    using start k0 kn len by (simp add: activity_add_def Let_def bar_def flip: k_def)
  have kl: "nat k < length (ABars p)" using k0 kn len by linarith
  have old: "bar_ok w now rs (int i) (ABars p ! i) \<and> BarTotal (ABars p ! i) \<le> ABusiest p
          \<and> BarPercent (ABars p ! i) = 0 \<and> BarSucceededPct (ABars p ! i) = 0 \<and> BarFailedPct (ABars p ! i) = 0
          \<and> BarSimulatedPct (ABars p ! i) = 0" if "i < length (ABars p)" for i
    using ok that by (simp add: panel_ok_def)
  let ?p = "activity_add w (Start w now) r p"
  have bars: "ABars ?p = (ABars p)[nat k := bar]" "BarTotal bar \<le> ABusiest ?p" "ABusiest p \<le> ABusiest ?p"
    by (simp_all add: add)
  have "bar_ok w now (rs @ [r]) (int i) (ABars ?p ! i) \<and> BarTotal (ABars ?p ! i) \<le> ABusiest ?p
          \<and> BarPercent (ABars ?p ! i) = 0 \<and> BarSucceededPct (ABars ?p ! i) = 0 \<and> BarFailedPct (ABars ?p ! i) = 0
          \<and> BarSimulatedPct (ABars ?p ! i) = 0" if i: "i < length (ABars p)" for i
  proof (cases "i = nat k")
    case True
    then have "ABars ?p ! i = bar" using bars(1) kl by simp
    then show ?thesis
      using old [OF kl] bars(2) True here [OF k0 kn] k0 bar_ok_add [of w now rs k "ABars p ! nat k" r] by (simp add: bar_def)
  next
    case False
    then have "ABars ?p ! i = ABars p ! i" using bars(1) by simp
    moreover have "\<not> in_bucket w now (int i) r" using here [of "int i"] False i len by auto
    ultimately show ?thesis using old [OF i] bars(3) bar_ok_other [of w now rs "int i" "ABars p ! i" r] by simp
  qed
  moreover have "length (ABars ?p) = length (ABars p)" using bars(1) by simp
  moreover have "ATotal ?p = how_many (in_window w now) (rs @ [r])"
    "AFailed ?p = how_many (\<lambda>r. in_window w now r \<and> State (Status r) = RemediationStateFailed) (rs @ [r])"
    using ok True by (simp_all add: add panel_ok_def)
  ultimately show ?thesis using len unfolding panel_ok_def by (simp only:) blast
qed

lemma panel_ok_fold:
  assumes "w \<in> set windows" and "panel_ok w now [] p"
  shows "panel_ok w now rs (fold (activity_add w (Start w now)) rs p)"
proof (induction rs rule: rev_induct)
  case (snoc r rs)
  then show ?case using panel_ok_add [OF assms(1)] by simp
qed (use assms(2) in simp)

lemma share_bounds:
  assumes "0 \<le> part" and "part \<le> whole" and "0 < (whole::int)"
  shows "0 \<le> go_div (part * 100) whole" and "go_div (part * 100) whole \<le> 100"
    and "go_div (part * 100) whole * whole \<le> part * 100"
proof -
  have e: "go_div (part * 100) whole = part * 100 div whole" using assms by simp
  show "0 \<le> go_div (part * 100) whole" using assms by (simp add: e pos_imp_zdiv_nonneg_iff)
  have "part * 100 div whole \<le> 100 * whole div whole" using assms by (intro zdiv_mono1) simp_all
  then show "go_div (part * 100) whole \<le> 100" using assms by (simp add: e)
  show "go_div (part * 100) whole * whole \<le> part * 100"
    unfolding e by (metis assms(3) div_mult_mod_eq le_add_same_cancel1 pos_mod_sign)
qed

lemma how_many_disjoint:
  "how_many (\<lambda>r. Q r \<and> State (Status r) = RemediationStateSucceeded) rs
    + how_many (\<lambda>r. Q r \<and> State (Status r) = RemediationStateFailed) rs \<le> how_many Q rs"
  by (induction rs) (auto simp: how_many_def)

section \<open>Following a link\<close>

text \<open>A state is a string in the code; a word the operator knows is not another word.\<close>

definition own_word :: "remediation_state \<Rightarrow> bool" where
  "own_word st \<longleftrightarrow> (\<forall>s. st = RemediationStateOther s \<longrightarrow>
     s \<notin> {''Pending'', ''Running'', ''Succeeded'', ''Failed'', ''Simulated'', ''AwaitingApproval''})"

definition follow :: "remediation list \<Rightarrow> string \<Rightarrow> time \<Rightarrow> int" where
  "follow rs url now = VTotal (list_page rs (ParseQuery (url_query url)) now)"

lemma how_many_cong: "(\<And>r. r \<in> set rs \<Longrightarrow> P r = Q r) \<Longrightarrow> how_many P rs = how_many Q rs"
  unfolding how_many_def by (intro arg_cong [where f = "\<lambda>xs. int (length xs)"] filter_cong) auto

lemma follow_filter_path: "filter_wf f \<Longrightarrow> follow rs (filter_path f) now = how_many (filter_matches f) rs"
  by (simp add: follow_def filter_path_listPath list_page_def ParseFilter_listPath ParseSort_listPath ParsePage_listPath
    in_int64_def order_wf_def VTotal_buildRemediations how_many_def)

lemma trimmed_words [simp]: "trimmed ''''" "trimmed ''Succeeded''" "trimmed ''Failed''" "trimmed ''Simulated''" "trimmed ''failed''" "trimmed ''none''"
  by (simp_all add: trimmed_def trim_space_def is_space_def)

lemma follow_state:
  assumes "st \<in> {RemediationStateSucceeded, RemediationStateFailed, RemediationStateSimulated}"
    and "\<forall>r \<in> set rs. own_word (State (Status r))"
  shows "follow rs (path_of_state st) now = how_many (\<lambda>r. State (Status r) = st) rs"
proof -
  have "filter_wf (no_filter\<lparr>FState := state_string st\<rparr>)"
    using assms(1) by (auto simp: filter_wf_def filter_clauses_def no_filter_def)
  then have "follow rs (path_of_state st) now = how_many (filter_matches (no_filter\<lparr>FState := state_string st\<rparr>)) rs"
    by (simp add: path_of_state_def follow_filter_path)
  also have "\<dots> = how_many (\<lambda>r. State (Status r) = st) rs"
  proof -
    have "filter_matches (no_filter\<lparr>FState := state_string st\<rparr>) r \<longleftrightarrow> State (Status r) = st" if "r \<in> set rs" for r
    proof -
      have "own_word (State (Status r))" using assms(2) that by blast
      then show ?thesis
        using assms(1) by (cases "State (Status r)") (auto simp: filter_matches_iff no_filter_def displayState_def own_word_def)
    qed
    then show ?thesis by (rule how_many_cong)
  qed
  finally show ?thesis .
qed

lemma tally_counts:
  "CSucceeded (tally rs) = how_many (\<lambda>r. State (Status r) = RemediationStateSucceeded) rs"
  "CFailed (tally rs) = how_many (\<lambda>r. State (Status r) = RemediationStateFailed) rs"
  "CSimulated (tally rs) = how_many (\<lambda>r. State (Status r) = RemediationStateSimulated) rs"
proof -
  have step: "tally (rs @ [r]) = tally_state (State (Status r)) (tally rs)" for r rs by (simp add: tally_def)
  have "CSucceeded (tally rs) = how_many (\<lambda>r. State (Status r) = RemediationStateSucceeded) rs
    \<and> CFailed (tally rs) = how_many (\<lambda>r. State (Status r) = RemediationStateFailed) rs
    \<and> CSimulated (tally rs) = how_many (\<lambda>r. State (Status r) = RemediationStateSimulated) rs"
  proof (induction rs rule: rev_induct)
    case (snoc r rs)
    then show ?case by (cases "State (Status r)") (simp_all add: step)
  qed (simp add: tally_def zero_counts_def)
  then show "CSucceeded (tally rs) = how_many (\<lambda>r. State (Status r) = RemediationStateSucceeded) rs"
    "CFailed (tally rs) = how_many (\<lambda>r. State (Status r) = RemediationStateFailed) rs"
    "CSimulated (tally rs) = how_many (\<lambda>r. State (Status r) = RemediationStateSimulated) rs" by simp_all
qed

lemma how_many_mset: "mset rs = mset rs' \<Longrightarrow> how_many P rs = how_many P rs'"
  unfolding how_many_def length_filter_mset by simp

lemma how_many_newest [simp]: "how_many P (newestFirst rs) = how_many P rs"
  by (rule how_many_mset) simp

lemma follow_everything: "follow rs remediationsPath now = int (length rs)"
proof -
  have "filter_path no_filter = remediationsPath"
    by (simp add: filter_path_def filter_query_def filter_values_def filter_clauses_def no_filter_def)
  moreover have "filter_wf no_filter" by (simp add: filter_wf_def filter_clauses_def no_filter_def)
  moreover have "how_many (filter_matches no_filter) rs = int (length rs)"
    using inactive_matches [of no_filter] by (simp add: how_many_def filter_active_def no_filter_def)
  ultimately show ?thesis using follow_filter_path [of no_filter rs now] by simp
qed

definition breakdown_ok :: "(remediation \<Rightarrow> string) \<Rightarrow> (string \<Rightarrow> string) \<Rightarrow> remediation list \<Rightarrow> breakdown \<Rightarrow> bool" where
  "breakdown_ok key link rs b \<longleftrightarrow> BDName b \<noteq> '''' \<and> BDURL b = link (BDName b)
     \<and> BDTotal b = how_many (\<lambda>r. key r = BDName b) rs"

definition rows_counted :: "(remediation \<Rightarrow> string) \<Rightarrow> (string \<Rightarrow> string) \<Rightarrow> remediation list \<Rightarrow> (string \<times> breakdown) list \<Rightarrow> bool" where
  "rows_counted key link rs m \<longleftrightarrow> (\<forall>n. case map_of m n of
       None \<Rightarrow> n = '''' \<or> how_many (\<lambda>r. key r = n) rs = 0
     | Some b \<Rightarrow> BDName b = n \<and> breakdown_ok key link rs b) \<and> map_wf m"

lemma rows_counted_add:
  assumes "rows_counted key link rs m"
  shows "rows_counted key link (rs @ [r]) (breakdown_add key link r m)"
proof (cases "key r = ''''")
  case True
  have "case map_of m n of None \<Rightarrow> n = '''' \<or> how_many (\<lambda>r. key r = n) (rs @ [r]) = 0
     | Some b \<Rightarrow> BDName b = n \<and> breakdown_ok key link (rs @ [r]) b" for n
  proof -
    have "case map_of m n of None \<Rightarrow> n = '''' \<or> how_many (\<lambda>r. key r = n) rs = 0
       | Some b \<Rightarrow> BDName b = n \<and> breakdown_ok key link rs b" using assms by (simp add: rows_counted_def)
    then show ?thesis using True by (cases "map_of m n") (auto simp: breakdown_ok_def)
  qed
  moreover have "breakdown_add key link r m = m" using True by (simp add: breakdown_add_def)
  ultimately show ?thesis using assms by (simp add: rows_counted_def)
next
  case False
  obtain b where add: "breakdown_add key link r m = map_put (key r) b m" and name: "BDName b = key r" and url: "BDURL b = link (key r)"
    and tot: "BDTotal b = (case map_of m (key r) of None \<Rightarrow> 0 | Some b \<Rightarrow> BDTotal b) + 1"
    using False assms by (cases "map_of m (key r)") (auto simp: breakdown_add_def Let_def rows_counted_def breakdown_ok_def split: option.splits)
  have old: "case map_of m n of None \<Rightarrow> n = '''' \<or> how_many (\<lambda>r. key r = n) rs = 0
     | Some b \<Rightarrow> BDName b = n \<and> breakdown_ok key link rs b" for n
    using assms by (simp add: rows_counted_def)
  have "BDTotal b = how_many (\<lambda>x. key x = key r) (rs @ [r])"
    using old [of "key r"] tot False by (auto simp: breakdown_ok_def split: option.splits)
  then have new: "breakdown_ok key link (rs @ [r]) b" using name url False by (simp add: breakdown_ok_def)
  have other: "case map_of m n of None \<Rightarrow> n = '''' \<or> how_many (\<lambda>r. key r = n) (rs @ [r]) = 0
     | Some b \<Rightarrow> BDName b = n \<and> breakdown_ok key link (rs @ [r]) b" if "n \<noteq> key r" for n
    using old [of n] that by (cases "map_of m n") (auto simp: breakdown_ok_def)
  show ?thesis
    unfolding add rows_counted_def
  proof (intro conjI allI)
    show "case map_of (map_put (key r) b m) n of None \<Rightarrow> n = '''' \<or> how_many (\<lambda>r. key r = n) (rs @ [r]) = 0
     | Some b \<Rightarrow> BDName b = n \<and> breakdown_ok key link (rs @ [r]) b" for n
      using other [of n] new name by (cases "n = key r") simp_all
  qed (use assms in \<open>simp add: rows_counted_def\<close>)
qed

lemma buildBreakdown_ok:
  assumes "b \<in> set (buildBreakdown rs key link)"
  shows "breakdown_ok key link rs b"
proof -
  let ?m = "fold (breakdown_add key link) rs []"
  have counted: "rows_counted key link rs ?m"
  proof (induction rs rule: rev_induct)
    case (snoc r rs)
    then show ?case using rows_counted_add by simp
  qed (simp add: rows_counted_def)
  let ?s = "sort_slice breakdown_less (map snd ?m)"
  have "b \<in> set (case ?s of [] \<Rightarrow> [] | x # xs \<Rightarrow> map (breakdown_share (BDTotal x)) ?s)"
    using assms unfolding buildBreakdown_def Let_def by (rule in_set_takeD)
  then obtain n x where x: "x \<in> set ?s" "b = breakdown_share n x" by (cases ?s) auto
  then obtain k where k: "(k, x) \<in> set ?m" by auto
  then have "map_of ?m k = Some x" using counted by (simp add: rows_counted_def)
  then have "breakdown_ok key link rs x" using counted by (auto simp: rows_counted_def split: option.splits dest!: spec [of _ k])
  then show ?thesis using x(2) by (simp add: breakdown_ok_def breakdown_share_def)
qed

lemma breakdown_ok_newest: "breakdown_ok key link (newestFirst rs) b = breakdown_ok key link rs b"
  by (simp add: breakdown_ok_def)

lemma follow_breakdown:
  assumes "b \<in> set (buildBreakdown (newestFirst rs) key link)" and "trimmed (BDName b)"
    and "key = targetNamespaceOf \<and> link = byNamespace \<or> key = strategyOf \<and> link = byStrategy"
  shows "follow rs (BDURL b) now = BDTotal b"
proof -
  have b: "breakdown_ok key link rs b" using buildBreakdown_ok [OF assms(1)] by (simp add: breakdown_ok_newest)
  have wf: "filter_wf (no_filter\<lparr>FNamespace := BDName b\<rparr>)" "filter_wf (no_filter\<lparr>FStrategy := BDName b\<rparr>)"
    using assms(2) by (simp_all add: filter_wf_def filter_clauses_def no_filter_def)
  have m: "filter_matches (no_filter\<lparr>FNamespace := BDName b\<rparr>) = (\<lambda>r. targetNamespaceOf r = BDName b)"
    "filter_matches (no_filter\<lparr>FStrategy := BDName b\<rparr>) = (\<lambda>r. strategyOf r = BDName b)"
    using b by (simp_all add: fun_eq_iff filter_matches_iff no_filter_def targetNamespaceOf_def strategyOf_def breakdown_ok_def)
  show ?thesis
    using assms(3) b follow_filter_path [OF wf(1), of rs now] follow_filter_path [OF wf(2), of rs now] m
    by (auto simp: breakdown_ok_def byNamespace_def byStrategy_def)
qed

lemma attention_counts:
  "NFailed (attention_counts_of rs) = how_many (\<lambda>r. State (Status r) = RemediationStateFailed) rs"
  "NUnheard (attention_counts_of rs)
     = how_many (\<lambda>r. State (Status r) = RemediationStateFailed \<and> escalationOutcome r = EscalationFailed) rs"
  "NUntold (attention_counts_of rs)
     = how_many (\<lambda>r. State (Status r) = RemediationStateFailed \<and> escalationOutcome r = EscalationNone) rs"
proof -
  have step: "attention_counts_of (rs @ [r]) = attention_add r (attention_counts_of rs)" for r rs by (simp add: attention_counts_of_def)
  have add: "NFailed (attention_add r n) = NFailed n + (if State (Status r) = RemediationStateFailed then 1 else 0)"
    "NUnheard (attention_add r n) = NUnheard n + (if State (Status r) = RemediationStateFailed \<and> escalationOutcome r = EscalationFailed then 1 else 0)"
    "NUntold (attention_add r n) = NUntold n + (if State (Status r) = RemediationStateFailed \<and> escalationOutcome r = EscalationNone then 1 else 0)" for r n
    by (auto simp: attention_add_def escalationOutcome_def escalation_word_defs Let_def split: option.splits)
  have zero: "attention_counts_of [] = \<lparr>NFailed = 0, NUnheard = 0, NUntold = 0, NInterrupted = 0, NWaiting = 0\<rparr>"
    by (simp add: attention_counts_of_def)
  show "NFailed (attention_counts_of rs) = how_many (\<lambda>r. State (Status r) = RemediationStateFailed) rs"
    by (induction rs rule: rev_induct) (simp_all add: step add zero)
  show "NUnheard (attention_counts_of rs)
     = how_many (\<lambda>r. State (Status r) = RemediationStateFailed \<and> escalationOutcome r = EscalationFailed) rs"
    by (induction rs rule: rev_induct) (simp_all add: step add zero)
  show "NUntold (attention_counts_of rs)
     = how_many (\<lambda>r. State (Status r) = RemediationStateFailed \<and> escalationOutcome r = EscalationNone) rs"
    by (induction rs rule: rev_induct) (simp_all add: step add zero)
qed

lemma follow_escalation:
  assumes "\<forall>r \<in> set rs. own_word (State (Status r))" and "e \<in> {EscalationFailed, EscalationNone}"
  shows "follow rs (filter_path (no_filter\<lparr>FState := ''Failed'', FEscalation := e\<rparr>)) now
     = how_many (\<lambda>r. State (Status r) = RemediationStateFailed \<and> escalationOutcome r = e) rs"
proof -
  have "filter_wf (no_filter\<lparr>FState := ''Failed'', FEscalation := e\<rparr>)"
    using assms(2) by (auto simp: filter_wf_def filter_clauses_def no_filter_def escalation_word_defs)
  moreover have m: "filter_matches (no_filter\<lparr>FState := ''Failed'', FEscalation := e\<rparr>) r
      \<longleftrightarrow> State (Status r) = RemediationStateFailed \<and> escalationOutcome r = e" if "r \<in> set rs" for r
  proof -
    have "own_word (State (Status r))" "e \<noteq> ''''" using assms that by (auto simp: escalation_word_defs)
    then show ?thesis
      by (cases "State (Status r)") (auto simp: filter_matches_iff no_filter_def displayState_def own_word_def)
  qed
  have "how_many (filter_matches (no_filter\<lparr>FState := ''Failed'', FEscalation := e\<rparr>)) rs
      = how_many (\<lambda>r. State (Status r) = RemediationStateFailed \<and> escalationOutcome r = e) rs"
    by (rule how_many_cong) (rule m)
  ultimately show ?thesis by (simp add: follow_filter_path)
qed

lemma in_if_single: "x \<in> set (if P then [y] else []) \<longleftrightarrow> P \<and> x = y"
  by auto

lemma attention_links:
  assumes "\<forall>r \<in> set rs. own_word (State (Status r))" and "x \<in> set (buildAttention rs)"
    and "AIURL x \<noteq> approvalsPath" and "AIURL x \<noteq> path_of_state RemediationStateFailed"
  shows "AICount x = follow rs (AIURL x) now"
proof -
  have "AIURL x = filter_path (no_filter\<lparr>FState := ''Failed'', FEscalation := EscalationFailed\<rparr>) \<and> AICount x = NUnheard (attention_counts_of rs)
      \<or> AIURL x = filter_path (no_filter\<lparr>FState := ''Failed'', FEscalation := EscalationNone\<rparr>) \<and> AICount x = NUntold (attention_counts_of rs)"
  proof -
    note parts = assms(2) [unfolded buildAttention_def Let_def set_append Un_iff in_if_single]
    from parts show ?thesis
      by (elim disjE conjE) (use assms(3,4) in \<open>simp_all add: path_of_state_def\<close>)
  qed
  then show ?thesis using follow_escalation [OF assms(1), of _ now] attention_counts(2,3) [of rs] by auto
qed

end
