(* ===== verification/DashLinks.thy ===== *)
theory DashLinks
  imports DashDetail Webhook
begin

text \<open>
  What filling in a link template can do to it: the scheme stays, and only characters of escaped values are
  added.
\<close>

lemma replace_all_nil: "replace_all pairs [] = []" by simp

lemma replace_all_skip:
  assumes "\<forall>p \<in> set pairs. \<exists>k. fst p = CHR ''{'' # k" and "CHR ''{'' \<notin> set pre"
  shows "replace_all pairs (pre @ s) = pre @ replace_all pairs s"
  using assms(2)
proof (induction pre)
  case (Cons c pre)
  have "\<not> prefix (fst p) (c # pre @ s)" if "p \<in> set pairs" for p
    using assms(1) that Cons.prems by (metis Cons_prefix_Cons list.set_intros(1))
  then have "find (\<lambda>p. fst p \<noteq> [] \<and> prefix (fst p) (c # pre @ s)) pairs = None" by (auto simp: find_None_iff)
  then show ?case using Cons by simp
qed simp

lemma get_scheme_split:
  "get_scheme seen s \<noteq> [] \<Longrightarrow> \<exists>pre rest. s = pre @ CHR '':'' # rest \<and> CHR ''{'' \<notin> set pre \<and> CHR ''#'' \<notin> set pre
     \<and> (\<forall>rest'. get_scheme seen (pre @ CHR '':'' # rest') = get_scheme seen s)"
proof (induction seen s rule: get_scheme.induct)
  case (2 seen c cs)
  have brace: "\<not> is_letter (CHR ''{'')" "\<not> is_digit (CHR ''{'')" "\<not> is_letter (CHR ''#'')" "\<not> is_digit (CHR ''#'')"
    by (simp_all add: is_letter_def is_digit_def lower_char_def)
  show ?case
  proof (cases "is_letter c \<or> is_digit c \<or> c \<in> set ''+-.''")
    case True
    then have step: "get_scheme seen (c # t) = get_scheme (seen @ [c]) t" if "get_scheme seen (c # cs) \<noteq> []" for t
      using that by (auto split: if_splits)
    have ih: "\<exists>pre rest. cs = pre @ CHR '':'' # rest \<and> CHR ''{'' \<notin> set pre \<and> CHR ''#'' \<notin> set pre
        \<and> (\<forall>rest'. get_scheme (seen @ [c]) (pre @ CHR '':'' # rest') = get_scheme (seen @ [c]) cs)"
      using "2.IH" "2.prems" True by (auto split: if_splits)
    then obtain pre rest where p: "cs = pre @ CHR '':'' # rest" "CHR ''{'' \<notin> set pre" "CHR ''#'' \<notin> set pre"
      "\<forall>rest'. get_scheme (seen @ [c]) (pre @ CHR '':'' # rest') = get_scheme (seen @ [c]) cs" by blast
    have "c \<noteq> CHR ''{''" "c \<noteq> CHR ''#''" using True brace by auto
    then show ?thesis
      using p step [OF "2.prems"] by (intro exI [of _ "c # pre"] exI [of _ rest]) auto
  next
    case False
    then have "c = CHR '':''" using "2.prems" by (auto split: if_splits)
    then show ?thesis using False by (intro exI [of _ "[]"] exI [of _ cs]) auto
  qed
qed simp

lemma url_scheme_replaced:
  assumes "\<forall>p \<in> set pairs. \<exists>k. fst p = CHR ''{'' # k" and "url_scheme s \<noteq> []"
  shows "url_scheme (replace_all pairs s) = url_scheme s"
proof -
  have "get_scheme [] (fst (str_cut (CHR ''#'') s)) \<noteq> []" using assms(2) by (auto simp: url_scheme_def to_lower_def)
  then obtain pre rest where p: "fst (str_cut (CHR ''#'') s) = pre @ CHR '':'' # rest" "CHR ''{'' \<notin> set pre" "CHR ''#'' \<notin> set pre"
    and g: "\<forall>rest'. get_scheme [] (pre @ CHR '':'' # rest') = get_scheme [] (fst (str_cut (CHR ''#'') s))"
    using get_scheme_split by blast
  have "prefix (fst (str_cut sep t)) t" for sep t
    by (induction t) (auto split: prod.splits)
  then obtain tl where s: "s = (pre @ '':'') @ tl" using p(1) by (metis append.assoc append_Cons append_Nil prefix_def)
  have skip: "replace_all pairs s = (pre @ '':'') @ replace_all pairs tl"
    unfolding s by (rule replace_all_skip [OF assms(1)]) (use p(2) in auto)
  have cut: "\<exists>u. fst (str_cut (CHR ''#'') (pre' @ t)) = pre' @ u" if "CHR ''#'' \<notin> set pre'" for pre' t
    using that by (induction pre') (auto split: prod.splits)
  obtain u where "fst (str_cut (CHR ''#'') ((pre @ '':'') @ replace_all pairs tl)) = (pre @ '':'') @ u"
    using cut [of "pre @ '':''"] p(3) by auto
  then show ?thesis using g by (simp add: url_scheme_def skip)
qed

lemma count_list_drop: "count_list (drop n xs) c \<le> count_list xs c"
  by (metis append_take_drop_id count_list_append le_add2)

lemma count_replace_all:
  assumes "\<forall>p \<in> set pairs. x \<notin> set (snd p)"
  shows "count_list (replace_all pairs s) x \<le> count_list s x"
  using assms
proof (induction pairs s rule: replace_all.induct)
  case (2 pairs c cs)
  show ?case
  proof (cases "find (\<lambda>p. fst p \<noteq> [] \<and> prefix (fst p) (c # cs)) pairs")
    case None
    then show ?thesis using "2.IH"(1) [OF None "2.prems"] by simp
  next
    case (Some p)
    obtain k v where p: "p = (k, v)" by (cases p)
    have "p \<in> set pairs" using find_SomeD [OF Some] by simp
    then have "count_list v x = 0" using "2.prems" p by (auto simp: count_list_0_iff)
    moreover have "count_list (replace_all pairs (drop (length k) (c # cs))) x \<le> count_list (drop (length k) (c # cs)) x"
      using "2.IH"(2) Some p "2.prems" by simp
    ultimately show ?thesis
      using Some p count_list_drop [of "length k" "c # cs" x] by simp
  qed
qed simp

lemma link_values_braces: "\<forall>p \<in> set (link_values rem now). \<exists>k. fst p = CHR ''{'' # k"
  by (simp add: link_values_def case_prod_beta)

lemma link_values_query: "p \<in> set (link_values rem now) \<Longrightarrow> c \<in> set (snd p) \<Longrightarrow> query_char c"
  by (auto simp: link_values_def case_prod_beta dest: escape_chars)

lemma control_not_query: "query_char c \<Longrightarrow> \<not> ((of_char c :: nat) < 32 \<or> (of_char c :: nat) = 127)"
  by (auto simp: query_char_def unreserved_def is_letter_def is_digit_def Let_def)

end
