(* ===== verification/DashProperties.thy ===== *)
theory DashProperties
  imports DashHandler DashFigures DashLinks Command EngineProperties
begin

text \<open>
  What holds of the dashboard: its links and pages, its figures, who may read it, and where what it says is
  what the engine does.
\<close>

section \<open>The list\<close>

text \<open>C26: A link of the remediations page carries the whole view. Whatever well-formed filter, order and page
  a link is built from, the page the handler builds from the query string of that link is the list for exactly
  that filter, order and page. And what the handler reads out of any query string is well-formed, so the link
  to the page in front of the reader always leads back to it.\<close>

theorem links_carry_the_whole_view:
  assumes "filter_wf f" and "order_wf order" and "1 \<le> page" and "in_int64 page"
  shows "list_page rs (ParseQuery (url_query (listPath f order page))) now = buildRemediations rs f order page now
    \<and> list_page rs (ParseQuery (url_query (listPath (ParseFilter q) (ParseSort q) (ParsePage q)))) now = list_page rs q now"
  using assms ParsePage_range [of q]
  by (simp add: list_page_def ParseFilter_listPath ParseSort_listPath ParsePage_listPath)

text \<open>A filter whose value needs escaping, a column and the third page.\<close>

theorem links_carry_the_whole_view_witness:
  "list_page [] (ParseQuery (url_query (listPath (no_filter\<lparr>FTarget := ''node//a b&c=d''\<rparr>)
       \<lparr>SortKey = ''took'', SortDesc = False\<rparr> 3))) 5
     = buildRemediations [] (no_filter\<lparr>FTarget := ''node//a b&c=d''\<rparr>) \<lparr>SortKey = ''took'', SortDesc = False\<rparr> 3 5"
  by (rule links_carry_the_whole_view [THEN conjunct1])
    (simp_all add: filter_wf_def filter_clauses_def no_filter_def trimmed_def trim_space_def is_space_def order_wf_def
      sortable_def sort_key_defs in_int64_def)

text \<open>The pages of the list hold every record the filter keeps, once. The pages, from the first to the
  last, are consecutive cuts of the kept records, none longer than the page size; the lines of a page are the
  runs of its cut, and the number of records they stand for adds up to the records of the page, so that nothing
  is lost when repeats collapse; the numbers of the first and the last record drawn are where the cut lies; and
  the counts of the head add up to the total.\<close>

theorem pages_cover_the_list_once:
  "mset (kept_list rs f order) = mset (filter (filter_matches f) rs)
   \<and> concat (map (\<lambda>p. view_cut rs f order p now) [1..PPages (VPaging (buildRemediations rs f order page now))])
       = kept_list rs f order
   \<and> VShown (buildRemediations rs f order page now) \<le> pageSize
   \<and> sum_list (map LineCount (VRows (buildRemediations rs f order page now)))
       = VShown (buildRemediations rs f order page now)
   \<and> VTotal (buildRemediations rs f order page now)
       = VSucceeded (buildRemediations rs f order page now) + VFailed (buildRemediations rs f order page now)
         + VSimulated (buildRemediations rs f order page now) + VInFlight (buildRemediations rs f order page now)"
proof -
  let ?k = "kept_list rs f order"
  have "concat (map (\<lambda>p. view_cut rs f order p now) [1..page_count (int (length ?k))])
      = concat (map (\<lambda>p. page_slice p ?k) [1..page_count (int (length ?k))])"
    by (intro arg_cong [of _ _ concat] map_cong) (auto simp: buildRemediations_fields PPage_pageOf)
  moreover have "1 \<le> PPage (pageOf (int (length ?k)) page f order)" by (simp add: PPage_pageOf page_count_def)
  then have "length (page_slice (PPage (pageOf (int (length ?k)) page f order)) ?k) \<le> 100" by (simp add: page_slice_eq)
  moreover have "VSucceeded (buildRemediations rs f order page now) = CSucceeded (tally ?k)"
    "VFailed (buildRemediations rs f order page now) = CFailed (tally ?k)"
    "VSimulated (buildRemediations rs f order page now) = CSimulated (tally ?k)"
    "VInFlight (buildRemediations rs f order page now) = CInFlight (tally ?k)"
    by (simp_all add: buildRemediations_def kept_list_def Let_def)
  ultimately show ?thesis
    by (simp add: buildRemediations_fields mset_kept_list concat_pages line_counts tally_total pageSize_def)
qed

text \<open>Which order the API server lists the records in does not show. Two listings of the same records, each
  with its own name, give the same page: same lines, same counts, same controls.\<close>

theorem the_page_does_not_shuffle:
  assumes "mset rs = mset rs'" and "distinct (map rem_name rs)"
  shows "list_page rs q now = list_page rs' q now
    \<and> sorted_wrt (\<lambda>a b. \<not> order_less (ParseSort q) b a) (kept_list rs (ParseFilter q) (ParseSort q))"
proof -
  have "newestFirst rs = newestFirst rs'"
    using assms Apply_unique [of rs rs' default_order] by (simp add: newestFirst_def Apply_def default_order_def)
  moreover have "length rs = length rs'" using assms(1) by (rule mset_eq_length)
  ultimately show ?thesis
    by (simp add: list_page_def buildRemediations_def kept_list_def sorted_Apply)
qed

theorem the_page_does_not_shuffle_witness:
  "list_page [ex_record [] 0 ExecutionModeAuto False RemediationStateFailed 0,
     (ex_record [] 0 ExecutionModeAuto False RemediationStateFailed 0)\<lparr>Meta := ex_meta\<lparr>Name := ''r2''\<rparr>\<rparr>] [] 5
   = list_page [(ex_record [] 0 ExecutionModeAuto False RemediationStateFailed 0)\<lparr>Meta := ex_meta\<lparr>Name := ''r2''\<rparr>\<rparr>,
     ex_record [] 0 ExecutionModeAuto False RemediationStateFailed 0] [] 5"
  by (rule the_page_does_not_shuffle [THEN conjunct1]) (simp_all add: ex_record_def ex_meta_def)


definition ex_two :: "remediation list" where
  "ex_two = [ex_record [] 0 ExecutionModeAuto False RemediationStateFailed 0,
     (ex_record [] 0 ExecutionModeAuto False RemediationStateSucceeded 0)\<lparr>Meta := ex_meta\<lparr>Name := ''r2''\<rparr>\<rparr>]"

definition ex_failed_choice :: filter_option where
  "ex_failed_choice = \<lparr>OptValue = ''Failed'', OptURL = sortedPath (no_filter\<lparr>FState := ''Failed''\<rparr>) default_order,
     OptSelected = False, OptCount = 1\<rparr>"

lemma ex_two_choice:
  obtains g where "g \<in> set (VGroups (buildRemediations ex_two no_filter default_order 1 5))"
    and "ex_failed_choice \<in> set (GOptions g @ GQuickPicks g)"
proof -
  have sorted: "newestFirst ex_two = ex_two"
    by (simp add: newestFirst_def sortNewestFirst_def ex_two_def sort_slice_Cons newer_first_def ex_record_def ex_meta_def)
  have states: "OStates (BuildFilterOptions ex_two) = [''Failed'', ''Succeeded'']"
    by (simp add: BuildFilterOptions_def ex_two_def ex_record_def zero_status_def displayState_def sortedKeys_def Let_def add_key_def)
  let ?d = "dimensions (BuildFilterOptions ex_two) no_filter ! 2"
  have d: "?d \<in> set (dimensions (BuildFilterOptions ex_two) no_filter)" "DValues ?d = [''Failed'', ''Succeeded'']"
    by (simp_all add: dimensions_def states)
  then have "dimension_group ?d default_order ex_two \<in> set (VGroups (buildRemediations ex_two no_filter default_order 1 5))"
    by (auto simp: buildRemediations_def Let_def Groups_def sorted)
  moreover have "ex_failed_choice = \<lparr>OptValue = ''Failed'', OptURL = sortedPath (option_target ?d ''Failed'') default_order,
      OptSelected = (''Failed'' = DChosen ?d), OptCount = tally_get (countByValue ex_two (narrow ?d (DRest ?d)) (DKey ?d)) ''Failed''\<rparr>"
    by (simp add: ex_failed_choice_def dimensions_def narrow_def option_target_def no_filter_def countByValue_def filter_matches_def
      ex_two_def ex_record_def zero_status_def displayState_def tally_inc_def tally_get_def)
  then have "ex_failed_choice \<in> set (GOptions (dimension_group ?d default_order ex_two))"
    using d(2) by (simp add: dimension_group_def Let_def dimension_options_def)
  ultimately show thesis using that by auto
qed


section \<open>Who may read\<close>


definition ex_reader :: "remediation list \<Rightarrow> dash_reader" where
  "ex_reader rs = \<lparr>ReadRemediation = (\<lambda>ns n. Inl (ErrNotFound n)), ListRemediations = (\<lambda>ns. Inr rs), ListStrategies = Inr []\<rparr>"

definition ex_handler :: dash_handler where
  "ex_handler = \<lparr>DHReader = ex_reader [], DHNamespace = ''remedik'', DHToken = ''s3cret'',
     DHPosture = \<lparr>PDryRun = False, PLive = [], PDryRunOnly = [], PPaused = False\<rparr>, DHPaused = None, DHCluster = '''',
     DHVersion = '''', DHLinks = []\<rparr>"

definition ex_dash_request :: "string \<Rightarrow> dash_request" where
  "ex_dash_request auth = \<lparr>DMethod = ''GET'', DPath = ''/'', DQuery = '''', DAuthorization = auth\<rparr>"


lemma ex_two_namespace:
  "r \<in> set ex_two \<Longrightarrow> targetNamespaceOf r = ''shop''"
  "hd ex_two \<in> set ex_two" "in_state RemediationStateFailed (hd ex_two)"
  by (auto simp: ex_two_def ex_record_def ex_spec_def zero_status_def targetNamespaceOf_def TargetNamespace_def)

section \<open>What the chips say\<close>

lemma namespace_dry_run_engine:
  assumes "ParsePosture pairs = Inr ov" and "ns \<noteq> ''''"
  shows "namespace_dry_run (dashboardPosture (NewPosture dry ov)) ns \<longleftrightarrow> DryRunFor (NewPosture dry ov) ns"
proof -
  have "map_wf ([] :: (string \<times> mode) list)" by simp
  note parsed = parse_posture_loop_spec [OF assms(1) [unfolded ParsePosture_def] this]
  have wf: "map_wf ov" using parsed by blast
  have in_list: "ns \<in> set (Namespaces \<lparr>Default = d, Overrides = ov\<rparr> m) \<longleftrightarrow> map_of ov ns = Some m" for m d
    using wf by (force simp: Namespaces_def)
  have said: "m = ModeLive \<or> m = ModeDryRun" if "map_of ov ns = Some m" for m
  proof -
    have "map_of ov ns = Some m \<longleftrightarrow> map_of [] ns = Some m \<or> (\<exists>pair \<in> set pairs. pair_says pair ns m)" using parsed by blast
    then show ?thesis using that pair_says_modes by auto
  qed
  show ?thesis
  proof (cases "map_of ov ns")
    case None
    then show ?thesis
      using assms(2) by (cases dry) (simp_all add: namespace_dry_run_def dashboardPosture_def NewPosture_def in_list DryRunFor_def)
  next
    case (Some m)
    then show ?thesis
      using assms(2) said [OF Some]
      by (cases dry; cases m) (simp_all add: namespace_dry_run_def dashboardPosture_def NewPosture_def in_list DryRunFor_def)
  qed
qed

text \<open>C25: The chip of a namespace says what the engine will do there. The dashboard is given the posture as two lists of
  namespaces and the default; the engine has the parsed flag. For every row the namespaces page shows, the chip is
  \<open>Paused\<close> while remediation is paused, and otherwise \<open>Reporting\<close> or \<open>Live\<close> as the record the sink would
  make for a target in that namespace is a dry run or is not.\<close>

theorem chips_say_what_the_engine_will_do:
  assumes "ParsePosture pairs = Inr ov"
    and "row \<in> set (NVRows (buildNamespaces rs p now f) @ NVRest (buildNamespaces rs p now f))"
    and "p = (dashboardPosture (NewPosture dry ov))\<lparr>PPaused := paused\<rparr>"
    and "SPosture sk = NewPosture dry ov" and "TNamespace t = NRName row"
  shows "NRPosture row = (if paused then ''Paused''
      else if DryRun (Spec (new_record sk a st t paused)) then ''Reporting'' else ''Live'')"
proof -
  have row: "row \<in> set (all_rows rs p now)" using assms(2) unfolding view_row_in_all by simp
  then have "NRName row \<in> NRName ` set (all_rows rs p now)" by (rule imageI)
  then have ns: "NRName row \<noteq> ''''" by (auto simp: all_rows_name_set)
  have "namespace_dry_run p (NRName row) = DryRunFor (NewPosture dry ov) (NRName row)"
    unfolding namespace_dry_run_engine [OF assms(1) ns, of dry, symmetric]
    by (cases "dashboardPosture (NewPosture dry ov)") (simp add: namespace_dry_run_def assms(3))
  moreover have "PPaused p = paused" using assms(3) by simp
  moreover have "DryRun (Spec (new_record sk a st t False)) = DryRunFor (NewPosture dry ov) (NRName row)"
    using assms(4,5) by (simp add: new_record_def)
  ultimately show ?thesis
    using all_rows_posture [OF row] by (simp add: postureReportingLabel_def postureLiveLabel_def)
qed

text \<open>remedik acts, except in one namespace; the record of that namespace makes a row.\<close>

theorem chips_say_what_the_engine_will_do_witness:
  "\<exists>row. NRName row = ''shop'' \<and> NRPosture row = ''Reporting''
     \<and> row \<in> set (all_rows ex_two (dashboardPosture (NewPosture False [(''shop'', ModeDryRun)])) 5)"
proof -
  let ?p = "(dashboardPosture (NewPosture False [(''shop'', ModeDryRun)]))\<lparr>PPaused := False\<rparr>"
  let ?f = "\<lparr>NFName = [], NFPosture = [], NFShow = []\<rparr>"
  let ?sk = "(ex_sink None)\<lparr>SPosture := NewPosture False [(''shop'', ModeDryRun)]\<rparr>"
  have p: "?p = dashboardPosture (NewPosture False [(''shop'', ModeDryRun)])" by (simp add: dashboardPosture_def)
  have "''shop'' \<in> NRName ` set (all_rows ex_two ?p 5)"
    unfolding all_rows_name_set
    using ex_two_namespace by force
  then obtain row where row: "row \<in> set (all_rows ex_two ?p 5)" "NRName row = ''shop''" by auto
  have "keeps ?f row" by (simp add: keeps_def ns_word_defs)
  then have shown: "row \<in> set (NVRows (buildNamespaces ex_two ?p 5 ?f) @ NVRest (buildNamespaces ex_two ?p 5 ?f))"
    unfolding view_row_in_all using row by simp
  have flag: "ParsePosture [''shop=dryRun''] = Inr [(''shop'', ModeDryRun)]" by code_simp
  have sk: "SPosture ?sk = NewPosture False [(''shop'', ModeDryRun)]" by simp
  have t: "TNamespace \<lparr>TKind = ''deployment'', TNamespace = ''shop'', TName = ''api''\<rparr> = NRName row" using row by simp
  have "NRPosture row = ''Reporting''"
    using chips_say_what_the_engine_will_do [OF flag shown refl sk t, of ex_alert ex_strategy]
    by (simp add: new_record_def DryRunFor_def NewPosture_def)
  then show ?thesis using row unfolding p by blast
qed

section \<open>What the rows count\<close>

text \<open>C31: The namespaces page counts everything it was given. A row's counts are those of the records whose target is in
  its namespace, failures nobody was told about included; there is one row for every namespace a record has
  touched, of which the filter only leaves some out; and the number of namespaces that need attention is the
  number of namespaces with a failure on record.\<close>

theorem namespaces_page_counts_everything:
  "(\<forall>row. row \<in> set (NVRows (buildNamespaces rs p now f) @ NVRest (buildNamespaces rs p now f)) \<longrightarrow> row_counts (NRName row) rs row)
   \<and> mset (NVRows (buildNamespaces rs p now f) @ NVRest (buildNamespaces rs p now f)) = mset (filter (keeps f) (all_rows rs p now))
   \<and> distinct (map NRName (all_rows rs p now))
   \<and> NRName ` set (all_rows rs p now) = {targetNamespaceOf r | r. r \<in> set rs \<and> targetNamespaceOf r \<noteq> ''''}
   \<and> NVAttention (buildNamespaces rs p now f)
       = int (card {targetNamespaceOf r | r. r \<in> set rs \<and> targetNamespaceOf r \<noteq> '''' \<and> in_state RemediationStateFailed r})"
proof (intro conjI allI impI)
  show "row_counts (NRName row) rs row"
    if "row \<in> set (NVRows (buildNamespaces rs p now f) @ NVRest (buildNamespaces rs p now f))" for row
    using that unfolding view_row_in_all by (intro all_rows_counts [of row rs p now]) simp
qed (rule mset_view_rows all_rows_distinct all_rows_name_set attention_is_failed_namespaces)+

theorem namespaces_page_counts_everything_witness:
  "NVAttention (buildNamespaces ex_two (dashboardPosture (NewPosture False [])) 5 \<lparr>NFName = [], NFPosture = [], NFShow = []\<rparr>) = 1"
proof -
  have "{targetNamespaceOf r | r. r \<in> set ex_two \<and> targetNamespaceOf r \<noteq> '''' \<and> in_state RemediationStateFailed r} = {''shop''}"
    using ex_two_namespace by force
  then show ?thesis
    using namespaces_page_counts_everything [of ex_two "dashboardPosture (NewPosture False [])" 5 "\<lparr>NFName = [], NFPosture = [], NFShow = []\<rparr>"]
    by simp
qed

section \<open>The queue\<close>

lemma expired_iff:
  assumes "0 \<le> now"
  shows "WVExpired (buildWaiting rem now) \<longleftrightarrow> \<not> (\<exists>deadline. ApprovalDeadline (Spec rem) = Some deadline \<and> now < deadline)"
proof (cases "ApprovalDeadline (Spec rem)")
  case None
  then show ?thesis by (simp add: buildWaiting_def case_prod_beta Let_def)
next
  case (Some d)
  have "time_sub d now \<le> 0 \<longleftrightarrow> d \<le> now" by (auto simp: time_sub_def max_def min_def)
  then show ?thesis
    using Some assms by (cases "d = 0") (auto simp: buildWaiting_def case_prod_beta Let_def)
qed



section \<open>Links out\<close>

text \<open>C30: A configured link cannot be bent. Whatever the record carries, a link the page shows comes from one of the
  configured ones; it has the scheme of its template, http or https, so it is never a script; no character
  with a meaning in a URL, such as a slash, a question mark, an ampersand or a hash, occurs in it more often
  than in the template; and it holds no control character. The one thing asked of the URL parser is that the
  scheme it reports is the one the URL starts with.\<close>

theorem links_cannot_be_bent:
  assumes "NewDashboard parse cfg = Inr h" and "\<And>s scheme. parse s = Some scheme \<Longrightarrow> scheme = url_scheme s"
    and "l \<in> set (resolveLinks (DHLinks h) rem now)"
  shows "url_scheme (LinkURL l) \<in> {''http'', ''https''}
    \<and> (\<exists>t \<in> set (DCLinks cfg). LinkName l = LinkName t
        \<and> (\<forall>c. \<not> query_char c \<longrightarrow> count_list (LinkURL l) c \<le> count_list (LinkURL t) c))
    \<and> \<not> hasControlChars (LinkURL l)"
proof -
  have "DHLinks h = validLinks parse (DCLinks cfg)"
    using assms(1) by (auto simp: NewDashboard_def split: option.splits if_splits)
  then obtain t where t: "t \<in> set (validLinks parse (DCLinks cfg))"
    and l: "l = \<lparr>LinkName = LinkName t, LinkURL = replace_all (link_values rem now) (LinkURL t)\<rparr>"
    using assms(3) by (auto simp: resolveLinks_def)
  have scheme: "url_scheme (LinkURL t) \<in> {''http'', ''https''}" and ctl: "\<not> hasControlChars (LinkURL t)" and c: "t \<in> set (DCLinks cfg)"
    using t assms(2) by (auto simp: validLinks_def safeLinkTemplate_def split: option.splits)
  have count: "count_list (LinkURL l) x \<le> count_list (LinkURL t) x" if "\<not> query_char x" for x
    using that link_values_query unfolding l by (auto intro!: count_replace_all)
  have "\<not> hasControlChars (LinkURL l)"
  proof
    assume "hasControlChars (LinkURL l)"
    then obtain x where x: "x \<in> set (LinkURL l)" "(of_char x :: nat) < 32 \<or> (of_char x :: nat) = 127"
      by (auto simp: hasControlChars_def list_ex_iff)
    then have "0 < count_list (LinkURL l) x" by (simp add: count_list_0_iff neq0_conv [symmetric] del: neq0_conv)
    moreover have "\<not> query_char x" using control_not_query x(2) by blast
    ultimately have "0 < count_list (LinkURL t) x" using count [of x] by simp
    then have "x \<in> set (LinkURL t)" by (metis count_list_0_iff less_irrefl)
    then show False using ctl x(2) by (auto simp: hasControlChars_def list_ex_iff)
  qed
  moreover have "url_scheme (LinkURL l) = url_scheme (LinkURL t)"
    using url_scheme_replaced [OF link_values_braces] scheme unfolding l by auto
  ultimately show ?thesis using scheme c count by (auto simp: l)
qed

definition ex_dash_config :: dash_config where
  "ex_dash_config = \<lparr>DCReader = Some \<lparr>ReadRemediation = (\<lambda>ns n. Inl (ErrNotFound n)), ListRemediations = (\<lambda>ns. Inr []), ListStrategies = Inr []\<rparr>,
     DCNamespace = ''remedik'', DCToken = '''',
     DCPosture = \<lparr>PDryRun = False, PLive = [], PDryRunOnly = [], PPaused = False\<rparr>, DCPaused = None, DCCluster = '''',
     DCVersion = '''', DCLinks = [\<lparr>LinkName = ''graph'', LinkURL = ''https://g/?t={target}''\<rparr>,
       \<lparr>LinkName = ''bad'', LinkURL = ''javascript:{target}''\<rparr>], DCLogger = True\<rparr>"

definition ex_bent :: remediation where
  "ex_bent = (ex_record [] 0 ExecutionModeAuto False RemediationStateFailed 0)\<lparr>Spec := (ex_spec [] 0 ExecutionModeAuto False)\<lparr>SpecTarget := ''a/&?''\<rparr>\<rparr>"

theorem links_cannot_be_bent_witness:
  "\<exists>h l. NewDashboard (\<lambda>s. Some (url_scheme s)) ex_dash_config = Inr h \<and> set (resolveLinks (DHLinks h) ex_bent 5) = {l}
     \<and> LinkURL l = ''https://g/?t=a%2F%26%3F'' \<and> url_scheme (LinkURL l) \<in> {''http'', ''https''}"
proof -
  have kept: "validLinks (\<lambda>s. Some (url_scheme s)) (DCLinks ex_dash_config) = [\<lparr>LinkName = ''graph'', LinkURL = ''https://g/?t={target}''\<rparr>]"
    by code_simp
  obtain h where h: "NewDashboard (\<lambda>s. Some (url_scheme s)) ex_dash_config = Inr h" "DHLinks h = [\<lparr>LinkName = ''graph'', LinkURL = ''https://g/?t={target}''\<rparr>]"
    using kept by (simp add: NewDashboard_def ex_dash_config_def)
  have "QueryEscape ''a/&?'' = ''a%2F%26%3F''" by code_simp
  then have l: "resolveLinks (DHLinks h) ex_bent 5 = [\<lparr>LinkName = ''graph'', LinkURL = ''https://g/?t=a%2F%26%3F''\<rparr>]"
    unfolding h(2) by (simp add: resolveLinks_def link_values_def case_prod_beta ex_bent_def)
  then have "url_scheme (LinkURL \<lparr>LinkName = ''graph'', LinkURL = ''https://g/?t=a%2F%26%3F''\<rparr>) \<in> {''http'', ''https''}"
    using links_cannot_be_bent [OF h(1), of "\<lparr>LinkName = ''graph'', LinkURL = ''https://g/?t=a%2F%26%3F''\<rparr>" ex_bent 5] by simp
  then show ?thesis using h(1) l by (intro exI conjI) auto
qed

section \<open>The activity of a window\<close>

text \<open>The activity panel counts its window. Bar number \<open>i\<close> of a window counts the records that ran in its part of
  the time, by outcome, and every record that ran in the window is in a bar; a bar's height is a percentage of
  the busiest, and its shares are percentages that add up to 100 wherever it stands for a record.\<close>

theorem activity_counts_its_window:
  assumes "w \<in> set windows" and "p = buildActivity offset rs w now"
  shows "int (length (ABars p)) = WBuckets w
    \<and> ATotal p = how_many (in_window w now) rs
    \<and> AFailed p = how_many (\<lambda>r. in_window w now r \<and> State (Status r) = RemediationStateFailed) rs
    \<and> (\<forall>i < length (ABars p). let b = ABars p ! i in
         bar_ok w now rs (int i) b \<and> 0 \<le> BarPercent b \<and> BarPercent b \<le> 100
         \<and> (0 < BarTotal b \<longrightarrow> 0 \<le> BarSucceededPct b \<and> 0 \<le> BarFailedPct b \<and> 0 \<le> BarSimulatedPct b
              \<and> BarSucceededPct b + BarFailedPct b + BarSimulatedPct b = 100))"
proof -
  let ?start = "Start w now"
  define p0 where "p0 = \<lparr>ABars = map (\<lambda>i. empty_bar (format_layout offset (WLayout w) (time_add ?start (i * WBucket w)))) [0..WBuckets w - 1],
     ABusiest = 0, AScale = 0, ATotal = 0, AFailed = 0, AWindow = WLabel w\<rparr>"
  define q where "q = fold (activity_add w ?start) rs p0"
  define scale where "scale = (if ABusiest q < activityScaleFloor then activityScaleFloor else ABusiest q)"
  have "panel_ok w now [] p0"
    using window_numbers(2) [OF assms(1)] by (auto simp: panel_ok_def p0_def bar_ok_def empty_bar_def)
  then have ok: "panel_ok w now rs q" unfolding q_def by (rule panel_ok_fold [OF assms(1)])
  have p: "p = q\<lparr>AScale := scale, ABars := map (bar_scale scale) (ABars q)\<rparr>"
    by (simp add: assms(2) buildActivity_def Let_def q_def p0_def scale_def)
  have "let b = ABars p ! i in
         bar_ok w now rs (int i) b \<and> 0 \<le> BarPercent b \<and> BarPercent b \<le> 100
         \<and> (0 < BarTotal b \<longrightarrow> 0 \<le> BarSucceededPct b \<and> 0 \<le> BarFailedPct b \<and> 0 \<le> BarSimulatedPct b
              \<and> BarSucceededPct b + BarFailedPct b + BarSimulatedPct b = 100)" if i: "i < length (ABars q)" for i
  proof -
    let ?b = "ABars q ! i"
    have b: "bar_ok w now rs (int i) ?b" "BarTotal ?b \<le> ABusiest q" using ok i by (simp_all add: panel_ok_def)
    have pi: "ABars p ! i = bar_scale scale ?b" using i by (simp add: p)
    have tot: "0 \<le> BarTotal ?b" using b(1) by (simp add: bar_ok_def)
    have sc: "BarTotal ?b \<le> scale" "0 < scale" using b(2) by (auto simp: scale_def activityScaleFloor_def)
    have pct: "0 \<le> go_div (BarTotal ?b * 100) scale" "go_div (BarTotal ?b * 100) scale \<le> 100"
      using share_bounds(1,2) [OF tot sc] by blast+
    have parts: "0 \<le> BarSucceeded ?b" "0 \<le> BarFailed ?b" "BarSucceeded ?b + BarFailed ?b \<le> BarTotal ?b"
      using b(1) how_many_disjoint [of "in_bucket w now (int i)" rs] by (simp_all add: bar_ok_def)
    show ?thesis
    proof (cases "0 < BarTotal ?b")
      case False
      then show ?thesis
        using b(1) sc(2) pct by (simp add: pi bar_scale_def bar_ok_def Let_def)
    next
      case True
      let ?s = "go_div (BarSucceeded ?b * 100) (BarTotal ?b)" and ?f = "go_div (BarFailed ?b * 100) (BarTotal ?b)"
      have "BarSucceeded ?b \<le> BarTotal ?b" "BarFailed ?b \<le> BarTotal ?b" using parts by linarith+
      then have s: "0 \<le> ?s" "?s * BarTotal ?b \<le> BarSucceeded ?b * 100" and f: "0 \<le> ?f" "?f * BarTotal ?b \<le> BarFailed ?b * 100"
        using parts share_bounds True by blast+
      have "(?s + ?f) * BarTotal ?b \<le> 100 * BarTotal ?b" using s(2) f(2) parts(3) by (simp only: distrib_right)
      then have "?s + ?f \<le> 100" using True by (simp only: mult_le_cancel_right_pos)
      then show ?thesis using b(1) sc(2) pct True s(1) f(1) by (simp add: pi bar_scale_def bar_ok_def Let_def)
    qed
  qed
  then show ?thesis using ok by (simp add: p panel_ok_def)
qed

theorem activity_counts_its_window_witness:
  "ATotal (buildActivity (\<lambda>_. 0) [ex_record [] 0 ExecutionModeAuto False RemediationStateFailed 0] day_window 5) = 1
   \<and> AFailed (buildActivity (\<lambda>_. 0) [ex_record [] 0 ExecutionModeAuto False RemediationStateFailed 0] day_window 5) = 1"
proof -
  let ?r = "ex_record [] 0 ExecutionModeAuto False RemediationStateFailed 0"
  have "in_window day_window 5 ?r" "State (Status ?r) = RemediationStateFailed"
    by (simp_all add: in_window_def Start_def Span_def day_window_def activityHours_def ranAt_def ex_record_def ex_meta_def zero_status_def)
  moreover have "day_window \<in> set windows" by (simp add: windows_def)
  ultimately show ?thesis
    using activity_counts_its_window [of day_window _ "\<lambda>_. 0" "[?r]" 5, OF _ refl] by (simp add: how_many_def)
qed

section \<open>What a figure links to\<close>



end
