(* ===== verification/Metrics.thy ===== *)
theory Metrics
  imports Command
begin

text \<open>
  \<open>internal/metrics/metrics.go\<close>, \<open>posture.go\<close> and \<open>internal/version\<close>: what remedik reports to Prometheus. The
  client library is not part of the repository; what the package does is the sequence of calls it makes of it,
  and a series is read off that sequence the way the library documents it: a counter is the sum of what was
  added, a gauge what was set last. Help texts are left out.
\<close>

section \<open>The build\<close>

text \<open>The version stamped at link time, and the settings of \<open>debug.ReadBuildInfo\<close>, if there are any.\<close>

definition version_String :: "string \<Rightarrow> (string \<times> string) list option \<Rightarrow> string" where
  "version_String stamped info =
     (if stamped \<noteq> ''dev'' then stamped
      else case info of
        None \<Rightarrow> stamped
      | Some settings \<Rightarrow>
          (case find (\<lambda>(key, value). key = ''vcs.revision'' \<and> 12 \<le> length value) settings of
             Some (_, value) \<Rightarrow> ''dev+'' @ take 12 value
           | None \<Rightarrow> stamped))"

section \<open>The families\<close>

text \<open>The buckets of a histogram of durations, by their upper bounds.\<close>

datatype family_kind = CounterKind | GaugeKind | HistogramKind "duration list"

record family =
  FamilyName :: string
  FamilyKind :: family_kind
  FamilyLabels :: "string list"

text \<open>The full name joins the namespace and the name with an underscore.\<close>

definition full_name :: "string \<Rightarrow> string" where "full_name n = ''remedik'' @ ''_'' @ n"

definition new_counter :: "string \<Rightarrow> string list \<Rightarrow> family" where
  "new_counter n ls = \<lparr>FamilyName = full_name n, FamilyKind = CounterKind, FamilyLabels = ls\<rparr>"

definition new_gauge :: "string \<Rightarrow> string list \<Rightarrow> family" where
  "new_gauge n ls = \<lparr>FamilyName = full_name n, FamilyKind = GaugeKind, FamilyLabels = ls\<rparr>"

definition alertsReceived :: family where "alertsReceived = new_counter ''alerts_received_total'' []"
definition alertsTruncated :: family where "alertsTruncated = new_counter ''alerts_truncated_total'' []"
definition alertsUnmatched :: family where "alertsUnmatched = new_counter ''alerts_unmatched_total'' []"
definition ingestErrors :: family where "ingestErrors = new_counter ''ingest_errors_total'' [''reason'']"
definition unauthorized :: family where "unauthorized = new_counter ''unauthorized_total'' []"
definition recordsSwept :: family where "recordsSwept = new_counter ''records_swept_total'' []"
definition recordsHeld :: family where "recordsHeld = new_gauge ''records_held_by_guards'' []"
definition guardRejections :: family where
  "guardRejections = new_counter ''guard_rejections_total'' [''strategy'', ''guard'']"
definition remediationsStarted :: family where
  "remediationsStarted = new_counter ''remediations_started_total'' [''strategy'']"
definition remediationsFinished :: family where
  "remediationsFinished = new_counter ''remediations_total'' [''strategy'', ''outcome'']"
definition remediationDuration :: family where
  "remediationDuration =
     \<lparr>FamilyName = full_name ''remediation_duration_seconds'',
      FamilyKind = HistogramKind [second div 2, second, 2 * second, 5 * second, 10 * second, 30 * second, 60 * second,
        300 * second, 900 * second],
      FamilyLabels = [''strategy'']\<rparr>"
definition escalations :: family where "escalations = new_counter ''escalations_total'' [''strategy'', ''outcome'']"

definition buildInfo :: family where "buildInfo = new_gauge ''build_info'' [''version'']"
definition dryRunGauge :: family where "dryRunGauge = new_gauge ''dry_run'' []"
definition namespacePostureGauge :: family where
  "namespacePostureGauge = new_gauge ''namespace_posture'' [''namespace'', ''posture'']"
definition strategiesDesc :: family where "strategiesDesc = new_gauge ''strategies'' [''enabled'']"
definition recordsDesc :: family where "recordsDesc = new_gauge ''remediation_records'' [''state'']"

lemmas family_defs = new_counter_def new_gauge_def full_name_def alertsReceived_def alertsTruncated_def
  alertsUnmatched_def ingestErrors_def unauthorized_def recordsSwept_def recordsHeld_def guardRejections_def
  remediationsStarted_def remediationsFinished_def remediationDuration_def escalations_def
  buildInfo_def dryRunGauge_def namespacePostureGauge_def strategiesDesc_def recordsDesc_def

definition counter_collectors :: "family list" where
  "counter_collectors =
     [alertsReceived, alertsTruncated, alertsUnmatched, ingestErrors, unauthorized, guardRejections,
      remediationsStarted, remediationsFinished, remediationDuration, escalations, recordsSwept, recordsHeld]"

definition postureCollectors :: "family list" where
  "postureCollectors = [buildInfo, dryRunGauge, namespacePostureGauge]"

text \<open>\<open>postureCollector.Describe\<close>.\<close>

definition posture_Describe :: "family list" where "posture_Describe = [strategiesDesc, recordsDesc]"

section \<open>The calls\<close>

text \<open>
  A collector is registered by the families it describes. Numbers are those before their conversion to
  \<open>float64\<close>, and an observation is the duration of which the seconds are taken.
\<close>

datatype prom_call =
    Register "family list"
  | CounterInc family "string list"
  | CounterAdd family "string list" int
  | GaugeSet family "string list" int
  | Observe family "string list" duration

definition MustRegister :: "prom_call list" where "MustRegister = [Register counter_collectors]"

fun Gateway_record :: "gateway_metric \<Rightarrow> prom_call list" where
  "Gateway_record (AlertsReceived n) = [CounterAdd alertsReceived [] (int n)]"
| "Gateway_record (AlertsTruncated n) = [CounterAdd alertsTruncated [] n]"
| "Gateway_record (IngestError reason) = [CounterInc ingestErrors [reason]]"
| "Gateway_record Unauthorized = [CounterInc unauthorized []]"

definition Engine_Unmatched :: "prom_call list" where "Engine_Unmatched = [CounterInc alertsUnmatched []]"

definition Engine_GuardRejected :: "string \<Rightarrow> string \<Rightarrow> prom_call list" where
  "Engine_GuardRejected strategy guard = [CounterInc guardRejections [strategy, guard]]"

definition Engine_RemediationStarted :: "string \<Rightarrow> prom_call list" where
  "Engine_RemediationStarted strategy = [CounterInc remediationsStarted [strategy]]"

definition Engine_RemediationFinished :: "string \<Rightarrow> string \<Rightarrow> duration \<Rightarrow> prom_call list" where
  "Engine_RemediationFinished strategy outcome elapsed =
     [CounterInc remediationsFinished [strategy, outcome], Observe remediationDuration [strategy] elapsed]"

definition Engine_EscalationFinished :: "string \<Rightarrow> string \<Rightarrow> prom_call list" where
  "Engine_EscalationFinished strategy outcome = [CounterInc escalations [strategy, outcome]]"

definition Engine_RecordsSwept :: "nat \<Rightarrow> nat \<Rightarrow> prom_call list" where
  "Engine_RecordsSwept deleted heldByGuards =
     [CounterAdd recordsSwept [] (int deleted), GaugeSet recordsHeld [] (int heldByGuards)]"

lemmas engine_record_defs = Engine_Unmatched_def Engine_GuardRejected_def Engine_RemediationStarted_def
  Engine_RemediationFinished_def Engine_EscalationFinished_def Engine_RecordsSwept_def

text \<open>The type \<open>Engine\<close> as the recorder the engine is given: \<open>report\<close> is what a world makes of the calls.\<close>

definition metrics_Engine :: "(prom_call list \<Rightarrow> 'w \<Rightarrow> 'w) \<Rightarrow> 'w recorder" where
  "metrics_Engine report =
     \<lparr>MUnmatched = report Engine_Unmatched,
      MGuardRejected = (\<lambda>strategy guard. report (Engine_GuardRejected strategy guard)),
      MRemediationStarted = (\<lambda>strategy. report (Engine_RemediationStarted strategy)),
      MRemediationFinished = (\<lambda>strategy outcome elapsed. report (Engine_RemediationFinished strategy outcome elapsed)),
      MEscalationFinished = (\<lambda>strategy outcome. report (Engine_EscalationFinished strategy outcome)),
      MRecordsSwept = (\<lambda>deleted held. report (Engine_RecordsSwept deleted held))\<rparr>"

section \<open>The posture\<close>

record 'w posture_config =
  PcVersion :: string
  PcDryRun :: bool
  PcNamespacePosture :: "smap option"
  PcSnapshot :: "('w st \<Rightarrow> (go_error + snapshot) \<times> 'w st) option"

definition MustRegisterPosture :: "'w posture_config \<Rightarrow> prom_call list" where
  "MustRegisterPosture cfg =
     [Register postureCollectors, GaugeSet buildInfo [PcVersion cfg] 1,
      (if PcDryRun cfg then GaugeSet dryRunGauge [] 1 else GaugeSet dryRunGauge [] 0)]
     @ map (\<lambda>(ns, posture). GaugeSet namespacePostureGauge [ns, posture] 1)
         (case PcNamespacePosture cfg of None \<Rightarrow> [] | Some m \<Rightarrow> m)
     @ (case PcSnapshot cfg of None \<Rightarrow> [] | Some _ \<Rightarrow> [Register posture_Describe])"

text \<open>\<open>Collect\<close>: the constant metrics a scrape is answered with.\<close>

type_synonym const_metric = "family \<times> string list \<times> int"

definition Collect ::
  "('w st \<Rightarrow> (go_error + snapshot) \<times> 'w st) \<Rightarrow> 'w st \<Rightarrow> const_metric list \<times> 'w st" where
  "Collect snap s =
     (let (x, s) = snap s in
      case x of
        Inl e \<Rightarrow> ([], s)
      | Inr x \<Rightarrow>
          ([(strategiesDesc, [''true''], int (StrategiesEnabled x)), (strategiesDesc, [''false''], int (StrategiesDisabled x))]
           @ map (\<lambda>(state, count). (recordsDesc, [state], int count)) (RecordsByState x), s))"

text \<open>\<open>postureFrom\<close> and what \<open>run\<close> registers, from the parts it built.\<close>

definition postureFrom :: "'w snapshotter \<Rightarrow> 'w st \<Rightarrow> (go_error + snapshot) \<times> 'w st" where
  "postureFrom sn s = Snapshot sn s"

definition run_posture_config :: "string \<Rightarrow> options \<Rightarrow> 'w parts \<Rightarrow> 'w posture_config" where
  "run_posture_config version opts ps =
     \<lparr>PcVersion = version, PcDryRun = OptDryRun opts, PcNamespacePosture = postureLabels (SPosture (PartSink ps)),
      PcSnapshot = Some (postureFrom (PartSnapshotter ps))\<rparr>"

definition run_metrics :: "string \<Rightarrow> options \<Rightarrow> 'w parts \<Rightarrow> prom_call list" where
  "run_metrics version opts ps = MustRegister @ MustRegisterPosture (run_posture_config version opts ps)"

section \<open>Reading the series\<close>

fun added :: "family \<Rightarrow> prom_call \<Rightarrow> int" where
  "added f (CounterInc g ls) = (if g = f then 1 else 0)"
| "added f (CounterAdd g ls n) = (if g = f then n else 0)"
| "added f _ = 0"

fun call_labels :: "prom_call \<Rightarrow> string list" where
  "call_labels (CounterInc g ls) = ls"
| "call_labels (CounterAdd g ls n) = ls"
| "call_labels (GaugeSet g ls n) = ls"
| "call_labels (Observe g ls d) = ls"
| "call_labels (Register fs) = []"

definition counter_total :: "family \<Rightarrow> prom_call list \<Rightarrow> int" where
  "counter_total f calls = sum_list (map (added f) calls)"

definition counter_value :: "family \<Rightarrow> string list \<Rightarrow> prom_call list \<Rightarrow> int" where
  "counter_value f ls calls = counter_total f (filter (\<lambda>c. call_labels c = ls) calls)"

fun gauge_value :: "family \<Rightarrow> string list \<Rightarrow> prom_call list \<Rightarrow> int option" where
  "gauge_value f ls [] = None"
| "gauge_value f ls (c # cs) =
     (case gauge_value f ls cs of
        Some n \<Rightarrow> Some n
      | None \<Rightarrow> (case c of GaugeSet g ls' n \<Rightarrow> if g = f \<and> ls' = ls then Some n else None | _ \<Rightarrow> None))"

fun registered :: "prom_call list \<Rightarrow> family list" where
  "registered [] = []"
| "registered (Register fs # cs) = fs @ registered cs"
| "registered (_ # cs) = registered cs"

lemma counter_total_simps [simp]:
  "counter_total f [] = 0" "counter_total f (c # cs) = added f c + counter_total f cs"
  "counter_total f (cs @ cs') = counter_total f cs + counter_total f cs'"
  by (simp_all add: counter_total_def)

lemma counter_value_simps [simp]:
  "counter_value f ls [] = 0"
  "counter_value f ls (c # cs) = (if call_labels c = ls then added f c else 0) + counter_value f ls cs"
  "counter_value f ls (cs @ cs') = counter_value f ls cs + counter_value f ls cs'"
  by (simp_all add: counter_value_def)

lemma gauge_value_append:
  "gauge_value f ls (cs @ cs') = (case gauge_value f ls cs' of Some n \<Rightarrow> Some n | None \<Rightarrow> gauge_value f ls cs)"
  by (induction cs) (auto split: option.splits)

section \<open>The trace of the engine, as calls\<close>

fun effect_calls :: "effect \<Rightarrow> prom_call list" where
  "effect_calls UnmatchedCounted = Engine_Unmatched"
| "effect_calls (RejectionCounted strategy guard) = Engine_GuardRejected strategy guard"
| "effect_calls (StartCounted strategy) = Engine_RemediationStarted strategy"
| "effect_calls (FinishCounted strategy outcome d) = Engine_RemediationFinished strategy outcome d"
| "effect_calls (EscalationCounted strategy outcome) = Engine_EscalationFinished strategy outcome"
| "effect_calls (SweepCounted deleted held) = Engine_RecordsSwept deleted held"
| "effect_calls _ = []"

definition calls_of :: "effect list \<Rightarrow> prom_call list" where
  "calls_of es = concat (map effect_calls es)"

lemma calls_of_simps [simp]:
  "calls_of [] = []" "calls_of (e # es) = effect_calls e @ calls_of es" "calls_of (es @ es') = calls_of es @ calls_of es'"
  by (simp_all add: calls_of_def)

text \<open>Every method of the recorder reports the calls of the effect it is counted as.\<close>

lemma metrics_Engine_reports:
  "MUnmatched (metrics_Engine report) = report (effect_calls UnmatchedCounted)"
  "MGuardRejected (metrics_Engine report) n g = report (effect_calls (RejectionCounted n g))"
  "MRemediationStarted (metrics_Engine report) n = report (effect_calls (StartCounted n))"
  "MRemediationFinished (metrics_Engine report) n x d = report (effect_calls (FinishCounted n x d))"
  "MEscalationFinished (metrics_Engine report) n x = report (effect_calls (EscalationCounted n x))"
  "MRecordsSwept (metrics_Engine report) k l = report (effect_calls (SweepCounted k l))"
  by (simp_all add: metrics_Engine_def)

text \<open>No two families share a name, and a recorder's call has as many labels as its family.\<close>

lemma families_distinct: "distinct (map FamilyName (counter_collectors @ postureCollectors @ posture_Describe))"
  by (simp add: counter_collectors_def postureCollectors_def posture_Describe_def family_defs)

text \<open>The counters of the engine are six.\<close>

lemma engine_counters_differ [simp]:
  "alertsUnmatched \<noteq> guardRejections" "alertsUnmatched \<noteq> remediationsStarted" "alertsUnmatched \<noteq> remediationsFinished" "alertsUnmatched \<noteq> escalations" "alertsUnmatched \<noteq> recordsSwept"
  "guardRejections \<noteq> alertsUnmatched" "guardRejections \<noteq> remediationsStarted" "guardRejections \<noteq> remediationsFinished" "guardRejections \<noteq> escalations" "guardRejections \<noteq> recordsSwept"
  "remediationsStarted \<noteq> alertsUnmatched" "remediationsStarted \<noteq> guardRejections" "remediationsStarted \<noteq> remediationsFinished" "remediationsStarted \<noteq> escalations" "remediationsStarted \<noteq> recordsSwept"
  "remediationsFinished \<noteq> alertsUnmatched" "remediationsFinished \<noteq> guardRejections" "remediationsFinished \<noteq> remediationsStarted" "remediationsFinished \<noteq> escalations" "remediationsFinished \<noteq> recordsSwept"
  "escalations \<noteq> alertsUnmatched" "escalations \<noteq> guardRejections" "escalations \<noteq> remediationsStarted" "escalations \<noteq> remediationsFinished" "escalations \<noteq> recordsSwept"
  "recordsSwept \<noteq> alertsUnmatched" "recordsSwept \<noteq> guardRejections" "recordsSwept \<noteq> remediationsStarted" "recordsSwept \<noteq> remediationsFinished" "recordsSwept \<noteq> escalations"
  by (simp_all add: family_defs)

fun call_fits :: "prom_call \<Rightarrow> bool" where
  "call_fits (CounterInc f ls) \<longleftrightarrow> FamilyKind f = CounterKind \<and> length ls = length (FamilyLabels f)"
| "call_fits (CounterAdd f ls n) \<longleftrightarrow> FamilyKind f = CounterKind \<and> length ls = length (FamilyLabels f) \<and> 0 \<le> n"
| "call_fits (GaugeSet f ls n) \<longleftrightarrow> FamilyKind f = GaugeKind \<and> length ls = length (FamilyLabels f)"
| "call_fits (Observe f ls d) \<longleftrightarrow>
     (case FamilyKind f of HistogramKind bounds \<Rightarrow> True | _ \<Rightarrow> False) \<and> length ls = length (FamilyLabels f)"
| "call_fits (Register fs) \<longleftrightarrow> distinct (map FamilyName fs)"

lemma effect_calls_fit: "list_all call_fits (effect_calls e)"
  by (cases e) (simp_all add: engine_record_defs family_defs)

lemma calls_of_fit: "list_all call_fits (calls_of es)"
  by (induction es) (simp_all add: effect_calls_fit)

lemma served_calls_fit:
  assumes "ServeHTTP decode h r s = (resp, ms, s')"
  shows "list_all call_fits (concat (map Gateway_record ms))"
  using assms by (auto simp: ServeHTTP_def writeError_def Let_def family_defs split: if_splits sum.splits)

lemma run_metrics_fit: "list_all call_fits (run_metrics v opts ps)"
proof -
  have "list_all call_fits (map (\<lambda>(ns, posture). GaugeSet namespacePostureGauge [ns, posture] 1) m)" for m
    by (induction m) (auto simp: family_defs)
  moreover have "distinct (map FamilyName counter_collectors)" "distinct (map FamilyName postureCollectors)"
    "distinct (map FamilyName posture_Describe)"
    using families_distinct by simp_all
  ultimately show ?thesis
    by (simp add: run_metrics_def MustRegister_def MustRegisterPosture_def run_posture_config_def)
      (simp add: buildInfo_def dryRunGauge_def new_gauge_def)
qed

end
