(* ===== verification/Boot.thy ===== *)
theory Boot
  imports Metrics DashHandler
begin

text \<open>
  \<open>main\<close> and \<open>run\<close> of \<open>cmd/remedik/main.go\<close> from one end to the other: the order in which the process is put
  together, what the manager is given to run and which of it waits for the lease, and how each failure ends it.
  The calls of the libraries are named; whether each fails is a parameter.
\<close>

section \<open>What the manager is given\<close>

record boot_options = options +
  BoMetricsAddr :: string
  BoProbeAddr :: string
  BoGatewayAddr :: string
  BoDashboardAddr :: string
  BoCluster :: string
  BoPauseConfigMap :: string
  BoDashboardToken :: string
  BoLogLevel :: string
  BoShowVersion :: bool

text \<open>\<open>parseFlags\<close> on an empty command line, with what it takes from the environment.\<close>

definition default_boot_options :: "string \<Rightarrow> string \<Rightarrow> string \<Rightarrow> string \<Rightarrow> string \<Rightarrow> boot_options" where
  "default_boot_options namespace account cluster gateway_token dashboard_token =
     options.extend (default_options namespace account gateway_token)
       (boot_options.fields '':8080'' '':8081'' '':8090'' '''' cluster ''remedik-pause'' dashboard_token ''info'' False)"

record manager_options =
  MoMetricsAddr :: string
  MoProbeAddr :: string
  MoRecordNamespaces :: "string list"
  MoLeaderElection :: bool
  MoLeaseName :: string
  MoLeaseNamespace :: string
  MoReleaseOnCancel :: bool

definition manager_options_of :: "boot_options \<Rightarrow> manager_options" where
  "manager_options_of bo =
     \<lparr>MoMetricsAddr = BoMetricsAddr bo, MoProbeAddr = BoProbeAddr bo, MoRecordNamespaces = [OptNamespace bo],
      MoLeaderElection = True, MoLeaseName = ''remedik.remedik.dev'', MoLeaseNamespace = OptNamespace bo,
      MoReleaseOnCancel = True\<rparr>"

datatype runnable =
    RecordController int
  | StrategyController
  | GuardWarmer
  | PauseWatcherOf string
  | HttpServer string string
  | HistoryPruner duration
  | RecordSweeper

text \<open>A runnable that says nothing waits for the lease, and so do the controllers.\<close>

definition sweeper_NeedLeaderElection :: bool where "sweeper_NeedLeaderElection = True"

fun needs_lease :: "runnable \<Rightarrow> bool" where
  "needs_lease (HttpServer name addr) = httpServer_NeedLeaderElection"
| "needs_lease GuardWarmer = guardWarmer_NeedLeaderElection"
| "needs_lease (PauseWatcherOf cm) = False"
| "needs_lease RecordSweeper = sweeper_NeedLeaderElection"
| "needs_lease _ = True"

text \<open>\<open>httpServer.Start\<close>: the server ended by itself, or the process is ending and it was shut down.\<close>

definition ErrServerClosed :: go_error where "ErrServerClosed = Err ''http: Server closed''"

datatype server_end = Served_until "go_error option" | Shut_down "go_error option"

fun httpServer_Start :: "string \<Rightarrow> server_end \<Rightarrow> go_error option" where
  "httpServer_Start addr (Served_until None) = None"
| "httpServer_Start addr (Served_until (Some e)) =
     (if \<not> errors_is e ErrServerClosed then Some (Wrap (''listen on '' @ addr @ '': '') e '''') else None)"
| "httpServer_Start addr (Shut_down err) = err"

text \<open>
  The gateway's own mux serves the one path of its handler, here a plain path that begins with a slash: what it
  names below a trailing slash, and redirects what is not clean.
\<close>

definition gateway_Mux ::
  "(int \<Rightarrow> 'b \<Rightarrow> go_error + webhook_payload) \<Rightarrow> 's handler \<Rightarrow> 'b http_request \<Rightarrow> 's
     \<Rightarrow> (http_response \<times> gateway_metric list \<times> 's) routed" where
  "gateway_Mux decode h r s =
     (if clean_path (UrlPath r) \<noteq> UrlPath r then Redirected (clean_path (UrlPath r))
      else if UrlPath r = HPath h \<or> last (HPath h) = CHR ''/'' \<and> prefix (HPath h) (UrlPath r)
      then Served (ServeHTTP decode h r s)
      else Served (\<lparr>StatusCode = 404, Headers = [], ResponseBody = NotFoundPage\<rparr>, [], s))"

section \<open>Putting the process together\<close>

datatype library_call =
    AddBuiltinTypes
  | AddRemedikTypes
  | NewManager
  | NewDirectClient
  | NewClientset
  | AddToManager runnable
  | AddHealthzCheck
  | AddReadyzCheck
  | StartManager

datatype boot_step = Metered "prom_call list" | Managed manager_options | Added runnable | Started

text \<open>A stretch of \<open>run\<close> that may fail: the text its error is wrapped in, its error, and what is done if it has none.\<close>

record stage =
  StagePrefix :: string
  StageError :: "go_error option"
  StageSteps :: "boot_step list"

fun run_stages :: "stage list \<Rightarrow> boot_step list \<Rightarrow> go_error option \<times> boot_step list" where
  "run_stages [] did = (None, did)"
| "run_stages (st # sts) did =
     (case StageError st of
        Some e \<Rightarrow> (Some (Wrap (StagePrefix st) e ''''), did)
      | None \<Rightarrow> run_stages sts (did @ StageSteps st))"

type_synonym failures = "library_call \<Rightarrow> go_error option"

definition add_stage :: "failures \<Rightarrow> string \<Rightarrow> runnable \<Rightarrow> stage" where
  "add_stage fails what rn =
     \<lparr>StagePrefix = ''register the '' @ what @ '': '', StageError = fails (AddToManager rn), StageSteps = [Added rn]\<rparr>"

definition error_of :: "go_error + 'a \<Rightarrow> go_error option" where
  "error_of x = (case x of Inl e \<Rightarrow> Some e | Inr _ \<Rightarrow> None)"

definition buildScheme :: "failures \<Rightarrow> stage list" where
  "buildScheme fails =
     [\<lparr>StagePrefix = ''register built-in types: '', StageError = fails AddBuiltinTypes, StageSteps = []\<rparr>,
      \<lparr>StagePrefix = ''register remedik types: '', StageError = fails AddRemedikTypes, StageSteps = []\<rparr>]"

definition setup_stages :: "failures \<Rightarrow> boot_options \<Rightarrow> stage list" where
  "setup_stages fails bo =
     buildScheme fails
     @ [\<lparr>StagePrefix = '''', StageError = None, StageSteps = [Metered MustRegister]\<rparr>,
      \<lparr>StagePrefix = ''create manager: '', StageError = fails NewManager, StageSteps = [Managed (manager_options_of bo)]\<rparr>,
      \<lparr>StagePrefix = ''create direct client: '', StageError = fails NewDirectClient, StageSteps = []\<rparr>,
      \<lparr>StagePrefix = ''create clientset: '', StageError = fails NewClientset, StageSteps = []\<rparr>]"

text \<open>The dashboard reads through the manager's cache, and the pause switch as it stands.\<close>

definition dashboard_config :: "boot_options \<Rightarrow> string \<Rightarrow> dash_reader \<Rightarrow> bool \<times> string \<Rightarrow> posture \<Rightarrow> dash_config" where
  "dashboard_config bo version reader pause posture =
     \<lparr>DCReader = Some reader, DCNamespace = OptNamespace bo, DCToken = BoDashboardToken bo,
      DCPosture = dashboardPosture posture, DCPaused = Some pause, DCCluster = BoCluster bo, DCVersion = version,
      DCLinks = dashboardLinks (OptDashboardLinks bo), DCLogger = True\<rparr>"

definition server_stages :: "failures \<Rightarrow> boot_options \<Rightarrow> 'w parts \<Rightarrow> go_error option \<Rightarrow> stage list" where
  "server_stages fails bo ps dash_error =
     [\<lparr>StagePrefix = ''configure gateway: '', StageError = error_of (NewHandler (gateway_config (options.truncate bo) ps)),
       StageSteps = []\<rparr>,
      add_stage fails ''gateway server'' (HttpServer ''gateway'' (BoGatewayAddr bo))]
     @ (if BoDashboardAddr bo \<noteq> ''''
        then [\<lparr>StagePrefix = ''configure dashboard: '', StageError = dash_error, StageSteps = []\<rparr>,
              add_stage fails ''dashboard server'' (HttpServer ''dashboard'' (BoDashboardAddr bo))]
        else [])"

definition closing_stages :: "failures \<Rightarrow> stage list" where
  "closing_stages fails =
     [add_stage fails ''history pruner'' (HistoryPruner historyPruneInterval),
      add_stage fails ''retention sweeper'' RecordSweeper,
      \<lparr>StagePrefix = ''register the health check: '', StageError = fails AddHealthzCheck, StageSteps = []\<rparr>,
      \<lparr>StagePrefix = ''register the readiness check: '', StageError = fails AddReadyzCheck, StageSteps = [Started]\<rparr>,
      \<lparr>StagePrefix = ''run manager: '', StageError = fails StartManager, StageSteps = []\<rparr>]"

definition manager_stages :: "failures \<Rightarrow> boot_options \<Rightarrow> 'w parts \<Rightarrow> go_error option \<Rightarrow> stage list" where
  "manager_stages fails bo ps dash_error =
     [add_stage fails ''remediation controller'' (RecordController (PartWorkers ps)),
      add_stage fails ''strategy controller'' StrategyController,
      add_stage fails ''guard warmer'' GuardWarmer,
      add_stage fails ''pause watcher'' (PauseWatcherOf (BoPauseConfigMap bo))]
     @ server_stages fails bo ps dash_error
     @ closing_stages fails"

text \<open>
  \<open>run\<close>: the checks of the flags, the setting up, the registry, the posture's metrics, then what the manager
  is given, in order. \<open>Started\<close> stands for the call of \<open>mgr.Start\<close>, which returns when the process ends.
\<close>

definition run ::
  "failures \<Rightarrow> (string \<Rightarrow> string option) \<Rightarrow> string \<Rightarrow> dash_reader \<Rightarrow> bool \<times> string \<Rightarrow> boot_options
     \<Rightarrow> ('w, 'q) platform \<Rightarrow> go_error option \<times> boot_step list" where
  "run fails parse_scheme version reader pause bo pf =
     (let opts = options.truncate bo in
      if OptNamespace opts = '''' then (Some (Err ''no namespace: set --namespace or REMEDIK_NAMESPACE''), [])
      else case ParsePosture (OptPosture opts) of
        Inl e \<Rightarrow> (Some (Wrap ''--namespace-posture: '' e ''''), [])
      | Inr overrides \<Rightarrow>
          (let posture = NewPosture (OptDryRun opts) overrides;
               (failed, did) = run_stages (setup_stages fails bo) []
           in case failed of Some e \<Rightarrow> (Some e, did)
           | None \<Rightarrow>
             (case buildRegistry (deps_of opts pf) (OptActions opts) of
                Inl e \<Rightarrow> (Some (Wrap ''build action registry: '' e ''''), did)
              | Inr reg \<Rightarrow>
                (let snap = \<lparr>SnReader = PlatformKube pf, SnNamespace = OptNamespace opts\<rparr>;
                     did = did @ [Metered (MustRegisterPosture
                       \<lparr>PcVersion = version, PcDryRun = OptDryRun opts, PcNamespacePosture = postureLabels posture,
                        PcSnapshot = Some (postureFrom snap)\<rparr>)]
                 in case SetupWithManager (new_reconciler opts pf reg) of
                      Inl e \<Rightarrow> (Some (Wrap ''register the remediation controller: '' e ''''), did)
                    | Inr workers \<Rightarrow>
                        run_stages
                          (manager_stages fails bo
                             \<lparr>PartReconciler = new_reconciler opts pf reg,
                              PartStrategies = \<lparr>SRClient = PlatformKube pf, SRRegistry = reg, SRNamespace = OptNamespace opts,
                                 SetStatusCondition = PlatformSetCondition pf\<rparr>,
                              PartLoader = \<lparr>LReader = PlatformKube pf, LNamespace = OptNamespace opts, LNow = PlatformNow pf\<rparr>,
                              PartSink = new_sink opts pf reg posture, PartSweeper = new_sweeper opts pf,
                              PartSnapshotter = snap, PartWorkers = workers\<rparr>
                             (error_of (NewDashboard parse_scheme (dashboard_config bo version reader pause posture))))
                          did))))"

text \<open>\<open>main\<close>: what is printed on the standard streams, and the exit code.\<close>

datatype printed = Stdout string | Stderr string | Logged go_error

definition main_exit :: "boot_options \<Rightarrow> string \<Rightarrow> go_error option \<Rightarrow> printed list \<times> nat" where
  "main_exit bo version outcome_of_run =
     (if BoShowVersion bo then ([Stdout version], 0)
      else case parseLogLevel (BoLogLevel bo) of
        Inl e \<Rightarrow> ([Stderr (err_text e)], 2)
      | Inr level \<Rightarrow> (case outcome_of_run of Some e \<Rightarrow> ([Logged e], 1) | None \<Rightarrow> ([], 0)))"

section \<open>What stages do\<close>

fun runnables :: "boot_step list \<Rightarrow> runnable list" where
  "runnables [] = []"
| "runnables (Added rn # bs) = rn # runnables bs"
| "runnables (_ # bs) = runnables bs"

lemma runnables_append [simp]: "runnables (bs @ bs') = runnables bs @ runnables bs'"
  by (induction bs rule: runnables.induct) simp_all

lemma run_stages_ok:
  "run_stages sts did = (None, did') \<Longrightarrow> did' = did @ concat (map StageSteps sts) \<and> list_all (\<lambda>st. StageError st = None) sts"
  by (induction sts did rule: run_stages.induct) (auto split: option.splits)

lemma run_stages_fails:
  "run_stages sts did = (Some e, did') \<Longrightarrow> \<exists>before st after cause. sts = before @ st # after
     \<and> StageError st = Some cause \<and> e = Wrap (StagePrefix st) cause '''' \<and> did' = did @ concat (map StageSteps before)"
proof (induction sts did rule: run_stages.induct)
  case (2 st sts did)
  show ?case
  proof (cases "StageError st")
    case None
    with 2 obtain before st' after cause where "sts = before @ st' # after" "StageError st' = Some cause"
      "e = Wrap (StagePrefix st') cause ''''" "did' = (did @ StageSteps st) @ concat (map StageSteps before)" by fastforce
    then show ?thesis by (intro exI [of _ "st # before"]) auto
  next
    case (Some cause)
    with 2 show ?thesis by (intro exI [of _ "[]"] exI [of _ st] exI [of _ sts] exI [of _ cause]) auto
  qed
qed simp

text \<open>What runs in the end, in the order it is registered.\<close>

definition planned :: "boot_options \<Rightarrow> int \<Rightarrow> runnable list" where
  "planned bo workers =
     [RecordController workers, StrategyController, GuardWarmer, PauseWatcherOf (BoPauseConfigMap bo),
      HttpServer ''gateway'' (BoGatewayAddr bo)]
     @ (if BoDashboardAddr bo \<noteq> '''' then [HttpServer ''dashboard'' (BoDashboardAddr bo)] else [])
     @ [HistoryPruner historyPruneInterval, RecordSweeper]"

lemma manager_stages_end:
  "\<exists>before. manager_stages fails bo ps de = before
     @ [\<lparr>StagePrefix = ''register the readiness check: '', StageError = fails AddReadyzCheck, StageSteps = [Started]\<rparr>,
        \<lparr>StagePrefix = ''run manager: '', StageError = fails StartManager, StageSteps = []\<rparr>]
     \<and> Started \<notin> set (concat (map StageSteps before))
     \<and> runnables (concat (map StageSteps before)) = planned bo (PartWorkers ps)"
  by (intro exI [of _ "take (length (manager_stages fails bo ps de) - 2) (manager_stages fails bo ps de)"])
    (auto simp: manager_stages_def server_stages_def closing_stages_def add_stage_def planned_def)

lemma setup_steps:
  "concat (map StageSteps (setup_stages fails bo)) = [Metered MustRegister, Managed (manager_options_of bo)]"
  by (simp add: setup_stages_def buildScheme_def)

lemma setup_never_starts: "setup_stages fails bo = before @ st # after \<Longrightarrow> Started \<notin> set (concat (map StageSteps before))"
proof -
  assume "setup_stages fails bo = before @ st # after"
  then have "set before \<subseteq> set (setup_stages fails bo)" by auto
  then show ?thesis by (auto simp: setup_stages_def buildScheme_def)
qed

lemma stages_before:
  assumes "before @ st # after = xs @ ys" and "length before < length xs"
  shows "set (concat (map StageSteps before)) \<subseteq> set (concat (map StageSteps xs))"
proof -
  have "before = take (length before) (xs @ ys)" by (simp flip: assms(1))
  then have "before = take (length before) xs" using assms(2) by simp
  then have "set before \<subseteq> set xs" by (metis set_take_subset)
  then show ?thesis by auto
qed

lemma manager_stages_run:
  assumes "run_stages (manager_stages fails bo ps de) did = (err, steps)" and "Started \<notin> set did"
  shows "if Started \<in> set steps
    then err = map_option (\<lambda>e. Wrap ''run manager: '' e '''') (fails StartManager)
      \<and> runnables steps = runnables did @ planned bo (PartWorkers ps) \<and> set did \<subseteq> set steps
    else err \<noteq> None"
proof -
  let ?last = "\<lparr>StagePrefix = ''run manager: '', StageError = fails StartManager, StageSteps = []\<rparr>"
  let ?ready = "\<lparr>StagePrefix = ''register the readiness check: '', StageError = fails AddReadyzCheck, StageSteps = [Started]\<rparr>"
  obtain pre where pre: "manager_stages fails bo ps de = pre @ [?ready, ?last]" "Started \<notin> set (concat (map StageSteps pre))"
    "runnables (concat (map StageSteps pre)) = planned bo (PartWorkers ps)"
    using manager_stages_end [of fails bo ps de] by blast
  show ?thesis
  proof (cases err)
    case None
    with run_stages_ok [of "manager_stages fails bo ps de" did steps] assms(1) pre show ?thesis by auto
  next
    case (Some e)
    with run_stages_fails [of "manager_stages fails bo ps de" did e steps] assms(1)
    obtain before st after cause where f: "manager_stages fails bo ps de = before @ st # after"
      "StageError st = Some cause" "e = Wrap (StagePrefix st) cause ''''" "steps = did @ concat (map StageSteps before)" by blast
    have eq: "before @ st # after = pre @ [?ready, ?last]" using f(1) pre(1) by simp
    consider "length before < length pre" | "length before = length pre" | "length before > length pre" by linarith
    then show ?thesis
    proof cases
      case 1
      from stages_before [OF eq 1] pre(2) assms(2) f(4) have "Started \<notin> set steps" by auto
      then show ?thesis using Some by simp
    next
      case 2
      with eq have "before = pre" by simp
      then have "Started \<notin> set steps" using pre(2) assms(2) f(4) by auto
      then show ?thesis using Some by simp
    next
      case 3
      have "length before + Suc (length after) = length pre + 2" using arg_cong [OF eq, of length] by simp
      with 3 have len: "length before = Suc (length pre)" "length after = 0" by linarith+
      then have "after = []" by simp
      then have "(before @ [st]) = (pre @ [?ready]) @ [?last]" using eq by simp
      then have "before = pre @ [?ready]" "st = ?last" by (simp_all only: append1_eq_conv)
      then show ?thesis using f(2,3,4) Some pre(3) by auto
    qed
  qed
qed

text \<open>The parts the process runs with are those of \<open>run_parts\<close> on libraries that did not fail.\<close>

lemma run_started:
  assumes "run fails parse_scheme version reader pause bo pf = (err, steps)"
  shows "if Started \<in> set steps
    then err = map_option (\<lambda>e. Wrap ''run manager: '' e '''') (fails StartManager)
      \<and> (\<exists>ps. run_parts (options.truncate bo) (pf\<lparr>PlatformError := None\<rparr>) = Inr ps \<and> runnables steps = planned bo (PartWorkers ps))
      \<and> Managed (manager_options_of bo) \<in> set steps
    else err \<noteq> None"
proof -
  let ?opts = "options.truncate bo"
  show ?thesis
  proof (cases "OptNamespace ?opts = ''''")
    case True
    then show ?thesis using assms by (auto simp: run_def Let_def)
  next
    case ns: False
    show ?thesis
    proof (cases "ParsePosture (OptPosture ?opts)")
      case (Inl e)
      then show ?thesis using assms ns by (auto simp: run_def Let_def)
    next
      case (Inr overrides)
      note posture = Inr
      obtain failed did where su: "run_stages (setup_stages fails bo) [] = (failed, did)" by fastforce
      show ?thesis
      proof (cases failed)
        case (Some e)
        with run_stages_fails [of "setup_stages fails bo" "[]" e did] su
        obtain before st after where f: "setup_stages fails bo = before @ st # after" "did = concat (map StageSteps before)" by auto
        have "steps = did" "err = Some e" using assms ns posture su Some by (simp_all add: run_def Let_def)
        then show ?thesis using setup_never_starts [OF f(1)] f(2) by auto
      next
        case None
        then have did: "did = [Metered MustRegister, Managed (manager_options_of bo)]"
          using run_stages_ok [of "setup_stages fails bo" "[]" did] su setup_steps [of fails bo] by simp
        show ?thesis
        proof (cases "buildRegistry (deps_of ?opts pf) (OptActions ?opts)")
          case (Inl e)
          then show ?thesis using assms ns posture su None did by (auto simp: run_def Let_def)
        next
          case reg: (Inr reg)
          show ?thesis
          proof (cases "SetupWithManager (new_reconciler ?opts pf reg)")
            case (Inl e)
            then show ?thesis using assms ns posture su None did reg by (auto simp: run_def Let_def)
          next
            case (Inr workers)
            let ?ps = "\<lparr>PartReconciler = new_reconciler ?opts pf reg,
                 PartStrategies = \<lparr>SRClient = PlatformKube pf, SRRegistry = reg, SRNamespace = OptNamespace ?opts,
                   SetStatusCondition = PlatformSetCondition pf\<rparr>,
                 PartLoader = \<lparr>LReader = PlatformKube pf, LNamespace = OptNamespace ?opts, LNow = PlatformNow pf\<rparr>,
                 PartSink = new_sink ?opts pf reg (NewPosture (OptDryRun ?opts) overrides), PartSweeper = new_sweeper ?opts pf,
                 PartSnapshotter = \<lparr>SnReader = PlatformKube pf, SnNamespace = OptNamespace ?opts\<rparr>, PartWorkers = workers\<rparr>"
            obtain de more where "run_stages (manager_stages fails bo ?ps de) (did @ [Metered more]) = (err, steps)"
              using assms ns posture su None reg Inr by (auto simp: run_def Let_def)
            from manager_stages_run [OF this] did
            have "if Started \<in> set steps then err = map_option (\<lambda>e. Wrap ''run manager: '' e '''') (fails StartManager)
                \<and> runnables steps = planned bo (PartWorkers ?ps) \<and> set did \<subseteq> set steps else err \<noteq> None"
              by (auto split: if_splits)
            moreover have "run_parts ?opts (pf\<lparr>PlatformError := None\<rparr>) = Inr ?ps"
              using ns posture reg Inr by (simp add: run_parts_def deps_of_def new_reconciler_def new_sink_def new_sweeper_def)
            ultimately show ?thesis using did by (auto split: if_splits)
          qed
        qed
      qed
    qed
  qed
qed

end
