(* ===== verification/ProcessProperties.thy ===== *)
theory ProcessProperties
  imports Boot ActionProperties EngineProperties
begin

text \<open>
  The properties of the process as a whole. What the metrics tell: the counters of what the engine did, the
  gauges of what it may do, and the scrape of what there is. And what \<open>run\<close> starts, and where.
\<close>

section \<open>What a delivery counts\<close>

definition of_a_strategy :: "string \<Rightarrow> remediation \<Rightarrow> bool" where
  "of_a_strategy n rem \<longleftrightarrow> map_get (Labels (Meta rem)) LabelStrategy = n \<and> map_of (Labels (Meta rem)) LabelGaveUp = None"

definition lost_create :: "effect \<Rightarrow> bool" where
  "lost_create e \<longleftrightarrow> (\<exists>rem. e = CreateCall rem False \<and> map_of (Labels (Meta rem)) LabelGaveUp = None)"

definition alerts_counted :: "effect list \<Rightarrow> int" where
  "alerts_counted es =
     counter_total alertsUnmatched (calls_of es) + counter_total guardRejections (calls_of es)
     + counter_total remediationsStarted (calls_of es) + int (length (filter lost_create es))"

definition starts_match :: "effect list \<Rightarrow> bool" where
  "starts_match es \<longleftrightarrow>
     (\<forall>n. counter_value remediationsStarted [n] (calls_of es) = int (length (filter (of_a_strategy n) (creates es))))"

lemma alerts_counted_append [simp]: "alerts_counted (es @ es') = alerts_counted es + alerts_counted es'"
  by (simp add: alerts_counted_def)

lemma starts_match_append: "starts_match es \<Longrightarrow> starts_match es' \<Longrightarrow> starts_match (es @ es')"
  by (simp add: starts_match_def)

lemma no_calls [simp]:
  "list_all is_event es \<Longrightarrow> calls_of es = []" "list_all is_live_call es \<Longrightarrow> calls_of es = []"
  "list_all is_plan_call es \<Longrightarrow> calls_of es = []" "list_all is_delete es \<Longrightarrow> calls_of es = []"
  by (auto simp: calls_of_def list_all_iff is_event_def is_live_call_def is_plan_call_def is_delete_def)

lemma no_lost_create [simp]: "list_all is_event es \<Longrightarrow> filter lost_create es = []"
  by (auto simp: list_all_iff is_event_def lost_create_def filter_empty_conv)

lemma gave_up_label [simp]: "map_of (Labels (Meta (give_up_record sk a st t d))) LabelGaveUp = Some ''true''"
  by (simp add: give_up_record_def label_defs)

lemma created_labels:
  assumes "created_record sk a st t paused rem"
  shows "of_a_strategy n rem \<longleftrightarrow> n = strat_name st" "map_of (Labels (Meta rem)) LabelGaveUp = None"
  using assms by (auto simp: created_record_def of_a_strategy_def)

lemma consumed_counts:
  assumes "consumed sk rules byName a s err h es"
    and "\<And>rule. Select a rules = Some rule \<Longrightarrow> \<exists>st. map_of byName (RuleName rule) = Some st \<and> strat_name st = RuleName rule"
  shows "alerts_counted es = (if IsFiring a then 1 else 0) \<and> starts_match es"
  using assms(1)
proof (cases rule: consumed.cases)
  case (manual rule st ev)
  then show ?thesis by (simp add: alerts_counted_def starts_match_def engine_record_defs selected_def lost_create_def)
next
  case (refused rule st d ev)
  then show ?thesis by (simp add: alerts_counted_def starts_match_def engine_record_defs selected_def lost_create_def)
next
  case (gave_up rule st d ev rem ok)
  then show ?thesis
    by (simp add: alerts_counted_def starts_match_def engine_record_defs selected_def lost_create_def of_a_strategy_def)
next
  case (rejected_by_server rule st rem e)
  then show ?thesis using created_labels(2)
    by (simp add: alerts_counted_def starts_match_def selected_def lost_create_def) blast
next
  case (created rule st rem started)
  have name: "strat_name st = RuleName rule" using created(4) assms(2) by (auto simp: selected_def)
  show ?thesis using created created_labels [OF created(7)] name
    by (simp add: alerts_counted_def starts_match_def engine_record_defs selected_def lost_create_def)
next
  case (unknown rule e)
  then show ?thesis using assms(2) by fastforce
qed (simp_all add: alerts_counted_def starts_match_def engine_record_defs lost_create_def)


lemma rules_of_named:
  assumes "Select a (fst (rules_of items)) = Some rule"
  shows "\<exists>st. map_of (snd (rules_of items)) (RuleName rule) = Some st \<and> strat_name st = RuleName rule"
  using rules_of_selected [OF assms] by blast

lemma consume_loop_counts:
  "\<exists>es. Trace (consume_loop sk (fst (rules_of items)) (snd (rules_of items)) as s) = Trace s @ es
     \<and> alerts_counted es = int (length (filter IsFiring as)) \<and> starts_match es"
proof (induction as arbitrary: s)
  case (Cons a as)
  obtain err s1 where c: "consumeOne sk (fst (rules_of items)) (snd (rules_of items)) a s = (err, s1)" by fastforce
  from consumeOneD [OF c] obtain es1 where 1: "Trace s1 = Trace s @ es1"
    "consumed sk (fst (rules_of items)) (snd (rules_of items)) a s err (History s1) es1" by blast
  from consumed_counts [OF 1(2) rules_of_named] have "alerts_counted es1 = (if IsFiring a then 1 else 0)" "starts_match es1"
    by simp_all
  moreover from Cons.IH [of s1] obtain es2 where
    "Trace (consume_loop sk (fst (rules_of items)) (snd (rules_of items)) as s1) = Trace s1 @ es2"
    "alerts_counted es2 = int (length (filter IsFiring as))" "starts_match es2" by blast
  ultimately show ?case using c 1(1) by (intro exI [of _ "es1 @ es2"]) (simp add: starts_match_append)
qed (simp add: alerts_counted_def starts_match_def)

text \<open>C21: No alert of a delivery is lost to the metrics. When the strategies can be read, every firing alert of a
  delivery is in exactly one of four numbers: the alerts no strategy handles, the refusals by a guard or for
  a manual strategy, the remediations started, and the creations the server refused - and the counter of started
  remediations grows, for each strategy, by the records created for it to be executed. When they cannot be read
  nothing is counted.\<close>

theorem every_firing_alert_is_counted:
  "\<exists>es. Trace (Consume sk alerts s) = Trace s @ es
    \<and> (case fst (sink_rules sk s) of
         Inl e \<Rightarrow> es = []
       | Inr _ \<Rightarrow>
           counter_total alertsUnmatched (calls_of es) + counter_total guardRejections (calls_of es)
             + counter_total remediationsStarted (calls_of es) + int (length (filter lost_create es))
           = int (length (filter IsFiring alerts))
         \<and> (\<forall>n. counter_value remediationsStarted [n] (calls_of es) = int (length (filter (of_a_strategy n) (creates es)))))"
proof -
  obtain x s1 where l: "kube_list_strategies (SClient sk) s = (x, s1)" by fastforce
  note F = kube_list_strategiesD [OF l]
  show ?thesis
  proof (cases x)
    case (Inl e)
    then show ?thesis using l F by (intro exI [of _ "[]"]) (simp add: Consume_def sink_rules_def)
  next
    case (Inr items)
    then have "Consume sk alerts s = consume_loop sk (fst (rules_of items)) (snd (rules_of items)) alerts s1"
      and "fst (sink_rules sk s) = Inr (rules_of items)"
      using l by (simp_all add: Consume_def sink_rules_def split_beta)
    then show ?thesis
      using consume_loop_counts [of sk items alerts s1] F by (simp add: alerts_counted_def starts_match_def)
  qed
qed

section \<open>What a pass counts\<close>

definition finish_call :: "prom_call \<Rightarrow> bool" where
  "finish_call c \<longleftrightarrow> added remediationsFinished c \<noteq> 0"

definition counted_outcomes :: "effect list \<Rightarrow> string list" where
  "counted_outcomes es = map (\<lambda>c. last (call_labels c)) (filter finish_call (calls_of es))"

definition written_outcomes :: "effect list \<Rightarrow> string list" where
  "written_outcomes es = map (\<lambda>rem. state_string (rem_state rem)) (filter (\<lambda>rem. IsTerminal (rem_state rem)) (writes es))"

lemma outcomes_append [simp]:
  "counted_outcomes (es @ es') = counted_outcomes es @ counted_outcomes es'"
  "written_outcomes (es @ es') = written_outcomes es @ written_outcomes es'"
  by (simp_all add: counted_outcomes_def written_outcomes_def)

lemma outcomes_none [simp]:
  "list_all is_event es \<Longrightarrow> counted_outcomes es = written_outcomes es"
  "list_all is_live_call es \<Longrightarrow> counted_outcomes es = written_outcomes es"
  "list_all is_plan_call es \<Longrightarrow> counted_outcomes es = written_outcomes es"
  "list_all is_delete es \<Longrightarrow> counted_outcomes es = written_outcomes es"
  by (simp_all add: counted_outcomes_def written_outcomes_def)

lemma escalation_outcomes: "escalation_calls es \<Longrightarrow> counted_outcomes es = written_outcomes es"
  by (auto simp: escalation_calls_def counted_outcomes_def written_outcomes_def Engine_EscalationFinished_def finish_call_def)

lemma finish_outcomes:
  assumes "finish_effects rem st reason m err h h' es" and "IsTerminal st"
  shows "counted_outcomes es = written_outcomes es"
  using assms
  by (auto simp: finish_effects_def finished_as_def counted_outcomes_def written_outcomes_def
      Engine_RemediationFinished_def finish_call_def split: if_splits)

lemma concluded_outcomes: "concluded a rem1 res out h h' es \<Longrightarrow> counted_outcomes es = written_outcomes es"
proof (induction rule: concluded.induct)
  case (success err h h' es)
  then show ?case by (intro finish_outcomes [OF success(2)]) (simp add: TerminalState_def)
next
  case (retry e ok out h)
  then show ?case by (simp add: counted_outcomes_def written_outcomes_def)
next
  case (failure e es1 esc err h h' es2)
  then show ?case using escalation_outcomes finish_outcomes [OF failure(5)] by simp
qed

lemma pass_outcomes: "pass r c rem out h h' es \<Longrightarrow> counted_outcomes es = written_outcomes es"
proof (induction rule: pass.induct)
  case (waits out es h)
  then show ?case by (auto simp: waited_def counted_outcomes_def written_outcomes_def awaiting_record_def)
next
  case (ran ev t w rem1 w' res es1 out h h' es2)
  have "counted_outcomes es1 = written_outcomes es1"
    using run_shape_calls [OF ran(4)] by (auto split: if_splits)
  with ran concluded_outcomes [OF ran(6)] show ?case
    by (simp add: counted_outcomes_def written_outcomes_def running_record_def)
qed (simp_all add: escalation_outcomes finish_outcomes counted_outcomes_def [of "[]"] written_outcomes_def [of "[]"],
     simp add: counted_outcomes_def written_outcomes_def)

text \<open>C29: Every end is counted, with its outcome, and nothing else is. The outcomes a pass adds to the counter
  of finished remediations are, in order, the terminal states it recorded - a write the server refused does not
  count, and neither does a retry.\<close>

theorem every_end_is_counted:
  assumes "fst (KubeGet (RClient r) ns n (World s)) = Inr rem"
  shows "\<exists>es. Trace (snd (Reconcile r c ns n s)) = Trace s @ es
    \<and> map (\<lambda>call. last (call_labels call)) (filter finish_call (calls_of es))
      = map (\<lambda>rem. state_string (rem_state rem)) (filter (\<lambda>rem. IsTerminal (rem_state rem)) (writes es))"
  using pass_of_Reconcile [OF assms, of c] pass_outcomes unfolding counted_outcomes_def written_outcomes_def by blast

theorem every_end_is_counted_witness:
  "\<exists>es. Trace (snd (Reconcile ex_reconciler [] ''remedik'' ''r1''
        (ex_state (ex_record [''bad''] 0 ExecutionModeAuto False RemediationStatePending 0)))) = es
    \<and> map (\<lambda>call. last (call_labels call)) (filter finish_call (calls_of es))
      = map (\<lambda>rem. state_string (rem_state rem)) (filter (\<lambda>rem. IsTerminal (rem_state rem)) (writes es))"
  using every_end_is_counted [OF ex_read, of "[]" "''remedik''" "''r1''"
      "ex_record [''bad''] 0 ExecutionModeAuto False RemediationStatePending 0"] by simp

section \<open>What may be done where\<close>

text \<open>The series of the posture, from the calls made at start.\<close>

definition posture_series :: "prom_call list \<Rightarrow> string \<Rightarrow> string \<Rightarrow> int option" where
  "posture_series calls ns m = gauge_value namespacePostureGauge [ns, m] calls"

lemma posture_families [simp]:
  "buildInfo \<noteq> dryRunGauge" "buildInfo \<noteq> namespacePostureGauge" "dryRunGauge \<noteq> namespacePostureGauge"
  "namespacePostureGauge \<noteq> dryRunGauge" "dryRunGauge \<noteq> buildInfo" "namespacePostureGauge \<noteq> buildInfo"
  by (simp_all add: family_defs)

lemma gauge_posture_map:
  "gauge_value namespacePostureGauge [ns, p] (map (\<lambda>(ns, posture). GaugeSet namespacePostureGauge [ns, posture] 1) m)
     = (if (ns, p) \<in> set m then Some 1 else None)"
  "gauge_value dryRunGauge ls (map (\<lambda>(ns, posture). GaugeSet namespacePostureGauge [ns, posture] 1) m) = None"
  by (induction m) (auto split: if_splits)

lemma run_metrics_posture:
  "posture_series (run_metrics v opts ps) ns p
     = (if (ns, p) \<in> (\<lambda>(n, m). (n, mode_string m)) ` set (Overrides (SPosture (PartSink ps))) then Some 1 else None)"
  "gauge_value dryRunGauge [] (run_metrics v opts ps) = Some (if OptDryRun opts then 1 else 0)"
  by (auto simp: posture_series_def run_metrics_def MustRegister_def MustRegisterPosture_def run_posture_config_def
      postureLabels_def gauge_value_append gauge_posture_map split: if_splits)

lemma parsed_posture:
  assumes "ParsePosture pairs = Inr ov"
  shows "map_wf ov" and "map_of ov ns = Some m \<Longrightarrow> m = ModeLive \<or> m = ModeDryRun"
proof -
  note spec = parse_posture_loop_spec [OF assms [unfolded ParsePosture_def]]
  show "map_wf ov" using spec by simp
  assume "map_of ov ns = Some m"
  then obtain pair where "pair_says pair ns m" using spec by auto
  then show "m = ModeLive \<or> m = ModeDryRun" by (rule pair_says_modes)
qed

lemma override_series:
  assumes "map_wf ov" and "\<And>n m. map_of ov n = Some m \<Longrightarrow> m = ModeLive \<or> m = ModeDryRun" and "m = ModeLive \<or> m = ModeDryRun"
  shows "(ns, mode_string m) \<in> (\<lambda>(n, m). (n, mode_string m)) ` set ov \<longleftrightarrow> map_of ov ns = Some m"
proof
  assume "(ns, mode_string m) \<in> (\<lambda>(n, m). (n, mode_string m)) ` set ov"
  then obtain m' where m': "(ns, m') \<in> set ov" "mode_string m' = mode_string m" by auto
  then have "map_of ov ns = Some m'" using assms(1) map_of_is_SomeI by fastforce
  then show "map_of ov ns = Some m" using assms(2,3) m'(2) by fastforce
next
  assume "map_of ov ns = Some m"
  then show "(ns, mode_string m) \<in> (\<lambda>(n, m). (n, mode_string m)) ` set ov"
    by (auto dest!: map_of_SomeD intro!: image_eqI [where x = "(ns, m)"])
qed



text \<open>
  A namespace whose posture is given as what the default is anyway has a series all the same, although the
  family is documented to have one for the namespaces that differ.
\<close>

lemma a_series_without_a_difference:
  assumes "run_parts (opts\<lparr>OptDryRun := True, OptPosture := [''shop=dryRun'']\<rparr>) pf = Inr ps"
  shows "posture_series (run_metrics v (opts\<lparr>OptDryRun := True, OptPosture := [''shop=dryRun'']\<rparr>) ps) ''shop'' ''dryRun'' = Some 1
    \<and> \<not> Mixed (SPosture (PartSink ps))"
proof -
  have flag: "ParsePosture [''shop=dryRun''] = Inr [(''shop'', ModeDryRun)]" by code_simp
  have "SPosture (PartSink ps) = NewPosture True [(''shop'', ModeDryRun)]" using run_partsD(5) [OF assms] flag by simp
  then show ?thesis by (simp add: run_metrics_posture NewPosture_def Mixed_def)
qed

section \<open>What a scrape shows\<close>

text \<open>The sum of the series of a family a scrape is answered with.\<close>

definition scraped :: "family \<Rightarrow> const_metric list \<Rightarrow> int" where
  "scraped f ms = sum_list (map (\<lambda>(g, ls, n). if g = f then n else 0) ms)"

lemma descs_differ [simp]: "strategiesDesc \<noteq> recordsDesc" "recordsDesc \<noteq> strategiesDesc"
  by (simp_all add: family_defs)

lemma sum_update:
  "map_wf m \<Longrightarrow> sum_list (map snd (AList.update k (v::nat) m)) + (case map_of m k of None \<Rightarrow> 0 | Some u \<Rightarrow> u)
     = sum_list (map snd m) + v"
  by (induction m) (auto split: option.splits)

lemma count_up_sum: "map_wf m \<Longrightarrow> sum_list (map snd (count_up k m)) = Suc (sum_list (map snd m))"
  using sum_update [of m k "(case map_of m k of None \<Rightarrow> 0 | Some u \<Rightarrow> u) + 1"]
  by (cases "map_of m k") (simp_all add: count_up_def map_put_def)

lemma fold_records:
  assumes "map_wf (RecordsByState x)" and "\<And>k v. map_of (RecordsByState x) k = Some v \<Longrightarrow> 0 < v"
  shows "map_wf (RecordsByState (fold count_record rems x))
    \<and> (\<forall>k v. map_of (RecordsByState (fold count_record rems x)) k = Some v \<longrightarrow> 0 < v)
    \<and> sum_list (map snd (RecordsByState (fold count_record rems x))) = sum_list (map snd (RecordsByState x)) + length rems"
  using assms
proof (induction rems arbitrary: x)
  case (Cons rem rems)
  have "map_wf (RecordsByState (count_record rem x))"
    and "map_of (RecordsByState (count_record rem x)) k = Some v \<Longrightarrow> 0 < v" for k v
    using Cons.prems by (auto simp: count_record_def count_up_def split: if_splits)
  from Cons.IH [OF this] Cons.prems(1) show ?case by (simp add: count_record_def count_up_sum)
qed simp

lemma taken_snapshot:
  fixes sts rems
  defines "x \<equiv> take_snapshot sts rems"
  shows "StrategiesEnabled x = length (filter IsEnabled sts)" and "StrategiesDisabled x = length (filter (\<lambda>st. \<not> IsEnabled st) sts)"
    and "map_wf (RecordsByState x)" and "sum_list (map snd (RecordsByState x)) = length rems"
    and "(k, v) \<in> set (RecordsByState x) \<longleftrightarrow> v = length (filter (\<lambda>rem. shown_state rem = k) rems) \<and> 0 < v"
proof -
  let ?x0 = "fold count_strategy sts \<lparr>StrategiesEnabled = 0, StrategiesDisabled = 0, RecordsByState = []\<rparr>"
  have x0: "RecordsByState ?x0 = []" by (simp add: count_strategies)
  note F = fold_records [of ?x0 rems]
  note C = count_records [of rems ?x0]
  show "StrategiesEnabled x = length (filter IsEnabled sts)" "StrategiesDisabled x = length (filter (\<lambda>st. \<not> IsEnabled st) sts)"
    using C by (simp_all add: x_def take_snapshot_def count_strategies)
  show wf: "map_wf (RecordsByState x)" and "sum_list (map snd (RecordsByState x)) = length rems"
    using F x0 by (simp_all add: x_def take_snapshot_def)
  have pos: "map_of (RecordsByState x) k = Some v \<Longrightarrow> 0 < v" using F x0 by (simp add: x_def take_snapshot_def)
  have "state_count x k = length (filter (\<lambda>rem. shown_state rem = k) rems)"
    using C x0 by (simp add: x_def take_snapshot_def state_count_def)
  then show "(k, v) \<in> set (RecordsByState x) \<longleftrightarrow> v = length (filter (\<lambda>rem. shown_state rem = k) rems) \<and> 0 < v"
    using pos unfolding state_count_def map_of_eq_Some_iff [OF wf, symmetric] by (auto split: option.splits)
qed

lemma scraped_simps [simp]:
  "scraped f [] = 0" "scraped f ((g, ls, n) # ms) = (if g = f then n else 0) + scraped f ms"
  by (simp_all add: scraped_def)

lemma scraped_records:
  "scraped recordsDesc (map (\<lambda>(state, count). (recordsDesc, [state], int count)) m) = int (sum_list (map snd m))"
  "scraped strategiesDesc (map (\<lambda>(state, count). (recordsDesc, [state], int count)) m) = 0"
  by (induction m) auto

lemma scraped_series:
  "map (\<lambda>(g, ls, n). (g, ls)) (map (\<lambda>(state, count). (recordsDesc, [state], int count)) m) = map (\<lambda>k. (recordsDesc, [k])) (map fst m)"
  by (induction m) auto

lemma distinct_series:
  assumes "map_wf m"
  shows "distinct (map (\<lambda>(g, ls, n). (g, ls)) ([(strategiesDesc, [''true''], a), (strategiesDesc, [''false''], b)]
    @ map (\<lambda>(state, count). (recordsDesc, [state], int count)) m))"
  unfolding map_append scraped_series using assms by (simp add: distinct_map inj_on_def image_iff)

lemma record_series:
  "(recordsDesc, [state], n) \<in> set (map (\<lambda>(state, count). (recordsDesc, [state], int count)) m) \<longleftrightarrow> 0 \<le> n \<and> (state, nat n) \<in> set m"
  by (induction m) auto

definition shows_present :: "strategy list \<Rightarrow> remediation list \<Rightarrow> const_metric list \<Rightarrow> bool" where
  "shows_present sts rems ms \<longleftrightarrow>
     distinct (map (\<lambda>(f, ls, n). (f, ls)) ms)
     \<and> (strategiesDesc, [''true''], int (length (filter IsEnabled sts))) \<in> set ms
     \<and> scraped strategiesDesc ms = int (length sts)
     \<and> (\<forall>state n. (recordsDesc, [state], n) \<in> set ms
           \<longleftrightarrow> n = int (length (filter (\<lambda>rem. shown_state rem = state) rems)) \<and> 0 < n)
     \<and> scraped recordsDesc ms = int (length rems)"

lemma snapshot_shows_present:
  fixes sts rems
  defines "x \<equiv> take_snapshot sts rems"
  shows "shows_present sts rems
    ([(strategiesDesc, [''true''], int (StrategiesEnabled x)), (strategiesDesc, [''false''], int (StrategiesDisabled x))]
     @ map (\<lambda>(state, count). (recordsDesc, [state], int count)) (RecordsByState x))" (is "shows_present _ _ ?ms")
proof -
  note T = taken_snapshot [where sts = sts and rems = rems, folded x_def]
  have "distinct (map (\<lambda>(f, ls, n). (f, ls)) ?ms)" using T(3) by (rule distinct_series)
  moreover have "(strategiesDesc, [''true''], int (length (filter IsEnabled sts))) \<in> set ?ms" using T(1) by simp
  moreover have "scraped strategiesDesc ?ms = int (length sts)"
    using T(1,2) sum_length_filter_compl [of IsEnabled sts] by (simp add: scraped_records)
  moreover have "scraped recordsDesc ?ms = int (length rems)" using T(4) by (simp add: scraped_records)
  moreover have "(recordsDesc, [state], n) \<in> set ?ms
      \<longleftrightarrow> n = int (length (filter (\<lambda>rem. shown_state rem = state) rems)) \<and> 0 < n" for state n
  proof -
    have "(recordsDesc, [state], n) \<in> set ?ms \<longleftrightarrow> 0 \<le> n \<and> (state, nat n) \<in> set (RecordsByState x)"
      unfolding set_append Un_iff record_series by simp
    then show ?thesis unfolding T(5) by auto
  qed
  ultimately show ?thesis unfolding shows_present_def by blast
qed

text \<open>A scrape tells the present or nothing. If the strategies or the records cannot be read the answer has no
  series at all. Otherwise its series are distinct; the two of the strategies say how many are enabled, and
  add up to all of them; there is a series for exactly the states some record is in, it says how
  many are, and together they add up to the records there are.\<close>

theorem scrape_tells_the_present_or_nothing:
  "case kube_list_strategies (SnReader sn) s of
     (Inl e, s1) \<Rightarrow> fst (Collect (postureFrom sn) s) = []
   | (Inr sts, s1) \<Rightarrow>
       (case fst (kube_list (SnReader sn) (SnNamespace sn) [] s1) of
          Inl e \<Rightarrow> fst (Collect (postureFrom sn) s) = []
        | Inr rems \<Rightarrow> shows_present sts rems (fst (Collect (postureFrom sn) s)))"
proof -
  obtain xs s1 where l: "kube_list_strategies (SnReader sn) s = (xs, s1)" by fastforce
  obtain ys s2 where r: "kube_list (SnReader sn) (SnNamespace sn) [] s1 = (ys, s2)" by fastforce
  note eqs = Collect_def postureFrom_def Snapshot_def
  show ?thesis
    using l r snapshot_shows_present by (cases xs; cases ys) (simp_all add: eqs)
qed

section \<open>What runs where\<close>

text \<open>C33: Nothing runs before everything is registered, and only the leader acts. If the manager is started, the parts are
  those of \<open>run_parts\<close>, every runnable has been registered, a lease in the operator's namespace is elected for, and
  what runs without the lease is the pause switch's watcher and the servers: the controllers, the guard
  warmer, the pruner and the sweeper wait for it. If it is not started, \<open>run\<close> returns an error; and if it is,
  an error can only be the manager's own.\<close>

theorem only_the_leader_acts:
  "case run fails parse_scheme v reader switch bo pf of (err, steps) \<Rightarrow>
     if Started \<in> set steps
     then (\<exists>ps. run_parts (options.truncate bo) (pf\<lparr>PlatformError := None\<rparr>) = Inr ps
        \<and> filter needs_lease (runnables steps)
          = [RecordController (PartWorkers ps), StrategyController, GuardWarmer, HistoryPruner historyPruneInterval, RecordSweeper])
      \<and> filter (\<lambda>rn. \<not> needs_lease rn) (runnables steps)
        = [PauseWatcherOf (BoPauseConfigMap bo), HttpServer ''gateway'' (BoGatewayAddr bo)]
          @ (if BoDashboardAddr bo = '''' then [] else [HttpServer ''dashboard'' (BoDashboardAddr bo)])
      \<and> (\<exists>mo. Managed mo \<in> set steps \<and> MoLeaderElection mo \<and> MoLeaseNamespace mo = OptNamespace bo)
      \<and> err = map_option (\<lambda>e. Wrap ''run manager: '' e '''') (fails StartManager)
     else err \<noteq> None"
proof -
  obtain err steps where r: "run fails parse_scheme v reader switch bo pf = (err, steps)" by fastforce
  note leases = planned_def httpServer_NeedLeaderElection_def guardWarmer_NeedLeaderElection_def sweeper_NeedLeaderElection_def
  show ?thesis
  proof (cases "Started \<in> set steps")
    case True
    with run_started [OF r] obtain ps where ps: "run_parts (options.truncate bo) (pf\<lparr>PlatformError := None\<rparr>) = Inr ps"
      "runnables steps = planned bo (PartWorkers ps)" and err: "err = map_option (\<lambda>e. Wrap ''run manager: '' e '''') (fails StartManager)"
      and m: "Managed (manager_options_of bo) \<in> set steps" by auto
    have "MoLeaderElection (manager_options_of bo)" "MoLeaseNamespace (manager_options_of bo) = OptNamespace bo"
      by (simp_all add: manager_options_of_def)
    then show ?thesis using r True ps err m by (auto simp: leases)
  next
    case False
    then show ?thesis using r run_started [OF r] by simp
  qed
qed

text \<open>A process with the flags' defaults, no dashboard, and libraries that do not fail is started.\<close>

definition ex_boot :: boot_options where
  "ex_boot = default_boot_options ''remedik'' ''remedik'' '''' '''' ''''"

lemma ex_boot_fields [simp]:
  "options.truncate ex_boot = default_options ''remedik'' ''remedik'' ''''" "BoDashboardAddr ex_boot = ''''"
  "BoPauseConfigMap ex_boot = ''remedik-pause''" "BoGatewayAddr ex_boot = '':8090''"
  by (simp_all add: ex_boot_def default_boot_options_def options.defs boot_options.defs default_options_def)

lemma stages_without_errors: "list_all (\<lambda>st. StageError st = None) sts \<Longrightarrow> run_stages sts did = (None, did @ concat (map StageSteps sts))"
  by (induction sts did rule: run_stages.induct) auto

definition ex_records_reader :: dash_reader where
  "ex_records_reader = \<lparr>ReadRemediation = (\<lambda>_ _. Inl (ErrNotFound ''none'')), ListRemediations = (\<lambda>_. Inr []), ListStrategies = Inr []\<rparr>"

lemma ex_started: "Started \<in> set (snd (run (\<lambda>_. None) (\<lambda>_. None) ''dev'' ex_records_reader (False, '''') ex_boot ex_platform))"
proof -
  let ?o = "default_options ''remedik'' ''remedik'' ''''"
  obtain ps where ps: "run_parts ?o ex_platform = Inr ps" using ex_parts by blast
  then obtain reg where reg: "buildRegistry (deps_of ?o ex_platform) (OptActions ?o) = Inr reg" using run_partsD(2) by blast
  have opts: "OptNamespace ?o = ''remedik''" "OptPosture ?o = []" by (simp_all add: default_options_def)
  have workers: "SetupWithManager (new_reconciler ?o ex_platform reg) = Inr DefaultConcurrency"
    by (simp add: SetupWithManager_def new_reconciler_def default_options_def DefaultConcurrency_def)
  have setup_ok: "run_stages (setup_stages (\<lambda>_. None) ex_boot) [] = (None, concat (map StageSteps (setup_stages (\<lambda>_. None) ex_boot)))"
    using stages_without_errors [of "setup_stages (\<lambda>_. None) ex_boot" "[]"] by (simp add: setup_stages_def buildScheme_def)
  have manager_ok: "list_all (\<lambda>st. StageError st = None) (manager_stages (\<lambda>_. None) ex_boot ps de)" for ps :: "unit astate parts" and de
    by (simp add: manager_stages_def server_stages_def closing_stages_def add_stage_def error_of_def NewHandler_def gateway_config_def)
  have started: "Started \<in> set (concat (map StageSteps (manager_stages (\<lambda>_. None) ex_boot ps de)))" for ps :: "unit astate parts" and de
    by (simp add: manager_stages_def closing_stages_def)
  show ?thesis
    using stages_without_errors [OF manager_ok] started
    by (simp add: run_def Let_def opts ParsePosture_def setup_ok reg workers)
qed

theorem only_the_leader_acts_witness:
  "\<exists>err steps. run (\<lambda>_. None) (\<lambda>_. None) ''dev'' ex_records_reader (False, '''') ex_boot ex_platform = (err, steps)
     \<and> filter (\<lambda>rn. \<not> needs_lease rn) (runnables steps) = [PauseWatcherOf ''remedik-pause'', HttpServer ''gateway'' '':8090'']"
proof -
  obtain err steps where r: "run (\<lambda>_. None) (\<lambda>_. None) ''dev'' ex_records_reader (False, '''') ex_boot ex_platform = (err, steps)"
    by fastforce
  then have "Started \<in> set steps" using ex_started by simp
  then show ?thesis
    using only_the_leader_acts [where fails = "\<lambda>_. None" and parse_scheme = "\<lambda>_. None" and v = "''dev''"
        and reader = ex_records_reader and switch = "(False, '''')" and bo = ex_boot and pf = ex_platform] r by simp
qed

end
