(* ===== verification/DashAssets.thy ===== *)
theory DashAssets
  imports DashHandler
begin

text \<open>
  The rest of \<open>internal/dashboard/assets.go\<close>: the files embedded in the binary, what is computed of them at start,
  and the handler that serves them. The files are those of the build and SHA-256 is the library's: both are
  parameters. A request carries no conditions and no ranges here, so \<open>http.ServeContent\<close> answers with all of
  the file.
\<close>

section \<open>Embedded files\<close>

record embedded =
  EntryName :: string
  EntryIsDir :: bool
  EntryBody :: string

record static_asset =
  AssetBody :: string
  AssetContentType :: string
  AssetETag :: string

definition hex_encode :: "nat list \<Rightarrow> string" where
  "hex_encode bytes = concat (map (\<lambda>b. [hex_char (b div 16), hex_char (b mod 16)]) bytes)"

definition loadStaticAssets :: "(string \<Rightarrow> nat list) \<Rightarrow> embedded list \<Rightarrow> (string \<times> static_asset) list" where
  "loadStaticAssets sha256 files =
     fold (\<lambda>e assets.
             if EntryIsDir e then assets
             else map_put (EntryName e)
               \<lparr>AssetBody = EntryBody e, AssetContentType = contentTypeFor (EntryName e),
                AssetETag = [CHR 0x22] @ hex_encode (take 8 (sha256 (EntryBody e))) @ [CHR 0x22]\<rparr> assets)
       files []"

definition fingerprint :: "(string \<Rightarrow> nat list) \<Rightarrow> (string \<times> static_asset) list \<Rightarrow> string" where
  "fingerprint sha256 assets =
     (let names = sort (map fst assets);
          written = concat (map (\<lambda>n. n @ (case map_of assets n of None \<Rightarrow> '''' | Some a \<Rightarrow> AssetBody a)) names)
      in take 12 (hex_encode (sha256 written)))"

section \<open>Serving them\<close>

text \<open>\<open>path.Clean\<close>.\<close>

definition path_Clean :: "string \<Rightarrow> string" where
  "path_Clean p =
     (let rooted = (p \<noteq> '''' \<and> hd p = CHR ''/'');
          segs = rev (fold (\<lambda>seg acc. if seg = '''' \<or> seg = ''.'' then acc
                                      else if seg = ''..'' then
                                        (if acc \<noteq> [] \<and> hd acc \<noteq> ''..'' then tl acc
                                         else if rooted then acc else seg # acc)
                                      else seg # acc) (split_on (CHR ''/'') p) [])
      in if rooted then CHR ''/'' # join ''/'' segs
         else if segs = [] then ''.'' else join ''/'' segs)"

text \<open>The request has lost the prefix \<open>/static/\<close>; what follows it names the asset.\<close>

definition staticHandler :: "(string \<times> static_asset) list \<Rightarrow> dash_request \<Rightarrow> smap \<Rightarrow> dash_response" where
  "staticHandler assets r head =
     (case map_of assets (path_Clean (case strip ''/static/'' (DPath r) of None \<Rightarrow> DPath r | Some p \<Rightarrow> p)) of
        None \<Rightarrow> http_error r head 404 ''404 page not found''
      | Some a \<Rightarrow>
          \<lparr>DStatus = 200,
           DHeaders =
             map_put ''Content-Length'' (itoa (int (length (AssetBody a))))
               (map_put ''Accept-Ranges'' ''bytes''
                 (map_put ''Cache-Control'' ''public, max-age=31536000, immutable''
                   (map_put ''ETag'' (AssetETag a) (map_put ''Content-Type'' (AssetContentType a) head)))),
           DBody = (if DMethod r = ''HEAD'' then '''' else AssetBody a)\<rparr>)"

text \<open>What surrounds the handler in a build that embeds \<open>files\<close>.\<close>

definition built_env ::
  "(page_chrome \<Rightarrow> int \<Rightarrow> page_view \<Rightarrow> go_error + string) \<Rightarrow> (string \<Rightarrow> nat list) \<Rightarrow> embedded list
     \<Rightarrow> (time \<Rightarrow> duration) \<Rightarrow> (nat \<Rightarrow> time) \<Rightarrow> dash_env" where
  "built_env render sha256 files zone clk =
     \<lparr>Render = render, ServeStatic = staticHandler (loadStaticAssets sha256 files),
      AssetVersion = fingerprint sha256 (loadStaticAssets sha256 files), ZoneOffset = zone, Clock = clk\<rparr>"

section \<open>What is served is what is embedded\<close>

definition embeds :: "embedded list \<Rightarrow> string \<Rightarrow> string \<Rightarrow> bool" where
  "embeds files n body \<longleftrightarrow> (\<exists>e \<in> set files. \<not> EntryIsDir e \<and> EntryName e = n \<and> EntryBody e = body)"

lemma find_snoc: "find P (xs @ [x]) = (case find P xs of Some y \<Rightarrow> Some y | None \<Rightarrow> if P x then Some x else None)"
  by (induction xs) auto

lemma loaded_fold:
  "map_of (fold (\<lambda>e assets. if EntryIsDir e then assets else map_put (EntryName e) (f e) assets) files m) n
     = (case find (\<lambda>e. \<not> EntryIsDir e \<and> EntryName e = n) (rev files) of Some e \<Rightarrow> Some (f e) | None \<Rightarrow> map_of m n)"
proof (induction files arbitrary: m)
  case (Cons e files)
  let ?P = "\<lambda>e. \<not> EntryIsDir e \<and> EntryName e = n"
  show ?case
    by (cases "find ?P (rev files)"; cases "EntryIsDir e"; cases "EntryName e = n")
      (simp_all add: Cons.IH find_snoc)
qed simp

lemma loaded_wf: "map_wf (loadStaticAssets sha256 files)"
proof -
  have "map_wf m \<Longrightarrow> map_wf (fold (\<lambda>e assets. if EntryIsDir e then assets else map_put (EntryName e) (f e) assets) files m)" for f :: "embedded \<Rightarrow> static_asset" and m
    by (induction files arbitrary: m) auto
  then show ?thesis by (simp add: loadStaticAssets_def)
qed

lemma loaded_asset:
  assumes "map_of (loadStaticAssets sha256 files) n = Some a"
  shows "embeds files n (AssetBody a) \<and> AssetContentType a = contentTypeFor n
    \<and> AssetETag a = [CHR 0x22] @ hex_encode (take 8 (sha256 (AssetBody a))) @ [CHR 0x22]"
proof -
  obtain e where e: "find (\<lambda>e. \<not> EntryIsDir e \<and> EntryName e = n) (rev files) = Some e"
    "a = \<lparr>AssetBody = EntryBody e, AssetContentType = contentTypeFor (EntryName e),
       AssetETag = [CHR 0x22] @ hex_encode (take 8 (sha256 (EntryBody e))) @ [CHR 0x22]\<rparr>"
    using assms by (auto simp: loadStaticAssets_def loaded_fold split: option.splits)
  then have "e \<in> set files" "\<not> EntryIsDir e" "EntryName e = n"
    by (auto simp: find_Some_iff) (metis length_rev nth_mem set_rev)
  then show ?thesis using e(2) by (auto simp: embeds_def)
qed

lemma loaded_iff: "map_of (loadStaticAssets sha256 files) n = None \<longleftrightarrow> \<not> (\<exists>body. embeds files n body)"
proof -
  have "map_of (loadStaticAssets sha256 files) n = None
      \<longleftrightarrow> find (\<lambda>e. \<not> EntryIsDir e \<and> EntryName e = n) (rev files) = None"
    by (simp add: loadStaticAssets_def loaded_fold split: option.splits)
  then show ?thesis by (auto simp: embeds_def find_None_iff)
qed

lemma mux_static:
  assumes "dash_mux env h r head = Served resp" and "DPath r = ''/static/'' @ p"
  shows "resp = ServeStatic env r head"
  using assms by (simp add: dash_mux_def Let_def remediationsPath_def namespacesPath_def approvalsPath_def palettePath_def split: if_splits)

text \<open>
  A static file is served as it was embedded. An authorized request under \<open>/static/\<close> whose path is clean gets
  200 if and only if the cleaned rest of the path names an embedded file, and then all of that file, as the type
  its extension stands for, under its own tag, with the headers every page has; otherwise it gets 404.
\<close>

theorem static_files_are_served_as_embedded:
  assumes "serve_dashboard (built_env render sha256 files zone clk) h r = Served resp"
    and "dash_authorized h r" and "DMethod r = ''GET''" and "DPath r = ''/static/'' @ p"
  shows "if \<exists>body. embeds files (path_Clean p) body
    then \<exists>body. embeds files (path_Clean p) body \<and> DStatus resp = 200 \<and> DBody resp = body
      \<and> map_get (DHeaders resp) ''Content-Type'' = contentTypeFor (path_Clean p)
      \<and> map_get (DHeaders resp) ''ETag'' = [CHR 0x22] @ hex_encode (take 8 (sha256 body)) @ [CHR 0x22]
      \<and> map_get (DHeaders resp) ''Content-Security-Policy'' = csp
    else DStatus resp = 404 \<and> map_get (DHeaders resp) ''Content-Security-Policy'' = csp"
proof -

  have resp: "resp = staticHandler (loadStaticAssets sha256 files) r (securityHeaders [])"
  proof -
    have "dash_mux (built_env render sha256 files zone clk) h r (securityHeaders []) = Served resp"
      using assms(1-3) by (simp add: serve_dashboard_def)
    from mux_static [OF this assms(4)] show ?thesis by (simp add: built_env_def)
  qed
  have stripped: "strip ''/static/'' (DPath r) = Some p" using assms(4) by (simp add: strip_def)
  show ?thesis
  proof (cases "map_of (loadStaticAssets sha256 files) (path_Clean p)")
    case None
    then have "\<not> (\<exists>body. embeds files (path_Clean p) body)" by (simp add: loaded_iff)
    moreover have "DStatus resp = 404 \<and> map_get (DHeaders resp) ''Content-Security-Policy'' = csp"
      unfolding resp staticHandler_def stripped option.case None by (simp only: http_error_fields securityHeaders_get)
    ultimately show ?thesis by simp
  next
    case (Some a)
    note L = loaded_asset [OF Some]
    have "DStatus resp = 200" "DBody resp = AssetBody a" "map_get (DHeaders resp) ''Content-Type'' = AssetContentType a"
      "map_get (DHeaders resp) ''ETag'' = AssetETag a" "map_get (DHeaders resp) ''Content-Security-Policy'' = csp"
      using Some assms(3) by (simp_all add: resp staticHandler_def stripped map_get_map_put)
    then show ?thesis using L by auto
  qed
qed

text \<open>
  Names and bodies are written to the hash one after the other with nothing between them: a letter that moves
  from the body to the name leaves the version as it was.
\<close>

lemma fingerprint_has_no_separators:
  "fingerprint sha256 [(''a.js'', \<lparr>AssetBody = ''xy'', AssetContentType = t, AssetETag = e\<rparr>)]
     = fingerprint sha256 [(''a.jsx'', \<lparr>AssetBody = ''y'', AssetContentType = t', AssetETag = e'\<rparr>)]"
  by (simp add: fingerprint_def)

end
