(* ===== verification/GoHeap.thy ===== *)
theory GoHeap
  imports Types
begin

text \<open>
  Memory, for the one place where sharing matters: the deep copies of \<open>api/v1alpha1/zz_generated.deepcopy.go\<close>. A
  pointer, a map and a slice is the address of a cell, or nil; what is behind it is read in a heap. A deep
  copier is a way to copy values of one type, and the locale says what makes it deep: the copy reads as the
  original did and shares no cell with it.
\<close>

type_synonym addr = nat

record 'c heap =
  HeapCells :: "addr \<Rightarrow> 'c option"
  HeapNext :: addr

definition heap_ok :: "'c heap \<Rightarrow> bool" where
  "heap_ok h \<longleftrightarrow> (\<forall>a. HeapNext h \<le> a \<longrightarrow> HeapCells h a = None)"

definition alloc :: "'c \<Rightarrow> 'c heap \<Rightarrow> addr \<times> 'c heap" where
  "alloc c h = (HeapNext h, \<lparr>HeapCells = (HeapCells h)(HeapNext h \<mapsto> c), HeapNext = Suc (HeapNext h)\<rparr>)"

definition store :: "addr \<Rightarrow> 'c \<Rightarrow> 'c heap \<Rightarrow> 'c heap" where
  "store a c h = h\<lparr>HeapCells := (HeapCells h)(a \<mapsto> c)\<rparr>"

text \<open>A run of assignments through addresses.\<close>

definition stores :: "(addr \<times> 'c) list \<Rightarrow> 'c heap \<Rightarrow> 'c heap" where
  "stores ws h = fold (\<lambda>(a, c). store a c) ws h"

lemma stores_elsewhere: "a \<notin> fst ` set ws \<Longrightarrow> HeapCells (stores ws h) a = HeapCells h a"
  unfolding stores_def by (induction ws arbitrary: h) (auto simp: store_def)

lemma heap_ok_below: "heap_ok h \<Longrightarrow> HeapCells h a \<noteq> None \<Longrightarrow> a < HeapNext h"
  by (metis heap_ok_def not_le)

section \<open>Deep copiers\<close>

definition extends :: "'c heap \<Rightarrow> 'c heap \<Rightarrow> bool" where
  "extends h h' \<longleftrightarrow> heap_ok h' \<and> HeapNext h \<le> HeapNext h' \<and> (\<forall>a < HeapNext h. HeapCells h' a = HeapCells h a)"

lemma extends_refl: "heap_ok h \<Longrightarrow> extends h h"
  by (simp add: extends_def)

lemma extends_trans: "extends h h' \<Longrightarrow> extends h' h'' \<Longrightarrow> extends h h''"
  by (auto simp: extends_def)

lemma extends_alloc: "heap_ok h \<Longrightarrow> extends h (snd (alloc c h))"
  by (auto simp: extends_def alloc_def heap_ok_def)

text \<open>
  \<open>view\<close> is what a value stands for in a heap, if it is well-formed there; \<open>reach\<close> are the cells that reading
  it visits.
\<close>

locale deep_copier =
  fixes view :: "'c heap \<Rightarrow> 'a \<Rightarrow> 'b option"
    and reach :: "'c heap \<Rightarrow> 'a \<Rightarrow> addr set"
    and copy :: "'a \<Rightarrow> 'c heap \<Rightarrow> 'a \<times> 'c heap"
  assumes local: "view h v = Some x \<Longrightarrow> (\<And>a. a \<in> reach h v \<Longrightarrow> HeapCells h' a = HeapCells h a)
      \<Longrightarrow> view h' v = Some x \<and> reach h' v = reach h v"
    and held: "view h v = Some x \<Longrightarrow> a \<in> reach h v \<Longrightarrow> HeapCells h a \<noteq> None"
    and copied: "view h v = Some x \<Longrightarrow> heap_ok h \<Longrightarrow> copy v h = (v', h')
      \<Longrightarrow> extends h h' \<and> view h' v' = Some x \<and> reach h' v' \<subseteq> {HeapNext h..}"
begin

lemma below: "view h v = Some x \<Longrightarrow> heap_ok h \<Longrightarrow> reach h v \<subseteq> {..< HeapNext h}"
  using held heap_ok_below by blast

lemma kept:
  assumes "view h v = Some x" and "heap_ok h" and "extends h h'"
  shows "view h' v = Some x \<and> reach h' v = reach h v"
proof (rule local [OF assms(1)])
  fix a
  assume "a \<in> reach h v"
  then have "a < HeapNext h" using below [OF assms(1,2)] by blast
  then show "HeapCells h' a = HeapCells h a" using assms(3) unfolding extends_def by blast
qed

text \<open>The original and the copy do not see each other's assignments.\<close>

lemma independent:
  assumes "view h v = Some x" and "heap_ok h" and "copy v h = (v', h')"
  shows "reach h' v \<inter> reach h' v' = {}"
    and "fst ` set ws \<inter> reach h' v' = {} \<Longrightarrow> view (stores ws h') v' = Some x"
    and "fst ` set ws \<inter> reach h' v = {} \<Longrightarrow> view (stores ws h') v = Some x"
proof -
  note C = copied [OF assms] and B = below [OF assms(1,2)]
  have K: "view h' v = Some x" "reach h' v = reach h v" using kept [OF assms(1,2)] C by blast+
  have "reach h' v' \<subseteq> {HeapNext h..}" using C by blast
  moreover have "reach h' v \<subseteq> {..< HeapNext h}" using B K(2) by simp
  moreover have "{..< HeapNext h} \<inter> {HeapNext h..} = {}" by auto
  ultimately show "reach h' v \<inter> reach h' v' = {}" by blast
  have same: "HeapCells (stores ws h') a = HeapCells h' a" if "fst ` set ws \<inter> R = {}" "a \<in> R" for a R
    using that by (intro stores_elsewhere) blast
  show "view (stores ws h') v' = Some x" if "fst ` set ws \<inter> reach h' v' = {}"
    using local [of h' v' x "stores ws h'"] C same [OF that] by blast
  show "view (stores ws h') v = Some x" if "fst ` set ws \<inter> reach h' v = {}"
    using local [OF K(1), of "stores ws h'"] same [OF that] by blast
qed

end

section \<open>Copiers of values, pairs, arrays and references\<close>

text \<open>A value without references is copied by assignment.\<close>

lemma deep_copier_plain: "deep_copier (\<lambda>h v. Some v) (\<lambda>h v. {}) (\<lambda>v h. (v, h))"
  by standard (auto simp: extends_refl)

definition view_pair ::
  "('c heap \<Rightarrow> 'a \<Rightarrow> 'x option) \<Rightarrow> ('c heap \<Rightarrow> 'b \<Rightarrow> 'y option) \<Rightarrow> 'c heap \<Rightarrow> 'a \<times> 'b \<Rightarrow> ('x \<times> 'y) option" where
  "view_pair v1 v2 h p =
     (case v1 h (fst p) of None \<Rightarrow> None | Some x \<Rightarrow> (case v2 h (snd p) of None \<Rightarrow> None | Some y \<Rightarrow> Some (x, y)))"

definition reach_pair ::
  "('c heap \<Rightarrow> 'a \<Rightarrow> addr set) \<Rightarrow> ('c heap \<Rightarrow> 'b \<Rightarrow> addr set) \<Rightarrow> 'c heap \<Rightarrow> 'a \<times> 'b \<Rightarrow> addr set" where
  "reach_pair r1 r2 h p = r1 h (fst p) \<union> r2 h (snd p)"

definition copy_pair ::
  "('a \<Rightarrow> 'c heap \<Rightarrow> 'a \<times> 'c heap) \<Rightarrow> ('b \<Rightarrow> 'c heap \<Rightarrow> 'b \<times> 'c heap) \<Rightarrow> 'a \<times> 'b \<Rightarrow> 'c heap \<Rightarrow> ('a \<times> 'b) \<times> 'c heap" where
  "copy_pair c1 c2 p h = (let (a, h) = c1 (fst p) h; (b, h) = c2 (snd p) h in ((a, b), h))"

lemma deep_copier_pair:
  assumes "deep_copier v1 r1 c1" and "deep_copier v2 r2 c2"
  shows "deep_copier (view_pair v1 v2) (reach_pair r1 r2) (copy_pair c1 c2)"
proof
  fix h h' :: "'a heap" and p x
  assume v: "view_pair v1 v2 h p = Some x" and same: "\<And>a. a \<in> reach_pair r1 r2 h p \<Longrightarrow> HeapCells h' a = HeapCells h a"
  from v obtain x1 x2 where "v1 h (fst p) = Some x1" "v2 h (snd p) = Some x2" "x = (x1, x2)"
    by (auto simp: view_pair_def split: option.splits)
  then show "view_pair v1 v2 h' p = Some x \<and> reach_pair r1 r2 h' p = reach_pair r1 r2 h p"
    using deep_copier.local [OF assms(1), of h "fst p" x1 h'] deep_copier.local [OF assms(2), of h "snd p" x2 h'] same
    by (simp add: view_pair_def reach_pair_def)
next
  fix h :: "'a heap" and p x a
  assume "view_pair v1 v2 h p = Some x" "a \<in> reach_pair r1 r2 h p"
  then show "HeapCells h a \<noteq> None"
    using deep_copier.held [OF assms(1)] deep_copier.held [OF assms(2)]
    by (auto simp: view_pair_def reach_pair_def split: option.splits)
next
  fix h h' :: "'a heap" and p p' x
  assume v: "view_pair v1 v2 h p = Some x" and ok: "heap_ok h" and c: "copy_pair c1 c2 p h = (p', h')"
  from v obtain x1 x2 where x: "v1 h (fst p) = Some x1" "v2 h (snd p) = Some x2" "x = (x1, x2)"
    by (auto simp: view_pair_def split: option.splits)
  obtain a h1 where 1: "c1 (fst p) h = (a, h1)" by fastforce
  obtain b h2 where 2: "c2 (snd p) h1 = (b, h2)" by fastforce
  note C1 = deep_copier.copied [OF assms(1) x(1) ok 1]
  have ok1: "heap_ok h1" using C1 by (simp add: extends_def)
  have "v2 h1 (snd p) = Some x2" using deep_copier.kept [OF assms(2) x(2) ok] C1 by blast
  note C2 = deep_copier.copied [OF assms(2) this ok1 2]
  have K: "v1 h2 a = Some x1 \<and> r1 h2 a = r1 h1 a" using deep_copier.kept [OF assms(1) _ ok1] C1 C2 by blast
  have "p' = (a, b)" "h' = h2" using c 1 2 by (simp_all add: copy_pair_def)
  moreover have "{HeapNext h1..} \<subseteq> {HeapNext h..}" using C1 by (simp add: extends_def)
  ultimately show "extends h h' \<and> view_pair v1 v2 h' p' = Some x \<and> reach_pair r1 r2 h' p' \<subseteq> {HeapNext h..}"
    using C1 C2 K x(3) extends_trans by (auto simp: view_pair_def reach_pair_def)
qed

text \<open>An array, element by element.\<close>

fun view_list :: "('c heap \<Rightarrow> 'a \<Rightarrow> 'b option) \<Rightarrow> 'c heap \<Rightarrow> 'a list \<Rightarrow> 'b list option" where
  "view_list v h [] = Some []"
| "view_list v h (e # es) =
     (case v h e of None \<Rightarrow> None | Some x \<Rightarrow> (case view_list v h es of None \<Rightarrow> None | Some xs \<Rightarrow> Some (x # xs)))"

fun reach_list :: "('c heap \<Rightarrow> 'a \<Rightarrow> addr set) \<Rightarrow> 'c heap \<Rightarrow> 'a list \<Rightarrow> addr set" where
  "reach_list r h [] = {}"
| "reach_list r h (e # es) = r h e \<union> reach_list r h es"

fun copy_list :: "('a \<Rightarrow> 'c heap \<Rightarrow> 'a \<times> 'c heap) \<Rightarrow> 'a list \<Rightarrow> 'c heap \<Rightarrow> 'a list \<times> 'c heap" where
  "copy_list c [] h = ([], h)"
| "copy_list c (e # es) h = (let (e', h) = c e h; (es', h) = copy_list c es h in (e' # es', h))"

lemma view_list_kept:
  assumes "deep_copier v r c" and "heap_ok h" and "extends h h'"
  shows "view_list v h es = Some ys \<Longrightarrow> view_list v h' es = Some ys"
proof (induction es arbitrary: ys)
  case (Cons e es)
  from Cons.prems obtain z zs where "v h e = Some z" "view_list v h es = Some zs" "ys = z # zs"
    by (auto split: option.splits)
  with Cons.IH deep_copier.kept [OF assms(1) _ assms(2,3)] show ?case by auto
qed simp

lemma deep_copier_list:
  assumes "deep_copier v r c"
  shows "deep_copier (view_list v) (reach_list r) (copy_list c)"
proof
  show "view_list v h es = Some xs \<Longrightarrow> (\<And>a. a \<in> reach_list r h es \<Longrightarrow> HeapCells h' a = HeapCells h a)
      \<Longrightarrow> view_list v h' es = Some xs \<and> reach_list r h' es = reach_list r h es" for h h' es xs
  proof (induction es arbitrary: xs)
    case (Cons e es)
    from Cons.prems(1) obtain y ys where ys: "v h e = Some y" "view_list v h es = Some ys" "xs = y # ys"
      by (auto split: option.splits)
    with Cons.IH [OF ys(2)] Cons.prems(2) deep_copier.local [OF assms ys(1), of h'] show ?case by simp
  qed simp
  show "view_list v h es = Some xs \<Longrightarrow> a \<in> reach_list r h es \<Longrightarrow> HeapCells h a \<noteq> None" for h es xs a
    by (induction es arbitrary: xs) (auto split: option.splits dest: deep_copier.held [OF assms])
  show "view_list v h es = Some xs \<Longrightarrow> heap_ok h \<Longrightarrow> copy_list c es h = (es', h')
      \<Longrightarrow> extends h h' \<and> view_list v h' es' = Some xs \<and> reach_list r h' es' \<subseteq> {HeapNext h..}" for h es xs es' h'
  proof (induction es arbitrary: xs h es' h')
    case Nil
    then show ?case by (simp add: extends_refl)
  next
    case (Cons e es)

    from Cons.prems(1) obtain y ys where ys: "v h e = Some y" "view_list v h es = Some ys" "xs = y # ys"
      by (auto split: option.splits)
    obtain e1 h1 where 1: "c e h = (e1, h1)" by fastforce
    obtain es1 h2 where 2: "copy_list c es h1 = (es1, h2)" by fastforce
    note C1 = deep_copier.copied [OF assms ys(1) Cons.prems(2) 1]
    have ok1: "heap_ok h1" using C1 by (simp add: extends_def)
    have "view_list v h1 es = Some ys" using view_list_kept [OF assms Cons.prems(2) _ ys(2)] C1 by blast
    note C2 = Cons.IH [OF this ok1 2]
    have K: "v h2 e1 = Some y \<and> r h2 e1 = r h1 e1" using deep_copier.kept [OF assms _ ok1] C1 C2 by blast
    have "es' = e1 # es1" "h' = h2" using Cons.prems(3) 1 2 by simp_all
    moreover have "{HeapNext h1..} \<subseteq> {HeapNext h..}" using C1 by (simp add: extends_def)
    ultimately show ?case using C1 C2 K ys(3) extends_trans by auto
  qed
qed

text \<open>
  A reference to a cell of one kind, of which \<open>cell\<close> makes a cell and \<open>content\<close> reads it: the copy is a new cell
  with a copy of what is in the old one.
\<close>

definition view_ref :: "('c \<Rightarrow> 'a option) \<Rightarrow> ('c heap \<Rightarrow> 'a \<Rightarrow> 'b option) \<Rightarrow> 'c heap \<Rightarrow> addr option \<Rightarrow> 'b option option" where
  "view_ref content v h p =
     (case p of None \<Rightarrow> Some None
      | Some a \<Rightarrow> (case Option.bind (HeapCells h a) content of None \<Rightarrow> None | Some y \<Rightarrow> map_option Some (v h y)))"

definition reach_ref :: "('c \<Rightarrow> 'a option) \<Rightarrow> ('c heap \<Rightarrow> 'a \<Rightarrow> addr set) \<Rightarrow> 'c heap \<Rightarrow> addr option \<Rightarrow> addr set" where
  "reach_ref content r h p =
     (case p of None \<Rightarrow> {}
      | Some a \<Rightarrow> insert a (case Option.bind (HeapCells h a) content of None \<Rightarrow> {} | Some y \<Rightarrow> r h y))"

definition copy_ref ::
  "('a \<Rightarrow> 'c) \<Rightarrow> ('c \<Rightarrow> 'a option) \<Rightarrow> ('a \<Rightarrow> 'c heap \<Rightarrow> 'a \<times> 'c heap) \<Rightarrow> addr option \<Rightarrow> 'c heap \<Rightarrow> addr option \<times> 'c heap" where
  "copy_ref cell content c p h =
     (case p of None \<Rightarrow> (None, h)
      | Some a \<Rightarrow>
          (case Option.bind (HeapCells h a) content of
             None \<Rightarrow> (None, h)
           | Some y \<Rightarrow> (let (y', h) = c y h; (a', h) = alloc (cell y') h in (Some a', h))))"

lemma deep_copier_ref:
  fixes v :: "'c heap \<Rightarrow> 'a \<Rightarrow> 'b option"
  assumes "deep_copier v r c" and content: "\<And>y. content (cell y) = Some y"
  shows "deep_copier (view_ref content v) (reach_ref content r) (copy_ref cell content c)"
proof
  fix h h' :: "'c heap" and p x
  assume "view_ref content v h p = Some x" "\<And>a. a \<in> reach_ref content r h p \<Longrightarrow> HeapCells h' a = HeapCells h a"
  then show "view_ref content v h' p = Some x \<and> reach_ref content r h' p = reach_ref content r h p"
    using deep_copier.local [OF assms(1), of h _ _ h']
    by (fastforce simp: view_ref_def reach_ref_def split: option.splits)
next
  fix h :: "'c heap" and p x a
  assume "view_ref content v h p = Some x" "a \<in> reach_ref content r h p"
  then show "HeapCells h a \<noteq> None"
    using deep_copier.held [OF assms(1)] by (auto simp: view_ref_def reach_ref_def Option.bind_eq_Some_conv split: option.splits)
next
  fix h h' :: "'c heap" and p p' x
  assume v: "view_ref content v h p = Some x" and ok: "heap_ok h" and cp: "copy_ref cell content c p h = (p', h')"
  show "extends h h' \<and> view_ref content v h' p' = Some x \<and> reach_ref content r h' p' \<subseteq> {HeapNext h..}"
  proof (cases p)
    case None
    then show ?thesis using v ok cp by (auto simp: view_ref_def reach_ref_def copy_ref_def extends_refl)
  next
    case (Some a)
    with v obtain y z where y: "Option.bind (HeapCells h a) content = Some y" "v h y = Some z" "x = Some z"
      by (auto simp: view_ref_def split: option.splits)
    obtain y' h1 where 1: "c y h = (y', h1)" by fastforce
    note C = deep_copier.copied [OF assms(1) y(2) ok 1]
    have ok1: "heap_ok h1" using C by (simp add: extends_def)
    have E: "extends h1 (snd (alloc (cell y') h1))" by (rule extends_alloc [OF ok1])
    have K: "v (snd (alloc (cell y') h1)) y' = Some z \<and> r (snd (alloc (cell y') h1)) y' = r h1 y'"
      using deep_copier.kept [OF assms(1) _ ok1 E] C by blast
    have out: "p' = Some (HeapNext h1)" "h' = snd (alloc (cell y') h1)"
      using cp Some y(1) 1 by (auto simp: copy_ref_def alloc_def)
    have cell_at: "HeapCells h' (HeapNext h1) = Some (cell y')" by (simp add: out(2) alloc_def)
    have "HeapNext h \<le> HeapNext h1" using C by (simp add: extends_def)
    then show ?thesis
      using C K E extends_trans y(3) cell_at content out by (auto simp: view_ref_def reach_ref_def)
  qed
qed

text \<open>
  A struct whose references are the \<open>parts\<close> of it: what it stands for is made of its own plain fields and of
  what its parts stand for, and the copy has the plain fields by assignment and copies of the parts.
\<close>

lemma deep_copier_struct:
  fixes v :: "'c heap \<Rightarrow> 'a \<Rightarrow> 'b option"
  assumes "deep_copier v r c"
    and "\<And>h m. view h m = map_option (value_of m) (v h (parts m))"
    and "\<And>h m. reach h m = r h (parts m)"
    and "\<And>m h. copy m h = (let (p, h) = c (parts m) h in (put p m, h))"
    and "\<And>p m. parts (put p m) = p" and "\<And>p m. value_of (put p m) = value_of m"
  shows "deep_copier view reach copy"
proof
  fix h h' :: "'c heap" and m x
  assume "view h m = Some x" "\<And>a. a \<in> reach h m \<Longrightarrow> HeapCells h' a = HeapCells h a"
  then obtain y where "v h (parts m) = Some y" "x = value_of m y" "\<And>a. a \<in> r h (parts m) \<Longrightarrow> HeapCells h' a = HeapCells h a"
    by (auto simp: assms(2,3))
  with deep_copier.local [OF assms(1) this(1), of h'] show "view h' m = Some x \<and> reach h' m = reach h m"
    unfolding assms(2,3) by simp
next
  fix h :: "'c heap" and m x a
  assume "view h m = Some x" "a \<in> reach h m"
  then obtain y where "v h (parts m) = Some y" "a \<in> r h (parts m)" by (auto simp: assms(2,3))
  then show "HeapCells h a \<noteq> None" by (rule deep_copier.held [OF assms(1)])
next
  fix h h' :: "'c heap" and m m' x
  assume m: "view h m = Some x" "heap_ok h" "copy m h = (m', h')"
  obtain p where p: "c (parts m) h = (p, h')" "m' = put p m" using m(3) by (auto simp: assms(4) split: prod.splits)
  obtain y where y: "v h (parts m) = Some y" "x = value_of m y" using m(1) by (auto simp: assms(2))
  from deep_copier.copied [OF assms(1) y(1) m(2) p(1)]
  show "extends h h' \<and> view h' m' = Some x \<and> reach h' m' \<subseteq> {HeapNext h..}"
    unfolding p(2) assms(2,3,5,6) y(2) by simp
qed

end
