(* ===== verification/DeepCopy.thy ===== *)
theory DeepCopy
  imports GoHeap
begin

text \<open>
  \<open>api/v1alpha1/zz_generated.deepcopy.go\<close>: the resources as they are in memory, with addresses for their maps,
  slices and pointers, and the generated functions that copy them. A \<open>DeepCopyInto\<close> gives the contents it writes
  into \<open>out\<close>, and the heap with the new cells. The deep copy of \<open>metav1.ObjectMeta\<close> and of \<open>ListMeta\<close> is the
  library's: a parameter, of type \<open>'m\<close> and \<open>'l\<close> for what they are in memory. \<open>metav1.Time\<close>, \<open>Duration\<close> and
  \<open>Condition\<close> hold no references, so copying one is an assignment.
\<close>

section \<open>The resources in memory\<close>

record mem_step =
  MAction :: string
  MWith :: "addr option"

record mem_step_status =
  MIndex :: int
  MStepAction :: string
  MStepTarget :: string
  MPhase :: step_phase
  MPlan :: string
  MKubectl :: string
  MOutputs :: "addr option"
  MVerified :: string
  MStepMessage :: string
  MStepStartedAt :: "addr option"
  MStepCompletedAt :: "addr option"

record mem_alert_ref =
  MFingerprint :: string
  MAlertName :: string
  MLabels :: "addr option"
  MStartsAt :: "addr option"

record mem_escalation =
  MEscPhase :: step_phase
  MEscSteps :: "addr option"
  MEscMessage :: string
  MEscCompletedAt :: "addr option"

record mem_execution =
  MMode :: execution_mode
  MApprovalTimeout :: "addr option"

record mem_guards =
  MCooldown :: "addr option"
  MMaxPerHour :: int
  MBlastRadius :: "addr option"
  MGiveUpAfter :: "addr option"

record mem_on_failure =
  MOFRetries :: int
  MOFSteps :: "addr option"
  MOFMode :: escalation_mode

record mem_trigger =
  MMatch :: "addr option"

record mem_remediation_spec =
  MStrategyName :: string
  MTarget :: string
  MAlert :: mem_alert_ref
  MSteps :: "addr option"
  MRetries :: int
  MEscalationSteps :: "addr option"
  MEscalationMode :: escalation_mode
  MSpecMode :: execution_mode
  MApprovalDeadline :: "addr option"
  MApproval :: "addr option"
  MDryRun :: bool

record mem_remediation_status =
  MState :: remediation_state
  MAttempt :: int
  MStatusSteps :: "addr option"
  MReason :: string
  MMessage :: string
  MStartedAt :: "addr option"
  MCompletedAt :: "addr option"
  MEscalation :: "addr option"
  MRemConditions :: "addr option"

record mem_strategy_spec =
  MEnabled :: "addr option"
  MTrigger :: mem_trigger
  MExecution :: mem_execution
  MGuards :: mem_guards
  MStrategySteps :: "addr option"
  MOnFailure :: mem_on_failure

record mem_strategy_status =
  MConditions :: "addr option"
  MLastExecutionTime :: "addr option"
  MExecutionCount :: int
  MObservedGeneration :: int

record 'm mem_remediation =
  MTypeMeta :: "string \<times> string"
  MObjectMeta :: 'm
  MSpec :: mem_remediation_spec
  MStatus :: mem_remediation_status

record 'm mem_strategy =
  MStratTypeMeta :: "string \<times> string"
  MStratObjectMeta :: 'm
  MStratSpec :: mem_strategy_spec
  MStratStatus :: mem_strategy_status

record ('m, 'l) mem_list =
  MListTypeMeta :: "string \<times> string"
  MListMeta :: 'l
  MItems :: "addr option"

datatype 'm cell =
    StringMap smap
  | TimeCell time
  | DurationCell duration
  | BoolCell bool
  | BlastRadiusCell blast_radius_spec
  | GiveUpAfterCell give_up_after
  | ApprovalCell approval
  | ConditionArray "condition list"
  | StepArray "mem_step list"
  | StepStatusArray "mem_step_status list"
  | EscalationCell mem_escalation
  | RemediationArray "'m mem_remediation list"
  | StrategyArray "'m mem_strategy list"

fun string_map_in :: "'m cell \<Rightarrow> smap option" where
  "string_map_in (StringMap x) = Some x"
| "string_map_in _ = None"

fun time_in :: "'m cell \<Rightarrow> time option" where
  "time_in (TimeCell x) = Some x"
| "time_in _ = None"

fun duration_in :: "'m cell \<Rightarrow> duration option" where
  "duration_in (DurationCell x) = Some x"
| "duration_in _ = None"

fun bool_in :: "'m cell \<Rightarrow> bool option" where
  "bool_in (BoolCell x) = Some x"
| "bool_in _ = None"

fun blast_radius_in :: "'m cell \<Rightarrow> blast_radius_spec option" where
  "blast_radius_in (BlastRadiusCell x) = Some x"
| "blast_radius_in _ = None"

fun give_up_after_in :: "'m cell \<Rightarrow> give_up_after option" where
  "give_up_after_in (GiveUpAfterCell x) = Some x"
| "give_up_after_in _ = None"

fun approval_in :: "'m cell \<Rightarrow> approval option" where
  "approval_in (ApprovalCell x) = Some x"
| "approval_in _ = None"

fun conditions_in :: "'m cell \<Rightarrow> (condition list) option" where
  "conditions_in (ConditionArray x) = Some x"
| "conditions_in _ = None"

fun steps_in :: "'m cell \<Rightarrow> (mem_step list) option" where
  "steps_in (StepArray x) = Some x"
| "steps_in _ = None"

fun step_statuses_in :: "'m cell \<Rightarrow> (mem_step_status list) option" where
  "step_statuses_in (StepStatusArray x) = Some x"
| "step_statuses_in _ = None"

fun escalation_in :: "'m cell \<Rightarrow> mem_escalation option" where
  "escalation_in (EscalationCell x) = Some x"
| "escalation_in _ = None"

fun remediations_in :: "'m cell \<Rightarrow> ('m mem_remediation list) option" where
  "remediations_in (RemediationArray x) = Some x"
| "remediations_in _ = None"

fun strategies_in :: "'m cell \<Rightarrow> ('m mem_strategy list) option" where
  "strategies_in (StrategyArray x) = Some x"
| "strategies_in _ = None"

text \<open>A nil map or slice reads as an empty one.\<close>

definition or_nil :: "'a list option \<Rightarrow> 'a list" where
  "or_nil x = (case x of None \<Rightarrow> [] | Some xs \<Rightarrow> xs)"

section \<open>References to plain values\<close>

text \<open>
  The blocks of the generated code for a pointer, a map or a slice that is not nil: a new cell with what the old
  one holds.
\<close>

definition copy_map :: "addr option \<Rightarrow> 'm cell heap \<Rightarrow> addr option \<times> 'm cell heap" where
  "copy_map = copy_ref StringMap string_map_in (\<lambda>v h. (v, h))"

definition copy_time :: "addr option \<Rightarrow> 'm cell heap \<Rightarrow> addr option \<times> 'm cell heap" where
  "copy_time = copy_ref TimeCell time_in (\<lambda>v h. (v, h))"

definition copy_duration :: "addr option \<Rightarrow> 'm cell heap \<Rightarrow> addr option \<times> 'm cell heap" where
  "copy_duration = copy_ref DurationCell duration_in (\<lambda>v h. (v, h))"

definition copy_bool :: "addr option \<Rightarrow> 'm cell heap \<Rightarrow> addr option \<times> 'm cell heap" where
  "copy_bool = copy_ref BoolCell bool_in (\<lambda>v h. (v, h))"

definition copy_blast :: "addr option \<Rightarrow> 'm cell heap \<Rightarrow> addr option \<times> 'm cell heap" where
  "copy_blast = copy_ref BlastRadiusCell blast_radius_in (\<lambda>v h. (v, h))"

definition copy_giveup :: "addr option \<Rightarrow> 'm cell heap \<Rightarrow> addr option \<times> 'm cell heap" where
  "copy_giveup = copy_ref GiveUpAfterCell give_up_after_in (\<lambda>v h. (v, h))"

definition copy_approval :: "addr option \<Rightarrow> 'm cell heap \<Rightarrow> addr option \<times> 'm cell heap" where
  "copy_approval = copy_ref ApprovalCell approval_in (\<lambda>v h. (v, h))"

definition copy_conditions :: "addr option \<Rightarrow> 'm cell heap \<Rightarrow> addr option \<times> 'm cell heap" where
  "copy_conditions = copy_ref ConditionArray conditions_in (\<lambda>v h. (v, h))"

definition view_map :: "'m cell heap \<Rightarrow> addr option \<Rightarrow> smap option option" where
  "view_map = view_ref string_map_in (\<lambda>h v. Some v)"
definition reach_map :: "'m cell heap \<Rightarrow> addr option \<Rightarrow> addr set" where
  "reach_map = reach_ref string_map_in (\<lambda>h v. {})"

definition view_time :: "'m cell heap \<Rightarrow> addr option \<Rightarrow> time option option" where
  "view_time = view_ref time_in (\<lambda>h v. Some v)"
definition reach_time :: "'m cell heap \<Rightarrow> addr option \<Rightarrow> addr set" where
  "reach_time = reach_ref time_in (\<lambda>h v. {})"

definition view_duration :: "'m cell heap \<Rightarrow> addr option \<Rightarrow> duration option option" where
  "view_duration = view_ref duration_in (\<lambda>h v. Some v)"
definition reach_duration :: "'m cell heap \<Rightarrow> addr option \<Rightarrow> addr set" where
  "reach_duration = reach_ref duration_in (\<lambda>h v. {})"

definition view_bool :: "'m cell heap \<Rightarrow> addr option \<Rightarrow> bool option option" where
  "view_bool = view_ref bool_in (\<lambda>h v. Some v)"
definition reach_bool :: "'m cell heap \<Rightarrow> addr option \<Rightarrow> addr set" where
  "reach_bool = reach_ref bool_in (\<lambda>h v. {})"

definition view_blast :: "'m cell heap \<Rightarrow> addr option \<Rightarrow> blast_radius_spec option option" where
  "view_blast = view_ref blast_radius_in (\<lambda>h v. Some v)"
definition reach_blast :: "'m cell heap \<Rightarrow> addr option \<Rightarrow> addr set" where
  "reach_blast = reach_ref blast_radius_in (\<lambda>h v. {})"

definition view_giveup :: "'m cell heap \<Rightarrow> addr option \<Rightarrow> give_up_after option option" where
  "view_giveup = view_ref give_up_after_in (\<lambda>h v. Some v)"
definition reach_giveup :: "'m cell heap \<Rightarrow> addr option \<Rightarrow> addr set" where
  "reach_giveup = reach_ref give_up_after_in (\<lambda>h v. {})"

definition view_approval :: "'m cell heap \<Rightarrow> addr option \<Rightarrow> approval option option" where
  "view_approval = view_ref approval_in (\<lambda>h v. Some v)"
definition reach_approval :: "'m cell heap \<Rightarrow> addr option \<Rightarrow> addr set" where
  "reach_approval = reach_ref approval_in (\<lambda>h v. {})"

definition view_conditions :: "'m cell heap \<Rightarrow> addr option \<Rightarrow> (condition list) option option" where
  "view_conditions = view_ref conditions_in (\<lambda>h v. Some v)"
definition reach_conditions :: "'m cell heap \<Rightarrow> addr option \<Rightarrow> addr set" where
  "reach_conditions = reach_ref conditions_in (\<lambda>h v. {})"

lemma map_copier: "deep_copier view_map reach_map copy_map"
  unfolding view_map_def reach_map_def copy_map_def by (intro deep_copier_ref deep_copier_plain) simp

lemma time_copier: "deep_copier view_time reach_time copy_time"
  unfolding view_time_def reach_time_def copy_time_def by (intro deep_copier_ref deep_copier_plain) simp

lemma duration_copier: "deep_copier view_duration reach_duration copy_duration"
  unfolding view_duration_def reach_duration_def copy_duration_def by (intro deep_copier_ref deep_copier_plain) simp

lemma bool_copier: "deep_copier view_bool reach_bool copy_bool"
  unfolding view_bool_def reach_bool_def copy_bool_def by (intro deep_copier_ref deep_copier_plain) simp

lemma blast_copier: "deep_copier view_blast reach_blast copy_blast"
  unfolding view_blast_def reach_blast_def copy_blast_def by (intro deep_copier_ref deep_copier_plain) simp

lemma giveup_copier: "deep_copier view_giveup reach_giveup copy_giveup"
  unfolding view_giveup_def reach_giveup_def copy_giveup_def by (intro deep_copier_ref deep_copier_plain) simp

lemma approval_copier: "deep_copier view_approval reach_approval copy_approval"
  unfolding view_approval_def reach_approval_def copy_approval_def by (intro deep_copier_ref deep_copier_plain) simp

lemma conditions_copier: "deep_copier view_conditions reach_conditions copy_conditions"
  unfolding view_conditions_def reach_conditions_def copy_conditions_def by (intro deep_copier_ref deep_copier_plain) simp

section \<open>The generated functions\<close>

text \<open>
  Each \<open>DeepCopyInto\<close> assigns the struct and then replaces its references and its structs by copies. What follows
  each says what the struct stands for, which cells it reaches, and that the copy is deep.
\<close>

definition Step_DeepCopyInto :: "mem_step \<Rightarrow> 'm cell heap \<Rightarrow> mem_step \<times> 'm cell heap" where
  "Step_DeepCopyInto m h =
     (let (w, h) = copy_map (MWith m) h
      in (m\<lparr>MWith := w\<rparr>, h))"

definition view_step :: "'m cell heap \<Rightarrow> mem_step \<Rightarrow> (step) option" where
  "view_step h m =
     map_option (\<lambda>w. \<lparr>Action = MAction m, With = or_nil w\<rparr>)
       (view_map h (MWith m))"
definition reach_step :: "'m cell heap \<Rightarrow> mem_step \<Rightarrow> addr set" where
  "reach_step h m = reach_map h (MWith m)"

lemma step_copier: "deep_copier (view_step :: 'm cell heap \<Rightarrow> _) reach_step Step_DeepCopyInto"
proof (rule deep_copier_struct [OF map_copier])
  show "view_step h m = map_option ((\<lambda>m w. \<lparr>Action = MAction m, With = or_nil w\<rparr>) m)
       (view_map h ((\<lambda>m. MWith m) m))" for h :: "'m cell heap" and m
    by (simp add: view_step_def)
  show "Step_DeepCopyInto m h
      = (let (p, h) = copy_map ((\<lambda>m. MWith m) m) h
         in ((\<lambda>w m. m\<lparr>MWith := w\<rparr>) p m, h))" for m and h :: "'m cell heap"
    by (simp add: Step_DeepCopyInto_def copy_pair_def Let_def split_beta)
qed (auto simp: reach_step_def)

definition copy_steps :: "addr option \<Rightarrow> 'm cell heap \<Rightarrow> addr option \<times> 'm cell heap" where
  "copy_steps = copy_ref StepArray steps_in (copy_list Step_DeepCopyInto)"

definition view_steps :: "'m cell heap \<Rightarrow> addr option \<Rightarrow> (step list) option option" where
  "view_steps = view_ref steps_in (view_list view_step)"
definition reach_steps :: "'m cell heap \<Rightarrow> addr option \<Rightarrow> addr set" where
  "reach_steps = reach_ref steps_in (reach_list reach_step)"

lemma steps_copier: "deep_copier view_steps reach_steps copy_steps"
  unfolding view_steps_def reach_steps_def copy_steps_def by (intro deep_copier_ref deep_copier_list step_copier) simp

definition StepStatus_DeepCopyInto :: "mem_step_status \<Rightarrow> 'm cell heap \<Rightarrow> mem_step_status \<times> 'm cell heap" where
  "StepStatus_DeepCopyInto m h =
     (let (out, h) = copy_map (MOutputs m) h;
          (t, h) = copy_time (MStepStartedAt m) h;
          (u, h) = copy_time (MStepCompletedAt m) h
      in (m\<lparr>MOutputs := out, MStepStartedAt := t, MStepCompletedAt := u\<rparr>, h))"

definition view_step_status :: "'m cell heap \<Rightarrow> mem_step_status \<Rightarrow> (step_status) option" where
  "view_step_status h m =
     map_option (\<lambda>(out, t, u). \<lparr>Index = MIndex m, StepAction = MStepAction m, StepTarget = MStepTarget m, Phase = MPhase m, Plan = MPlan m,
       Kubectl = MKubectl m, Outputs = or_nil out, Verified = MVerified m, StepMessage = MStepMessage m, StepStartedAt = t,
       StepCompletedAt = u\<rparr>)
       ((view_pair view_map (view_pair view_time view_time)) h (MOutputs m, MStepStartedAt m, MStepCompletedAt m))"
definition reach_step_status :: "'m cell heap \<Rightarrow> mem_step_status \<Rightarrow> addr set" where
  "reach_step_status h m = (reach_pair reach_map (reach_pair reach_time reach_time)) h (MOutputs m, MStepStartedAt m, MStepCompletedAt m)"

lemma step_status_copier: "deep_copier (view_step_status :: 'm cell heap \<Rightarrow> _) reach_step_status StepStatus_DeepCopyInto"
proof (rule deep_copier_struct [OF deep_copier_pair [OF map_copier deep_copier_pair [OF time_copier time_copier]]])
  show "view_step_status h m = map_option ((\<lambda>m (out, t, u). \<lparr>Index = MIndex m, StepAction = MStepAction m, StepTarget = MStepTarget m, Phase = MPhase m, Plan = MPlan m,
       Kubectl = MKubectl m, Outputs = or_nil out, Verified = MVerified m, StepMessage = MStepMessage m, StepStartedAt = t,
       StepCompletedAt = u\<rparr>) m)
       ((view_pair view_map (view_pair view_time view_time)) h ((\<lambda>m. (MOutputs m, MStepStartedAt m, MStepCompletedAt m)) m))" for h :: "'m cell heap" and m
    by (simp add: view_step_status_def)
  show "StepStatus_DeepCopyInto m h
      = (let (p, h) = (copy_pair copy_map (copy_pair copy_time copy_time)) ((\<lambda>m. (MOutputs m, MStepStartedAt m, MStepCompletedAt m)) m) h
         in ((\<lambda>(out, t, u) m. m\<lparr>MOutputs := out, MStepStartedAt := t, MStepCompletedAt := u\<rparr>) p m, h))" for m and h :: "'m cell heap"
    by (simp add: StepStatus_DeepCopyInto_def copy_pair_def Let_def split_beta)
qed (auto simp: reach_step_status_def)

definition copy_statuses :: "addr option \<Rightarrow> 'm cell heap \<Rightarrow> addr option \<times> 'm cell heap" where
  "copy_statuses = copy_ref StepStatusArray step_statuses_in (copy_list StepStatus_DeepCopyInto)"

definition view_statuses :: "'m cell heap \<Rightarrow> addr option \<Rightarrow> (step_status list) option option" where
  "view_statuses = view_ref step_statuses_in (view_list view_step_status)"
definition reach_statuses :: "'m cell heap \<Rightarrow> addr option \<Rightarrow> addr set" where
  "reach_statuses = reach_ref step_statuses_in (reach_list reach_step_status)"

lemma statuses_copier: "deep_copier view_statuses reach_statuses copy_statuses"
  unfolding view_statuses_def reach_statuses_def copy_statuses_def by (intro deep_copier_ref deep_copier_list step_status_copier) simp

definition AlertRef_DeepCopyInto :: "mem_alert_ref \<Rightarrow> 'm cell heap \<Rightarrow> mem_alert_ref \<times> 'm cell heap" where
  "AlertRef_DeepCopyInto m h =
     (let (l, h) = copy_map (MLabels m) h;
          (t, h) = copy_time (MStartsAt m) h
      in (m\<lparr>MLabels := l, MStartsAt := t\<rparr>, h))"

definition view_alert :: "'m cell heap \<Rightarrow> mem_alert_ref \<Rightarrow> (alert_ref) option" where
  "view_alert h m =
     map_option (\<lambda>(l, t). \<lparr>RefFingerprint = MFingerprint m, RefName = MAlertName m, RefLabels = or_nil l, RefStartsAt = t\<rparr>)
       ((view_pair view_map view_time) h (MLabels m, MStartsAt m))"
definition reach_alert :: "'m cell heap \<Rightarrow> mem_alert_ref \<Rightarrow> addr set" where
  "reach_alert h m = (reach_pair reach_map reach_time) h (MLabels m, MStartsAt m)"

lemma alert_copier: "deep_copier (view_alert :: 'm cell heap \<Rightarrow> _) reach_alert AlertRef_DeepCopyInto"
proof (rule deep_copier_struct [OF deep_copier_pair [OF map_copier time_copier]])
  show "view_alert h m = map_option ((\<lambda>m (l, t). \<lparr>RefFingerprint = MFingerprint m, RefName = MAlertName m, RefLabels = or_nil l, RefStartsAt = t\<rparr>) m)
       ((view_pair view_map view_time) h ((\<lambda>m. (MLabels m, MStartsAt m)) m))" for h :: "'m cell heap" and m
    by (simp add: view_alert_def)
  show "AlertRef_DeepCopyInto m h
      = (let (p, h) = (copy_pair copy_map copy_time) ((\<lambda>m. (MLabels m, MStartsAt m)) m) h
         in ((\<lambda>(l, t) m. m\<lparr>MLabels := l, MStartsAt := t\<rparr>) p m, h))" for m and h :: "'m cell heap"
    by (simp add: AlertRef_DeepCopyInto_def copy_pair_def Let_def split_beta)
qed (auto simp: reach_alert_def)

definition EscalationStatus_DeepCopyInto :: "mem_escalation \<Rightarrow> 'm cell heap \<Rightarrow> mem_escalation \<times> 'm cell heap" where
  "EscalationStatus_DeepCopyInto m h =
     (let (s, h) = copy_statuses (MEscSteps m) h;
          (t, h) = copy_time (MEscCompletedAt m) h
      in (m\<lparr>MEscSteps := s, MEscCompletedAt := t\<rparr>, h))"

definition view_escalation :: "'m cell heap \<Rightarrow> mem_escalation \<Rightarrow> (escalation_status) option" where
  "view_escalation h m =
     map_option (\<lambda>(s, t). \<lparr>EscPhase = MEscPhase m, EscSteps = or_nil s, EscMessage = MEscMessage m, EscCompletedAt = t\<rparr>)
       ((view_pair view_statuses view_time) h (MEscSteps m, MEscCompletedAt m))"
definition reach_escalation :: "'m cell heap \<Rightarrow> mem_escalation \<Rightarrow> addr set" where
  "reach_escalation h m = (reach_pair reach_statuses reach_time) h (MEscSteps m, MEscCompletedAt m)"

lemma escalation_copier: "deep_copier (view_escalation :: 'm cell heap \<Rightarrow> _) reach_escalation EscalationStatus_DeepCopyInto"
proof (rule deep_copier_struct [OF deep_copier_pair [OF statuses_copier time_copier]])
  show "view_escalation h m = map_option ((\<lambda>m (s, t). \<lparr>EscPhase = MEscPhase m, EscSteps = or_nil s, EscMessage = MEscMessage m, EscCompletedAt = t\<rparr>) m)
       ((view_pair view_statuses view_time) h ((\<lambda>m. (MEscSteps m, MEscCompletedAt m)) m))" for h :: "'m cell heap" and m
    by (simp add: view_escalation_def)
  show "EscalationStatus_DeepCopyInto m h
      = (let (p, h) = (copy_pair copy_statuses copy_time) ((\<lambda>m. (MEscSteps m, MEscCompletedAt m)) m) h
         in ((\<lambda>(s, t) m. m\<lparr>MEscSteps := s, MEscCompletedAt := t\<rparr>) p m, h))" for m and h :: "'m cell heap"
    by (simp add: EscalationStatus_DeepCopyInto_def copy_pair_def Let_def split_beta)
qed (auto simp: reach_escalation_def)

definition copy_escalation_ref :: "addr option \<Rightarrow> 'm cell heap \<Rightarrow> addr option \<times> 'm cell heap" where
  "copy_escalation_ref = copy_ref EscalationCell escalation_in EscalationStatus_DeepCopyInto"

definition view_escalation_ref :: "'m cell heap \<Rightarrow> addr option \<Rightarrow> escalation_status option option" where
  "view_escalation_ref = view_ref escalation_in view_escalation"
definition reach_escalation_ref :: "'m cell heap \<Rightarrow> addr option \<Rightarrow> addr set" where
  "reach_escalation_ref = reach_ref escalation_in reach_escalation"

lemma escalation_ref_copier: "deep_copier view_escalation_ref reach_escalation_ref copy_escalation_ref"
  unfolding view_escalation_ref_def reach_escalation_ref_def copy_escalation_ref_def by (intro deep_copier_ref escalation_copier) simp

definition Execution_DeepCopyInto :: "mem_execution \<Rightarrow> 'm cell heap \<Rightarrow> mem_execution \<times> 'm cell heap" where
  "Execution_DeepCopyInto m h =
     (let (d, h) = copy_duration (MApprovalTimeout m) h
      in (m\<lparr>MApprovalTimeout := d\<rparr>, h))"

definition view_execution :: "'m cell heap \<Rightarrow> mem_execution \<Rightarrow> (execution) option" where
  "view_execution h m =
     map_option (\<lambda>d. \<lparr>ExecMode = MMode m, ApprovalTimeout = d\<rparr>)
       (view_duration h (MApprovalTimeout m))"
definition reach_execution :: "'m cell heap \<Rightarrow> mem_execution \<Rightarrow> addr set" where
  "reach_execution h m = reach_duration h (MApprovalTimeout m)"

lemma execution_copier: "deep_copier (view_execution :: 'm cell heap \<Rightarrow> _) reach_execution Execution_DeepCopyInto"
proof (rule deep_copier_struct [OF duration_copier])
  show "view_execution h m = map_option ((\<lambda>m d. \<lparr>ExecMode = MMode m, ApprovalTimeout = d\<rparr>) m)
       (view_duration h ((\<lambda>m. MApprovalTimeout m) m))" for h :: "'m cell heap" and m
    by (simp add: view_execution_def)
  show "Execution_DeepCopyInto m h
      = (let (p, h) = copy_duration ((\<lambda>m. MApprovalTimeout m) m) h
         in ((\<lambda>d m. m\<lparr>MApprovalTimeout := d\<rparr>) p m, h))" for m and h :: "'m cell heap"
    by (simp add: Execution_DeepCopyInto_def copy_pair_def Let_def split_beta)
qed (auto simp: reach_execution_def)

definition Guards_DeepCopyInto :: "mem_guards \<Rightarrow> 'm cell heap \<Rightarrow> mem_guards \<times> 'm cell heap" where
  "Guards_DeepCopyInto m h =
     (let (c, h) = copy_duration (MCooldown m) h;
          (b, h) = copy_blast (MBlastRadius m) h;
          (g, h) = copy_giveup (MGiveUpAfter m) h
      in (m\<lparr>MCooldown := c, MBlastRadius := b, MGiveUpAfter := g\<rparr>, h))"

definition view_guards :: "'m cell heap \<Rightarrow> mem_guards \<Rightarrow> (guards_spec) option" where
  "view_guards h m =
     map_option (\<lambda>(c, b, g). \<lparr>GCooldown = c, GMaxPerHour = MMaxPerHour m, GBlastRadius = b, GGiveUpAfter = g\<rparr>)
       ((view_pair view_duration (view_pair view_blast view_giveup)) h (MCooldown m, MBlastRadius m, MGiveUpAfter m))"
definition reach_guards :: "'m cell heap \<Rightarrow> mem_guards \<Rightarrow> addr set" where
  "reach_guards h m = (reach_pair reach_duration (reach_pair reach_blast reach_giveup)) h (MCooldown m, MBlastRadius m, MGiveUpAfter m)"

lemma guards_copier: "deep_copier (view_guards :: 'm cell heap \<Rightarrow> _) reach_guards Guards_DeepCopyInto"
proof (rule deep_copier_struct [OF deep_copier_pair [OF duration_copier deep_copier_pair [OF blast_copier giveup_copier]]])
  show "view_guards h m = map_option ((\<lambda>m (c, b, g). \<lparr>GCooldown = c, GMaxPerHour = MMaxPerHour m, GBlastRadius = b, GGiveUpAfter = g\<rparr>) m)
       ((view_pair view_duration (view_pair view_blast view_giveup)) h ((\<lambda>m. (MCooldown m, MBlastRadius m, MGiveUpAfter m)) m))" for h :: "'m cell heap" and m
    by (simp add: view_guards_def)
  show "Guards_DeepCopyInto m h
      = (let (p, h) = (copy_pair copy_duration (copy_pair copy_blast copy_giveup)) ((\<lambda>m. (MCooldown m, MBlastRadius m, MGiveUpAfter m)) m) h
         in ((\<lambda>(c, b, g) m. m\<lparr>MCooldown := c, MBlastRadius := b, MGiveUpAfter := g\<rparr>) p m, h))" for m and h :: "'m cell heap"
    by (simp add: Guards_DeepCopyInto_def copy_pair_def Let_def split_beta)
qed (auto simp: reach_guards_def)

definition OnFailure_DeepCopyInto :: "mem_on_failure \<Rightarrow> 'm cell heap \<Rightarrow> mem_on_failure \<times> 'm cell heap" where
  "OnFailure_DeepCopyInto m h =
     (let (s, h) = copy_steps (MOFSteps m) h
      in (m\<lparr>MOFSteps := s\<rparr>, h))"

definition view_on_failure :: "'m cell heap \<Rightarrow> mem_on_failure \<Rightarrow> (on_failure) option" where
  "view_on_failure h m =
     map_option (\<lambda>s. \<lparr>OFRetries = MOFRetries m, OFSteps = or_nil s, OFMode = MOFMode m\<rparr>)
       (view_steps h (MOFSteps m))"
definition reach_on_failure :: "'m cell heap \<Rightarrow> mem_on_failure \<Rightarrow> addr set" where
  "reach_on_failure h m = reach_steps h (MOFSteps m)"

lemma on_failure_copier: "deep_copier (view_on_failure :: 'm cell heap \<Rightarrow> _) reach_on_failure OnFailure_DeepCopyInto"
proof (rule deep_copier_struct [OF steps_copier])
  show "view_on_failure h m = map_option ((\<lambda>m s. \<lparr>OFRetries = MOFRetries m, OFSteps = or_nil s, OFMode = MOFMode m\<rparr>) m)
       (view_steps h ((\<lambda>m. MOFSteps m) m))" for h :: "'m cell heap" and m
    by (simp add: view_on_failure_def)
  show "OnFailure_DeepCopyInto m h
      = (let (p, h) = copy_steps ((\<lambda>m. MOFSteps m) m) h
         in ((\<lambda>s m. m\<lparr>MOFSteps := s\<rparr>) p m, h))" for m and h :: "'m cell heap"
    by (simp add: OnFailure_DeepCopyInto_def copy_pair_def Let_def split_beta)
qed (auto simp: reach_on_failure_def)

definition Trigger_DeepCopyInto :: "mem_trigger \<Rightarrow> 'm cell heap \<Rightarrow> mem_trigger \<times> 'm cell heap" where
  "Trigger_DeepCopyInto m h =
     (let (w, h) = copy_map (MMatch m) h
      in (m\<lparr>MMatch := w\<rparr>, h))"

definition view_trigger :: "'m cell heap \<Rightarrow> mem_trigger \<Rightarrow> (trigger) option" where
  "view_trigger h m =
     map_option (\<lambda>w. \<lparr>Match = or_nil w\<rparr>)
       (view_map h (MMatch m))"
definition reach_trigger :: "'m cell heap \<Rightarrow> mem_trigger \<Rightarrow> addr set" where
  "reach_trigger h m = reach_map h (MMatch m)"

lemma trigger_copier: "deep_copier (view_trigger :: 'm cell heap \<Rightarrow> _) reach_trigger Trigger_DeepCopyInto"
proof (rule deep_copier_struct [OF map_copier])
  show "view_trigger h m = map_option ((\<lambda>m w. \<lparr>Match = or_nil w\<rparr>) m)
       (view_map h ((\<lambda>m. MMatch m) m))" for h :: "'m cell heap" and m
    by (simp add: view_trigger_def)
  show "Trigger_DeepCopyInto m h
      = (let (p, h) = copy_map ((\<lambda>m. MMatch m) m) h
         in ((\<lambda>w m. m\<lparr>MMatch := w\<rparr>) p m, h))" for m and h :: "'m cell heap"
    by (simp add: Trigger_DeepCopyInto_def copy_pair_def Let_def split_beta)
qed (auto simp: reach_trigger_def)

definition RemediationSpec_DeepCopyInto :: "mem_remediation_spec \<Rightarrow> 'm cell heap \<Rightarrow> mem_remediation_spec \<times> 'm cell heap" where
  "RemediationSpec_DeepCopyInto m h =
     (let (a, h) = AlertRef_DeepCopyInto (MAlert m) h;
          (s, h) = copy_steps (MSteps m) h;
          (e, h) = copy_steps (MEscalationSteps m) h;
          (d, h) = copy_time (MApprovalDeadline m) h;
          (p, h) = copy_approval (MApproval m) h
      in (m\<lparr>MAlert := a, MSteps := s, MEscalationSteps := e, MApprovalDeadline := d, MApproval := p\<rparr>, h))"

definition view_remediation_spec :: "'m cell heap \<Rightarrow> mem_remediation_spec \<Rightarrow> (remediation_spec) option" where
  "view_remediation_spec h m =
     map_option (\<lambda>(a, s, e, d, p). \<lparr>StrategyName = MStrategyName m, SpecTarget = MTarget m, SpecAlert = a, SpecSteps = or_nil s, Retries = MRetries m,
       EscalationSteps = or_nil e, EscalationMode = MEscalationMode m, SpecMode = MSpecMode m, ApprovalDeadline = d,
       Approval = p, DryRun = MDryRun m\<rparr>)
       ((view_pair view_alert (view_pair view_steps (view_pair view_steps (view_pair view_time view_approval)))) h (MAlert m, MSteps m, MEscalationSteps m, MApprovalDeadline m, MApproval m))"
definition reach_remediation_spec :: "'m cell heap \<Rightarrow> mem_remediation_spec \<Rightarrow> addr set" where
  "reach_remediation_spec h m = (reach_pair reach_alert (reach_pair reach_steps (reach_pair reach_steps (reach_pair reach_time reach_approval)))) h (MAlert m, MSteps m, MEscalationSteps m, MApprovalDeadline m, MApproval m)"

lemma remediation_spec_copier: "deep_copier (view_remediation_spec :: 'm cell heap \<Rightarrow> _) reach_remediation_spec RemediationSpec_DeepCopyInto"
proof (rule deep_copier_struct [OF deep_copier_pair [OF alert_copier deep_copier_pair [OF steps_copier deep_copier_pair [OF steps_copier deep_copier_pair [OF time_copier approval_copier]]]]])
  show "view_remediation_spec h m = map_option ((\<lambda>m (a, s, e, d, p). \<lparr>StrategyName = MStrategyName m, SpecTarget = MTarget m, SpecAlert = a, SpecSteps = or_nil s, Retries = MRetries m,
       EscalationSteps = or_nil e, EscalationMode = MEscalationMode m, SpecMode = MSpecMode m, ApprovalDeadline = d,
       Approval = p, DryRun = MDryRun m\<rparr>) m)
       ((view_pair view_alert (view_pair view_steps (view_pair view_steps (view_pair view_time view_approval)))) h ((\<lambda>m. (MAlert m, MSteps m, MEscalationSteps m, MApprovalDeadline m, MApproval m)) m))" for h :: "'m cell heap" and m
    by (simp add: view_remediation_spec_def)
  show "RemediationSpec_DeepCopyInto m h
      = (let (p, h) = (copy_pair AlertRef_DeepCopyInto (copy_pair copy_steps (copy_pair copy_steps (copy_pair copy_time copy_approval)))) ((\<lambda>m. (MAlert m, MSteps m, MEscalationSteps m, MApprovalDeadline m, MApproval m)) m) h
         in ((\<lambda>(a, s, e, d, p) m. m\<lparr>MAlert := a, MSteps := s, MEscalationSteps := e, MApprovalDeadline := d, MApproval := p\<rparr>) p m, h))" for m and h :: "'m cell heap"
    by (simp add: RemediationSpec_DeepCopyInto_def copy_pair_def Let_def split_beta)
qed (auto simp: reach_remediation_spec_def)

definition RemediationStatus_DeepCopyInto :: "mem_remediation_status \<Rightarrow> 'm cell heap \<Rightarrow> mem_remediation_status \<times> 'm cell heap" where
  "RemediationStatus_DeepCopyInto m h =
     (let (s, h) = copy_statuses (MStatusSteps m) h;
          (t, h) = copy_time (MStartedAt m) h;
          (u, h) = copy_time (MCompletedAt m) h;
          (e, h) = copy_escalation_ref (MEscalation m) h;
          (c, h) = copy_conditions (MRemConditions m) h
      in (m\<lparr>MStatusSteps := s, MStartedAt := t, MCompletedAt := u, MEscalation := e, MRemConditions := c\<rparr>, h))"

definition view_remediation_status :: "'m cell heap \<Rightarrow> mem_remediation_status \<Rightarrow> (remediation_status \<times> condition list) option" where
  "view_remediation_status h m =
     map_option (\<lambda>(s, t, u, e, c). (\<lparr>State = MState m, Attempt = MAttempt m, StatusSteps = or_nil s, Reason = MReason m, Message = MMessage m,
       StartedAt = t, CompletedAt = u, Escalation = e\<rparr>, or_nil c))
       ((view_pair view_statuses (view_pair view_time (view_pair view_time (view_pair view_escalation_ref view_conditions)))) h (MStatusSteps m, MStartedAt m, MCompletedAt m, MEscalation m, MRemConditions m))"
definition reach_remediation_status :: "'m cell heap \<Rightarrow> mem_remediation_status \<Rightarrow> addr set" where
  "reach_remediation_status h m = (reach_pair reach_statuses (reach_pair reach_time (reach_pair reach_time (reach_pair reach_escalation_ref reach_conditions)))) h (MStatusSteps m, MStartedAt m, MCompletedAt m, MEscalation m, MRemConditions m)"

lemma remediation_status_copier: "deep_copier (view_remediation_status :: 'm cell heap \<Rightarrow> _) reach_remediation_status RemediationStatus_DeepCopyInto"
proof (rule deep_copier_struct [OF deep_copier_pair [OF statuses_copier deep_copier_pair [OF time_copier deep_copier_pair [OF time_copier deep_copier_pair [OF escalation_ref_copier conditions_copier]]]]])
  show "view_remediation_status h m = map_option ((\<lambda>m (s, t, u, e, c). (\<lparr>State = MState m, Attempt = MAttempt m, StatusSteps = or_nil s, Reason = MReason m, Message = MMessage m,
       StartedAt = t, CompletedAt = u, Escalation = e\<rparr>, or_nil c)) m)
       ((view_pair view_statuses (view_pair view_time (view_pair view_time (view_pair view_escalation_ref view_conditions)))) h ((\<lambda>m. (MStatusSteps m, MStartedAt m, MCompletedAt m, MEscalation m, MRemConditions m)) m))" for h :: "'m cell heap" and m
    by (simp add: view_remediation_status_def)
  show "RemediationStatus_DeepCopyInto m h
      = (let (p, h) = (copy_pair copy_statuses (copy_pair copy_time (copy_pair copy_time (copy_pair copy_escalation_ref copy_conditions)))) ((\<lambda>m. (MStatusSteps m, MStartedAt m, MCompletedAt m, MEscalation m, MRemConditions m)) m) h
         in ((\<lambda>(s, t, u, e, c) m. m\<lparr>MStatusSteps := s, MStartedAt := t, MCompletedAt := u, MEscalation := e, MRemConditions := c\<rparr>) p m, h))" for m and h :: "'m cell heap"
    by (simp add: RemediationStatus_DeepCopyInto_def copy_pair_def Let_def split_beta)
qed (auto simp: reach_remediation_status_def)

definition RemediationStrategySpec_DeepCopyInto :: "mem_strategy_spec \<Rightarrow> 'm cell heap \<Rightarrow> mem_strategy_spec \<times> 'm cell heap" where
  "RemediationStrategySpec_DeepCopyInto m h =
     (let (b, h) = copy_bool (MEnabled m) h;
          (t, h) = Trigger_DeepCopyInto (MTrigger m) h;
          (x, h) = Execution_DeepCopyInto (MExecution m) h;
          (g, h) = Guards_DeepCopyInto (MGuards m) h;
          (s, h) = copy_steps (MStrategySteps m) h;
          (f, h) = OnFailure_DeepCopyInto (MOnFailure m) h
      in (m\<lparr>MEnabled := b, MTrigger := t, MExecution := x, MGuards := g, MStrategySteps := s, MOnFailure := f\<rparr>, h))"

definition view_strategy_spec :: "'m cell heap \<Rightarrow> mem_strategy_spec \<Rightarrow> (strategy_spec) option" where
  "view_strategy_spec h m =
     map_option (\<lambda>(b, t, x, g, s, f). \<lparr>Enabled = b, Trigger = t, Execution = x, Guards = g, StrategySteps = or_nil s, OnFailure = f\<rparr>)
       ((view_pair view_bool (view_pair view_trigger (view_pair view_execution (view_pair view_guards (view_pair view_steps view_on_failure))))) h (MEnabled m, MTrigger m, MExecution m, MGuards m, MStrategySteps m, MOnFailure m))"
definition reach_strategy_spec :: "'m cell heap \<Rightarrow> mem_strategy_spec \<Rightarrow> addr set" where
  "reach_strategy_spec h m = (reach_pair reach_bool (reach_pair reach_trigger (reach_pair reach_execution (reach_pair reach_guards (reach_pair reach_steps reach_on_failure))))) h (MEnabled m, MTrigger m, MExecution m, MGuards m, MStrategySteps m, MOnFailure m)"

lemma strategy_spec_copier: "deep_copier (view_strategy_spec :: 'm cell heap \<Rightarrow> _) reach_strategy_spec RemediationStrategySpec_DeepCopyInto"
proof (rule deep_copier_struct [OF deep_copier_pair [OF bool_copier deep_copier_pair [OF trigger_copier deep_copier_pair [OF execution_copier deep_copier_pair [OF guards_copier deep_copier_pair [OF steps_copier on_failure_copier]]]]]])
  show "view_strategy_spec h m = map_option ((\<lambda>m (b, t, x, g, s, f). \<lparr>Enabled = b, Trigger = t, Execution = x, Guards = g, StrategySteps = or_nil s, OnFailure = f\<rparr>) m)
       ((view_pair view_bool (view_pair view_trigger (view_pair view_execution (view_pair view_guards (view_pair view_steps view_on_failure))))) h ((\<lambda>m. (MEnabled m, MTrigger m, MExecution m, MGuards m, MStrategySteps m, MOnFailure m)) m))" for h :: "'m cell heap" and m
    by (simp add: view_strategy_spec_def)
  show "RemediationStrategySpec_DeepCopyInto m h
      = (let (p, h) = (copy_pair copy_bool (copy_pair Trigger_DeepCopyInto (copy_pair Execution_DeepCopyInto (copy_pair Guards_DeepCopyInto (copy_pair copy_steps OnFailure_DeepCopyInto))))) ((\<lambda>m. (MEnabled m, MTrigger m, MExecution m, MGuards m, MStrategySteps m, MOnFailure m)) m) h
         in ((\<lambda>(b, t, x, g, s, f) m. m\<lparr>MEnabled := b, MTrigger := t, MExecution := x, MGuards := g, MStrategySteps := s, MOnFailure := f\<rparr>) p m, h))" for m and h :: "'m cell heap"
    by (simp add: RemediationStrategySpec_DeepCopyInto_def copy_pair_def Let_def split_beta)
qed (auto simp: reach_strategy_spec_def)

definition RemediationStrategyStatus_DeepCopyInto :: "mem_strategy_status \<Rightarrow> 'm cell heap \<Rightarrow> mem_strategy_status \<times> 'm cell heap" where
  "RemediationStrategyStatus_DeepCopyInto m h =
     (let (c, h) = copy_conditions (MConditions m) h;
          (t, h) = copy_time (MLastExecutionTime m) h
      in (m\<lparr>MConditions := c, MLastExecutionTime := t\<rparr>, h))"

definition view_strategy_status :: "'m cell heap \<Rightarrow> mem_strategy_status \<Rightarrow> (strategy_status) option" where
  "view_strategy_status h m =
     map_option (\<lambda>(c, t). \<lparr>Conditions = or_nil c, LastExecutionTime = t, ExecutionCount = MExecutionCount m,
       ObservedGeneration = MObservedGeneration m\<rparr>)
       ((view_pair view_conditions view_time) h (MConditions m, MLastExecutionTime m))"
definition reach_strategy_status :: "'m cell heap \<Rightarrow> mem_strategy_status \<Rightarrow> addr set" where
  "reach_strategy_status h m = (reach_pair reach_conditions reach_time) h (MConditions m, MLastExecutionTime m)"

lemma strategy_status_copier: "deep_copier (view_strategy_status :: 'm cell heap \<Rightarrow> _) reach_strategy_status RemediationStrategyStatus_DeepCopyInto"
proof (rule deep_copier_struct [OF deep_copier_pair [OF conditions_copier time_copier]])
  show "view_strategy_status h m = map_option ((\<lambda>m (c, t). \<lparr>Conditions = or_nil c, LastExecutionTime = t, ExecutionCount = MExecutionCount m,
       ObservedGeneration = MObservedGeneration m\<rparr>) m)
       ((view_pair view_conditions view_time) h ((\<lambda>m. (MConditions m, MLastExecutionTime m)) m))" for h :: "'m cell heap" and m
    by (simp add: view_strategy_status_def)
  show "RemediationStrategyStatus_DeepCopyInto m h
      = (let (p, h) = (copy_pair copy_conditions copy_time) ((\<lambda>m. (MConditions m, MLastExecutionTime m)) m) h
         in ((\<lambda>(c, t) m. m\<lparr>MConditions := c, MLastExecutionTime := t\<rparr>) p m, h))" for m and h :: "'m cell heap"
    by (simp add: RemediationStrategyStatus_DeepCopyInto_def copy_pair_def Let_def split_beta)
qed (auto simp: reach_strategy_status_def)

definition Remediation_DeepCopyInto :: "('m \<Rightarrow> 'm cell heap \<Rightarrow> 'm \<times> 'm cell heap) \<Rightarrow> 'm mem_remediation \<Rightarrow> 'm cell heap \<Rightarrow> 'm mem_remediation \<times> 'm cell heap" where
  "Remediation_DeepCopyInto cm m h =
     (let (out, h) = cm (MObjectMeta m) h;
          (s, h) = RemediationSpec_DeepCopyInto (MSpec m) h;
          (t, h) = RemediationStatus_DeepCopyInto (MStatus m) h
      in (m\<lparr>MObjectMeta := out, MSpec := s, MStatus := t\<rparr>, h))"

definition view_remediation :: "('m cell heap \<Rightarrow> 'm \<Rightarrow> 'x option) \<Rightarrow> 'm cell heap \<Rightarrow> 'm mem_remediation \<Rightarrow> ((string \<times> string) \<times> 'x \<times> remediation_spec \<times> remediation_status \<times> condition list) option" where
  "view_remediation vm h m =
     map_option (\<lambda>(out, s, t). (MTypeMeta m, out, s, t))
       ((view_pair vm (view_pair view_remediation_spec view_remediation_status)) h (MObjectMeta m, MSpec m, MStatus m))"
definition reach_remediation :: "('m cell heap \<Rightarrow> 'm \<Rightarrow> addr set) \<Rightarrow> 'm cell heap \<Rightarrow> 'm mem_remediation \<Rightarrow> addr set" where
  "reach_remediation rm h m = (reach_pair rm (reach_pair reach_remediation_spec reach_remediation_status)) h (MObjectMeta m, MSpec m, MStatus m)"

lemma remediation_copier:
  fixes vm :: "'m cell heap \<Rightarrow> 'm \<Rightarrow> 'x option"
  assumes "deep_copier vm rm cm"
  shows "deep_copier (view_remediation vm) (reach_remediation rm) (Remediation_DeepCopyInto cm)"
proof (rule deep_copier_struct [OF deep_copier_pair [OF assms deep_copier_pair [OF remediation_spec_copier remediation_status_copier]]])
  show "view_remediation vm h m = map_option ((\<lambda>m (out, s, t). (MTypeMeta m, out, s, t)) m)
       ((view_pair vm (view_pair view_remediation_spec view_remediation_status)) h ((\<lambda>m. (MObjectMeta m, MSpec m, MStatus m)) m))" for h :: "'m cell heap" and m
    by (simp add: view_remediation_def)
  show "Remediation_DeepCopyInto cm m h
      = (let (p, h) = (copy_pair cm (copy_pair RemediationSpec_DeepCopyInto RemediationStatus_DeepCopyInto)) ((\<lambda>m. (MObjectMeta m, MSpec m, MStatus m)) m) h
         in ((\<lambda>(out, s, t) m. m\<lparr>MObjectMeta := out, MSpec := s, MStatus := t\<rparr>) p m, h))" for m and h :: "'m cell heap"
    by (simp add: Remediation_DeepCopyInto_def copy_pair_def Let_def split_beta)
qed (auto simp: reach_remediation_def)

definition RemediationStrategy_DeepCopyInto :: "('m \<Rightarrow> 'm cell heap \<Rightarrow> 'm \<times> 'm cell heap) \<Rightarrow> 'm mem_strategy \<Rightarrow> 'm cell heap \<Rightarrow> 'm mem_strategy \<times> 'm cell heap" where
  "RemediationStrategy_DeepCopyInto cm m h =
     (let (out, h) = cm (MStratObjectMeta m) h;
          (s, h) = RemediationStrategySpec_DeepCopyInto (MStratSpec m) h;
          (t, h) = RemediationStrategyStatus_DeepCopyInto (MStratStatus m) h
      in (m\<lparr>MStratObjectMeta := out, MStratSpec := s, MStratStatus := t\<rparr>, h))"

definition view_strategy :: "('m cell heap \<Rightarrow> 'm \<Rightarrow> 'x option) \<Rightarrow> 'm cell heap \<Rightarrow> 'm mem_strategy \<Rightarrow> ((string \<times> string) \<times> 'x \<times> strategy_spec \<times> strategy_status) option" where
  "view_strategy vm h m =
     map_option (\<lambda>(out, s, t). (MStratTypeMeta m, out, s, t))
       ((view_pair vm (view_pair view_strategy_spec view_strategy_status)) h (MStratObjectMeta m, MStratSpec m, MStratStatus m))"
definition reach_strategy :: "('m cell heap \<Rightarrow> 'm \<Rightarrow> addr set) \<Rightarrow> 'm cell heap \<Rightarrow> 'm mem_strategy \<Rightarrow> addr set" where
  "reach_strategy rm h m = (reach_pair rm (reach_pair reach_strategy_spec reach_strategy_status)) h (MStratObjectMeta m, MStratSpec m, MStratStatus m)"

lemma strategy_copier:
  fixes vm :: "'m cell heap \<Rightarrow> 'm \<Rightarrow> 'x option"
  assumes "deep_copier vm rm cm"
  shows "deep_copier (view_strategy vm) (reach_strategy rm) (RemediationStrategy_DeepCopyInto cm)"
proof (rule deep_copier_struct [OF deep_copier_pair [OF assms deep_copier_pair [OF strategy_spec_copier strategy_status_copier]]])
  show "view_strategy vm h m = map_option ((\<lambda>m (out, s, t). (MStratTypeMeta m, out, s, t)) m)
       ((view_pair vm (view_pair view_strategy_spec view_strategy_status)) h ((\<lambda>m. (MStratObjectMeta m, MStratSpec m, MStratStatus m)) m))" for h :: "'m cell heap" and m
    by (simp add: view_strategy_def)
  show "RemediationStrategy_DeepCopyInto cm m h
      = (let (p, h) = (copy_pair cm (copy_pair RemediationStrategySpec_DeepCopyInto RemediationStrategyStatus_DeepCopyInto)) ((\<lambda>m. (MStratObjectMeta m, MStratSpec m, MStratStatus m)) m) h
         in ((\<lambda>(out, s, t) m. m\<lparr>MStratObjectMeta := out, MStratSpec := s, MStratStatus := t\<rparr>) p m, h))" for m and h :: "'m cell heap"
    by (simp add: RemediationStrategy_DeepCopyInto_def copy_pair_def Let_def split_beta)
qed (auto simp: reach_strategy_def)

definition copy_remediations :: "('m \<Rightarrow> 'm cell heap \<Rightarrow> 'm \<times> 'm cell heap) \<Rightarrow> addr option \<Rightarrow> 'm cell heap \<Rightarrow> addr option \<times> 'm cell heap" where
  "copy_remediations cm = copy_ref RemediationArray remediations_in (copy_list (Remediation_DeepCopyInto cm))"

definition view_remediations :: "('m cell heap \<Rightarrow> 'm \<Rightarrow> 'x option) \<Rightarrow> 'm cell heap \<Rightarrow> addr option \<Rightarrow> (((string \<times> string) \<times> 'x \<times> remediation_spec \<times> remediation_status \<times> condition list) list) option option" where
  "view_remediations vm = view_ref remediations_in (view_list (view_remediation vm))"
definition reach_remediations :: "('m cell heap \<Rightarrow> 'm \<Rightarrow> addr set) \<Rightarrow> 'm cell heap \<Rightarrow> addr option \<Rightarrow> addr set" where
  "reach_remediations rm = reach_ref remediations_in (reach_list (reach_remediation rm))"

lemma remediations_copier:
  assumes "deep_copier vm rm cm"
  shows "deep_copier (view_remediations vm) (reach_remediations rm) (copy_remediations cm)"
  unfolding view_remediations_def reach_remediations_def copy_remediations_def by (intro deep_copier_ref deep_copier_list remediation_copier [OF assms]) simp

definition copy_strategies :: "('m \<Rightarrow> 'm cell heap \<Rightarrow> 'm \<times> 'm cell heap) \<Rightarrow> addr option \<Rightarrow> 'm cell heap \<Rightarrow> addr option \<times> 'm cell heap" where
  "copy_strategies cm = copy_ref StrategyArray strategies_in (copy_list (RemediationStrategy_DeepCopyInto cm))"

definition view_strategies :: "('m cell heap \<Rightarrow> 'm \<Rightarrow> 'x option) \<Rightarrow> 'm cell heap \<Rightarrow> addr option \<Rightarrow> (((string \<times> string) \<times> 'x \<times> strategy_spec \<times> strategy_status) list) option option" where
  "view_strategies vm = view_ref strategies_in (view_list (view_strategy vm))"
definition reach_strategies :: "('m cell heap \<Rightarrow> 'm \<Rightarrow> addr set) \<Rightarrow> 'm cell heap \<Rightarrow> addr option \<Rightarrow> addr set" where
  "reach_strategies rm = reach_ref strategies_in (reach_list (reach_strategy rm))"

lemma strategies_copier:
  assumes "deep_copier vm rm cm"
  shows "deep_copier (view_strategies vm) (reach_strategies rm) (copy_strategies cm)"
  unfolding view_strategies_def reach_strategies_def copy_strategies_def by (intro deep_copier_ref deep_copier_list strategy_copier [OF assms]) simp

text \<open>A list is its metadata, which the library copies, and its items.\<close>

definition RemediationList_DeepCopyInto ::
  "('m \<Rightarrow> 'm cell heap \<Rightarrow> 'm \<times> 'm cell heap) \<Rightarrow> ('l \<Rightarrow> 'm cell heap \<Rightarrow> 'l \<times> 'm cell heap)
     \<Rightarrow> ('m, 'l) mem_list \<Rightarrow> 'm cell heap \<Rightarrow> ('m, 'l) mem_list \<times> 'm cell heap" where
  "RemediationList_DeepCopyInto cm lm m h =
     (let (l, h) = lm (MListMeta m) h;
          (items, h) = copy_remediations cm (MItems m) h
      in (m\<lparr>MListMeta := l, MItems := items\<rparr>, h))"

definition RemediationStrategyList_DeepCopyInto ::
  "('m \<Rightarrow> 'm cell heap \<Rightarrow> 'm \<times> 'm cell heap) \<Rightarrow> ('l \<Rightarrow> 'm cell heap \<Rightarrow> 'l \<times> 'm cell heap)
     \<Rightarrow> ('m, 'l) mem_list \<Rightarrow> 'm cell heap \<Rightarrow> ('m, 'l) mem_list \<times> 'm cell heap" where
  "RemediationStrategyList_DeepCopyInto cm lm m h =
     (let (l, h) = lm (MListMeta m) h;
          (items, h) = copy_strategies cm (MItems m) h
      in (m\<lparr>MListMeta := l, MItems := items\<rparr>, h))"

text \<open>What a list stands for, with \<open>vi\<close> and \<open>ri\<close> the readings of its items.\<close>

definition view_list_object ::
  "('m cell heap \<Rightarrow> addr option \<Rightarrow> 'i list option option) \<Rightarrow> ('m cell heap \<Rightarrow> 'l \<Rightarrow> 'y option)
     \<Rightarrow> 'm cell heap \<Rightarrow> ('m, 'l) mem_list \<Rightarrow> ((string \<times> string) \<times> 'y \<times> 'i list) option" where
  "view_list_object vi vl h m =
     map_option (\<lambda>(l, items). (MListTypeMeta m, l, or_nil items)) (view_pair vl vi h (MListMeta m, MItems m))"
definition reach_list_object ::
  "('m cell heap \<Rightarrow> addr option \<Rightarrow> addr set) \<Rightarrow> ('m cell heap \<Rightarrow> 'l \<Rightarrow> addr set)
     \<Rightarrow> 'm cell heap \<Rightarrow> ('m, 'l) mem_list \<Rightarrow> addr set" where
  "reach_list_object ri rl h m = reach_pair rl ri h (MListMeta m, MItems m)"

lemma list_object_copier:
  fixes vl :: "'m cell heap \<Rightarrow> 'l \<Rightarrow> 'y option"
  assumes "deep_copier vl rl lm" and "deep_copier vi ri ci"
    and "\<And>m h. into m h = (let (l, h) = lm (MListMeta m) h; (items, h) = ci (MItems m) h in (m\<lparr>MListMeta := l, MItems := items\<rparr>, h))"
  shows "deep_copier (view_list_object vi vl) (reach_list_object ri rl) into"
proof (rule deep_copier_struct [OF deep_copier_pair [OF assms(1,2)]])
  show "view_list_object vi vl h m = map_option ((\<lambda>m (l, items). (MListTypeMeta m, l, or_nil items)) m)
      (view_pair vl vi h ((\<lambda>m. (MListMeta m, MItems m)) m))" for h :: "'m cell heap" and m
    by (simp add: view_list_object_def)
  show "into m h = (let (p, h) = copy_pair lm ci ((\<lambda>m. (MListMeta m, MItems m)) m) h
      in ((\<lambda>(l, items) m. m\<lparr>MListMeta := l, MItems := items\<rparr>) p m, h))" for m and h :: "'m cell heap"
    by (simp add: assms(3) copy_pair_def Let_def split_beta)
qed (auto simp: reach_list_object_def)

lemma remediation_list_copier:
  assumes "deep_copier vm rm cm" and "deep_copier vl rl lm"
  shows "deep_copier (view_list_object (view_remediations vm) vl) (reach_list_object (reach_remediations rm) rl)
    (RemediationList_DeepCopyInto cm lm)"
  by (rule list_object_copier [OF assms(2) remediations_copier [OF assms(1)]]) (simp add: RemediationList_DeepCopyInto_def)

lemma strategy_list_copier:
  assumes "deep_copier vm rm cm" and "deep_copier vl rl lm"
  shows "deep_copier (view_list_object (view_strategies vm) vl) (reach_list_object (reach_strategies rm) rl)
    (RemediationStrategyList_DeepCopyInto cm lm)"
  by (rule list_object_copier [OF assms(2) strategies_copier [OF assms(1)]]) (simp add: RemediationStrategyList_DeepCopyInto_def)

section \<open>Structs without references\<close>

definition Approval_DeepCopyInto :: "approval \<Rightarrow> 'm cell heap \<Rightarrow> approval \<times> 'm cell heap" where
  "Approval_DeepCopyInto v h = (v, h)"
definition BlastRadius_DeepCopyInto :: "blast_radius_spec \<Rightarrow> 'm cell heap \<Rightarrow> blast_radius_spec \<times> 'm cell heap" where
  "BlastRadius_DeepCopyInto v h = (v, h)"
definition GiveUpAfter_DeepCopyInto :: "give_up_after \<Rightarrow> 'm cell heap \<Rightarrow> give_up_after \<times> 'm cell heap" where
  "GiveUpAfter_DeepCopyInto v h = (v\<lparr>GUWithin := GUWithin v\<rparr>, h)"

section \<open>DeepCopy\<close>

text \<open>
  A nil receiver gives nil; otherwise a new object is filled by \<open>DeepCopyInto\<close>. The object belongs to the caller,
  and stands here for its contents. \<open>DeepCopyObject\<close> is the same behind an interface.
\<close>

definition DeepCopy_by :: "('a \<Rightarrow> 'c heap \<Rightarrow> 'a \<times> 'c heap) \<Rightarrow> 'a option \<Rightarrow> 'c heap \<Rightarrow> 'a option \<times> 'c heap" where
  "DeepCopy_by into v h = (case v of None \<Rightarrow> (None, h) | Some m \<Rightarrow> (let (out, h) = into m h in (Some out, h)))"

definition AlertRef_DeepCopy where "AlertRef_DeepCopy = DeepCopy_by AlertRef_DeepCopyInto"
definition Approval_DeepCopy where "Approval_DeepCopy = DeepCopy_by Approval_DeepCopyInto"
definition BlastRadius_DeepCopy where "BlastRadius_DeepCopy = DeepCopy_by BlastRadius_DeepCopyInto"
definition EscalationStatus_DeepCopy where "EscalationStatus_DeepCopy = DeepCopy_by EscalationStatus_DeepCopyInto"
definition Execution_DeepCopy where "Execution_DeepCopy = DeepCopy_by Execution_DeepCopyInto"
definition GiveUpAfter_DeepCopy where "GiveUpAfter_DeepCopy = DeepCopy_by GiveUpAfter_DeepCopyInto"
definition Guards_DeepCopy where "Guards_DeepCopy = DeepCopy_by Guards_DeepCopyInto"
definition OnFailure_DeepCopy where "OnFailure_DeepCopy = DeepCopy_by OnFailure_DeepCopyInto"
definition Remediation_DeepCopy where "Remediation_DeepCopy cm = DeepCopy_by (Remediation_DeepCopyInto cm)"
definition RemediationList_DeepCopy where "RemediationList_DeepCopy cm lm = DeepCopy_by (RemediationList_DeepCopyInto cm lm)"
definition RemediationSpec_DeepCopy where "RemediationSpec_DeepCopy = DeepCopy_by RemediationSpec_DeepCopyInto"
definition RemediationStatus_DeepCopy where "RemediationStatus_DeepCopy = DeepCopy_by RemediationStatus_DeepCopyInto"
definition RemediationStrategy_DeepCopy where "RemediationStrategy_DeepCopy cm = DeepCopy_by (RemediationStrategy_DeepCopyInto cm)"
definition RemediationStrategyList_DeepCopy where
  "RemediationStrategyList_DeepCopy cm lm = DeepCopy_by (RemediationStrategyList_DeepCopyInto cm lm)"
definition RemediationStrategySpec_DeepCopy where "RemediationStrategySpec_DeepCopy = DeepCopy_by RemediationStrategySpec_DeepCopyInto"
definition RemediationStrategyStatus_DeepCopy where
  "RemediationStrategyStatus_DeepCopy = DeepCopy_by RemediationStrategyStatus_DeepCopyInto"
definition Step_DeepCopy where "Step_DeepCopy = DeepCopy_by Step_DeepCopyInto"
definition StepStatus_DeepCopy where "StepStatus_DeepCopy = DeepCopy_by StepStatus_DeepCopyInto"
definition Trigger_DeepCopy where "Trigger_DeepCopy = DeepCopy_by Trigger_DeepCopyInto"

definition Remediation_DeepCopyObject where
  "Remediation_DeepCopyObject cm m h = (let (c, h) = Remediation_DeepCopy cm m h in (if c \<noteq> None then c else None, h))"
definition RemediationList_DeepCopyObject where
  "RemediationList_DeepCopyObject cm lm m h = (let (c, h) = RemediationList_DeepCopy cm lm m h in (if c \<noteq> None then c else None, h))"
definition RemediationStrategy_DeepCopyObject where
  "RemediationStrategy_DeepCopyObject cm m h = (let (c, h) = RemediationStrategy_DeepCopy cm m h in (if c \<noteq> None then c else None, h))"
definition RemediationStrategyList_DeepCopyObject where
  "RemediationStrategyList_DeepCopyObject cm lm m h =
     (let (c, h) = RemediationStrategyList_DeepCopy cm lm m h in (if c \<noteq> None then c else None, h))"

section \<open>The contract holds of every type\<close>

interpretation mem_step: deep_copier view_step reach_step Step_DeepCopyInto by (rule step_copier)
interpretation mem_step_status: deep_copier view_step_status reach_step_status StepStatus_DeepCopyInto by (rule step_status_copier)
interpretation mem_alert: deep_copier view_alert reach_alert AlertRef_DeepCopyInto by (rule alert_copier)
interpretation mem_spec: deep_copier view_remediation_spec reach_remediation_spec RemediationSpec_DeepCopyInto by (rule remediation_spec_copier)
interpretation mem_status: deep_copier view_remediation_status reach_remediation_status RemediationStatus_DeepCopyInto
  by (rule remediation_status_copier)
interpretation mem_strategy_spec: deep_copier view_strategy_spec reach_strategy_spec RemediationStrategySpec_DeepCopyInto
  by (rule strategy_spec_copier)
interpretation mem_strategy_status: deep_copier view_strategy_status reach_strategy_status RemediationStrategyStatus_DeepCopyInto
  by (rule strategy_status_copier)

text \<open>Metadata with two string maps, labels and annotations, is an instance of the library's contract.\<close>

definition view_two_maps :: "'m cell heap \<Rightarrow> addr option \<times> addr option \<Rightarrow> (smap option \<times> smap option) option" where
  "view_two_maps = view_pair view_map view_map"
definition reach_two_maps :: "'m cell heap \<Rightarrow> addr option \<times> addr option \<Rightarrow> addr set" where
  "reach_two_maps = reach_pair reach_map reach_map"
definition copy_two_maps :: "addr option \<times> addr option \<Rightarrow> 'm cell heap \<Rightarrow> (addr option \<times> addr option) \<times> 'm cell heap" where
  "copy_two_maps = copy_pair copy_map copy_map"

lemma two_maps_copier: "deep_copier view_two_maps reach_two_maps copy_two_maps"
  unfolding view_two_maps_def reach_two_maps_def copy_two_maps_def by (rule deep_copier_pair [OF map_copier map_copier])

interpretation mem_remediation: deep_copier "view_remediation view_two_maps" "reach_remediation reach_two_maps"
  "Remediation_DeepCopyInto copy_two_maps"
  by (rule remediation_copier [OF two_maps_copier])

section \<open>Deep copies share nothing\<close>

text \<open>C38: A deep copy reads as the original and shares nothing with it. Whatever the metadata's own copier is, if it
  is deep, the generated copy of a list of remediations stands for the same list; the cells it
  reaches are none of the original's; and no assignment through the original shows in the copy, nor one
  through the copy in the original.\<close>

theorem deep_copies_share_nothing:
  assumes "deep_copier vm rm cm" and "deep_copier vl rl lm" and "heap_ok h"
    and "view_list_object (view_remediations vm) vl h m = Some x"
    and "RemediationList_DeepCopyInto cm lm m h = (m', h')"
    and "fst ` set ws \<subseteq> reach_list_object (reach_remediations rm) rl h' m"
    and "fst ` set ws' \<subseteq> reach_list_object (reach_remediations rm) rl h' m'"
  shows "view_list_object (view_remediations vm) vl h' m' = Some x
    \<and> reach_list_object (reach_remediations rm) rl h' m \<inter> reach_list_object (reach_remediations rm) rl h' m' = {}
    \<and> view_list_object (view_remediations vm) vl (stores ws h') m' = Some x
    \<and> view_list_object (view_remediations vm) vl (stores ws' h') m = Some x"
proof -
  note C = remediation_list_copier [OF assms(1,2)]
  note I = deep_copier.independent [OF C assms(4,3,5)]
  have "fst ` set ws \<inter> reach_list_object (reach_remediations rm) rl h' m' = {}"
    and "fst ` set ws' \<inter> reach_list_object (reach_remediations rm) rl h' m = {}"
    using I(1) assms(6,7) by blast+
  then show ?thesis using I deep_copier.copied [OF C assms(4,3,5)] by blast
qed

text \<open>One record with a label on its alert; the original's label is then removed.\<close>

definition ex_mem_remediation :: "(addr option \<times> addr option) mem_remediation" where
  "ex_mem_remediation = \<lparr>MTypeMeta = ('''', ''''), MObjectMeta = (None, None),
     MSpec = \<lparr>MStrategyName = ''restart'', MTarget = '''', MAlert = \<lparr>MFingerprint = ''f'', MAlertName = ''Down'', MLabels = Some 0, MStartsAt = None\<rparr>,
       MSteps = None, MRetries = 0, MEscalationSteps = None, MEscalationMode = EscalationModeAll, MSpecMode = ExecutionModeAuto,
       MApprovalDeadline = None, MApproval = None, MDryRun = False\<rparr>,
     MStatus = \<lparr>MState = RemediationStatePending, MAttempt = 0, MStatusSteps = None, MReason = '''', MMessage = '''', MStartedAt = None,
       MCompletedAt = None, MEscalation = None, MRemConditions = None\<rparr>\<rparr>"

definition ex_mem_heap :: "(addr option \<times> addr option) cell heap" where
  "ex_mem_heap = \<lparr>HeapCells = (\<lambda>a. if a = 0 then Some (StringMap [(''team'', ''web'')])
     else if a = 1 then Some (RemediationArray [ex_mem_remediation]) else None), HeapNext = 2\<rparr>"

definition ex_mem_list :: "(addr option \<times> addr option, unit) mem_list" where
  "ex_mem_list = \<lparr>MListTypeMeta = ('''', ''''), MListMeta = (), MItems = Some 1\<rparr>"

abbreviation "ex_mem_view \<equiv> view_list_object (view_remediations view_two_maps) (\<lambda>h (v::unit). Some v)"
abbreviation "ex_mem_reach \<equiv> reach_list_object (reach_remediations reach_two_maps) (\<lambda>h (v::unit). {})"
abbreviation "ex_mem_copy \<equiv> RemediationList_DeepCopyInto copy_two_maps (\<lambda>(v::unit) h. (v, h))"

lemma ex_mem_facts:
  "heap_ok ex_mem_heap" "ex_mem_view ex_mem_heap ex_mem_list \<noteq> None"
  "0 \<in> ex_mem_reach (snd (ex_mem_copy ex_mem_list ex_mem_heap)) ex_mem_list"
  "ex_mem_view (stores [(0, StringMap [])] (snd (ex_mem_copy ex_mem_list ex_mem_heap))) ex_mem_list
     \<noteq> ex_mem_view ex_mem_heap ex_mem_list"
proof -
  show "heap_ok ex_mem_heap" by (simp add: heap_ok_def ex_mem_heap_def)
  show "ex_mem_view ex_mem_heap ex_mem_list \<noteq> None" by code_simp
  show "0 \<in> ex_mem_reach (snd (ex_mem_copy ex_mem_list ex_mem_heap)) ex_mem_list" by code_simp
  show "ex_mem_view (stores [(0, StringMap [])] (snd (ex_mem_copy ex_mem_list ex_mem_heap))) ex_mem_list
     \<noteq> ex_mem_view ex_mem_heap ex_mem_list" by code_simp
qed

theorem deep_copies_share_nothing_witness:
  "\<exists>m' h'. ex_mem_copy ex_mem_list ex_mem_heap = (m', h')
    \<and> ex_mem_view (stores [(0, StringMap [])] h') m' = ex_mem_view ex_mem_heap ex_mem_list
    \<and> ex_mem_view (stores [(0, StringMap [])] h') ex_mem_list \<noteq> ex_mem_view ex_mem_heap ex_mem_list"
proof -
  obtain m' h' where c: "ex_mem_copy ex_mem_list ex_mem_heap = (m', h')" by fastforce
  obtain x where x: "ex_mem_view ex_mem_heap ex_mem_list = Some x" using ex_mem_facts(2) by blast
  have w: "fst ` set [(0, StringMap [])] \<subseteq> ex_mem_reach h' ex_mem_list" using ex_mem_facts(3) c by simp
  have w': "fst ` set [] \<subseteq> ex_mem_reach h' m'" by simp
  from deep_copies_share_nothing [OF two_maps_copier deep_copier_plain ex_mem_facts(1) x c w w']
  show ?thesis using c x ex_mem_facts(4) by auto
qed

end
