(* ===== verification/Spec2Isabelle.thy ===== *)
theory Spec2Isabelle
  imports EngineProperties ComponentProperties ActionProperties DashProperties ProcessProperties DashAssets DeepCopy
begin

text \<open>
  Verification of remedik, a Kubernetes operator that answers Prometheus alerts with remediations.

  \<^bold>\<open>The program.\<close> Alertmanager posts alerts to a gateway (\<open>internal/gateway\<close>), which authenticates the
  request, parses the payload (\<open>internal/alert\<close>) and hands the alerts to the engine's sink
  (\<open>internal/engine/sink.go\<close>). The sink selects a \<open>RemediationStrategy\<close> (\<open>internal/matching\<close>), asks the
  guards for leave (\<open>internal/guards\<close>) and creates a \<open>Remediation\<close> record. The reconciler
  (\<open>internal/engine/controller.go\<close>, \<open>approval.go\<close>, \<open>escalation.go\<close>) takes the record through its states:
  it waits for an approval if one is wanted, runs the steps (\<open>steps.go\<close>) through the registered
  actions (\<open>internal/action\<close>), retries with a backoff, escalates a failure, and prunes old records. Around it: the
  posture and the pause switch decide where remedik may act, the history is rebuilt from the
  records at startup (\<open>history.go\<close>), a sweeper deletes old records (\<open>sweeper.go\<close>), a controller
  keeps the strategies' status (\<open>strategy.go\<close>), a snapshot counts for the metrics (\<open>snapshot.go\<close>).
  \<open>cmd/remedik/main.go\<close> parses the flags and wires all of it; \<open>internal/metrics\<close> reports it to Prometheus and
  \<open>internal/dashboard\<close> shows the records.

  \<^bold>\<open>The theories\<close>, in the order of their dependencies:
  \<^item> \<open>Prelude\<close>, \<open>GoLib\<close>, \<open>GoText\<close>: Go values as HOL values, errors with their text and wrapping, maps,
    sorting by a comparison, 32- and 64-bit wrap-around, and what is used of \<open>strings\<close>, \<open>strconv\<close>, \<open>fmt\<close>,
    \<open>time\<close> and \<open>encoding/json\<close>.
  \<^item> \<open>Types\<close>: the custom resources (\<open>api/v1alpha1\<close>).
  \<^item> \<open>Alert\<close>, \<open>Matching\<close>, \<open>Guards\<close>, \<open>MemoryHistory\<close>, \<open>BlastRadius\<close>: one per file of the packages named
    above. The guards use the history through the locale \<open>guard_history\<close>, and the blast radius guard the cluster
    through \<open>workload_reader\<close>; both are interpreted on the code's own providers.
  \<^item> \<open>Action\<close>: targets, parameters, results, the registry and the verification deadline
    (\<open>internal/action/action.go\<close>). An action is a record of functions over a world.
  \<^item> \<open>Engine\<close>: the state of the engine (world, guard history, ghost trace) and the calls that leave it.
  \<^item> \<open>Steps\<close>, \<open>Posture\<close>, \<open>Escalation\<close>, \<open>Controller\<close>, \<open>Reconcile\<close>, \<open>Workload\<close>, \<open>Sink\<close>, \<open>Sweeper\<close>,
    \<open>HistoryLoader\<close>, \<open>Snapshot\<close>, \<open>StrategyController\<close>: the files of \<open>internal/engine\<close>; \<open>Gateway\<close>: the
    receiver, against the locale \<open>alert_sink\<close>, interpreted on the engine's sink.
  \<^item> \<open>Lifecycle\<close>: the state machine that the comment on the reconciler draws, as a step relation, and
    what a pass may do, as an inductive specification (\<open>pass\<close>) that \<open>Reconcile\<close> refines.
  \<^item> \<open>Verbs\<close>: what the built-in actions share: the requests that change something, the polling loop
    of every \<open>Verify\<close>, and the contracts \<open>planned_action\<close> and \<open>predictable_action\<close>, interpreted on every action.
  \<^item> \<open>Restart\<close>, \<open>Scale\<close>, \<open>PodDelete\<close>, \<open>Rollback\<close> (\<open>internal/action/workload\<close>), \<open>Node\<close>, \<open>Drain\<close>, \<open>Pvc\<close>
    (\<open>internal/action/node\<close>), \<open>Webhook\<close>, \<open>JobRun\<close> (\<open>internal/action/external\<close>): the fourteen actions.
  \<^item> \<open>Catalogue\<close>, \<open>DryRun\<close>, \<open>Command\<close>: the registry of the built-in actions, a whole pass over a dry run,
    and the wiring, flags and process of \<open>cmd/remedik/main.go\<close>.
  \<^item> \<open>GoFloat\<close>, \<open>DashText\<close>, \<open>DashPosture\<close>, \<open>DashFilter\<close>, \<open>DashList\<close>, \<open>DashOverview\<close>, \<open>DashNamespaces\<close>, \<open>DashDetail\<close>,
    \<open>DashHandler\<close>: the files of \<open>internal/dashboard\<close>, from the words and percentages (\<open>format.go\<close>,
    \<open>formatting.go\<close>, in \<open>float64\<close>) over filters, orders and query strings (\<open>filter.go\<close>, \<open>sort.go\<close>), the list
    (\<open>remediations.go\<close>), the front page (\<open>overview.go\<close>, \<open>impact.go\<close>), namespaces and strategies, one record and
    the queue (\<open>remediation.go\<close>, \<open>timeline.go\<close>, \<open>explain.go\<close>, \<open>links.go\<close>, \<open>approvals.go\<close>) to the handler
    (\<open>dashboard.go\<close>, \<open>palette.go\<close>) and the embedded files it serves (\<open>DashAssets\<close>, \<open>assets.go\<close>). \<open>DashFigures\<close> and
    \<open>DashLinks\<close> hold what the properties need of them.
  \<^item> \<open>Metrics\<close>, \<open>Boot\<close>: the Prometheus adapter and the posture's metrics (\<open>internal/metrics\<close>), the version string, and
    \<open>main\<close> and \<open>run\<close> from end to end: the order of the set-up, its failures, and what the manager is given to run.
  \<^item> \<open>GoHeap\<close>, \<open>DeepCopy\<close>: a heap of maps, slices and pointers, the locale \<open>deep_copier\<close>, and the generated deep copies of
    the resources (\<open>zz_generated.deepcopy.go\<close>), each shown to meet it.
  \<^item> \<open>Examples\<close>, \<open>EngineProperties\<close>, \<open>ComponentProperties\<close>, \<open>ActionProperties\<close>, \<open>DashProperties\<close>, \<open>ProcessProperties\<close> and this
    theory: the properties, each with an instance at a concrete input.

  \<^bold>\<open>How the code is modelled.\<close> Operations are functions from a state to a result and a state, with the
  guards and early returns of the code as branches. A Go error is a value with its text and its
  wrapped chain; a fallible function answers \<open>Inl\<close> the error. Times and durations are integers of
  nanoseconds; where the code's 64- or 32-bit arithmetic can wrap, the wrap is written out. A Go map
  is an association list: its order stands for the iteration order, which is arbitrary, so what is
  proved holds for each. \<open>sort.Slice\<close> is a stable sort, which is one of the orders it may give. A
  context is the list of the timeouts set on it; the empty list is a context without a deadline.
  The ghost trace records every call of an action, of the API server and of the history, and is read
  by no operation; the built-in actions in turn list every request they send that changes
  something, so that "nothing was changed" can be stated.

  \<^bold>\<open>Parameters.\<close> The API server, the clients of the actions, the clock, the metrics and the events are
  records of functions over the world, without restriction unless a property names one (such as
  \<open>status_echo\<close>, that a status update answers with the record that was written). So are \<open>time.ParseDuration\<close>, the decoding of
  JSON, the error of \<open>url.Parse\<close>, the quantities of the API machinery and the REST mapper. Strings are
  lists of characters; case mapping is that of ASCII. Of the dashboard the parameters are the API reader, the
  templates (a function of what a page is given), the embedded files, the zone of the clock and the clock, by
  the readings one request makes; the pause switch is read once per request, and a request path has no
  percent escapes. \<open>url.Values\<close>, \<open>http.ServeMux\<close>, base 64 and \<open>float64\<close> are written out. The Prometheus client is
  not modelled: what is reported is the sequence of the calls made of it, and a counter is read off them as the sum of
  what was added, a gauge as what was set last. SHA-256, whether a call of the manager or of a client's
  constructor fails, and the deep copy of the metadata of the API machinery are parameters as well.

  \<^bold>\<open>Concurrency.\<close> Each operation is atomic: the mutexes of the code make it so for the history and the
  pause. Interleaving is modelled where the code is about it: passes over a record in any order
  (\<open>Lifecycle\<close>), and requests, the lease, prunes and signals of the process in any order (\<open>Command\<close>).

  \<^bold>\<open>Loops.\<close> All loops are recursive functions that terminate, but one. The polling loop counts the time
  it waits, not the time its reads take, so it looks at least as often as the code. The eviction loop
  of a drain ends only at its context's deadline, so it is a partial function whose value is \<open>None\<close>
  when it does not end; it is proved to end with a deadline and not to end without one against a
  budget that always refuses.

  \<^bold>\<open>What is shown.\<close> Of the engine: a record is written Running before anything runs, attempts are
  bounded, an interrupted execution is never resumed, a dry run never acts, nothing but the
  escalation runs without leave, and the reconciler refines both the specification of a pass and the
  documented state machine. Of the sink and the guards: a record needs leave, the hourly limit
  holds, queries of the history are exact, the history survives a restart, and retention spares what
  the guards need. Of the actions: planning and verifying only read, what planning refuses executing refuses,
  and each action sends only what it was asked for: scaling and growing stay below their ceilings, a rollback goes
  back, a drain evicts only what it may, a Job never runs as the operator, a credential is not recorded.
  Of the command: the registry holds what was asked for, a dry run of the wired operator touches
  nothing, and no alert is acted on before the guards know the past. Of the dashboard: nothing is read
  without the token; a link leads to the view it was drawn from, a choice and a figure to the number they
  show; pages and panels count every record once and do not depend on the order of the server's answer; a
  configured link keeps its scheme whatever a record says; and where the pages speak of the engine, of what it
  may do in a namespace and of which approvals have run out, they say what the engine does. Of the metrics:
  every firing alert is counted once, every recorded end with its outcome, a scrape shows the present or nothing, and the
  posture the sink applies can be read off the posture's series. Of the process: nothing runs before everything is
  registered, and only the leader acts. Of the deep copies: they read as the original and share nothing with it.

  \<^bold>\<open>Not modelled.\<close> Of the dashboard: the HTML templates, the
  recovery from a panic, the read timeout, the pool of buffers, and conditional and range requests for static files; its
  one-line tests for an empty list are the templates'. Then what is logged, the help texts of flags and metrics, the development tools under \<open>hack\<close>
  and \<open>test\<close>, and what \<open>cmd/remedik/main.go\<close> only calls: the \<open>flag\<close> package's parsing and printing, sockets, and the
  controller manager, of which the order of starts and stops is modelled. Outside \<open>DeepCopy\<close> values are never
  shared, as HOL's are not.
\<close>

section \<open>The sink\<close>

lemma quiet_consumed: "consumed sk rules byName a s err h' es \<Longrightarrow> quiet es"
  by (induction rule: consumed.induct) (auto simp: action_call_def quiet_events)

lemma consumeOne_consumed:
  "\<exists>es. Trace (snd (consumeOne sk rules byName a s)) = Trace s @ es
    \<and> consumed sk rules byName a s (fst (consumeOne sk rules byName a s)) (History (snd (consumeOne sk rules byName a s))) es"
  using consumeOneD [of sk rules byName a s "fst (consumeOne sk rules byName a s)" "snd (consumeOne sk rules byName a s)"] by simp

lemma consumed_from:
  assumes "Trace (snd (consumeOne sk rules byName a s)) = Trace s @ es"
  shows "consumed sk rules byName a s (fst (consumeOne sk rules byName a s)) (History (snd (consumeOne sk rules byName a s))) es"
  using consumeOne_consumed [of sk rules byName a s] assms by auto

text \<open>The sink never acts, and makes at most one record of an alert: processing an alert calls no
  action, and creates one record at most if the alert is firing and none if it is resolved.\<close>

theorem an_alert_makes_at_most_one_record:
  "\<exists>es. Trace (snd (consumeOne sk rules byName a s)) = Trace s @ es \<and> quiet es
    \<and> length (creates es) \<le> (if IsFiring a then 1 else 0)"
  using consumeOne_consumed [of sk rules byName a s] quiet_consumed consumed_creates by blast

text \<open>C4: A record is made only with leave. If processing an alert calls the server to create a record,
  a rule was selected for it whose strategy is not manual, and either every guard allowed and the
  record carries the strategy's plan, retries and escalation with the posture in force, or the
  guards concluded giveUpAfter and the record is the give-up record, which has no steps.\<close>

theorem a_record_needs_leave:
  assumes "Trace (snd (consumeOne sk rules byName a s)) = Trace s @ es" and "CreateCall rem ok \<in> set es"
  shows "\<exists>rule st. selected rules byName a rule st \<and> \<not> is_manual st
    \<and> (Allowed (guards_decide sk a rule st s)
        \<and> created_record sk a st (fst (resolveTarget sk a st)) (is_paused sk (snd (read_clock (SNow sk) s))) rem
      \<or> Guard (guards_decide sk a rule st s) = GuardGiveUp
        \<and> rem = give_up_record sk a st (fst (resolveTarget sk a st)) (guards_decide sk a rule st s))"
  using consumed_from [OF assms(1)] assms(2)
proof (cases rule: consumed.cases)
  case (manual rule st ev)
  then show ?thesis using assms(2) by (auto simp: list_all_iff is_event_def)
next
  case (refused rule st d ev)
  then show ?thesis using assms(2) by (auto simp: list_all_iff is_event_def)
next
  case (gave_up rule st d ev rem' ok')
  then have "rem = rem'" using assms(2) by (auto simp: list_all_iff is_event_def)
  then show ?thesis using gave_up by blast
qed auto

definition ex_created :: remediation where
  "ex_created = new_record (ex_sink None) ex_alert ex_strategy ex_target False"

lemma ex_consumed: "Trace (snd (consumeOne (ex_sink None) [rule_of ex_strategy] [(''restart'', ex_strategy)] ex_alert (ex_state ex_new)))
   = Trace (ex_state ex_new) @ [CreateCall ex_created True, StartRecorded ''restart'' 50, StartCounted ''restart'']"
  by code_simp

lemma ex_selected: "selected [rule_of ex_strategy] [(''restart'', ex_strategy)] ex_alert (rule_of ex_strategy) ex_strategy"
proof -
  have "Select ex_alert [rule_of ex_strategy] = Some (rule_of ex_strategy)" by code_simp
  then show ?thesis by (simp add: selected_def IsFiring_def ex_alert_def rule_of_def) (simp add: ex_strategy_def)
qed

theorem a_record_needs_leave_witness:
  "\<exists>rule st. selected [rule_of ex_strategy] [(''restart'', ex_strategy)] ex_alert rule st \<and> \<not> is_manual st"
  using a_record_needs_leave [OF ex_consumed, of ex_created True] by auto



section \<open>From the alert to the action\<close>

definition no_execution :: "effect list \<Rightarrow> bool" where
  "no_execution es \<longleftrightarrow> list_all (\<lambda>e. \<forall>c n req. e \<noteq> ExecuteCall c n req \<and> e \<noteq> VerifyCall c n req) es"

lemma no_execution_simps [simp]: "no_execution []" "no_execution (es @ es') \<longleftrightarrow> no_execution es \<and> no_execution es'"
  "no_execution (StatusWrite rem ok # es) \<longleftrightarrow> no_execution es"
  by (auto simp: no_execution_def)

lemma no_execution_quiet: "quiet es \<Longrightarrow> no_execution es"
  by (auto simp: no_execution_def quiet_def action_call_def list_all_iff)

lemma no_execution_plans: "list_all is_plan_call es \<Longrightarrow> no_execution es"
  by (auto simp: no_execution_def is_plan_call_def list_all_iff)

lemma concluded_calls:
  assumes "concluded a rem1 res out h h' es"
  shows "\<exists>es1 es2. es = es1 @ es2 \<and> escalation_calls es1 \<and> quiet es2"
proof -
  have none: "escalation_calls []" by (auto simp: escalation_calls_def intro: exI [of _ "[]"])
  from assms show ?thesis
  proof (cases rule: concluded.cases)
    case (success err)
    then show ?thesis using none quiet_finish [OF success(3)] by (intro exI [of _ "[]"] exI [of _ es]) simp
  next
    case (retry e ok)
    then show ?thesis using none by (intro exI [of _ "[]"] exI [of _ es]) (simp add: action_call_def)
  next
    case (failure e es1 esc err es2)
    then show ?thesis using quiet_finish [OF failure(7)] by blast
  qed
qed

lemma dry_run_record_never_acts:
  assumes "fst (KubeGet (RClient r) ns n (World s)) = Inr rem" and "DryRun (Spec rem)" and "status_echo (RClient r)"
  shows "\<exists>es1 es2 es3. Trace (snd (Reconcile r c ns n s)) = Trace s @ es1 @ es2 @ es3
    \<and> no_execution es1 \<and> escalation_calls es2 \<and> quiet es3"
proof (cases "may_run rem")
  case False
  from only_the_escalation_without_leave_lemma [OF assms(1) this] show ?thesis by (metis append_Nil no_execution_simps(1))
next
  case True
  obtain es where T: "Trace (snd (Reconcile r c ns n s)) = Trace s @ es"
    and P: "pass r c rem (fst (Reconcile r c ns n s)) (History s) (History (snd (Reconcile r c ns n s))) es"
    using pass_of_Reconcile [OF assms(1)] by blast
  have none: "escalation_calls []" by (auto simp: escalation_calls_def intro: exI [of _ "[]"])
  from P have "\<exists>es1 es2 es3. es = es1 @ es2 @ es3 \<and> no_execution es1 \<and> escalation_calls es2 \<and> quiet es3"
  proof (cases rule: pass.cases)
    case (unmarked ev t)
    then show ?thesis using none no_execution_quiet quiet_events(1)
      by (intro exI [of _ es] exI [of _ "[]"]) simp
  next
    case (ran ev t w rem1 w' res es1 es2)
    have "same_record rem1 (running_record rem t)" using ran(4) assms(3) by (auto simp: status_echo_def)
    then have "DryRun (Spec rem1)" using assms(2) by (simp add: same_record_def running_record_def)
    then have "no_execution es1" using run_shape_calls [OF ran(5)] by (simp add: no_execution_plans)
    moreover obtain f1 f2 where "es2 = f1 @ f2" "escalation_calls f1" "quiet f2" using concluded_calls [OF ran(7)] by blast
    moreover have "no_execution ev" using ran(3) quiet_events(1) no_execution_quiet by blast
    ultimately show ?thesis using ran(1)
      by (intro exI [of _ "ev @ StatusWrite (running_record rem t) True # es1"] exI [of _ f1] exI [of _ f2]) simp
  qed (use True in \<open>auto simp: may_run_def open_record_def undecided_def\<close>)
  then show ?thesis using T by auto
qed


definition ex_paused_record :: remediation where
  "ex_paused_record = ex_new\<lparr>Spec := Spec (new_record (ex_sink None) ex_alert ex_strategy ex_target True)\<rparr>"


text \<open>A give-up record remediates nothing. When the reconciler takes up a stored record with the
  specification and the labels of a give-up record, it calls no action but those of its
  escalation, writes it Failed with the reason GaveUp, and does not count it as a completion: the
  guards' history is unchanged.\<close>

theorem give_up_records_only_escalate:
  assumes "fst (KubeGet (RClient r) ns n (World s)) = Inr rem" and "open_record rem"
    and "Labels (Meta rem) = Labels (Meta (give_up_record sk a st t d))"
  shows "\<exists>es1 es2 rem' ok. Trace (snd (Reconcile r c ns n s)) = Trace s @ es1 @ StatusWrite rem' ok # es2
    \<and> escalation_calls es1 \<and> quiet es2 \<and> rem_state rem' = RemediationStateFailed \<and> Reason (Status rem') = ReasonGaveUp
    \<and> History (snd (Reconcile r c ns n s)) = History s"
proof -
  have gu: "gave_up rem" using assms(3) by (simp add: gave_up_def give_up_record_def map_get_def label_defs)
  obtain es where T: "Trace (snd (Reconcile r c ns n s)) = Trace s @ es"
    and P: "pass r c rem (fst (Reconcile r c ns n s)) (History s) (History (snd (Reconcile r c ns n s))) es"
    using pass_of_Reconcile [OF assms(1)] by blast
  from P show ?thesis
  proof (cases rule: pass.cases)
    case (gives_up es1 esc err es2)
    obtain rem' rest where "es2 = StatusWrite rem' (err = None) # rest" "quiet rest"
      "finished_as (with_escalation rem esc) RemediationStateFailed ReasonGaveUp (gave_up_message rem) rem'"
      using finish_head [OF gives_up(6)] by blast
    moreover have "History (snd (Reconcile r c ns n s)) = History s"
      using gives_up(6) by (auto simp: finish_effects_def split: if_splits)
    ultimately show ?thesis using gives_up(2,5) T
      by (intro exI [of _ es1] exI [of _ rest] exI [of _ rem'] exI [of _ "err = None"]) (auto simp: finished_as_def)
  qed (use assms(2) gu in \<open>auto simp: may_run_def open_record_def\<close>)
qed

definition ex_give_up :: remediation where
  "ex_give_up = (let g = give_up_record (ex_sink None) ex_alert ex_strategy ex_target (refused GuardGiveUp ''no use'' 0)
     in g\<lparr>Meta := (Meta g)\<lparr>Name := ''restart-gaveup-1''\<rparr>\<rparr>)"

theorem give_up_records_only_escalate_witness:
  "\<exists>es1 es2 rem' ok. Trace (snd (Reconcile ex_reconciler [] ''remedik'' ''r1'' (ex_state ex_give_up))) = es1 @ StatusWrite rem' ok # es2
    \<and> Reason (Status rem') = ReasonGaveUp"
proof -
  have "open_record ex_give_up"
    "Labels (Meta ex_give_up) = Labels (Meta (give_up_record (ex_sink None) ex_alert ex_strategy ex_target (refused GuardGiveUp ''no use'' 0)))"
    by (simp_all add: ex_give_up_def Let_def open_record_def give_up_record_def zero_status_def)
  from give_up_records_only_escalate [OF ex_read this, of "[]" "''remedik''" "''r1''"] show ?thesis by auto
qed

text \<open>A delivery makes no more records than it has firing alerts. A request served by a gateway
  whose sink is the engine's creates at most one record per firing alert of its body, and none at
  all when the answer is not 200.\<close>

theorem a_delivery_is_bounded:
  assumes "HSink h = Consume sk"
  shows "length (creates (Trace (snd (snd (ServeHTTP decode h r s))))) \<le> length (creates (Trace s))
    + (if StatusCode (fst (ServeHTTP decode h r s)) = 200
       then (case ParseWebhook (decode (HMaxBodyBytes h) (HttpBody r)) of Inl e \<Rightarrow> 0 | Inr p \<Rightarrow> length (filter IsFiring (Alerts p)))
       else 0)"
proof -
  obtain resp ms s' where v: "ServeHTTP decode h r s = (resp, ms, s')" by (metis prod_cases3)
  from snk.serve_made [OF assms v] v show ?thesis by (auto split: if_splits)
qed

definition ex_handler :: "remediation st handler" where
  "ex_handler = \<lparr>HSink = Consume (ex_sink None), HPath = DefaultPath, HToken = '''', HMaxBodyBytes = 100, HAccepting = None\<rparr>"

theorem a_delivery_is_bounded_witness:
  "length (creates (Trace (snd (snd (ServeHTTP (\<lambda>_ _. Inr ex_payload) ex_handler
      \<lparr>UrlPath = DefaultPath, HttpMethod = ''POST'', Authorization = '''', HttpBody = ()\<rparr> (ex_state ex_new)))))) \<le> 1"
proof -
  have h: "HSink ex_handler = Consume (ex_sink None)" by (simp add: ex_handler_def)
  have len: "length (filter IsFiring as) \<le> 1" if "normalize_all 0 (PayloadAlerts ex_payload) = Inr as" for as
    using normalize_all_nth [OF that] length_filter_le [of IsFiring as] by (simp add: ex_payload_def)
  have one: "(if b then (case ParseWebhook (Inr ex_payload) of Inl e \<Rightarrow> 0 | Inr p \<Rightarrow> length (filter IsFiring (Alerts p))) else 0) \<le> 1" for b
    using len by (auto simp: ParseWebhook_def split: sum.splits)
  have none: "length (creates (Trace (ex_state ex_new))) = 0" by simp
  note bound = a_delivery_is_bounded [OF h, of "\<lambda>_ _. Inr ex_payload"
    "\<lparr>UrlPath = DefaultPath, HttpMethod = ''POST'', Authorization = '''', HttpBody = ()\<rparr>" "ex_state ex_new"]
  show ?thesis by (rule order_trans [OF bound]) (simp only: none add_0 one)
qed

end
